(* ===== verification/Prelude.thy ===== *)
theory Prelude
  imports Main "HOL-Library.Word" "HOL-Library.AList"
begin

text \<open>
  Shared material of the development: machine integers and identifiers, the outcome of
  fallible code, and the generic lemmas the component theories rely on.

  \<^item> Rust's unsigned integers are words of their width. \<open>U256\<close> and \<open>H256\<close> are 256-bit
    words (a hash is read as the big-endian number its bytes spell, so that
    \<open>h256_to_u256\<close> and \<open>u256_to_h256\<close> are the identity), \<open>H160\<close> is a 160-bit word.
  \<^item> A fallible operation returns \<open>Inl (Err e)\<close> where the Rust code returns \<open>Err\<close>,
    \<open>Inl (Panic m)\<close> where it panics (\<open>panic!\<close>, \<open>unwrap\<close>, \<open>expect\<close>, an overflowing
    conversion) and \<open>Inr x\<close> where it returns normally.
  \<^item> Plain \<open>u64\<close> arithmetic wraps, as it does under the repository's release profile
    (Cargo.toml sets no \<open>overflow-checks\<close>).
\<close>

section \<open>Machine integers and identifiers\<close>

type_synonym u8 = "8 word"
type_synonym u16 = "16 word"
type_synonym u32 = "32 word"
type_synonym u64 = "64 word"
type_synonym u128 = "128 word"
type_synonym u256 = "256 word"
type_synonym h256 = "256 word"
type_synonym address = "160 word"
type_synonym bytes = "8 word list"

definition u64_MAX :: u64 where
  "u64_MAX = - 1"

definition saturating_add :: "'a::len word \<Rightarrow> 'a word \<Rightarrow> 'a word" where
  "saturating_add a b = (if unat a + unat b < 2 ^ LENGTH('a) then a + b else - 1)"

definition saturating_sub :: "'a::len word \<Rightarrow> 'a word \<Rightarrow> 'a word" where
  "saturating_sub a b = (if b \<le> a then a - b else 0)"

definition checked_add :: "'a::len word \<Rightarrow> 'a word \<Rightarrow> 'a word option" where
  "checked_add a b = (if unat a + unat b < 2 ^ LENGTH('a) then Some (a + b) else None)"

definition checked_mul :: "'a::len word \<Rightarrow> 'a word \<Rightarrow> 'a word option" where
  "checked_mul a b = (if unat a * unat b < 2 ^ LENGTH('a) then Some (a * b) else None)"

definition overflowing_add :: "'a::len word \<Rightarrow> 'a word \<Rightarrow> 'a word \<times> bool" where
  "overflowing_add a b = (a + b, \<not> unat a + unat b < 2 ^ LENGTH('a))"

section \<open>Outcomes of fallible code\<close>

datatype 'e failure = Err 'e | Panic string

type_synonym ('e, 'a) outcome = "'e failure + 'a"

fun and_then :: "'e + 'a \<Rightarrow> ('a \<Rightarrow> 'e + 'b) \<Rightarrow> 'e + 'b" where
  "and_then (Inl e) f = Inl e"
| "and_then (Inr a) f = f a"

fun is_ok :: "'e + 'a \<Rightarrow> bool" where
  "is_ok (Inl e) = False"
| "is_ok (Inr a) = True"

text \<open>\<open>Option::expect\<close> and \<open>Option::unwrap\<close>; \<open>Option::ok_or\<close>.\<close>

fun expect :: "string \<Rightarrow> 'a option \<Rightarrow> ('e, 'a) outcome" where
  "expect m None = Inl (Panic m)"
| "expect m (Some a) = Inr a"

fun ok_or :: "'e \<Rightarrow> 'a option \<Rightarrow> ('e, 'a) outcome" where
  "ok_or e None = Inl (Err e)"
| "ok_or e (Some a) = Inr a"

text \<open>\<open>U64::as_u32\<close> of the \<open>uint\<close> crate: the low word, and a panic when it does not fit.\<close>

definition as_u32 :: "u64 \<Rightarrow> ('e, u32) outcome" where
  "as_u32 n = (if unat n < 2 ^ 32 then Inr (ucast n)
    else Inl (Panic ''Integer overflow when casting to u32''))"

definition as_u64 :: "u256 \<Rightarrow> ('e, u64) outcome" where
  "as_u64 n = (if unat n < 2 ^ 64 then Inr (ucast n)
    else Inl (Panic ''Integer overflow when casting to u64''))"

section \<open>Shared simplification sets and lemmas\<close>

named_theorems word_arith \<open>readings of the checked and saturating word operations\<close>
named_theorems inv_intros \<open>preservation of component invariants\<close>

lemma and_then_Inr_iff [simp]:
  "and_then r f = Inr b \<longleftrightarrow> (\<exists>a. r = Inr a \<and> f a = Inr b)"
  by (cases r) auto

lemma and_then_Inl_iff:
  "and_then r f = Inl e \<longleftrightarrow> r = Inl e \<or> (\<exists>a. r = Inr a \<and> f a = Inl e)"
  by (cases r) auto

lemma is_ok_iff: "is_ok r \<longleftrightarrow> (\<exists>a. r = Inr a)"
  by (cases r) auto

lemma expect_Inr_iff [simp]: "expect m x = Inr a \<longleftrightarrow> x = Some a"
  by (cases x) auto

lemma ok_or_Inr_iff [simp]: "ok_or e x = Inr a \<longleftrightarrow> x = Some a"
  by (cases x) auto

lemma ok_or_Inl_iff [simp]: "ok_or e x = Inl f \<longleftrightarrow> x = None \<and> f = Err e"
  by (cases x) auto

lemma unat_max_word [simp]: "unat (- 1 :: 'a::len word) = 2 ^ LENGTH('a) - 1"
  by (simp add: unsigned_minus_1_eq_mask mask_eq_exp_minus_1)

lemma unat_less_exp: "unat (a::'a::len word) < 2 ^ LENGTH('a)"
  by (rule unsigned_less)

lemma unat_bounds:
  "unat (a::u64) < 18446744073709551616" "unat (b::u32) < 4294967296"
  using unat_less_exp [of a] unat_less_exp [of b] by simp_all

lemma eq_max_word_iff: "(a::'a::len word) = - 1 \<longleftrightarrow> unat a = 2 ^ LENGTH('a) - 1"
  by (metis unat_max_word unsigned_word_eqI)

lemma unat_le_max: "unat (a::'a::len word) \<le> 2 ^ LENGTH('a) - Suc 0"
  using unat_less_exp [of a] by linarith

lemma unat_saturating_add [word_arith]:
  "unat (saturating_add (a::'a::len word) b) = min (unat a + unat b) (2 ^ LENGTH('a) - 1)"
proof (cases "unat a + unat b < 2 ^ LENGTH('a)")
  case True
  then show ?thesis
    by (simp add: saturating_add_def unat_word_ariths)
next
  case False
  then show ?thesis
    by (simp add: saturating_add_def)
qed

lemma saturating_add_ge: "a \<le> saturating_add a b"
  by (simp add: word_le_nat_alt unat_saturating_add unat_le_max)

lemma saturating_add_gt:
  fixes a b :: "'a::len word"
  assumes "a \<noteq> - 1" and "b \<noteq> 0"
  shows "a < saturating_add a b"
proof -
  have "unat a \<noteq> 2 ^ LENGTH('a) - 1"
    using assms(1) by (simp add: eq_max_word_iff)
  moreover note unat_less_exp [of a]
  ultimately have "unat a < 2 ^ LENGTH('a) - 1" by linarith
  moreover have "0 < unat b" using assms(2) by (simp add: unat_gt_0)
  ultimately show ?thesis
    by (simp add: word_less_nat_alt word_arith)
qed

lemma unat_checked_add [word_arith]:
  "checked_add a b = Some c \<Longrightarrow> unat c = unat a + unat b"
  by (auto simp: checked_add_def unat_word_ariths split: if_splits)

lemma checked_add_1_gt:
  "checked_add (a::'a::len word) 1 = Some c \<Longrightarrow> a < c"
  by (simp add: word_less_nat_alt word_arith)

lemma checked_add_1_None_iff:
  "checked_add (a::'a::len word) 1 = None \<longleftrightarrow> a = - 1"
proof -
  have "\<not> unat a + 1 < 2 ^ LENGTH('a) \<longleftrightarrow> unat a = 2 ^ LENGTH('a) - 1"
    using unat_less_exp [of a] by linarith
  then show ?thesis
    by (auto simp: checked_add_def eq_max_word_iff)
qed

lemma overflowing_add_exact:
  "overflowing_add a b = (c, False) \<Longrightarrow> unat c = unat a + unat b"
  by (auto simp: overflowing_add_def unat_word_ariths)

lemma as_u32_Inr_iff: "as_u32 n = Inr m \<longleftrightarrow> unat n < 2 ^ 32 \<and> m = ucast n"
  by (auto simp: as_u32_def)

lemma unat_ucast_u32 [simp]: "unat (ucast (m::u32) :: u64) = unat m"
proof -
  have "unat m < 2 ^ 32" using unat_less_exp [of m] by simp
  then show ?thesis by (simp add: unsigned_ucast_eq take_bit_nat_eq_self)
qed

lemma as_u32_ucast [simp]: "as_u32 (ucast (m::u32)) = Inr m"
proof -
  have "unat m < 2 ^ 32" using unat_less_exp [of m] by simp
  moreover have "ucast (ucast m :: u64) = m"
    by (rule unsigned_word_eqI) (simp add: unsigned_ucast_eq take_bit_word_eq_self)
  ultimately show ?thesis by (simp add: as_u32_def)
qed

lemma unat_ucast_fits:
  "unat (a::'a::len word) < 2 ^ LENGTH('b) \<Longrightarrow> unat (ucast a :: 'b::len word) = unat a"
  by (simp add: unsigned_ucast_eq take_bit_nat_eq_self)

lemma unat_eqI: "unat (a::'a::len word) = unat b \<Longrightarrow> a = b"
  by (rule unsigned_word_eqI)

lemma ucast_fits_inj:
  assumes "(ucast (a::'a::len word) :: 'b::len word) = ucast b"
    and "unat a < 2 ^ LENGTH('b)" and "unat b < 2 ^ LENGTH('b)"
  shows "a = b"
proof (rule unat_eqI)
  show "unat a = unat b"
    using arg_cong [OF assms(1), of unat] assms(2,3) by (simp only: unat_ucast_fits)
qed

lemma map_of_snoc:
  assumes "k \<notin> fst ` set xs"
  shows "map_of (xs @ [(k, v)]) = (map_of xs)(k \<mapsto> v)"
proof -
  have "map_of xs k = None" using assms by (simp add: map_of_eq_None_iff)
  then show ?thesis by (auto simp: map_add_def fun_eq_iff split: option.split)
qed

end
