(* ===== verification/Chain_Types.thy ===== *)
theory Chain_Types
  imports Prelude
begin

text \<open>
  The data of \<open>zksync_types\<close>, \<open>zksync_types::api\<close> and \<open>zksync_multivm::interface\<close> that the
  node's code reads or writes. The crates themselves are not part of the repository, so
  nothing is defined here but records of the fields and accessor results that the repository
  uses: a \<open>transaction\<close> carries the value of \<open>hash()\<close>, \<open>initiator_account()\<close> and the like
  as fields, beside the common data that the node matches on.
\<close>

section \<open>Transactions\<close>

record fee =
  fee_gas_limit :: u256
  fee_max_fee_per_gas :: u256
  fee_max_priority_fee_per_gas :: u256
  fee_gas_per_pubdata_limit :: u256

datatype transaction_type =
    LegacyTransaction
  | EIP2930Transaction
  | EIP1559Transaction
  | EIP712Transaction
  | PriorityOpTransaction
  | ProtocolUpgradeTransaction

record l1_tx_common_data =
  l1_gas_limit :: u256
  l1_max_fee_per_gas :: u256
  l1_to_mint :: u256
  l1_onchain_data :: bytes

record l2_tx_common_data =
  l2_nonce :: u32
  l2_fee :: fee
  l2_signature :: bytes
  l2_transaction_type :: transaction_type
  l2_input :: "bytes option"
  l2_chain_id :: "u64 option"
  l2_paymaster :: address
  l2_paymaster_input :: bytes

datatype execute_transaction_common =
    L1 l1_tx_common_data
  | L2 l2_tx_common_data
  | ProtocolUpgrade

record transaction =
  tx_common_data :: execute_transaction_common
  tx_hash :: h256
  tx_initiator_account :: address
  tx_recipient_account :: "address option"
  tx_payer :: address
  tx_max_fee_per_gas :: u256
  tx_gas_limit :: u256
  tx_gas_per_pubdata_byte_limit :: u256
  tx_format :: u8
  tx_encoding_len :: nat
  tx_value :: u256
  tx_calldata :: bytes
  tx_factory_deps :: "bytes list"
  tx_received_timestamp_ms :: u64
  tx_raw_bytes :: "bytes option"

section \<open>Block references\<close>

datatype block_number =
    Finalized | Pending | Committed | L1Committed | Latest | Earliest | Number u64

datatype block_id = BlockHash h256 | BlockNumber block_number

datatype block_id_variant =
    VariantNumber block_number
  | VariantNumberObject block_number
  | VariantHashObject h256

section \<open>Logs, receipts, debug calls\<close>

record log =
  log_address :: address
  log_topics :: "h256 list"
  log_data :: bytes
  log_block_hash :: "h256 option"
  log_block_number :: "u64 option"
  log_l1_batch_number :: "u64 option"
  log_transaction_hash :: "h256 option"
  log_transaction_index :: "u64 option"
  log_log_index :: "u256 option"
  log_transaction_log_index :: "u256 option"
  log_removed :: "bool option"
  log_block_timestamp :: "u64 option"

record l2_to_l1_log =
  l2l1_block_hash :: "h256 option"
  l2l1_block_number :: u64
  l2l1_l1_batch_number :: "u64 option"
  l2l1_log_index :: u256
  l2l1_transaction_index :: u64
  l2l1_transaction_hash :: h256
  l2l1_transaction_log_index :: u256
  l2l1_tx_index_in_l1_batch :: "u64 option"
  l2l1_shard_id :: u64
  l2l1_is_service :: bool
  l2l1_sender :: address
  l2l1_key :: h256
  l2l1_value :: h256

record transaction_receipt =
  rcpt_transaction_hash :: h256
  rcpt_transaction_index :: u64
  rcpt_block_hash :: h256
  rcpt_block_number :: u64
  rcpt_l1_batch_tx_index :: "u64 option"
  rcpt_l1_batch_number :: "u64 option"
  rcpt_from :: address
  rcpt_to :: "address option"
  rcpt_cumulative_gas_used :: u256
  rcpt_gas_used :: "u256 option"
  rcpt_contract_address :: "address option"
  rcpt_logs :: "log list"
  rcpt_l2_to_l1_logs :: "l2_to_l1_log list"
  rcpt_status :: u64
  rcpt_effective_gas_price :: "u256 option"
  rcpt_transaction_type :: "u64 option"

datatype debug_call_type = DebugCallTypeCall | DebugCallTypeCreate

datatype debug_call = DebugCall
  (dc_type: debug_call_type)
  (dc_from: address)
  (dc_to: address)
  (dc_gas: u256)
  (dc_gas_used: u256)
  (dc_value: u256)
  (dc_output: bytes)
  (dc_input: bytes)
  (dc_error: "string option")
  (dc_revert_reason: "string option")
  (dc_calls: "debug_call list")

section \<open>API transactions and blocks\<close>

record api_transaction =
  atx_hash :: h256
  atx_nonce :: u256
  atx_block_hash :: "h256 option"
  atx_block_number :: "u64 option"
  atx_transaction_index :: "u64 option"
  atx_from :: "address option"
  atx_to :: "address option"
  atx_value :: u256
  atx_gas_price :: "u256 option"
  atx_gas :: u256
  atx_input :: bytes
  atx_v :: "u64 option"
  atx_r :: "u256 option"
  atx_s :: "u256 option"
  atx_y_parity :: "u64 option"
  atx_raw :: "bytes option"
  atx_transaction_type :: "u64 option"
  atx_max_fee_per_gas :: "u256 option"
  atx_max_priority_fee_per_gas :: "u256 option"
  atx_chain_id :: u256
  atx_l1_batch_number :: "u64 option"
  atx_l1_batch_tx_index :: "u64 option"

datatype transaction_variant = Full api_transaction | Hash h256

text \<open>The fields of \<open>api::Block\<close> that \<open>create_block\<close> does not fix to a constant, with the
  transactions generic as in the source.\<close>

record 'tx block =
  blk_hash :: h256
  blk_parent_hash :: h256
  blk_number :: u64
  blk_l1_batch_number :: "u64 option"
  blk_base_fee_per_gas :: u256
  blk_timestamp :: u256
  blk_l1_batch_timestamp :: "u256 option"
  blk_transactions :: "'tx list"
  blk_gas_used :: u256
  blk_gas_limit :: u256
  blk_logs_bloom :: bytes

type_synonym api_block = "transaction_variant block"

section \<open>Storage keys\<close>

record storage_key =
  sk_address :: address
  sk_key :: h256

type_synonym storage_value = h256

section \<open>Fee inputs\<close>

record pubdata_independent_fee_input =
  fi_l1_gas_price :: u64
  fi_fair_l2_gas_price :: u64
  fi_fair_pubdata_price :: u64

section \<open>A transaction for concrete runs\<close>

definition sample_tx :: "h256 \<Rightarrow> address \<Rightarrow> u256 \<Rightarrow> transaction" where
  "sample_tx h sender max_fee =
     \<lparr>tx_common_data = L2 \<lparr>l2_nonce = 0, l2_fee = \<lparr>fee_gas_limit = 1000000, fee_max_fee_per_gas = max_fee,
        fee_max_priority_fee_per_gas = 0, fee_gas_per_pubdata_limit = 50000\<rparr>, l2_signature = [],
        l2_transaction_type = EIP1559Transaction, l2_input = None, l2_chain_id = Some 260,
        l2_paymaster = 0, l2_paymaster_input = []\<rparr>,
      tx_hash = h, tx_initiator_account = sender, tx_recipient_account = None, tx_payer = sender,
      tx_max_fee_per_gas = max_fee, tx_gas_limit = 1000000, tx_gas_per_pubdata_byte_limit = 50000,
      tx_format = 2, tx_encoding_len = 100, tx_value = 0, tx_calldata = [], tx_factory_deps = [],
      tx_received_timestamp_ms = 0, tx_raw_bytes = None\<rparr>"

lemma sample_tx_simps [simp]:
  "tx_hash (sample_tx h a f) = h"
  "tx_initiator_account (sample_tx h a f) = a"
  "tx_max_fee_per_gas (sample_tx h a f) = f"
  by (simp_all add: sample_tx_def)

end
