(* ===== verification/Fee_Model.thy ===== *)
theory Fee_Model
  imports Chain_Types
begin

text \<open>
  The fee input provider: \<open>crates/core/src/node/fee_model.rs\<close>, with the default prices of
  \<open>crates/config/src/constants.rs\<close>.

  \<open>FeeParamsV2\<close>, the scaling of fee parameters and the derivation of the base fee belong to
  the zksync crates. They are the fields of \<open>fee_api\<close>, an argument of every definition that
  calls them; \<open>'f\<close> is the type of floating-point numbers and \<open>'p\<close> that of \<open>FeeParamsV2\<close>.
\<close>

section \<open>Constants and parameters\<close>

definition DEFAULT_L1_GAS_PRICE :: u64 where "DEFAULT_L1_GAS_PRICE = 35932364075"
definition DEFAULT_L2_GAS_PRICE :: u64 where "DEFAULT_L2_GAS_PRICE = 45250000"
definition DEFAULT_FAIR_PUBDATA_PRICE :: u64 where "DEFAULT_FAIR_PUBDATA_PRICE = 13607659111"

datatype batch_fee_input =
    L1Pegged u64 u64
  | PubdataIndependent pubdata_independent_fee_input

record 'f fee_model_config =
  minimal_l2_gas_price :: u64
  compute_overhead_part :: 'f
  pubdata_overhead_part :: 'f
  batch_overhead_l1_gas :: u64
  max_gas_per_batch :: u64
  max_pubdata_per_batch :: u64

record base_token_ratio =
  ratio_numerator :: u64
  ratio_denominator :: u64

text \<open>\<open>FeeParams::V1\<close> carries parameters the node does not support.\<close>

datatype 'p fee_params = FeeParamsV1 | FeeParamsV2 'p

record ('f, 'p) fee_api =
  f_zero :: 'f
  f_one :: 'f
  f_gas_price_scale_default :: 'f
  f_gas_scale_default :: 'f
  f_eq :: "'f \<Rightarrow> 'f \<Rightarrow> bool"
  params_new :: "'f fee_model_config \<Rightarrow> u64 \<Rightarrow> u64 \<Rightarrow> base_token_ratio \<Rightarrow> 'p"
  params_config :: "'p \<Rightarrow> 'f fee_model_config"
  params_l1_gas_price :: "'p \<Rightarrow> u64"
  params_l1_pubdata_price :: "'p \<Rightarrow> u64"
  params_scale :: "'p \<Rightarrow> 'f \<Rightarrow> 'f \<Rightarrow> batch_fee_input"
  into_pubdata_independent :: "batch_fee_input \<Rightarrow> pubdata_independent_fee_input"
  derive_base_fee_and_gas_per_pubdata :: "batch_fee_input \<Rightarrow> u64 \<times> u64"

section \<open>The provider\<close>

record ('f, 'p) fee_input_provider =
  estimate_gas_price_scale_factor :: 'f
  estimate_gas_scale_factor :: 'f
  fee_params_v2 :: 'p
  forced_base_fee :: "u64 option"

definition eq_config :: "('f, 'p) fee_api \<Rightarrow> 'f fee_model_config \<Rightarrow> 'f fee_model_config \<Rightarrow> bool" where
  "eq_config api a b \<longleftrightarrow> minimal_l2_gas_price a = minimal_l2_gas_price b
     \<and> f_eq api (compute_overhead_part a) (compute_overhead_part b)
     \<and> f_eq api (pubdata_overhead_part a) (pubdata_overhead_part b)
     \<and> batch_overhead_l1_gas a = batch_overhead_l1_gas b
     \<and> max_gas_per_batch a = max_gas_per_batch b
     \<and> max_pubdata_per_batch a = max_pubdata_per_batch b"

definition provider_eq ::
  "('f, 'p) fee_api \<Rightarrow> ('f, 'p) fee_input_provider \<Rightarrow> ('f, 'p) fee_input_provider \<Rightarrow> bool" where
  "provider_eq api a b \<longleftrightarrow>
     f_eq api (estimate_gas_price_scale_factor a) (estimate_gas_price_scale_factor b)
     \<and> f_eq api (estimate_gas_scale_factor a) (estimate_gas_scale_factor b)
     \<and> params_l1_gas_price api (fee_params_v2 a) = params_l1_gas_price api (fee_params_v2 b)
     \<and> params_l1_pubdata_price api (fee_params_v2 a) = params_l1_pubdata_price api (fee_params_v2 b)
     \<and> eq_config api (params_config api (fee_params_v2 a)) (params_config api (fee_params_v2 b))"

definition from_fee_params_and_estimate_scale_factors ::
  "'p fee_params \<Rightarrow> 'f \<Rightarrow> 'f \<Rightarrow> (string, ('f, 'p) fee_input_provider) outcome" where
  "from_fee_params_and_estimate_scale_factors fee_params price_scale gas_scale =
     (case fee_params of
        FeeParamsV1 \<Rightarrow> Inl (Panic ''not yet implemented'')
      | FeeParamsV2 p \<Rightarrow> Inr \<lparr>estimate_gas_price_scale_factor = price_scale,
          estimate_gas_scale_factor = gas_scale, fee_params_v2 = p, forced_base_fee = None\<rparr>)"

text \<open>A default price in units of the base token, computed in \<open>u128\<close>.\<close>

definition scale_default_price :: "string \<Rightarrow> u64 \<Rightarrow> base_token_ratio \<Rightarrow> ('e, u64) outcome" where
  "scale_default_price msg price ratio =
     (let x = (ucast price :: u128) * ucast (ratio_denominator ratio) div ucast (ratio_numerator ratio)
      in if unat x < 2 ^ 64 then Inr (ucast x) else Inl (Panic msg))"

definition default_fee_model_config :: "('f, 'p) fee_api \<Rightarrow> 'f fee_model_config" where
  "default_fee_model_config api = \<lparr>minimal_l2_gas_price = DEFAULT_L2_GAS_PRICE,
     compute_overhead_part = f_zero api, pubdata_overhead_part = f_one api,
     batch_overhead_l1_gas = 800000, max_gas_per_batch = 200000000,
     max_pubdata_per_batch = 500000\<rparr>"

definition from_fork ::
  "('f, 'p) fee_api \<Rightarrow> ('p fee_params \<times> 'f \<times> 'f) option \<Rightarrow> base_token_ratio
     \<Rightarrow> (string, ('f, 'p) fee_input_provider) outcome" where
  "from_fork api fork ratio = (case fork of
       Some (fee_params, price_scale, gas_scale) \<Rightarrow>
         from_fee_params_and_estimate_scale_factors fee_params price_scale gas_scale
     | None \<Rightarrow>
         and_then (scale_default_price ''L1 gas price exceeded 2^64; base token ratio is too large''
             DEFAULT_L1_GAS_PRICE ratio) (\<lambda>l1_gas_price.
         and_then (scale_default_price ''pubdata gas price exceeded 2^64; base token ratio is too large''
             DEFAULT_FAIR_PUBDATA_PRICE ratio) (\<lambda>fair_pubdata_price.
         Inr \<lparr>estimate_gas_price_scale_factor = f_gas_price_scale_default api,
           estimate_gas_scale_factor = f_gas_scale_default api,
           fee_params_v2 = params_new api (default_fee_model_config api) l1_gas_price
             fair_pubdata_price ratio,
           forced_base_fee = None\<rparr>)))"

definition provider_default :: "('f, 'p) fee_api \<Rightarrow> ('f, 'p) fee_input_provider" where
  "provider_default api = \<lparr>estimate_gas_price_scale_factor = f_gas_price_scale_default api,
     estimate_gas_scale_factor = f_gas_scale_default api,
     fee_params_v2 = params_new api (default_fee_model_config api) DEFAULT_L1_GAS_PRICE
       DEFAULT_FAIR_PUBDATA_PRICE \<lparr>ratio_numerator = 1, ratio_denominator = 1\<rparr>,
     forced_base_fee = None\<rparr>"

definition from_estimate_scale_factors ::
  "('f, 'p) fee_api \<Rightarrow> 'f \<Rightarrow> 'f \<Rightarrow> ('f, 'p) fee_input_provider" where
  "from_estimate_scale_factors api price_scale gas_scale =
     (provider_default api)\<lparr>estimate_gas_price_scale_factor := price_scale,
       estimate_gas_scale_factor := gas_scale\<rparr>"

definition get_fee_model_config ::
  "('f, 'p) fee_api \<Rightarrow> ('f, 'p) fee_input_provider \<Rightarrow> 'f fee_model_config" where
  "get_fee_model_config api s = params_config api (fee_params_v2 s)"

definition enforce_base_fee ::
  "('f, 'p) fee_api \<Rightarrow> ('f, 'p) fee_input_provider \<Rightarrow> batch_fee_input \<Rightarrow> batch_fee_input" where
  "enforce_base_fee api s fee_input = (case forced_base_fee s of
       Some base_fee \<Rightarrow> PubdataIndependent
         ((into_pubdata_independent api fee_input)\<lparr>fi_fair_l2_gas_price := base_fee\<rparr>)
     | None \<Rightarrow> fee_input)"

definition get_batch_fee_input ::
  "('f, 'p) fee_api \<Rightarrow> ('f, 'p) fee_input_provider \<Rightarrow> batch_fee_input" where
  "get_batch_fee_input api s =
     enforce_base_fee api s (params_scale api (fee_params_v2 s) (f_one api) (f_one api))"

definition get_batch_fee_input_scaled ::
  "('f, 'p) fee_api \<Rightarrow> ('f, 'p) fee_input_provider \<Rightarrow> batch_fee_input" where
  "get_batch_fee_input_scaled api s =
     (let scale_factor = estimate_gas_price_scale_factor s
      in enforce_base_fee api s (params_scale api (fee_params_v2 s) scale_factor scale_factor))"

definition gas_price :: "('f, 'p) fee_api \<Rightarrow> ('f, 'p) fee_input_provider \<Rightarrow> u64" where
  "gas_price api s = fst (derive_base_fee_and_gas_per_pubdata api (get_batch_fee_input_scaled api s))"

definition fair_pubdata_price :: "('f, 'p) fee_api \<Rightarrow> ('f, 'p) fee_input_provider \<Rightarrow> u64" where
  "fair_pubdata_price api s =
     fi_fair_pubdata_price (into_pubdata_independent api (get_batch_fee_input_scaled api s))"

definition set_base_fee :: "u64 \<Rightarrow> ('f, 'p) fee_input_provider \<Rightarrow> ('f, 'p) fee_input_provider" where
  "set_base_fee base_fee s = s\<lparr>forced_base_fee := Some base_fee\<rparr>"

section \<open>Properties\<close>

definition base_token_price :: "u64 \<Rightarrow> base_token_ratio \<Rightarrow> nat" where
  "base_token_price price r =
     unat price * unat (ratio_denominator r) div unat (ratio_numerator r)"

text \<open>Parameters for concrete runs: prices are kept as given and scaling multiplies them.\<close>

definition sample_fee_api :: "(nat, u64 \<times> u64) fee_api" where
  "sample_fee_api = \<lparr>f_zero = 0, f_one = 1, f_gas_price_scale_default = 2, f_gas_scale_default = 1,
     f_eq = (=), params_new = (\<lambda>c gas pubdata r. (gas, pubdata)),
     params_config = (\<lambda>p. \<lparr>minimal_l2_gas_price = 1, compute_overhead_part = 0,
       pubdata_overhead_part = 1, batch_overhead_l1_gas = 0, max_gas_per_batch = 0,
       max_pubdata_per_batch = 0\<rparr>),
     params_l1_gas_price = fst, params_l1_pubdata_price = snd,
     params_scale = (\<lambda>(gas, pubdata) x y. PubdataIndependent \<lparr>fi_l1_gas_price = gas * of_nat x,
       fi_fair_l2_gas_price = 7, fi_fair_pubdata_price = pubdata * of_nat y\<rparr>),
     into_pubdata_independent = (\<lambda>i. case i of PubdataIndependent r \<Rightarrow> r
       | L1Pegged a b \<Rightarrow> \<lparr>fi_l1_gas_price = a, fi_fair_l2_gas_price = b, fi_fair_pubdata_price = a * 17\<rparr>),
     derive_base_fee_and_gas_per_pubdata = (\<lambda>i. case i of
         PubdataIndependent r \<Rightarrow> (fi_fair_l2_gas_price r, fi_fair_pubdata_price r) | L1Pegged a b \<Rightarrow> (b, a))\<rparr>"

text \<open>The \<open>u128\<close> product of two \<open>u64\<close> values does not overflow.\<close>

lemma unat_u128_mul_div:
  "unat ((ucast (a::u64) :: u128) * ucast (b::u64) div ucast (c::u64)) = unat a * unat b div unat c"
proof -
  have up: "unat (ucast (w::u64) :: u128) = unat w" for w
    using unat_less_exp [of w] by (simp add: unsigned_ucast_eq take_bit_nat_eq_self)
  have "unat a * unat b < 2 ^ 64 * 2 ^ 64"
    using unat_less_exp [of a] unat_less_exp [of b] by (intro mult_strict_mono) simp_all
  then have "unat ((ucast a :: u128) * ucast b) = unat a * unat b"
    by (simp add: unat_mult_lem [THEN iffD1] up)
  then show ?thesis by (simp add: unat_div_distrib up)
qed

lemma scale_default_price_eq:
  "scale_default_price msg price ratio =
     (if base_token_price price ratio < 2 ^ 64 then Inr (of_nat (base_token_price price ratio))
      else Inl (Panic msg))"
proof -
  let ?x = "(ucast price :: u128) * ucast (ratio_denominator ratio) div ucast (ratio_numerator ratio)"
  have "(ucast ?x :: u64) = of_nat (unat ?x)" by simp
  then show ?thesis 
    by (simp add: scale_default_price_def Let_def unat_u128_mul_div base_token_price_def)
qed

text \<open>Without a fork the default prices are converted to the base token exactly, with no
  overflow of the intermediate product, and construction panics exactly when a converted
  price does not fit in 64 bits.\<close>

theorem from_fork_prices:
  "(is_ok (from_fork api None r) \<longleftrightarrow>
      base_token_price DEFAULT_L1_GAS_PRICE r < 2 ^ 64
      \<and> base_token_price DEFAULT_FAIR_PUBDATA_PRICE r < 2 ^ 64)
   \<and> (\<forall>s. from_fork api None r = Inr s \<longrightarrow>
        fee_params_v2 s = params_new api (default_fee_model_config api)
          (of_nat (base_token_price DEFAULT_L1_GAS_PRICE r))
          (of_nat (base_token_price DEFAULT_FAIR_PUBDATA_PRICE r)) r
        \<and> forced_base_fee s = None)"
  by (auto simp: from_fork_def scale_default_price_eq)

theorem from_fork_prices_witness:
  "\<exists>s. from_fork sample_fee_api None \<lparr>ratio_numerator = 2, ratio_denominator = 6\<rparr> = Inr s
     \<and> fee_params_v2 s = (107797092225, 40822977333)"
proof -
  let ?r = "from_fork sample_fee_api None \<lparr>ratio_numerator = 2, ratio_denominator = 6\<rparr>"
  note spec = from_fork_prices [of sample_fee_api "\<lparr>ratio_numerator = 2, ratio_denominator = 6\<rparr>"]
  have "is_ok ?r" using spec
    by (simp add: DEFAULT_L1_GAS_PRICE_def DEFAULT_FAIR_PUBDATA_PRICE_def base_token_price_def)
  then obtain s where "?r = Inr s" by (cases ?r) simp_all
  with spec show ?thesis
    by (simp add: DEFAULT_L1_GAS_PRICE_def DEFAULT_FAIR_PUBDATA_PRICE_def base_token_price_def
        sample_fee_api_def)
qed

text \<open>A forced base fee wins over every scaling. After \<open>set_base_fee\<close> both fee inputs carry it
  as their L2 gas price, keep the L1 gas price and the pubdata price the scaled parameters have,
  and a later call replaces the fee; the equality of providers does not see it.\<close>

theorem set_base_fee_enforced:
  "get_batch_fee_input api (set_base_fee b s) = PubdataIndependent
      ((into_pubdata_independent api (params_scale api (fee_params_v2 s) (f_one api) (f_one api)))
        \<lparr>fi_fair_l2_gas_price := b\<rparr>)
   \<and> get_batch_fee_input_scaled api (set_base_fee b s) = PubdataIndependent
      ((into_pubdata_independent api (params_scale api (fee_params_v2 s)
          (estimate_gas_price_scale_factor s) (estimate_gas_price_scale_factor s)))
        \<lparr>fi_fair_l2_gas_price := b\<rparr>)
   \<and> set_base_fee c (set_base_fee b s) = set_base_fee c s
   \<and> provider_eq api (set_base_fee b s) (set_base_fee c s) = provider_eq api s s"
  by (simp add: get_batch_fee_input_def get_batch_fee_input_scaled_def set_base_fee_def
      enforce_base_fee_def Let_def provider_eq_def eq_config_def)

end
