(* ===== verification/Vm_Types.thy ===== *)
theory Vm_Types
  imports Fee_Model
begin

text \<open>
  The data of \<open>zksync_multivm::interface\<close> and \<open>zksync_types::block\<close> that the node builds for the
  virtual machine or receives from it. The crates are not part of the repository: only the
  fields the repository reads or writes are here.
\<close>

type_synonym protocol_version = u16

section \<open>Environments\<close>

record l2_block_env =
  be_number :: u32
  be_timestamp :: u64
  be_prev_block_hash :: h256
  be_max_virtual_blocks_to_create :: u32

record l1_batch_env =
  env_previous_batch_hash :: "h256 option"
  env_number :: u32
  env_timestamp :: u64
  env_fee_input :: batch_fee_input
  env_fee_account :: address
  env_enforced_base_fee :: "u64 option"
  env_first_l2_block :: l2_block_env

record l2_block =
  l2b_number :: u32
  l2b_timestamp :: u64
  l2b_hash :: h256

record base_system_contracts_hashes =
  bsc_bootloader :: h256
  bsc_default_aa :: h256
  bsc_evm_emulator :: "h256 option"

definition base_system_contracts_hashes_default :: base_system_contracts_hashes where
  "base_system_contracts_hashes_default =
     \<lparr>bsc_bootloader = 0, bsc_default_aa = 0, bsc_evm_emulator = None\<rparr>"

section \<open>Results of a batch\<close>

record vm_event =
  ev_address :: address
  ev_indexed_topics :: "h256 list"
  ev_value :: bytes

record user_l2_to_l1_log =
  ul_shard_id :: u8
  ul_is_service :: bool
  ul_tx_number_in_block :: u16
  ul_sender :: address
  ul_key :: h256
  ul_value :: h256

record state_diff_record =
  sd_address :: address
  sd_key :: u256
  sd_initial_value :: u256
  sd_final_value :: u256

record finished_l1_batch =
  fb_events :: "vm_event list"
  fb_user_l2_to_l1_logs :: "user_l2_to_l1_log list"
  fb_system_logs :: "user_l2_to_l1_log list"
  fb_used_contract_hashes :: "u256 list"
  fb_pubdata_input :: "bytes option"
  fb_state_diffs :: "state_diff_record list option"

record l1_batch_header =
  hd_number :: u32
  hd_timestamp :: u64
  hd_l1_tx_count :: u16
  hd_l2_tx_count :: u16
  hd_priority_ops_onchain_data :: "bytes list"
  hd_l2_to_l1_logs :: "user_l2_to_l1_log list"
  hd_l2_to_l1_messages :: "bytes list"
  hd_used_contract_hashes :: "u256 list"
  hd_base_system_contracts_hashes :: base_system_contracts_hashes
  hd_system_logs :: "user_l2_to_l1_log list"
  hd_protocol_version :: "protocol_version option"
  hd_pubdata_input :: "bytes option"

text \<open>\<open>FinishedL1Batch::mock\<close> as far as the node looks at it.\<close>

definition finished_l1_batch_mock :: finished_l1_batch where
  "finished_l1_batch_mock = \<lparr>fb_events = [], fb_user_l2_to_l1_logs = [], fb_system_logs = [],
     fb_used_contract_hashes = [], fb_pubdata_input = Some [], fb_state_diffs = Some []\<rparr>"

section \<open>Functions of the zksync crates\<close>

text \<open>
  The functions of the zksync crates that the node's bookkeeping calls, gathered in a record
  that is an argument of the definitions. \<open>'h\<close> is the state of \<open>L2BlockHasher\<close>.
\<close>

record 'h chain_api =
  hasher_new :: "u32 \<Rightarrow> u64 \<Rightarrow> h256 \<Rightarrow> 'h"
  hasher_push_tx_hash :: "h256 \<Rightarrow> 'h \<Rightarrow> 'h"
  hasher_finalize :: "protocol_version \<Rightarrow> 'h \<Rightarrow> h256"
  legacy_hash :: "u32 \<Rightarrow> h256"
  get_batch_base_fee :: "l1_batch_env \<Rightarrow> u64"
  get_max_batch_gas_limit :: u64
  extract_long_l2_to_l1_messages :: "vm_event list \<Rightarrow> bytes list"
  unpack_block_info :: "u256 \<Rightarrow> u64 \<times> u64"
  load_last_l2_block :: "(storage_key \<Rightarrow> h256) \<Rightarrow> l2_block option"
  system_context_block_info_key :: storage_key

text \<open>An instance for concrete runs.\<close>

definition sample_chain_api :: "(h256 list) chain_api" where
  "sample_chain_api =
     \<lparr>hasher_new = (\<lambda>n t prev. [ucast n, ucast t, prev]),
      hasher_push_tx_hash = (\<lambda>h hs. hs @ [h]),
      hasher_finalize = (\<lambda>v hs. foldl (\<lambda>acc h. acc * 31 + h) 17 hs),
      legacy_hash = (\<lambda>n. ucast n + 1000),
      get_batch_base_fee = (\<lambda>env. 45250000),
      get_max_batch_gas_limit = 18446744073709551615,
      extract_long_l2_to_l1_messages = (\<lambda>evs. map ev_value evs),
      unpack_block_info = (\<lambda>i. (ucast (drop_bit 128 i), ucast i)),
      load_last_l2_block = (\<lambda>read. None),
      system_context_block_info_key = \<lparr>sk_address = 32779, sk_key = 268\<rparr>\<rparr>"

end
