(* ===== verification/Node_Time.thy ===== *)
theory Node_Time
  imports Prelude
begin

text \<open>
  The node's clock, \<open>crates/core/src/node/inner/time.rs\<close>. \<open>Time\<close> is a shared handle on one
  \<open>TimeState\<close> behind a lock; each method takes the lock once, so it is one function on the
  record \<open>time_state\<close>. Methods that mutate return the new state beside their result.
  The interface the block producer relies on is the locale \<open>clock\<close>.
\<close>

section \<open>State and operations\<close>

record time_state =
  current_timestamp :: u64
  next_timestamp :: "u64 option"
  interval :: "u64 option"

datatype time_error = TimestampBackwardsError u64 u64

definition time_new :: "u64 \<Rightarrow> time_state" where
  "time_new ts = \<lparr>current_timestamp = ts, next_timestamp = None, interval = None\<rparr>"

definition interval_or_default :: "time_state \<Rightarrow> u64" where
  "interval_or_default t = (case interval t of None \<Rightarrow> 1 | Some i \<Rightarrow> i)"

definition i128_saturating_sub :: "int \<Rightarrow> int \<Rightarrow> int" where
  "i128_saturating_sub a b = max (- (2 ^ 127)) (min (2 ^ 127 - 1) (a - b))"

definition set_current_timestamp_unchecked :: "u64 \<Rightarrow> time_state \<Rightarrow> int \<times> time_state" where
  "set_current_timestamp_unchecked ts t =
     (let diff = i128_saturating_sub (uint ts) (uint (current_timestamp t))
      in (diff, t\<lparr>next_timestamp := None, current_timestamp := ts\<rparr>))"

definition enforce_next_timestamp :: "u64 \<Rightarrow> time_state \<Rightarrow> (time_error, time_state) outcome" where
  "enforce_next_timestamp ts t =
     (if ts \<le> current_timestamp t
      then Inl (Err (TimestampBackwardsError ts (current_timestamp t)))
      else Inr (t\<lparr>next_timestamp := Some ts\<rparr>))"

definition increase_time :: "u64 \<Rightarrow> time_state \<Rightarrow> u64 \<times> time_state" where
  "increase_time seconds t =
     (let nxt = saturating_add (current_timestamp t) seconds
      in (nxt, t\<lparr>next_timestamp := None, current_timestamp := nxt\<rparr>))"

definition get_block_timestamp_interval :: "time_state \<Rightarrow> u64 option" where
  "get_block_timestamp_interval t = interval t"

definition set_block_timestamp_interval :: "u64 option \<Rightarrow> time_state \<Rightarrow> time_state" where
  "set_block_timestamp_interval seconds t = t\<lparr>interval := seconds\<rparr>"

definition remove_block_timestamp_interval :: "time_state \<Rightarrow> bool \<times> time_state" where
  "remove_block_timestamp_interval t = (interval t \<noteq> None, t\<lparr>interval := None\<rparr>)"

definition peek_next_timestamp :: "time_state \<Rightarrow> u64" where
  "peek_next_timestamp t = (case next_timestamp t of
       Some n \<Rightarrow> n
     | None \<Rightarrow> saturating_add (current_timestamp t) (interval_or_default t))"

definition advance_timestamp :: "time_state \<Rightarrow> u64 \<times> time_state" where
  "advance_timestamp t =
     (let nxt = (case next_timestamp t of
            Some n \<Rightarrow> n
          | None \<Rightarrow> saturating_add (current_timestamp t) (interval_or_default t))
      in (nxt, t\<lparr>next_timestamp := None, current_timestamp := nxt\<rparr>))"

definition reset_to :: "u64 \<Rightarrow> time_state \<Rightarrow> time_state" where
  "reset_to ts t = t\<lparr>next_timestamp := None, current_timestamp := ts\<rparr>"

text \<open>The first \<open>n\<close> values of a run of \<open>advance_timestamp\<close>, and the clock after it.\<close>

fun advance_n :: "nat \<Rightarrow> time_state \<Rightarrow> u64 list \<times> time_state" where
  "advance_n 0 t = ([], t)"
| "advance_n (Suc n) t =
     (let (x, t1) = advance_timestamp t; (xs, t2) = advance_n n t1 in (x # xs, t2))"

section \<open>The clock as a state machine\<close>

text \<open>One constructor per mutating method of \<open>Time\<close>; a rejected \<open>enforce_next_timestamp\<close>
  leaves the clock alone.\<close>

datatype time_op =
    SetCurrentTimestamp u64
  | EnforceNextTimestamp u64
  | IncreaseTime u64
  | SetTimestampInterval "u64 option"
  | RemoveTimestampInterval
  | AdvanceTimestamp
  | ResetTo u64

fun time_exec :: "time_op \<Rightarrow> time_state \<Rightarrow> time_state" where
  "time_exec (SetCurrentTimestamp ts) t = snd (set_current_timestamp_unchecked ts t)"
| "time_exec (EnforceNextTimestamp ts) t =
     (case enforce_next_timestamp ts t of Inl _ \<Rightarrow> t | Inr t' \<Rightarrow> t')"
| "time_exec (IncreaseTime d) t = snd (increase_time d t)"
| "time_exec (SetTimestampInterval i) t = set_block_timestamp_interval i t"
| "time_exec RemoveTimestampInterval t = snd (remove_block_timestamp_interval t)"
| "time_exec AdvanceTimestamp t = snd (advance_timestamp t)"
| "time_exec (ResetTo ts) t = reset_to ts t"

inductive time_reachable :: "time_state \<Rightarrow> bool" where
  created: "time_reachable (time_new ts)"
| stepped: "time_reachable t \<Longrightarrow> time_reachable (time_exec op t)"

definition time_valid :: "time_state \<Rightarrow> bool" where
  "time_valid t \<longleftrightarrow> (case next_timestamp t of None \<Rightarrow> True | Some n \<Rightarrow> current_timestamp t < n)"

text \<open>The next tick moves the clock: a forced timestamp, or an interval that does not vanish
  and does not start from the end of time.\<close>

definition time_ticking :: "time_state \<Rightarrow> bool" where
  "time_ticking t \<longleftrightarrow> time_valid t \<and>
     (next_timestamp t \<noteq> None \<or> interval t \<noteq> Some 0 \<and> current_timestamp t \<noteq> u64_MAX)"

lemmas time_defs = time_new_def interval_or_default_def set_current_timestamp_unchecked_def
  enforce_next_timestamp_def increase_time_def get_block_timestamp_interval_def
  set_block_timestamp_interval_def remove_block_timestamp_interval_def
  peek_next_timestamp_def advance_timestamp_def reset_to_def

section \<open>The interface of a clock\<close>

text \<open>What \<open>create_l1_batch_env\<close>, \<open>run_tx_batch\<close> and \<open>BlockContext::new_block\<close> rely on:
  advancing returns what peeking announced, the result becomes the current time, and a
  ticking clock moves strictly forward.\<close>

locale clock =
  fixes now :: "'s \<Rightarrow> u64"
    and peek :: "'s \<Rightarrow> u64"
    and advance :: "'s \<Rightarrow> u64 \<times> 's"
    and valid :: "'s \<Rightarrow> bool"
    and ticking :: "'s \<Rightarrow> bool"
  assumes advance_is_peek: "fst (advance s) = peek s"
    and now_advance: "now (snd (advance s)) = fst (advance s)"
    and valid_advance: "valid (snd (advance s))"
    and peek_ge: "valid s \<Longrightarrow> now s \<le> peek s"
    and peek_gt: "ticking s \<Longrightarrow> now s < peek s"
begin

lemma now_le_now_advance: "valid s \<Longrightarrow> now s \<le> now (snd (advance s))"
  by (simp add: now_advance advance_is_peek peek_ge)

lemma two_blocks_increase:
  assumes "ticking s" and "ticking (snd (advance s))"
  shows "now s < fst (advance s) \<and> fst (advance s) < fst (advance (snd (advance s)))"
  using assms peek_gt [of s] peek_gt [of "snd (advance s)"]
  by (simp add: advance_is_peek now_advance)

end

interpretation node_clock: clock current_timestamp peek_next_timestamp advance_timestamp
  time_valid time_ticking
proof unfold_locales
  fix t
  show "fst (advance_timestamp t) = peek_next_timestamp t"
    by (simp add: advance_timestamp_def peek_next_timestamp_def Let_def)
  show "current_timestamp (snd (advance_timestamp t)) = fst (advance_timestamp t)"
    by (simp add: advance_timestamp_def Let_def)
  show "time_valid (snd (advance_timestamp t))"
    by (simp add: advance_timestamp_def time_valid_def Let_def)
  show "current_timestamp t \<le> peek_next_timestamp t" if "time_valid t"
    using that by (auto simp: peek_next_timestamp_def time_valid_def saturating_add_ge
        split: option.splits)
  show "current_timestamp t < peek_next_timestamp t" if "time_ticking t"
  proof (cases "next_timestamp t")
    case None
    with that have "current_timestamp t \<noteq> - 1" and "interval_or_default t \<noteq> 0"
      by (auto simp: time_ticking_def u64_MAX_def interval_or_default_def split: option.splits)
    with None show ?thesis by (simp add: peek_next_timestamp_def saturating_add_gt)
  next
    case (Some n)
    with that show ?thesis
      by (simp add: peek_next_timestamp_def time_ticking_def time_valid_def)
  qed
qed

section \<open>Properties\<close>

lemma time_valid_exec [inv_intros]: "time_valid t \<Longrightarrow> time_valid (time_exec op t)"
  by (cases op) (auto simp: time_valid_def time_defs Let_def split: option.splits sum.splits if_splits)

lemma time_reachable_valid: "time_reachable t \<Longrightarrow> time_valid t"
proof (induction rule: time_reachable.induct)
  case (created ts)
  show ?case by (simp add: time_new_def time_valid_def)
next
  case (stepped t op)
  from stepped.IH show ?case by (rule time_valid_exec)
qed

lemma advance_timestamp_None:
  assumes "next_timestamp t = None"
  shows "advance_timestamp t =
    (saturating_add (current_timestamp t) (interval_or_default t),
     t\<lparr>current_timestamp := saturating_add (current_timestamp t) (interval_or_default t)\<rparr>)"
  using assms by (cases t) (simp add: advance_timestamp_def Let_def)

lemma advance_n_Suc [simp]:
  "advance_n (Suc n) t = (fst (advance_timestamp t) # fst (advance_n n (snd (advance_timestamp t))),
     snd (advance_n n (snd (advance_timestamp t))))"
  by (simp add: split_beta)

declare advance_n.simps(2) [simp del]

lemma length_advance_n [simp]: "length (fst (advance_n n t)) = n"
  by (induction n arbitrary: t) simp_all

lemma interval_advance [simp]: "interval (snd (advance_timestamp t)) = interval t"
  by (simp add: advance_timestamp_def Let_def)

lemma interval_advance_n [simp]: "interval (snd (advance_n n t)) = interval t"
  by (induction n arbitrary: t) simp_all

lemma i128_saturating_sub_u64:
  "0 \<le> a \<Longrightarrow> a < 2 ^ 64 \<Longrightarrow> 0 \<le> b \<Longrightarrow> b < 2 ^ 64 \<Longrightarrow> i128_saturating_sub a b = a - b"
  by (simp add: i128_saturating_sub_def)

text \<open>C35: in every reachable clock, advancing returns the announced timestamp, makes it the
  current one and never moves the clock backwards, whatever sequence of calls (including
  rejected ones and the unchecked setters) produced that clock.\<close>

theorem advance_timestamp_monotone:
  assumes "time_reachable t"
  shows "fst (advance_timestamp t) = peek_next_timestamp t
    \<and> current_timestamp (snd (advance_timestamp t)) = peek_next_timestamp t
    \<and> current_timestamp t \<le> peek_next_timestamp t
    \<and> next_timestamp (snd (advance_timestamp t)) = None
    \<and> interval (snd (advance_timestamp t)) = interval t"
  using node_clock.advance_is_peek [of t] node_clock.now_advance [of t]
    node_clock.peek_ge [OF time_reachable_valid [OF assms]]
  by (simp add: advance_timestamp_def Let_def)

theorem advance_timestamp_monotone_witness:
  "fst (advance_timestamp (time_exec (EnforceNextTimestamp 1700) (time_new 1000))) = 1700
    \<and> current_timestamp (time_exec (EnforceNextTimestamp 1700) (time_new 1000)) \<le> 1700"
proof -
  let ?t = "time_exec (EnforceNextTimestamp 1700) (time_new 1000)"
  have "time_reachable ?t" by (intro time_reachable.intros)
  from advance_timestamp_monotone [OF this]
  show ?thesis by (simp add: time_defs)
qed

text \<open>With no forced timestamp pending, the \<open>k\<close>-th of any number of consecutive blocks gets
  the current timestamp plus \<open>k + 1\<close> intervals, capped at the largest \<open>u64\<close>; the interval
  itself is not changed by producing blocks.\<close>

theorem advance_n_arithmetic:
  assumes "next_timestamp t = None" and "k < n"
  shows "unat (fst (advance_n n t) ! k)
      = min (unat (current_timestamp t) + (k + 1) * unat (interval_or_default t)) (2 ^ 64 - 1)
    \<and> interval (snd (advance_n n t)) = interval t"
  using assms
proof (induction n arbitrary: t k)
  case 0
  then show ?case by simp
next
  case (Suc n)
  define t1 where "t1 = snd (advance_timestamp t)"
  have t1: "next_timestamp t1 = None" "interval t1 = interval t"
    "interval_or_default t1 = interval_or_default t"
    "current_timestamp t1 = saturating_add (current_timestamp t) (interval_or_default t)"
    using Suc.prems(1) by (simp_all add: t1_def advance_timestamp_None interval_or_default_def)
  show ?case
  proof (cases k)
    case 0
    then show ?thesis
      using Suc.prems(1) by (simp add: advance_timestamp_None unat_saturating_add)
  next
    case (Suc j)
    with Suc.prems(2) have "j < n" by simp
    then have "unat (fst (advance_n n t1) ! j) = min (unat (current_timestamp t1)
        + (j + 1) * unat (interval_or_default t1)) (2 ^ 64 - 1)"
      using Suc.IH t1(1) by blast
    then show ?thesis
      using Suc t1 by (simp add: unat_saturating_add t1_def [symmetric] min_def)
  qed
qed

theorem advance_n_arithmetic_witness:
  "unat (fst (advance_n 3 (time_new 1000)) ! 2) = 1003"
  using advance_n_arithmetic [of "time_new 1000" 2 3] by (simp add: time_defs)

text \<open>\<open>enforce_next_timestamp\<close> fails exactly when the requested timestamp is not in the
  future; otherwise the next block is given that timestamp and the one after it continues
  from there.\<close>

theorem enforce_next_timestamp_spec:
  "(ts \<le> current_timestamp t \<longleftrightarrow>
     enforce_next_timestamp ts t = Inl (Err (TimestampBackwardsError ts (current_timestamp t))))
   \<and> (current_timestamp t < ts \<longleftrightarrow>
     (\<exists>t'. enforce_next_timestamp ts t = Inr t' \<and> advance_n 2 t'
        = ([ts, saturating_add ts (interval_or_default t)],
           t\<lparr>current_timestamp := saturating_add ts (interval_or_default t),
             next_timestamp := None\<rparr>)))"
  by (auto simp: enforce_next_timestamp_def advance_timestamp_def interval_or_default_def
      numeral_2_eq_2 Let_def not_le)

text \<open>The difference \<open>set_current_timestamp_unchecked\<close> reports is exact for all pairs of
  64-bit timestamps (the saturating subtraction on \<open>i128\<close> never saturates), and it drops a
  pending forced timestamp.\<close>

theorem set_current_timestamp_diff:
  "fst (set_current_timestamp_unchecked ts t) = uint ts - uint (current_timestamp t)
   \<and> current_timestamp (snd (set_current_timestamp_unchecked ts t)) = ts
   \<and> next_timestamp (snd (set_current_timestamp_unchecked ts t)) = None"
  using i128_saturating_sub_u64 [of "uint ts" "uint (current_timestamp t)"]
    unsigned_less [of ts] unsigned_less [of "current_timestamp t"]
  by (simp add: set_current_timestamp_unchecked_def Let_def)

end
