(* ===== verification/Eth_Filters.thy ===== *)
theory Eth_Filters
  imports Chain_Types
begin

text \<open>
  Installed filters and their pending updates: \<open>crates/core/src/filters.rs\<close>, with
  \<open>to_real_block_number\<close> of \<open>crates/core/src/utils.rs\<close>.

  The \<open>HashMap\<close> of filters is an association list with distinct keys, because
  \<open>iter_mut().for_each\<close> runs over it; nothing below depends on the order of the list.
  The four-element topic array is a list of length four.
\<close>

section \<open>Block numbers\<close>

definition to_real_block_number :: "block_number \<Rightarrow> u64 \<Rightarrow> u64" where
  "to_real_block_number block_number latest_block_number = (case block_number of
       Finalized \<Rightarrow> latest_block_number
     | Pending \<Rightarrow> latest_block_number
     | Committed \<Rightarrow> latest_block_number
     | L1Committed \<Rightarrow> latest_block_number
     | Latest \<Rightarrow> latest_block_number
     | Earliest \<Rightarrow> 0
     | Number n \<Rightarrow> n)"

section \<open>Filters\<close>

record log_filter =
  lf_from_block :: block_number
  lf_to_block :: block_number
  lf_addresses :: "address list"
  lf_topics :: "h256 set option list"
  lf_updates :: "log list"

datatype filter_type =
    BlockFilter (block_updates: "h256 list")
  | LogFilter log_filter
  | PendingTransactionFilter (pending_updates: "h256 list")

datatype filter_changes = ChangesEmpty | ChangesHashes "h256 list" | ChangesLogs "log list"

record eth_filters =
  ef_id_counter :: u256
  ef_filters :: "(u256 \<times> filter_type) list"

definition eth_filters_default :: eth_filters where
  "eth_filters_default = \<lparr>ef_id_counter = 0, ef_filters = []\<rparr>"

definition log_filter_new ::
  "block_number \<Rightarrow> block_number \<Rightarrow> address list \<Rightarrow> h256 set option list \<Rightarrow> log_filter" where
  "log_filter_new from_block to_block addresses topics =
     \<lparr>lf_from_block = from_block, lf_to_block = to_block, lf_addresses = addresses,
      lf_topics = topics, lf_updates = []\<rparr>"

text \<open>The loop over the log's topics, with the array of flags it writes.\<close>

fun match_topics :: "h256 set option list \<Rightarrow> nat \<Rightarrow> h256 list \<Rightarrow> bool list \<Rightarrow> bool list" where
  "match_topics sets i [] matched = matched"
| "match_topics sets i (topic # topics) matched =
     match_topics sets (Suc i) topics
       (case sets ! i of
          Some topic_set \<Rightarrow>
            if topic_set \<noteq> {} \<and> topic \<notin> topic_set then matched[i := False] else matched
        | None \<Rightarrow> matched)"

definition filter_matches :: "log_filter \<Rightarrow> log \<Rightarrow> u64 \<Rightarrow> (string, bool) outcome" where
  "filter_matches f log latest_block_number =
     (let from = to_real_block_number (lf_from_block f) latest_block_number;
          to = to_real_block_number (lf_to_block f) latest_block_number
      in and_then (expect ''block number must exist'' (log_block_number log)) (\<lambda>n.
           if n < from \<or> n > to then Inr False
           else if lf_addresses f \<noteq> [] \<and> list_all (\<lambda>a. a \<noteq> log_address log) (lf_addresses f)
           then Inr False
           else Inr (list_all (\<lambda>m. m)
             (match_topics (lf_topics f) 0 (take 4 (log_topics log)) [True, True, True, True]))))"

section \<open>Operations\<close>

definition add_filter :: "filter_type \<Rightarrow> eth_filters \<Rightarrow> (string, u256) outcome \<times> eth_filters" where
  "add_filter f s = (case checked_add (ef_id_counter s) 1 of
       None \<Rightarrow> (Inl (Err ''overflow''), s)
     | Some i \<Rightarrow> (Inr i, \<lparr>ef_id_counter = i, ef_filters = AList.update i f (ef_filters s)\<rparr>))"

definition add_block_filter :: "eth_filters \<Rightarrow> (string, u256) outcome \<times> eth_filters" where
  "add_block_filter s = add_filter (BlockFilter []) s"

definition add_log_filter ::
  "block_number \<Rightarrow> block_number \<Rightarrow> address list \<Rightarrow> h256 set option list
     \<Rightarrow> eth_filters \<Rightarrow> (string, u256) outcome \<times> eth_filters" where
  "add_log_filter from_block to_block addresses topics s =
     add_filter (LogFilter (log_filter_new from_block to_block addresses topics)) s"

definition add_pending_transaction_filter ::
  "eth_filters \<Rightarrow> (string, u256) outcome \<times> eth_filters" where
  "add_pending_transaction_filter s = add_filter (PendingTransactionFilter []) s"

definition remove_filter :: "u256 \<Rightarrow> eth_filters \<Rightarrow> bool \<times> eth_filters" where
  "remove_filter i s = (map_of (ef_filters s) i \<noteq> None,
     s\<lparr>ef_filters := AList.delete i (ef_filters s)\<rparr>)"

definition get_filter :: "u256 \<Rightarrow> eth_filters \<Rightarrow> filter_type option" where
  "get_filter i s = map_of (ef_filters s) i"

definition get_new_changes ::
  "u256 \<Rightarrow> eth_filters \<Rightarrow> (string, filter_changes) outcome \<times> eth_filters" where
  "get_new_changes i s = (case map_of (ef_filters s) i of
       None \<Rightarrow> (Inl (Err ''invalid filter''), s)
     | Some (BlockFilter us) \<Rightarrow>
         if us = [] then (Inr ChangesEmpty, s)
         else (Inr (ChangesHashes us), s\<lparr>ef_filters := AList.update i (BlockFilter []) (ef_filters s)\<rparr>)
     | Some (LogFilter f) \<Rightarrow>
         if lf_updates f = [] then (Inr ChangesEmpty, s)
         else (Inr (ChangesLogs (lf_updates f)),
               s\<lparr>ef_filters := AList.update i (LogFilter (f\<lparr>lf_updates := []\<rparr>)) (ef_filters s)\<rparr>)
     | Some (PendingTransactionFilter us) \<Rightarrow>
         if us = [] then (Inr ChangesEmpty, s)
         else (Inr (ChangesHashes us),
               s\<lparr>ef_filters := AList.update i (PendingTransactionFilter []) (ef_filters s)\<rparr>))"

definition notify_new_block :: "h256 \<Rightarrow> eth_filters \<Rightarrow> eth_filters" where
  "notify_new_block h s = s\<lparr>ef_filters := map (\<lambda>(i, f).
     (i, case f of BlockFilter us \<Rightarrow> BlockFilter (us @ [h]) | _ \<Rightarrow> f)) (ef_filters s)\<rparr>"

definition notify_new_pending_transaction :: "h256 \<Rightarrow> eth_filters \<Rightarrow> eth_filters" where
  "notify_new_pending_transaction h s = s\<lparr>ef_filters := map (\<lambda>(i, f).
     (i, case f of PendingTransactionFilter us \<Rightarrow> PendingTransactionFilter (us @ [h]) | _ \<Rightarrow> f))
     (ef_filters s)\<rparr>"

fun push_log :: "log \<Rightarrow> u64 \<Rightarrow> (u256 \<times> filter_type) list
    \<Rightarrow> (string, (u256 \<times> filter_type) list) outcome" where
  "push_log l latest [] = Inr []"
| "push_log l latest ((i, LogFilter f) # fs) =
     and_then (filter_matches f l latest) (\<lambda>m.
       and_then (push_log l latest fs) (\<lambda>fs'.
         Inr ((i, LogFilter (if m then f\<lparr>lf_updates := lf_updates f @ [l]\<rparr> else f)) # fs')))"
| "push_log l latest ((i, f) # fs) =
     and_then (push_log l latest fs) (\<lambda>fs'. Inr ((i, f) # fs'))"

definition notify_new_log :: "log \<Rightarrow> u64 \<Rightarrow> eth_filters \<Rightarrow> (string, eth_filters) outcome" where
  "notify_new_log l latest s =
     and_then (push_log l latest (ef_filters s)) (\<lambda>fs. Inr (s\<lparr>ef_filters := fs\<rparr>))"

section \<open>Notifications as events\<close>

datatype filter_event = NewBlock h256 | NewPendingTransaction h256 | NewLog log u64

fun notify :: "filter_event \<Rightarrow> eth_filters \<Rightarrow> (string, eth_filters) outcome" where
  "notify (NewBlock h) s = Inr (notify_new_block h s)"
| "notify (NewPendingTransaction h) s = Inr (notify_new_pending_transaction h s)"
| "notify (NewLog l n) s = notify_new_log l n s"

fun notify_all :: "filter_event list \<Rightarrow> eth_filters \<Rightarrow> (string, eth_filters) outcome" where
  "notify_all [] s = Inr s"
| "notify_all (e # es) s = and_then (notify e s) (notify_all es)"

text \<open>The specification: what a filter of each kind selects from a sequence of events.\<close>

definition selected_blocks :: "filter_event list \<Rightarrow> h256 list" where
  "selected_blocks es = concat (map (\<lambda>e. case e of NewBlock h \<Rightarrow> [h] | _ \<Rightarrow> []) es)"

definition selected_pending :: "filter_event list \<Rightarrow> h256 list" where
  "selected_pending es = concat (map (\<lambda>e. case e of NewPendingTransaction h \<Rightarrow> [h] | _ \<Rightarrow> []) es)"

definition selected_logs :: "log_filter \<Rightarrow> filter_event list \<Rightarrow> log list" where
  "selected_logs f es = concat (map (\<lambda>e. case e of
       NewLog l n \<Rightarrow> (if filter_matches f l n = Inr True then [l] else []) | _ \<Rightarrow> []) es)"

fun deliver :: "filter_event list \<Rightarrow> filter_type \<Rightarrow> filter_type" where
  "deliver es (BlockFilter us) = BlockFilter (us @ selected_blocks es)"
| "deliver es (PendingTransactionFilter us) = PendingTransactionFilter (us @ selected_pending es)"
| "deliver es (LogFilter f) = LogFilter (f\<lparr>lf_updates := lf_updates f @ selected_logs f es\<rparr>)"

fun pending_changes :: "filter_type \<Rightarrow> filter_changes" where
  "pending_changes (BlockFilter us) = (if us = [] then ChangesEmpty else ChangesHashes us)"
| "pending_changes (PendingTransactionFilter us) = (if us = [] then ChangesEmpty else ChangesHashes us)"
| "pending_changes (LogFilter f) =
     (if lf_updates f = [] then ChangesEmpty else ChangesLogs (lf_updates f))"

fun cleared :: "filter_type \<Rightarrow> filter_type" where
  "cleared (BlockFilter us) = BlockFilter []"
| "cleared (PendingTransactionFilter us) = PendingTransactionFilter []"
| "cleared (LogFilter f) = LogFilter (f\<lparr>lf_updates := []\<rparr>)"

text \<open>Identifiers are distinct, not zero, and none exceeds the counter.\<close>

definition filters_inv :: "eth_filters \<Rightarrow> bool" where
  "filters_inv s \<longleftrightarrow> distinct (map fst (ef_filters s))
     \<and> list_all (\<lambda>(i, _). 0 < i \<and> i \<le> ef_id_counter s) (ef_filters s)"

section \<open>Matching\<close>

lemma filter_matches_updates [simp]:
  "filter_matches (f\<lparr>lf_updates := us\<rparr>) l n = filter_matches f l n"
  by (cases "log_block_number l") (simp_all add: filter_matches_def)

definition topic_ok :: "h256 set option \<Rightarrow> h256 \<Rightarrow> bool" where
  "topic_ok s t \<longleftrightarrow> (case s of None \<Rightarrow> True | Some ts \<Rightarrow> ts = {} \<or> t \<in> ts)"

lemma match_topics_all:
  assumes "i + length ts \<le> length sets" and "length matched = length sets"
  shows "list_all (\<lambda>m. m) (match_topics sets i ts matched)
    \<longleftrightarrow> list_all (\<lambda>m. m) matched \<and> (\<forall>j < length ts. topic_ok (sets ! (i + j)) (ts ! j))"
  using assms
proof (induction ts arbitrary: i matched)
  case Nil
  then show ?case by simp
next
  case (Cons t ts)
  let ?m = "case sets ! i of Some s \<Rightarrow> if s \<noteq> {} \<and> t \<notin> s then matched[i := False] else matched
      | None \<Rightarrow> matched"
  have m: "length ?m = length sets" "list_all (\<lambda>m. m) ?m \<longleftrightarrow> list_all (\<lambda>m. m) matched \<and> topic_ok (sets ! i) t"
    using Cons.prems by (auto simp: topic_ok_def list_all_length nth_list_update split: option.splits)
  have "list_all (\<lambda>m. m) (match_topics sets i (t # ts) matched)
      \<longleftrightarrow> list_all (\<lambda>m. m) ?m \<and> (\<forall>j < length ts. topic_ok (sets ! (Suc i + j)) (ts ! j))"
    using Cons.IH [of "Suc i" ?m] Cons.prems m(1) by simp
  also have "\<dots> \<longleftrightarrow> list_all (\<lambda>m. m) matched
      \<and> (\<forall>j < length (t # ts). topic_ok (sets ! (i + j)) ((t # ts) ! j))"
    by (auto simp: m(2) less_Suc_eq_0_disj)
  finally show ?case .
qed

section \<open>Lookup after each operation\<close>

lemma get_filter_notify_new_block:
  "get_filter i (notify_new_block h s) = map_option (deliver [NewBlock h]) (get_filter i s)"
proof -
  have "(case f of BlockFilter us \<Rightarrow> BlockFilter (us @ [h]) | _ \<Rightarrow> f) = deliver [NewBlock h] f" for f
    by (cases f) (simp_all add: selected_blocks_def selected_pending_def selected_logs_def)
  then show ?thesis by (simp add: get_filter_def notify_new_block_def map_of_map o_def)
qed

lemma get_filter_notify_new_pending_transaction:
  "get_filter i (notify_new_pending_transaction h s)
     = map_option (deliver [NewPendingTransaction h]) (get_filter i s)"
proof -
  have "(case f of PendingTransactionFilter us \<Rightarrow> PendingTransactionFilter (us @ [h]) | _ \<Rightarrow> f)
      = deliver [NewPendingTransaction h] f" for f
    by (cases f) (simp_all add: selected_blocks_def selected_pending_def selected_logs_def)
  then show ?thesis by (simp add: get_filter_def notify_new_pending_transaction_def map_of_map o_def)
qed

lemma push_log_map_of:
  "push_log l n fs = Inr fs' \<Longrightarrow> map fst fs' = map fst fs
     \<and> map_of fs' i = map_option (deliver [NewLog l n]) (map_of fs i)"
  by (induction l n fs arbitrary: fs' rule: push_log.induct)
    (auto simp: selected_blocks_def selected_pending_def selected_logs_def)

lemma get_filter_notify:
  "notify e s = Inr s' \<Longrightarrow> get_filter i s' = map_option (deliver [e]) (get_filter i s)"
proof (cases e)
  case (NewLog l n)
  then show "notify e s = Inr s' \<Longrightarrow> ?thesis"
    by (auto simp: notify_new_log_def get_filter_def push_log_map_of)
qed (auto simp: get_filter_notify_new_block get_filter_notify_new_pending_transaction)

lemma deliver_Cons: "deliver es (deliver [e] f) = deliver (e # es) f"
  by (cases f) (simp_all add: selected_blocks_def selected_pending_def selected_logs_def)

lemma get_filter_notify_all:
  "notify_all es s = Inr s' \<Longrightarrow> get_filter i s' = map_option (deliver es) (get_filter i s)"
proof (induction es arbitrary: s)
  case Nil
  have "deliver [] f = f" for f
    by (cases f) (simp_all add: selected_blocks_def selected_pending_def selected_logs_def)
  with Nil show ?case by (cases "get_filter i s") simp_all
next
  case (Cons e es)
  then show ?case
    by (auto simp: get_filter_notify option.map_comp o_def deliver_Cons simp del: deliver.simps)
qed

lemma notify_keys: "notify e s = Inr s' \<Longrightarrow>
    map fst (ef_filters s') = map fst (ef_filters s) \<and> ef_id_counter s' = ef_id_counter s"
  by (cases e) (auto simp: notify_new_block_def notify_new_pending_transaction_def
      notify_new_log_def push_log_map_of o_def split_beta)

lemma filters_inv_keys:
  "map fst (ef_filters s') = map fst (ef_filters s) \<Longrightarrow> ef_id_counter s' = ef_id_counter s
     \<Longrightarrow> filters_inv s' \<longleftrightarrow> filters_inv s"
proof -
  have "list_all (\<lambda>(i, _). P i) xs \<longleftrightarrow> list_all P (map fst xs)" for P and xs :: "(u256 \<times> filter_type) list"
    by (induction xs) auto
  then show "map fst (ef_filters s') = map fst (ef_filters s) \<Longrightarrow> ef_id_counter s' = ef_id_counter s
     \<Longrightarrow> filters_inv s' \<longleftrightarrow> filters_inv s"
    by (simp add: filters_inv_def)
qed

lemma filters_inv_notify [inv_intros]: "notify e s = Inr s' \<Longrightarrow> filters_inv s \<Longrightarrow> filters_inv s'"
  using notify_keys filters_inv_keys by blast

lemma get_new_changes_eq:
  "get_new_changes i s = (case get_filter i s of
       None \<Rightarrow> (Inl (Err ''invalid filter''), s)
     | Some f \<Rightarrow> (Inr (pending_changes f),
         if pending_changes f = ChangesEmpty then s
         else s\<lparr>ef_filters := AList.update i (cleared f) (ef_filters s)\<rparr>))"
  by (auto simp: get_new_changes_def get_filter_def split: option.split filter_type.split)

lemma get_filter_get_new_changes:
  "get_filter j (snd (get_new_changes i s)) =
     (if j = i then map_option cleared (get_filter i s) else get_filter j s)"
proof (cases "get_filter i s")
  case None
  then show ?thesis by (simp add: get_new_changes_eq)
next
  case (Some f)
  have "cleared f = f" if "pending_changes f = ChangesEmpty"
    using that by (cases f) (simp_all split: if_splits)
  with Some show ?thesis
    by (simp add: get_new_changes_eq) (simp add: get_filter_def update_conv')
qed

lemma filters_inv_not_above: "filters_inv s \<Longrightarrow> ef_id_counter s < i \<Longrightarrow> get_filter i s = None"
  by (auto simp: filters_inv_def get_filter_def map_of_eq_None_iff list_all_iff)

lemma set_update_subset: "set (AList.update k v al) \<subseteq> insert (k, v) (set al)"
  by (induction al) auto

lemma filters_inv_add [inv_intros]:
  assumes "filters_inv s"
  shows "filters_inv (snd (add_filter f s))"
proof (cases "checked_add (ef_id_counter s) 1")
  case None
  with assms show ?thesis by (simp add: add_filter_def)
next
  case (Some i)
  then have lt: "ef_id_counter s < i" by (rule checked_add_1_gt)
  show ?thesis
    using Some assms lt set_update_subset [of i f "ef_filters s"]
    by (fastforce simp: add_filter_def filters_inv_def distinct_update list_all_iff word_gt_0)
qed

section \<open>Properties\<close>

definition sample_log :: "address \<Rightarrow> h256 list \<Rightarrow> u64 \<Rightarrow> log" where
  "sample_log a ts n = \<lparr>log_address = a, log_topics = ts, log_data = [], log_block_hash = None,
     log_block_number = Some n, log_l1_batch_number = None, log_transaction_hash = None,
     log_transaction_index = None, log_log_index = None, log_transaction_log_index = None,
     log_removed = Some False, log_block_timestamp = None\<rparr>"

text \<open>A log filter accepts a log exactly when the log's block lies in the filter's resolved
  range, its address is listed (or no address is), and each of the log's first four topics is
  in the topic set at its position (a missing or empty set accepts anything). A log without a
  block number makes the code panic.\<close>

theorem filter_matches_spec:
  assumes "length (lf_topics f) = 4"
  shows "(log_block_number l = None \<longleftrightarrow>
      filter_matches f l latest = Inl (Panic ''block number must exist''))
    \<and> (\<forall>n. log_block_number l = Some n \<longrightarrow>
      filter_matches f l latest = Inr
        (to_real_block_number (lf_from_block f) latest \<le> n
         \<and> n \<le> to_real_block_number (lf_to_block f) latest
         \<and> (lf_addresses f = [] \<or> log_address l \<in> set (lf_addresses f))
         \<and> (\<forall>j < min 4 (length (log_topics l)).
               topic_ok (lf_topics f ! j) (log_topics l ! j))))"
proof (cases "log_block_number l")
  case None
  then show ?thesis by (simp add: filter_matches_def)
next
  case (Some n)
  have "list_all (\<lambda>m. m) (match_topics (lf_topics f) 0 (take 4 (log_topics l)) [True, True, True, True])
    \<longleftrightarrow> (\<forall>j < min 4 (length (log_topics l)). topic_ok (lf_topics f ! j) (log_topics l ! j))"
    using assms by (subst match_topics_all) (auto simp: min.commute)
  with Some show ?thesis
    by (auto simp: filter_matches_def not_less list_all_iff)
qed

theorem filter_matches_spec_witness:
  "filter_matches (log_filter_new Earliest Latest [7] [Some {1}, None, Some {}, None])
     (sample_log 7 [1] 3) 9 = Inr True"
  using filter_matches_spec [of "log_filter_new Earliest Latest [7] [Some {1}, None, Some {}, None]"
      "sample_log 7 [1] 3" 9]
  by (simp add: log_filter_new_def sample_log_def to_real_block_number_def topic_ok_def)

text \<open>C36: exactly-once delivery. Whatever blocks, pending transactions and logs are announced, in
  any interleaving, polling a filter returns everything it had pending followed by exactly the
  announcements its kind and criteria select, in order; the filter is then empty, its criteria
  unchanged, no other filter is touched, and a second poll returns nothing.\<close>

theorem filter_exactly_once:
  assumes "notify_all es s = Inr s'" and "get_filter i s = Some f"
  shows "fst (get_new_changes i s') = Inr (pending_changes (deliver es f))
    \<and> get_filter i (snd (get_new_changes i s')) = Some (cleared f)
    \<and> (j \<noteq> i \<longrightarrow> get_filter j (snd (get_new_changes i s')) = get_filter j s')
    \<and> fst (get_new_changes i (snd (get_new_changes i s'))) = Inr ChangesEmpty"
proof -
  have f: "get_filter i s' = Some (deliver es f)"
    using get_filter_notify_all [OF assms(1), of i] assms(2) by simp
  have "cleared (deliver es f) = cleared f" and "pending_changes (cleared f) = ChangesEmpty"
    by (cases f; simp)+
  then have "get_filter i (snd (get_new_changes i s')) = Some (cleared f)"
    and "fst (get_new_changes i (snd (get_new_changes i s'))) = Inr ChangesEmpty"
    using get_filter_get_new_changes [of i i s'] f
    by (simp_all add: get_new_changes_eq [of i "snd (get_new_changes i s')"])
  then show ?thesis
    using f get_filter_get_new_changes [of j i s'] by (simp add: get_new_changes_eq [of i s'])
qed

theorem filter_exactly_once_witness:
  "\<exists>s'. notify_all [NewBlock 5, NewPendingTransaction 8, NewBlock 6]
       (snd (add_block_filter eth_filters_default)) = Inr s'
     \<and> fst (get_new_changes 1 s') = Inr (ChangesHashes [5, 6])"
proof -
  let ?s = "snd (add_block_filter eth_filters_default)"
  have s: "get_filter 1 ?s = Some (BlockFilter [])"
    by (simp add: add_block_filter_def add_filter_def eth_filters_default_def checked_add_def
        get_filter_def)
  obtain s' where s': "notify_all [NewBlock 5, NewPendingTransaction 8, NewBlock 6] ?s = Inr s'"
    by simp
  from filter_exactly_once [OF s' s] s' show ?thesis
    by (simp add: selected_blocks_def)
qed

text \<open>Installing a filter gives it an identifier no filter has or ever had, leaves every other
  filter as it was and keeps identifiers distinct and below the counter; it fails only when the
  counter is at the largest \<open>U256\<close>, and then changes nothing.\<close>

theorem add_filter_fresh:
  assumes "filters_inv s"
  shows "filters_inv (snd (add_filter f s))
    \<and> (fst (add_filter f s) = Inl (Err ''overflow'') \<longleftrightarrow> ef_id_counter s = - 1)
    \<and> (ef_id_counter s = - 1 \<longrightarrow> snd (add_filter f s) = s)
    \<and> (\<forall>i. fst (add_filter f s) = Inr i \<longrightarrow>
         ef_id_counter s < i \<and> ef_id_counter (snd (add_filter f s)) = i
         \<and> get_filter i s = None
         \<and> get_filter j (snd (add_filter f s)) = (if j = i then Some f else get_filter j s))"
proof (cases "checked_add (ef_id_counter s) 1")
  case None
  then have "ef_id_counter s = - 1" by (simp add: checked_add_1_None_iff)
  with None show ?thesis using assms by (simp add: add_filter_def)
next
  case (Some i)
  then have "ef_id_counter s \<noteq> - 1" and "ef_id_counter s < i"
    using checked_add_1_None_iff [of "ef_id_counter s"] checked_add_1_gt by auto
  moreover have "filters_inv (snd (add_filter f s))" using assms by (rule filters_inv_add)
  ultimately show ?thesis
    using Some assms filters_inv_not_above [of s i]
    by (simp add: add_filter_def get_filter_def update_conv')
qed

theorem add_filter_fresh_witness:
  "fst (add_filter (BlockFilter []) eth_filters_default) = Inr 1
   \<and> get_filter 1 (snd (add_filter (BlockFilter []) eth_filters_default)) = Some (BlockFilter [])"
proof -
  have "filters_inv eth_filters_default"
    by (simp add: filters_inv_def eth_filters_default_def)
  moreover have "fst (add_filter (BlockFilter []) eth_filters_default) = Inr 1"
    by (simp add: add_filter_def eth_filters_default_def checked_add_def)
  ultimately show ?thesis
    using add_filter_fresh [of eth_filters_default "BlockFilter []" 1] by simp
qed

lemma set_delete_subset: "set (AList.delete k al) \<subseteq> set al"
  by (induction al) auto

text \<open>Removing a filter reports whether it existed, makes it unknown and touches no other;
  polling an unknown identifier is the error \<open>invalid filter\<close> and changes nothing.\<close>

theorem remove_filter_spec:
  assumes "filters_inv s"
  shows "(fst (remove_filter i s) \<longleftrightarrow> get_filter i s \<noteq> None)
    \<and> get_filter j (snd (remove_filter i s)) = (if j = i then None else get_filter j s)
    \<and> get_new_changes i (snd (remove_filter i s))
        = (Inl (Err ''invalid filter''), snd (remove_filter i s))
    \<and> filters_inv (snd (remove_filter i s))"
proof -
  have "filters_inv (snd (remove_filter i s))"
    using assms by (auto simp: filters_inv_def remove_filter_def distinct_delete list_all_iff
        dest: set_delete_subset [THEN subsetD])
  then show ?thesis
    by (simp add: remove_filter_def get_filter_def delete_conv' get_new_changes_def)
qed

theorem remove_filter_spec_witness:
  "get_filter 1 (snd (remove_filter 1 (snd (add_block_filter eth_filters_default)))) = None"
proof -
  have "filters_inv (snd (add_block_filter eth_filters_default))"
    by (simp add: filters_inv_def eth_filters_default_def add_block_filter_def add_filter_def
        checked_add_def word_gt_0)
  from remove_filter_spec [OF this, of 1 1] show ?thesis by simp
qed

end
