(* ===== verification/Blockchain_State.thy ===== *)
theory Blockchain_State
  imports Vm_Types Node_Time Eth_Filters
begin

text \<open>
  The local chain: \<open>crates/core/src/node/inner/blockchain.rs\<close>, with the genesis, block and
  transaction-result code of \<open>crates/core/src/node/in_memory.rs\<close>.

  \<open>L1BatchNumber\<close> and \<open>L2BlockNumber\<close> are 32-bit, block fields of type \<open>U64\<close> are 64-bit and block
  timestamps are 256-bit words, as in the source; the conversions between them are written out.
  The hash maps the code iterates over (\<open>blocks\<close>, \<open>tx_results\<close>) are association lists with distinct
  keys, the others are maps. A closure passed to an \<open>inspect\<close> function may panic, so it returns an
  outcome.
\<close>

section \<open>State\<close>

record tx_execution_info =
  info_tx :: transaction
  info_batch_number :: u32
  info_miniblock_number :: u64

record transaction_result =
  res_info :: tx_execution_info
  res_new_bytecodes :: "(h256 \<times> bytes) list"
  res_receipt :: transaction_receipt
  res_debug :: debug_call

record stored_l1_batch_info =
  sb_header :: l1_batch_header
  sb_state_diffs :: "state_diff_record list"
  sb_aggregation_root :: h256

record blockchain_state =
  bc_protocol_version :: protocol_version
  bc_current_batch :: u32
  bc_current_block :: u32
  bc_current_block_hash :: h256
  bc_tx_results :: "(h256 \<times> transaction_result) list"
  bc_blocks :: "(h256 \<times> api_block) list"
  bc_hashes :: "u32 \<rightharpoonup> h256"
  bc_batches :: "u32 \<rightharpoonup> stored_l1_batch_info"

record ('f, 'p) fork_details =
  fd_chain_id :: u64
  fd_protocol_version :: protocol_version
  fd_batch_number :: u32
  fd_block_number :: u32
  fd_block_hash :: h256
  fd_block_timestamp :: u64
  fd_api_block :: api_block
  fd_l1_gas_price :: u64
  fd_l2_fair_gas_price :: u64
  fd_fair_pubdata_price :: u64
  fd_estimate_gas_price_scale_factor :: 'f
  fd_estimate_gas_scale_factor :: 'f
  fd_fee_params :: "'p fee_params"

record genesis =
  gen_hash :: "h256 option"
  gen_parent_hash :: "h256 option"
  gen_block_number :: "u64 option"
  gen_timestamp :: "u64 option"
  gen_l1_batch_env :: "l1_batch_env option"
  gen_transactions :: "transaction_variant list option"
  gen_gas_used :: "u256 option"
  gen_logs_bloom :: "bytes option"

definition NON_FORK_FIRST_BLOCK_TIMESTAMP :: u64 where
  "NON_FORK_FIRST_BLOCK_TIMESTAMP = 1000"

section \<open>Blocks and genesis\<close>

fun push_tx_hashes :: "'h chain_api \<Rightarrow> h256 list \<Rightarrow> 'h \<Rightarrow> 'h" where
  "push_tx_hashes api [] hasher = hasher"
| "push_tx_hashes api (h # hs) hasher = push_tx_hashes api hs (hasher_push_tx_hash api h hasher)"

definition compute_hash ::
  "'h chain_api \<Rightarrow> protocol_version \<Rightarrow> u32 \<Rightarrow> u64 \<Rightarrow> h256 \<Rightarrow> h256 list \<Rightarrow> h256" where
  "compute_hash api protocol_version number timestamp prev_l2_block_hash tx_hashes =
     hasher_finalize api protocol_version
       (push_tx_hashes api tx_hashes (hasher_new api number timestamp prev_l2_block_hash))"

definition create_block ::
  "'h chain_api \<Rightarrow> l1_batch_env \<Rightarrow> h256 \<Rightarrow> h256 \<Rightarrow> u64 \<Rightarrow> u64 \<Rightarrow> 'tx list \<Rightarrow> u256 \<Rightarrow> bytes
     \<Rightarrow> 'tx block" where
  "create_block api batch_env hash parent_hash number timestamp transactions gas_used logs_bloom =
     \<lparr>blk_hash = hash, blk_parent_hash = parent_hash, blk_number = number,
      blk_l1_batch_number = Some (ucast (env_number batch_env)),
      blk_base_fee_per_gas = ucast (get_batch_base_fee api batch_env),
      blk_timestamp = ucast timestamp,
      blk_l1_batch_timestamp = Some (ucast (env_timestamp batch_env)),
      blk_transactions = transactions, blk_gas_used = gas_used,
      blk_gas_limit = ucast (get_max_batch_gas_limit api), blk_logs_bloom = logs_bloom\<rparr>"

definition bloom_zero :: bytes where
  "bloom_zero = replicate 256 0"

definition genesis_batch_env :: "u64 \<Rightarrow> l1_batch_env" where
  "genesis_batch_env timestamp =
     \<lparr>env_previous_batch_hash = None, env_number = 0, env_timestamp = timestamp,
      env_fee_input = PubdataIndependent \<lparr>fi_l1_gas_price = 0, fi_fair_l2_gas_price = 0,
        fi_fair_pubdata_price = 0\<rparr>,
      env_fee_account = 0, env_enforced_base_fee = None,
      env_first_l2_block = \<lparr>be_number = 0, be_timestamp = timestamp, be_prev_block_hash = 0,
        be_max_virtual_blocks_to_create = 0\<rparr>\<rparr>"

text \<open>\<open>L1BatchHeader::new\<close>.\<close>

definition l1_batch_header_new ::
  "u32 \<Rightarrow> u64 \<Rightarrow> base_system_contracts_hashes \<Rightarrow> protocol_version \<Rightarrow> l1_batch_header" where
  "l1_batch_header_new number timestamp hashes version =
     \<lparr>hd_number = number, hd_timestamp = timestamp, hd_l1_tx_count = 0, hd_l2_tx_count = 0,
      hd_priority_ops_onchain_data = [], hd_l2_to_l1_logs = [], hd_l2_to_l1_messages = [],
      hd_used_contract_hashes = [], hd_base_system_contracts_hashes = hashes,
      hd_system_logs = [], hd_protocol_version = Some version, hd_pubdata_input = Some []\<rparr>"

definition create_genesis ::
  "'h chain_api \<Rightarrow> protocol_version \<Rightarrow> u64 option \<Rightarrow> 'tx block \<times> l1_batch_header" where
  "create_genesis api protocol_version timestamp =
     (let hash = legacy_hash api 0;
          timestamp = case_option NON_FORK_FIRST_BLOCK_TIMESTAMP id timestamp;
          batch_env = genesis_batch_env timestamp
      in (create_block api batch_env hash 0 0 timestamp [] 0 bloom_zero,
          l1_batch_header_new 0 timestamp base_system_contracts_hashes_default protocol_version))"

definition create_genesis_from_json ::
  "'h chain_api \<Rightarrow> protocol_version \<Rightarrow> genesis \<Rightarrow> u64 option \<Rightarrow> api_block \<times> l1_batch_header" where
  "create_genesis_from_json api protocol_version g timestamp =
     (let hash = legacy_hash api 0;
          timestamp = (case timestamp of Some t \<Rightarrow> t
            | None \<Rightarrow> case_option NON_FORK_FIRST_BLOCK_TIMESTAMP id (gen_timestamp g));
          batch_env = case_option (genesis_batch_env timestamp) id (gen_l1_batch_env g)
      in (create_block api batch_env hash (case_option 0 id (gen_parent_hash g))
            (case_option 0 id (gen_block_number g)) timestamp
            (case_option [] id (gen_transactions g)) (case_option 0 id (gen_gas_used g))
            (case_option bloom_zero id (gen_logs_bloom g)),
          l1_batch_header_new 0 timestamp base_system_contracts_hashes_default protocol_version))"

definition debug_info :: "bool \<Rightarrow> transaction_result \<Rightarrow> debug_call" where
  "debug_info only_top r = (case res_debug r of
     DebugCall ty frm to gas gas_used val outp inp err reason calls \<Rightarrow>
       DebugCall ty frm to gas gas_used val outp inp err reason (if only_top then [] else calls))"

definition blockchain_new ::
  "'h chain_api \<Rightarrow> protocol_version \<Rightarrow> ('f, 'p) fork_details option \<Rightarrow> genesis option
     \<Rightarrow> u64 option \<Rightarrow> blockchain_state" where
  "blockchain_new api protocol_version fork_details genesis genesis_timestamp =
     (case fork_details of
        Some fd \<Rightarrow>
          \<lparr>bc_protocol_version = fd_protocol_version fd, bc_current_batch = fd_batch_number fd,
           bc_current_block = fd_block_number fd, bc_current_block_hash = fd_block_hash fd,
           bc_tx_results = [], bc_blocks = [(fd_block_hash fd, fd_api_block fd)],
           bc_hashes = [fd_block_number fd \<mapsto> fd_block_hash fd], bc_batches = Map.empty\<rparr>
      | None \<Rightarrow>
          (let (genesis_block, genesis_batch_header) = (case genesis of
                 Some g \<Rightarrow> create_genesis_from_json api protocol_version g genesis_timestamp
               | None \<Rightarrow> create_genesis api protocol_version genesis_timestamp);
               block_hash = blk_hash genesis_block
           in \<lparr>bc_protocol_version = protocol_version, bc_current_batch = 0, bc_current_block = 0,
               bc_current_block_hash = block_hash, bc_tx_results = [],
               bc_blocks = [(block_hash, genesis_block)], bc_hashes = [0 \<mapsto> block_hash],
               bc_batches = [0 \<mapsto> \<lparr>sb_header = genesis_batch_header, sb_state_diffs = [],
                 sb_aggregation_root = 0\<rparr>]\<rparr>))"

section \<open>Lookups\<close>

definition state_get_block_hash_by_number :: "u32 \<Rightarrow> blockchain_state \<Rightarrow> h256 option" where
  "state_get_block_hash_by_number number s = bc_hashes s number"

definition state_get_block_hash_by_id ::
  "block_id \<Rightarrow> blockchain_state \<Rightarrow> ('e, h256 option) outcome" where
  "state_get_block_hash_by_id block_id s = (case block_id of
       BlockNumber number \<Rightarrow>
         and_then (case number of
             Earliest \<Rightarrow> Inr 0
           | Number n \<Rightarrow> as_u32 n
           | _ \<Rightarrow> Inr (bc_current_block s)) (\<lambda>number. Inr (bc_hashes s number))
     | BlockHash hash \<Rightarrow> Inr (Some hash))"

definition inspect :: "('a \<Rightarrow> ('e, 'b) outcome) \<Rightarrow> 'a option \<Rightarrow> ('e, 'b option) outcome" where
  "inspect f x = (case x of None \<Rightarrow> Inr None | Some a \<Rightarrow> and_then (f a) (\<lambda>b. Inr (Some b)))"

definition inspect_block_by_hash ::
  "h256 \<Rightarrow> (api_block \<Rightarrow> ('e, 'b) outcome) \<Rightarrow> blockchain_state \<Rightarrow> ('e, 'b option) outcome" where
  "inspect_block_by_hash hash f s = inspect f (map_of (bc_blocks s) hash)"

definition inspect_block_by_number ::
  "u32 \<Rightarrow> (api_block \<Rightarrow> ('e, 'b) outcome) \<Rightarrow> blockchain_state \<Rightarrow> ('e, 'b option) outcome" where
  "inspect_block_by_number number f s = (case state_get_block_hash_by_number number s of
       None \<Rightarrow> Inr None
     | Some hash \<Rightarrow> inspect f (map_of (bc_blocks s) hash))"

definition inspect_block_by_id ::
  "block_id \<Rightarrow> (api_block \<Rightarrow> ('e, 'b) outcome) \<Rightarrow> blockchain_state \<Rightarrow> ('e, 'b option) outcome" where
  "inspect_block_by_id block_id f s = and_then (state_get_block_hash_by_id block_id s) (\<lambda>h. case h of
       None \<Rightarrow> Inr None
     | Some hash \<Rightarrow> inspect f (map_of (bc_blocks s) hash))"

definition inspect_tx ::
  "h256 \<Rightarrow> (transaction_result \<Rightarrow> ('e, 'b) outcome) \<Rightarrow> blockchain_state \<Rightarrow> ('e, 'b option) outcome" where
  "inspect_tx txh f s = inspect f (map_of (bc_tx_results s) txh)"

definition inspect_batch ::
  "u32 \<Rightarrow> (stored_l1_batch_info \<Rightarrow> ('e, 'b) outcome) \<Rightarrow> blockchain_state \<Rightarrow> ('e, 'b option) outcome" where
  "inspect_batch batch_number f s = inspect f (bc_batches s batch_number)"

definition get_block_by_hash :: "h256 \<Rightarrow> blockchain_state \<Rightarrow> ('e, api_block option) outcome" where
  "get_block_by_hash hash s = inspect_block_by_hash hash Inr s"

definition get_block_by_number :: "u32 \<Rightarrow> blockchain_state \<Rightarrow> ('e, api_block option) outcome" where
  "get_block_by_number number s = inspect_block_by_number number Inr s"

definition get_block_by_id :: "block_id \<Rightarrow> blockchain_state \<Rightarrow> ('e, api_block option) outcome" where
  "get_block_by_id block_id s = inspect_block_by_id block_id Inr s"

definition get_block_hash_by_number :: "u32 \<Rightarrow> blockchain_state \<Rightarrow> ('e, h256 option) outcome" where
  "get_block_hash_by_number number s = inspect_block_by_number number (\<lambda>b. Inr (blk_hash b)) s"

definition get_block_hash_by_id :: "block_id \<Rightarrow> blockchain_state \<Rightarrow> ('e, h256 option) outcome" where
  "get_block_hash_by_id block_id s = inspect_block_by_id block_id (\<lambda>b. Inr (blk_hash b)) s"

definition get_block_number_by_hash :: "h256 \<Rightarrow> blockchain_state \<Rightarrow> ('e, u32 option) outcome" where
  "get_block_number_by_hash hash s = inspect_block_by_hash hash (\<lambda>b. as_u32 (blk_number b)) s"

definition get_block_number_by_id :: "block_id \<Rightarrow> blockchain_state \<Rightarrow> ('e, u32 option) outcome" where
  "get_block_number_by_id block_id s = inspect_block_by_id block_id (\<lambda>b. as_u32 (blk_number b)) s"

fun variant_hash :: "transaction_variant \<Rightarrow> h256" where
  "variant_hash (Full tx) = atx_hash tx"
| "variant_hash (Hash h) = h"

definition get_block_tx_hashes_by_id ::
  "block_id \<Rightarrow> blockchain_state \<Rightarrow> ('e, h256 list option) outcome" where
  "get_block_tx_hashes_by_id block_id s =
     inspect_block_by_id block_id (\<lambda>b. Inr (map variant_hash (blk_transactions b))) s"

definition get_block_tx_hashes_by_number ::
  "u32 \<Rightarrow> blockchain_state \<Rightarrow> ('e, h256 list option) outcome" where
  "get_block_tx_hashes_by_number number s =
     get_block_tx_hashes_by_id (BlockNumber (Number (ucast number))) s"

fun variant_full :: "transaction_variant \<Rightarrow> ('e, api_transaction) outcome" where
  "variant_full (Full tx) = Inr tx"
| "variant_full (Hash h) = Inl (Panic ''we only store full txs in blocks'')"

definition get_block_tx_by_id ::
  "block_id \<Rightarrow> nat \<Rightarrow> blockchain_state \<Rightarrow> ('e, api_transaction option) outcome" where
  "get_block_tx_by_id block_id index s = and_then
     (inspect_block_by_id block_id (\<lambda>b. inspect variant_full
        (if index < length (blk_transactions b) then Some (blk_transactions b ! index) else None)) s)
     (\<lambda>r. Inr (Option.bind r id))"

definition get_block_tx_count_by_id :: "block_id \<Rightarrow> blockchain_state \<Rightarrow> ('e, nat option) outcome" where
  "get_block_tx_count_by_id block_id s =
     inspect_block_by_id block_id (\<lambda>b. Inr (length (blk_transactions b))) s"

text \<open>\<open>api::BlockDetails\<close> without the fields that are always \<open>None\<close>, zero or \<open>Verified\<close> here. The
  protocol version reported is the field of \<open>Blockchain\<close>, not that of the state.\<close>

record block_details =
  bd_number :: u32
  bd_l1_batch_number :: u32
  bd_timestamp :: u64
  bd_l1_tx_count :: nat
  bd_l2_tx_count :: nat
  bd_root_hash :: "h256 option"
  bd_l2_fair_gas_price :: u64
  bd_fair_pubdata_price :: "u64 option"
  bd_base_system_contracts_hashes :: base_system_contracts_hashes
  bd_operator_address :: address
  bd_protocol_version :: "protocol_version option"

definition get_block_details_by_number ::
  "protocol_version \<Rightarrow> u32 \<Rightarrow> u64 \<Rightarrow> u64 option \<Rightarrow> base_system_contracts_hashes \<Rightarrow> blockchain_state
     \<Rightarrow> ('e, block_details option) outcome" where
  "get_block_details_by_number protocol_version number l2_fair_gas_price pubdata_price hashes s =
     inspect_block_by_number number (\<lambda>b.
       and_then (as_u32 (blk_number b)) (\<lambda>n.
       and_then (as_u32 (case_option 0 id (blk_l1_batch_number b))) (\<lambda>batch.
       and_then (as_u64 (blk_timestamp b)) (\<lambda>ts.
         Inr \<lparr>bd_number = n, bd_l1_batch_number = batch, bd_timestamp = ts, bd_l1_tx_count = 1,
           bd_l2_tx_count = length (blk_transactions b), bd_root_hash = Some (blk_hash b),
           bd_l2_fair_gas_price = l2_fair_gas_price, bd_fair_pubdata_price = pubdata_price,
           bd_base_system_contracts_hashes = hashes, bd_operator_address = 0,
           bd_protocol_version = Some protocol_version\<rparr>)))) s"

definition get_tx_receipt :: "h256 \<Rightarrow> blockchain_state \<Rightarrow> ('e, transaction_receipt option) outcome" where
  "get_tx_receipt txh s = inspect_tx txh (\<lambda>r. Inr (res_receipt r)) s"

definition get_tx_debug_info :: "h256 \<Rightarrow> bool \<Rightarrow> blockchain_state \<Rightarrow> ('e, debug_call option) outcome" where
  "get_tx_debug_info txh only_top s = inspect_tx txh (\<lambda>r. Inr (debug_info only_top r)) s"

definition get_zksync_tx :: "h256 \<Rightarrow> blockchain_state \<Rightarrow> ('e, transaction option) outcome" where
  "get_zksync_tx txh s = inspect_tx txh (\<lambda>r. Inr (info_tx (res_info r))) s"

fun transaction_type_code :: "transaction_type \<Rightarrow> u64" where
  "transaction_type_code LegacyTransaction = 0"
| "transaction_type_code EIP2930Transaction = 1"
| "transaction_type_code EIP1559Transaction = 2"
| "transaction_type_code EIP712Transaction = 113"
| "transaction_type_code PriorityOpTransaction = 255"
| "transaction_type_code ProtocolUpgradeTransaction = 254"

definition get_tx_api :: "h256 \<Rightarrow> blockchain_state \<Rightarrow> (string, api_transaction option) outcome" where
  "get_tx_api txh s = inspect_tx txh (\<lambda>r.
     let tx = info_tx (res_info r) in
     case tx_common_data tx of
       L2 d \<Rightarrow>
         and_then (ok_or ''tx has malformed chain id'' (l2_chain_id d)) (\<lambda>chain_id.
         and_then (ok_or ''tx is missing input data'' (l2_input d)) (\<lambda>input_data.
         Inr \<lparr>atx_hash = txh, atx_nonce = ucast (l2_nonce d), atx_block_hash = Some txh,
           atx_block_number = Some (info_miniblock_number (res_info r)),
           atx_transaction_index = Some (rcpt_transaction_index (res_receipt r)),
           atx_from = Some (tx_initiator_account tx), atx_to = tx_recipient_account tx,
           atx_value = tx_value tx, atx_gas_price = Some 0, atx_gas = 0, atx_input = input_data,
           atx_v = Some chain_id, atx_r = Some 0, atx_s = Some 0, atx_y_parity = Some 0,
           atx_raw = None, atx_transaction_type = Some (transaction_type_code (l2_transaction_type d)),
           atx_max_fee_per_gas = Some (fee_max_fee_per_gas (l2_fee d)),
           atx_max_priority_fee_per_gas = Some (fee_max_priority_fee_per_gas (l2_fee d)),
           atx_chain_id = ucast chain_id,
           atx_l1_batch_number = Some (ucast (info_batch_number (res_info r))),
           atx_l1_batch_tx_index = None\<rparr>))
     | _ \<Rightarrow> Inl (Err ''inspection of non-L2 transactions is unsupported'')) s"

record detailed_transaction =
  det_inner :: api_transaction
  det_output :: "bytes option"
  det_revert_reason :: "string option"

definition get_detailed_tx ::
  "api_transaction \<Rightarrow> blockchain_state \<Rightarrow> ('e, detailed_transaction option) outcome" where
  "get_detailed_tx tx s = inspect_tx (atx_hash tx) (\<lambda>r.
     Inr \<lparr>det_inner = tx, det_output = Some (dc_output (res_debug r)),
       det_revert_reason = dc_revert_reason (res_debug r)\<rparr>) s"

text \<open>\<open>utc_datetime_from_epoch_ms\<close>; \<open>DateTime::from_timestamp\<close> of chrono is the argument. The
  seconds are below \<open>2 ^ 63\<close>, so the conversion to \<open>i64\<close> is exact.\<close>

definition utc_datetime_from_epoch_ms ::
  "(int \<Rightarrow> u32 \<Rightarrow> 'dt option) \<Rightarrow> u64 \<Rightarrow> ('e, 'dt) outcome" where
  "utc_datetime_from_epoch_ms from_timestamp millis =
     (let secs = millis div 1000; nanos = (millis mod 1000) * 1000000
      in expect ''valid timestamp'' (from_timestamp (uint secs) (ucast nanos)))"

record 'dt transaction_details =
  td_is_l1_originated :: bool
  td_fee :: u256
  td_gas_per_pubdata :: u256
  td_initiator_address :: address
  td_received_at :: 'dt

definition get_tx_details ::
  "(int \<Rightarrow> u32 \<Rightarrow> 'dt option) \<Rightarrow> h256 \<Rightarrow> blockchain_state
     \<Rightarrow> ('e, 'dt transaction_details option) outcome" where
  "get_tx_details from_timestamp txh s = inspect_tx txh (\<lambda>r.
     and_then (expect ''arithmetic operation overflow''
       (checked_mul (case_option 0 id (rcpt_effective_gas_price (res_receipt r)))
          (case_option 0 id (rcpt_gas_used (res_receipt r))))) (\<lambda>fee.
     and_then (utc_datetime_from_epoch_ms from_timestamp
         (tx_received_timestamp_ms (info_tx (res_info r)))) (\<lambda>received_at.
     Inr \<lparr>td_is_l1_originated = False, td_fee = fee,
       td_gas_per_pubdata = tx_gas_per_pubdata_byte_limit (info_tx (res_info r)),
       td_initiator_address = tx_initiator_account (info_tx (res_info r)),
       td_received_at = received_at\<rparr>))) s"

text \<open>\<open>iter().filter(..)\<close> with a predicate that may panic, and \<open>flat_map\<close> over the results.\<close>

fun filter_logs :: "log_filter \<Rightarrow> u64 \<Rightarrow> log list \<Rightarrow> (string, log list) outcome" where
  "filter_logs f latest [] = Inr []"
| "filter_logs f latest (l # ls) =
     and_then (filter_matches f l latest) (\<lambda>m.
     and_then (filter_logs f latest ls) (\<lambda>ls'. Inr (if m then l # ls' else ls')))"

definition get_filter_logs :: "log_filter \<Rightarrow> blockchain_state \<Rightarrow> (string, log list) outcome" where
  "get_filter_logs f s = filter_logs f (ucast (bc_current_block s))
     (concat (map (\<lambda>(h, r). rcpt_logs (res_receipt r)) (bc_tx_results s)))"

definition get_batch_header :: "u32 \<Rightarrow> blockchain_state \<Rightarrow> ('e, l1_batch_header option) outcome" where
  "get_batch_header batch_number s = inspect_batch batch_number (\<lambda>b. Inr (sb_header b)) s"

definition get_batch_state_diffs ::
  "u32 \<Rightarrow> blockchain_state \<Rightarrow> ('e, state_diff_record list option) outcome" where
  "get_batch_state_diffs batch_number s = inspect_batch batch_number (\<lambda>b. Inr (sb_state_diffs b)) s"

definition get_batch_aggregation_root :: "u32 \<Rightarrow> blockchain_state \<Rightarrow> ('e, h256 option) outcome" where
  "get_batch_aggregation_root batch_number s =
     inspect_batch batch_number (\<lambda>b. Inr (sb_aggregation_root b)) s"

section \<open>The environment of the last block\<close>

definition load_last_l1_batch :: "'h chain_api \<Rightarrow> (storage_key \<Rightarrow> h256) \<Rightarrow> (u64 \<times> u64) option" where
  "load_last_l1_batch api read_value =
     (let (batch_number, batch_timestamp) =
            unpack_block_info api (read_value (system_context_block_info_key api));
          block_number = (ucast batch_number :: u32)
      in if block_number = 0 then None else Some (batch_number, batch_timestamp))"

definition last_env ::
  "'h chain_api \<Rightarrow> (storage_key \<Rightarrow> h256) \<Rightarrow> time_state \<Rightarrow> blockchain_state \<Rightarrow> u32 \<times> l2_block" where
  "last_env api read_value time s =
     ((case load_last_l1_batch api read_value of
         Some (num, _) \<Rightarrow> ucast num
       | None \<Rightarrow> bc_current_batch s),
      (case load_last_l2_block api read_value of
         Some b \<Rightarrow> b
       | None \<Rightarrow> \<lparr>l2b_number = bc_current_block s, l2b_timestamp = current_timestamp time,
           l2b_hash = legacy_hash api (bc_current_block s)\<rparr>))"

section \<open>Updates\<close>

definition apply_block :: "api_block \<Rightarrow> u32 \<Rightarrow> blockchain_state \<Rightarrow> (string, blockchain_state) outcome" where
  "apply_block block index s =
     and_then (expect ''called Option::unwrap() on a None value''
       (map_of (bc_blocks s) (bc_current_block_hash s))) (\<lambda>latest_block.
     let current_block = bc_current_block s + 1 in
     and_then (expect ''block must have a l1_batch_number'' (blk_l1_batch_number block)) (\<lambda>n.
     and_then (as_u32 n) (\<lambda>actual_l1_batch_number.
     if actual_l1_batch_number \<noteq> bc_current_batch s
     then Inl (Panic ''expected next block to have batch_number'')
     else and_then (as_u32 (blk_number block)) (\<lambda>number.
     if number \<noteq> current_block
     then Inl (Panic ''expected next block to have miniblock'')
     else and_then (as_u64 (blk_timestamp block)) (\<lambda>timestamp.
     and_then (as_u64 (blk_timestamp latest_block)) (\<lambda>latest_timestamp.
     if timestamp \<le> latest_timestamp
     then Inl (Panic ''expected next block to have timestamp bigger than'')
     else Inr (s\<lparr>bc_current_block := current_block,
       bc_current_block_hash := blk_hash block,
       bc_hashes := (bc_hashes s)(number \<mapsto> blk_hash block),
       bc_blocks := AList.update (blk_hash block) block (bc_blocks s)\<rparr>)))))))"

fun is_l1_tx :: "execute_transaction_common \<Rightarrow> bool" where
  "is_l1_tx (L1 _) = True"
| "is_l1_tx _ = False"

fun l1_onchain_data_of :: "execute_transaction_common \<Rightarrow> bytes option" where
  "l1_onchain_data_of (L1 d) = Some (l1_onchain_data d)"
| "l1_onchain_data_of (L2 _) = None"
| "l1_onchain_data_of ProtocolUpgrade = None"

fun extend_tx_results ::
  "transaction_result list \<Rightarrow> (h256 \<times> transaction_result) list \<Rightarrow> (h256 \<times> transaction_result) list" where
  "extend_tx_results [] m = m"
| "extend_tx_results (r # rs) m =
     extend_tx_results rs (AList.update (rcpt_transaction_hash (res_receipt r)) r m)"

definition apply_batch_header ::
  "'h chain_api \<Rightarrow> u32 \<Rightarrow> u64 \<Rightarrow> base_system_contracts_hashes \<Rightarrow> transaction_result list
     \<Rightarrow> finished_l1_batch \<Rightarrow> protocol_version \<Rightarrow> l1_batch_header" where
  "apply_batch_header api number batch_timestamp hashes tx_results finished version =
     (let commons = map (\<lambda>r. tx_common_data (info_tx (res_info r))) tx_results;
          l1_tx_count = (of_nat (length (filter is_l1_tx commons)) :: u16)
      in \<lparr>hd_number = number, hd_timestamp = batch_timestamp, hd_l1_tx_count = l1_tx_count,
          hd_l2_tx_count = of_nat (length tx_results) - l1_tx_count,
          hd_priority_ops_onchain_data = List.map_filter l1_onchain_data_of commons,
          hd_l2_to_l1_logs = fb_user_l2_to_l1_logs finished,
          hd_l2_to_l1_messages = extract_long_l2_to_l1_messages api (fb_events finished),
          hd_used_contract_hashes = fb_used_contract_hashes finished,
          hd_base_system_contracts_hashes = hashes,
          hd_system_logs = fb_system_logs finished, hd_protocol_version = Some version,
          hd_pubdata_input = fb_pubdata_input finished\<rparr>)"

definition apply_batch ::
  "'h chain_api \<Rightarrow> u64 \<Rightarrow> base_system_contracts_hashes \<Rightarrow> transaction_result list
     \<Rightarrow> finished_l1_batch \<Rightarrow> h256 \<Rightarrow> blockchain_state \<Rightarrow> blockchain_state" where
  "apply_batch api batch_timestamp hashes tx_results finished aggregation_root s =
     (let current_batch = bc_current_batch s + 1;
          header = apply_batch_header api current_batch batch_timestamp hashes tx_results finished
            (bc_protocol_version s)
      in s\<lparr>bc_current_batch := current_batch,
           bc_batches := (bc_batches s)(current_batch \<mapsto>
             \<lparr>sb_header = header, sb_state_diffs = case_option [] id (fb_state_diffs finished),
              sb_aggregation_root = aggregation_root\<rparr>),
           bc_tx_results := extend_tx_results tx_results (bc_tx_results s)\<rparr>)"

fun insert_blocks :: "api_block list \<Rightarrow> blockchain_state \<Rightarrow> blockchain_state" where
  "insert_blocks [] s = s"
| "insert_blocks (b # bs) s = insert_blocks bs
     (s\<lparr>bc_hashes := (bc_hashes s)(ucast (blk_number b) \<mapsto> blk_hash b),
        bc_blocks := AList.update (blk_hash b) b (bc_blocks s)\<rparr>)"

text \<open>\<open>Iterator::max_by_key\<close>: the last of the maximal elements.\<close>

fun max_by_number :: "api_block list \<Rightarrow> api_block option \<Rightarrow> api_block option" where
  "max_by_number [] m = m"
| "max_by_number (b # bs) None = max_by_number bs (Some b)"
| "max_by_number (b # bs) (Some m) =
     max_by_number bs (Some (if blk_number m \<le> blk_number b then b else m))"

definition load_blocks ::
  "api_block list \<Rightarrow> time_state \<Rightarrow> blockchain_state
     \<Rightarrow> (string, time_state \<times> blockchain_state) outcome" where
  "load_blocks blocks time s =
     (let s' = insert_blocks blocks s in
      and_then (expect ''called Option::unwrap() on a None value''
        (max_by_number (map snd (bc_blocks s')) None)) (\<lambda>latest_block.
      and_then (expect ''encountered a block with no batch; this is not supposed to happen''
        (blk_l1_batch_number latest_block)) (\<lambda>n.
      and_then (as_u32 n) (\<lambda>latest_batch_number.
      and_then (as_u64 (blk_timestamp latest_block)) (\<lambda>latest_timestamp.
      Inr (reset_to latest_timestamp time,
        s'\<lparr>bc_current_block := ucast (blk_number latest_block),
           bc_current_block_hash := blk_hash latest_block,
           bc_current_batch := latest_batch_number\<rparr>))))))"

definition load_transactions :: "transaction_result list \<Rightarrow> blockchain_state \<Rightarrow> blockchain_state" where
  "load_transactions transactions s =
     s\<lparr>bc_tx_results := extend_tx_results transactions (bc_tx_results s)\<rparr>"

section \<open>The chain as a list of blocks\<close>

text \<open>
  What the state stands for: the blocks from the first local one to the latest, in order. The
  numbers are consecutive, the timestamps increase strictly, and the two maps hold exactly
  these blocks.
\<close>

definition block_ts :: "api_block \<Rightarrow> nat" where
  "block_ts b = unat (blk_timestamp b)"

definition chain_numbers :: "api_block list \<Rightarrow> bool" where
  "chain_numbers bs \<longleftrightarrow> (\<forall>i < length bs. unat (blk_number (bs ! i)) = unat (blk_number (hd bs)) + i)
     \<and> unat (blk_number (last bs)) < 2 ^ 32"

definition represents :: "blockchain_state \<Rightarrow> api_block list \<Rightarrow> bool" where
  "represents s bs \<longleftrightarrow> bs \<noteq> [] \<and> chain_numbers bs \<and> sorted_wrt (\<lambda>a b. block_ts a < block_ts b) bs
     \<and> block_ts (last bs) < 2 ^ 64
     \<and> distinct (map blk_hash bs)
     \<and> map_of (bc_blocks s) = map_of (map (\<lambda>b. (blk_hash b, b)) bs)
     \<and> bc_hashes s = map_of (map (\<lambda>b. (ucast (blk_number b), blk_hash b)) bs)
     \<and> bc_current_block s = ucast (blk_number (last bs))
     \<and> bc_current_block_hash s = blk_hash (last bs)"

definition accepts_block :: "blockchain_state \<Rightarrow> api_block list \<Rightarrow> api_block \<Rightarrow> bool" where
  "accepts_block s bs b \<longleftrightarrow> blk_l1_batch_number b = Some (ucast (bc_current_batch s))
     \<and> unat (blk_number b) = unat (blk_number (last bs)) + 1
     \<and> block_ts (last bs) < block_ts b \<and> block_ts b < 2 ^ 64"

lemma chain_numbers_last:
  assumes "chain_numbers bs" and "bs \<noteq> []"
  shows "unat (blk_number (last bs)) = unat (blk_number (hd bs)) + (length bs - 1)"
  using assms by (simp add: chain_numbers_def last_conv_nth)

lemma chain_numbers_snoc:
  assumes "chain_numbers bs" and "bs \<noteq> []"
    and "unat (blk_number b) = unat (blk_number (last bs)) + 1" and "unat (blk_number b) < 2 ^ 32"
  shows "chain_numbers (bs @ [b])"
  using assms chain_numbers_last [OF assms(1,2)]
  by (auto simp: chain_numbers_def nth_append less_Suc_eq)

lemma chain_numbers_less:
  assumes "chain_numbers bs" and "b \<in> set bs"
  shows "unat (blk_number b) \<le> unat (blk_number (last bs))" "unat (blk_number b) < 2 ^ 32"
proof -
  from assms(2) obtain i where i: "i < length bs" "b = bs ! i" by (auto simp: in_set_conv_nth)
  have ne: "bs \<noteq> []" using assms(2) by auto
  show le: "unat (blk_number b) \<le> unat (blk_number (last bs))"
    using assms(1) i chain_numbers_last [OF assms(1) ne] by (simp add: chain_numbers_def)
  show "unat (blk_number b) < 2 ^ 32"
    using le assms(1) by (simp add: chain_numbers_def)
qed

lemma sorted_wrt_last:
  "sorted_wrt (\<lambda>a b. f a < (f b :: nat)) bs \<Longrightarrow> c \<in> set bs \<Longrightarrow> f c \<le> f (last bs)"
  by (induction bs) (auto intro: less_imp_le)

lemma chain_numbers_distinct:
  assumes "chain_numbers bs"
  shows "distinct (map (\<lambda>b. ucast (blk_number b) :: u32) bs)"
proof (subst distinct_conv_nth, intro allI impI)
  fix i j
  assume ij: "i < length (map (\<lambda>b. ucast (blk_number b) :: u32) bs)"
    "j < length (map (\<lambda>b. ucast (blk_number b) :: u32) bs)" "i \<noteq> j"
  then have "unat (blk_number (bs ! i)) \<noteq> unat (blk_number (bs ! j))"
    using assms by (simp add: chain_numbers_def)
  moreover have "unat (blk_number (bs ! i)) < 2 ^ 32" "unat (blk_number (bs ! j)) < 2 ^ 32"
    using ij chain_numbers_less(2) [OF assms] by simp_all
  ultimately show "map (\<lambda>b. ucast (blk_number b) :: u32) bs ! i \<noteq> map (\<lambda>b. ucast (blk_number b) :: u32) bs ! j"
    using ij ucast_fits_inj [of "blk_number (bs ! i)" "blk_number (bs ! j)", where 'b = 32] by auto
qed

lemma represents_apply_block:
  assumes r: "represents s bs" and a: "accepts_block s bs b" and fresh: "blk_hash b \<notin> blk_hash ` set bs"
    and room: "unat (blk_number (last bs)) + 1 < 2 ^ 32"
  shows "\<exists>s'. apply_block b i s = Inr s' \<and> represents s' (bs @ [b])
    \<and> bc_current_batch s' = bc_current_batch s \<and> bc_tx_results s' = bc_tx_results s
    \<and> bc_batches s' = bc_batches s"
proof -
  let ?s = "s\<lparr>bc_current_block := ucast (blk_number b), bc_current_block_hash := blk_hash b,
    bc_hashes := (bc_hashes s)(ucast (blk_number b) \<mapsto> blk_hash b),
    bc_blocks := AList.update (blk_hash b) b (bc_blocks s)\<rparr>"
  have ne: "bs \<noteq> []" and nums: "chain_numbers bs" and dist: "distinct (map blk_hash bs)"
    and blocks: "map_of (bc_blocks s) = map_of (map (\<lambda>b. (blk_hash b, b)) bs)"
    and hashes: "bc_hashes s = map_of (map (\<lambda>b. (ucast (blk_number b), blk_hash b)) bs)"
    using r by (simp_all add: represents_def)
  have num: "unat (blk_number b) = unat (blk_number (last bs)) + 1"
    using a by (simp add: accepts_block_def)
  have num32: "unat (blk_number b) < 2 ^ 32" using num room by simp
  have latest: "map_of (bc_blocks s) (bc_current_block_hash s) = Some (last bs)"
    using r ne dist by (simp add: represents_def map_of_is_SomeI o_def)
  have lts: "as_u64 (blk_timestamp (last bs)) = Inr (ucast (blk_timestamp (last bs)))"
    and ts: "as_u64 (blk_timestamp b) = Inr (ucast (blk_timestamp b))"
    and less: "\<not> (ucast (blk_timestamp b) :: u64) \<le> ucast (blk_timestamp (last bs))"
    using r a by (simp_all add: represents_def accepts_block_def block_ts_def as_u64_def
        word_le_nat_alt unat_ucast_fits)
  have current: "ucast (blk_number b) = bc_current_block s + 1"
  proof (rule unat_eqI)
    have "unat (bc_current_block s) = unat (blk_number (last bs))"
      using r nums by (simp add: represents_def chain_numbers_def unat_ucast_fits)
    then show "unat (ucast (blk_number b) :: u32) = unat (bc_current_block s + 1)"
      using room num num32 by (simp add: unat_ucast_fits unat_word_ariths)
  qed
  have step: "apply_block b i s = Inr ?s"
    using a num32 by (simp add: apply_block_def latest lts ts less accepts_block_def current Let_def
        as_u32_def [of "blk_number b"])
  have fresh_num: "ucast (blk_number b) \<notin> (\<lambda>b. ucast (blk_number b) :: u32) ` set bs"
  proof
    assume "ucast (blk_number b) \<in> (\<lambda>b. ucast (blk_number b) :: u32) ` set bs"
    then obtain c where "c \<in> set bs" "(ucast (blk_number b) :: u32) = ucast (blk_number c)" by auto
    then have "blk_number b = blk_number c" and "unat (blk_number c) \<le> unat (blk_number (last bs))"
      using chain_numbers_less [OF nums] num32 by (auto intro: ucast_fits_inj)
    with num show False by simp
  qed
  have "[blk_hash b \<mapsto> b] ++ map_of (map (\<lambda>b. (blk_hash b, b)) bs)
      = (map_of (map (\<lambda>b. (blk_hash b, b)) bs))(blk_hash b \<mapsto> b)"
    and "[ucast (blk_number b) \<mapsto> blk_hash b] ++ map_of (map (\<lambda>b. (ucast (blk_number b) :: u32, blk_hash b)) bs)
      = (map_of (map (\<lambda>b. (ucast (blk_number b), blk_hash b)) bs))(ucast (blk_number b) \<mapsto> blk_hash b)"
    using map_of_snoc [of "blk_hash b" "map (\<lambda>b. (blk_hash b, b)) bs" b]
      map_of_snoc [of "ucast (blk_number b) :: u32" "map (\<lambda>b. (ucast (blk_number b), blk_hash b)) bs"
        "blk_hash b"] fresh fresh_num
    by (simp_all add: image_image)
  moreover have "\<forall>c \<in> set bs. block_ts c < block_ts b"
    using r a sorted_wrt_last [of block_ts bs] by (fastforce simp: represents_def accepts_block_def)
  ultimately have "represents ?s (bs @ [b])"
    using r a ne fresh chain_numbers_snoc [OF nums ne num num32]
    by (simp add: represents_def accepts_block_def sorted_wrt_append update_conv')
  with step show ?thesis by (intro exI [of _ ?s]) simp
qed

lemma apply_block_accepts:
  assumes r: "represents s bs" and room: "unat (blk_number (last bs)) + 1 < 2 ^ 32"
    and ok: "apply_block b i s = Inr s'"
  shows "accepts_block s bs b"
proof -
  have ne: "bs \<noteq> []" and dist: "distinct (map blk_hash bs)" and nums: "chain_numbers bs"
    using r by (simp_all add: represents_def)
  have latest: "map_of (bc_blocks s) (bc_current_block_hash s) = Some (last bs)"
    using r ne dist by (simp add: represents_def map_of_is_SomeI o_def)
  from ok latest obtain n where n: "blk_l1_batch_number b = Some n" "ucast n = bc_current_batch s"
      "unat n < 2 ^ 32"
    and num: "ucast (blk_number b) = bc_current_block s + 1" "unat (blk_number b) < 2 ^ 32"
    and ts: "unat (blk_timestamp b) < 2 ^ 64" "unat (blk_timestamp (last bs)) < 2 ^ 64"
      "\<not> (ucast (blk_timestamp b) :: u64) \<le> ucast (blk_timestamp (last bs))"
    by (auto simp: apply_block_def Let_def as_u64_def as_u32_Inr_iff split: if_splits)
  have "n = ucast (bc_current_batch s)"
    using n(2,3) by (intro unat_eqI) (simp add: n(2) [symmetric] unat_ucast_fits)
  moreover have "unat (blk_number b) = unat (bc_current_block s + 1)"
    using num by (simp add: num(1) [symmetric] unat_ucast_fits)
  moreover have "unat (bc_current_block s) = unat (blk_number (last bs))"
    using r nums by (simp add: represents_def chain_numbers_def unat_ucast_fits)
  ultimately show ?thesis
    using n(1) ts room by (simp add: accepts_block_def block_ts_def word_le_nat_alt unat_ucast_fits
        unat_word_ariths)
qed

lemma apply_block_extends:
  assumes "represents s bs" and "apply_block b i s = Inr s'" and "blk_hash b \<notin> blk_hash ` set bs"
    and "unat (blk_number (last bs)) + 1 < 2 ^ 32"
  shows "represents s' (bs @ [b]) \<and> bc_batches s' = bc_batches s \<and> bc_tx_results s' = bc_tx_results s
    \<and> accepts_block s bs b"
  using represents_apply_block [OF assms(1) _ assms(3,4), of i]
    apply_block_accepts [OF assms(1,4,2)] assms(2) by auto

lemma represents_apply_batch [simp]:
  "represents (apply_batch api ts hashes rs finished root s) bs = represents s bs"
  by (simp add: apply_batch_def represents_def Let_def)

text \<open>C37: \<open>apply_block\<close> refines appending to the chain. On a state that represents a chain, and for a
  block whose hash is new, it succeeds exactly when the block is in the current batch, has
  the next number and a later 64-bit timestamp; the resulting state represents the chain extended by
  it. In every other case it panics.\<close>

theorem apply_block_refines:
  assumes "represents s bs" and "blk_hash b \<notin> blk_hash ` set bs"
    and "unat (blk_number (last bs)) + 1 < 2 ^ 32"
  shows "(is_ok (apply_block b i s) \<longleftrightarrow> accepts_block s bs b)
    \<and> (\<forall>s'. apply_block b i s = Inr s' \<longrightarrow> represents s' (bs @ [b]))"
  using represents_apply_block [OF assms(1) _ assms(2,3)] apply_block_accepts [OF assms(1,3)]
  by (fastforce simp: is_ok_iff)

theorem apply_block_refines_witness:
  "is_ok (apply_block (create_block sample_chain_api (genesis_batch_env 5) 1 1000 1 1001 [] 0 bloom_zero)
      0 (blockchain_new sample_chain_api 26 (None :: (unit, unit) fork_details option) None None))"
proof -
  let ?s = "blockchain_new sample_chain_api 26 (None :: (unit, unit) fork_details option) None None"
  let ?g = "fst (create_genesis sample_chain_api 26 None) :: api_block"
  let ?b = "create_block sample_chain_api (genesis_batch_env 5) 1 1000 1 1001 [] 0 bloom_zero :: api_block"
  have "represents ?s [?g]"
    by (simp add: represents_def blockchain_new_def create_genesis_def Let_def create_block_def
        chain_numbers_def block_ts_def NON_FORK_FIRST_BLOCK_TIMESTAMP_def)
  moreover have "accepts_block ?s [?g] ?b"
    by (simp add: accepts_block_def blockchain_new_def create_genesis_def Let_def create_block_def
        block_ts_def NON_FORK_FIRST_BLOCK_TIMESTAMP_def genesis_batch_env_def)
  moreover have "blk_hash ?b \<notin> blk_hash ` set [?g]" and "unat (blk_number (last [?g])) + 1 < 2 ^ 32"
    by (simp_all add: create_genesis_def Let_def create_block_def sample_chain_api_def)
  ultimately show ?thesis
    using apply_block_refines [of ?s "[?g]" ?b 0] by blast
qed

section \<open>Lookups on a chain\<close>

lemma map_of_map_find: "map_of (map (\<lambda>b. (f b, g b)) bs) k = map_option g (find (\<lambda>b. f b = k) bs)"
  by (induction bs) simp_all

lemma find_distinct:
  "distinct (map f bs) \<Longrightarrow> c \<in> set bs \<Longrightarrow> find (\<lambda>b. f b = f c) bs = Some c"
  by (induction bs) (auto simp: image_iff)

lemma block_of_hash:
  assumes "represents s bs"
  shows "map_of (bc_blocks s) h = find (\<lambda>b. blk_hash b = h) bs"
  using assms by (simp add: represents_def map_of_map_find option.map_ident)

lemma block_of_number:
  assumes "represents s bs"
  shows "inspect_block_by_number n Inr s = Inr (find (\<lambda>b. blk_number b = ucast n) bs)"
proof -
  have dist: "distinct (map blk_hash bs)" and nums: "chain_numbers bs"
    using assms by (simp_all add: represents_def)
  have "ucast (blk_number b) = n \<longleftrightarrow> blk_number b = ucast n" if "b \<in> set bs" for b
  proof
    assume "ucast (blk_number b) = n"
    then show "blk_number b = ucast n"
      using chain_numbers_less(2) [OF nums that] by (auto intro!: unat_eqI simp: unat_ucast_fits)
  next
    assume "blk_number b = ucast n"
    then show "ucast (blk_number b) = n"
      using unat_less_exp [of n] by (auto intro!: unat_eqI simp: unat_ucast_fits)
  qed
  then have eq: "find (\<lambda>b. ucast (blk_number b) = n) bs = find (\<lambda>b. blk_number b = ucast n) bs"
    by (intro find_cong) auto
  show ?thesis
  proof (cases "find (\<lambda>b. blk_number b = ucast n) bs")
    case None
    then show ?thesis
      using assms by (simp add: inspect_block_by_number_def state_get_block_hash_by_number_def
          represents_def map_of_map_find eq)
  next
    case (Some c)
    then have "c \<in> set bs" by (auto simp: find_Some_iff)
    then have "map_of (bc_blocks s) (blk_hash c) = Some c"
      using find_distinct [OF dist] by (simp add: block_of_hash [OF assms])
    with Some show ?thesis
      using assms by (simp add: inspect_block_by_number_def state_get_block_hash_by_number_def
          represents_def map_of_map_find eq inspect_def)
  qed
qed

lemma inspect_block_by_id_number:
  "inspect_block_by_id (BlockNumber (Number m)) f s = and_then (as_u32 m) (\<lambda>n. inspect_block_by_number n f s)"
  by (simp add: as_u32_def inspect_block_by_id_def state_get_block_hash_by_id_def inspect_block_by_number_def
      state_get_block_hash_by_number_def)

text \<open>Block lookups agree with the chain. Every block is found under its hash and its number,
  the tags resolve to the last block, nothing else is found, and only a number above
  32 bits makes a lookup panic.\<close>

theorem chain_lookup:
  assumes "represents s bs"
  shows "get_block_by_hash h s = Inr (find (\<lambda>b. blk_hash b = h) bs)
    \<and> get_block_by_number n s = Inr (find (\<lambda>b. blk_number b = ucast n) bs)
    \<and> get_block_by_id (BlockNumber Latest) s = Inr (Some (last bs))
    \<and> get_block_by_id (BlockNumber (Number m)) s =
        (if unat m < 2 ^ 32 then Inr (find (\<lambda>b. blk_number b = m) bs)
         else Inl (Panic ''Integer overflow when casting to u32''))"
proof (intro conjI)
  have ne: "bs \<noteq> []" and dist: "distinct (map blk_hash bs)" and nums: "chain_numbers bs"
    using assms by (simp_all add: represents_def)
  show "get_block_by_hash h s = Inr (find (\<lambda>b. blk_hash b = h) bs)"
    by (simp add: get_block_by_hash_def inspect_block_by_hash_def block_of_hash [OF assms] inspect_def
        split: option.split)
  show "get_block_by_number n s = Inr (find (\<lambda>b. blk_number b = ucast n) bs)"
    by (simp add: get_block_by_number_def block_of_number [OF assms])
  have "bc_hashes s (bc_current_block s) = Some (blk_hash (last bs))"
    using assms ne find_distinct [OF chain_numbers_distinct [OF nums], of "last bs"]
    by (simp add: represents_def map_of_map_find)
  then show "get_block_by_id (BlockNumber Latest) s = Inr (Some (last bs))"
    using find_distinct [OF dist, of "last bs"] ne
    by (simp add: get_block_by_id_def inspect_block_by_id_def state_get_block_hash_by_id_def
        block_of_hash [OF assms] inspect_def)
  show "get_block_by_id (BlockNumber (Number m)) s =
        (if unat m < 2 ^ 32 then Inr (find (\<lambda>b. blk_number b = m) bs)
         else Inl (Panic ''Integer overflow when casting to u32''))"
  proof -
    have "(ucast (ucast m :: u32) :: u64) = m" if "unat m < 2 ^ 32"
      using that by (intro unat_eqI) (simp add: unat_ucast_fits)
    then show ?thesis
      by (simp add: get_block_by_id_def inspect_block_by_id_number as_u32_def block_of_number [OF assms])
  qed
qed

theorem chain_lookup_witness:
  "get_block_by_id (BlockNumber Latest)
     (blockchain_new sample_chain_api 26 (None :: (unit, unit) fork_details option) None None)
   = (Inr (Some (fst (create_genesis sample_chain_api 26 None))) :: (string, api_block option) outcome)"
proof -
  let ?s = "blockchain_new sample_chain_api 26 (None :: (unit, unit) fork_details option) None None"
  have "represents ?s [fst (create_genesis sample_chain_api 26 None)]"
    by (simp add: represents_def blockchain_new_def create_genesis_def Let_def create_block_def
        chain_numbers_def block_ts_def NON_FORK_FIRST_BLOCK_TIMESTAMP_def)
  then have "get_block_by_id (BlockNumber Latest) ?s
      = (Inr (Some (last [fst (create_genesis sample_chain_api 26 None)])) :: (string, api_block option) outcome)"
    by (rule chain_lookup [THEN conjunct2, THEN conjunct2, THEN conjunct1])
  then show ?thesis by simp
qed

section \<open>Initial chains\<close>

lemma ucast_u32_u64_u32 [simp]: "(ucast (ucast (n::u32) :: u64) :: u32) = n"
  by (rule unat_eqI) (simp add: unat_ucast_fits unat_bounds)

lemma unat_ucast_u256_u64 [simp]: "unat (ucast (t::u64) :: u256) = unat t"
  using unat_less_exp [of t] by (simp add: unat_ucast_fits)

text \<open>The initial state represents a one-block chain: the genesis block, or the forked block
  when the fork details are consistent. A JSON genesis gives such a state exactly when it
  leaves the block number out or sets it to zero, whatever hash it asks for.\<close>

theorem blockchain_new_represents:
  "represents (blockchain_new api v (None :: ('f, 'p) fork_details option) None t)
     [fst (create_genesis api v t)]
   \<and> (blk_hash (fd_api_block fd) = fd_block_hash fd
      \<and> blk_number (fd_api_block fd) = ucast (fd_block_number fd)
      \<and> block_ts (fd_api_block fd) < 2 ^ 64
      \<longrightarrow> represents (blockchain_new api v (Some (fd :: ('f, 'p) fork_details)) g t) [fd_api_block fd])
   \<and> ((\<exists>bs. represents (blockchain_new api v (None :: ('f, 'p) fork_details option) (Some gen) t) bs)
      \<longleftrightarrow> gen_block_number gen \<in> {None, Some 0})"
proof (intro conjI impI)
  let ?s = "blockchain_new api v (None :: ('f, 'p) fork_details option) (Some gen) t"
  let ?b = "fst (create_genesis_from_json api v gen t)"
  have s: "bc_current_block ?s = 0" "bc_hashes ?s = [0 \<mapsto> blk_hash ?b]"
    "bc_blocks ?s = [(blk_hash ?b, ?b)]" "bc_current_block_hash ?s = blk_hash ?b"
    by (simp_all add: blockchain_new_def split_def Let_def)
  have num: "blk_number ?b = case_option 0 id (gen_block_number gen)"
    by (simp add: create_genesis_from_json_def create_block_def Let_def)
  have ts: "block_ts ?b < 2 ^ 64"
    by (simp add: create_genesis_from_json_def create_block_def block_ts_def Let_def unat_bounds)
  show "(\<exists>bs. represents ?s bs) \<longleftrightarrow> gen_block_number gen \<in> {None, Some 0}"
  proof
    assume "\<exists>bs. represents ?s bs"
    then obtain bs where r: "represents ?s bs" ..
    have "map_of (bc_blocks ?s) (blk_hash ?b) = Some ?b" by (simp add: s)
    then have "?b \<in> set bs" using block_of_hash [OF r] by (auto simp: find_Some_iff)
    then have "unat (blk_number ?b) \<le> unat (blk_number (last bs))" "unat (blk_number (last bs)) < 2 ^ 32"
      using r chain_numbers_less(1) [of bs ?b] by (auto simp: represents_def chain_numbers_def)
    moreover have "(ucast (blk_number (last bs)) :: u32) = 0" using r s(1) by (simp add: represents_def)
    ultimately have "unat (blk_number ?b) = 0"
      using unat_ucast_fits [of "blk_number (last bs)", where 'b = 32] by simp
    then show "gen_block_number gen \<in> {None, Some 0}"
      by (cases "gen_block_number gen") (simp_all add: num unat_eq_0)
  next
    assume "gen_block_number gen \<in> {None, Some 0}"
    then have "blk_number ?b = 0" by (auto simp: num)
    then have "represents ?s [?b]" using ts by (simp add: represents_def s chain_numbers_def)
    then show "\<exists>bs. represents ?s bs" ..
  qed
next
  show "represents (blockchain_new api v (None :: ('f, 'p) fork_details option) None t)
      [fst (create_genesis api v t)]"
    by (simp add: represents_def blockchain_new_def create_genesis_def Let_def
        create_block_def chain_numbers_def block_ts_def unat_bounds)
next
  assume "blk_hash (fd_api_block fd) = fd_block_hash fd
      \<and> blk_number (fd_api_block fd) = ucast (fd_block_number fd)
      \<and> block_ts (fd_api_block fd) < 2 ^ 64"
  then show "represents (blockchain_new api v (Some fd) g t) [fd_api_block fd]"
    using unat_less_exp [of "fd_block_number fd"]
    by (simp add: represents_def blockchain_new_def chain_numbers_def)
qed

theorem blockchain_new_represents_witness:
  "\<not> (\<exists>bs. represents (blockchain_new sample_chain_api 26 (None :: (unit, unit) fork_details option)
     (Some \<lparr>gen_hash = Some 9, gen_parent_hash = None, gen_block_number = Some 5, gen_timestamp = Some 7,
       gen_l1_batch_env = None, gen_transactions = None, gen_gas_used = None, gen_logs_bloom = None\<rparr>)
     None) bs)"
  using blockchain_new_represents [where 'f = unit and 'p = unit and api = sample_chain_api and v = 26
      and t = None and gen = "\<lparr>gen_hash = Some 9, gen_parent_hash = None, gen_block_number = Some 5,
        gen_timestamp = Some 7, gen_l1_batch_env = None, gen_transactions = None, gen_gas_used = None,
        gen_logs_bloom = None\<rparr>"] by simp

section \<open>Batches and loaded states\<close>

lemma map_of_extend_other:
  "h \<notin> (\<lambda>r. rcpt_transaction_hash (res_receipt r)) ` set rs
     \<Longrightarrow> map_of (extend_tx_results rs m) h = map_of m h"
  by (induction rs arbitrary: m) (simp_all add: update_conv')

lemma map_of_extend:
  assumes "distinct (map (\<lambda>r. rcpt_transaction_hash (res_receipt r)) rs)" and "r \<in> set rs"
  shows "map_of (extend_tx_results rs m) (rcpt_transaction_hash (res_receipt r)) = Some r"
  using assms
proof (induction rs arbitrary: m)
  case (Cons q rs)
  then show ?case by (cases "r \<in> set rs") (auto simp: map_of_extend_other update_conv')
qed simp

lemma l1_onchain_data_of_None: "l1_onchain_data_of c \<noteq> None \<longleftrightarrow> is_l1_tx c"
  by (cases c) simp_all

text \<open>Applying a batch moves to the next batch number, stores its header under that number
  with transaction counts that add up, makes every executed transaction of the batch and
  its result available under the hash of its receipt, and changes no block.\<close>

theorem apply_batch_spec:
  assumes "distinct (map (\<lambda>r. rcpt_transaction_hash (res_receipt r)) rs)" and "length rs < 2 ^ 16"
    and s': "s' = apply_batch api ts hashes rs finished root s"
  shows "bc_current_batch s' = bc_current_batch s + 1
    \<and> (\<exists>h. get_batch_header (bc_current_batch s') s' = (Inr (Some h) :: ('e, _) outcome)
        \<and> hd_number h = bc_current_batch s + 1
        \<and> unat (hd_l1_tx_count h) + unat (hd_l2_tx_count h) = length rs
        \<and> length (hd_priority_ops_onchain_data h) = unat (hd_l1_tx_count h))
    \<and> (\<forall>r \<in> set rs. get_tx_receipt (rcpt_transaction_hash (res_receipt r)) s'
        = (Inr (Some (res_receipt r)) :: ('e, _) outcome))
    \<and> (represents s bs \<longrightarrow> represents s' bs)"
proof (intro conjI ballI impI)
  let ?commons = "map (\<lambda>r. tx_common_data (info_tx (res_info r))) rs"
  let ?h = "apply_batch_header api (bc_current_batch s + 1) ts hashes rs finished (bc_protocol_version s)"
  have l1: "length (filter is_l1_tx ?commons) \<le> length rs"
    using length_filter_le [of is_l1_tx ?commons] by simp
  then have n1: "unat (of_nat (length (filter is_l1_tx ?commons)) :: u16) = length (filter is_l1_tx ?commons)"
    using assms(2) order_le_less_trans [OF l1 assms(2)] by (simp only: unat_of_nat) simp
  have n: "unat (of_nat (length rs) :: u16) = length rs"
    using assms(2) by (simp add: unat_of_nat)
  have "unat (hd_l1_tx_count ?h) + unat (hd_l2_tx_count ?h) = length rs"
    using l1 n n1 by (simp add: apply_batch_header_def Let_def unat_sub word_le_nat_alt)
  moreover have "length (List.map_filter l1_onchain_data_of cs) = length (filter is_l1_tx cs)" for cs
    by (simp only: List.map_filter_def l1_onchain_data_of_None length_map)
  ultimately show "\<exists>h. get_batch_header (bc_current_batch s') s' = (Inr (Some h) :: ('e, _) outcome)
      \<and> hd_number h = bc_current_batch s + 1
      \<and> unat (hd_l1_tx_count h) + unat (hd_l2_tx_count h) = length rs
      \<and> length (hd_priority_ops_onchain_data h) = unat (hd_l1_tx_count h)"
    using n1 by (intro exI [of _ ?h]) (simp add: s' apply_batch_def get_batch_header_def
        inspect_batch_def inspect_def Let_def, simp add: apply_batch_header_def Let_def)
next
  fix r assume "r \<in> set rs"
  then show "get_tx_receipt (rcpt_transaction_hash (res_receipt r)) s'
      = (Inr (Some (res_receipt r)) :: ('e, _) outcome)"
    using map_of_extend [OF assms(1)] by (simp add: s' apply_batch_def get_tx_receipt_def
        inspect_tx_def inspect_def Let_def)
qed (simp_all add: s' apply_batch_def Let_def represents_def)

definition sample_result :: "h256 \<Rightarrow> transaction_result" where
  "sample_result h =
     \<lparr>res_info = \<lparr>info_tx = sample_tx h 10 5, info_batch_number = 1, info_miniblock_number = 1\<rparr>,
      res_new_bytecodes = [],
      res_receipt = \<lparr>rcpt_transaction_hash = h, rcpt_transaction_index = 0, rcpt_block_hash = 1,
        rcpt_block_number = 1, rcpt_l1_batch_tx_index = None, rcpt_l1_batch_number = Some 1, rcpt_from = 10,
        rcpt_to = None, rcpt_cumulative_gas_used = 0, rcpt_gas_used = Some 21, rcpt_contract_address = None,
        rcpt_logs = [], rcpt_l2_to_l1_logs = [], rcpt_status = 1, rcpt_effective_gas_price = Some 2,
        rcpt_transaction_type = Some 2\<rparr>,
      res_debug = DebugCall DebugCallTypeCall 10 0 0 21 0 [] [] None None []\<rparr>"

theorem apply_batch_spec_witness:
  "get_tx_receipt (rcpt_transaction_hash (res_receipt (sample_result 4)))
       (apply_batch sample_chain_api 1001 base_system_contracts_hashes_default
         [sample_result 3, sample_result 4] finished_l1_batch_mock 0
         (blockchain_new sample_chain_api 26 (None :: (unit, unit) fork_details option) None None))
     = (Inr (Some (res_receipt (sample_result 4))) :: (string, _) outcome)"
proof -
  have "distinct (map (\<lambda>r. rcpt_transaction_hash (res_receipt r)) [sample_result 3, sample_result 4])"
    and "length [sample_result 3, sample_result 4] < 2 ^ 16"
    by (simp_all add: sample_result_def)
  from apply_batch_spec [where 'e = string, OF this refl, THEN conjunct2, THEN conjunct2,
      THEN conjunct1] show ?thesis by (rule bspec) simp
qed

lemma max_by_number_spec:
  "max_by_number bs m = Some b \<Longrightarrow>
     (b \<in> set bs \<or> m = Some b) \<and> (\<forall>c \<in> set bs \<union> set_option m. blk_number c \<le> blk_number b)"
proof (induction bs m rule: max_by_number.induct)
  case (3 b' bs m)
  then show ?case by (auto split: if_splits intro: order_trans)
qed auto

lemma insert_blocks_lookup:
  "distinct (map blk_hash bs) \<Longrightarrow> map_of (bc_blocks (insert_blocks bs s)) h =
     (case find (\<lambda>b. blk_hash b = h) bs of Some b \<Rightarrow> Some b | None \<Rightarrow> map_of (bc_blocks s) h)"
proof (induction bs arbitrary: s)
  case (Cons b bs)
  have "find (\<lambda>c. blk_hash c = blk_hash b) bs = None"
    using Cons.prems by (auto simp: find_None_iff) (metis image_eqI)
  with Cons show ?case by (auto simp: update_conv' split: option.split)
qed simp

text \<open>Loading blocks makes the block with the highest number the current one, takes the batch
  number and the hash from it, restarts the clock at its timestamp, and makes every loaded
  block available under its hash without losing the others.\<close>

theorem load_blocks_spec:
  assumes "load_blocks blocks time s = Inr (time', s')" and "distinct (map blk_hash blocks)"
  shows "(\<exists>b \<in> snd ` set (bc_blocks s'). (\<forall>c \<in> snd ` set (bc_blocks s'). blk_number c \<le> blk_number b)
      \<and> bc_current_block s' = ucast (blk_number b) \<and> bc_current_block_hash s' = blk_hash b
      \<and> (\<exists>n. blk_l1_batch_number b = Some n \<and> unat (bc_current_batch s') = unat n)
      \<and> unat (current_timestamp time') = block_ts b \<and> next_timestamp time' = None)
    \<and> get_block_by_hash h s' = (Inr (case find (\<lambda>b. blk_hash b = h) blocks of
        Some b \<Rightarrow> Some b | None \<Rightarrow> map_of (bc_blocks s) h) :: ('e, _) outcome)"
proof
  let ?s = "insert_blocks blocks s"
  from assms(1) obtain b n batch ts where b: "max_by_number (map snd (bc_blocks ?s)) None = Some b"
    and n: "blk_l1_batch_number b = Some n" "unat n < 2 ^ 32" "batch = ucast n"
    and ts: "unat (blk_timestamp b) < 2 ^ 64" "ts = ucast (blk_timestamp b)"
    and t': "time' = reset_to ts time"
    and s': "s' = ?s\<lparr>bc_current_block := ucast (blk_number b), bc_current_block_hash := blk_hash b,
      bc_current_batch := batch\<rparr>"
    by (auto simp: load_blocks_def Let_def as_u32_Inr_iff as_u64_def split: if_splits)
  have blocks: "bc_blocks s' = bc_blocks ?s" by (simp add: s')
  have "b \<in> snd ` set (bc_blocks s')" and "\<forall>c \<in> snd ` set (bc_blocks s'). blk_number c \<le> blk_number b"
    using max_by_number_spec [OF b] by (auto simp: blocks)
  moreover have "unat (bc_current_batch s') = unat n" and "unat (current_timestamp time') = block_ts b"
    and "next_timestamp time' = None"
    using n ts by (simp_all add: s' t' reset_to_def block_ts_def unat_ucast_fits)
  ultimately show "\<exists>b \<in> snd ` set (bc_blocks s'). (\<forall>c \<in> snd ` set (bc_blocks s'). blk_number c \<le> blk_number b)
      \<and> bc_current_block s' = ucast (blk_number b) \<and> bc_current_block_hash s' = blk_hash b
      \<and> (\<exists>n. blk_l1_batch_number b = Some n \<and> unat (bc_current_batch s') = unat n)
      \<and> unat (current_timestamp time') = block_ts b \<and> next_timestamp time' = None"
    using n(1) by (intro bexI [of _ b]) (simp_all add: s')
  show "get_block_by_hash h s' = (Inr (case find (\<lambda>b. blk_hash b = h) blocks of
        Some b \<Rightarrow> Some b | None \<Rightarrow> map_of (bc_blocks s) h) :: ('e, _) outcome)"
    by (simp add: get_block_by_hash_def inspect_block_by_hash_def inspect_def blocks
        insert_blocks_lookup [OF assms(2)] split: option.split)
qed

theorem load_blocks_spec_witness:
  "\<exists>t s'. load_blocks [create_block sample_chain_api (genesis_batch_env 5) 77 1000 3 2000 [] 0 []]
      (time_new 9) (blockchain_new sample_chain_api 26 (None :: (unit, unit) fork_details option) None None)
      = Inr (t, s') \<and> next_timestamp t = None \<and> bc_current_block_hash s' = 77"
proof -
  let ?b = "create_block sample_chain_api (genesis_batch_env 5) 77 1000 3 2000 [] 0 [] :: api_block"
  let ?s = "blockchain_new sample_chain_api 26 (None :: (unit, unit) fork_details option) None None"
  have b: "load_blocks [?b] (time_new 9) ?s = Inr (reset_to 2000 (time_new 9),
      (insert_blocks [?b] ?s)\<lparr>bc_current_block := 3, bc_current_block_hash := 77, bc_current_batch := 0\<rparr>)"
    by (simp add: load_blocks_def blockchain_new_def create_genesis_def create_block_def Let_def
        sample_chain_api_def genesis_batch_env_def as_u32_def as_u64_def
        NON_FORK_FIRST_BLOCK_TIMESTAMP_def)
  have d: "distinct (map blk_hash [?b])" by simp
  from load_blocks_spec [OF b d] have "next_timestamp (reset_to 2000 (time_new 9)) = None" by blast
  with b show ?thesis by simp
qed

end
