(* ===== verification/Fork_Cache.thy ===== *)
theory Fork_Cache
  imports Chain_Types
begin

text \<open>
  The cache of remote data: \<open>crates/common/src/cache.rs\<close>.

  The cache directory is a record of association lists, one per cache type, in the order of the
  directory listing; a file name is the printed key and the file holds the JSON of the value, so an
  entry is the key with the value. \<open>dir_writable\<close> says whether files can be created: a
  failed write is only logged. The types of bridge addresses and tokens are parameters.
\<close>

datatype cache_config = CacheNone | CacheMemory | CacheDisk string bool

record ('b, 't) cache =
  ca_config :: cache_config
  ca_block_hashes :: "u64 \<rightharpoonup> h256"
  ca_blocks_full :: "h256 \<rightharpoonup> api_block"
  ca_blocks_min :: "h256 \<rightharpoonup> api_block"
  ca_block_raw_transactions :: "u64 \<rightharpoonup> transaction list"
  ca_transactions :: "h256 \<rightharpoonup> api_transaction"
  ca_resolver_selectors :: "string \<rightharpoonup> string"
  ca_bridge_addresses :: "'b option"
  ca_confirmed_tokens :: "u32 \<times> u8 \<rightharpoonup> 't list"

record 'b cache_dir =
  dir_writable :: bool
  dir_blocks_full :: "(h256 \<times> api_block) list"
  dir_blocks_min :: "(h256 \<times> api_block) list"
  dir_block_raw_transactions :: "(u64 \<times> transaction list) list"
  dir_transactions :: "(h256 \<times> api_transaction) list"
  dir_resolver_selectors :: "(string \<times> string) list"
  dir_bridge_addresses :: "'b option"

definition empty_dir :: "'b cache_dir" where
  "empty_dir = \<lparr>dir_writable = True, dir_blocks_full = [], dir_blocks_min = [],
     dir_block_raw_transactions = [], dir_transactions = [], dir_resolver_selectors = [],
     dir_bridge_addresses = None\<rparr>"

definition cache_default :: "cache_config \<Rightarrow> ('b, 't) cache" where
  "cache_default config = \<lparr>ca_config = config, ca_block_hashes = Map.empty, ca_blocks_full = Map.empty,
     ca_blocks_min = Map.empty, ca_block_raw_transactions = Map.empty, ca_transactions = Map.empty,
     ca_resolver_selectors = Map.empty, ca_bridge_addresses = None, ca_confirmed_tokens = Map.empty\<rparr>"

fun read_blocks_full :: "(h256 \<times> api_block) list \<Rightarrow> ('b, 't) cache \<Rightarrow> ('b, 't) cache" where
  "read_blocks_full [] c = c"
| "read_blocks_full ((k, b) # es) c = read_blocks_full es
     (c\<lparr>ca_block_hashes := (ca_block_hashes c)(blk_number b \<mapsto> blk_hash b),
        ca_blocks_full := (ca_blocks_full c)(k \<mapsto> b)\<rparr>)"

fun read_blocks_min :: "(h256 \<times> api_block) list \<Rightarrow> ('b, 't) cache \<Rightarrow> ('b, 't) cache" where
  "read_blocks_min [] c = c"
| "read_blocks_min ((k, b) # es) c = read_blocks_min es
     (c\<lparr>ca_block_hashes := (ca_block_hashes c)(blk_number b \<mapsto> blk_hash b),
        ca_blocks_min := (ca_blocks_min c)(k \<mapsto> b)\<rparr>)"

fun read_raw_transactions :: "(u64 \<times> transaction list) list \<Rightarrow> ('b, 't) cache \<Rightarrow> ('b, 't) cache" where
  "read_raw_transactions [] c = c"
| "read_raw_transactions ((k, txs) # es) c = read_raw_transactions es
     (c\<lparr>ca_block_raw_transactions := (ca_block_raw_transactions c)(k \<mapsto> txs)\<rparr>)"

fun read_transactions :: "(h256 \<times> api_transaction) list \<Rightarrow> ('b, 't) cache \<Rightarrow> ('b, 't) cache" where
  "read_transactions [] c = c"
| "read_transactions ((k, tx) # es) c = read_transactions es
     (c\<lparr>ca_transactions := (ca_transactions c)(k \<mapsto> tx)\<rparr>)"

fun read_selectors :: "(string \<times> string) list \<Rightarrow> ('b, 't) cache \<Rightarrow> ('b, 't) cache" where
  "read_selectors [] c = c"
| "read_selectors ((k, v) # es) c = read_selectors es
     (c\<lparr>ca_resolver_selectors := (ca_resolver_selectors c)(k \<mapsto> v)\<rparr>)"

definition read_all_from_disk :: "'b cache_dir \<Rightarrow> ('b, 't) cache \<Rightarrow> ('b, 't) cache" where
  "read_all_from_disk d c =
     (let c1 = read_selectors (dir_resolver_selectors d)
            (read_transactions (dir_transactions d)
              (read_raw_transactions (dir_block_raw_transactions d)
                (read_blocks_min (dir_blocks_min d) (read_blocks_full (dir_blocks_full d) c))))
      in case dir_bridge_addresses d of
           None \<Rightarrow> c1
         | Some b \<Rightarrow> c1\<lparr>ca_bridge_addresses := Some b\<rparr>)"

text \<open>A reset that can remove the directories leaves an empty one behind.\<close>

definition cache_new :: "cache_config \<Rightarrow> 'b cache_dir \<Rightarrow> ('b, 't) cache \<times> 'b cache_dir" where
  "cache_new config d = (case config of
       CacheDisk dir reset \<Rightarrow>
         (let d' = (if reset then empty_dir\<lparr>dir_writable := dir_writable d\<rparr> else d)
          in (read_all_from_disk d' (cache_default config), d'))
     | _ \<Rightarrow> (cache_default config, d))"

definition on_disk :: "('b, 't) cache \<Rightarrow> 'b cache_dir \<Rightarrow> bool" where
  "on_disk c d \<longleftrightarrow> (case ca_config c of CacheDisk _ _ \<Rightarrow> dir_writable d | _ \<Rightarrow> False)"

definition get_block :: "h256 \<Rightarrow> bool \<Rightarrow> ('b, 't) cache \<Rightarrow> api_block option" where
  "get_block hash full_transactions c =
     (if ca_config c = CacheNone then None
      else if full_transactions then ca_blocks_full c hash else ca_blocks_min c hash)"

definition insert_block ::
  "h256 \<Rightarrow> bool \<Rightarrow> api_block \<Rightarrow> ('b, 't) cache \<Rightarrow> 'b cache_dir \<Rightarrow> ('b, 't) cache \<times> 'b cache_dir" where
  "insert_block hash full_transactions block c d =
     (if ca_config c = CacheNone then (c, d)
      else
        let c = c\<lparr>ca_block_hashes := (ca_block_hashes c)(blk_number block \<mapsto> blk_hash block)\<rparr> in
        if full_transactions
        then (c\<lparr>ca_blocks_full := (ca_blocks_full c)(hash \<mapsto> block)\<rparr>,
              if on_disk c d then d\<lparr>dir_blocks_full := AList.update hash block (dir_blocks_full d)\<rparr> else d)
        else (c\<lparr>ca_blocks_min := (ca_blocks_min c)(hash \<mapsto> block)\<rparr>,
              if on_disk c d then d\<lparr>dir_blocks_min := AList.update hash block (dir_blocks_min d)\<rparr> else d))"

definition get_block_hash :: "u64 \<Rightarrow> ('b, 't) cache \<Rightarrow> h256 option" where
  "get_block_hash number c = (if ca_config c = CacheNone then None else ca_block_hashes c number)"

definition get_block_raw_transactions :: "u64 \<Rightarrow> ('b, 't) cache \<Rightarrow> transaction list option" where
  "get_block_raw_transactions number c =
     (if ca_config c = CacheNone then None else ca_block_raw_transactions c number)"

definition get_confirmed_tokens :: "u32 \<Rightarrow> u8 \<Rightarrow> ('b, 't) cache \<Rightarrow> 't list option" where
  "get_confirmed_tokens from limit c =
     (if ca_config c = CacheNone then None else ca_confirmed_tokens c (from, limit))"

definition set_confirmed_tokens :: "u32 \<Rightarrow> u8 \<Rightarrow> 't list \<Rightarrow> ('b, 't) cache \<Rightarrow> ('b, 't) cache" where
  "set_confirmed_tokens from limit tokens c =
     (if ca_config c = CacheNone then c
      else c\<lparr>ca_confirmed_tokens := (ca_confirmed_tokens c)((from, limit) \<mapsto> tokens)\<rparr>)"

definition insert_block_raw_transactions ::
  "u64 \<Rightarrow> transaction list \<Rightarrow> ('b, 't) cache \<Rightarrow> 'b cache_dir \<Rightarrow> ('b, 't) cache \<times> 'b cache_dir" where
  "insert_block_raw_transactions number txs c d =
     (if ca_config c = CacheNone then (c, d)
      else (c\<lparr>ca_block_raw_transactions := (ca_block_raw_transactions c)(number \<mapsto> txs)\<rparr>,
        if on_disk c d then d\<lparr>dir_block_raw_transactions :=
          AList.update number txs (dir_block_raw_transactions d)\<rparr> else d))"

definition get_transaction :: "h256 \<Rightarrow> ('b, 't) cache \<Rightarrow> api_transaction option" where
  "get_transaction hash c = (if ca_config c = CacheNone then None else ca_transactions c hash)"

definition get_resolver_selector :: "string \<Rightarrow> ('b, 't) cache \<Rightarrow> string option" where
  "get_resolver_selector selector c =
     (if ca_config c = CacheNone then None else ca_resolver_selectors c selector)"

definition insert_transaction ::
  "h256 \<Rightarrow> api_transaction \<Rightarrow> ('b, 't) cache \<Rightarrow> 'b cache_dir \<Rightarrow> ('b, 't) cache \<times> 'b cache_dir" where
  "insert_transaction hash tx c d =
     (if ca_config c = CacheNone then (c, d)
      else (c\<lparr>ca_transactions := (ca_transactions c)(hash \<mapsto> tx)\<rparr>,
        if on_disk c d then d\<lparr>dir_transactions := AList.update hash tx (dir_transactions d)\<rparr> else d))"

definition insert_resolver_selector ::
  "string \<Rightarrow> string \<Rightarrow> ('b, 't) cache \<Rightarrow> 'b cache_dir \<Rightarrow> ('b, 't) cache \<times> 'b cache_dir" where
  "insert_resolver_selector selector v c d =
     (if ca_config c = CacheNone then (c, d)
      else (c\<lparr>ca_resolver_selectors := (ca_resolver_selectors c)(selector \<mapsto> v)\<rparr>,
        if on_disk c d then d\<lparr>dir_resolver_selectors :=
          AList.update selector v (dir_resolver_selectors d)\<rparr> else d))"

definition get_bridge_addresses :: "('b, 't) cache \<Rightarrow> 'b option" where
  "get_bridge_addresses c = (if ca_config c = CacheNone then None else ca_bridge_addresses c)"

definition set_bridge_addresses ::
  "'b \<Rightarrow> ('b, 't) cache \<Rightarrow> 'b cache_dir \<Rightarrow> ('b, 't) cache \<times> 'b cache_dir" where
  "set_bridge_addresses b c d =
     (if ca_config c = CacheNone then (c, d)
      else (c\<lparr>ca_bridge_addresses := Some b\<rparr>,
        if on_disk c d then d\<lparr>dir_bridge_addresses := Some b\<rparr> else d))"

section \<open>Persistence\<close>

datatype 'b cache_op =
    InsertBlock h256 bool api_block
  | InsertRawTransactions u64 "transaction list"
  | InsertTransaction h256 api_transaction
  | InsertSelector string string
  | SetBridge 'b

fun cache_exec ::
  "'b cache_op \<Rightarrow> ('b, 't) cache \<times> 'b cache_dir \<Rightarrow> ('b, 't) cache \<times> 'b cache_dir" where
  "cache_exec (InsertBlock h full b) (c, d) = insert_block h full b c d"
| "cache_exec (InsertRawTransactions n txs) (c, d) = insert_block_raw_transactions n txs c d"
| "cache_exec (InsertTransaction h tx) (c, d) = insert_transaction h tx c d"
| "cache_exec (InsertSelector k v) (c, d) = insert_resolver_selector k v c d"
| "cache_exec (SetBridge b) (c, d) = set_bridge_addresses b c d"

text \<open>What is in memory is what the directory holds.\<close>

definition persisted :: "('b, 't) cache \<Rightarrow> 'b cache_dir \<Rightarrow> bool" where
  "persisted c d \<longleftrightarrow> ca_blocks_full c = map_of (dir_blocks_full d)
     \<and> ca_blocks_min c = map_of (dir_blocks_min d)
     \<and> ca_block_raw_transactions c = map_of (dir_block_raw_transactions d)
     \<and> ca_transactions c = map_of (dir_transactions d)
     \<and> ca_resolver_selectors c = map_of (dir_resolver_selectors d)
     \<and> ca_bridge_addresses c = dir_bridge_addresses d"

definition dir_distinct :: "'b cache_dir \<Rightarrow> bool" where
  "dir_distinct d \<longleftrightarrow> distinct (map fst (dir_blocks_full d)) \<and> distinct (map fst (dir_blocks_min d))
     \<and> distinct (map fst (dir_block_raw_transactions d)) \<and> distinct (map fst (dir_transactions d))
     \<and> distinct (map fst (dir_resolver_selectors d))"

lemma read_blocks_full_fields [simp]:
  "ca_blocks_min (read_blocks_full es c) = ca_blocks_min c"
  "ca_block_raw_transactions (read_blocks_full es c) = ca_block_raw_transactions c"
  "ca_transactions (read_blocks_full es c) = ca_transactions c"
  "ca_resolver_selectors (read_blocks_full es c) = ca_resolver_selectors c"
  "ca_bridge_addresses (read_blocks_full es c) = ca_bridge_addresses c"
  "ca_config (read_blocks_full es c) = ca_config c"
  by (induction es c rule: read_blocks_full.induct) simp_all

lemma read_blocks_min_fields [simp]:
  "ca_blocks_full (read_blocks_min es c) = ca_blocks_full c"
  "ca_block_raw_transactions (read_blocks_min es c) = ca_block_raw_transactions c"
  "ca_transactions (read_blocks_min es c) = ca_transactions c"
  "ca_resolver_selectors (read_blocks_min es c) = ca_resolver_selectors c"
  "ca_bridge_addresses (read_blocks_min es c) = ca_bridge_addresses c"
  "ca_config (read_blocks_min es c) = ca_config c"
  by (induction es c rule: read_blocks_min.induct) simp_all

lemma read_raw_transactions_fields [simp]:
  "ca_blocks_full (read_raw_transactions es c) = ca_blocks_full c"
  "ca_blocks_min (read_raw_transactions es c) = ca_blocks_min c"
  "ca_transactions (read_raw_transactions es c) = ca_transactions c"
  "ca_resolver_selectors (read_raw_transactions es c) = ca_resolver_selectors c"
  "ca_bridge_addresses (read_raw_transactions es c) = ca_bridge_addresses c"
  "ca_config (read_raw_transactions es c) = ca_config c"
  by (induction es c rule: read_raw_transactions.induct) simp_all

lemma read_transactions_fields [simp]:
  "ca_blocks_full (read_transactions es c) = ca_blocks_full c"
  "ca_blocks_min (read_transactions es c) = ca_blocks_min c"
  "ca_block_raw_transactions (read_transactions es c) = ca_block_raw_transactions c"
  "ca_resolver_selectors (read_transactions es c) = ca_resolver_selectors c"
  "ca_bridge_addresses (read_transactions es c) = ca_bridge_addresses c"
  "ca_config (read_transactions es c) = ca_config c"
  by (induction es c rule: read_transactions.induct) simp_all

lemma read_selectors_fields [simp]:
  "ca_blocks_full (read_selectors es c) = ca_blocks_full c"
  "ca_blocks_min (read_selectors es c) = ca_blocks_min c"
  "ca_block_raw_transactions (read_selectors es c) = ca_block_raw_transactions c"
  "ca_transactions (read_selectors es c) = ca_transactions c"
  "ca_bridge_addresses (read_selectors es c) = ca_bridge_addresses c"
  "ca_config (read_selectors es c) = ca_config c"
  by (induction es c rule: read_selectors.induct) simp_all

text \<open>Reading the files of a directory with distinct names.\<close>

lemma map_add_upd_distinct:
  assumes "k \<notin> fst ` set es"
  shows "m(k \<mapsto> v) ++ map_of es = (m ++ map_of es)(k \<mapsto> v)"
proof -
  have "map_of es k = None" using assms by (simp add: map_of_eq_None_iff)
  then show ?thesis by (auto simp: fun_eq_iff map_add_def split: option.split)
qed

lemma read_blocks_full_entries [simp]:
  "distinct (map fst es) \<Longrightarrow> ca_blocks_full (read_blocks_full es c) = ca_blocks_full c ++ map_of es"
  by (induction es c rule: read_blocks_full.induct) (simp_all add: map_add_upd_distinct)

lemma read_blocks_min_entries [simp]:
  "distinct (map fst es) \<Longrightarrow> ca_blocks_min (read_blocks_min es c) = ca_blocks_min c ++ map_of es"
  by (induction es c rule: read_blocks_min.induct) (simp_all add: map_add_upd_distinct)

lemma read_raw_transactions_entries [simp]:
  "distinct (map fst es) \<Longrightarrow>
     ca_block_raw_transactions (read_raw_transactions es c) = ca_block_raw_transactions c ++ map_of es"
  by (induction es c rule: read_raw_transactions.induct) (simp_all add: map_add_upd_distinct)

lemma read_transactions_entries [simp]:
  "distinct (map fst es) \<Longrightarrow> ca_transactions (read_transactions es c) = ca_transactions c ++ map_of es"
  by (induction es c rule: read_transactions.induct) (simp_all add: map_add_upd_distinct)

lemma read_selectors_entries [simp]:
  "distinct (map fst es) \<Longrightarrow>
     ca_resolver_selectors (read_selectors es c) = ca_resolver_selectors c ++ map_of es"
  by (induction es c rule: read_selectors.induct) (simp_all add: map_add_upd_distinct)

lemma persisted_cache_new:
  assumes "dir_distinct d"
  shows "persisted (fst (cache_new (CacheDisk dir False) d)) d"
  using assms by (simp add: cache_new_def persisted_def dir_distinct_def read_all_from_disk_def
      cache_default_def Let_def split: option.split)

lemma persisted_cache_exec:
  assumes "persisted c d" and "dir_distinct d" and "on_disk c d" and "cache_exec op (c, d) = (c', d')"
  shows "persisted c' d' \<and> dir_distinct d' \<and> on_disk c' d'"
proof -
  have "ca_config c \<noteq> CacheNone" using assms(3) by (auto simp: on_disk_def)
  then show ?thesis
    using assms by (cases op) (auto simp: persisted_def dir_distinct_def on_disk_def insert_block_def
        insert_block_raw_transactions_def insert_transaction_def insert_resolver_selector_def
        set_bridge_addresses_def update_conv' distinct_update Let_def split: if_splits cache_config.splits)
qed

lemma persisted_fold:
  assumes "persisted c d" and "dir_distinct d" and "on_disk c d" and "fold cache_exec ops (c, d) = (c', d')"
  shows "persisted c' d' \<and> dir_distinct d' \<and> on_disk c' d'"
  using assms
proof (induction ops arbitrary: c d)
  case (Cons op ops)
  obtain c1 d1 where op: "cache_exec op (c, d) = (c1, d1)" by force
  from persisted_cache_exec [OF Cons.prems(1-3) op] have "persisted c1 d1" "dir_distinct d1" "on_disk c1 d1"
    by auto
  from Cons.IH [OF this] Cons.prems(4) op show ?case by simp
qed simp

text \<open>A disk cache survives a restart. After any sequence of insertions, a new cache on the same
  directory answers every lookup of blocks, raw transactions, transactions, selectors and bridge
  addresses as the old one did; opening it with \<open>reset\<close> forgets all of it.\<close>

theorem cache_restart:
  fixes c c' :: "('b, 't) cache"
  assumes "fold cache_exec ops (cache_new (CacheDisk dir True) d) = (c, d')" and "dir_writable d"
    and "c' = fst (cache_new (CacheDisk dir' False) d')"
  shows "(\<forall>h full. get_block h full c' = get_block h full c)
    \<and> (\<forall>n. get_block_raw_transactions n c' = get_block_raw_transactions n c)
    \<and> (\<forall>h. get_transaction h c' = get_transaction h c)
    \<and> (\<forall>k. get_resolver_selector k c' = get_resolver_selector k c)
    \<and> get_bridge_addresses c' = get_bridge_addresses c
    \<and> (\<forall>h full. get_block h full (fst (cache_new (CacheDisk dir' True) d') :: ('b, 't) cache) = None)"
proof -
  let ?e = "empty_dir\<lparr>dir_writable := True\<rparr> :: 'b cache_dir"
  let ?c = "cache_default (CacheDisk dir True) :: ('b, 't) cache"
  have new: "cache_new (CacheDisk dir True) d = (?c, ?e)"
    using assms(2) by (simp add: cache_new_def Let_def read_all_from_disk_def empty_dir_def)
  have "persisted ?c ?e" "dir_distinct ?e" "on_disk ?c ?e"
    by (simp_all add: persisted_def cache_default_def empty_dir_def dir_distinct_def on_disk_def)
  from persisted_fold [OF this assms(1) [unfolded new]] have p: "persisted c d'" "dir_distinct d'" "on_disk c d'"
    by simp_all
  let ?r = "fst (cache_new (CacheDisk dir' False) d') :: ('b, 't) cache"
  from persisted_cache_new [OF p(2)] have q: "persisted ?r d'" .
  have "ca_config ?r \<noteq> CacheNone" "ca_config c \<noteq> CacheNone"
    using p(3) by (auto simp: cache_new_def Let_def read_all_from_disk_def cache_default_def on_disk_def
        split: option.split)
  moreover have "get_block h full (fst (cache_new (CacheDisk dir' True) d') :: ('b, 't) cache) = None" for h full
    by (simp add: get_block_def cache_new_def read_all_from_disk_def cache_default_def empty_dir_def Let_def)
  ultimately show ?thesis
    using p(1) q by (simp add: assms(3) persisted_def get_block_def get_block_raw_transactions_def
        get_transaction_def get_resolver_selector_def get_bridge_addresses_def)
qed

theorem cache_restart_witness:
  "get_resolver_selector ''a9059cbb'' (fst (cache_new (CacheDisk ''.cache'' False)
     (snd (fold cache_exec [InsertSelector ''a9059cbb'' ''transfer'', SetBridge (7::nat)]
       (cache_new (CacheDisk ''.cache'' True) empty_dir :: (nat, unit) cache \<times> nat cache_dir)))
     :: (nat, unit) cache \<times> nat cache_dir))
   = Some ''transfer''"
proof -
  let ?n = "cache_new (CacheDisk ''.cache'' True) empty_dir :: (nat, unit) cache \<times> nat cache_dir"
  let ?ops = "[InsertSelector ''a9059cbb'' ''transfer'', SetBridge 7]"
  obtain c d where r: "fold cache_exec ?ops ?n = (c, d)" by force
  have "get_resolver_selector ''a9059cbb'' c = Some ''transfer''"
    using r by (auto simp: cache_new_def Let_def read_all_from_disk_def empty_dir_def cache_default_def
        insert_resolver_selector_def set_bridge_addresses_def get_resolver_selector_def)
  moreover have w: "dir_writable (empty_dir :: nat cache_dir)" by (simp add: empty_dir_def)
  ultimately show ?thesis
    unfolding r snd_conv using cache_restart [OF r w refl, of "''.cache''"] by simp
qed

end
