(* ===== verification/Fork_Storage.thy ===== *)
theory Fork_Storage
  imports Chain_Types
begin

text \<open>
  The node's storage: \<open>crates/core/src/deps/mod.rs\<close> (\<open>InMemoryStorage\<close>) and
  \<open>crates/core/src/node/inner/fork_storage.rs\<close>.

  Reads that miss the local storage and the read cache go to the fork, and their results are
  cached: a read is an operation that returns the new storage with the outcome. The fork is a
  record of the two functions of the \<open>ForkSource\<close> trait that the storage calls, an argument
  here and provided by the theory \<open>Fork_Client\<close>. Key derivations of the zksync crates
  (\<open>get_code_key\<close> and the like) are arguments. Locks are assumed not to be poisoned.
\<close>

section \<open>Local storage\<close>

record in_memory_storage =
  st_state :: "storage_key \<rightharpoonup> storage_value"
  st_factory_deps :: "h256 \<rightharpoonup> bytes"

record deployed_contract =
  dep_account :: address
  dep_bytecode :: bytes

fun extend_map :: "('k \<times> 'v) list \<Rightarrow> ('k \<rightharpoonup> 'v) \<Rightarrow> ('k \<rightharpoonup> 'v)" where
  "extend_map [] m = m"
| "extend_map ((k, v) # kvs) m = extend_map kvs (m(k \<mapsto> v))"

definition with_system_contracts_and_chain_id ::
  "(address \<Rightarrow> storage_key) \<Rightarrow> (h256 \<Rightarrow> storage_key)
     \<Rightarrow> (u64 \<Rightarrow> (bool \<times> storage_key \<times> storage_value) list) \<Rightarrow> deployed_contract list
     \<Rightarrow> u64 \<Rightarrow> (bytes \<Rightarrow> h256) \<Rightarrow> in_memory_storage" where
  "with_system_contracts_and_chain_id get_code_key get_known_code_key get_system_context_init_logs
     contracts chain_id bytecode_hasher =
     (let logs = concat (map (\<lambda>c. let bytecode_hash = bytecode_hasher (dep_bytecode c) in
            [(True, get_code_key (dep_account c), bytecode_hash),
             (True, get_known_code_key bytecode_hash, 1)]) contracts)
          @ get_system_context_init_logs chain_id
      in \<lparr>st_state = extend_map (map snd (filter fst logs)) Map.empty,
          st_factory_deps = extend_map
            (map (\<lambda>c. (bytecode_hasher (dep_bytecode c), dep_bytecode c)) contracts) Map.empty\<rparr>)"

definition read_value_opt :: "storage_key \<Rightarrow> in_memory_storage \<Rightarrow> storage_value option" where
  "read_value_opt key s = st_state s key"

definition mem_set_value :: "storage_key \<Rightarrow> storage_value \<Rightarrow> in_memory_storage \<Rightarrow> in_memory_storage" where
  "mem_set_value key v s = s\<lparr>st_state := (st_state s)(key \<mapsto> v)\<rparr>"

definition mem_store_factory_dep :: "h256 \<Rightarrow> bytes \<Rightarrow> in_memory_storage \<Rightarrow> in_memory_storage" where
  "mem_store_factory_dep hash bytecode s = s\<lparr>st_factory_deps := (st_factory_deps s)(hash \<mapsto> bytecode)\<rparr>"

definition mem_read_value :: "storage_key \<Rightarrow> in_memory_storage \<Rightarrow> storage_value" where
  "mem_read_value key s = case_option 0 id (st_state s key)"

definition mem_is_write_initial :: "storage_key \<Rightarrow> in_memory_storage \<Rightarrow> bool" where
  "mem_is_write_initial key s \<longleftrightarrow> st_state s key = None"

definition mem_load_factory_dep :: "h256 \<Rightarrow> in_memory_storage \<Rightarrow> bytes option" where
  "mem_load_factory_dep hash s = st_factory_deps s hash"

definition mem_get_enumeration_index :: "storage_key \<Rightarrow> in_memory_storage \<Rightarrow> u64 option" where
  "mem_get_enumeration_index key s = Some 0"

section \<open>Storage over a fork\<close>

record fork_source =
  get_storage_at_forked :: "address \<Rightarrow> u256 \<Rightarrow> string + h256"
  get_bytecode_by_hash :: "h256 \<Rightarrow> string + bytes option"

record fork_storage =
  fs_raw_storage :: in_memory_storage
  fs_value_read_cache :: "storage_key \<rightharpoonup> h256"
  fs_factory_dep_cache :: "h256 \<rightharpoonup> bytes option"
  fs_chain_id :: u64

definition TEST_NODE_NETWORK_ID :: u32 where
  "TEST_NODE_NETWORK_ID = 260"

definition fork_storage_new ::
  "u64 option \<Rightarrow> u32 option \<Rightarrow> (u64 \<Rightarrow> in_memory_storage) \<Rightarrow> fork_storage" where
  "fork_storage_new fork_chain_id override_chain_id with_system_contracts =
     (let chain_id = (case override_chain_id of
            Some override_id \<Rightarrow> ucast override_id
          | None \<Rightarrow> (case fork_chain_id of Some i \<Rightarrow> i | None \<Rightarrow> ucast TEST_NODE_NETWORK_ID))
      in \<lparr>fs_raw_storage = with_system_contracts chain_id, fs_value_read_cache = Map.empty,
          fs_factory_dep_cache = Map.empty, fs_chain_id = chain_id\<rparr>)"

definition read_value_internal ::
  "fork_source \<Rightarrow> storage_key \<Rightarrow> fork_storage \<Rightarrow> (string, storage_value) outcome \<times> fork_storage" where
  "read_value_internal fork key s = (case read_value_opt key (fs_raw_storage s) of
       Some local_value \<Rightarrow> (Inr local_value, s)
     | None \<Rightarrow> (case fs_value_read_cache s key of
         Some cached_value \<Rightarrow> (Inr cached_value, s)
       | None \<Rightarrow> (case get_storage_at_forked fork (sk_address key) (sk_key key) of
           Inl e \<Rightarrow> (Inl (Panic e), s)
         | Inr v \<Rightarrow> (Inr v, s\<lparr>fs_value_read_cache := (fs_value_read_cache s)(key \<mapsto> v)\<rparr>))))"

definition load_factory_dep_internal ::
  "fork_source \<Rightarrow> h256 \<Rightarrow> fork_storage \<Rightarrow> (string, bytes option) outcome \<times> fork_storage" where
  "load_factory_dep_internal fork hash s =
     (let local_storage = mem_load_factory_dep hash (fs_raw_storage s) in
      if local_storage \<noteq> None then (Inr local_storage, s)
      else (case fs_factory_dep_cache s hash of
          Some v \<Rightarrow> (Inr v, s)
        | None \<Rightarrow> (case get_bytecode_by_hash fork hash of
            Inl e \<Rightarrow> (Inl (Panic e), s)
          | Inr v \<Rightarrow> (Inr v, s\<lparr>fs_factory_dep_cache := (fs_factory_dep_cache s)(hash \<mapsto> v)\<rparr>))))"

definition is_write_initial_internal ::
  "fork_source \<Rightarrow> storage_key \<Rightarrow> fork_storage \<Rightarrow> (string, bool) outcome \<times> fork_storage" where
  "is_write_initial_internal fork key s = (case read_value_internal fork key s of
       (Inl e, s') \<Rightarrow> (Inl e, s')
     | (Inr v, s') \<Rightarrow>
         if v \<noteq> 0 then (Inr False, s')
         else (Inr (mem_is_write_initial key (fs_raw_storage s')), s'))"

definition get_enumeration_index_internal :: "storage_key \<Rightarrow> fork_storage \<Rightarrow> u64 option" where
  "get_enumeration_index_internal key s = Some 0"

definition fs_set_value :: "storage_key \<Rightarrow> storage_value \<Rightarrow> fork_storage \<Rightarrow> fork_storage" where
  "fs_set_value key v s = s\<lparr>fs_raw_storage := mem_set_value key v (fs_raw_storage s)\<rparr>"

definition fs_store_factory_dep :: "h256 \<Rightarrow> bytes \<Rightarrow> fork_storage \<Rightarrow> fork_storage" where
  "fs_store_factory_dep hash bytecode s =
     s\<lparr>fs_raw_storage := mem_store_factory_dep hash bytecode (fs_raw_storage s)\<rparr>"

definition set_chain_id :: "storage_key \<Rightarrow> u64 \<Rightarrow> fork_storage \<Rightarrow> fork_storage" where
  "set_chain_id system_context_chain_id_key i s =
     fs_set_value system_context_chain_id_key (ucast i) (s\<lparr>fs_chain_id := i\<rparr>)"

section \<open>Serialized storage\<close>

record serializable_fork_storage =
  ser_storage :: "storage_key \<rightharpoonup> storage_value"
  ser_factory_deps :: "h256 \<rightharpoonup> bytes"

definition fs_dump_state :: "fork_storage \<Rightarrow> serializable_fork_storage" where
  "fs_dump_state s =
     \<lparr>ser_storage = fs_value_read_cache s ++ st_state (fs_raw_storage s),
      ser_factory_deps = (\<lambda>h. case fs_factory_dep_cache s h of Some (Some code) \<Rightarrow> Some code | _ \<Rightarrow> None)
        ++ st_factory_deps (fs_raw_storage s)\<rparr>"

definition fs_load_state :: "serializable_fork_storage \<Rightarrow> fork_storage \<Rightarrow> fork_storage" where
  "fs_load_state d s = s\<lparr>fs_raw_storage := (fs_raw_storage s)
     \<lparr>st_state := st_state (fs_raw_storage s) ++ ser_storage d,
      st_factory_deps := st_factory_deps (fs_raw_storage s) ++ ser_factory_deps d\<rparr>\<rparr>"

text \<open>Big-endian bytes of a fixed-size hash and back (\<open>as_bytes\<close>, \<open>from_slice\<close>).\<close>

fun be_bytes :: "nat \<Rightarrow> nat \<Rightarrow> bytes" where
  "be_bytes 0 x = []"
| "be_bytes (Suc n) x = be_bytes n (x div 256) @ [of_nat x]"

definition be_value :: "bytes \<Rightarrow> nat" where
  "be_value bs = foldl (\<lambda>acc b. acc * 256 + unat b) 0 bs"

definition storage_key_to_bytes :: "storage_key \<Rightarrow> bytes" where
  "storage_key_to_bytes k = be_bytes 20 (unat (sk_address k)) @ be_bytes 32 (unat (sk_key k))"

definition storage_key_try_from :: "bytes \<Rightarrow> (string, storage_key) outcome" where
  "storage_key_try_from bs =
     (if length bs \<noteq> 52 then Inl (Err ''invalid bytes length'')
      else Inr \<lparr>sk_address = of_nat (be_value (take 20 bs)), sk_key = of_nat (be_value (take 32 (drop 20 bs)))\<rparr>)"

section \<open>The storage interface\<close>

text \<open>
  What the node relies on: a view of the contents, writes that change exactly one key of it, and
  reads that return it and leave it alone.
\<close>

locale key_value_storage =
  fixes view :: "'s \<Rightarrow> 'k \<Rightarrow> 'v"
    and read :: "'k \<Rightarrow> 's \<Rightarrow> 'v \<times> 's"
    and set_val :: "'k \<Rightarrow> 'w \<Rightarrow> 's \<Rightarrow> 's"
    and lift :: "'w \<Rightarrow> 'v"
  assumes read_result: "fst (read k s) = view s k"
    and read_view: "view (snd (read k s)) = view s"
    and set_view: "view (set_val k v s) = (view s)(k := lift v)"
begin

text \<open>A list of writes is applied as the loop over \<open>modified_storage_keys\<close> applies it.\<close>

fun set_all :: "('k \<times> 'w) list \<Rightarrow> 's \<Rightarrow> 's" where
  "set_all [] s = s"
| "set_all ((k, v) # kvs) s = set_all kvs (set_val k v s)"

lemma view_set_all_other: "k \<notin> fst ` set kvs \<Longrightarrow> view (set_all kvs s) k = view s k"
  by (induction kvs s rule: set_all.induct) (auto simp: set_view)

lemma view_set_all:
  "distinct (map fst kvs) \<Longrightarrow> map_of kvs k = Some v \<Longrightarrow> view (set_all kvs s) k = lift v"
proof (induction kvs s rule: set_all.induct)
  case (2 k' v' kvs s)
  show ?case
  proof (cases "k = k'")
    case True
    with "2.prems" show ?thesis by (simp add: view_set_all_other set_view)
  next
    case False
    with 2 show ?thesis by simp
  qed
qed simp

lemma read_after_write: "fst (read k (set_val k v s)) = lift v"
  by (simp add: read_result set_view)

lemma read_stable: "fst (read k (snd (read j s))) = fst (read k s)"
  by (simp add: read_result read_view)

end

definition storage_view ::
  "fork_source \<Rightarrow> fork_storage \<Rightarrow> storage_key \<Rightarrow> (string, storage_value) outcome" where
  "storage_view fork s key = (case st_state (fs_raw_storage s) key of
       Some v \<Rightarrow> Inr v
     | None \<Rightarrow> (case fs_value_read_cache s key of
         Some v \<Rightarrow> Inr v
       | None \<Rightarrow> (case get_storage_at_forked fork (sk_address key) (sk_key key) of
           Inl e \<Rightarrow> Inl (Panic e) | Inr v \<Rightarrow> Inr v)))"

interpretation fs: key_value_storage "storage_view fork" "read_value_internal fork" fs_set_value Inr
  for fork :: fork_source
proof unfold_locales
  fix k s and v :: h256
  show "fst (read_value_internal fork k s) = storage_view fork s k"
    by (simp add: read_value_internal_def storage_view_def read_value_opt_def
        split: option.split sum.split)
  show "storage_view fork (snd (read_value_internal fork k s)) = storage_view fork s"
    by (auto simp: read_value_internal_def storage_view_def read_value_opt_def fun_eq_iff
        split: option.split sum.split)
  show "storage_view fork (fs_set_value k v s) = (storage_view fork s)(k := Inr v)"
    by (simp add: storage_view_def fs_set_value_def mem_set_value_def fun_eq_iff split: option.split)
qed

text \<open>Reads are stable. A read returns the local value, else the cached one, else the fork's;
  it changes no other read; and once a key has been read its value is the same whatever
  the fork answers later.\<close>

theorem read_value_stable:
  assumes "fst (read_value_internal fork k s) = Inr v"
  shows "fst (read_value_internal fork j (snd (read_value_internal fork k s)))
      = fst (read_value_internal fork j s)
    \<and> fst (read_value_internal fork' k (snd (read_value_internal fork k s))) = Inr v
    \<and> (case st_state (fs_raw_storage s) k of Some w \<Rightarrow> v = w
       | None \<Rightarrow> (case fs_value_read_cache s k of Some w \<Rightarrow> v = w
         | None \<Rightarrow> get_storage_at_forked fork (sk_address k) (sk_key k) = Inr v))"
proof -
  have "fst (read_value_internal fork' k (snd (read_value_internal fork k s))) = Inr v"
    using assms by (auto simp: read_value_internal_def read_value_opt_def
        split: option.splits sum.splits)
  then show ?thesis
    using fs.read_stable [of fork j k s] assms
    by (auto simp: read_value_internal_def read_value_opt_def split: option.splits sum.splits)
qed

definition empty_storage :: fork_storage where
  "empty_storage = \<lparr>fs_raw_storage = \<lparr>st_state = Map.empty, st_factory_deps = Map.empty\<rparr>,
     fs_value_read_cache = Map.empty, fs_factory_dep_cache = Map.empty, fs_chain_id = 260\<rparr>"

definition constant_source :: "h256 \<Rightarrow> fork_source" where
  "constant_source v = \<lparr>get_storage_at_forked = (\<lambda>a i. Inr v), get_bytecode_by_hash = (\<lambda>h. Inr None)\<rparr>"

theorem read_value_stable_witness:
  "fst (read_value_internal (constant_source 9) \<lparr>sk_address = 1, sk_key = 2\<rparr>
     (snd (read_value_internal (constant_source 5) \<lparr>sk_address = 1, sk_key = 2\<rparr> empty_storage))) = Inr 5"
proof -
  have "fst (read_value_internal (constant_source 5) \<lparr>sk_address = 1, sk_key = 2\<rparr> empty_storage) = Inr 5"
    by (simp add: read_value_internal_def read_value_opt_def empty_storage_def constant_source_def)
  from read_value_stable [OF this, of _ "constant_source 9"] show ?thesis by blast
qed

text \<open>Writes are visible and local. After applying a set of writes, as sealing a batch does, every
  written key reads as its new value, whatever the fork or the caches hold, and every other key
  reads as before.\<close>

theorem writes_visible:
  assumes "distinct (map fst kvs)"
  shows "fst (read_value_internal fork k (foldl (\<lambda>s (k, v). fs_set_value k v s) s kvs))
    = (case map_of kvs k of Some v \<Rightarrow> Inr v | None \<Rightarrow> fst (read_value_internal fork k s))"
proof -
  have fold: "foldl (\<lambda>s (k, v). fs_set_value k v s) s kvs = fs.set_all kvs s" for s
    by (induction kvs arbitrary: s) auto
  show ?thesis
    using fs.view_set_all [OF assms, of k _ fork s] fs.view_set_all_other [of k kvs fork s]
    by (auto simp: fold fs.read_result map_of_eq_None_iff split: option.split)
qed

theorem writes_visible_witness:
  "fst (read_value_internal (constant_source 9) \<lparr>sk_address = 1, sk_key = 2\<rparr>
     (foldl (\<lambda>s (k, v). fs_set_value k v s) empty_storage [(\<lparr>sk_address = 1, sk_key = 2\<rparr>, 4)])) = Inr 4"
  using writes_visible [of "[(\<lparr>sk_address = 1, sk_key = 2\<rparr>, 4)]" "constant_source 9"
      "\<lparr>sk_address = 1, sk_key = 2\<rparr>" empty_storage] by simp

section \<open>Saving and loading\<close>

text \<open>Dumping a storage and loading the dump anywhere makes every slot that was local or cached
  read as it did when dumped, without asking the fork, keeps the target's other slots, and
  the same for bytecodes; cached absence of a bytecode is not carried over.\<close>

theorem dump_load_storage:
  "(case ser_storage (fs_dump_state s) k of
      Some v \<Rightarrow> storage_view fork s k = Inr v
        \<and> fst (read_value_internal fork' k (fs_load_state (fs_dump_state s) t)) = Inr v
    | None \<Rightarrow> fst (read_value_internal fork' k (fs_load_state (fs_dump_state s) t))
        = fst (read_value_internal fork' k t))
   \<and> (case ser_factory_deps (fs_dump_state s) h of
      Some code \<Rightarrow> fst (load_factory_dep_internal fork h s) = Inr (Some code)
        \<and> fst (load_factory_dep_internal fork' h (fs_load_state (fs_dump_state s) t)) = Inr (Some code)
    | None \<Rightarrow> fst (load_factory_dep_internal fork' h (fs_load_state (fs_dump_state s) t))
        = fst (load_factory_dep_internal fork' h t))"
  by (auto simp: fs_dump_state_def fs_load_state_def read_value_internal_def read_value_opt_def
      storage_view_def load_factory_dep_internal_def mem_load_factory_dep_def map_add_def Let_def
      split: option.splits sum.splits)

lemma length_be_bytes [simp]: "length (be_bytes n x) = n"
  by (induction n arbitrary: x) simp_all

lemma be_value_snoc [simp]: "be_value (bs @ [b]) = be_value bs * 256 + unat b"
  by (simp add: be_value_def)

lemma be_value_bytes: "be_value (be_bytes n x) = x mod 256 ^ n"
proof (induction n arbitrary: x)
  case (Suc n)
  have "unat (of_nat x :: u8) = x mod 256" by (simp add: unat_of_nat)
  with Suc show ?case by (simp add: mod_mult2_eq)
qed (simp add: be_value_def)

lemma be_value_less: "be_value bs < 256 ^ length bs"
proof (induction bs rule: rev_induct)
  case (snoc b bs)
  then have "be_value bs * 256 + unat b < (be_value bs + 1) * 256"
    using unat_less_exp [of b] by simp
  also have "\<dots> \<le> 256 ^ length bs * 256" using snoc by (intro mult_right_mono) simp_all
  finally show ?case by (simp add: mult.commute)
qed (simp add: be_value_def)

lemma be_bytes_value: "be_bytes (length bs) (be_value bs) = bs"
proof (induction bs rule: rev_induct)
  case (snoc b bs)
  have "(be_value bs * 256 + unat b) div 256 = be_value bs" using unat_less_exp [of b] by simp
  moreover have "(of_nat (be_value bs * 256 + unat b) :: u8) = b"
    by (rule unat_eqI, subst unat_of_nat) (use unat_less_exp [of b] in simp)
  ultimately show ?case using snoc by simp
qed simp

text \<open>Storage keys survive serialization: encoding takes 52 bytes and decodes to the key, every
  52-byte string is the encoding of exactly the key it decodes to, and any other length is an error.\<close>

theorem storage_key_roundtrip:
  "length (storage_key_to_bytes k) = 52 \<and> storage_key_try_from (storage_key_to_bytes k) = Inr k
   \<and> (storage_key_try_from bs = Inr k \<longleftrightarrow> storage_key_to_bytes k = bs)
   \<and> (length bs \<noteq> 52 \<longleftrightarrow> storage_key_try_from bs = Inl (Err ''invalid bytes length''))"
proof (intro conjI)
  show len: "length (storage_key_to_bytes k) = 52" by (simp add: storage_key_to_bytes_def)
  have w: "(of_nat (be_value (be_bytes 20 (unat (a::address)))) :: address) = a" for a
    using unat_less_exp [of a] by (simp add: be_value_bytes)
  have w2: "(of_nat (be_value (be_bytes 32 (unat (a::h256)))) :: h256) = a" for a
    using unat_less_exp [of a] by (simp add: be_value_bytes)
  show dec: "storage_key_try_from (storage_key_to_bytes k) = Inr k"
    by (simp add: storage_key_try_from_def storage_key_to_bytes_def w w2)
  show "storage_key_try_from bs = Inr k \<longleftrightarrow> storage_key_to_bytes k = bs"
  proof
    assume bs: "storage_key_try_from bs = Inr k"
    then have l: "length bs = 52"
      and k: "k = \<lparr>sk_address = of_nat (be_value (take 20 bs)), sk_key = of_nat (be_value (take 32 (drop 20 bs)))\<rparr>"
      by (auto simp: storage_key_try_from_def split: if_splits)
    have "be_value (take 20 bs) < 2 ^ 160" "be_value (take 32 (drop 20 bs)) < 2 ^ 256"
      using be_value_less [of "take 20 bs"] be_value_less [of "take 32 (drop 20 bs)"] l by simp_all
    then have "unat (sk_address k) = be_value (take 20 bs)"
      "unat (sk_key k) = be_value (take 32 (drop 20 bs))"
      by (simp_all add: k unat_of_nat)
    then have "storage_key_to_bytes k = take 20 bs @ take 32 (drop 20 bs)"
      using be_bytes_value [of "take 20 bs"] be_bytes_value [of "take 32 (drop 20 bs)"] l
      by (simp add: storage_key_to_bytes_def)
    also have "\<dots> = bs" using l by simp
    finally show "storage_key_to_bytes k = bs" .
  next
    assume "storage_key_to_bytes k = bs"
    with dec show "storage_key_try_from bs = Inr k" by simp
  qed
  show "length bs \<noteq> 52 \<longleftrightarrow> storage_key_try_from bs = Inl (Err ''invalid bytes length'')"
    by (auto simp: storage_key_try_from_def)
qed

text \<open>A write counts as initial exactly when the slot reads as zero and was never written locally;
  any local write, of zero too, makes the next write a repeated one.\<close>

theorem is_write_initial_spec:
  assumes "storage_view fork s k = Inr v"
  shows "fst (is_write_initial_internal fork k s) = Inr (v = 0 \<and> st_state (fs_raw_storage s) k = None)
    \<and> fst (is_write_initial_internal fork k (fs_set_value k w s)) = Inr False"
proof -
  have r: "fst (read_value_internal fork k s) = Inr v" using assms by (simp add: fs.read_result)
  have raw: "fs_raw_storage (snd (read_value_internal fork k s)) = fs_raw_storage s"
    by (simp add: read_value_internal_def split: option.split sum.split)
  have set: "read_value_internal fork k (fs_set_value k w s) = (Inr w, fs_set_value k w s)"
    and "st_state (fs_raw_storage (fs_set_value k w s)) k = Some w"
    by (simp_all add: read_value_internal_def read_value_opt_def fs_set_value_def mem_set_value_def)
  then show ?thesis
    using r raw by (auto simp: is_write_initial_internal_def split_def mem_is_write_initial_def set)
qed

theorem is_write_initial_spec_witness:
  "fst (is_write_initial_internal (constant_source 0) \<lparr>sk_address = 1, sk_key = 2\<rparr> empty_storage) = Inr True"
proof -
  have "storage_view (constant_source 0) empty_storage \<lparr>sk_address = 1, sk_key = 2\<rparr> = Inr 0"
    by (simp add: storage_view_def empty_storage_def constant_source_def)
  from is_write_initial_spec [OF this] show ?thesis by (simp add: empty_storage_def)
qed

end
