(* ===== verification/Fork_Client.thy ===== *)
theory Fork_Client
  imports Blockchain_State Fork_Cache Fork_Storage
begin

text \<open>
  The remote chain a node is forked from: \<open>crates/core/src/node/inner/fork.rs\<close>.

  The JSON-RPC client of the zksync crates is a record of the calls the code makes, each a
  function to a result (\<open>Inl\<close> the error): \<open>'p\<close>, \<open>'b\<close>, \<open>'t\<close> and \<open>'td\<close> are the types of fee
  parameters, bridge addresses, tokens and transaction details, \<open>'f\<close> that of floating-point
  numbers. \<open>Fork\<close>'s shared state is passed explicitly, with the cache directory beside the cache.
\<close>

section \<open>The client\<close>

record remote_block_details =
  rbd_l1_batch_number :: u32
  rbd_root_hash :: "h256 option"
  rbd_timestamp :: u64
  rbd_l1_gas_price :: u64
  rbd_l2_fair_gas_price :: u64
  rbd_fair_pubdata_price :: "u64 option"
  rbd_protocol_version :: "protocol_version option"

record ('p, 'b, 't, 'td) l2_client =
  rpc_chain_id :: "string + u64"
  rpc_block_number :: "string + u64"
  rpc_block_details :: "u32 \<Rightarrow> string + remote_block_details option"
  rpc_block_by_hash :: "h256 \<Rightarrow> bool \<Rightarrow> string + api_block option"
  rpc_block_by_number :: "block_number \<Rightarrow> bool \<Rightarrow> string + api_block option"
  rpc_fee_params :: "string + 'p fee_params"
  rpc_storage_at :: "address \<Rightarrow> u256 \<Rightarrow> block_id_variant option \<Rightarrow> string + h256"
  rpc_bytecode_by_hash :: "h256 \<Rightarrow> string + bytes option"
  rpc_transaction_by_hash :: "h256 \<Rightarrow> string + api_transaction option"
  rpc_transaction_details :: "h256 \<Rightarrow> string + 'td option"
  rpc_raw_block_transactions :: "u32 \<Rightarrow> string + transaction list"
  rpc_tx_count_by_hash :: "h256 \<Rightarrow> string + u256 option"
  rpc_tx_count_by_number :: "block_number \<Rightarrow> string + u256 option"
  rpc_tx_by_hash_and_index :: "h256 \<Rightarrow> u64 \<Rightarrow> string + api_transaction option"
  rpc_tx_by_number_and_index :: "block_number \<Rightarrow> u64 \<Rightarrow> string + api_transaction option"
  rpc_bridge_contracts :: "string + 'b"
  rpc_confirmed_tokens :: "u32 \<Rightarrow> u8 \<Rightarrow> string + 't list"

record 'f fork_config =
  fc_url :: string
  fc_estimate_gas_price_scale_factor :: 'f
  fc_estimate_gas_scale_factor :: 'f

record ('f, 'p, 'b, 't, 'td) fork_client =
  cl_url :: string
  cl_details :: "('f, 'p) fork_details"
  cl_l2_client :: "('p, 'b, 't, 'td) l2_client"

definition fork_config_unknown :: "('f, 'p) fee_api \<Rightarrow> string \<Rightarrow> 'f fork_config" where
  "fork_config_unknown api url = \<lparr>fc_url = url,
     fc_estimate_gas_price_scale_factor = f_gas_price_scale_default api,
     fc_estimate_gas_scale_factor = f_gas_scale_default api\<rparr>"

definition SUPPORTED_VERSIONS :: "protocol_version list" where
  "SUPPORTED_VERSIONS = [26, 27, 28]"

definition is_supported :: "protocol_version \<Rightarrow> bool" where
  "is_supported version \<longleftrightarrow> version \<in> set SUPPORTED_VERSIONS"

text \<open>Results of \<open>anyhow\<close> code lifted to outcomes.\<close>

fun call :: "string + 'a \<Rightarrow> (string, 'a) outcome" where
  "call (Inl e) = Inl (Err e)"
| "call (Inr a) = Inr a"

definition fork_client_new ::
  "(u64 \<Rightarrow> string + u64) \<Rightarrow> 'f fork_config \<Rightarrow> ('p, 'b, 't, 'td) l2_client \<Rightarrow> u32
     \<Rightarrow> (string, ('f, 'p, 'b, 't, 'td) fork_client) outcome" where
  "fork_client_new chain_id_try_from config client block_number =
     and_then (call (rpc_chain_id client)) (\<lambda>raw_chain_id.
     and_then (call (chain_id_try_from raw_chain_id)) (\<lambda>chain_id.
     and_then (call (rpc_block_details client block_number)) (\<lambda>found.
     and_then (ok_or ''could not find block'' found) (\<lambda>block_details.
     and_then (ok_or ''fork block missing root hash'' (rbd_root_hash block_details)) (\<lambda>root_hash.
     and_then (call (rpc_block_by_hash client root_hash True)) (\<lambda>found_block.
     and_then (ok_or ''could not find API block'' found_block) (\<lambda>block.
     let batch_number = rbd_l1_batch_number block_details;
         block = block\<lparr>blk_l1_batch_number := Some (ucast batch_number)\<rparr>
     in case rbd_protocol_version block_details of
          None \<Rightarrow> Inl (Err ''block does not have protocol version set'')
        | Some version \<Rightarrow>
            if \<not> is_supported version then Inl (Err ''unsupported protocol version'')
            else and_then (call (rpc_fee_params client)) (\<lambda>fee_params.
              Inr \<lparr>cl_url = fc_url config,
                cl_details = \<lparr>fd_chain_id = chain_id, fd_protocol_version = version,
                  fd_batch_number = batch_number, fd_block_number = block_number,
                  fd_block_hash = root_hash, fd_block_timestamp = rbd_timestamp block_details,
                  fd_api_block = block, fd_l1_gas_price = rbd_l1_gas_price block_details,
                  fd_l2_fair_gas_price = rbd_l2_fair_gas_price block_details,
                  fd_fair_pubdata_price = case_option DEFAULT_FAIR_PUBDATA_PRICE id
                    (rbd_fair_pubdata_price block_details),
                  fd_estimate_gas_price_scale_factor = fc_estimate_gas_price_scale_factor config,
                  fd_estimate_gas_scale_factor = fc_estimate_gas_scale_factor config,
                  fd_fee_params = fee_params\<rparr>,
                cl_l2_client = client\<rparr>))))))))"

definition at_block_number ::
  "(u64 \<Rightarrow> string + u64) \<Rightarrow> 'f fork_config \<Rightarrow> ('p, 'b, 't, 'td) l2_client \<Rightarrow> u32 option
     \<Rightarrow> (string, ('f, 'p, 'b, 't, 'td) fork_client) outcome" where
  "at_block_number chain_id_try_from config client block_number =
     and_then (case block_number of
         Some n \<Rightarrow> Inr n
       | None \<Rightarrow> and_then (call (rpc_block_number client)) as_u32) (\<lambda>n.
     fork_client_new chain_id_try_from config client n)"

fun txs_through :: "h256 \<Rightarrow> transaction list \<Rightarrow> transaction list" where
  "txs_through h [] = []"
| "txs_through h (tx # txs) = tx # (if tx_hash tx = h then [] else txs_through h txs)"

definition at_before_tx ::
  "(u64 \<Rightarrow> string + u64) \<Rightarrow> 'f fork_config \<Rightarrow> ('p, 'b, 't, 'td) l2_client \<Rightarrow> h256
     \<Rightarrow> (string, ('f, 'p, 'b, 't, 'td) fork_client \<times> transaction list) outcome" where
  "at_before_tx chain_id_try_from config client txh =
     and_then (call (rpc_transaction_by_hash client txh)) (\<lambda>found.
     and_then (ok_or ''could not find tx'' found) (\<lambda>tx_details.
     and_then (ok_or ''tx is still pending'' (atx_block_number tx_details)) (\<lambda>n.
     and_then (as_u32 n) (\<lambda>block_number.
     if block_number = 0 then Inl (Err ''tx belongs to genesis'')
     else and_then (call (rpc_raw_block_transactions client block_number)) (\<lambda>txs.
       and_then (fork_client_new chain_id_try_from config client (block_number - 1)) (\<lambda>fork.
       Inr (fork, txs_through txh txs)))))))"

definition fork_client_get_fee_params ::
  "('f, 'p, 'b, 't, 'td) fork_client \<Rightarrow> (string, 'p fee_params) outcome" where
  "fork_client_get_fee_params c = call (rpc_fee_params (cl_l2_client c))"

section \<open>The fork\<close>

record ('f, 'p, 'b, 't, 'td) fork_state =
  fk_client :: "('f, 'p, 'b, 't, 'td) fork_client option"
  fk_cache :: "('b, 't) cache"
  fk_dir :: "'b cache_dir"

definition fork_new ::
  "('f, 'p, 'b, 't, 'td) fork_client option \<Rightarrow> cache_config \<Rightarrow> 'b cache_dir
     \<Rightarrow> ('f, 'p, 'b, 't, 'td) fork_state" where
  "fork_new client config d =
     (let (c, d') = cache_new config d in \<lparr>fk_client = client, fk_cache = c, fk_dir = d'\<rparr>)"

definition reset_fork_client ::
  "('f, 'p, 'b, 't, 'td) fork_client option \<Rightarrow> ('f, 'p, 'b, 't, 'td) fork_state
     \<Rightarrow> ('f, 'p, 'b, 't, 'td) fork_state" where
  "reset_fork_client client s = s\<lparr>fk_client := client\<rparr>"

definition set_fork_url ::
  "string \<Rightarrow> ('f, 'p, 'b, 't, 'td) fork_state \<Rightarrow> string option \<times> ('f, 'p, 'b, 't, 'td) fork_state" where
  "set_fork_url new_url s = (case fk_client s of
       Some client \<Rightarrow> (Some (cl_url client), s\<lparr>fk_client := Some (client\<lparr>cl_url := new_url\<rparr>)\<rparr>)
     | None \<Rightarrow> (None, s))"

definition make_call ::
  "(('p, 'b, 't, 'td) l2_client \<Rightarrow> string + 'a) \<Rightarrow> ('f, 'p, 'b, 't, 'td) fork_state
     \<Rightarrow> (string + 'a) option" where
  "make_call call_body s = map_option (\<lambda>c. call_body (cl_l2_client c)) (fk_client s)"

definition fork_url :: "('f, 'p, 'b, 't, 'td) fork_state \<Rightarrow> string option" where
  "fork_url s = map_option cl_url (fk_client s)"

definition details :: "('f, 'p, 'b, 't, 'td) fork_state \<Rightarrow> ('f, 'p) fork_details option" where
  "details s = map_option cl_details (fk_client s)"

definition fork_get_storage_at ::
  "address \<Rightarrow> u256 \<Rightarrow> block_id_variant option \<Rightarrow> ('f, 'p, 'b, 't, 'td) fork_state \<Rightarrow> string + h256" where
  "fork_get_storage_at a idx block s =
     case_option (Inr 0) id (make_call (\<lambda>c. rpc_storage_at c a idx block) s)"

definition fork_get_storage_at_forked ::
  "address \<Rightarrow> u256 \<Rightarrow> ('f, 'p, 'b, 't, 'td) fork_state \<Rightarrow> string + h256" where
  "fork_get_storage_at_forked a idx s = (case fk_client s of
       None \<Rightarrow> Inr 0
     | Some client \<Rightarrow> fork_get_storage_at a idx
         (Some (VariantNumber (Number (ucast (fd_block_number (cl_details client)))))) s)"

definition fork_get_bytecode_by_hash ::
  "h256 \<Rightarrow> ('f, 'p, 'b, 't, 'td) fork_state \<Rightarrow> string + bytes option" where
  "fork_get_bytecode_by_hash h s =
     case_option (Inr None) id (make_call (\<lambda>c. rpc_bytecode_by_hash c h) s)"

definition fork_get_transaction_by_hash ::
  "h256 \<Rightarrow> ('f, 'p, 'b, 't, 'td) fork_state
     \<Rightarrow> (string + api_transaction option) \<times> ('f, 'p, 'b, 't, 'td) fork_state" where
  "fork_get_transaction_by_hash h s = (case get_transaction h (fk_cache s) of
       Some tx \<Rightarrow> (Inr (Some tx), s)
     | None \<Rightarrow> (case case_option (Inr None) id (make_call (\<lambda>c. rpc_transaction_by_hash c h) s) of
         Inl e \<Rightarrow> (Inl e, s)
       | Inr (Some tx) \<Rightarrow>
           (let (c, d) = insert_transaction h tx (fk_cache s) (fk_dir s)
            in (Inr (Some tx), s\<lparr>fk_cache := c, fk_dir := d\<rparr>))
       | Inr None \<Rightarrow> (Inr None, s)))"

definition fork_get_transaction_details ::
  "h256 \<Rightarrow> ('f, 'p, 'b, 't, 'td) fork_state \<Rightarrow> string + 'td option" where
  "fork_get_transaction_details h s =
     case_option (Inr None) id (make_call (\<lambda>c. rpc_transaction_details c h) s)"

definition fork_get_raw_block_transactions ::
  "u32 \<Rightarrow> ('f, 'p, 'b, 't, 'td) fork_state
     \<Rightarrow> (string + transaction list) \<times> ('f, 'p, 'b, 't, 'td) fork_state" where
  "fork_get_raw_block_transactions n s = (case get_block_raw_transactions (ucast n) (fk_cache s) of
       Some txs \<Rightarrow> (Inr txs, s)
     | None \<Rightarrow> (case case_option (Inl ''NoBlock'') id (make_call (\<lambda>c. rpc_raw_block_transactions c n) s) of
         Inl e \<Rightarrow> (Inl e, s)
       | Inr txs \<Rightarrow>
           (let (c, d) = insert_block_raw_transactions (ucast n) txs (fk_cache s) (fk_dir s)
            in (Inr txs, s\<lparr>fk_cache := c, fk_dir := d\<rparr>))))"

definition fork_get_block_by_hash ::
  "h256 \<Rightarrow> ('f, 'p, 'b, 't, 'td) fork_state
     \<Rightarrow> (string + api_block option) \<times> ('f, 'p, 'b, 't, 'td) fork_state" where
  "fork_get_block_by_hash h s = (case get_block h True (fk_cache s) of
       Some b \<Rightarrow> (Inr (Some b), s)
     | None \<Rightarrow> (case case_option (Inr None) id (make_call (\<lambda>c. rpc_block_by_hash c h True) s) of
         Inl e \<Rightarrow> (Inl e, s)
       | Inr (Some b) \<Rightarrow>
           (let (c, d) = insert_block h True b (fk_cache s) (fk_dir s)
            in (Inr (Some b), s\<lparr>fk_cache := c, fk_dir := d\<rparr>))
       | Inr None \<Rightarrow> (Inr None, s)))"

definition fork_get_block_by_number ::
  "block_number \<Rightarrow> ('f, 'p, 'b, 't, 'td) fork_state
     \<Rightarrow> (string + api_block option) \<times> ('f, 'p, 'b, 't, 'td) fork_state" where
  "fork_get_block_by_number number s = (case number of
       Number n \<Rightarrow>
         (case Option.bind (get_block_hash n (fk_cache s)) (\<lambda>h. get_block h True (fk_cache s)) of
           Some b \<Rightarrow> (Inr (Some b), s)
         | None \<Rightarrow> (case case_option (Inr None) id (make_call (\<lambda>c. rpc_block_by_number c (Number n) True) s) of
             Inl e \<Rightarrow> (Inl e, s)
           | Inr (Some b) \<Rightarrow>
               (let (c, d) = insert_block (blk_hash b) True b (fk_cache s) (fk_dir s)
                in (Inr (Some b), s\<lparr>fk_cache := c, fk_dir := d\<rparr>))
           | Inr None \<Rightarrow> (Inr None, s)))
     | _ \<Rightarrow> (case_option (Inr None) id (make_call (\<lambda>c. rpc_block_by_number c number True) s), s))"

definition fork_get_block_by_id ::
  "block_id \<Rightarrow> ('f, 'p, 'b, 't, 'td) fork_state
     \<Rightarrow> (string + api_block option) \<times> ('f, 'p, 'b, 't, 'td) fork_state" where
  "fork_get_block_by_id block_id s = (case block_id of
       BlockHash h \<Rightarrow> fork_get_block_by_hash h s
     | BlockNumber n \<Rightarrow> fork_get_block_by_number n s)"

definition fork_get_block_details ::
  "u32 \<Rightarrow> ('f, 'p, 'b, 't, 'td) fork_state \<Rightarrow> string + remote_block_details option" where
  "fork_get_block_details n s = case_option (Inr None) id (make_call (\<lambda>c. rpc_block_details c n) s)"

definition fork_get_block_transaction_count_by_hash ::
  "h256 \<Rightarrow> ('f, 'p, 'b, 't, 'td) fork_state \<Rightarrow> string + u256 option" where
  "fork_get_block_transaction_count_by_hash h s =
     case_option (Inr None) id (make_call (\<lambda>c. rpc_tx_count_by_hash c h) s)"

definition fork_get_block_transaction_count_by_number ::
  "block_number \<Rightarrow> ('f, 'p, 'b, 't, 'td) fork_state \<Rightarrow> string + u256 option" where
  "fork_get_block_transaction_count_by_number n s =
     case_option (Inr None) id (make_call (\<lambda>c. rpc_tx_count_by_number c n) s)"

definition fork_get_block_transaction_count_by_id ::
  "block_id \<Rightarrow> ('f, 'p, 'b, 't, 'td) fork_state \<Rightarrow> string + u256 option" where
  "fork_get_block_transaction_count_by_id block_id s = (case block_id of
       BlockHash h \<Rightarrow> fork_get_block_transaction_count_by_hash h s
     | BlockNumber n \<Rightarrow> fork_get_block_transaction_count_by_number n s)"

definition fork_get_transaction_by_block_hash_and_index ::
  "h256 \<Rightarrow> u64 \<Rightarrow> ('f, 'p, 'b, 't, 'td) fork_state \<Rightarrow> string + api_transaction option" where
  "fork_get_transaction_by_block_hash_and_index h i s =
     case_option (Inr None) id (make_call (\<lambda>c. rpc_tx_by_hash_and_index c h i) s)"

definition fork_get_transaction_by_block_number_and_index ::
  "block_number \<Rightarrow> u64 \<Rightarrow> ('f, 'p, 'b, 't, 'td) fork_state \<Rightarrow> string + api_transaction option" where
  "fork_get_transaction_by_block_number_and_index n i s =
     case_option (Inr None) id (make_call (\<lambda>c. rpc_tx_by_number_and_index c n i) s)"

definition fork_get_transaction_by_block_id_and_index ::
  "block_id \<Rightarrow> u64 \<Rightarrow> ('f, 'p, 'b, 't, 'td) fork_state \<Rightarrow> string + api_transaction option" where
  "fork_get_transaction_by_block_id_and_index block_id i s = (case block_id of
       BlockHash h \<Rightarrow> fork_get_transaction_by_block_hash_and_index h i s
     | BlockNumber n \<Rightarrow> fork_get_transaction_by_block_number_and_index n i s)"

definition fork_get_bridge_contracts ::
  "('f, 'p, 'b, 't, 'td) fork_state \<Rightarrow> (string + 'b option) \<times> ('f, 'p, 'b, 't, 'td) fork_state" where
  "fork_get_bridge_contracts s = (case get_bridge_addresses (fk_cache s) of
       Some b \<Rightarrow> (Inr (Some b), s)
     | None \<Rightarrow> (case case_option (Inr None) id
           (make_call (\<lambda>c. and_then (rpc_bridge_contracts c) (\<lambda>b. Inr (Some b))) s) of
         Inl e \<Rightarrow> (Inl e, s)
       | Inr (Some b) \<Rightarrow>
           (let (c, d) = set_bridge_addresses b (fk_cache s) (fk_dir s)
            in (Inr (Some b), s\<lparr>fk_cache := c, fk_dir := d\<rparr>))
       | Inr None \<Rightarrow> (Inr None, s)))"

definition fork_get_confirmed_tokens ::
  "u32 \<Rightarrow> u8 \<Rightarrow> ('f, 'p, 'b, 't, 'td) fork_state
     \<Rightarrow> (string + 't list option) \<times> ('f, 'p, 'b, 't, 'td) fork_state" where
  "fork_get_confirmed_tokens from limit s = (case get_confirmed_tokens from limit (fk_cache s) of
       Some ts \<Rightarrow> (Inr (Some ts), s)
     | None \<Rightarrow> (case case_option (Inr None) id
           (make_call (\<lambda>c. and_then (rpc_confirmed_tokens c from limit) (\<lambda>ts. Inr (Some ts))) s) of
         Inl e \<Rightarrow> (Inl e, s)
       | Inr (Some ts) \<Rightarrow>
           (Inr (Some ts), s\<lparr>fk_cache := set_confirmed_tokens from limit ts (fk_cache s)\<rparr>)
       | Inr None \<Rightarrow> (Inr None, s)))"

text \<open>The fork as the storage sees it.\<close>

definition fork_as_source :: "('f, 'p, 'b, 't, 'td) fork_state \<Rightarrow> fork_source" where
  "fork_as_source s = \<lparr>get_storage_at_forked = (\<lambda>a i. fork_get_storage_at_forked a i s),
     get_bytecode_by_hash = (\<lambda>h. fork_get_bytecode_by_hash h s)\<rparr>"

section \<open>Fetching through a cache\<close>

text \<open>
  The contract the cached calls share: a hit answers from the cache, a miss asks the remote side and
  remembers a positive answer under the same key only.
\<close>

locale memo_fetch =
  fixes cached :: "'k \<Rightarrow> 's \<Rightarrow> 'v option"
    and remote :: "'k \<Rightarrow> 's \<Rightarrow> string + 'v option"
    and fetch :: "'k \<Rightarrow> 's \<Rightarrow> (string + 'v option) \<times> 's"
  assumes hit: "cached k s = Some v \<Longrightarrow> fetch k s = (Inr (Some v), s)"
    and miss_result: "cached k s = None \<Longrightarrow> fst (fetch k s) = remote k s"
    and fetch_remote: "remote j (snd (fetch k s)) = remote j s"
    and fetch_cached: "cached j (snd (fetch k s)) = cached j s
      \<or> j = k \<and> (\<exists>v. remote k s = Inr (Some v) \<and> cached k (snd (fetch k s)) = Some v)"
begin

definition coherent :: "'s \<Rightarrow> bool" where
  "coherent s \<longleftrightarrow> (\<forall>k v. cached k s = Some v \<longrightarrow> remote k s = Inr (Some v))"

lemma coherent_fetch: "coherent s \<Longrightarrow> coherent (snd (fetch k s))"
  using fetch_cached [of _ k s] fetch_remote [of _ k s] unfolding coherent_def by metis

lemma fetch_transparent: "coherent s \<Longrightarrow> fst (fetch k s) = remote k s"
  by (cases "cached k s") (auto simp: coherent_def hit miss_result)

lemma fetch_all_transparent:
  "coherent s \<Longrightarrow> fst (fetch k (fold (\<lambda>j s. snd (fetch j s)) js s)) = remote k s"
  by (induction js arbitrary: s) (simp_all add: coherent_fetch fetch_transparent fetch_remote)

end

definition remote_transaction ::
  "h256 \<Rightarrow> ('f, 'p, 'b, 't, 'td) fork_state \<Rightarrow> string + api_transaction option" where
  "remote_transaction h s = case_option (Inr None) id (make_call (\<lambda>c. rpc_transaction_by_hash c h) s)"

definition remote_block :: "h256 \<Rightarrow> ('f, 'p, 'b, 't, 'td) fork_state \<Rightarrow> string + api_block option" where
  "remote_block h s = case_option (Inr None) id (make_call (\<lambda>c. rpc_block_by_hash c h True) s)"

definition remote_tokens ::
  "u32 \<times> u8 \<Rightarrow> ('f, 'p, 'b, 't, 'td) fork_state \<Rightarrow> string + 't list option" where
  "remote_tokens k s = case_option (Inr None) id
     (make_call (\<lambda>c. and_then (rpc_confirmed_tokens c (fst k) (snd k)) (\<lambda>ts. Inr (Some ts))) s)"

definition remote_bridge :: "unit \<Rightarrow> ('f, 'p, 'b, 't, 'td) fork_state \<Rightarrow> string + 'b option" where
  "remote_bridge u s = case_option (Inr None) id
     (make_call (\<lambda>c. and_then (rpc_bridge_contracts c) (\<lambda>b. Inr (Some b))) s)"

lemma make_call_cache [simp]:
  "make_call f (s\<lparr>fk_cache := c, fk_dir := d\<rparr>) = make_call f s"
  "make_call f (s\<lparr>fk_cache := c\<rparr>) = make_call f s"
  by (simp_all add: make_call_def)

interpretation tx_cache: memo_fetch "\<lambda>h (s :: ('f, 'p, 'b, 't, 'td) fork_state). get_transaction h (fk_cache s)" remote_transaction
    fork_get_transaction_by_hash
proof unfold_locales
  fix h j and s :: "('f, 'p, 'b, 't, 'td) fork_state"
  show "get_transaction h (fk_cache s) = Some v \<Longrightarrow> fork_get_transaction_by_hash h s = (Inr (Some v), s)" for v
    by (simp add: fork_get_transaction_by_hash_def)
  show "get_transaction h (fk_cache s) = None \<Longrightarrow> fst (fork_get_transaction_by_hash h s) = remote_transaction h s"
    by (simp add: fork_get_transaction_by_hash_def remote_transaction_def split_def Let_def split: sum.split option.split)
  show "remote_transaction j (snd (fork_get_transaction_by_hash h s)) = remote_transaction j s"
    by (simp add: fork_get_transaction_by_hash_def remote_transaction_def split_def Let_def
        split: sum.split option.split)
  show "get_transaction j (fk_cache (snd (fork_get_transaction_by_hash h s))) = get_transaction j (fk_cache s)
      \<or> j = h \<and> (\<exists>v. remote_transaction h s = Inr (Some v)
        \<and> get_transaction h (fk_cache (snd (fork_get_transaction_by_hash h s))) = Some v)"
    by (auto simp: fork_get_transaction_by_hash_def remote_transaction_def split_def Let_def
        insert_transaction_def get_transaction_def split: sum.split option.split)
qed

interpretation block_cache: memo_fetch "\<lambda>h (s :: ('f, 'p, 'b, 't, 'td) fork_state). get_block h True (fk_cache s)" remote_block
    fork_get_block_by_hash
proof unfold_locales
  fix h j and s :: "('f, 'p, 'b, 't, 'td) fork_state"
  show "get_block h True (fk_cache s) = Some v \<Longrightarrow> fork_get_block_by_hash h s = (Inr (Some v), s)" for v
    by (simp add: fork_get_block_by_hash_def)
  show "get_block h True (fk_cache s) = None \<Longrightarrow> fst (fork_get_block_by_hash h s) = remote_block h s"
    by (simp add: fork_get_block_by_hash_def remote_block_def split_def Let_def split: sum.split option.split)
  show "remote_block j (snd (fork_get_block_by_hash h s)) = remote_block j s"
    by (simp add: fork_get_block_by_hash_def remote_block_def split_def Let_def split: sum.split option.split)
  show "get_block j True (fk_cache (snd (fork_get_block_by_hash h s))) = get_block j True (fk_cache s)
      \<or> j = h \<and> (\<exists>v. remote_block h s = Inr (Some v)
        \<and> get_block h True (fk_cache (snd (fork_get_block_by_hash h s))) = Some v)"
    by (auto simp: fork_get_block_by_hash_def remote_block_def split_def Let_def
        insert_block_def get_block_def split: sum.split option.split)
qed

interpretation bridge_cache: memo_fetch "\<lambda>u (s :: ('f, 'p, 'b, 't, 'td) fork_state). get_bridge_addresses (fk_cache s)" remote_bridge
    "\<lambda>u. fork_get_bridge_contracts"
proof unfold_locales
  fix u j :: unit and s :: "('f, 'p, 'b, 't, 'td) fork_state"
  show "get_bridge_addresses (fk_cache s) = Some v \<Longrightarrow> fork_get_bridge_contracts s = (Inr (Some v), s)" for v
    by (simp add: fork_get_bridge_contracts_def)
  show "get_bridge_addresses (fk_cache s) = None \<Longrightarrow> fst (fork_get_bridge_contracts s) = remote_bridge u s"
    by (simp add: fork_get_bridge_contracts_def remote_bridge_def split_def Let_def split: sum.split option.split)
  show "remote_bridge j (snd (fork_get_bridge_contracts s)) = remote_bridge j s"
    by (simp add: fork_get_bridge_contracts_def remote_bridge_def split_def Let_def
        split: sum.split option.split)
  show "get_bridge_addresses (fk_cache (snd (fork_get_bridge_contracts s))) = get_bridge_addresses (fk_cache s)
      \<or> j = u \<and> (\<exists>v. remote_bridge u s = Inr (Some v)
        \<and> get_bridge_addresses (fk_cache (snd (fork_get_bridge_contracts s))) = Some v)"
    by (auto simp: fork_get_bridge_contracts_def remote_bridge_def split_def Let_def
        set_bridge_addresses_def get_bridge_addresses_def split: sum.split option.split)
qed

interpretation token_cache: memo_fetch "\<lambda>k (s :: ('f, 'p, 'b, 't, 'td) fork_state). get_confirmed_tokens (fst k) (snd k) (fk_cache s)" remote_tokens
    "\<lambda>k. fork_get_confirmed_tokens (fst k) (snd k)"
proof unfold_locales
  fix k j :: "u32 \<times> u8" and s :: "('f, 'p, 'b, 't, 'td) fork_state"
  show "get_confirmed_tokens (fst k) (snd k) (fk_cache s) = Some v
      \<Longrightarrow> fork_get_confirmed_tokens (fst k) (snd k) s = (Inr (Some v), s)" for v
    by (simp add: fork_get_confirmed_tokens_def)
  show "get_confirmed_tokens (fst k) (snd k) (fk_cache s) = None
      \<Longrightarrow> fst (fork_get_confirmed_tokens (fst k) (snd k) s) = remote_tokens k s"
    by (simp add: fork_get_confirmed_tokens_def remote_tokens_def split_def split: sum.split option.split)
  show "remote_tokens j (snd (fork_get_confirmed_tokens (fst k) (snd k) s)) = remote_tokens j s"
    by (simp add: fork_get_confirmed_tokens_def remote_tokens_def split: sum.split option.split)
  show "get_confirmed_tokens (fst j) (snd j) (fk_cache (snd (fork_get_confirmed_tokens (fst k) (snd k) s)))
        = get_confirmed_tokens (fst j) (snd j) (fk_cache s)
      \<or> j = k \<and> (\<exists>v. remote_tokens k s = Inr (Some v)
        \<and> get_confirmed_tokens (fst k) (snd k) (fk_cache (snd (fork_get_confirmed_tokens (fst k) (snd k) s))) = Some v)"
    by (auto simp: fork_get_confirmed_tokens_def remote_tokens_def set_confirmed_tokens_def
        get_confirmed_tokens_def prod_eq_iff split: sum.split option.split)
qed

definition fork_coherent :: "('f, 'p, 'b, 't, 'td) fork_state \<Rightarrow> bool" where
  "fork_coherent s \<longleftrightarrow>
     (\<forall>h tx. get_transaction h (fk_cache s) = Some tx \<longrightarrow> remote_transaction h s = Inr (Some tx))
     \<and> (\<forall>h b. get_block h True (fk_cache s) = Some b \<longrightarrow> remote_block h s = Inr (Some b))"

lemma fork_coherent_iff: "fork_coherent s \<longleftrightarrow> tx_cache.coherent s \<and> block_cache.coherent s"
  by (simp add: fork_coherent_def tx_cache.coherent_def block_cache.coherent_def)

text \<open>Any mixture of the two calls keeps a coherent fork coherent.\<close>

datatype fork_call = FetchTransaction h256 | FetchBlock h256

fun fork_call_exec ::
  "fork_call \<Rightarrow> ('f, 'p, 'b, 't, 'td) fork_state \<Rightarrow> ('f, 'p, 'b, 't, 'td) fork_state" where
  "fork_call_exec (FetchTransaction h) s = snd (fork_get_transaction_by_hash h s)"
| "fork_call_exec (FetchBlock h) s = snd (fork_get_block_by_hash h s)"

lemma fetch_tx_blocks:
  "get_block j full (fk_cache (snd (fork_get_transaction_by_hash h s))) = get_block j full (fk_cache s)"
  "remote_block j (snd (fork_get_transaction_by_hash h s)) = remote_block j s"
  by (simp_all add: fork_get_transaction_by_hash_def insert_transaction_def get_block_def remote_block_def
      Let_def split_def split: option.split sum.split)

lemma fetch_block_txs:
  "get_transaction j (fk_cache (snd (fork_get_block_by_hash h s))) = get_transaction j (fk_cache s)"
  "remote_transaction j (snd (fork_get_block_by_hash h s)) = remote_transaction j s"
  by (simp_all add: fork_get_block_by_hash_def insert_block_def get_transaction_def remote_transaction_def
      Let_def split_def split: option.split sum.split)

lemma fork_call_coherent: "fork_coherent s \<Longrightarrow> fork_coherent (fork_call_exec c s)"
  by (cases c) (simp_all add: fork_coherent_iff tx_cache.coherent_fetch block_cache.coherent_fetch,
      simp_all add: tx_cache.coherent_def block_cache.coherent_def fetch_tx_blocks fetch_block_txs)

lemma fork_call_remote:
  "remote_transaction h (fork_call_exec c s) = remote_transaction h s"
  "remote_block h (fork_call_exec c s) = remote_block h s"
  by (cases c; simp add: tx_cache.fetch_remote block_cache.fetch_remote fetch_tx_blocks fetch_block_txs)+


definition sample_block :: "h256 \<Rightarrow> api_block" where
  "sample_block h = \<lparr>blk_hash = h, blk_parent_hash = 0, blk_number = 5,
     blk_l1_batch_number = None, blk_base_fee_per_gas = 0, blk_timestamp = 1700, blk_l1_batch_timestamp = None,
     blk_transactions = [], blk_gas_used = 0, blk_gas_limit = 0, blk_logs_bloom = []\<rparr>"

definition sample_client :: "h256 \<Rightarrow> (unit, unit, unit, unit) l2_client" where
  "sample_client h = \<lparr>rpc_chain_id = Inr 324, rpc_block_number = Inr 5,
     rpc_block_details = (\<lambda>n. Inr (Some \<lparr>rbd_l1_batch_number = 2, rbd_root_hash = Some h, rbd_timestamp = 1700,
       rbd_l1_gas_price = 1, rbd_l2_fair_gas_price = 2, rbd_fair_pubdata_price = None,
       rbd_protocol_version = Some 27\<rparr>)),
     rpc_block_by_hash = (\<lambda>g full. Inr (if g = h then Some (sample_block h) else None)),
     rpc_block_by_number = (\<lambda>n full. Inr None), rpc_fee_params = Inr (FeeParamsV2 ()),
     rpc_storage_at = (\<lambda>a i b. Inr 0), rpc_bytecode_by_hash = (\<lambda>g. Inr None),
     rpc_transaction_by_hash = (\<lambda>g. Inr None), rpc_transaction_details = (\<lambda>g. Inr None),
     rpc_raw_block_transactions = (\<lambda>n. Inr []), rpc_tx_count_by_hash = (\<lambda>g. Inr None),
     rpc_tx_count_by_number = (\<lambda>n. Inr None), rpc_tx_by_hash_and_index = (\<lambda>g i. Inr None),
     rpc_tx_by_number_and_index = (\<lambda>n i. Inr None), rpc_bridge_contracts = Inr (),
     rpc_confirmed_tokens = (\<lambda>a b. Inr [])\<rparr>"

definition sample_atx :: api_transaction where
  "sample_atx = \<lparr>atx_hash = 2, atx_nonce = 0, atx_block_hash = None, atx_block_number = Some 6,
     atx_transaction_index = Some 1, atx_from = None, atx_to = None, atx_value = 0, atx_gas_price = None,
     atx_gas = 0, atx_input = [], atx_v = None, atx_r = None, atx_s = None, atx_y_parity = None,
     atx_raw = None, atx_transaction_type = None, atx_max_fee_per_gas = None,
     atx_max_priority_fee_per_gas = None, atx_chain_id = 0, atx_l1_batch_number = None,
     atx_l1_batch_tx_index = None\<rparr>"

definition sample_fork :: "(unit, unit, unit, unit, unit) fork_client" where
  "sample_fork = \<lparr>cl_url = ''u'', cl_details = \<lparr>fd_chain_id = 324, fd_protocol_version = 27,
     fd_batch_number = 2, fd_block_number = 5, fd_block_hash = 8, fd_block_timestamp = 1700,
     fd_api_block = (sample_block 8)\<lparr>blk_l1_batch_number := Some 2\<rparr>, fd_l1_gas_price = 1,
     fd_l2_fair_gas_price = 2, fd_fair_pubdata_price = 3, fd_estimate_gas_price_scale_factor = (),
     fd_estimate_gas_scale_factor = (), fd_fee_params = FeeParamsV2 ()\<rparr>, cl_l2_client = sample_client 8\<rparr>"


text \<open>Resetting the fork client keeps the cache: a block or transaction cached from the previous
  chain is still returned after the client is replaced or removed, whatever the new chain holds.\<close>

theorem reset_fork_keeps_cache:
  "(get_transaction h (fk_cache s) = Some tx
      \<longrightarrow> fork_get_transaction_by_hash h (reset_fork_client c s) = (Inr (Some tx), reset_fork_client c s))
   \<and> (get_block h True (fk_cache s) = Some b
      \<longrightarrow> fork_get_block_by_hash h (reset_fork_client c s) = (Inr (Some b), reset_fork_client c s))
   \<and> details (reset_fork_client c s) = map_option cl_details c"
  by (simp add: fork_get_transaction_by_hash_def fork_get_block_by_hash_def reset_fork_client_def details_def)

theorem reset_fork_keeps_cache_witness:
  "fst (fork_get_block_by_hash 8 (reset_fork_client None (snd (fork_get_block_by_hash 8
     (fork_new (Some sample_fork) CacheMemory empty_dir))))) = Inr (Some (sample_block 8))"
proof -
  let ?s = "snd (fork_get_block_by_hash 8 (fork_new (Some sample_fork) CacheMemory empty_dir))"
  have "get_block 8 True (fk_cache ?s) = Some (sample_block 8)"
    by (simp add: fork_get_block_by_hash_def fork_new_def cache_new_def cache_default_def get_block_def
        make_call_def sample_client_def sample_fork_def insert_block_def Let_def)
  then show ?thesis
    using reset_fork_keeps_cache [of 8 ?s _ None "sample_block 8"] by (metis fst_conv)
qed

section \<open>Starting from a fork\<close>

text \<open>A node forked from an honest remote chain starts from a consistent local chain: the client
  is only created for a supported protocol version, and the blockchain state built from its details
  represents the one-block chain of the forked block, which carries its batch number.\<close>

theorem fork_client_chain:
  assumes "fork_client_new chain_id_try_from config client n = Inr fork"
    and "\<forall>h full b. rpc_block_by_hash client h full = Inr (Some b) \<longrightarrow> blk_hash b = h \<and> block_ts b < 2 ^ 64"
    and "\<forall>d h full b. rpc_block_details client n = Inr (Some d) \<and> rbd_root_hash d = Some h
      \<and> rpc_block_by_hash client h full = Inr (Some b) \<longrightarrow> blk_number b = ucast n"
  shows "represents (blockchain_new api v (Some (cl_details fork)) g t) [fd_api_block (cl_details fork)]
    \<and> bc_current_block (blockchain_new api v (Some (cl_details fork)) g t) = n
    \<and> is_supported (bc_protocol_version (blockchain_new api v (Some (cl_details fork)) g t))
    \<and> blk_l1_batch_number (fd_api_block (cl_details fork))
        = Some (ucast (bc_current_batch (blockchain_new api v (Some (cl_details fork)) g t)))"
proof -
  have call_Inr: "call r = Inr a \<longleftrightarrow> r = Inr a" for r :: "string + 'z" and a
    by (cases r) auto
  from assms(1) obtain d h b version where d: "rpc_block_details client n = Inr (Some d)"
    and h: "rbd_root_hash d = Some h" and b: "rpc_block_by_hash client h True = Inr (Some b)"
    and version: "is_supported version"
    and det: "fd_block_number (cl_details fork) = n" "fd_block_hash (cl_details fork) = h"
      "fd_protocol_version (cl_details fork) = version"
      "fd_api_block (cl_details fork) = b\<lparr>blk_l1_batch_number := Some (ucast (rbd_l1_batch_number d))\<rparr>"
      "fd_batch_number (cl_details fork) = rbd_l1_batch_number d"
    by (auto simp: fork_client_new_def call_Inr Let_def split: option.splits if_splits)
  have "blk_hash b = h" "blk_number b = ucast n" "block_ts b < 2 ^ 64"
    using assms(2,3) d h b by blast+
  then show ?thesis
    using version unat_bounds(2) [of n]
    by (simp add: represents_def blockchain_new_def det chain_numbers_def block_ts_def)
qed

theorem fork_client_chain_witness:
  "\<exists>fork. fork_client_new Inr \<lparr>fc_url = ''u'', fc_estimate_gas_price_scale_factor = (),
      fc_estimate_gas_scale_factor = ()\<rparr> (sample_client 8) 5 = Inr fork
    \<and> represents (blockchain_new sample_chain_api 26 (Some (cl_details fork)) None None)
        [fd_api_block (cl_details fork)]"
proof -
  let ?config = "\<lparr>fc_url = ''u'', fc_estimate_gas_price_scale_factor = (), fc_estimate_gas_scale_factor = ()\<rparr>"
  obtain fork where r: "fork_client_new Inr ?config (sample_client 8) 5 = Inr fork"
    by (atomize_elim) (simp add: fork_client_new_def sample_client_def is_supported_def SUPPORTED_VERSIONS_def)
  have "\<forall>h full b. rpc_block_by_hash (sample_client 8) h full = Inr (Some b)
      \<longrightarrow> blk_hash b = h \<and> block_ts b < 2 ^ 64"
    and "\<forall>d h full b. rpc_block_details (sample_client 8) 5 = Inr (Some d) \<and> rbd_root_hash d = Some h
      \<and> rpc_block_by_hash (sample_client 8) h full = Inr (Some b) \<longrightarrow> blk_number b = ucast (5::u32)"
    by (auto simp: sample_client_def sample_block_def block_ts_def split: if_splits)
  from fork_client_chain [OF r this] r show ?thesis by blast
qed

text \<open>Forking before a transaction replays exactly the transactions of its block up to and
  including it, on top of the parent block.\<close>

theorem at_before_tx_spec:
  assumes "at_before_tx chain_id_try_from config client h = Inr (fork, txs)"
    and "rpc_transaction_by_hash client h = Inr (Some atx)" and "atx_block_number atx = Some n"
    and "rpc_raw_block_transactions client (ucast n) = Inr (pre @ tx # post)"
    and "tx_hash tx = h" and "\<forall>p \<in> set pre. tx_hash p \<noteq> h"
  shows "txs = pre @ [tx] \<and> fork_client_new chain_id_try_from config client (ucast n - 1) = Inr fork
    \<and> 0 < unat n \<and> unat n < 2 ^ 32"
proof -
  have "txs_through h (pre @ tx # post) = pre @ [tx]"
    using assms(5,6) by (induction pre) auto
  then show ?thesis
    using assms(1-4) by (auto simp: at_before_tx_def as_u32_def unat_gt_0 split: if_splits)
qed

theorem at_before_tx_spec_witness:
  "\<exists>fork. at_before_tx Inr \<lparr>fc_url = ''u'', fc_estimate_gas_price_scale_factor = (),
        fc_estimate_gas_scale_factor = ()\<rparr>
      ((sample_client 8)\<lparr>rpc_transaction_by_hash := (\<lambda>h. Inr (Some sample_atx)),
         rpc_raw_block_transactions := (\<lambda>n. Inr [sample_tx 1 10 5, sample_tx 2 10 5, sample_tx 3 10 5])\<rparr>) 2
    = Inr (fork, [sample_tx 1 10 5, sample_tx 2 10 5])"
proof -
  let ?config = "\<lparr>fc_url = ''u'', fc_estimate_gas_price_scale_factor = (), fc_estimate_gas_scale_factor = ()\<rparr>"
  let ?client = "(sample_client 8)\<lparr>rpc_transaction_by_hash := (\<lambda>h. Inr (Some sample_atx)),
    rpc_raw_block_transactions := (\<lambda>n. Inr [sample_tx 1 10 5, sample_tx 2 10 5, sample_tx 3 10 5])\<rparr>"
  have "is_ok (at_before_tx Inr ?config ?client 2)"
    by (simp add: at_before_tx_def fork_client_new_def sample_client_def sample_atx_def as_u32_def
        is_supported_def SUPPORTED_VERSIONS_def)
  then obtain fork txs where r: "at_before_tx Inr ?config ?client 2 = Inr (fork, txs)"
    by (auto simp: is_ok_iff)
  have "txs = [sample_tx 1 10 5] @ [sample_tx 2 10 5]"
    by (rule conjunct1 [OF at_before_tx_spec [OF r, of sample_atx 6 "[sample_tx 1 10 5]" "sample_tx 2 10 5"
        "[sample_tx 3 10 5]"]]) (simp_all add: sample_atx_def)
  with r show ?thesis by simp
qed

end
