(* ===== verification/Impersonation.thy ===== *)
theory Impersonation
  imports Prelude
begin

text \<open>
  \<open>crates/core/src/node/impersonate.rs\<close>: the set of impersonated accounts shared by all
  clones of \<open>ImpersonationManager\<close>. The manager is a lock around \<open>ImpersonationState\<close>, so
  each method is one function on that state.
\<close>

record impersonation_state =
  auto :: bool
  accounts :: "address set"

definition impersonation_default :: impersonation_state where
  "impersonation_default = \<lparr>auto = False, accounts = {}\<rparr>"

definition set_auto_impersonation :: "bool \<Rightarrow> impersonation_state \<Rightarrow> impersonation_state" where
  "set_auto_impersonation enabled s = s\<lparr>auto := enabled\<rparr>"

definition impersonate :: "address \<Rightarrow> impersonation_state \<Rightarrow> bool \<times> impersonation_state" where
  "impersonate addr s = (addr \<notin> accounts s, s\<lparr>accounts := insert addr (accounts s)\<rparr>)"

definition stop_impersonating :: "address \<Rightarrow> impersonation_state \<Rightarrow> bool \<times> impersonation_state" where
  "stop_impersonating addr s = (addr \<in> accounts s, s\<lparr>accounts := accounts s - {addr}\<rparr>)"

definition is_impersonating :: "impersonation_state \<Rightarrow> address \<Rightarrow> bool" where
  "is_impersonating s addr \<longleftrightarrow> auto s \<or> addr \<in> accounts s"

lemmas impersonation_defs = set_auto_impersonation_def impersonate_def stop_impersonating_def
  is_impersonating_def impersonation_default_def

lemma is_impersonating_default [simp]: "is_impersonating impersonation_default a = False"
  by (simp add: impersonation_defs)

text \<open>Starting and then stopping impersonation of an account restores the state when the
  account was not impersonated before; the boolean replies say whether the call changed
  anything; automatic impersonation covers every account and turning it off uncovers exactly
  the explicitly impersonated ones.\<close>

theorem impersonation_spec:
  "(fst (impersonate a s) \<longleftrightarrow> snd (impersonate a s) \<noteq> s)
   \<and> (fst (stop_impersonating a s) \<longleftrightarrow> snd (stop_impersonating a s) \<noteq> s)
   \<and> is_impersonating (snd (impersonate a s)) a
   \<and> (fst (impersonate a s) \<longleftrightarrow> stop_impersonating a (snd (impersonate a s)) = (True, s))
   \<and> (is_impersonating (snd (stop_impersonating a s)) b
        \<longleftrightarrow> auto s \<or> b \<noteq> a \<and> b \<in> accounts s)
   \<and> is_impersonating (set_auto_impersonation True s) b
   \<and> (is_impersonating (set_auto_impersonation False s) b \<longleftrightarrow> b \<in> accounts s)"
  by (cases s) (auto simp: impersonation_defs)

end
