(* ===== verification/System_Contracts.thy ===== *)
theory System_Contracts
  imports Vm_Types Impersonation
begin

text \<open>
  The system contracts of the node: \<open>crates/core/src/system_contracts.rs\<close>.

  Where bytecode comes from is an argument: the contracts built into the binary
  (\<open>deps/system_contracts.rs\<close>, compiled artifacts), a contracts repository on disk, and the hash of a
  bytecode are the fields of \<open>contract_source\<close>.
\<close>

section \<open>Data\<close>

datatype system_contracts_options = BuiltIn | Local | BuiltInWithoutSecurity

datatype contract_language = Sol | Yul

datatype tx_execution_mode = VerifyExecute | EstimateFee | EthCall

record system_contract_code =
  scc_code :: bytes
  scc_hash :: h256

record base_system_contracts =
  bs_bootloader :: system_contract_code
  bs_default_aa :: system_contract_code
  bs_evm_emulator :: "system_contract_code option"

record contract_source =
  load_builtin_contract :: "protocol_version \<Rightarrow> string \<Rightarrow> bytes"
  repo_read_sys_contract_bytecode ::
    "string \<Rightarrow> string \<Rightarrow> string \<Rightarrow> string option \<Rightarrow> contract_language \<Rightarrow> bytes"
  default_repo_root :: string
  bytecode_hash :: "bytes \<Rightarrow> h256"

record system_contracts =
  sc_protocol_version :: protocol_version
  sc_baseline_contracts :: base_system_contracts
  sc_playground_contracts :: base_system_contracts
  sc_fee_estimate_contracts :: base_system_contracts
  sc_baseline_impersonating_contracts :: base_system_contracts
  sc_fee_estimate_impersonating_contracts :: base_system_contracts
  sc_use_evm_emulator :: bool
  sc_use_boojum :: bool

section \<open>Loading\<close>

definition system_contract_code_new :: "contract_source \<Rightarrow> bytes \<Rightarrow> system_contract_code" where
  "system_contract_code_new src code = \<lparr>scc_code = code, scc_hash = bytecode_hash src code\<rparr>"

text \<open>The free function \<open>read_sys_contract_bytecode\<close> of \<open>zksync_contracts\<close> reads from the default repository.\<close>

definition bsc_load_with_bootloader ::
  "contract_source \<Rightarrow> bytes \<Rightarrow> system_contracts_options \<Rightarrow> protocol_version \<Rightarrow> bool \<Rightarrow> string
     \<Rightarrow> base_system_contracts" where
  "bsc_load_with_bootloader src bootloader_bytecode options protocol_version use_evm_emulator path =
     (let aa_bytecode = (case options of
            BuiltIn \<Rightarrow> load_builtin_contract src protocol_version ''DefaultAccount''
          | Local \<Rightarrow> repo_read_sys_contract_bytecode src path '''' ''DefaultAccount'' None Sol
          | BuiltInWithoutSecurity \<Rightarrow> load_builtin_contract src protocol_version ''DefaultAccountNoSecurity'');
          evm_emulator = (if use_evm_emulator
            then Some (system_contract_code_new src (case options of
                Local \<Rightarrow> repo_read_sys_contract_bytecode src (default_repo_root src) '''' ''EvmEmulator'' None Yul
              | _ \<Rightarrow> load_builtin_contract src protocol_version ''EvmEmulator''))
            else None)
      in \<lparr>bs_bootloader = system_contract_code_new src bootloader_bytecode,
          bs_default_aa = system_contract_code_new src aa_bytecode, bs_evm_emulator = evm_emulator\<rparr>)"

text \<open>The bootloader of each set of contracts: \<open>builtin\<close> names the built-in one, \<open>local\<close> the one on disk.\<close>

definition load_bootloader ::
  "contract_source \<Rightarrow> string \<Rightarrow> string \<Rightarrow> system_contracts_options \<Rightarrow> protocol_version \<Rightarrow> string \<Rightarrow> bytes" where
  "load_bootloader src builtin local options protocol_version path = (case options of
       Local \<Rightarrow> repo_read_sys_contract_bytecode src path ''bootloader'' local (Some ''Bootloader'') Yul
     | _ \<Rightarrow> load_builtin_contract src protocol_version builtin)"

definition playground ::
  "contract_source \<Rightarrow> system_contracts_options \<Rightarrow> protocol_version \<Rightarrow> bool \<Rightarrow> string \<Rightarrow> base_system_contracts" where
  "playground src options protocol_version use_evm_emulator path = bsc_load_with_bootloader src
     (load_bootloader src ''playground_batch'' ''playground_batch'' options protocol_version path)
     options protocol_version use_evm_emulator path"

definition fee_estimate_contracts ::
  "contract_source \<Rightarrow> system_contracts_options \<Rightarrow> protocol_version \<Rightarrow> bool \<Rightarrow> string \<Rightarrow> base_system_contracts" where
  "fee_estimate_contracts src options protocol_version use_evm_emulator path = bsc_load_with_bootloader src
     (load_bootloader src ''fee_estimate'' ''fee_estimate'' options protocol_version path)
     options protocol_version use_evm_emulator path"

definition fee_estimate_impersonating_contracts ::
  "contract_source \<Rightarrow> system_contracts_options \<Rightarrow> protocol_version \<Rightarrow> bool \<Rightarrow> string \<Rightarrow> base_system_contracts" where
  "fee_estimate_impersonating_contracts src options protocol_version use_evm_emulator path =
     bsc_load_with_bootloader src
     (load_bootloader src ''fee_estimate_impersonating'' ''fee_estimate'' options protocol_version path)
     options protocol_version use_evm_emulator path"

definition baseline_contracts ::
  "contract_source \<Rightarrow> system_contracts_options \<Rightarrow> protocol_version \<Rightarrow> bool \<Rightarrow> string \<Rightarrow> base_system_contracts" where
  "baseline_contracts src options protocol_version use_evm_emulator path = bsc_load_with_bootloader src
     (load_bootloader src ''proved_batch'' ''proved_batch'' options protocol_version path)
     options protocol_version use_evm_emulator path"

definition baseline_impersonating_contracts ::
  "contract_source \<Rightarrow> system_contracts_options \<Rightarrow> protocol_version \<Rightarrow> bool \<Rightarrow> string \<Rightarrow> base_system_contracts" where
  "baseline_impersonating_contracts src options protocol_version use_evm_emulator path =
     bsc_load_with_bootloader src
     (load_bootloader src ''proved_batch_impersonating'' ''proved_batch'' options protocol_version path)
     options protocol_version use_evm_emulator path"

definition from_options ::
  "contract_source \<Rightarrow> system_contracts_options \<Rightarrow> string option \<Rightarrow> protocol_version \<Rightarrow> bool \<Rightarrow> bool \<Rightarrow> system_contracts" where
  "from_options src options system_contracts_path protocol_version use_evm_emulator use_boojum =
     (let path = case_option (default_repo_root src) id system_contracts_path
      in \<lparr>sc_protocol_version = protocol_version,
          sc_baseline_contracts = baseline_contracts src options protocol_version use_evm_emulator path,
          sc_playground_contracts = playground src options protocol_version use_evm_emulator path,
          sc_fee_estimate_contracts = fee_estimate_contracts src options protocol_version use_evm_emulator path,
          sc_baseline_impersonating_contracts =
            baseline_impersonating_contracts src options protocol_version use_evm_emulator path,
          sc_fee_estimate_impersonating_contracts =
            fee_estimate_impersonating_contracts src options protocol_version use_evm_emulator path,
          sc_use_evm_emulator = use_evm_emulator, sc_use_boojum = use_boojum\<rparr>)"

text \<open>The builder.\<close>

record system_contracts_builder =
  scb_options :: "system_contracts_options option"
  scb_path :: "string option"
  scb_protocol_version :: "protocol_version option"
  scb_use_evm_interpreter :: bool
  scb_use_boojum :: bool

definition builder_new :: system_contracts_builder where
  "builder_new = \<lparr>scb_options = None, scb_path = None, scb_protocol_version = None,
     scb_use_evm_interpreter = False, scb_use_boojum = False\<rparr>"

definition builder_build ::
  "contract_source \<Rightarrow> protocol_version \<Rightarrow> system_contracts_builder \<Rightarrow> ('e, system_contracts) outcome" where
  "builder_build src latest b =
     and_then (expect ''SystemContractsOptions must be provided'' (scb_options b)) (\<lambda>options.
     Inr (from_options src options (scb_path b) (case_option latest id (scb_protocol_version b))
       (scb_use_evm_interpreter b) (scb_use_boojum b)))"

section \<open>Choosing\<close>

definition allow_no_target :: "system_contracts \<Rightarrow> bool" where
  "allow_no_target sc \<longleftrightarrow> sc_use_boojum sc \<or> sc_use_evm_emulator sc"

fun contracts :: "tx_execution_mode \<Rightarrow> bool \<Rightarrow> system_contracts \<Rightarrow> ('e, base_system_contracts) outcome" where
  "contracts VerifyExecute False sc = Inr (sc_baseline_contracts sc)"
| "contracts EstimateFee False sc = Inr (sc_fee_estimate_contracts sc)"
| "contracts EthCall False sc = Inr (sc_playground_contracts sc)"
| "contracts VerifyExecute True sc = Inr (sc_baseline_impersonating_contracts sc)"
| "contracts EstimateFee True sc = Inr (sc_fee_estimate_impersonating_contracts sc)"
| "contracts EthCall True sc = Inl (Panic ''Account impersonating with eth_call is not supported'')"

definition contracts_for_l2_call :: "system_contracts \<Rightarrow> ('e, base_system_contracts) outcome" where
  "contracts_for_l2_call sc = contracts EthCall False sc"

definition contracts_for_fee_estimate :: "bool \<Rightarrow> system_contracts \<Rightarrow> ('e, base_system_contracts) outcome" where
  "contracts_for_fee_estimate impersonating sc = contracts EstimateFee impersonating sc"

definition contracts_hashes :: "base_system_contracts \<Rightarrow> base_system_contracts_hashes" where
  "contracts_hashes c = \<lparr>bsc_bootloader = scc_hash (bs_bootloader c), bsc_default_aa = scc_hash (bs_default_aa c),
     bsc_evm_emulator = map_option scc_hash (bs_evm_emulator c)\<rparr>"

definition system_base_system_contracts_hashes :: "system_contracts \<Rightarrow> base_system_contracts_hashes" where
  "system_base_system_contracts_hashes sc = contracts_hashes (sc_baseline_contracts sc)"

definition system_contracts_for_initiator ::
  "impersonation_state \<Rightarrow> address \<Rightarrow> system_contracts \<Rightarrow> ('e, base_system_contracts) outcome" where
  "system_contracts_for_initiator impersonation initiator sc =
     (if is_impersonating impersonation initiator then contracts VerifyExecute True sc
      else contracts VerifyExecute False sc)"

section \<open>Which contracts run\<close>

text \<open>The bootloader a mode needs.\<close>

fun bootloader_name :: "tx_execution_mode \<Rightarrow> bool \<Rightarrow> string" where
  "bootloader_name VerifyExecute imp = (if imp then ''proved_batch_impersonating'' else ''proved_batch'')"
| "bootloader_name EstimateFee imp = (if imp then ''fee_estimate_impersonating'' else ''fee_estimate'')"
| "bootloader_name EthCall imp = ''playground_batch''"

text \<open>The right bootloader. With built-in contracts every execution mode gets the bootloader made for it, and
  impersonation the one without account checks; contracts read from disk have no impersonating variants, so there
  impersonation changes nothing. Only a call under impersonation has no contracts and panics.\<close>

theorem contracts_select:
  "(options \<noteq> Local \<and> \<not> (mode = EthCall \<and> imp) \<longrightarrow>
     (\<exists>c. contracts mode imp (from_options src options path pv evm boojum) = (Inr c :: (string, _) outcome)
        \<and> scc_code (bs_bootloader c) = load_builtin_contract src pv (bootloader_name mode imp)
        \<and> scc_hash (bs_bootloader c) = bytecode_hash src (scc_code (bs_bootloader c))
        \<and> (bs_evm_emulator c \<noteq> None \<longleftrightarrow> evm)))
   \<and> (mode \<noteq> EthCall \<longrightarrow> contracts mode True (from_options src Local path pv evm boojum)
        = (contracts mode False (from_options src Local path pv evm boojum) :: (string, _) outcome))
   \<and> contracts EthCall True sc
      = (Inl (Panic ''Account impersonating with eth_call is not supported'') :: (string, base_system_contracts) outcome)"
  by (cases mode; cases imp; cases options) (simp_all add: from_options_def Let_def playground_def fee_estimate_contracts_def
      fee_estimate_impersonating_contracts_def baseline_contracts_def baseline_impersonating_contracts_def
      bsc_load_with_bootloader_def load_bootloader_def system_contract_code_new_def)

definition sample_contract_source :: contract_source where
  "sample_contract_source = \<lparr>load_builtin_contract = (\<lambda>v name. map (\<lambda>c. of_nat (of_char c)) name),
     repo_read_sys_contract_bytecode = (\<lambda>root dir name art lang. map (\<lambda>c. of_nat (of_char c)) (root @ name)),
     default_repo_root = ''/home'', bytecode_hash = (\<lambda>code. of_nat (length code))\<rparr>"

definition sample_system_contracts :: system_contracts where
  "sample_system_contracts = from_options sample_contract_source BuiltIn None 26 False False"

theorem contracts_select_witness:
  "\<exists>c. contracts EstimateFee True (from_options sample_contract_source BuiltIn None 26 False False)
       = (Inr c :: (string, _) outcome)
     \<and> scc_code (bs_bootloader c) = load_builtin_contract sample_contract_source 26 ''fee_estimate_impersonating''"
  using contracts_select [of BuiltIn EstimateFee True sample_contract_source None 26 False False]
  by auto

end
