(* ===== verification/Node_Inner.thy ===== *)
theory Node_Inner
  imports Fork_Client System_Contracts
begin

text \<open>
  The mutable heart of the node: \<open>crates/core/src/node/inner/in_memory_inner.rs\<close> (without gas
  estimation), \<open>inner/mod.rs\<close>, \<open>keys.rs\<close> and the state format of \<open>state.rs\<close>.

  The shared components (clock, chain, storage, fork, filters, impersonation) are fields of one
  record. Functions of the zksync crates that this code calls are the fields of \<open>node_api\<close>.
  \<open>IndexMap\<close> is an association list in insertion order; the modified storage keys of a batch
  are an association list with distinct keys.
\<close>

section \<open>State\<close>

datatype storage_key_layout = ZkEra | BoojumOs

record node_config =
  cfg_genesis :: "genesis option"
  cfg_genesis_timestamp :: "u64 option"
  cfg_chain_id :: "u32 option"
  cfg_rich_addresses :: "address list"
  cfg_genesis_balance :: u256
  cfg_max_transactions :: nat
  cfg_use_evm_interpreter :: bool

record node_api =
  key_for_eth_balance :: "address \<Rightarrow> storage_key"
  key_for_nonce :: "address \<Rightarrow> storage_key"
  keccak_h256 :: "h256 \<Rightarrow> h256"
  l2_message_root_address :: address
  agg_tree_height_key :: u64
  agg_tree_nodes_key :: u64
  api_transaction_from :: "transaction \<Rightarrow> api_transaction"
  api_transaction_default :: api_transaction
  build_bloom :: "bytes list \<Rightarrow> bytes"
  system_storage :: "u64 \<Rightarrow> in_memory_storage"

type_synonym storage_map = "storage_key \<rightharpoonup> storage_value"

record ('f, 'p, 'b, 't, 'td) node_inner =
  ni_blockchain :: blockchain_state
  ni_protocol_version :: protocol_version
  ni_time :: time_state
  ni_fee_input_provider :: "('f, 'p) fee_input_provider"
  ni_filters :: eth_filters
  ni_fork_storage :: fork_storage
  ni_fork :: "('f, 'p, 'b, 't, 'td) fork_state"
  ni_config :: node_config
  ni_impersonation :: impersonation_state
  ni_rich_accounts :: "address set"
  ni_previous_states :: "(h256 \<times> storage_map) list"
  ni_storage_key_layout :: storage_key_layout

fun get_nonce_key :: "node_api \<Rightarrow> storage_key_layout \<Rightarrow> address \<Rightarrow> ('e, storage_key) outcome" where
  "get_nonce_key na ZkEra account = Inr (key_for_nonce na account)"
| "get_nonce_key na BoojumOs account = Inl (Panic ''not yet implemented'')"

fun get_storage_key_for_base_token ::
  "node_api \<Rightarrow> storage_key_layout \<Rightarrow> address \<Rightarrow> ('e, storage_key) outcome" where
  "get_storage_key_for_base_token na ZkEra account = Inr (key_for_eth_balance na account)"
| "get_storage_key_for_base_token na BoojumOs account = Inl (Panic ''not yet implemented'')"

definition node_inner_init ::
  "'h chain_api \<Rightarrow> node_api \<Rightarrow> ('f, 'p, 'b, 't, 'td) fork_client option \<Rightarrow> cache_config \<Rightarrow> 'b cache_dir
     \<Rightarrow> ('f, 'p) fee_input_provider \<Rightarrow> eth_filters \<Rightarrow> node_config \<Rightarrow> impersonation_state
     \<Rightarrow> protocol_version \<Rightarrow> storage_key_layout \<Rightarrow> ('f, 'p, 'b, 't, 'td) node_inner" where
  "node_inner_init ca na fork_client_opt cache_config dir fees filters config imp protocol_version layout =
     (let fork = fork_new fork_client_opt cache_config dir;
          fork_details = details fork;
          time = time_new (case_option NON_FORK_FIRST_BLOCK_TIMESTAMP fd_block_timestamp fork_details);
          blockchain = blockchain_new ca protocol_version fork_details (cfg_genesis config)
            (cfg_genesis_timestamp config);
          fork_storage = fork_storage_new (map_option fd_chain_id fork_details) (cfg_chain_id config)
            (system_storage na)
      in \<lparr>ni_blockchain = blockchain, ni_protocol_version = bc_protocol_version blockchain,
          ni_time = time, ni_fee_input_provider = fees, ni_filters = filters,
          ni_fork_storage = fork_storage, ni_fork = fork, ni_config = config, ni_impersonation = imp,
          ni_rich_accounts = {}, ni_previous_states = [], ni_storage_key_layout = layout\<rparr>)"

section \<open>Block contexts and batch environments\<close>

record block_context =
  bx_hash :: h256
  bx_batch :: u32
  bx_miniblock :: u64
  bx_timestamp :: u64
  bx_prev_block_hash :: h256

definition new_block :: "block_context \<Rightarrow> time_state \<Rightarrow> block_context \<times> time_state" where
  "new_block bx time = (let (ts, time') = advance_timestamp time in
     (\<lparr>bx_hash = 0, bx_batch = bx_batch bx, bx_miniblock = saturating_add (bx_miniblock bx) 1,
       bx_timestamp = ts, bx_prev_block_hash = bx_hash bx\<rparr>, time'))"

text \<open>\<open>last_env\<close> reads the storage through a view of it. The read of the batch info unwraps, so a failing
  fork is a panic; for the reads of \<open>load_last_l2_block\<close>, which is not part of the repository, the view is
  made total.\<close>

definition storage_read :: "fork_source \<Rightarrow> fork_storage \<Rightarrow> storage_key \<Rightarrow> h256" where
  "storage_read fork s k = (case storage_view fork s k of Inr v \<Rightarrow> v | Inl e \<Rightarrow> 0)"

definition create_l1_batch_env ::
  "'h chain_api \<Rightarrow> ('f, 'p) fee_api \<Rightarrow> ('f, 'p, 'b, 't, 'td) node_inner
     \<Rightarrow> (string, l1_batch_env \<times> block_context) outcome" where
  "create_l1_batch_env ca fa s =
     and_then (storage_view (fork_as_source (ni_fork s)) (ni_fork_storage s)
         (system_context_block_info_key ca)) (\<lambda>_.
      let (last_l1_batch_number, last_l2_block) =
            last_env ca (storage_read (fork_as_source (ni_fork s)) (ni_fork_storage s)) (ni_time s)
              (ni_blockchain s);
          block_ctx = \<lparr>bx_hash = 0, bx_batch = last_l1_batch_number + 1,
            bx_miniblock = ucast (l2b_number last_l2_block) + 1,
            bx_timestamp = peek_next_timestamp (ni_time s), bx_prev_block_hash = l2b_hash last_l2_block\<rparr>;
          fee_input = (case details (ni_fork s) of
              Some fd \<Rightarrow> PubdataIndependent \<lparr>fi_l1_gas_price = fd_l1_gas_price fd,
                fi_fair_l2_gas_price = fd_l2_fair_gas_price fd,
                fi_fair_pubdata_price = fd_fair_pubdata_price fd\<rparr>
            | None \<Rightarrow> get_batch_fee_input fa (ni_fee_input_provider s))
      in Inr (\<lparr>env_previous_batch_hash = None, env_number = bx_batch block_ctx,
           env_timestamp = bx_timestamp block_ctx, env_fee_input = fee_input, env_fee_account = 0,
           env_enforced_base_fee = None,
           env_first_l2_block = \<lparr>be_number = ucast (bx_miniblock block_ctx),
             be_timestamp = bx_timestamp block_ctx, be_prev_block_hash = l2b_hash last_l2_block,
             be_max_virtual_blocks_to_create = 1\<rparr>\<rparr>, block_ctx))"

record system_env =
  se_zk_porter_available :: bool
  se_version :: protocol_version
  se_base_system_smart_contracts :: base_system_contracts
  se_bootloader_gas_limit :: u32
  se_execution_mode :: tx_execution_mode
  se_default_validation_computational_gas_limit :: u32
  se_chain_id :: u64

definition create_system_env ::
  "u32 \<Rightarrow> base_system_contracts \<Rightarrow> tx_execution_mode \<Rightarrow> ('f, 'p, 'b, 't, 'td) node_inner \<Rightarrow> system_env" where
  "create_system_env batch_computational_gas_limit base_contracts execution_mode s =
     \<lparr>se_zk_porter_available = False, se_version = ni_protocol_version s,
      se_base_system_smart_contracts = base_contracts,
      se_bootloader_gas_limit = batch_computational_gas_limit, se_execution_mode = execution_mode,
      se_default_validation_computational_gas_limit = batch_computational_gas_limit,
      se_chain_id = fs_chain_id (ni_fork_storage s)\<rparr>"

section \<open>Sealing a batch\<close>

definition MAX_PREVIOUS_STATES :: nat where
  "MAX_PREVIOUS_STATES = 128"

definition archive_state ::
  "(h256 \<times> storage_map) list \<Rightarrow> storage_map \<Rightarrow> h256 \<Rightarrow> (h256 \<times> storage_map) list" where
  "archive_state previous_states state block_hash =
     AList.update block_hash state
       (if length previous_states > MAX_PREVIOUS_STATES then tl previous_states else previous_states)"

fun n_dim_array_key_loop :: "node_api \<Rightarrow> h256 \<Rightarrow> u256 list \<Rightarrow> h256" where
  "n_dim_array_key_loop na key [] = key"
| "n_dim_array_key_loop na key (index # indices) =
     n_dim_array_key_loop na (fst (overflowing_add (keccak_h256 na key) index)) indices"

definition n_dim_array_key_in_layout :: "node_api \<Rightarrow> u64 \<Rightarrow> u256 list \<Rightarrow> h256" where
  "n_dim_array_key_in_layout na array_key indices = n_dim_array_key_loop na (ucast array_key) indices"

definition read_modified ::
  "fork_source \<Rightarrow> (storage_key \<times> storage_value) list \<Rightarrow> storage_key \<Rightarrow> fork_storage
     \<Rightarrow> (string, storage_value) outcome \<times> fork_storage" where
  "read_modified fork modified key s = (case map_of modified key of
       Some v \<Rightarrow> (Inr v, s)
     | None \<Rightarrow> read_value_internal fork key s)"

definition read_aggregation_root ::
  "node_api \<Rightarrow> fork_source \<Rightarrow> (storage_key \<times> storage_value) list \<Rightarrow> fork_storage
     \<Rightarrow> (string, h256 \<times> fork_storage) outcome" where
  "read_aggregation_root na fork modified s =
     (let agg_tree_height_slot = \<lparr>sk_address = l2_message_root_address na,
            sk_key = ucast (agg_tree_height_key na)\<rparr>;
          (height, s1) = read_modified fork modified agg_tree_height_slot s
      in and_then height (\<lambda>agg_tree_height.
        let agg_tree_root_hash_key = n_dim_array_key_in_layout na (agg_tree_nodes_key na) [agg_tree_height, 0];
            (root, s2) = read_modified fork modified
              \<lparr>sk_address = l2_message_root_address na, sk_key = agg_tree_root_hash_key\<rparr> s1
        in and_then root (\<lambda>r. Inr (r, s2))))"

fun store_factory_deps :: "(h256 \<times> bytes) list \<Rightarrow> fork_storage \<Rightarrow> fork_storage" where
  "store_factory_deps [] s = s"
| "store_factory_deps ((hash, code) # cs) s = store_factory_deps cs (fs_store_factory_dep hash code s)"

fun set_values :: "(storage_key \<times> storage_value) list \<Rightarrow> fork_storage \<Rightarrow> fork_storage" where
  "set_values [] s = s"
| "set_values ((key, v) # kvs) s = set_values kvs (fs_set_value key v s)"

abbreviation archived ::
  "(h256 \<times> storage_map) list \<Rightarrow> fork_storage \<Rightarrow> blockchain_state \<Rightarrow> (h256 \<times> storage_map) list" where
  "archived previous_states storage chain \<equiv>
     archive_state previous_states (st_state (fs_raw_storage storage)) (bc_current_block_hash chain)"

definition inner_apply_batch ::
  "'h chain_api \<Rightarrow> node_api \<Rightarrow> u64 \<Rightarrow> base_system_contracts_hashes \<Rightarrow> api_block \<Rightarrow> api_block option
     \<Rightarrow> transaction_result list \<Rightarrow> finished_l1_batch \<Rightarrow> (storage_key \<times> storage_value) list
     \<Rightarrow> ('f, 'p, 'b, 't, 'td) node_inner \<Rightarrow> (string, ('f, 'p, 'b, 't, 'td) node_inner) outcome" where
  "inner_apply_batch ca na batch_timestamp hashes block virtual_block tx_results finished modified s =
     (let new_bytecodes = concat (map res_new_bytecodes tx_results) in
      and_then (read_aggregation_root na (fork_as_source (ni_fork s)) modified (ni_fork_storage s))
        (\<lambda>(aggregation_root, storage).
      let chain = apply_batch ca batch_timestamp hashes tx_results finished aggregation_root
            (ni_blockchain s);
          states = archived (ni_previous_states s) storage chain
      in and_then (apply_block block 0 chain) (\<lambda>chain1.
      let storage1 = set_values modified (store_factory_deps new_bytecodes storage)
      in case virtual_block of
           None \<Rightarrow> Inr (s\<lparr>ni_blockchain := chain1, ni_fork_storage := storage1,
             ni_previous_states := states\<rparr>)
         | Some vb \<Rightarrow>
             and_then (apply_block vb 1 chain1) (\<lambda>chain2.
             Inr (s\<lparr>ni_blockchain := chain2, ni_fork_storage := storage1,
               ni_previous_states := archived states storage1 chain1\<rparr>)))))"

record tx_batch_execution_result =
  br_tx_results :: "transaction_result list"
  br_base_system_contracts_hashes :: base_system_contracts_hashes
  br_batch_env :: l1_batch_env
  br_block_ctxs :: "block_context list"
  br_finished_l1_batch :: finished_l1_batch
  br_modified_storage_keys :: "(storage_key \<times> storage_value) list"

fun notify_logs :: "log list \<Rightarrow> u64 \<Rightarrow> eth_filters \<Rightarrow> (string, eth_filters) outcome" where
  "notify_logs [] latest f = Inr f"
| "notify_logs (l # ls) latest f = and_then (notify_new_log l latest f) (\<lambda>f'. notify_logs ls latest f')"

fun notify_txs :: "transaction_result list \<Rightarrow> u64 \<Rightarrow> eth_filters \<Rightarrow> (string, eth_filters) outcome" where
  "notify_txs [] latest f = Inr f"
| "notify_txs (r # rs) latest f =
     and_then (notify_logs (rcpt_logs (res_receipt r)) latest
         (notify_new_pending_transaction (rcpt_transaction_hash (res_receipt r)) f)) (\<lambda>f'.
     notify_txs rs latest f')"

definition seal_transaction ::
  "node_api \<Rightarrow> u64 \<Rightarrow> block_context \<Rightarrow> u32 \<Rightarrow> nat \<Rightarrow> transaction_result \<Rightarrow> (string, transaction_variant) outcome" where
  "seal_transaction na chain_id bx batch_number index r =
     (let tx = info_tx (res_info r);
          transaction = (case tx_common_data tx of
              L2 d \<Rightarrow> api_transaction_from na tx
            | _ \<Rightarrow> (api_transaction_default na)\<lparr>atx_hash := tx_hash tx\<rparr>);
          transaction = transaction\<lparr>atx_block_hash := Some (bx_hash bx),
            atx_block_number := Some (bx_miniblock bx), atx_transaction_index := Some (of_nat index),
            atx_l1_batch_number := Some (ucast batch_number), atx_l1_batch_tx_index := Some 0\<rparr>
      in if atx_transaction_type transaction = Some 0 \<or> atx_transaction_type transaction = None
         then (case atx_v transaction of
             None \<Rightarrow> Inr (Full transaction)
           | Some v \<Rightarrow> and_then (expect ''arithmetic operation overflow''
               (Option.bind (checked_add v 35) (\<lambda>w. checked_add w (chain_id * 2)))) (\<lambda>v'.
               Inr (Full (transaction\<lparr>atx_v := Some v'\<rparr>))))
         else Inr (Full transaction))"

fun seal_transactions ::
  "node_api \<Rightarrow> u64 \<Rightarrow> block_context \<Rightarrow> u32 \<Rightarrow> nat \<Rightarrow> transaction_result list
     \<Rightarrow> (string, transaction_variant list) outcome" where
  "seal_transactions na chain_id bx batch_number index [] = Inr []"
| "seal_transactions na chain_id bx batch_number index (r # rs) =
     and_then (seal_transaction na chain_id bx batch_number index r) (\<lambda>tx.
     and_then (seal_transactions na chain_id bx batch_number (Suc index) rs) (\<lambda>txs. Inr (tx # txs)))"

definition bloom_inputs :: "transaction_result list \<Rightarrow> bytes list" where
  "bloom_inputs rs = concat (map (\<lambda>r. concat (map (\<lambda>event.
     map (\<lambda>topic. be_bytes 32 (unat topic)) (log_topics event) @ [be_bytes 20 (unat (log_address event))])
     (rcpt_logs (res_receipt r)))) rs)"

fun sum_gas :: "u256 \<Rightarrow> transaction_result list \<Rightarrow> (string, u256) outcome" where
  "sum_gas acc [] = Inr acc"
| "sum_gas acc (r # rs) =
     and_then (expect ''arithmetic operation overflow'' (checked_add acc (dc_gas_used (res_debug r))))
       (\<lambda>acc'. sum_gas acc' rs)"

definition notify_blocks :: "block_context list \<Rightarrow> eth_filters \<Rightarrow> eth_filters" where
  "notify_blocks bxs f = foldl (\<lambda>f bx. notify_new_block (bx_hash bx) f) f bxs"

definition seal_block ::
  "'h chain_api \<Rightarrow> node_api \<Rightarrow> tx_batch_execution_result \<Rightarrow> ('f, 'p, 'b, 't, 'td) node_inner
     \<Rightarrow> (string, u32 \<times> ('f, 'p, 'b, 't, 'td) node_inner) outcome" where
  "seal_block ca na r s = (case br_block_ctxs r of
       [] \<Rightarrow> Inl (Panic ''index out of bounds'')
     | bx # bxs \<Rightarrow>
         and_then (notify_txs (br_tx_results r) (bx_miniblock bx) (ni_filters s)) (\<lambda>filters.
         and_then (seal_transactions na (fs_chain_id (ni_fork_storage s)) bx (env_number (br_batch_env r)) 0
             (br_tx_results r)) (\<lambda>transactions.
         let logs_bloom = build_bloom na (bloom_inputs (br_tx_results r)) in
         and_then (sum_gas 0 (br_tx_results r)) (\<lambda>gas_used.
         let block = create_block ca (br_batch_env r) (bx_hash bx) (bx_prev_block_hash bx)
               (bx_miniblock bx) (bx_timestamp bx) transactions gas_used logs_bloom;
             virtual_block = (case bxs of
                 [vx] \<Rightarrow> Some (create_block ca (br_batch_env r) (bx_hash vx) (bx_prev_block_hash vx)
                   (bx_miniblock vx) (bx_timestamp vx) [] 0 bloom_zero)
               | _ \<Rightarrow> None)
         in and_then (inner_apply_batch ca na (env_timestamp (br_batch_env r))
             (br_base_system_contracts_hashes r) block virtual_block (br_tx_results r)
             (br_finished_l1_batch r) (br_modified_storage_keys r) (s\<lparr>ni_filters := filters\<rparr>)) (\<lambda>s'.
         Inr (ucast (bx_miniblock bx),
              s'\<lparr>ni_filters := notify_blocks (br_block_ctxs r) (ni_filters s')\<rparr>))))))"

section \<open>Snapshots\<close>

record ('f, 'p) snapshot =
  sn_current_batch :: u32
  sn_current_block :: u32
  sn_current_block_hash :: h256
  sn_fee_input_provider :: "('f, 'p) fee_input_provider"
  sn_tx_results :: "(h256 \<times> transaction_result) list"
  sn_blocks :: "(h256 \<times> api_block) list"
  sn_hashes :: "u32 \<rightharpoonup> h256"
  sn_filters :: eth_filters
  sn_impersonation_state :: impersonation_state
  sn_rich_accounts :: "address set"
  sn_previous_states :: "(h256 \<times> storage_map) list"
  sn_raw_storage :: in_memory_storage
  sn_value_read_cache :: "storage_key \<rightharpoonup> h256"
  sn_factory_dep_cache :: "h256 \<rightharpoonup> bytes option"

definition inner_snapshot :: "('f, 'p, 'b, 't, 'td) node_inner \<Rightarrow> ('f, 'p) snapshot" where
  "inner_snapshot s =
     \<lparr>sn_current_batch = bc_current_batch (ni_blockchain s),
      sn_current_block = bc_current_block (ni_blockchain s),
      sn_current_block_hash = bc_current_block_hash (ni_blockchain s),
      sn_fee_input_provider = ni_fee_input_provider s,
      sn_tx_results = bc_tx_results (ni_blockchain s), sn_blocks = bc_blocks (ni_blockchain s),
      sn_hashes = bc_hashes (ni_blockchain s), sn_filters = ni_filters s,
      sn_impersonation_state = ni_impersonation s, sn_rich_accounts = ni_rich_accounts s,
      sn_previous_states = ni_previous_states s,
      sn_raw_storage = fs_raw_storage (ni_fork_storage s),
      sn_value_read_cache = fs_value_read_cache (ni_fork_storage s),
      sn_factory_dep_cache = fs_factory_dep_cache (ni_fork_storage s)\<rparr>"

definition restore_snapshot ::
  "('f, 'p) snapshot \<Rightarrow> ('f, 'p, 'b, 't, 'td) node_inner \<Rightarrow> ('f, 'p, 'b, 't, 'td) node_inner" where
  "restore_snapshot sn s = s
     \<lparr>ni_blockchain := (ni_blockchain s)
        \<lparr>bc_current_batch := sn_current_batch sn, bc_current_block := sn_current_block sn,
         bc_current_block_hash := sn_current_block_hash sn, bc_tx_results := sn_tx_results sn,
         bc_blocks := sn_blocks sn, bc_hashes := sn_hashes sn\<rparr>,
      ni_fee_input_provider := sn_fee_input_provider sn,
      ni_filters := sn_filters sn,
      ni_impersonation := sn_impersonation_state sn,
      ni_rich_accounts := sn_rich_accounts sn,
      ni_previous_states := sn_previous_states sn,
      ni_fork_storage := (ni_fork_storage s)
        \<lparr>fs_raw_storage := sn_raw_storage sn, fs_value_read_cache := sn_value_read_cache sn,
         fs_factory_dep_cache := sn_factory_dep_cache sn\<rparr>\<rparr>"

section \<open>Dumps\<close>

record state_v1 =
  sv_blocks :: "api_block list"
  sv_transactions :: "transaction_result list"
  sv_fork_storage :: serializable_fork_storage
  sv_historical_states :: "(h256 \<times> storage_map) list"

datatype versioned_state = V1 state_v1 | UnknownVersion u8

datatype state_loader_error =
    LoadingStateOverExistingState
  | UnknownStateVersion u8
  | LoadEmptyState

definition dump_state :: "bool \<Rightarrow> ('f, 'p, 'b, 't, 'td) node_inner \<Rightarrow> versioned_state" where
  "dump_state preserve_historical_states s =
     V1 \<lparr>sv_blocks = map snd (bc_blocks (ni_blockchain s)),
         sv_transactions = map snd (bc_tx_results (ni_blockchain s)),
         sv_fork_storage = fs_dump_state (ni_fork_storage s),
         sv_historical_states = (if preserve_historical_states then ni_previous_states s else [])\<rparr>"

fun extend_index_map :: "('k \<times> 'v) list \<Rightarrow> ('k \<times> 'v) list \<Rightarrow> ('k \<times> 'v) list" where
  "extend_index_map [] m = m"
| "extend_index_map ((k, v) # kvs) m = extend_index_map kvs (AList.update k v m)"

fun panic_only :: "(string, 'a) outcome \<Rightarrow> ('e, 'a) outcome" where
  "panic_only (Inr a) = Inr a"
| "panic_only (Inl (Panic m)) = Inl (Panic m)"
| "panic_only (Inl (Err m)) = Inl (Panic m)"

lemma panic_only_Inr [simp]: "panic_only r = Inr a \<longleftrightarrow> r = Inr a"
  by (cases r rule: panic_only.cases) auto

lemma panic_only_no_err [simp]: "panic_only r \<noteq> Inl (Err e)"
  by (cases r rule: panic_only.cases) simp_all

definition load_state ::
  "versioned_state \<Rightarrow> ('f, 'p, 'b, 't, 'td) node_inner
     \<Rightarrow> (state_loader_error, bool \<times> ('f, 'p, 'b, 't, 'td) node_inner) outcome" where
  "load_state state s =
     (if length (bc_blocks (ni_blockchain s)) > 1 then Inl (Err LoadingStateOverExistingState)
      else case state of
          UnknownVersion version \<Rightarrow> Inl (Err (UnknownStateVersion version))
        | V1 st \<Rightarrow>
            if sv_blocks st = [] then Inl (Err LoadEmptyState)
            else and_then (panic_only (load_blocks (sv_blocks st) (ni_time s) (ni_blockchain s)))
              (\<lambda>(time, chain).
              Inr (True, s\<lparr>ni_time := time,
                ni_blockchain := load_transactions (sv_transactions st) chain,
                ni_fork_storage := fs_load_state (sv_fork_storage st) (ni_fork_storage s),
                ni_previous_states := extend_index_map (sv_historical_states st) (ni_previous_states s)\<rparr>)))"

section \<open>Historical reads\<close>

datatype web3_error = InternalError string | PrunedBlock u32

fun read_failed :: "(string, 'a) outcome \<Rightarrow> (web3_error, 'a) outcome" where
  "read_failed (Inr v) = Inr v"
| "read_failed (Inl (Err e)) = Inl (Err (InternalError (''failed to read storage: '' @ e)))"
| "read_failed (Inl (Panic m)) = Inl (Panic m)"

fun block_variant_number ::
  "blockchain_state \<Rightarrow> block_id_variant option \<Rightarrow> web3_error + u64" where
  "block_variant_number chain None = Inr (ucast (bc_current_block chain))"
| "block_variant_number chain (Some (VariantNumber n)) =
     Inr (to_real_block_number n (ucast (bc_current_block chain)))"
| "block_variant_number chain (Some (VariantNumberObject n)) =
     Inr (to_real_block_number n (ucast (bc_current_block chain)))"
| "block_variant_number chain (Some (VariantHashObject h)) = (case map_of (bc_blocks chain) h of
       Some b \<Rightarrow> Inr (blk_number b)
     | None \<Rightarrow> Inl (InternalError ''Failed to map block number to hash.''))"

definition get_storage_at_block ::
  "address \<Rightarrow> u256 \<Rightarrow> block_id_variant option \<Rightarrow> ('f, 'p, 'b, 't, 'td) node_inner
     \<Rightarrow> (web3_error, h256) outcome" where
  "get_storage_at_block a idx block s =
     (case block_variant_number (ni_blockchain s) block of
        Inl e \<Rightarrow> Inl (Err e)
      | Inr n \<Rightarrow> and_then (as_u32 n) (\<lambda>block_number.
          if block_number = bc_current_block (ni_blockchain s)
          then read_failed (fst (read_value_internal (fork_as_source (ni_fork s))
            \<lparr>sk_address = a, sk_key = idx\<rparr> (ni_fork_storage s)))
          else (case bc_hashes (ni_blockchain s) block_number of
              Some block_hash \<Rightarrow>
                (case map_of (ni_previous_states s) block_hash of
                   None \<Rightarrow> Inl (Err (PrunedBlock block_number))
                 | Some state \<Rightarrow> (case state \<lparr>sk_address = a, sk_key = idx\<rparr> of
                     Some v \<Rightarrow> Inr v
                   | None \<Rightarrow> (case fork_get_storage_at_forked a idx (ni_fork s) of
                       Inl e \<Rightarrow> Inl (Err (InternalError e)) | Inr v \<Rightarrow> Inr v)))
            | None \<Rightarrow> (case fork_get_storage_at a idx block (ni_fork s) of
                Inl e \<Rightarrow> Inl (Err (InternalError e)) | Inr v \<Rightarrow> Inr v))))"

section \<open>Reset and rich accounts\<close>

definition set_rich_account ::
  "node_api \<Rightarrow> address \<Rightarrow> u256 \<Rightarrow> ('f, 'p, 'b, 't, 'td) node_inner
     \<Rightarrow> (string, ('f, 'p, 'b, 't, 'td) node_inner) outcome" where
  "set_rich_account na account balance s =
     and_then (get_storage_key_for_base_token na (ni_storage_key_layout s) account) (\<lambda>key.
     Inr (s\<lparr>ni_fork_storage := fs_set_value key balance (ni_fork_storage s),
       ni_rich_accounts := insert account (ni_rich_accounts s)\<rparr>))"

fun set_rich_accounts ::
  "node_api \<Rightarrow> address list \<Rightarrow> u256 \<Rightarrow> ('f, 'p, 'b, 't, 'td) node_inner
     \<Rightarrow> (string, ('f, 'p, 'b, 't, 'td) node_inner) outcome" where
  "set_rich_accounts na [] balance s = Inr s"
| "set_rich_accounts na (a # as) balance s =
     and_then (set_rich_account na a balance s) (\<lambda>s'. set_rich_accounts na as balance s')"

definition inner_reset ::
  "'h chain_api \<Rightarrow> node_api \<Rightarrow> ('f, 'p, 'b, 't, 'td) fork_client option
     \<Rightarrow> ('f, 'p, 'b, 't, 'td) node_inner \<Rightarrow> (string, ('f, 'p, 'b, 't, 'td) node_inner) outcome" where
  "inner_reset ca na fork_client_opt s =
     (let fork_details = map_option cl_details fork_client_opt;
          blockchain = blockchain_new ca (ni_protocol_version s) fork_details
            (cfg_genesis (ni_config s)) (cfg_genesis_timestamp (ni_config s));
          time = snd (set_current_timestamp_unchecked
            (case_option NON_FORK_FIRST_BLOCK_TIMESTAMP fd_block_timestamp fork_details) (ni_time s));
          fork = reset_fork_client fork_client_opt (ni_fork s);
          fork_storage = fork_storage_new (map_option fd_chain_id fork_details)
            (cfg_chain_id (ni_config s)) (system_storage na)
      in set_rich_accounts na (cfg_rich_addresses (ni_config s)) (cfg_genesis_balance (ni_config s))
           (s\<lparr>ni_blockchain := blockchain, ni_time := time, ni_filters := eth_filters_default,
              ni_fork := fork, ni_fork_storage := fork_storage, ni_rich_accounts := {},
              ni_previous_states := []\<rparr>))"

section \<open>Sealing extends the chain\<close>

lemma set_values_foldl: "set_values kvs s = foldl (\<lambda>s (k, v). fs_set_value k v s) s kvs"
  by (induction kvs s rule: set_values.induct) simp_all

lemma store_factory_deps_state [simp]:
  "st_state (fs_raw_storage (store_factory_deps cs s)) = st_state (fs_raw_storage s)"
  by (induction cs s rule: store_factory_deps.induct) (simp_all add: fs_store_factory_dep_def mem_store_factory_dep_def)

lemma read_modified_state:
  "st_state (fs_raw_storage (snd (read_modified fork modified key s))) = st_state (fs_raw_storage s)"
  by (simp add: read_modified_def read_value_internal_def split: option.split sum.split)

lemma read_aggregation_root_state:
  assumes "read_aggregation_root na fork modified s = Inr (root, s')"
  shows "st_state (fs_raw_storage s') = st_state (fs_raw_storage s)"
  using assms read_modified_state
  by (auto simp: read_aggregation_root_def Let_def split_def split: prod.splits)

text \<open>The blocks that sealing the contexts of a batch adds.\<close>

definition seals_blocks :: "block_context list \<Rightarrow> nat \<Rightarrow> api_block list \<Rightarrow> bool" where
  "seals_blocks bxs txs bs \<longleftrightarrow> map blk_hash bs = map bx_hash bxs \<and> map blk_number bs = map bx_miniblock bxs
     \<and> map blk_parent_hash bs = map bx_prev_block_hash bxs
     \<and> map block_ts bs = map (\<lambda>bx. unat (bx_timestamp bx)) bxs
     \<and> length (blk_transactions (hd bs)) = txs \<and> (\<forall>b \<in> set (tl bs). blk_transactions b = [])"

lemma create_block_simps [simp]:
  "blk_hash (create_block ca env h ph n ts txs gas bloom) = h"
  "blk_number (create_block ca env h ph n ts txs gas bloom) = n"
  "blk_parent_hash (create_block ca env h ph n ts txs gas bloom) = ph"
  "block_ts (create_block ca env h ph n ts txs gas bloom) = unat ts"
  "blk_transactions (create_block ca env h ph n ts txs gas bloom) = txs"
  "blk_l1_batch_number (create_block ca env h ph n ts txs gas bloom) = Some (ucast (env_number env))"
  by (simp_all add: create_block_def block_ts_def)

lemma inner_apply_batch_elim:
  assumes "inner_apply_batch ca na ts hashes block vb rs finished modified s = Inr s'"
  obtains root storage chain1 where
    "st_state (fs_raw_storage storage) = st_state (fs_raw_storage (ni_fork_storage s))"
    and "apply_block block 0 (apply_batch ca ts hashes rs finished root (ni_blockchain s)) = Inr chain1"
    and "ni_fork_storage s' = set_values modified (store_factory_deps (concat (map res_new_bytecodes rs)) storage)"
    and "case vb of
        None \<Rightarrow> ni_blockchain s' = chain1 \<and> ni_previous_states s'
          = archive_state (ni_previous_states s) (st_state (fs_raw_storage (ni_fork_storage s)))
              (bc_current_block_hash (ni_blockchain s))
      | Some b \<Rightarrow> apply_block b 1 chain1 = Inr (ni_blockchain s') \<and> ni_previous_states s'
          = archive_state (archive_state (ni_previous_states s) (st_state (fs_raw_storage (ni_fork_storage s)))
              (bc_current_block_hash (ni_blockchain s))) (st_state (fs_raw_storage (ni_fork_storage s')))
              (bc_current_block_hash chain1)"
    and "ni_filters s' = ni_filters s" and "ni_fork s' = ni_fork s" and "ni_time s' = ni_time s"
proof -
  from assms obtain root storage where r: "read_aggregation_root na (fork_as_source (ni_fork s)) modified
      (ni_fork_storage s) = Inr (root, storage)"
    by (auto simp: inner_apply_batch_def Let_def)
  with assms obtain chain1 where "apply_block block 0
      (apply_batch ca ts hashes rs finished root (ni_blockchain s)) = Inr chain1"
    by (auto simp: inner_apply_batch_def Let_def)
  moreover have "bc_current_block_hash (apply_batch ca ts hashes rs finished root (ni_blockchain s))
      = bc_current_block_hash (ni_blockchain s)"
    by (simp add: apply_batch_def Let_def)
  ultimately show thesis
    using assms r read_aggregation_root_state [OF r]
    by (intro that [of storage root chain1]) (auto simp: inner_apply_batch_def Let_def split: option.splits)
qed

lemma length_seal_transactions:
  "seal_transactions na chain_id bx batch i rs = Inr txs \<Longrightarrow> length txs = length rs"
  by (induction rs arbitrary: i txs) auto

lemma seal_block_elim:
  assumes "seal_block ca na r s = Inr (n, s')"
  obtains bx bxs filters txs gas s1 where "br_block_ctxs r = bx # bxs"
    and "notify_txs (br_tx_results r) (bx_miniblock bx) (ni_filters s) = Inr filters"
    and "length txs = length (br_tx_results r)"
    and "inner_apply_batch ca na (env_timestamp (br_batch_env r)) (br_base_system_contracts_hashes r)
        (create_block ca (br_batch_env r) (bx_hash bx) (bx_prev_block_hash bx) (bx_miniblock bx)
          (bx_timestamp bx) txs gas (build_bloom na (bloom_inputs (br_tx_results r))))
        (case bxs of [vx] \<Rightarrow> Some (create_block ca (br_batch_env r) (bx_hash vx) (bx_prev_block_hash vx)
            (bx_miniblock vx) (bx_timestamp vx) [] 0 bloom_zero) | _ \<Rightarrow> None)
        (br_tx_results r) (br_finished_l1_batch r) (br_modified_storage_keys r) (s\<lparr>ni_filters := filters\<rparr>) = Inr s1"
    and "n = ucast (bx_miniblock bx)"
    and "s' = s1\<lparr>ni_filters := notify_blocks (br_block_ctxs r) (ni_filters s1)\<rparr>"
proof -
  from assms obtain bx bxs where c: "br_block_ctxs r = bx # bxs"
    by (cases "br_block_ctxs r") (auto simp: seal_block_def)
  show thesis
    using assms by (auto simp: seal_block_def c Let_def dest!: length_seal_transactions intro: that [OF c])
qed

lemma seals_one: "seals_blocks [bx] (length txs) [create_block ca env (bx_hash bx) (bx_prev_block_hash bx)
    (bx_miniblock bx) (bx_timestamp bx) txs gas bloom]"
  by (simp add: seals_blocks_def)

lemma seals_two: "seals_blocks [bx, vx] (length txs) [create_block ca env (bx_hash bx) (bx_prev_block_hash bx)
    (bx_miniblock bx) (bx_timestamp bx) txs gas bloom, create_block ca env (bx_hash vx) (bx_prev_block_hash vx)
    (bx_miniblock vx) (bx_timestamp vx) [] 0 bloom_zero]"
  by (simp add: seals_blocks_def)

subsection \<open>Archived states\<close>

lemma map_of_tl_last:
  assumes "k \<notin> fst ` set xs" and "xs \<noteq> []"
  shows "map_of (tl (xs @ [(k, v)])) k = Some v"
proof -
  have "map_of (tl xs) k = None" using assms by (cases xs) (auto simp: map_of_eq_None_iff)
  then show ?thesis using assms(2) by (simp add: map_add_def)
qed

lemma update_fresh: "k \<notin> fst ` set xs \<Longrightarrow> AList.update k v xs = xs @ [(k, v)]"
  by (induction xs) auto

lemma archive_lookup:
  assumes "h \<notin> fst ` set ps"
  shows "map_of (archive_state ps st h) h = Some st"
  by (simp add: archive_state_def update_conv')

lemma archive_lookup_again:
  assumes "h \<notin> fst ` set ps" and "h \<noteq> h'"
  shows "map_of (archive_state (archive_state ps st h) st' h') h = Some st"
proof -
  let ?ps = "if length ps > MAX_PREVIOUS_STATES then tl ps else ps"
  have fresh: "h \<notin> fst ` set ?ps" using assms(1) by (cases ps) auto
  then have a: "archive_state ps st h = ?ps @ [(h, st)]" by (simp add: archive_state_def update_fresh)
  have "map_of (tl (?ps @ [(h, st)])) h = Some st" if "length (?ps @ [(h, st)]) > MAX_PREVIOUS_STATES"
    using that fresh by (intro map_of_tl_last) (auto simp: MAX_PREVIOUS_STATES_def)
  moreover have "map_of (?ps @ [(h, st)]) h = Some st"
    using fresh map_of_eq_None_iff [of ?ps h] by (simp add: map_add_def)
  ultimately show ?thesis
    using assms(2) by (simp add: a archive_state_def [of "?ps @ [(h, st)]"] update_conv' del: append.simps)
qed

section \<open>A node for concrete runs\<close>

definition sample_node_api :: node_api where
  "sample_node_api = \<lparr>key_for_eth_balance = (\<lambda>a. \<lparr>sk_address = 32778, sk_key = ucast a\<rparr>),
     key_for_nonce = (\<lambda>a. \<lparr>sk_address = 32771, sk_key = ucast a\<rparr>), keccak_h256 = (\<lambda>h. h * 31 + 7),
     l2_message_root_address = 65541, agg_tree_height_key = 3, agg_tree_nodes_key = 5,
     api_transaction_from = (\<lambda>tx. sample_atx\<lparr>atx_hash := tx_hash tx\<rparr>), api_transaction_default = sample_atx,
     build_bloom = (\<lambda>is. bloom_zero),
     system_storage = (\<lambda>i. \<lparr>st_state = [\<lparr>sk_address = 7, sk_key = 1\<rparr> \<mapsto> 5], st_factory_deps = Map.empty\<rparr>)\<rparr>"

definition sample_config :: "u64 option \<Rightarrow> node_config" where
  "sample_config t = \<lparr>cfg_genesis = None, cfg_genesis_timestamp = t, cfg_chain_id = None,
     cfg_rich_addresses = [10, 20], cfg_genesis_balance = 1000,
     cfg_max_transactions = 1000, cfg_use_evm_interpreter = False\<rparr>"

definition sample_node :: "u64 option \<Rightarrow> (nat, u64 \<times> u64, unit, unit, unit) node_inner" where
  "sample_node t = node_inner_init sample_chain_api sample_node_api None CacheMemory empty_dir
     (provider_default sample_fee_api) eth_filters_default (sample_config t) impersonation_default 26 ZkEra"

definition sample_batch :: tx_batch_execution_result where
  "sample_batch = \<lparr>br_tx_results = [], br_base_system_contracts_hashes = base_system_contracts_hashes_default,
     br_batch_env = (genesis_batch_env 1001)\<lparr>env_number := 1\<rparr>,
     br_block_ctxs = [\<lparr>bx_hash = 55, bx_batch = 1, bx_miniblock = 1, bx_timestamp = 1001, bx_prev_block_hash = 1000\<rparr>],
     br_finished_l1_batch = finished_l1_batch_mock,
     br_modified_storage_keys = [(\<lparr>sk_address = 7, sk_key = 1\<rparr>, 42)]\<rparr>"

lemmas sample_defs = sample_node_def sample_batch_def sample_node_api_def sample_config_def
  sample_chain_api_def node_inner_init_def fork_new_def details_def blockchain_new_def create_genesis_def
  create_block_def fork_storage_new_def genesis_batch_env_def NON_FORK_FIRST_BLOCK_TIMESTAMP_def

lemma sample_node_represents:
  "represents (ni_blockchain (sample_node None)) [fst (create_genesis sample_chain_api 26 None)]"
  by (simp add: sample_defs represents_def chain_numbers_def block_ts_def Let_def split_def)

lemma sample_node_read: "storage_view (fork_as_source (ni_fork (sample_node t))) (ni_fork_storage (sample_node t)) k
    = Inr (if k = \<lparr>sk_address = 7, sk_key = 1\<rparr> then 5 else 0)"
  by (simp add: sample_defs storage_view_def fork_as_source_def fork_get_storage_at_forked_def Let_def split_def)

lemma sample_env: "\<exists>e. create_l1_batch_env sample_chain_api fa (sample_node t) = Inr e"
  by (simp add: create_l1_batch_env_def sample_node_read Let_def split_def)

lemma sample_seal: "\<exists>n s'. seal_block sample_chain_api sample_node_api sample_batch (sample_node None) = Inr (n, s')"
  by (simp add: sample_defs seal_block_def inner_apply_batch_def read_aggregation_root_def Let_def split_def
      read_modified_def read_value_internal_def read_value_opt_def fork_as_source_def
      fork_get_storage_at_forked_def apply_block_def apply_batch_def as_u32_def as_u64_def bloom_inputs_def)

section \<open>Sealing\<close>

lemma chain_hash:
  assumes "represents s bs" and "b \<in> set bs"
  shows "bc_hashes s (ucast (blk_number b)) = Some (blk_hash b)"
  using assms find_distinct [OF chain_numbers_distinct, of bs b]
  by (simp add: represents_def map_of_map_find)

text \<open>Everything a successful seal does to the node.\<close>

lemma seal_block_step:
  assumes "represents (ni_blockchain s) bs" and "seal_block ca na r s = Inr (n, s')"
    and "length (br_block_ctxs r) \<le> 2" and "distinct (map bx_hash (br_block_ctxs r))"
    and "\<forall>bx \<in> set (br_block_ctxs r). bx_hash bx \<notin> blk_hash ` set bs"
    and "unat (blk_number (last bs)) + 2 < 2 ^ 32"
  obtains new where "represents (ni_blockchain s') (bs @ new)"
    and "seals_blocks (br_block_ctxs r) (length (br_tx_results r)) new" and "n = ucast (blk_number (hd new))"
    and "new \<noteq> []"
    and "bc_current_block_hash (ni_blockchain s) \<notin> fst ` set (ni_previous_states s) \<Longrightarrow>
      map_of (ni_previous_states s') (bc_current_block_hash (ni_blockchain s))
        = Some (st_state (fs_raw_storage (ni_fork_storage s)))"
    and "\<exists>t. ni_fork_storage s' = set_values (br_modified_storage_keys r) t
      \<and> st_state (fs_raw_storage t) = st_state (fs_raw_storage (ni_fork_storage s))"
    and "ni_fork s' = ni_fork s" and "ni_time s' = ni_time s"
proof -
  from assms(2) obtain bx bxs filters txs gas s1 where c: "br_block_ctxs r = bx # bxs"
    and len: "length txs = length (br_tx_results r)"
    and app: "inner_apply_batch ca na (env_timestamp (br_batch_env r)) (br_base_system_contracts_hashes r)
        (create_block ca (br_batch_env r) (bx_hash bx) (bx_prev_block_hash bx) (bx_miniblock bx)
          (bx_timestamp bx) txs gas (build_bloom na (bloom_inputs (br_tx_results r))))
        (case bxs of [vx] \<Rightarrow> Some (create_block ca (br_batch_env r) (bx_hash vx) (bx_prev_block_hash vx)
            (bx_miniblock vx) (bx_timestamp vx) [] 0 bloom_zero) | _ \<Rightarrow> None)
        (br_tx_results r) (br_finished_l1_batch r) (br_modified_storage_keys r) (s\<lparr>ni_filters := filters\<rparr>) = Inr s1"
    and n: "n = ucast (bx_miniblock bx)"
    and s': "s' = s1\<lparr>ni_filters := notify_blocks (br_block_ctxs r) (ni_filters s1)\<rparr>"
    by (rule seal_block_elim)
  let ?b = "create_block ca (br_batch_env r) (bx_hash bx) (bx_prev_block_hash bx) (bx_miniblock bx)
      (bx_timestamp bx) txs gas (build_bloom na (bloom_inputs (br_tx_results r))) :: api_block"
  let ?v = "\<lambda>vx. create_block ca (br_batch_env r) (bx_hash vx) (bx_prev_block_hash vx)
      (bx_miniblock vx) (bx_timestamp vx) [] 0 bloom_zero :: api_block"
  let ?h = "bc_current_block_hash (ni_blockchain s)" and ?st = "st_state (fs_raw_storage (ni_fork_storage s))"
  from app obtain root storage chain1 where b: "apply_block ?b 0 (apply_batch ca (env_timestamp (br_batch_env r))
      (br_base_system_contracts_hashes r) (br_tx_results r) (br_finished_l1_batch r) root (ni_blockchain s)) = Inr chain1"
    and st: "st_state (fs_raw_storage storage) = ?st"
    and fs: "ni_fork_storage s1 = set_values (br_modified_storage_keys r)
      (store_factory_deps (concat (map res_new_bytecodes (br_tx_results r))) storage)"
    and v: "case (case bxs of [vx] \<Rightarrow> Some (?v vx) | _ \<Rightarrow> None) of
        None \<Rightarrow> ni_blockchain s1 = chain1 \<and> ni_previous_states s1 = archive_state (ni_previous_states s) ?st ?h
      | Some vb \<Rightarrow> apply_block vb 1 chain1 = Inr (ni_blockchain s1) \<and> ni_previous_states s1
          = archive_state (archive_state (ni_previous_states s) ?st ?h)
              (st_state (fs_raw_storage (ni_fork_storage s1))) (bc_current_block_hash chain1)"
    and rest: "ni_fork s1 = ni_fork s" "ni_time s1 = ni_time s"
    by (rule inner_apply_batch_elim) (rule that, simp_all cong: option.case_cong)
  have e1: "represents chain1 (bs @ [?b])" and num: "unat (bx_miniblock bx) = unat (blk_number (last bs)) + 1"
    using apply_block_extends [OF _ b, of bs] assms(1,5,6) c by (auto simp: accepts_block_def)
  have hd: "bc_current_block_hash chain1 = bx_hash bx" "?h \<in> blk_hash ` set bs"
    using e1 assms(1) by (auto simp: represents_def)
  have fs': "\<exists>t. ni_fork_storage s' = set_values (br_modified_storage_keys r) t \<and> st_state (fs_raw_storage t) = ?st"
    using fs st by (intro exI [of _ "store_factory_deps (concat (map res_new_bytecodes (br_tx_results r))) storage"])
      (simp add: s')
  show thesis
  proof (cases bxs)
    case Nil
    with e1 v have "represents (ni_blockchain s') (bs @ [?b])" by (simp add: s')
    with Nil c n len [symmetric] v rest fs' show thesis
      by (intro that [of "[?b]"]) (simp_all add: seals_one s' archive_lookup)
  next
    case (Cons vx tail)
    with assms(3) c have one: "bxs = [vx]" by simp
    with v have v: "apply_block (?v vx) 1 chain1 = Inr (ni_blockchain s1)"
      and ps: "ni_previous_states s1 = archive_state (archive_state (ni_previous_states s) ?st ?h)
              (st_state (fs_raw_storage (ni_fork_storage s1))) (bx_hash bx)"
      by (simp_all add: hd)
    have "represents (ni_blockchain s1) ((bs @ [?b]) @ [?v vx])"
      using apply_block_extends [OF e1 v] assms(4,5,6) c one num by auto
    moreover have "?h \<noteq> bx_hash bx" using hd(2) assms(5) c by auto
    ultimately show thesis
      using one c n len [symmetric] ps rest fs'
      by (intro that [of "[?b, ?v vx]"]) (simp_all add: seals_two s' archive_lookup_again)
  qed
qed



section \<open>Historical reads\<close>

lemma read_set_values:
  assumes "distinct (map fst kvs)"
  shows "fst (read_value_internal fork k (set_values kvs t))
    = (case map_of kvs k of Some v \<Rightarrow> Inr v | None \<Rightarrow> fst (read_value_internal fork k t))"
proof -
  have "set_values kvs t = fs.set_all kvs t" by (induction kvs t rule: set_values.induct) simp_all
  then show ?thesis
    using fs.view_set_all [OF assms, of k _ fork t] fs.view_set_all_other [of k kvs fork t]
    by (auto simp: fs.read_result map_of_eq_None_iff split: option.split)
qed



section \<open>Bounds, snapshots, reset\<close>

lemma length_update:
  "length (AList.update k v xs) = (if k \<in> fst ` set xs then length xs else Suc (length xs))"
  by (induction xs) auto

text \<open>The archive of historical states never exceeds 129 entries, and a node that holds 128 of them
  keeps 129 after the next seal: one more than the documented limit.\<close>

theorem archive_state_bound:
  "(length ps \<le> MAX_PREVIOUS_STATES + 1 \<longrightarrow> length (archive_state ps st h) \<le> MAX_PREVIOUS_STATES + 1)
   \<and> (length ps = MAX_PREVIOUS_STATES \<and> h \<notin> fst ` set ps
      \<longrightarrow> length (archive_state ps st h) = MAX_PREVIOUS_STATES + 1)
   \<and> map_of (archive_state ps st h) h = Some st"
  by (auto simp: archive_state_def length_update update_conv' MAX_PREVIOUS_STATES_def)

theorem archive_state_bound_witness:
  "length (archive_state (map (\<lambda>n. (of_nat n, Map.empty)) [0..<128]) Map.empty 128) = 129"
proof -
  let ?ps = "map (\<lambda>n. (of_nat n :: h256, Map.empty :: storage_map)) [0..<128]"
  have "(128 :: h256) \<notin> fst ` set ?ps"
  proof
    assume "(128 :: h256) \<in> fst ` set ?ps"
    then obtain n where "n < 128" "(128 :: h256) = of_nat n" by auto
    then have "unat (of_nat 128 :: h256) = unat (of_nat n :: h256)" by simp
    with \<open>n < 128\<close> show False by (simp only: unat_of_nat) simp
  qed
  with archive_state_bound [of ?ps Map.empty 128] show ?thesis by (simp add: MAX_PREVIOUS_STATES_def)
qed

text \<open>Restoring gives back every part of the state that the snapshot took.\<close>

lemma restored_fields:
  assumes "t' = restore_snapshot (inner_snapshot s) t"
  shows "ni_blockchain t' = (ni_blockchain s)\<lparr>bc_protocol_version := bc_protocol_version (ni_blockchain t),
      bc_batches := bc_batches (ni_blockchain t)\<rparr>"
    and "ni_fork_storage t' = (ni_fork_storage s)\<lparr>fs_chain_id := fs_chain_id (ni_fork_storage t)\<rparr>"
    and "ni_previous_states t' = ni_previous_states s" and "ni_filters t' = ni_filters s"
    and "ni_impersonation t' = ni_impersonation s" and "ni_fork t' = ni_fork t" and "ni_time t' = ni_time t"
  by (simp_all add: assms restore_snapshot_def inner_snapshot_def)

lemma read_value_chain_id:
  "fst (read_value_internal fork k (st\<lparr>fs_chain_id := i\<rparr>)) = fst (read_value_internal fork k st)"
  by (simp add: fs.read_result storage_view_def cong: option.case_cong)

lemma block_variant_number_cong:
  "block_variant_number (c\<lparr>bc_protocol_version := p, bc_batches := b\<rparr>) v = block_variant_number c v"
  by (induction c v rule: block_variant_number.induct) simp_all

lemma get_block_by_id_cong:
  "get_block_by_id bid (c\<lparr>bc_protocol_version := p, bc_batches := b\<rparr>) = get_block_by_id bid c"
  by (cases bid) (simp_all add: get_block_by_id_def inspect_block_by_id_def state_get_block_hash_by_id_def
      state_get_block_hash_by_number_def split: block_number.split cong: option.case_cong)

text \<open>C5: reverting to a snapshot restores every read. Whatever state \<open>t\<close> the node has reached, as
  long as it uses the same fork, restoring a snapshot of \<open>s\<close> makes block lookups, transaction receipts, storage reads,
  filters and impersonation answer as they did in \<open>s\<close>, and the chain is the one \<open>s\<close> represented. The clock and the
  batch table are those of \<open>t\<close>.\<close>

theorem snapshot_restores_reads:
  assumes "ni_fork t = ni_fork s" and "t' = restore_snapshot (inner_snapshot s) t"
  shows "get_block_by_id bid (ni_blockchain t') = (get_block_by_id bid (ni_blockchain s) :: (string, _) outcome)
    \<and> get_tx_receipt h (ni_blockchain t') = get_tx_receipt h (ni_blockchain s)
    \<and> get_storage_at_block a i block t' = get_storage_at_block a i block s
    \<and> get_filter k (ni_filters t') = get_filter k (ni_filters s)
    \<and> is_impersonating (ni_impersonation t') b = is_impersonating (ni_impersonation s) b
    \<and> represents (ni_blockchain t') bs = represents (ni_blockchain s) bs
    \<and> ni_time t' = ni_time t \<and> bc_batches (ni_blockchain t') = bc_batches (ni_blockchain t)"
proof -
  note r = restored_fields [OF assms(2)]
  have "get_storage_at_block a i block t' = get_storage_at_block a i block s"
    by (simp add: get_storage_at_block_def r assms(1) read_value_chain_id block_variant_number_cong
        cong: sum.case_cong option.case_cong if_cong)
  then show ?thesis
    by (simp add: r get_block_by_id_cong get_tx_receipt_def inspect_tx_def represents_def)
qed

theorem snapshot_restores_reads_witness:
  "\<exists>n t. seal_block sample_chain_api sample_node_api sample_batch (sample_node None) = Inr (n, t)
     \<and> get_storage_at_block 7 1 None (restore_snapshot (inner_snapshot (sample_node None)) t) = Inr 5"
proof -
  obtain n t where r: "seal_block sample_chain_api sample_node_api sample_batch (sample_node None) = Inr (n, t)"
    using sample_seal by blast
  have f: "ni_fork t = ni_fork (sample_node None)"
    by (rule seal_block_step [OF sample_node_represents r]) (auto simp: sample_defs Let_def)
  have "get_storage_at_block 7 1 None (sample_node None) = Inr 5"
    by (simp add: get_storage_at_block_def as_u32_def read_value_internal_def read_value_opt_def sample_defs
        Let_def split_def)
  moreover have "get_storage_at_block 7 1 None (restore_snapshot (inner_snapshot (sample_node None)) t)
      = get_storage_at_block 7 1 None (sample_node None)"
    using snapshot_restores_reads [OF f refl] by blast
  ultimately show ?thesis using r by auto
qed

lemma storage_key_eta [simp]: "\<lparr>sk_address = sk_address k, sk_key = sk_key k\<rparr> = k"
  by (cases k) simp

lemma ucast_u64_u256_u64 [simp]: "(ucast (ucast (n::u64) :: u256) :: u64) = n"
  by (rule unat_eqI) (simp add: unat_ucast_fits unat_bounds)

lemma set_rich_accounts_spec:
  assumes "ni_storage_key_layout s = ZkEra"
  shows "\<exists>s'. set_rich_accounts na as balance s = Inr s'
    \<and> s' = s\<lparr>ni_fork_storage := set_values (map (\<lambda>a. (key_for_eth_balance na a, balance)) as) (ni_fork_storage s),
        ni_rich_accounts := ni_rich_accounts s \<union> set as\<rparr>"
  using assms by (induction as arbitrary: s) (simp_all add: set_rich_account_def)

lemma storage_view_set_values:
  assumes "\<forall>kv \<in> set kvs. snd kv = v" and "k \<in> fst ` set kvs \<or> storage_view fork t k = Inr v"
  shows "storage_view fork (set_values kvs t) k = Inr v"
  using assms by (induction kvs t rule: set_values.induct) (auto simp: fs.set_view)

text \<open>A reset leaves a fresh node: the chain is the initial one of the new fork or of genesis, no filter and no
  historical state survives, and every configured account is rich and reads the configured balance. With
  the unfinished storage layout it panics instead, unless no account is configured.\<close>

theorem inner_reset_spec:
  "(ni_storage_key_layout s = ZkEra \<longrightarrow> (\<exists>s'. inner_reset ca na fc s = Inr s'
     \<and> ni_blockchain s' = blockchain_new ca (ni_protocol_version s) (map_option cl_details fc)
         (cfg_genesis (ni_config s)) (cfg_genesis_timestamp (ni_config s))
     \<and> ni_filters s' = eth_filters_default \<and> ni_previous_states s' = []
     \<and> ni_rich_accounts s' = set (cfg_rich_addresses (ni_config s))
     \<and> details (ni_fork s') = map_option cl_details fc
     \<and> current_timestamp (ni_time s') = (case fc of None \<Rightarrow> 1000 | Some c \<Rightarrow> fd_block_timestamp (cl_details c))
     \<and> (\<forall>a \<in> set (cfg_rich_addresses (ni_config s)).
         get_storage_at_block (sk_address (key_for_eth_balance na a)) (sk_key (key_for_eth_balance na a)) None s'
           = Inr (cfg_genesis_balance (ni_config s)))))
   \<and> (ni_storage_key_layout s = BoojumOs \<and> cfg_rich_addresses (ni_config s) \<noteq> []
     \<longrightarrow> inner_reset ca na fc s = Inl (Panic ''not yet implemented''))"
proof (intro conjI impI)
  assume z: "ni_storage_key_layout s = ZkEra"
  let ?f = "fork_storage_new (map_option fd_chain_id (map_option cl_details fc)) (cfg_chain_id (ni_config s))
    (system_storage na)"
  let ?s0 = "s\<lparr>ni_blockchain := blockchain_new ca (ni_protocol_version s) (map_option cl_details fc)
         (cfg_genesis (ni_config s)) (cfg_genesis_timestamp (ni_config s)),
       ni_time := snd (set_current_timestamp_unchecked (case_option NON_FORK_FIRST_BLOCK_TIMESTAMP
         fd_block_timestamp (map_option cl_details fc)) (ni_time s)),
       ni_filters := eth_filters_default, ni_fork := reset_fork_client fc (ni_fork s),
       ni_fork_storage := ?f, ni_rich_accounts := {}, ni_previous_states := []\<rparr>"
  let ?kvs = "map (\<lambda>a. (key_for_eth_balance na a, cfg_genesis_balance (ni_config s))) (cfg_rich_addresses (ni_config s))"
  let ?s' = "?s0\<lparr>ni_fork_storage := set_values ?kvs ?f, ni_rich_accounts := set (cfg_rich_addresses (ni_config s))\<rparr>"
  have r: "inner_reset ca na fc s = Inr ?s'"
    using set_rich_accounts_spec [of ?s0 na "cfg_rich_addresses (ni_config s)" "cfg_genesis_balance (ni_config s)"] z
    by (simp add: inner_reset_def Let_def)
  have "storage_view fork (set_values ?kvs ?f) (key_for_eth_balance na a) = Inr (cfg_genesis_balance (ni_config s))"
    if "a \<in> set (cfg_rich_addresses (ni_config s))" for a and fork
    by (rule storage_view_set_values) (use that in \<open>auto simp: image_image\<close>)
  then have bal: "\<forall>a \<in> set (cfg_rich_addresses (ni_config s)).
      get_storage_at_block (sk_address (key_for_eth_balance na a)) (sk_key (key_for_eth_balance na a)) None ?s'
        = Inr (cfg_genesis_balance (ni_config s))"
    by (simp add: get_storage_at_block_def fs.read_result)
  show "\<exists>s'. inner_reset ca na fc s = Inr s'
     \<and> ni_blockchain s' = blockchain_new ca (ni_protocol_version s) (map_option cl_details fc)
         (cfg_genesis (ni_config s)) (cfg_genesis_timestamp (ni_config s))
     \<and> ni_filters s' = eth_filters_default \<and> ni_previous_states s' = []
     \<and> ni_rich_accounts s' = set (cfg_rich_addresses (ni_config s))
     \<and> details (ni_fork s') = map_option cl_details fc
     \<and> current_timestamp (ni_time s') = (case fc of None \<Rightarrow> 1000 | Some c \<Rightarrow> fd_block_timestamp (cl_details c))
     \<and> (\<forall>a \<in> set (cfg_rich_addresses (ni_config s)).
         get_storage_at_block (sk_address (key_for_eth_balance na a)) (sk_key (key_for_eth_balance na a)) None s'
           = Inr (cfg_genesis_balance (ni_config s)))"
    by (rule exI [of _ ?s'], intro conjI bal)
      (simp_all add: r details_def reset_fork_client_def set_current_timestamp_unchecked_def
        NON_FORK_FIRST_BLOCK_TIMESTAMP_def split: option.split)
next
  assume "ni_storage_key_layout s = BoojumOs \<and> cfg_rich_addresses (ni_config s) \<noteq> []"
  then show "inner_reset ca na fc s = Inl (Panic ''not yet implemented'')"
    by (cases "cfg_rich_addresses (ni_config s)") (simp_all add: inner_reset_def Let_def set_rich_account_def)
qed

theorem inner_reset_spec_witness:
  "\<exists>s'. inner_reset sample_chain_api sample_node_api None (sample_node None) = Inr s'
     \<and> ni_rich_accounts s' = {10, 20} \<and> get_storage_at_block 32778 10 None s' = Inr 1000"
proof -
  have "ni_storage_key_layout (sample_node None) = ZkEra" "ni_config (sample_node None) = sample_config None"
    by (simp_all add: sample_node_def node_inner_init_def Let_def)
  then show ?thesis
    using inner_reset_spec [of "sample_node None" sample_chain_api sample_node_api None]
    by (auto simp: sample_config_def sample_node_api_def)
qed

text \<open>A genesis timestamp in the clock's future is fatal. On a node without a fork the clock starts at
  1000 whatever genesis timestamp is configured, so the first block, stamped by that clock, is
  appended exactly when the genesis timestamp is below 1001; otherwise sealing panics.\<close>

theorem genesis_timestamp_first_block:
  assumes "s = node_inner_init ca na None cc dir fees filters config imp pv layout"
    and "cfg_genesis config = None" and "env_number env = 1"
    and "b = create_block ca env h ph 1 (fst (advance_timestamp (ni_time s))) txs gas bloom"
  shows "apply_block b 0 (apply_batch ca ts hashes rs finished root (ni_blockchain s))
    = (if case_option 1000 id (cfg_genesis_timestamp config) < 1001
       then Inr ((apply_batch ca ts hashes rs finished root (ni_blockchain s))
         \<lparr>bc_current_block := 1, bc_current_block_hash := h,
          bc_hashes := [0 \<mapsto> legacy_hash ca 0, 1 \<mapsto> h],
          bc_blocks := AList.update h b (bc_blocks (ni_blockchain s))\<rparr>)
       else Inl (Panic ''expected next block to have timestamp bigger than''))"
proof -
  have "fst (advance_timestamp (ni_time s)) = 1001"
    by (simp add: assms(1) node_inner_init_def Let_def fork_new_def split_def details_def time_defs
        NON_FORK_FIRST_BLOCK_TIMESTAMP_def saturating_add_def)
  then show ?thesis
    by (cases "cfg_genesis_timestamp config")
      (simp_all add: apply_block_def apply_batch_def assms node_inner_init_def Let_def fork_new_def details_def
        blockchain_new_def create_genesis_def create_block_def NON_FORK_FIRST_BLOCK_TIMESTAMP_def
        split_def as_u32_def as_u64_def unat_bounds not_less [symmetric])
qed

theorem genesis_timestamp_first_block_witness:
  "apply_block (create_block sample_chain_api ((genesis_batch_env 1001)\<lparr>env_number := 1\<rparr>) 55 1000 1
       (fst (advance_timestamp (ni_time (sample_node (Some 5000))))) [] 0 bloom_zero) 0
     (apply_batch sample_chain_api 1001 base_system_contracts_hashes_default [] finished_l1_batch_mock 0
       (ni_blockchain (sample_node (Some 5000))))
   = Inl (Panic ''expected next block to have timestamp bigger than'')"
  using genesis_timestamp_first_block [OF sample_node_def [of "Some 5000"], OF _ _ refl,
      of "(genesis_batch_env 1001)\<lparr>env_number := 1\<rparr>" 55 1000 "[]" 0 bloom_zero 1001
        base_system_contracts_hashes_default "[]" finished_l1_batch_mock 0]
  by (simp add: sample_config_def)

end
