(* ===== verification/Vm_Output.thy ===== *)
theory Vm_Output
  imports Vm_Types
begin

text \<open>
  What the virtual machine reports about a transaction, and the code that reads it:
  \<open>crates/core/src/utils.rs\<close> (numbers for humans, debug calls), \<open>node/storage_logs.rs\<close> with
  \<open>formatter/pubdata_bytes.rs\<close> (pubdata costs), and the helpers at the end of \<open>node/inner/vm_runner.rs\<close>.

  The result types belong to \<open>zksync_multivm::interface\<close>; only the fields and accessor results
  that the repository reads are here. Compression of storage values, the hash of a bytecode
  and the extraction of published bytecodes from events are arguments.
\<close>

section \<open>Results\<close>

record revert_output =
  ro_encoded_data :: bytes
  ro_string :: string

datatype execution_result =
    Success bytes
  | Revert revert_output
  | Halt string

fun is_failed :: "execution_result \<Rightarrow> bool" where
  "is_failed (Success _) = False"
| "is_failed _ = True"

datatype storage_log_kind = ReadLog | InitialWrite | RepeatedWrite

record storage_log =
  slog_kind :: storage_log_kind
  slog_key :: storage_key
  slog_value :: h256
  slog_previous_value :: h256

record vm_result =
  vr_result :: execution_result
  vr_storage_logs :: "storage_log list"
  vr_events :: "vm_event list"
  vr_user_l2_to_l1_logs :: "user_l2_to_l1_log list"
  vr_system_l2_to_l1_logs :: "user_l2_to_l1_log list"
  vr_gas_used :: u64
  vr_computational_gas_used :: u32
  vr_pubdata_published :: u32
  vr_gas_refunded :: u64
  vr_cycles_used :: u32
  vr_contracts_used :: u64
  vr_dynamic_factory_deps :: "(h256 \<times> bytes) list"

datatype far_call_opcode = FarCallNormal | FarCallDelegate | FarCallMimic

datatype call_type = CallTypeCall far_call_opcode | CallTypeCreate | CallTypeNearCall

datatype call = Call
  (ca_type: call_type)
  (ca_from: address)
  (ca_to: address)
  (ca_gas: u64)
  (ca_gas_used: u64)
  (ca_value: u256)
  (ca_output: bytes)
  (ca_input: bytes)
  (ca_error: "string option")
  (ca_revert_reason: "string option")
  (ca_calls: "call list")

record batch_tx_result =
  bt_tx_result :: vm_result
  bt_compression_ok :: bool
  bt_call_traces :: "call list"

section \<open>Numbers for humans\<close>

definition digit :: "nat \<Rightarrow> char" where
  "digit d = char_of (48 + d)"

fun decimal :: "nat \<Rightarrow> string" where
  "decimal n = (if n < 10 then [digit n] else decimal (n div 10) @ [digit (n mod 10)])"

declare decimal.simps [simp del]

fun separate :: "nat \<Rightarrow> string \<Rightarrow> string" where
  "separate i [] = []"
| "separate i (c # cs) = (if i > 0 \<and> i mod 3 = 0 then [CHR ''_'', c] else [c]) @ separate (Suc i) cs"

definition to_human_size :: "u256 \<Rightarrow> string" where
  "to_human_size input = rev (separate 0 (rev (decimal (unat input))))"

section \<open>Debug calls\<close>

fun call_to_debug_call :: "call \<Rightarrow> ('e, debug_call) outcome"
  and calls_to_debug_calls :: "call list \<Rightarrow> ('e, debug_call list) outcome" where
  "call_to_debug_call (Call ty from to gas gas_used v out inp err reason cs) =
     and_then (calls_to_debug_calls cs) (\<lambda>calls.
     case ty of
       CallTypeCall _ \<Rightarrow> Inr (DebugCall DebugCallTypeCall from to (ucast gas) (ucast gas_used) v out inp err reason calls)
     | CallTypeCreate \<Rightarrow> Inr (DebugCall DebugCallTypeCreate from to (ucast gas) (ucast gas_used) v out inp err reason calls)
     | CallTypeNearCall \<Rightarrow> Inl (Panic ''We have to filter our near calls before''))"
| "calls_to_debug_calls [] = Inr []"
| "calls_to_debug_calls (c # cs) =
     and_then (call_to_debug_call c) (\<lambda>d. and_then (calls_to_debug_calls cs) (\<lambda>ds. Inr (d # ds)))"

definition create_debug_output ::
  "address \<Rightarrow> transaction \<Rightarrow> vm_result \<Rightarrow> call list \<Rightarrow> (string, debug_call) outcome" where
  "create_debug_output contract_deployer_address tx result traces =
     (let calltype = (if tx_recipient_account tx = Some contract_deployer_address
            then DebugCallTypeCreate else DebugCallTypeCall);
          to = case_option 0 id (tx_recipient_account tx)
      in case vr_result result of
           Success out \<Rightarrow> and_then (calls_to_debug_calls traces) (\<lambda>calls.
             Inr (DebugCall calltype (tx_initiator_account tx) to (tx_gas_limit tx) (ucast (vr_gas_used result))
               (tx_value tx) out (tx_calldata tx) None None calls))
         | Revert out \<Rightarrow> and_then (calls_to_debug_calls traces) (\<lambda>calls.
             Inr (DebugCall calltype (tx_initiator_account tx) to (tx_gas_limit tx) (ucast (vr_gas_used result))
               (tx_value tx) (ro_encoded_data out) (tx_calldata tx) None (Some (ro_string out)) calls))
         | Halt reason \<Rightarrow> Inl (Err reason))"

section \<open>Pubdata costs of storage logs\<close>

datatype pubdata_bytes_info =
    FreeSlot
  | Paid u32
  | AdditionalPayment u32 u32
  | PaidAlready

fun does_cost :: "pubdata_bytes_info \<Rightarrow> bool" where
  "does_cost FreeSlot = False"
| "does_cost (Paid _) = True"
| "does_cost (AdditionalPayment _ _) = True"
| "does_cost PaidAlready = False"

fun pubdata_bytes_info_fmt :: "pubdata_bytes_info \<Rightarrow> string" where
  "pubdata_bytes_info_fmt FreeSlot = ''Free Slot (no cost)''"
| "pubdata_bytes_info_fmt (Paid cost) = ''Paid: '' @ to_human_size (ucast cost) @ '' bytes''"
| "pubdata_bytes_info_fmt (AdditionalPayment additional_cost total_cost) =
     ''Additional Payment: '' @ to_human_size (ucast additional_cost) @ '' bytes (Total: ''
       @ to_human_size (ucast total_cost) @ '' bytes)''"
| "pubdata_bytes_info_fmt PaidAlready = ''Already Paid (no additional cost)''"

record pubdata_api =
  pa_system_context_address :: address
  pa_bootloader_balance_key :: storage_key
  pa_compressed_len :: "u256 \<Rightarrow> u256 \<Rightarrow> nat"
  pa_bytes_per_derived_key :: u32
  pa_bytes_per_enumeration_index :: u32

definition is_storage_key_free :: "pubdata_api \<Rightarrow> storage_key \<Rightarrow> bool" where
  "is_storage_key_free pa key \<longleftrightarrow>
     sk_address key = pa_system_context_address pa \<or> key = pa_bootloader_balance_key pa"

definition write_cost :: "pubdata_api \<Rightarrow> storage_log \<Rightarrow> u32" where
  "write_cost pa l = (let compressed_value_size =
       of_nat (pa_compressed_len pa (slog_previous_value l) (slog_value l))
     in if slog_kind l = InitialWrite then pa_bytes_per_derived_key pa + compressed_value_size
        else pa_bytes_per_enumeration_index pa + compressed_value_size)"

definition compute_and_update_pubdata_cost ::
  "pubdata_api \<Rightarrow> storage_log \<Rightarrow> (storage_key \<rightharpoonup> u32) \<Rightarrow> pubdata_bytes_info \<times> (storage_key \<rightharpoonup> u32)" where
  "compute_and_update_pubdata_cost pa l cost_paid =
     (if is_storage_key_free pa (slog_key l) then (FreeSlot, cost_paid)
      else let final_pubdata_cost = write_cost pa l;
               result = (case cost_paid (slog_key l) of
                   Some already_paid \<Rightarrow>
                     let to_pay = saturating_sub final_pubdata_cost already_paid
                     in if to_pay > 0 then AdditionalPayment to_pay final_pubdata_cost else PaidAlready
                 | None \<Rightarrow> Paid final_pubdata_cost)
           in (result, cost_paid(slog_key l \<mapsto> final_pubdata_cost)))"

datatype show_storage_logs = ShowNone | ShowRead | ShowWrite | ShowPaid | ShowAll

fun should_print :: "show_storage_logs \<Rightarrow> storage_log \<Rightarrow> pubdata_bytes_info option \<Rightarrow> bool" where
  "should_print ShowWrite l info = (slog_kind l = RepeatedWrite \<or> slog_kind l = InitialWrite)"
| "should_print ShowPaid l info = (case info of Some i \<Rightarrow> does_cost i | None \<Rightarrow> False)"
| "should_print ShowRead l info = (slog_kind l = ReadLog)"
| "should_print ShowAll l info = True"
| "should_print ShowNone l info = False"

text \<open>The lines that \<open>print_storage_logs_details\<close> prints: the log, its cost, its position and whether it is last.\<close>

fun storage_logs_lines ::
  "pubdata_api \<Rightarrow> show_storage_logs \<Rightarrow> nat \<Rightarrow> nat \<Rightarrow> (storage_key \<rightharpoonup> u32) \<Rightarrow> storage_log list
     \<Rightarrow> (storage_log \<times> pubdata_bytes_info option \<times> nat \<times> bool) list" where
  "storage_logs_lines pa show_logs len index cost_paid [] = []"
| "storage_logs_lines pa show_logs len index cost_paid (l # ls) =
     (let (info, cost_paid') =
            (if slog_kind l = RepeatedWrite \<or> slog_kind l = InitialWrite
             then (let (i, c) = compute_and_update_pubdata_cost pa l cost_paid in (Some i, c))
             else (None, cost_paid))
      in (if should_print show_logs l info then [(l, info, index + 1, index = len - 1)] else [])
         @ storage_logs_lines pa show_logs len (Suc index) cost_paid' ls)"

definition print_storage_logs_details ::
  "pubdata_api \<Rightarrow> show_storage_logs \<Rightarrow> vm_result \<Rightarrow> (storage_log \<times> pubdata_bytes_info option \<times> nat \<times> bool) list" where
  "print_storage_logs_details pa show_logs result =
     storage_logs_lines pa show_logs (length (vr_storage_logs result)) 0 Map.empty (vr_storage_logs result)"

section \<open>Bytecodes and contract addresses\<close>

fun lookup_bytecodes :: "(h256 \<rightharpoonup> bytes) \<Rightarrow> h256 list \<Rightarrow> ('e, (h256 \<times> bytes) list) outcome" where
  "lookup_bytecodes deps [] = Inr []"
| "lookup_bytecodes deps (h # hs) =
     and_then (expect ''Failed to get factory deps on tx'' (deps h)) (\<lambda>code.
     and_then (lookup_bytecodes deps hs) (\<lambda>rest. Inr ((h, code) # rest)))"

definition new_bytecodes ::
  "(vm_event list \<Rightarrow> h256 list) \<Rightarrow> (bytes \<Rightarrow> h256) \<Rightarrow> transaction \<Rightarrow> vm_result
     \<Rightarrow> ('e, (h256 \<times> bytes) list) outcome" where
  "new_bytecodes extract_bytecodes_marked_as_known hash_for_bytecode tx result =
     (let saved_factory_deps = extract_bytecodes_marked_as_known (vr_events result);
          deps = Map.empty (map hash_for_bytecode (tx_factory_deps tx) [\<mapsto>] tx_factory_deps tx);
          deps = deps ++ map_of (rev (vr_dynamic_factory_deps result))
      in lookup_bytecodes deps saved_factory_deps)"

fun last_code_write :: "address \<Rightarrow> storage_log list \<Rightarrow> address option" where
  "last_code_write code_storage [] = None"
| "last_code_write code_storage (l # ls) =
     (if slog_kind l \<noteq> ReadLog \<and> sk_address (slog_key l) = code_storage
      then Some (ucast (sk_key (slog_key l))) else last_code_write code_storage ls)"

definition contract_address_from_tx_result :: "address \<Rightarrow> vm_result \<Rightarrow> address option" where
  "contract_address_from_tx_result account_code_storage_address result =
     last_code_write account_code_storage_address (rev (vr_storage_logs result))"

section \<open>Human-readable numbers\<close>

lemma digit_neq [simp]: "d < 10 \<Longrightarrow> digit d \<noteq> CHR ''_''"
  by (auto simp: digit_def dest!: arg_cong [of _ _ "of_char :: char \<Rightarrow> nat"])

lemma decimal_no_separator: "CHR ''_'' \<notin> set (decimal n)"
proof (induction n rule: decimal.induct)
  case (1 n)
  have "digit d \<noteq> CHR ''_'' \<and> CHR ''_'' \<noteq> digit d" if "d < 10" for d using digit_neq [OF that] by metis
  with 1 show ?case by (simp add: decimal.simps [of n])
qed

lemma filter_separate:
  "CHR ''_'' \<notin> set cs \<Longrightarrow> filter (\<lambda>c. c \<noteq> CHR ''_'') (separate i cs) = cs"
  by (induction i cs rule: separate.induct) auto

lemma separate_period: "i > 0 \<Longrightarrow> separate (i + 3) cs = separate i cs"
  by (induction i cs rule: separate.induct) auto

lemma separate_step: "xs \<noteq> [] \<Longrightarrow> separate (Suc (Suc (Suc 0))) xs = CHR ''_'' # separate 0 xs"
  using separate_period [of "Suc 0" "tl xs", unfolded numeral_3_eq_3 add_Suc_right add_0_right]
  by (cases xs) simp_all

lemma separate_group:
  "xs \<noteq> [] \<Longrightarrow> separate 0 (a # b # c # xs) = a # b # c # CHR ''_'' # separate 0 xs"
  by (simp add: separate_step)

lemma separate_short:
  assumes "length cs \<le> 3"
  shows "separate 0 cs = cs"
proof -
  from assms consider "cs = []" | a where "cs = [a]" | a b where "cs = [a, b]" | a b c where "cs = [a, b, c]"
    by (cases cs; cases "tl cs"; cases "tl (tl cs)") auto
  then show ?thesis by cases simp_all
qed

lemma length_decimal: "n < 10 ^ Suc k \<Longrightarrow> length (decimal n) \<le> Suc k"
proof (induction k arbitrary: n)
  case (Suc k)
  then have "n div 10 < 10 ^ Suc k" by (simp add: less_mult_imp_div_less)
  with Suc.IH [of "n div 10"] show ?case by (simp add: decimal.simps [of n])
qed (simp add: decimal.simps)

definition padded :: "nat \<Rightarrow> string" where
  "padded n = [digit (n div 100 mod 10), digit (n div 10 mod 10), digit (n mod 10)]"

lemma decimal_not_Nil [simp]: "decimal n \<noteq> []"
  by (subst decimal.simps) simp

lemma decimal_thousand:
  assumes "n \<ge> 1000"
  shows "decimal n = decimal (n div 1000) @ padded n"
proof -
  have "decimal n = decimal (n div 10) @ [digit (n mod 10)]"
    using assms by (subst decimal.simps) simp
  moreover have "decimal (n div 10) = decimal (n div 100) @ [digit (n div 10 mod 10)]"
    using assms by (subst decimal.simps) (simp add: div_mult2_eq [symmetric])
  moreover have "decimal (n div 100) = decimal (n div 1000) @ [digit (n div 100 mod 10)]"
    using assms by (subst decimal.simps) (simp add: div_mult2_eq [symmetric])
  ultimately show ?thesis by (simp add: padded_def)
qed

text \<open>Numbers for humans. Below one thousand \<open>to_human_size\<close> prints the decimal digits; from there on the
  thousands are printed the same way, followed by an underscore and exactly three digits. Without the underscores
  the output is the decimal notation of the number.\<close>

theorem to_human_size_spec:
  "to_human_size n = (if unat n < 1000 then decimal (unat n)
     else to_human_size (n div 1000) @ CHR ''_'' # padded (unat n))
   \<and> filter (\<lambda>c. c \<noteq> CHR ''_'') (to_human_size n) = decimal (unat n)"
proof (intro conjI)
  have "filter (\<lambda>c. c \<noteq> CHR ''_'') (separate 0 (rev (decimal (unat n)))) = rev (decimal (unat n))"
    by (rule filter_separate) (simp add: decimal_no_separator)
  then show "filter (\<lambda>c. c \<noteq> CHR ''_'') (to_human_size n) = decimal (unat n)"
    by (simp add: to_human_size_def rev_filter [symmetric])
  show "to_human_size n = (if unat n < 1000 then decimal (unat n)
     else to_human_size (n div 1000) @ CHR ''_'' # padded (unat n))"
  proof (cases "unat n < 1000")
    case True
    then have "separate 0 (rev (decimal (unat n))) = rev (decimal (unat n))"
      using length_decimal [of "unat n" 2] by (simp add: separate_short)
    then show ?thesis using True by (simp add: to_human_size_def)
  next
    case False
    then have "decimal (unat n) = decimal (unat n div 1000) @ padded (unat n)" by (simp add: decimal_thousand)
    moreover have "unat (n div 1000) = unat n div 1000" by (simp add: unat_div)
    ultimately show ?thesis using False by (simp add: to_human_size_def padded_def separate_step)
  qed
qed

section \<open>Debug calls, bytecodes and contract addresses\<close>

fun near_calls :: "call \<Rightarrow> bool" and near_calls_list :: "call list \<Rightarrow> bool" where
  "near_calls (Call ty from to gas gas_used v out inp err reason cs) = (ty = CallTypeNearCall \<or> near_calls_list cs)"
| "near_calls_list [] = False"
| "near_calls_list (c # cs) = (near_calls c \<or> near_calls_list cs)"

text \<open>Converting a call tree panics exactly on a tree with a near call.\<close>

lemma debug_call_ok:
  "is_ok (call_to_debug_call c :: ('e, _) outcome) \<longleftrightarrow> \<not> near_calls c"
  "is_ok (calls_to_debug_calls cs :: ('e, _) outcome) \<longleftrightarrow> \<not> near_calls_list cs"
proof (induction c and cs rule: call_to_debug_call_calls_to_debug_calls.induct)
  case (1 ty a b gas gas_used v out inp err reason cs)
  then show ?case by (cases ty; cases "calls_to_debug_calls cs :: ('e, _) outcome") auto
qed (auto simp: is_ok_iff)

lemma create_debug_output_ok:
  "is_ok (create_debug_output deployer tx r traces)
     \<longleftrightarrow> (\<forall>reason. vr_result r \<noteq> Halt reason) \<and> \<not> near_calls_list traces"
  using debug_call_ok(2) [of traces, where 'e = string]
  by (cases "vr_result r") (auto simp: create_debug_output_def Let_def is_ok_iff)

lemma lookup_bytecodes_spec:
  "lookup_bytecodes deps hs = Inr bs \<Longrightarrow> map fst bs = hs \<and> (\<forall>(h, code) \<in> set bs. deps h = Some code)"
  by (induction hs arbitrary: bs) auto

text \<open>The bytecodes reported for a transaction are the published hashes in order, each with a code that the
  transaction or its execution supplied for that hash.\<close>

lemma new_bytecodes_spec:
  assumes "new_bytecodes extract hash_for tx r = (Inr bs :: ('e, _) outcome)"
  shows "map fst bs = extract (vr_events r)
    \<and> (\<forall>(h, code) \<in> set bs. (h, code) \<in> set (vr_dynamic_factory_deps r)
        \<or> code \<in> set (tx_factory_deps tx) \<and> hash_for code = h)"
proof -
  let ?deps = "Map.empty (map hash_for (tx_factory_deps tx) [\<mapsto>] tx_factory_deps tx)"
  have own: "code \<in> set (tx_factory_deps tx) \<and> hash_for code = h" if "?deps h = Some code" for h code
    using that by (auto simp: map_upds_def zip_map1 zip_same_conv_map rev_map dest!: map_of_SomeD)
  define D where "D = ?deps ++ map_of (rev (vr_dynamic_factory_deps r))"
  have l: "lookup_bytecodes D (extract (vr_events r)) = (Inr bs :: ('e, _) outcome)"
    using assms by (simp add: new_bytecodes_def Let_def D_def)
  have "(h, code) \<in> set (vr_dynamic_factory_deps r) \<or> code \<in> set (tx_factory_deps tx) \<and> hash_for code = h"
    if "D h = Some code" for h code
    using that own [of h code] by (auto simp: D_def map_add_Some_iff dest: map_of_SomeD)
  with lookup_bytecodes_spec [OF l] show ?thesis by fastforce
qed

lemma contract_address_spec:
  fixes r code_storage
  defines "ls \<equiv> filter (\<lambda>l. slog_kind l \<noteq> ReadLog \<and> sk_address (slog_key l) = code_storage) (vr_storage_logs r)"
  shows "contract_address_from_tx_result code_storage r
    = (if ls = [] then None else Some (ucast (sk_key (slog_key (last ls)))))"
proof -
  let ?P = "\<lambda>l. slog_kind l \<noteq> ReadLog \<and> sk_address (slog_key l) = code_storage"
  have "last_code_write code_storage (rev xs)
      = (if filter ?P xs = [] then None else Some (ucast (sk_key (slog_key (last (filter ?P xs))))))" for xs
    by (induction xs rule: rev_induct) auto
  then show ?thesis by (simp add: contract_address_from_tx_result_def ls_def)
qed

end
