(* ===== verification/Batch_Executor.thy ===== *)
theory Batch_Executor
  imports Node_Inner Vm_Output
begin

text \<open>
  The batch executor: \<open>crates/core/src/node/batch/factory.rs\<close> (the receiver that owns the virtual machine) and
  \<open>batch/executor.rs\<close> (the handle that sends it commands).

  The virtual machine is the record \<open>batch_vm\<close>: its operations, on a machine state \<open>'v\<close>. They read the node's
  storage through a function that may fail, and they may panic, so they return outcomes. Commands are
  handled one at a time, each before its response is awaited, so a channel and a task become a state that is
  \<open>Running\<close> or has \<open>Failed\<close> with the error every later call reports. What the node relies on of the
  machine's snapshots, as the trait \<open>VmInterfaceHistoryEnabled\<close> documents it, is \<open>snapshot_laws\<close>.
\<close>

section \<open>The machine\<close>

type_synonym reads = "storage_key \<Rightarrow> (string, h256) outcome"

record 'v batch_vm =
  bv_inspect_transaction :: "reads \<Rightarrow> transaction \<Rightarrow> bool \<Rightarrow> 'v \<Rightarrow> (string, batch_tx_result \<times> 'v) outcome"
  bv_make_snapshot :: "'v \<Rightarrow> 'v"
  bv_rollback_to_the_latest_snapshot :: "'v \<Rightarrow> (string, 'v) outcome"
  bv_pop_snapshot_no_rollback :: "'v \<Rightarrow> 'v"
  bv_start_new_l2_block :: "l2_block_env \<Rightarrow> 'v \<Rightarrow> (string, 'v) outcome"
  bv_finish_batch :: "reads \<Rightarrow> 'v \<Rightarrow> (string, (finished_l1_batch \<times> vm_result) \<times> 'v) outcome"
  bv_bootloader :: "reads \<Rightarrow> 'v \<Rightarrow> (string, vm_result \<times> 'v) outcome"
  bv_modified_storage_keys :: "'v \<Rightarrow> (storage_key \<times> storage_value) list"

definition snapshot_laws :: "'v batch_vm \<Rightarrow> ('v \<Rightarrow> 'c) \<Rightarrow> ('v \<Rightarrow> 'c list) \<Rightarrow> bool" where
  "snapshot_laws vm core saved \<longleftrightarrow>
     (\<forall>v. core (bv_make_snapshot vm v) = core v \<and> saved (bv_make_snapshot vm v) = core v # saved v)
   \<and> (\<forall>v. core (bv_pop_snapshot_no_rollback vm v) = core v \<and> saved (bv_pop_snapshot_no_rollback vm v) = tl (saved v))
   \<and> (\<forall>v c cs. saved v = c # cs \<longrightarrow> (\<exists>v'. bv_rollback_to_the_latest_snapshot vm v = Inr v' \<and> core v' = c \<and> saved v' = cs))
   \<and> (\<forall>v. saved v = [] \<longrightarrow> (\<exists>m. bv_rollback_to_the_latest_snapshot vm v = Inl (Panic m)))
   \<and> (\<forall>reads tx compress v r v'. bv_inspect_transaction vm reads tx compress v = Inr (r, v') \<longrightarrow> saved v' = saved v)"

section \<open>The receiver\<close>

datatype command =
    ExecuteTx transaction
  | StartNextL2Block l2_block_env
  | RollbackLastTx
  | FinishBatch
  | Bootloader

datatype response =
    TxResult batch_tx_result
  | Confirmed
  | FinishedBatch finished_l1_batch vm_result
  | BootloaderResult vm_result

definition execute_tx_in_vm ::
  "'v batch_vm \<Rightarrow> reads \<Rightarrow> transaction \<Rightarrow> 'v \<Rightarrow> (string, batch_tx_result \<times> 'v) outcome" where
  "execute_tx_in_vm vm reads tx v =
     and_then (bv_inspect_transaction vm reads tx True v) (\<lambda>(res, v').
     if bt_compression_ok res then Inr (res, v')
     else Inr (\<lparr>bt_tx_result = (bt_tx_result res)\<lparr>vr_result := Halt ''FailedToPublishCompressedBytecodes''\<rparr>,
       bt_compression_ok = True, bt_call_traces = []\<rparr>, v'))"

definition execute_tx_in_vm_with_optional_compression ::
  "'v batch_vm \<Rightarrow> reads \<Rightarrow> transaction \<Rightarrow> 'v \<Rightarrow> (string, batch_tx_result \<times> 'v) outcome" where
  "execute_tx_in_vm_with_optional_compression vm reads tx v =
     and_then (bv_inspect_transaction vm reads tx True v) (\<lambda>(res, v1).
     if bt_compression_ok res then Inr (res, v1)
     else and_then (bv_rollback_to_the_latest_snapshot vm v1) (\<lambda>v2.
       and_then (bv_inspect_transaction vm reads tx False (bv_make_snapshot vm v2)) (\<lambda>(res', v3).
       if bt_compression_ok res' then Inr (res', v3)
       else Inl (Err ''compression failed when it wasn't applied''))))"

definition receiver_execute_tx ::
  "bool \<Rightarrow> 'v batch_vm \<Rightarrow> reads \<Rightarrow> transaction \<Rightarrow> 'v \<Rightarrow> (string, batch_tx_result \<times> 'v) outcome" where
  "receiver_execute_tx enforced_bytecode_compression vm reads tx v =
     (let v' = bv_make_snapshot vm (bv_pop_snapshot_no_rollback vm v)
      in if enforced_bytecode_compression then execute_tx_in_vm vm reads tx v'
         else execute_tx_in_vm_with_optional_compression vm reads tx v')"

definition receiver_rollback_last_tx :: "'v batch_vm \<Rightarrow> 'v \<Rightarrow> (string, 'v) outcome" where
  "receiver_rollback_last_tx vm v = bv_rollback_to_the_latest_snapshot vm v"

definition receiver_finish_batch ::
  "'v batch_vm \<Rightarrow> reads \<Rightarrow> 'v \<Rightarrow> (string, (finished_l1_batch \<times> vm_result) \<times> 'v) outcome" where
  "receiver_finish_batch vm reads v =
     and_then (bv_finish_batch vm reads v) (\<lambda>((finished, tip), v').
     if is_failed (vr_result tip) then Inl (Err ''VM must not fail when finalizing block'')
     else Inr ((finished, tip), v'))"

definition receiver_bootloader :: "'v batch_vm \<Rightarrow> reads \<Rightarrow> 'v \<Rightarrow> (string, vm_result \<times> 'v) outcome" where
  "receiver_bootloader vm reads v =
     and_then (bv_bootloader vm reads v) (\<lambda>(result, v').
     if is_failed (vr_result result) then Inl (Err ''VM must not fail when running bootloader'')
     else Inr (result, v'))"

fun with_context :: "string \<Rightarrow> (string, 'a) outcome \<Rightarrow> (string, 'a) outcome" where
  "with_context c (Inl (Err e)) = Inl (Err c)"
| "with_context c r = r"

fun handle_command ::
  "bool \<Rightarrow> 'v batch_vm \<Rightarrow> reads \<Rightarrow> command \<Rightarrow> 'v \<Rightarrow> (string, response \<times> 'v) outcome" where
  "handle_command enforced vm reads (ExecuteTx tx) v =
     and_then (with_context ''fatal error executing transaction'' (receiver_execute_tx enforced vm reads tx v))
       (\<lambda>(r, v'). Inr (TxResult r, v'))"
| "handle_command enforced vm reads RollbackLastTx v =
     and_then (receiver_rollback_last_tx vm v) (\<lambda>v'. Inr (Confirmed, v'))"
| "handle_command enforced vm reads (StartNextL2Block env) v =
     and_then (bv_start_new_l2_block vm env v) (\<lambda>v'. Inr (Confirmed, v'))"
| "handle_command enforced vm reads FinishBatch v =
     and_then (receiver_finish_batch vm reads v) (\<lambda>((finished, tip), v'). Inr (FinishedBatch finished tip, v'))"
| "handle_command enforced vm reads Bootloader v =
     and_then (receiver_bootloader vm reads v) (\<lambda>(result, v'). Inr (BootloaderResult result, v'))"

section \<open>The handle\<close>

datatype 'v executor = Running 'v | Failed string

text \<open>A call whose command cannot be sent or is not answered waits for the error of the task.\<close>

fun wait_for_error :: "string failure \<Rightarrow> string" where
  "wait_for_error (Err e) = e"
| "wait_for_error (Panic m) = ''batch executor panicked''"

fun executor_call ::
  "bool \<Rightarrow> 'v batch_vm \<Rightarrow> reads \<Rightarrow> command \<Rightarrow> 'v executor \<Rightarrow> (string + response) \<times> 'v executor" where
  "executor_call enforced vm reads cmd (Failed e) = (Inl e, Failed e)"
| "executor_call enforced vm reads cmd (Running v) = (case handle_command enforced vm reads cmd v of
       Inl f \<Rightarrow> (Inl (wait_for_error f), Failed (wait_for_error f))
     | Inr (r, v') \<Rightarrow> (Inr r, Running v'))"

text \<open>Each method awaits the response of its own command; the other responses have other types in the source.\<close>

definition executor_execute_tx ::
  "bool \<Rightarrow> 'v batch_vm \<Rightarrow> reads \<Rightarrow> transaction \<Rightarrow> 'v executor \<Rightarrow> (string + batch_tx_result) \<times> 'v executor" where
  "executor_execute_tx enforced vm reads tx e = (case executor_call enforced vm reads (ExecuteTx tx) e of
       (Inr (TxResult r), e') \<Rightarrow> (Inr r, e')
     | (Inl m, e') \<Rightarrow> (Inl m, e')
     | (_, e') \<Rightarrow> (Inl ''unexpected response'', e'))"

definition executor_rollback_last_tx ::
  "bool \<Rightarrow> 'v batch_vm \<Rightarrow> reads \<Rightarrow> 'v executor \<Rightarrow> (string + unit) \<times> 'v executor" where
  "executor_rollback_last_tx enforced vm reads e = (case executor_call enforced vm reads RollbackLastTx e of
       (Inr _, e') \<Rightarrow> (Inr (), e') | (Inl m, e') \<Rightarrow> (Inl m, e'))"

definition executor_start_next_l2_block ::
  "bool \<Rightarrow> 'v batch_vm \<Rightarrow> reads \<Rightarrow> l2_block_env \<Rightarrow> 'v executor \<Rightarrow> (string + unit) \<times> 'v executor" where
  "executor_start_next_l2_block enforced vm reads env e = (case executor_call enforced vm reads (StartNextL2Block env) e of
       (Inr _, e') \<Rightarrow> (Inr (), e') | (Inl m, e') \<Rightarrow> (Inl m, e'))"

text \<open>The last two consume the executor and return the writes of the batch with the result.\<close>

definition executor_finish_batch ::
  "bool \<Rightarrow> 'v batch_vm \<Rightarrow> reads \<Rightarrow> 'v executor
     \<Rightarrow> string + finished_l1_batch \<times> vm_result \<times> (storage_key \<times> storage_value) list" where
  "executor_finish_batch enforced vm reads e = (case executor_call enforced vm reads FinishBatch e of
       (Inr (FinishedBatch f tip), Running v) \<Rightarrow> Inr (f, tip, bv_modified_storage_keys vm v)
     | (Inl m, _) \<Rightarrow> Inl m
     | _ \<Rightarrow> Inl ''unexpected response'')"

definition executor_bootloader ::
  "bool \<Rightarrow> 'v batch_vm \<Rightarrow> reads \<Rightarrow> 'v executor \<Rightarrow> string + vm_result \<times> (storage_key \<times> storage_value) list" where
  "executor_bootloader enforced vm reads e = (case executor_call enforced vm reads Bootloader e of
       (Inr (BootloaderResult r), Running v) \<Rightarrow> Inr (r, bv_modified_storage_keys vm v)
     | (Inl m, _) \<Rightarrow> Inl m
     | _ \<Rightarrow> Inl ''unexpected response'')"

section \<open>Snapshots\<close>

lemma snapshot_lawsD:
  assumes "snapshot_laws vm core saved"
  shows "core (bv_make_snapshot vm v) = core v" "saved (bv_make_snapshot vm v) = core v # saved v"
    and "core (bv_pop_snapshot_no_rollback vm v) = core v" "saved (bv_pop_snapshot_no_rollback vm v) = tl (saved v)"
    and "saved v = c # cs \<Longrightarrow> \<exists>v'. bv_rollback_to_the_latest_snapshot vm v = Inr v' \<and> core v' = c \<and> saved v' = cs"
    and "saved v = [] \<Longrightarrow> \<exists>m. bv_rollback_to_the_latest_snapshot vm v = Inl (Panic m)"
    and "bv_inspect_transaction vm reads tx compress v = Inr (r, v') \<Longrightarrow> saved v' = saved v"
  using assms by (simp_all add: snapshot_laws_def)

lemma execute_tx_saved:
  assumes "snapshot_laws vm core saved" and "receiver_execute_tx enforced vm reads tx v = Inr (r, v')"
  shows "saved v' = core v # tl (saved v)"
proof -
  note laws = snapshot_lawsD [OF assms(1)]
  let ?v = "bv_make_snapshot vm (bv_pop_snapshot_no_rollback vm v)"
  have v: "saved ?v = core v # tl (saved v)" by (simp add: laws)
  from assms(2) obtain res v1 where one: "bv_inspect_transaction vm reads tx True ?v = Inr (res, v1)"
    by (auto simp: receiver_execute_tx_def Let_def execute_tx_in_vm_def execute_tx_in_vm_with_optional_compression_def
        split: if_splits)
  then have s1: "saved v1 = core v # tl (saved v)" using laws(7) v by metis
  show ?thesis
  proof (cases "enforced \<or> bt_compression_ok res")
    case True
    with assms(2) one s1 show ?thesis
      by (auto simp: receiver_execute_tx_def Let_def execute_tx_in_vm_def execute_tx_in_vm_with_optional_compression_def
          split: if_splits)
  next
    case False
    obtain v2 where v2: "bv_rollback_to_the_latest_snapshot vm v1 = Inr v2" "core v2 = core v" "saved v2 = tl (saved v)"
      using laws(5) [OF s1] by blast
    from False assms(2) one v2(1) obtain res' where "bv_inspect_transaction vm reads tx False (bv_make_snapshot vm v2) = Inr (res', v')"
      by (auto simp: receiver_execute_tx_def Let_def execute_tx_in_vm_with_optional_compression_def split: if_splits)
    then show ?thesis using laws(2,7) v2 by metis
  qed
qed

text \<open>Rolling back undoes exactly the last transaction. Whatever a transaction did, with or without compression, and however
  often it was run, a rollback right after its execution brings the machine back to the state before it, without an
  error; and a rollback with no execution since the last one panics, which fails every later call.\<close>

theorem execute_rollback:
  assumes "snapshot_laws vm core saved"
  shows "(executor_call enforced vm reads (ExecuteTx tx) (Running v) = (Inr r, Running v') \<longrightarrow>
      (\<exists>v''. executor_call enforced vm reads' RollbackLastTx (Running v') = (Inr Confirmed, Running v'')
        \<and> core v'' = core v \<and> saved v'' = tl (saved v)))
    \<and> (saved v = [] \<longrightarrow> executor_call enforced vm reads' RollbackLastTx (Running v)
        = (Inl ''batch executor panicked'', Failed ''batch executor panicked''))
    \<and> executor_call enforced vm reads cmd (Failed e) = (Inl e, Failed e)"
proof (intro conjI impI)
  note laws = snapshot_lawsD [OF assms]
  assume "executor_call enforced vm reads (ExecuteTx tx) (Running v) = (Inr r, Running v')"
  then obtain res where "receiver_execute_tx enforced vm reads tx v = Inr (res, v')"
    by (cases "receiver_execute_tx enforced vm reads tx v" rule: sum.exhaust)
      (auto split: sum.splits failure.splits elim!: with_context.elims)
  from execute_tx_saved [OF assms this] obtain v'' where
    "bv_rollback_to_the_latest_snapshot vm v' = Inr v''" "core v'' = core v" "saved v'' = tl (saved v)"
    using laws(5) by blast
  then show "\<exists>v''. executor_call enforced vm reads' RollbackLastTx (Running v') = (Inr Confirmed, Running v'')
        \<and> core v'' = core v \<and> saved v'' = tl (saved v)"
    by (simp add: receiver_rollback_last_tx_def)
next
  assume "saved v = []"
  then show "executor_call enforced vm reads' RollbackLastTx (Running v)
        = (Inl ''batch executor panicked'', Failed ''batch executor panicked'')"
    using snapshot_lawsD(6) [OF assms, of v] by (auto simp: receiver_rollback_last_tx_def)
qed simp

text \<open>A machine for concrete runs: its state is the list of executed transaction hashes, with the saved ones beside it.
  A transaction with calldata halts.\<close>

definition sample_batch_tx_result :: "bool \<Rightarrow> batch_tx_result" where
  "sample_batch_tx_result ok = \<lparr>bt_tx_result = \<lparr>vr_result = (if ok then Success [] else Halt ''validation''),
     vr_storage_logs = [], vr_events = [], vr_user_l2_to_l1_logs = [], vr_system_l2_to_l1_logs = [], vr_gas_used = 21000,
     vr_computational_gas_used = 20000, vr_pubdata_published = 10, vr_gas_refunded = 0,
     vr_cycles_used = 0, vr_contracts_used = 0, vr_dynamic_factory_deps = []\<rparr>,
     bt_compression_ok = True, bt_call_traces = []\<rparr>"

definition sample_batch_vm :: "(h256 list \<times> h256 list list) batch_vm" where
  "sample_batch_vm = \<lparr>bv_inspect_transaction = (\<lambda>reads tx compress (c, s).
       Inr (sample_batch_tx_result (tx_calldata tx = []), (c @ [tx_hash tx], s))),
     bv_make_snapshot = (\<lambda>(c, s). (c, c # s)),
     bv_rollback_to_the_latest_snapshot = (\<lambda>(c, s). case s of [] \<Rightarrow> Inl (Panic ''no snapshot'') | d # ds \<Rightarrow> Inr (d, ds)),
     bv_pop_snapshot_no_rollback = (\<lambda>(c, s). (c, tl s)),
     bv_start_new_l2_block = (\<lambda>env v. Inr v),
     bv_finish_batch = (\<lambda>reads v. Inr ((finished_l1_batch_mock, bt_tx_result (sample_batch_tx_result True)), v)),
     bv_bootloader = (\<lambda>reads v. Inr (bt_tx_result (sample_batch_tx_result True), v)),
     bv_modified_storage_keys = (\<lambda>(c, s). map (\<lambda>h. (\<lparr>sk_address = 9, sk_key = h\<rparr>, 1)) c)\<rparr>"

lemma sample_batch_vm_laws: "snapshot_laws sample_batch_vm fst snd"
  by (auto simp: snapshot_laws_def sample_batch_vm_def)

theorem execute_rollback_witness:
  "\<exists>v' v''. executor_call False sample_batch_vm (\<lambda>k. Inr 0) (ExecuteTx (sample_tx 1 10 5)) (Running ([7], []))
      = (Inr (TxResult (sample_batch_tx_result True)), Running v')
    \<and> executor_call False sample_batch_vm (\<lambda>k. Inr 0) RollbackLastTx (Running v') = (Inr Confirmed, Running v'')
    \<and> fst v'' = [7]"
proof -
  have "executor_call False sample_batch_vm (\<lambda>k. Inr 0) (ExecuteTx (sample_tx 1 10 5)) (Running ([7], []))
      = (Inr (TxResult (sample_batch_tx_result True)), Running ([7, 1], [[7]]))"
    by (simp add: receiver_execute_tx_def execute_tx_in_vm_with_optional_compression_def sample_batch_vm_def
        sample_batch_tx_result_def sample_tx_def Let_def)
  with execute_rollback [OF sample_batch_vm_laws, of False "\<lambda>k. Inr 0" "sample_tx 1 10 5" "([7], [])"]
  show ?thesis by fastforce
qed

end
