(* ===== verification/Tx_Pool.thy ===== *)
theory Tx_Pool
  imports Chain_Types Impersonation "HOL-Library.Multiset"
begin

text \<open>
  The mempool: \<open>crates/types/src/transaction_order.rs\<close> and \<open>crates/core/src/node/pool.rs\<close>.

  \<open>BTreeSet<PoolTransaction>\<close> is a list in ascending order of the key the source's
  \<open>Ord\<close> compares (priority, then the \<^emph>\<open>reversed\<close> submission number), so \<open>pop_last\<close> takes
  the last element. Inserting an element that compares equal to one already present leaves
  the set as it is, as \<open>BTreeSet::insert\<close> does. Listeners are channel endpoints of the
  \<open>futures\<close> crate: their type is a parameter, and so is \<open>try_send\<close>.
\<close>

section \<open>Transaction order\<close>

datatype transaction_order = Fifo | Fees

definition priority :: "transaction_order \<Rightarrow> transaction \<Rightarrow> u256" where
  "priority ord tx = (case ord of Fifo \<Rightarrow> 0 | Fees \<Rightarrow> tx_max_fee_per_gas tx)"

definition to_lowercase :: "string \<Rightarrow> string" where
  "to_lowercase s = map (\<lambda>c. if of_char c \<in> {65..90::nat} then char_of (of_char c + 32 :: nat) else c) s"

definition transaction_order_from_str :: "string \<Rightarrow> string + transaction_order" where
  "transaction_order_from_str str =
     (let s = to_lowercase str in
      if s = ''fees'' then Inr Fees
      else if s = ''fifo'' then Inr Fifo
      else Inl (''Unknown TransactionOrder: `'' @ s @ ''`''))"

definition transaction_order_fmt :: "transaction_order \<Rightarrow> string" where
  "transaction_order_fmt ord = (case ord of Fifo \<Rightarrow> ''fifo'' | Fees \<Rightarrow> ''fees'')"

section \<open>Pool entries and their order\<close>

record pool_transaction =
  pt_transaction :: transaction
  pt_submission_number :: u64
  pt_priority :: u256

text \<open>The key \<open>PoolTransaction\<close>'s \<open>Ord\<close> compares.\<close>

datatype pool_key = PoolKey (pk_priority: u256) (pk_submission_number: u64)

definition pool_key_le :: "pool_key \<Rightarrow> pool_key \<Rightarrow> bool" where
  "pool_key_le a b \<longleftrightarrow> pk_priority a < pk_priority b
     \<or> pk_priority a = pk_priority b \<and> pk_submission_number b \<le> pk_submission_number a"

definition pool_key_lt :: "pool_key \<Rightarrow> pool_key \<Rightarrow> bool" where
  "pool_key_lt a b \<longleftrightarrow> pool_key_le a b \<and> \<not> pool_key_le b a"

instantiation pool_key :: linorder
begin

definition less_eq_pool_key :: "pool_key \<Rightarrow> pool_key \<Rightarrow> bool" where
  "less_eq_pool_key = pool_key_le"

definition less_pool_key :: "pool_key \<Rightarrow> pool_key \<Rightarrow> bool" where
  "less_pool_key = pool_key_lt"

instance
  by standard (auto simp: less_eq_pool_key_def less_pool_key_def pool_key_le_def pool_key_lt_def pool_key.expand)

end

lemmas pool_key_order_defs = less_eq_pool_key_def less_pool_key_def pool_key_le_def pool_key_lt_def

definition pool_key_of :: "pool_transaction \<Rightarrow> pool_key" where
  "pool_key_of p = PoolKey (pt_priority p) (pt_submission_number p)"

fun btree_insert :: "pool_transaction \<Rightarrow> pool_transaction list \<Rightarrow> pool_transaction list" where
  "btree_insert p [] = [p]"
| "btree_insert p (q # qs) =
     (if pool_key_of p < pool_key_of q then p # q # qs
      else if pool_key_of p = pool_key_of q then q # qs
      else q # btree_insert p qs)"

section \<open>The pool\<close>

record 'l tx_pool =
  pool_inner :: "pool_transaction list"
  pool_transaction_order :: transaction_order
  pool_submission_number :: u64
  pool_tx_listeners :: "'l list"

record tx_batch =
  batch_impersonating :: bool
  batch_txs :: "transaction list"

datatype 'l send_result = SendOk 'l | SendFull 'l | SendDisconnected

definition tx_pool_new :: "transaction_order \<Rightarrow> 'l tx_pool" where
  "tx_pool_new ord = \<lparr>pool_inner = [], pool_transaction_order = ord, pool_submission_number = 0,
     pool_tx_listeners = []\<rparr>"

text \<open>\<open>retain_mut\<close> keeps a listener whose channel is full and drops a disconnected one.\<close>

fun retain_listeners :: "('l \<Rightarrow> h256 \<Rightarrow> 'l send_result) \<Rightarrow> h256 \<Rightarrow> 'l list \<Rightarrow> 'l list" where
  "retain_listeners try_send h [] = []"
| "retain_listeners try_send h (l # ls) =
     (case try_send l h of
        SendOk l' \<Rightarrow> l' # retain_listeners try_send h ls
      | SendFull l' \<Rightarrow> l' # retain_listeners try_send h ls
      | SendDisconnected \<Rightarrow> retain_listeners try_send h ls)"

definition notify_listeners ::
  "('l \<Rightarrow> h256 \<Rightarrow> 'l send_result) \<Rightarrow> h256 \<Rightarrow> 'l tx_pool \<Rightarrow> 'l tx_pool" where
  "notify_listeners try_send h p =
     p\<lparr>pool_tx_listeners := retain_listeners try_send h (pool_tx_listeners p)\<rparr>"

definition add_tx ::
  "('l \<Rightarrow> h256 \<Rightarrow> 'l send_result) \<Rightarrow> transaction \<Rightarrow> 'l tx_pool \<Rightarrow> 'l tx_pool" where
  "add_tx try_send tx p =
     (let n = pool_submission_number p + 1;
          entry = \<lparr>pt_transaction = tx, pt_submission_number = n,
                   pt_priority = priority (pool_transaction_order p) tx\<rparr>
      in notify_listeners try_send (tx_hash tx)
           (p\<lparr>pool_submission_number := n, pool_inner := btree_insert entry (pool_inner p)\<rparr>))"

fun add_txs ::
  "('l \<Rightarrow> h256 \<Rightarrow> 'l send_result) \<Rightarrow> transaction list \<Rightarrow> 'l tx_pool \<Rightarrow> 'l tx_pool" where
  "add_txs try_send [] p = p"
| "add_txs try_send (tx # txs) p =
     (let n = pool_submission_number p + 1;
          entry = \<lparr>pt_transaction = tx, pt_submission_number = n,
                   pt_priority = priority (pool_transaction_order p) tx\<rparr>
      in add_txs try_send txs (notify_listeners try_send (tx_hash tx)
           (p\<lparr>pool_submission_number := n, pool_inner := btree_insert entry (pool_inner p)\<rparr>)))"

definition drop_transactions ::
  "(pool_transaction \<Rightarrow> bool) \<Rightarrow> 'l tx_pool \<Rightarrow> transaction list \<times> 'l tx_pool" where
  "drop_transactions f p =
     (map pt_transaction (filter f (pool_inner p)),
      p\<lparr>pool_inner := filter (\<lambda>x. \<not> f x) (pool_inner p)\<rparr>)"

definition drop_transaction :: "h256 \<Rightarrow> 'l tx_pool \<Rightarrow> transaction option \<times> 'l tx_pool" where
  "drop_transaction h p =
     (let (dropped, p') = drop_transactions (\<lambda>x. tx_hash (pt_transaction x) = h) p
      in (case dropped of [] \<Rightarrow> None | x # _ \<Rightarrow> Some x, p'))"

definition pool_clear :: "'l tx_pool \<Rightarrow> 'l tx_pool" where
  "pool_clear p = p\<lparr>pool_inner := []\<rparr>"

definition add_tx_listener :: "'l \<Rightarrow> 'l tx_pool \<Rightarrow> 'l tx_pool" where
  "add_tx_listener sender p = p\<lparr>pool_tx_listeners := pool_tx_listeners p @ [sender]\<rparr>"

definition vec_insert :: "nat \<Rightarrow> 'a \<Rightarrow> 'a list \<Rightarrow> 'a list" where
  "vec_insert i x xs = take i xs @ x # drop i xs"

function take_uniform_loop ::
  "impersonation_state \<Rightarrow> bool \<Rightarrow> nat \<Rightarrow> transaction list \<Rightarrow> nat \<Rightarrow> pool_transaction list
     \<Rightarrow> transaction list \<times> pool_transaction list" where
  "take_uniform_loop imp impersonating n taken num inner =
     (if num < n then
        (if inner = [] then (taken, inner)
         else if impersonating
             \<noteq> is_impersonating imp (tx_initiator_account (pt_transaction (last inner)))
         then (taken, inner)
         else take_uniform_loop imp impersonating n
                (vec_insert num (pt_transaction (last inner)) taken) (num + 1) (butlast inner))
      else (taken, inner))"
  by pat_completeness auto
termination
  by (relation "measure (\<lambda>(imp, impersonating, n, taken, num, inner). n - num)") auto

declare take_uniform_loop.simps [simp del]

definition take_uniform ::
  "impersonation_state \<Rightarrow> nat \<Rightarrow> 'l tx_pool \<Rightarrow> tx_batch option \<times> 'l tx_pool" where
  "take_uniform imp n p =
     (if n = 0 then (None, p)
      else if pool_inner p = [] then (None, p)
      else
        let head_tx = pt_transaction (last (pool_inner p));
            impersonating = is_impersonating imp (tx_initiator_account head_tx);
            (taken, inner') = take_uniform_loop imp impersonating n (vec_insert 0 head_tx []) 1
                                (butlast (pool_inner p))
        in (Some \<lparr>batch_impersonating = impersonating, batch_txs = taken\<rparr>,
            p\<lparr>pool_inner := inner'\<rparr>))"

text \<open>The batch a caller uses when the pool has nothing to offer.\<close>

definition empty_tx_batch :: tx_batch where
  "empty_tx_batch = \<lparr>batch_impersonating = False, batch_txs = []\<rparr>"

text \<open>The transactions in the order the pool hands them out.\<close>

definition pool_queue :: "'l tx_pool \<Rightarrow> transaction list" where
  "pool_queue p = map pt_transaction (rev (pool_inner p))"

text \<open>Entries are in strictly ascending key order, and every entry was numbered by a counter
  that has not wrapped since.\<close>

definition pool_inv :: "'l tx_pool \<Rightarrow> bool" where
  "pool_inv p \<longleftrightarrow> sorted_wrt (<) (map pool_key_of (pool_inner p))
     \<and> (\<forall>e \<in> set (pool_inner p). pt_submission_number e \<le> pool_submission_number p
          \<and> pt_priority e = priority (pool_transaction_order p) (pt_transaction e))"

section \<open>The interface of a transaction source\<close>

text \<open>What the block sealer and the mining endpoints rely on: a request takes a prefix of the
  queue, uniform in impersonation status, as long as the limit and uniformity allow, and
  leaves the rest in place.\<close>

locale tx_source =
  fixes queue :: "'p \<Rightarrow> transaction list"
    and take_batch :: "nat \<Rightarrow> 'p \<Rightarrow> tx_batch option \<times> 'p"
    and status :: "transaction \<Rightarrow> bool"
  assumes take_none: "fst (take_batch n p) = None \<longleftrightarrow> n = 0 \<or> queue p = []"
    and take_none_state: "fst (take_batch n p) = None \<Longrightarrow> snd (take_batch n p) = p"
    and take_txs: "fst (take_batch n p) = Some b \<Longrightarrow>
      batch_txs b = take n (takeWhile (\<lambda>tx. status tx = status (hd (queue p))) (queue p))"
    and take_flag: "fst (take_batch n p) = Some b \<Longrightarrow> batch_impersonating b = status (hd (queue p))"
    and take_split: "fst (take_batch n p) = Some b \<Longrightarrow>
      queue p = batch_txs b @ queue (snd (take_batch n p))"
begin

lemma take_conserves:
  "queue p = batch_txs (case fst (take_batch n p) of None \<Rightarrow> empty_tx_batch | Some b \<Rightarrow> b)
     @ queue (snd (take_batch n p))"
proof (cases "fst (take_batch n p)")
  case None
  then show ?thesis by (simp add: take_none_state empty_tx_batch_def)
next
  case (Some b)
  then show ?thesis using take_split [OF Some] by simp
qed

lemma take_uniform_status:
  assumes b: "fst (take_batch n p) = Some b" and "tx \<in> set (batch_txs b)"
  shows "status tx = batch_impersonating b"
proof -
  from assms have "tx \<in> set (takeWhile (\<lambda>tx. status tx = status (hd (queue p))) (queue p))"
    by (simp only: take_txs [OF b] in_set_takeD)
  then show ?thesis
    by (auto simp: take_flag [OF b] dest: set_takeWhileD)
qed

lemma take_bounded: "fst (take_batch n p) = Some b \<Longrightarrow> length (batch_txs b) \<le> n"
  by (simp add: take_txs)

lemma take_nonempty:
  assumes "0 < n" and "queue p \<noteq> []"
  obtains b where "fst (take_batch n p) = Some b" and "batch_txs b \<noteq> []"
proof -
  from assms obtain b where b: "fst (take_batch n p) = Some b"
    using take_none [of n p] by auto
  have "batch_txs b \<noteq> []"
    using assms by (cases "queue p") (simp_all add: take_txs [OF b] take_eq_Nil)
  with b show thesis by (rule that)
qed

lemma take_progress:
  assumes "0 < n" and "queue p \<noteq> []"
  shows "length (queue (snd (take_batch n p))) < length (queue p)"
proof -
  from assms obtain b where b: "fst (take_batch n p) = Some b" and "batch_txs b \<noteq> []"
    by (rule take_nonempty)
  then show ?thesis using arg_cong [OF take_split [OF b], of length] by simp
qed

end

section \<open>Batches\<close>

abbreviation tx_status :: "impersonation_state \<Rightarrow> transaction \<Rightarrow> bool" where
  "tx_status imp tx \<equiv> is_impersonating imp (tx_initiator_account tx)"

lemma vec_insert_end [simp]: "vec_insert (length xs) x xs = xs @ [x]"
  by (simp add: vec_insert_def)

lemma take_uniform_loop_eq:
  "take_uniform_loop imp b n taken (length taken) inner =
     (let pre = take (n - length taken) (takeWhile (\<lambda>e. tx_status imp (pt_transaction e) = b) (rev inner))
      in (taken @ map pt_transaction pre, rev (drop (length pre) (rev inner))))"
proof (induction inner arbitrary: taken rule: rev_induct)
  case Nil
  show ?case by (simp add: take_uniform_loop.simps)
next
  case (snoc e inner)
  consider (full) "n \<le> length taken"
    | (other) "length taken < n" "tx_status imp (pt_transaction e) \<noteq> b"
    | (same) "length taken < n" "tx_status imp (pt_transaction e) = b"
    by linarith
  then show ?case
  proof cases
    case full
    then show ?thesis by (simp add: take_uniform_loop.simps)
  next
    case other
    then show ?thesis by (subst take_uniform_loop.simps) auto
  next
    case same
    have "take_uniform_loop imp b n taken (length taken) (inner @ [e])
        = take_uniform_loop imp b n (taken @ [pt_transaction e]) (length (taken @ [pt_transaction e])) inner"
      using same by (subst take_uniform_loop.simps) auto
    also have "\<dots> = (let pre = take (n - Suc (length taken))
          (takeWhile (\<lambda>e. tx_status imp (pt_transaction e) = b) (rev inner))
        in (taken @ pt_transaction e # map pt_transaction pre, rev (drop (length pre) (rev inner))))"
      unfolding snoc.IH by (simp add: Let_def)
    finally show ?thesis
      using same by (simp add: Let_def take_Cons' Suc_diff_Suc)
  qed
qed

lemma take_uniform_eq:
  fixes imp :: impersonation_state
  assumes "0 < n" and "pool_inner p \<noteq> []"
  defines "b \<equiv> tx_status imp (hd (pool_queue p))"
  defines "pre \<equiv> take n (takeWhile (\<lambda>e. tx_status imp (pt_transaction e) = b) (rev (pool_inner p)))"
  shows "take_uniform imp n p =
    (Some \<lparr>batch_impersonating = b, batch_txs = map pt_transaction pre\<rparr>,
     p\<lparr>pool_inner := rev (drop (length pre) (rev (pool_inner p)))\<rparr>)"
proof -
  obtain init e where inner: "pool_inner p = init @ [e]"
    using assms(2) by (meson rev_exhaust)
  have b: "b = tx_status imp (pt_transaction e)"
    by (simp add: b_def pool_queue_def inner)
  have pre: "pre = e # take (n - 1) (takeWhile (\<lambda>e. tx_status imp (pt_transaction e) = b) (rev init))"
    using assms(1) b by (simp add: pre_def inner take_Cons')
  show ?thesis
    using assms(1) take_uniform_loop_eq [of imp b n "[pt_transaction e]" init]
    by (simp add: take_uniform_def inner b [symmetric] pre vec_insert_def)
qed

lemma take_prefix_takeWhile:
  "take (length (take n (takeWhile P xs))) xs = take n (takeWhile P xs)"
  by (metis length_take take_take takeWhile_eq_take min.commute)

lemma take_uniform_split:
  assumes "fst (take_uniform imp n p) = Some b"
  shows "pool_queue p = batch_txs b @ pool_queue (snd (take_uniform imp n p))"
proof -
  from assms have n: "0 < n" "pool_inner p \<noteq> []"
    by (auto simp: take_uniform_def split: if_splits)
  define pre where "pre = take n (takeWhile (\<lambda>e. tx_status imp (pt_transaction e)
      = tx_status imp (hd (pool_queue p))) (rev (pool_inner p)))"
  have eq: "batch_txs b = map pt_transaction pre"
    "pool_inner (snd (take_uniform imp n p)) = rev (drop (length pre) (rev (pool_inner p)))"
    using assms take_uniform_eq [OF n, of imp] by (auto simp: pre_def)
  have "rev (pool_inner p) = pre @ drop (length pre) (rev (pool_inner p))"
    using take_prefix_takeWhile append_take_drop_id unfolding pre_def by metis
  then have "map pt_transaction (rev (pool_inner p))
      = map pt_transaction pre @ map pt_transaction (drop (length pre) (rev (pool_inner p)))"
    by (metis map_append)
  then show ?thesis by (simp add: pool_queue_def eq)
qed

interpretation pool_source: tx_source pool_queue "take_uniform imp" "tx_status imp"
  for imp :: impersonation_state
proof unfold_locales
  fix n and p :: "'l tx_pool" and b
  show "fst (take_uniform imp n p) = None \<longleftrightarrow> n = 0 \<or> pool_queue p = []"
    using take_uniform_eq [of n p imp] by (auto simp: take_uniform_def pool_queue_def)
  show "snd (take_uniform imp n p) = p" if "fst (take_uniform imp n p) = None"
    using that take_uniform_eq [of n p imp] by (auto simp: take_uniform_def)
  assume some: "fst (take_uniform imp n p) = Some b"
  then have n: "0 < n" "pool_inner p \<noteq> []"
    by (auto simp: take_uniform_def split: if_splits)
  note eq = take_uniform_eq [OF n, of imp]
  show "batch_txs b = take n (takeWhile (\<lambda>tx. tx_status imp tx = tx_status imp (hd (pool_queue p)))
          (pool_queue p))"
    using some eq by (auto simp: take_map takeWhile_map o_def pool_queue_def)
  show "batch_impersonating b = tx_status imp (hd (pool_queue p))"
    using some eq by auto
  show "pool_queue p = batch_txs b @ pool_queue (snd (take_uniform imp n p))"
    using some by (rule take_uniform_split)
qed

section \<open>Order and contents\<close>

lemma set_btree_insert_subset: "set (btree_insert p ps) \<subseteq> insert p (set ps)"
  by (induction ps) auto

lemma sorted_btree_insert:
  "sorted_wrt (<) (map pool_key_of ps) \<Longrightarrow> sorted_wrt (<) (map pool_key_of (btree_insert p ps))"
proof (induction ps)
  case Nil
  show ?case by simp
next
  case (Cons q qs)
  then show ?case
    using set_btree_insert_subset [of p qs] by (auto simp: not_less_iff_gr_or_eq)
qed

lemma mset_btree_insert:
  "pool_key_of p \<notin> pool_key_of ` set ps \<Longrightarrow> mset (btree_insert p ps) = add_mset p (mset ps)"
  by (induction ps) auto

text \<open>Inserting below every entry, or above every entry, of the same priority class.\<close>

lemma btree_insert_least:
  "(\<forall>q \<in> set ps. pool_key_of p < pool_key_of q) \<Longrightarrow> btree_insert p ps = p # ps"
  by (cases ps) auto

text \<open>The next submission number while the counter has not wrapped.\<close>

lemma unat_Suc_u64: "(n::u64) \<noteq> u64_MAX \<Longrightarrow> unat (n + 1) = Suc (unat n)"
proof -
  assume "n \<noteq> u64_MAX"
  then have "unat n \<noteq> 2 ^ 64 - 1" using eq_max_word_iff [of n] by (simp add: u64_MAX_def)
  moreover have "unat n < 2 ^ 64" using unat_less_exp [of n] by simp
  ultimately show ?thesis by (simp add: unat_word_ariths)
qed

lemma add_tx_fields:
  "pool_submission_number (add_tx ts tx p) = pool_submission_number p + 1"
  "pool_transaction_order (add_tx ts tx p) = pool_transaction_order p"
  "pool_inner (add_tx ts tx p) = btree_insert
     \<lparr>pt_transaction = tx, pt_submission_number = pool_submission_number p + 1,
      pt_priority = priority (pool_transaction_order p) tx\<rparr> (pool_inner p)"
  by (simp_all add: add_tx_def notify_listeners_def Let_def)

lemma add_txs_Cons: "add_txs ts (tx # txs) p = add_txs ts txs (add_tx ts tx p)"
  by (simp add: add_tx_def Let_def)

lemma pool_inv_add_tx [inv_intros]:
  assumes "pool_inv p" and "pool_submission_number p \<noteq> u64_MAX"
  shows "pool_inv (add_tx ts tx p)"
proof -
  let ?n = "pool_submission_number p"
  have "?n \<le> ?n + 1" using assms(2) by (simp add: word_le_nat_alt unat_Suc_u64)
  then show ?thesis
    using assms(1) set_btree_insert_subset
      [of "\<lparr>pt_transaction = tx, pt_submission_number = ?n + 1,
            pt_priority = priority (pool_transaction_order p) tx\<rparr>" "pool_inner p"]
    by (auto simp: pool_inv_def add_tx_fields sorted_btree_insert dest!: subsetD)
qed

lemma pool_inv_key_fresh:
  assumes "pool_inv p" and "pool_submission_number p \<noteq> u64_MAX"
    and "pt_submission_number e = pool_submission_number p + 1"
  shows "pool_key_of e \<notin> pool_key_of ` set (pool_inner p)"
proof
  assume "pool_key_of e \<in> pool_key_of ` set (pool_inner p)"
  then obtain q where "q \<in> set (pool_inner p)" and "pt_submission_number q = pt_submission_number e"
    by (auto simp: pool_key_of_def)
  with assms(1,3) have "pool_submission_number p + 1 \<le> pool_submission_number p"
    by (auto simp: pool_inv_def)
  with assms(2) show False by (simp add: word_le_nat_alt unat_Suc_u64)
qed

lemma mset_pool_queue_add_tx:
  assumes "pool_inv p" and "pool_submission_number p \<noteq> u64_MAX"
  shows "mset (pool_queue (add_tx ts tx p)) = add_mset tx (mset (pool_queue p))"
  using pool_inv_key_fresh [OF assms] mset_btree_insert
  by (simp add: pool_queue_def add_tx_fields)

lemma pool_inv_take [inv_intros]:
  assumes "pool_inv p"
  shows "pool_inv (snd (take_uniform imp n p))"
proof (cases "n = 0 \<or> pool_inner p = []")
  case True
  with assms show ?thesis by (auto simp: take_uniform_def)
next
  case False
  have "sorted_wrt (<) (map pool_key_of (rev (drop k (rev (pool_inner p)))))" for k
    using assms by (simp add: pool_inv_def rev_drop sorted_wrt_take take_map [symmetric])
  moreover have "set (rev (drop k (rev (pool_inner p)))) \<subseteq> set (pool_inner p)" for k
    by (metis set_drop_subset set_rev)
  ultimately show ?thesis
    using assms False by (auto simp: take_uniform_eq pool_inv_def dest!: subsetD)
qed

lemma pool_inv_drop [inv_intros]: "pool_inv p \<Longrightarrow> pool_inv (snd (drop_transactions f p))"
  by (auto simp: pool_inv_def drop_transactions_def sorted_wrt_map sorted_wrt_filter)

lemma pool_inv_new: "pool_inv (tx_pool_new ord)"
  by (simp add: pool_inv_def tx_pool_new_def)

section \<open>Runs of the pool\<close>

text \<open>The mutating methods of \<open>TxPool\<close> as they arrive from the RPC handlers and the sealer.\<close>

datatype pool_op =
    AddTx transaction
  | AddTxs "transaction list"
  | DropTransaction h256
  | DropAll
  | TakeUniform impersonation_state nat

fun pool_exec :: "('l \<Rightarrow> h256 \<Rightarrow> 'l send_result) \<Rightarrow> pool_op \<Rightarrow> 'l tx_pool \<Rightarrow> 'l tx_pool" where
  "pool_exec ts (AddTx tx) p = add_tx ts tx p"
| "pool_exec ts (AddTxs txs) p = add_txs ts txs p"
| "pool_exec ts (DropTransaction h) p = snd (drop_transaction h p)"
| "pool_exec ts DropAll p = pool_clear p"
| "pool_exec ts (TakeUniform imp n) p = snd (take_uniform imp n p)"

fun pool_run :: "('l \<Rightarrow> h256 \<Rightarrow> 'l send_result) \<Rightarrow> pool_op list \<Rightarrow> 'l tx_pool \<Rightarrow> 'l tx_pool" where
  "pool_run ts [] p = p"
| "pool_run ts (op # ops) p = pool_run ts ops (pool_exec ts op p)"

fun pool_op_adds :: "pool_op \<Rightarrow> nat" where
  "pool_op_adds (AddTx tx) = 1"
| "pool_op_adds (AddTxs txs) = length txs"
| "pool_op_adds _ = 0"

lemma add_txs_eq_fold: "add_txs ts txs p = fold (add_tx ts) txs p"
  by (induction txs arbitrary: p) (simp_all add: add_txs_Cons del: add_txs.simps(2))

lemma pool_inv_fold_add_tx:
  assumes "pool_inv p" and "unat (pool_submission_number p) + length txs < 2 ^ 64"
  shows "pool_inv (fold (add_tx ts) txs p)
    \<and> unat (pool_submission_number (fold (add_tx ts) txs p))
        = unat (pool_submission_number p) + length txs
    \<and> pool_transaction_order (fold (add_tx ts) txs p) = pool_transaction_order p
    \<and> mset (pool_queue (fold (add_tx ts) txs p)) = mset txs + mset (pool_queue p)"
  using assms
proof (induction txs arbitrary: p)
  case Nil
  then show ?case by simp
next
  case (Cons tx txs)
  from Cons.prems(2) have fresh: "pool_submission_number p \<noteq> u64_MAX"
    by (auto simp: u64_MAX_def)
  then have "unat (pool_submission_number (add_tx ts tx p)) + length txs < 2 ^ 64"
    using Cons.prems(2) by (simp add: add_tx_fields unat_Suc_u64)
  with Cons.IH [OF pool_inv_add_tx [OF Cons.prems(1) fresh, of ts tx]] fresh
  show ?case
    by (simp add: add_tx_fields unat_Suc_u64 mset_pool_queue_add_tx [OF Cons.prems(1) fresh])
qed

lemma pool_exec_inv:
  assumes "pool_inv p" and "unat (pool_submission_number p) + pool_op_adds op < 2 ^ 64"
  shows "pool_inv (pool_exec ts op p)
    \<and> unat (pool_submission_number (pool_exec ts op p))
        = unat (pool_submission_number p) + pool_op_adds op
    \<and> pool_transaction_order (pool_exec ts op p) = pool_transaction_order p"
proof (cases op)
  case (AddTx tx)
  with assms pool_inv_fold_add_tx [of p "[tx]" ts] show ?thesis by simp
next
  case (AddTxs txs)
  with assms pool_inv_fold_add_tx [of p txs ts] show ?thesis by (simp add: add_txs_eq_fold)
next
  case (DropTransaction h)
  with assms(1) pool_inv_drop [OF assms(1)] show ?thesis
    by (simp add: drop_transaction_def split_beta) (simp add: drop_transactions_def)
next
  case DropAll
  with assms(1) show ?thesis by (simp add: pool_clear_def pool_inv_def)
next
  case (TakeUniform imp n)
  have "pool_submission_number (snd (take_uniform imp n p)) = pool_submission_number p
      \<and> pool_transaction_order (snd (take_uniform imp n p)) = pool_transaction_order p"
    by (simp add: take_uniform_def Let_def split_beta)
  with TakeUniform assms(1) show ?thesis by (simp add: pool_inv_take)
qed

lemma pool_run_inv:
  assumes "pool_inv p"
    and "unat (pool_submission_number p) + sum_list (map pool_op_adds ops) < 2 ^ 64"
  shows "pool_inv (pool_run ts ops p)
    \<and> pool_transaction_order (pool_run ts ops p) = pool_transaction_order p"
  using assms
proof (induction ops arbitrary: p)
  case Nil
  then show ?case by simp
next
  case (Cons op ops)
  from Cons.prems have "pool_inv (pool_exec ts op p)
    \<and> unat (pool_submission_number (pool_exec ts op p))
        = unat (pool_submission_number p) + pool_op_adds op
    \<and> pool_transaction_order (pool_exec ts op p) = pool_transaction_order p"
    by (intro pool_exec_inv) simp_all
  with Cons.IH [of "pool_exec ts op p"] Cons.prems(2) show ?case by simp
qed

lemma pool_queue_sorted:
  assumes "pool_inv p"
  shows "sorted_wrt (\<lambda>a b. pt_priority b < pt_priority a
      \<or> pt_priority b = pt_priority a \<and> pt_submission_number a < pt_submission_number b)
    (rev (pool_inner p))"
proof -
  have "sorted_wrt (\<lambda>a b. pool_key_of b < pool_key_of a) (rev (pool_inner p))"
    using assms by (simp add: pool_inv_def sorted_wrt_map sorted_wrt_rev)
  then show ?thesis
    by (rule sorted_wrt_mono_rel [rotated])
      (auto simp: pool_key_of_def pool_key_order_defs)
qed

lemma fifo_add_tx_queue:
  assumes "pool_inv p" and "pool_submission_number p \<noteq> u64_MAX"
    and "pool_transaction_order p = Fifo"
  shows "pool_queue (add_tx ts tx p) = pool_queue p @ [tx]"
proof -
  let ?e = "\<lparr>pt_transaction = tx, pt_submission_number = pool_submission_number p + 1,
      pt_priority = priority (pool_transaction_order p) tx\<rparr>"
  have "pool_key_of ?e < pool_key_of q" if "q \<in> set (pool_inner p)" for q
  proof -
    have "pt_submission_number q \<le> pool_submission_number p" and "pt_priority q = 0"
      using assms(1,3) that by (auto simp: pool_inv_def priority_def)
    then show ?thesis
      using assms(2,3) by (auto simp: pool_key_of_def pool_key_order_defs
          priority_def word_le_nat_alt unat_Suc_u64)
  qed
  then show ?thesis
    by (simp add: pool_queue_def add_tx_fields btree_insert_least)
qed

lemma fifo_fold_queue:
  assumes "pool_inv p" and "unat (pool_submission_number p) + length txs < 2 ^ 64"
    and "pool_transaction_order p = Fifo"
  shows "pool_queue (fold (add_tx ts) txs p) = pool_queue p @ txs"
  using assms
proof (induction txs arbitrary: p)
  case Nil
  then show ?case by simp
next
  case (Cons tx txs)
  from Cons.prems(2) have fresh: "pool_submission_number p \<noteq> u64_MAX"
    by (auto simp: u64_MAX_def)
  have "unat (pool_submission_number (add_tx ts tx p)) + length txs < 2 ^ 64"
    using Cons.prems(2) fresh by (simp add: add_tx_fields unat_Suc_u64)
  with Cons.IH [OF pool_inv_add_tx [OF Cons.prems(1) fresh]] Cons.prems(3)
  show ?case
    by (simp add: add_tx_fields fifo_add_tx_queue [OF Cons.prems(1) fresh Cons.prems(3)])
qed

section \<open>Properties\<close>

definition no_send :: "unit \<Rightarrow> h256 \<Rightarrow> unit send_result" where
  "no_send l h = SendOk l"

definition sample_pool :: "transaction_order \<Rightarrow> unit tx_pool" where
  "sample_pool ord = add_txs no_send
     [sample_tx 1 10 5, sample_tx 2 10 9, sample_tx 3 20 5] (tx_pool_new ord)"

lemma sample_pool_queue:
  "pool_queue (sample_pool Fifo) = [sample_tx 1 10 5, sample_tx 2 10 9, sample_tx 3 20 5]"
  unfolding sample_pool_def add_txs_eq_fold
  by (subst fifo_fold_queue) (simp_all add: pool_inv_new, simp_all add: tx_pool_new_def pool_queue_def)

text \<open>C33: \<open>take_uniform\<close> returns nothing exactly when the limit is zero or the pool is empty;
  otherwise the batch is the longest run at the head of the queue whose senders all have the
  impersonation status of the first one, cut at the limit, flagged with that status, and the
  pool keeps exactly the remainder in order.\<close>

theorem take_uniform_spec:
  "(fst (take_uniform imp n p) = None \<longleftrightarrow> n = 0 \<or> pool_queue p = [])
   \<and> (\<forall>b. fst (take_uniform imp n p) = Some b \<longrightarrow>
        batch_txs b = take n (takeWhile (\<lambda>tx. tx_status imp tx = tx_status imp (hd (pool_queue p)))
          (pool_queue p))
        \<and> batch_impersonating b = tx_status imp (hd (pool_queue p))
        \<and> pool_queue p = batch_txs b @ pool_queue (snd (take_uniform imp n p))
        \<and> batch_txs b \<noteq> [] \<and> length (batch_txs b) \<le> n)"
proof (intro conjI allI impI)
  show "fst (take_uniform imp n p) = None \<longleftrightarrow> n = 0 \<or> pool_queue p = []"
    by (rule pool_source.take_none)
next
  fix b assume b: "fst (take_uniform imp n p) = Some b"
  show "batch_txs b = take n (takeWhile (\<lambda>tx. tx_status imp tx = tx_status imp (hd (pool_queue p)))
      (pool_queue p))"
    by (rule pool_source.take_txs [OF b])
  show "batch_impersonating b = tx_status imp (hd (pool_queue p))"
    by (rule pool_source.take_flag [OF b])
  show "pool_queue p = batch_txs b @ pool_queue (snd (take_uniform imp n p))"
    by (rule pool_source.take_split [OF b])
  show "length (batch_txs b) \<le> n"
    by (rule pool_source.take_bounded [OF b])
  from b have "0 < n" "pool_queue p \<noteq> []"
    using pool_source.take_none [of imp n p] by auto
  then obtain b' where "fst (take_uniform imp n p) = Some b'" "batch_txs b' \<noteq> []"
    by (rule pool_source.take_nonempty)
  with b show "batch_txs b \<noteq> []" by simp
qed

theorem take_uniform_spec_witness:
  "\<exists>b. fst (take_uniform \<lparr>auto = False, accounts = {10}\<rparr> 5 (sample_pool Fifo)) = Some b
     \<and> batch_impersonating b \<and> batch_txs b = [sample_tx 1 10 5, sample_tx 2 10 9]"
proof -
  let ?imp = "\<lparr>auto = False, accounts = {10::address}\<rparr>" and ?p = "sample_pool Fifo"
  note q = sample_pool_queue
  obtain b where "fst (take_uniform ?imp 5 ?p) = Some b"
    using pool_source.take_none [of ?imp 5 ?p] q by auto
  with take_uniform_spec [of ?imp 5 ?p] q show ?thesis
    by (auto simp: is_impersonating_def)
qed

text \<open>C34: whatever sequence of additions, drops and batch requests the pool serves, as long as
  fewer than \<open>2 ^ 64\<close> transactions are submitted, its queue is ordered by priority with ties
  broken by submission number; in particular by non-increasing \<open>max_fee_per_gas\<close> under
  \<open>Fees\<close>.\<close>

theorem pool_queue_order:
  assumes "sum_list (map pool_op_adds ops) < 2 ^ 64"
  shows "sorted_wrt (\<lambda>a b. pt_priority b < pt_priority a
      \<or> pt_priority b = pt_priority a \<and> pt_submission_number a < pt_submission_number b)
      (rev (pool_inner (pool_run ts ops (tx_pool_new ord))))
    \<and> sorted_wrt (\<lambda>a b. tx_max_fee_per_gas b \<le> tx_max_fee_per_gas a)
      (pool_queue (pool_run ts ops (tx_pool_new Fees)))"
proof
  have inv: "pool_inv (pool_run ts ops (tx_pool_new o'))
      \<and> pool_transaction_order (pool_run ts ops (tx_pool_new o')) = o'" for o'
    using pool_run_inv [OF pool_inv_new, of o' ops ts] assms by (simp add: tx_pool_new_def)
  show "sorted_wrt (\<lambda>a b. pt_priority b < pt_priority a
      \<or> pt_priority b = pt_priority a \<and> pt_submission_number a < pt_submission_number b)
      (rev (pool_inner (pool_run ts ops (tx_pool_new ord))))"
    using inv by (simp add: pool_queue_sorted)
  let ?p = "pool_run ts ops (tx_pool_new Fees)"
  have prio: "pt_priority e = tx_max_fee_per_gas (pt_transaction e)" if "e \<in> set (pool_inner ?p)" for e
    using inv [of Fees] that by (simp add: pool_inv_def priority_def)
  have "sorted_wrt (\<lambda>a b. tx_max_fee_per_gas (pt_transaction b) \<le> tx_max_fee_per_gas (pt_transaction a))
      (rev (pool_inner ?p))"
    using pool_queue_sorted [of ?p] inv [of Fees] prio
    by (auto intro: sorted_wrt_mono_rel [rotated] simp: less_imp_le)
  then show "sorted_wrt (\<lambda>a b. tx_max_fee_per_gas b \<le> tx_max_fee_per_gas a) (pool_queue ?p)"
    by (simp add: pool_queue_def sorted_wrt_map rev_map)
qed

theorem pool_queue_order_witness:
  "sorted_wrt (\<lambda>a b. tx_max_fee_per_gas b \<le> tx_max_fee_per_gas a)
     (pool_queue (pool_run no_send [AddTx (sample_tx 1 10 5), AddTx (sample_tx 2 10 9),
        TakeUniform impersonation_default 1, AddTxs [sample_tx 3 20 7]] (tx_pool_new Fees)))"
  by (rule conjunct2 [OF pool_queue_order]) simp

text \<open>Submitting transactions loses none and invents none, whether they arrive one by one or
  as a list, and under \<open>Fifo\<close> they leave in submission order behind what was queued.\<close>

theorem pool_submission:
  assumes "pool_inv p" and "unat (pool_submission_number p) + length txs < 2 ^ 64"
  shows "add_txs ts txs p = fold (add_tx ts) txs p
    \<and> mset (pool_queue (add_txs ts txs p)) = mset txs + mset (pool_queue p)
    \<and> pool_inv (add_txs ts txs p)
    \<and> (pool_transaction_order p = Fifo \<longrightarrow> pool_queue (add_txs ts txs p) = pool_queue p @ txs)"
  using pool_inv_fold_add_tx [OF assms, of ts] fifo_fold_queue [OF assms, of ts]
  by (simp add: add_txs_eq_fold)

theorem pool_submission_witness:
  "pool_queue (add_txs no_send [sample_tx 1 10 5, sample_tx 2 10 9] (tx_pool_new Fifo))
     = [sample_tx 1 10 5, sample_tx 2 10 9]"
proof -
  let ?p = "tx_pool_new Fifo :: unit tx_pool"
  have "unat (pool_submission_number ?p) + length [sample_tx 1 10 5, sample_tx 2 10 9] < 2 ^ 64"
    and fifo: "pool_transaction_order ?p = Fifo" and empty: "pool_queue ?p = []"
    by (simp_all add: tx_pool_new_def pool_queue_def)
  from pool_submission [OF pool_inv_new this(1), of no_send] fifo empty show ?thesis
    by (metis append_Nil)
qed

text \<open>Dropping by hash removes every queued transaction with that hash, keeps all others in
  their order, and reports one of the removed ones if there was any.\<close>

theorem drop_transaction_spec:
  "pool_queue (snd (drop_transaction h p)) = filter (\<lambda>tx. tx_hash tx \<noteq> h) (pool_queue p)
   \<and> (fst (drop_transaction h p) = None \<longleftrightarrow> h \<notin> tx_hash ` set (pool_queue p))
   \<and> (\<forall>tx \<in> set_option (fst (drop_transaction h p)). tx_hash tx = h \<and> tx \<in> set (pool_queue p))"
proof -
  let ?d = "filter (\<lambda>x. tx_hash (pt_transaction x) = h) (pool_inner p)"
  have "pool_queue (snd (drop_transaction h p)) = filter (\<lambda>tx. tx_hash tx \<noteq> h) (pool_queue p)"
    by (simp add: drop_transaction_def drop_transactions_def pool_queue_def filter_map o_def rev_filter)
  moreover have "fst (drop_transaction h p) = None \<longleftrightarrow> ?d = []"
    by (cases ?d) (simp_all add: drop_transaction_def drop_transactions_def)
  moreover have "tx \<in> pt_transaction ` set ?d" if "fst (drop_transaction h p) = Some tx" for tx
    using that by (cases ?d) (simp_all add: drop_transaction_def drop_transactions_def)
  ultimately show ?thesis
    by (fastforce simp: pool_queue_def filter_empty_conv)
qed

theorem drop_transaction_spec_witness:
  "pool_queue (snd (drop_transaction 2 (sample_pool Fifo))) = [sample_tx 1 10 5, sample_tx 3 20 5]
   \<and> fst (drop_transaction 2 (sample_pool Fifo)) \<noteq> None"
  using drop_transaction_spec [of 2 "sample_pool Fifo"] by (simp add: sample_pool_queue)

text \<open>The textual form of a transaction order parses back to it, in any letter case of the
  letters \<open>a\<close> to \<open>z\<close>; every other text is rejected.\<close>

theorem transaction_order_roundtrip:
  "transaction_order_from_str (transaction_order_fmt ord) = Inr ord
   \<and> (transaction_order_from_str s = Inr ord \<longleftrightarrow> to_lowercase s = transaction_order_fmt ord)"
proof -
  have "to_lowercase ''fees'' = ''fees''" "to_lowercase ''fifo'' = ''fifo''"
    by (simp_all add: to_lowercase_def)
  then show ?thesis
    by (cases ord) (auto simp: transaction_order_from_str_def transaction_order_fmt_def Let_def
        split: if_splits)
qed

end
