(* ===== verification/Vm_Runner.thy ===== *)
theory Vm_Runner
  imports Batch_Executor Tx_Pool "HOL-Library.Sublist"
begin

text \<open>
  Running a batch of transactions: \<open>crates/core/src/node/inner/vm_runner.rs\<close>.

  The clock and the storage of the runner are those of the node (the source clones shared references), so the
  runner's state is the node's. A run that fails has still advanced the clock and may have written
  nonces, so every operation returns the state beside its result. Printed summaries, traces and progress
  reports are left out; creating the signature identifier, which may fail, is not.
\<close>

section \<open>Data\<close>

datatype tx_invalid =
    InvalidGasLimit u256 u256
  | GasPerPubdataLimit u256 u256
  | MaxFeePerGasTooLow u256 u256
  | MaxPriorityFeeGreaterThanMaxFee u256 u256

datatype node_error =
    TransactionValidationFailed tx_invalid h256
  | TransactionHalted string h256
  | NodeGenericError string

record 'v vm_runner =
  rn_enforced_bytecode_compression :: bool
  rn_system_contracts :: system_contracts
  rn_generate_system_logs :: bool
  rn_vm :: "'v batch_vm"
  rn_vm_new :: "bool \<Rightarrow> l1_batch_env \<Rightarrow> system_env \<Rightarrow> in_memory_storage option \<Rightarrow> 'v"
  rn_batch_computational_gas_limit :: u32
  rn_contract_deployer_address :: address
  rn_account_code_storage_address :: address
  rn_extract_bytecodes_marked_as_known :: "vm_event list \<Rightarrow> h256 list"
  rn_hash_for_bytecode :: "bytes \<Rightarrow> h256"
  rn_signatures_identifier :: "string option"

record 'v run_state =
  rs_executor :: "'v executor"
  rs_storage :: fork_storage
  rs_next_log_index :: nat

section \<open>One transaction\<close>

fun fair_l2_gas_price :: "batch_fee_input \<Rightarrow> u64" where
  "fair_l2_gas_price (L1Pegged l1_gas_price fair) = fair"
| "fair_l2_gas_price (PubdataIndependent i) = fi_fair_l2_gas_price i"

definition validate_tx :: "l1_batch_env \<Rightarrow> l2_tx_common_data \<Rightarrow> (tx_invalid, unit) outcome" where
  "validate_tx batch_env tx_data =
     (let max_gas = ucast u64_MAX; f = l2_fee tx_data; l2_gas_price = fair_l2_gas_price (env_fee_input batch_env)
      in if fee_gas_limit f > max_gas then Inl (Err (InvalidGasLimit (fee_gas_limit f) max_gas))
         else if fee_gas_per_pubdata_limit f > max_gas
         then Inl (Err (GasPerPubdataLimit (fee_gas_per_pubdata_limit f) max_gas))
         else if fee_max_fee_per_gas f < ucast l2_gas_price
         then Inl (Err (MaxFeePerGasTooLow (fee_max_fee_per_gas f) (ucast l2_gas_price)))
         else if fee_max_fee_per_gas f < fee_max_priority_fee_per_gas f
         then Inl (Err (MaxPriorityFeeGreaterThanMaxFee (fee_max_fee_per_gas f) (fee_max_priority_fee_per_gas f)))
         else Inr ())"

definition run_tx_pretty ::
  "'v vm_runner \<Rightarrow> reads \<Rightarrow> transaction \<Rightarrow> 'v executor \<Rightarrow> (node_error, batch_tx_result) outcome \<times> 'v executor" where
  "run_tx_pretty rn reads tx e =
     (case executor_execute_tx (rn_enforced_bytecode_compression rn) (rn_vm rn) reads tx e of
        (Inl m, e') \<Rightarrow> (Inl (Err (NodeGenericError m)), e')
      | (Inr r, e') \<Rightarrow>
          ((if \<not> bt_compression_ok r
            then Inl (Err (TransactionHalted ''FailedToPublishCompressedBytecodes'' (tx_hash tx)))
            else if bt_call_traces r \<noteq> [] \<and> rn_signatures_identifier rn \<noteq> None
            then Inl (Err (NodeGenericError (''Failed to create SignaturesIdentifier: '' @ the (rn_signatures_identifier rn))))
            else Inr (r\<lparr>bt_compression_ok := True\<rparr>)), e'))"

definition make_logs :: "block_context \<Rightarrow> l1_batch_env \<Rightarrow> h256 \<Rightarrow> u64 \<Rightarrow> vm_result \<Rightarrow> log list" where
  "make_logs bx batch_env hash tx_index result = map (\<lambda>(log_idx, ev).
     \<lparr>log_address = ev_address ev, log_topics = ev_indexed_topics ev, log_data = ev_value ev,
      log_block_hash = Some (bx_hash bx), log_block_number = Some (bx_miniblock bx),
      log_l1_batch_number = Some (ucast (env_number batch_env)), log_transaction_hash = Some hash,
      log_transaction_index = Some tx_index, log_log_index = Some (of_nat log_idx),
      log_transaction_log_index = Some (of_nat log_idx), log_removed = Some False,
      log_block_timestamp = Some (bx_timestamp bx)\<rparr>) (enumerate 0 (vr_events result))"

definition make_l2_to_l1_logs ::
  "block_context \<Rightarrow> l1_batch_env \<Rightarrow> h256 \<Rightarrow> u64 \<Rightarrow> nat \<Rightarrow> vm_result \<Rightarrow> l2_to_l1_log list" where
  "make_l2_to_l1_logs bx batch_env hash tx_index next_log_index result = map (\<lambda>(log_index, l).
     \<lparr>l2l1_block_hash = Some (bx_hash bx), l2l1_block_number = bx_miniblock bx,
      l2l1_l1_batch_number = Some (ucast (env_number batch_env)), l2l1_log_index = of_nat (next_log_index + log_index),
      l2l1_transaction_index = tx_index, l2l1_transaction_hash = hash,
      l2l1_transaction_log_index = of_nat log_index, l2l1_tx_index_in_l1_batch = Some tx_index,
      l2l1_shard_id = ucast (ul_shard_id l), l2l1_is_service = ul_is_service l, l2l1_sender = ul_sender l,
      l2l1_key = ul_key l, l2l1_value = ul_value l\<rparr>) (enumerate 0 (vr_user_l2_to_l1_logs result))"

definition make_receipt ::
  "'v vm_runner \<Rightarrow> ('f, 'p) fee_api \<Rightarrow> ('f, 'p) fee_input_provider \<Rightarrow> block_context \<Rightarrow> l1_batch_env \<Rightarrow> transaction \<Rightarrow> u64
     \<Rightarrow> nat \<Rightarrow> u256 \<Rightarrow> vm_result \<Rightarrow> transaction_receipt" where
  "make_receipt rn fa provider bx batch_env tx tx_index next_log_index gas_used result =
     \<lparr>rcpt_transaction_hash = tx_hash tx, rcpt_transaction_index = tx_index, rcpt_block_hash = bx_hash bx,
      rcpt_block_number = bx_miniblock bx, rcpt_l1_batch_tx_index = Some tx_index,
      rcpt_l1_batch_number = Some (ucast (env_number batch_env)), rcpt_from = tx_initiator_account tx,
      rcpt_to = tx_recipient_account tx, rcpt_cumulative_gas_used = 0, rcpt_gas_used = Some gas_used,
      rcpt_contract_address = contract_address_from_tx_result (rn_account_code_storage_address rn) result,
      rcpt_logs = make_logs bx batch_env (tx_hash tx) tx_index result,
      rcpt_l2_to_l1_logs = make_l2_to_l1_logs bx batch_env (tx_hash tx) tx_index next_log_index result,
      rcpt_status = (if is_failed (vr_result result) then 0 else 1),
      rcpt_effective_gas_price = Some (ucast (gas_price fa provider)),
      rcpt_transaction_type = Some (ucast (tx_format tx))\<rparr>"

text \<open>Account validation, which increments the nonce, is skipped under impersonation.\<close>

definition increment_nonce ::
  "node_api \<Rightarrow> fork_source \<Rightarrow> storage_key_layout \<Rightarrow> address \<Rightarrow> fork_storage \<Rightarrow> (node_error, fork_storage) outcome" where
  "increment_nonce na src layout account storage =
     and_then (get_nonce_key na layout account) (\<lambda>nonce_key.
     and_then (panic_only (fst (read_value_internal src nonce_key storage))) (\<lambda>nonce.
     and_then (expect ''arithmetic operation overflow'' (checked_add nonce 1)) (\<lambda>nonce'.
     Inr (fs_set_value nonce_key nonce' storage))))"

definition tx_result_of ::
  "'v vm_runner \<Rightarrow> ('f, 'p) fee_api \<Rightarrow> ('f, 'p) fee_input_provider \<Rightarrow> block_context \<Rightarrow> l1_batch_env \<Rightarrow> transaction \<Rightarrow> u64
     \<Rightarrow> nat \<Rightarrow> batch_tx_result \<Rightarrow> (node_error, transaction_result) outcome" where
  "tx_result_of rn fa provider bx batch_env tx tx_index next_log_index r =
     (let result = bt_tx_result r in
      and_then (new_bytecodes (rn_extract_bytecodes_marked_as_known rn) (rn_hash_for_bytecode rn) tx result) (\<lambda>codes.
      let codes = (if sc_use_boojum (rn_system_contracts rn) then codes @ vr_dynamic_factory_deps result else codes) in
      and_then (if ucast (vr_gas_refunded result) \<le> tx_gas_limit tx
          then Inr (tx_gas_limit tx - ucast (vr_gas_refunded result))
          else Inl (Panic ''arithmetic operation overflow'')) (\<lambda>gas_used.
      and_then (panic_only (create_debug_output (rn_contract_deployer_address rn) tx result (bt_call_traces r))) (\<lambda>debug.
      Inr \<lparr>res_info = \<lparr>info_tx = tx, info_batch_number = env_number batch_env, info_miniblock_number = bx_miniblock bx\<rparr>,
        res_new_bytecodes = codes,
        res_receipt = make_receipt rn fa provider bx batch_env tx tx_index next_log_index gas_used result,
        res_debug = debug\<rparr>))))"

definition run_tx ::
  "'v vm_runner \<Rightarrow> ('f, 'p) fee_api \<Rightarrow> node_api \<Rightarrow> ('f, 'p, 'b, 't, 'td) node_inner \<Rightarrow> block_context \<Rightarrow> l1_batch_env
     \<Rightarrow> bool \<Rightarrow> transaction \<Rightarrow> u64 \<Rightarrow> 'v run_state \<Rightarrow> (node_error, transaction_result) outcome \<times> 'v run_state" where
  "run_tx rn fa na s bx batch_env impersonating tx tx_index st =
     (let src = fork_as_source (ni_fork s);
          validated = (case tx_common_data tx of
              L2 l2_tx_data \<Rightarrow> (case validate_tx batch_env l2_tx_data of
                  Inl (Err e) \<Rightarrow> Inl (Err (TransactionValidationFailed e (tx_hash tx)))
                | Inl (Panic m) \<Rightarrow> Inl (Panic m)
                | Inr u \<Rightarrow> Inr u)
            | _ \<Rightarrow> Inr ())
      in case validated of
           Inl f \<Rightarrow> (Inl f, st)
         | Inr _ \<Rightarrow>
             (case run_tx_pretty rn (storage_view src (rs_storage st)) tx (rs_executor st) of
                (Inl f, e') \<Rightarrow> (Inl f, st\<lparr>rs_executor := e'\<rparr>)
              | (Inr r, e') \<Rightarrow>
                  let st = st\<lparr>rs_executor := e'\<rparr> in
                  (case vr_result (bt_tx_result r) of
                     Halt reason \<Rightarrow> (Inl (Err (TransactionHalted reason (tx_hash tx))), st)
                   | _ \<Rightarrow>
                       (case (if impersonating
                           then increment_nonce na src (ni_storage_key_layout s) (tx_initiator_account tx) (rs_storage st)
                           else Inr (rs_storage st)) of
                          Inl f \<Rightarrow> (Inl f, st)
                        | Inr storage \<Rightarrow>
                            let st = st\<lparr>rs_storage := storage\<rparr> in
                            (case tx_result_of rn fa (ni_fee_input_provider s) bx batch_env tx tx_index (rs_next_log_index st) r of
                               Inl f \<Rightarrow> (Inl f, st)
                             | Inr result \<Rightarrow> (Inr result, st\<lparr>rs_next_log_index := rs_next_log_index st
                                 + length (vr_user_l2_to_l1_logs (bt_tx_result r))\<rparr>))))))"

section \<open>A batch\<close>

fun is_recoverable :: "node_error \<Rightarrow> bool" where
  "is_recoverable (TransactionValidationFailed _ _) = True"
| "is_recoverable (TransactionHalted _ _) = True"
| "is_recoverable (NodeGenericError _) = False"

fun run_txs ::
  "'v vm_runner \<Rightarrow> ('f, 'p) fee_api \<Rightarrow> node_api \<Rightarrow> ('f, 'p, 'b, 't, 'td) node_inner \<Rightarrow> block_context \<Rightarrow> l1_batch_env
     \<Rightarrow> bool \<Rightarrow> transaction list \<Rightarrow> u64 \<Rightarrow> transaction_result list \<Rightarrow> 'v run_state
     \<Rightarrow> (node_error, transaction_result list) outcome \<times> 'v run_state" where
  "run_txs rn fa na s bx batch_env impersonating [] tx_index tx_results st = (Inr tx_results, st)"
| "run_txs rn fa na s bx batch_env impersonating (tx # txs) tx_index tx_results st =
     (case run_tx rn fa na s bx batch_env impersonating tx tx_index st of
        (Inr tx_result, st') \<Rightarrow>
          run_txs rn fa na s bx batch_env impersonating txs (tx_index + 1) (tx_results @ [tx_result]) st'
      | (Inl (Panic m), st') \<Rightarrow> (Inl (Panic m), st')
      | (Inl (Err e), st') \<Rightarrow>
          if is_recoverable e
          then (case executor_rollback_last_tx (rn_enforced_bytecode_compression rn) (rn_vm rn)
                  (storage_view (fork_as_source (ni_fork s)) (rs_storage st')) (rs_executor st') of
                  (Inl m, e') \<Rightarrow> (Inl (Err (NodeGenericError m)), st'\<lparr>rs_executor := e'\<rparr>)
                | (Inr _, e') \<Rightarrow>
                    run_txs rn fa na s bx batch_env impersonating txs tx_index tx_results (st'\<lparr>rs_executor := e'\<rparr>))
          else (Inl (Err e), st'))"

definition virtual_block_ctx ::
  "'h chain_api \<Rightarrow> protocol_version \<Rightarrow> block_context \<Rightarrow> time_state \<Rightarrow> block_context \<times> time_state" where
  "virtual_block_ctx ca version bx time =
     (let (vx, time') = new_block bx time
      in (vx\<lparr>bx_hash := hasher_finalize ca version (hasher_new ca (ucast (bx_miniblock vx)) (bx_timestamp vx) (bx_hash bx))\<rparr>,
          time'))"

definition finish_run ::
  "'v vm_runner \<Rightarrow> reads \<Rightarrow> 'v executor
     \<Rightarrow> (node_error, finished_l1_batch \<times> (storage_key \<times> storage_value) list) outcome" where
  "finish_run rn reads e =
     (case (if rn_generate_system_logs rn
            then executor_finish_batch (rn_enforced_bytecode_compression rn) (rn_vm rn) reads e
            else (case executor_bootloader (rn_enforced_bytecode_compression rn) (rn_vm rn) reads e of
                Inl m \<Rightarrow> Inl m | Inr (tip, keys) \<Rightarrow> Inr (finished_l1_batch_mock, tip, keys))) of
        Inl m \<Rightarrow> Inl (Err (NodeGenericError m))
      | Inr (finished, tip, keys) \<Rightarrow>
          if is_failed (vr_result tip) then Inl (Panic ''VM must not fail when finalizing block'')
          else Inr (finished, keys))"

text \<open>After the transactions: the hash of the block, the virtual block when the block is not empty, and the end of the batch.\<close>

definition conclude_batch ::
  "'h chain_api \<Rightarrow> 'v vm_runner \<Rightarrow> protocol_version \<Rightarrow> base_system_contracts_hashes \<Rightarrow> l1_batch_env \<Rightarrow> block_context
     \<Rightarrow> transaction_result list \<Rightarrow> 'v executor \<Rightarrow> ('f, 'p, 'b, 't, 'td) node_inner
     \<Rightarrow> (node_error, tx_batch_execution_result) outcome \<times> ('f, 'p, 'b, 't, 'td) node_inner" where
  "conclude_batch ca rn version hashes batch_env bx tx_results e s =
     (let reads = storage_view (fork_as_source (ni_fork s)) (ni_fork_storage s);
          bx = bx\<lparr>bx_hash := compute_hash ca version (ucast (bx_miniblock bx)) (bx_timestamp bx)
            (bx_prev_block_hash bx) (map (\<lambda>r. rcpt_transaction_hash (res_receipt r)) tx_results)\<rparr>;
          (started, ctxs, time) =
            (if tx_results = [] then ((Inr (), e), [bx], ni_time s)
             else let (vx, time) = virtual_block_ctx ca version bx (ni_time s);
                      l2_env = \<lparr>be_number = ucast (bx_miniblock bx + 1), be_timestamp = bx_timestamp bx + 1,
                        be_prev_block_hash = bx_hash bx, be_max_virtual_blocks_to_create = 1\<rparr>
                  in (executor_start_next_l2_block (rn_enforced_bytecode_compression rn) (rn_vm rn) reads l2_env e,
                      [bx, vx], time));
          s' = s\<lparr>ni_time := time\<rparr>
      in case started of
           (Inl m, _) \<Rightarrow> (Inl (Err (NodeGenericError m)), s')
         | (Inr _, e') \<Rightarrow>
             (case finish_run rn reads e' of
                Inl f \<Rightarrow> (Inl f, s')
              | Inr (finished, modified) \<Rightarrow>
                  (Inr \<lparr>br_tx_results = tx_results, br_base_system_contracts_hashes = hashes, br_batch_env = batch_env,
                     br_block_ctxs = ctxs, br_finished_l1_batch = finished, br_modified_storage_keys = modified\<rparr>, s')))"

definition run_tx_batch ::
  "'h chain_api \<Rightarrow> 'v vm_runner \<Rightarrow> ('f, 'p) fee_api \<Rightarrow> node_api \<Rightarrow> tx_batch \<Rightarrow> ('f, 'p, 'b, 't, 'td) node_inner
     \<Rightarrow> (node_error, tx_batch_execution_result) outcome \<times> ('f, 'p, 'b, 't, 'td) node_inner" where
  "run_tx_batch ca rn fa na batch s =
     (let txs = batch_txs batch; impersonating = batch_impersonating batch in
      case contracts VerifyExecute impersonating (rn_system_contracts rn) of
        Inl f \<Rightarrow> (Inl f, s)
      | Inr base_contracts \<Rightarrow>
          let sys_env = create_system_env (rn_batch_computational_gas_limit rn) base_contracts VerifyExecute s in
          (case panic_only (create_l1_batch_env ca fa s) of
             Inl f \<Rightarrow> (Inl f, s)
           | Inr (batch_env, bx) \<Rightarrow>
               let (ts, time) = advance_timestamp (ni_time s); s = s\<lparr>ni_time := time\<rparr> in
               if ts \<noteq> bx_timestamp bx
               then (Inl (Err (NodeGenericError ''Advancing clock produced different timestamp than expected. This should never happen -- please report this as a bug.'')), s)
               else
                 let v = rn_vm_new rn (sc_use_boojum (rn_system_contracts rn)) batch_env sys_env
                       (if sc_use_boojum (rn_system_contracts rn) then Some (fs_raw_storage (ni_fork_storage s)) else None);
                     bx = bx\<lparr>bx_hash := compute_hash ca (se_version sys_env) (ucast (bx_miniblock bx)) (bx_timestamp bx)
                       (bx_prev_block_hash bx) (map tx_hash txs)\<rparr>
                 in (case run_txs rn fa na s bx batch_env impersonating txs 0 []
                       \<lparr>rs_executor = Running v, rs_storage = ni_fork_storage s, rs_next_log_index = 0\<rparr> of
                       (Inl f, st) \<Rightarrow> (Inl f, s\<lparr>ni_fork_storage := rs_storage st\<rparr>)
                     | (Inr tx_results, st) \<Rightarrow>
                         conclude_batch ca rn (se_version sys_env) (contracts_hashes base_contracts) batch_env bx tx_results
                           (rs_executor st) (s\<lparr>ni_fork_storage := rs_storage st\<rparr>))))"

section \<open>What one transaction does to the machine\<close>

lemma execute_tx_running:
  assumes "executor_execute_tx enforced vm reads tx (Running v) = (Inr r, e')"
  obtains v' where "e' = Running v'" and "receiver_execute_tx enforced vm reads tx v = Inr (r, v')"
  using assms
  by (cases "receiver_execute_tx enforced vm reads tx v" rule: sum.exhaust)
    (auto simp: executor_execute_tx_def split: sum.splits failure.splits elim!: with_context.elims)

lemma run_tx_pretty_running:
  assumes "run_tx_pretty rn reads tx (Running v) = (res, e')" and "\<forall>m. res \<noteq> Inl (Err (NodeGenericError m))"
  obtains v' r where "e' = Running v'"
    and "receiver_execute_tx (rn_enforced_bytecode_compression rn) (rn_vm rn) reads tx v = Inr (r, v')"
    and "\<And>b. res = Inr b \<Longrightarrow> b = r"
proof -
  obtain o1 e1 where x: "executor_execute_tx (rn_enforced_bytecode_compression rn) (rn_vm rn) reads tx (Running v) = (o1, e1)"
    by fastforce
  with assms obtain r where r: "o1 = Inr r" by (cases o1) (auto simp: run_tx_pretty_def)
  obtain v' where v: "e1 = Running v'"
    "receiver_execute_tx (rn_enforced_bytecode_compression rn) (rn_vm rn) reads tx v = Inr (r, v')"
    using execute_tx_running [OF x [unfolded r]] by metis
  show thesis
    using assms(1) x r v by (intro that [of v' r]) (auto simp: run_tx_pretty_def split: if_splits)
qed

definition valid_tx :: "l1_batch_env \<Rightarrow> transaction \<Rightarrow> bool" where
  "valid_tx env tx \<longleftrightarrow> (case tx_common_data tx of L2 d \<Rightarrow> validate_tx env d = Inr () | _ \<Rightarrow> True)"

lemma validate_tx_no_panic: "validate_tx env d \<noteq> Inl (Panic m)"
  by (simp add: validate_tx_def Let_def)

lemma run_tx_invalid:
  assumes "\<not> valid_tx env tx"
  shows "\<exists>e. run_tx rn fa na s bx env imp tx i st = (Inl (Err (TransactionValidationFailed e (tx_hash tx))), st)"
proof -
  from assms obtain d where d: "tx_common_data tx = L2 d" "validate_tx env d \<noteq> Inr ()"
    by (auto simp: valid_tx_def split: execute_transaction_common.splits)
  then obtain e where "validate_tx env d = Inl (Err e)"
    using validate_tx_no_panic [of env d] by (metis failure.exhaust old.unit.exhaust sum.exhaust)
  then show ?thesis by (simp add: run_tx_def d)
qed

lemma run_tx_valid:
  assumes "valid_tx env tx"
  shows "run_tx rn fa na s bx env imp tx i st =
     (case run_tx_pretty rn (storage_view (fork_as_source (ni_fork s)) (rs_storage st)) tx (rs_executor st) of
        (Inl f, e') \<Rightarrow> (Inl f, st\<lparr>rs_executor := e'\<rparr>)
      | (Inr r, e') \<Rightarrow>
          (case vr_result (bt_tx_result r) of
             Halt reason \<Rightarrow> (Inl (Err (TransactionHalted reason (tx_hash tx))), st\<lparr>rs_executor := e'\<rparr>)
           | _ \<Rightarrow>
               (case (if imp
                   then increment_nonce na (fork_as_source (ni_fork s)) (ni_storage_key_layout s)
                     (tx_initiator_account tx) (rs_storage st)
                   else Inr (rs_storage st)) of
                  Inl f \<Rightarrow> (Inl f, st\<lparr>rs_executor := e'\<rparr>)
                | Inr storage \<Rightarrow>
                    (case tx_result_of rn fa (ni_fee_input_provider s) bx env tx i (rs_next_log_index st) r of
                       Inl f \<Rightarrow> (Inl f, st\<lparr>rs_executor := e', rs_storage := storage\<rparr>)
                     | Inr result \<Rightarrow> (Inr result, st\<lparr>rs_executor := e', rs_storage := storage,
                         rs_next_log_index := rs_next_log_index st + length (vr_user_l2_to_l1_logs (bt_tx_result r))\<rparr>)))))"
  using assms by (cases "tx_common_data tx")
    (simp_all add: run_tx_def valid_tx_def Let_def cong: execution_result.case_cong sum.case_cong prod.case_cong)

lemma expect_no_err [simp]: "expect m x \<noteq> Inl (Err e)"
  by (cases x) simp_all

lemma get_nonce_key_no_err [simp]: "get_nonce_key na layout a \<noteq> Inl (Err e)"
  by (cases layout) simp_all

lemma increment_nonce_no_err [simp]: "increment_nonce na src layout a storage \<noteq> Inl (Err e)"
  by (simp add: increment_nonce_def and_then_Inl_iff)

lemma lookup_bytecodes_no_err [simp]: "lookup_bytecodes deps hs \<noteq> Inl (Err e)"
  by (induction hs) (simp_all add: and_then_Inl_iff)

lemma tx_result_of_no_err [simp]: "tx_result_of rn fa provider bx env tx i n r \<noteq> Inl (Err e)"
  by (auto simp: tx_result_of_def and_then_Inl_iff new_bytecodes_def Let_def split: if_splits)

text \<open>A transaction that passed validation and did not fail for good has been executed by the machine once; if it
  is recorded it did not halt.\<close>

lemma run_tx_executed:
  assumes "valid_tx env tx" and "rs_executor st = Running v"
    and "run_tx rn fa na s bx env imp tx i st = (res, st')"
    and "(\<exists>t. res = Inr t) \<or> (\<exists>e. res = Inl (Err e) \<and> is_recoverable e)"
  obtains v' r reads where "rs_executor st' = Running v'"
    and "receiver_execute_tx (rn_enforced_bytecode_compression rn) (rn_vm rn) reads tx v = Inr (r, v')"
    and "\<And>t. res = Inr t \<Longrightarrow> (\<forall>reason. vr_result (bt_tx_result r) \<noteq> Halt reason)
      \<and> tx_result_of rn fa (ni_fee_input_provider s) bx env tx i (rs_next_log_index st) r = Inr t
      \<and> rs_next_log_index st' = rs_next_log_index st + length (vr_user_l2_to_l1_logs (bt_tx_result r))"
proof -
  let ?reads = "storage_view (fork_as_source (ni_fork s)) (rs_storage st)"
  obtain o1 e1 where p: "run_tx_pretty rn ?reads tx (Running v) = (o1, e1)" by fastforce
  have ng: "\<forall>m. o1 \<noteq> Inl (Err (NodeGenericError m))"
    using assms p by (auto simp: run_tx_valid)
  from p ng obtain v' r where r: "e1 = Running v'"
    "receiver_execute_tx (rn_enforced_bytecode_compression rn) (rn_vm rn) ?reads tx v = Inr (r, v')"
    "\<And>b. o1 = Inr b \<Longrightarrow> b = r"
    by (rule run_tx_pretty_running) blast
  show thesis
  proof (cases o1)
    case (Inl f)
    with assms p r(1) have "rs_executor st' = Running v'" "\<nexists>t. res = Inr t" by (auto simp: run_tx_valid)
    then show thesis using r(2) by (intro that [of v' ?reads r]) auto
  next
    case (Inr b)
    with r(3) have "o1 = Inr r" by simp
    with assms(2,3) p r(1) have eq: "(case vr_result (bt_tx_result r) of
             Halt reason \<Rightarrow> (Inl (Err (TransactionHalted reason (tx_hash tx))), st\<lparr>rs_executor := Running v'\<rparr>)
           | _ \<Rightarrow>
               (case (if imp
                   then increment_nonce na (fork_as_source (ni_fork s)) (ni_storage_key_layout s)
                     (tx_initiator_account tx) (rs_storage st)
                   else Inr (rs_storage st)) of
                  Inl f \<Rightarrow> (Inl f, st\<lparr>rs_executor := Running v'\<rparr>)
                | Inr storage \<Rightarrow>
                    (case tx_result_of rn fa (ni_fee_input_provider s) bx env tx i (rs_next_log_index st) r of
                       Inl f \<Rightarrow> (Inl f, st\<lparr>rs_executor := Running v', rs_storage := storage\<rparr>)
                     | Inr result \<Rightarrow> (Inr result, st\<lparr>rs_executor := Running v', rs_storage := storage,
                         rs_next_log_index := rs_next_log_index st + length (vr_user_l2_to_l1_logs (bt_tx_result r))\<rparr>))))
        = (res, st')"
      by (simp add: run_tx_valid [OF assms(1)])
    show thesis
      using r(2) eq by (intro that [of v' ?reads r])
        (auto split: execution_result.splits sum.splits if_splits)
  qed
qed

section \<open>Batches are atomic\<close>

definition machine_step :: "'v vm_runner \<Rightarrow> ('v \<Rightarrow> 'c) \<Rightarrow> 'c \<Rightarrow> transaction \<Rightarrow> 'c \<Rightarrow> bool" where
  "machine_step rn core c tx c' \<longleftrightarrow> (\<exists>reads r v v'. core v = c \<and> core v' = c'
     \<and> receiver_execute_tx (rn_enforced_bytecode_compression rn) (rn_vm rn) reads tx v = Inr (r, v')
     \<and> (\<forall>reason. vr_result (bt_tx_result r) \<noteq> Halt reason))"

text \<open>Executing transactions one after the other, none of which halts.\<close>

inductive machine_steps :: "'v vm_runner \<Rightarrow> ('v \<Rightarrow> 'c) \<Rightarrow> 'c \<Rightarrow> transaction list \<Rightarrow> 'c \<Rightarrow> bool"
  for rn :: "'v vm_runner" and core :: "'v \<Rightarrow> 'c" and c :: 'c where
  none: "machine_steps rn core c [] c"
| snoc: "machine_steps rn core c txs c' \<Longrightarrow> machine_step rn core c' tx c'' \<Longrightarrow> machine_steps rn core c (txs @ [tx]) c''"

lemma rollback_after_execute:
  assumes "snapshot_laws vm core saved" and "receiver_execute_tx enforced vm reads tx v = Inr (r, v')"
  shows "\<exists>v''. executor_rollback_last_tx enforced vm reads' (Running v') = (Inr (), Running v'') \<and> core v'' = core v"
proof -
  obtain v'' where "bv_rollback_to_the_latest_snapshot vm v' = Inr v''" "core v'' = core v"
    using snapshot_lawsD(5) [OF assms(1) execute_tx_saved [OF assms]] by blast
  then show ?thesis by (simp add: executor_rollback_last_tx_def receiver_rollback_last_tx_def)
qed

lemma tx_result_of_info:
  "tx_result_of rn fa provider bx env tx i n r = Inr t \<Longrightarrow> info_tx (res_info t) = tx
    \<and> res_receipt t = make_receipt rn fa provider bx env tx i n (the (rcpt_gas_used (res_receipt t))) (bt_tx_result r)"
  by (auto simp: tx_result_of_def Let_def make_receipt_def)

lemma run_txs_atomic:
  assumes laws: "snapshot_laws (rn_vm rn) core saved"
    and "run_txs rn fa na s bx env imp txs i acc st = (Inr rs, st')"
    and "\<forall>tx \<in> set txs. valid_tx env tx" and "rs_executor st = Running v"
    and "machine_steps rn core c (map (\<lambda>r. info_tx (res_info r)) acc) (core v)"
  shows "\<exists>v'. rs_executor st' = Running v' \<and> machine_steps rn core c (map (\<lambda>r. info_tx (res_info r)) rs) (core v')"
  using assms(2-5)
proof (induction txs arbitrary: i acc st v)
  case (Cons tx txs)
  obtain res st1 where r: "run_tx rn fa na s bx env imp tx i st = (res, st1)" by fastforce
  have valid: "valid_tx env tx" using Cons.prems(2) by simp
  have ok: "(\<exists>t. res = Inr t) \<or> (\<exists>e. res = Inl (Err e) \<and> is_recoverable e)"
    using Cons.prems(1) r by (auto split: sum.splits failure.splits if_splits)
  from valid Cons.prems(3) r ok obtain v1 b reads where v1: "rs_executor st1 = Running v1"
    and x: "receiver_execute_tx (rn_enforced_bytecode_compression rn) (rn_vm rn) reads tx v = Inr (b, v1)"
    and t: "\<And>t. res = Inr t \<Longrightarrow> (\<forall>reason. vr_result (bt_tx_result b) \<noteq> Halt reason)
      \<and> tx_result_of rn fa (ni_fee_input_provider s) bx env tx i (rs_next_log_index st) b = Inr t"
    by (rule run_tx_executed) blast
  show ?case
  proof (cases res)
    case (Inr t)
    with t x have step: "machine_step rn core (core v) tx (core v1)" by (auto simp: machine_step_def)
    have info: "info_tx (res_info t) = tx" using t [OF Inr] tx_result_of_info by blast
    have "machine_steps rn core c (map (\<lambda>r. info_tx (res_info r)) (acc @ [t])) (core v1)"
      using machine_steps.snoc [OF Cons.prems(4) step] info by simp
    with Cons.IH [of "i + 1" "acc @ [t]" st1 v1] Cons.prems(1,2) r Inr v1 show ?thesis by simp
  next
    case (Inl f)
    with ok obtain e where e: "f = Err e" "is_recoverable e" by auto
    obtain v2 where v2: "executor_rollback_last_tx (rn_enforced_bytecode_compression rn) (rn_vm rn)
        (storage_view (fork_as_source (ni_fork s)) (rs_storage st1)) (Running v1) = (Inr (), Running v2)" "core v2 = core v"
      using rollback_after_execute [OF laws x] by blast
    with Cons.IH [of i acc "st1\<lparr>rs_executor := Running v2\<rparr>" v2] Cons.prems r Inl e v1 show ?thesis by simp
  qed
qed simp

text \<open>C27: batches are atomic per transaction. When the transactions of a batch pass validation and the run
  succeeds, the machine ends in the state that results from executing exactly the recorded transactions, one after
  the other: those that halted were rolled back and left no trace.\<close>

theorem batch_atomic:
  assumes "snapshot_laws (rn_vm rn) core saved"
    and "run_txs rn fa na s bx env imp txs 0 [] \<lparr>rs_executor = Running v, rs_storage = storage, rs_next_log_index = 0\<rparr>
      = (Inr rs, st')"
    and "\<forall>tx \<in> set txs. valid_tx env tx"
  shows "\<exists>v'. rs_executor st' = Running v' \<and> machine_steps rn core (core v) (map (\<lambda>r. info_tx (res_info r)) rs) (core v')"
  using run_txs_atomic [OF assms, of v "core v"] by (simp add: machine_steps.none)

lemma run_txs_invalid_first:
  assumes "snapshot_laws (rn_vm rn) core saved" and "\<not> valid_tx env bad"
    and "rs_executor st = Running v" and "saved v = []"
  shows "fst (run_txs rn fa na s bx env imp (bad # txs) i acc st) = Inl (Err (NodeGenericError ''batch executor panicked''))"
proof -
  obtain m where "bv_rollback_to_the_latest_snapshot (rn_vm rn) v = Inl (Panic m)"
    using snapshot_lawsD(6) [OF assms(1,4)] by blast
  moreover obtain e where "run_tx rn fa na s bx env imp bad i st
      = (Inl (Err (TransactionValidationFailed e (tx_hash bad))), st)"
    using run_tx_invalid [OF assms(2)] by blast
  ultimately show ?thesis by (simp add: assms(3) executor_rollback_last_tx_def receiver_rollback_last_tx_def)
qed

text \<open>A transaction that fails validation undoes its predecessor. It was never executed, but the runner rolls the
  machine back all the same: the recorded transaction before it is undone in the machine while its result is kept,
  and an invalid transaction at the start of a batch fails the whole batch.\<close>

theorem invalid_tx_rollback:
  assumes "snapshot_laws (rn_vm rn) core saved" and "\<not> valid_tx env bad"
    and "st = \<lparr>rs_executor = Running v, rs_storage = storage, rs_next_log_index = 0\<rparr>"
  shows "(valid_tx env tx \<and> run_tx rn fa na s bx env imp tx 0 st = (Inr t, st1) \<longrightarrow>
      (\<exists>st2 v'. run_txs rn fa na s bx env imp [tx, bad] 0 [] st = (Inr [t], st2)
        \<and> rs_executor st2 = Running v' \<and> core v' = core v))
    \<and> (saved v = [] \<longrightarrow> fst (run_txs rn fa na s bx env imp (bad # txs) 0 [] st)
        = Inl (Err (NodeGenericError ''batch executor panicked'')))"
proof (intro conjI impI)
  assume a: "valid_tx env tx \<and> run_tx rn fa na s bx env imp tx 0 st = (Inr t, st1)"
  obtain v1 b reads where v1: "rs_executor st1 = Running v1"
    and x: "receiver_execute_tx (rn_enforced_bytecode_compression rn) (rn_vm rn) reads tx v = Inr (b, v1)"
    by (rule run_tx_executed [of env tx st v rn fa na s bx imp 0 "Inr t" st1]) (use a assms(3) in auto)
  obtain e where "run_tx rn fa na s bx env imp bad 1 st1 = (Inl (Err (TransactionValidationFailed e (tx_hash bad))), st1)"
    using run_tx_invalid [OF assms(2)] by blast
  then show "\<exists>st2 v'. run_txs rn fa na s bx env imp [tx, bad] 0 [] st = (Inr [t], st2)
      \<and> rs_executor st2 = Running v' \<and> core v' = core v"
    using a v1 rollback_after_execute [OF assms(1) x, of "storage_view (fork_as_source (ni_fork s)) (rs_storage st1)"]
    by auto
next
  assume "saved v = []"
  then show "fst (run_txs rn fa na s bx env imp (bad # txs) 0 [] st)
      = Inl (Err (NodeGenericError ''batch executor panicked''))"
    by (intro run_txs_invalid_first [OF assms(1,2)]) (simp_all add: assms(3))
qed

section \<open>Receipts\<close>

lemma run_tx_Inr:
  assumes "run_tx rn fa na s bx env imp tx i st = (Inr t, st')"
  shows "\<exists>r. tx_result_of rn fa (ni_fee_input_provider s) bx env tx i (rs_next_log_index st) r = Inr t
    \<and> rs_next_log_index st' = rs_next_log_index st + length (vr_user_l2_to_l1_logs (bt_tx_result r))"
proof (cases "valid_tx env tx")
  case True
  with assms show ?thesis
    by (auto simp: run_tx_valid split: prod.splits sum.splits execution_result.splits)
next
  case False
  then show ?thesis using assms run_tx_invalid [of env tx rn fa na s bx imp i st] by auto
qed

lemma run_tx_Err:
  assumes "run_tx rn fa na s bx env imp tx i st = (Inl (Err e), st')"
  shows "rs_next_log_index st' = rs_next_log_index st \<and> rs_storage st' = rs_storage st"
proof (cases "valid_tx env tx")
  case True
  with assms show ?thesis
    by (auto simp: run_tx_valid split: prod.splits sum.splits execution_result.splits if_splits)
next
  case False
  then show ?thesis using assms run_tx_invalid [of env tx rn fa na s bx imp i st] by auto
qed

lemma make_l2_to_l1_logs_index:
  "map l2l1_log_index (make_l2_to_l1_logs bx env h i n r) = map of_nat [n..<n + length (vr_user_l2_to_l1_logs r)]"
proof -
  let ?xs = "vr_user_l2_to_l1_logs r"
  have "map l2l1_log_index (make_l2_to_l1_logs bx env h i n r) = map of_nat (map (\<lambda>k. k + n) (map fst (enumerate 0 ?xs)))"
    by (simp add: make_l2_to_l1_logs_def case_prod_beta add.commute o_def del: map_fst_enumerate)
  also have "map (\<lambda>k. k + n) (map fst (enumerate 0 ?xs)) = [n..<n + length ?xs]"
    by (simp only: map_fst_enumerate add_0_left map_add_upt) (simp add: add.commute)
  finally show ?thesis .
qed

text \<open>Receipts of a batch: numbered in order, all pointing to one block and batch, with the messages to L1 numbered through the
  whole batch.\<close>

definition receipts_ok :: "block_context \<Rightarrow> l1_batch_env \<Rightarrow> transaction_result list \<Rightarrow> bool" where
  "receipts_ok bx env rs \<longleftrightarrow>
     (\<forall>j < length rs. rcpt_transaction_index (res_receipt (rs ! j)) = of_nat j
        \<and> rcpt_block_hash (res_receipt (rs ! j)) = bx_hash bx
        \<and> rcpt_block_number (res_receipt (rs ! j)) = bx_miniblock bx
        \<and> rcpt_l1_batch_number (res_receipt (rs ! j)) = Some (ucast (env_number env))
        \<and> rcpt_transaction_hash (res_receipt (rs ! j)) = tx_hash (info_tx (res_info (rs ! j))))
   \<and> map l2l1_log_index (concat (map (\<lambda>r. rcpt_l2_to_l1_logs (res_receipt r)) rs))
      = map of_nat [0..<length (concat (map (\<lambda>r. rcpt_l2_to_l1_logs (res_receipt r)) rs))]"

abbreviation messages :: "transaction_result list \<Rightarrow> l2_to_l1_log list" where
  "messages rs \<equiv> concat (map (\<lambda>r. rcpt_l2_to_l1_logs (res_receipt r)) rs)"

lemma receipts_ok_snoc:
  assumes "receipts_ok bx env rs" and "length (messages rs) = n"
    and "tx_result_of rn fa p bx env tx (of_nat (length rs)) n r = Inr t"
  shows "receipts_ok bx env (rs @ [t])
    \<and> length (messages (rs @ [t])) = n + length (vr_user_l2_to_l1_logs (bt_tx_result r))"
proof -
  from tx_result_of_info [OF assms(3)] obtain g where i: "info_tx (res_info t) = tx"
    and t: "res_receipt t = make_receipt rn fa p bx env tx (of_nat (length rs)) n g (bt_tx_result r)" by blast
  have l: "rcpt_l2_to_l1_logs (res_receipt t)
      = make_l2_to_l1_logs bx env (tx_hash tx) (of_nat (length rs)) n (bt_tx_result r)"
    by (simp add: t make_receipt_def)
  have len: "length (make_l2_to_l1_logs bx env h k m (bt_tx_result r)) = length (vr_user_l2_to_l1_logs (bt_tx_result r))" for h k m
    by (simp add: make_l2_to_l1_logs_def)
  have split: "[0..<k + m] = [0..<k] @ [k..<k + m]" for k m :: nat by (rule upt_add_eq_append) simp
  show ?thesis
    using assms(1,2)
    by (auto simp: receipts_ok_def nth_append i t make_receipt_def less_Suc_eq)
      (simp_all add: make_l2_to_l1_logs_index split len)
qed

lemma run_txs_receipts:
  assumes "run_txs rn fa na s bx env imp txs (of_nat (length acc)) acc st = (Inr rs, st')"
    and "receipts_ok bx env acc" and "rs_next_log_index st = length (messages acc)"
  shows "receipts_ok bx env rs \<and> (\<exists>picked. rs = acc @ picked \<and> subseq (map (\<lambda>r. info_tx (res_info r)) picked) txs)"
  using assms
proof (induction txs arbitrary: acc st)
  case (Cons tx txs)
  obtain res st1 where r: "run_tx rn fa na s bx env imp tx (of_nat (length acc)) st = (res, st1)" by fastforce
  show ?case
  proof (cases res)
    case (Inr t)
    from run_tx_Inr [OF r [unfolded Inr]] obtain b where b: "tx_result_of rn fa (ni_fee_input_provider s) bx env tx
        (of_nat (length acc)) (length (messages acc)) b = Inr t"
      "rs_next_log_index st1 = length (messages acc) + length (vr_user_l2_to_l1_logs (bt_tx_result b))"
      using Cons.prems(3) by auto
    note ok = receipts_ok_snoc [OF Cons.prems(2) refl b(1)]
    from Cons.prems(1) r Inr have "run_txs rn fa na s bx env imp txs (of_nat (length (acc @ [t]))) (acc @ [t]) st1 = (Inr rs, st')"
      by (simp add: add.commute)
    from Cons.IH [OF this] ok b(2) obtain picked where "receipts_ok bx env rs" "rs = acc @ t # picked"
      "subseq (map (\<lambda>r. info_tx (res_info r)) picked) txs" by auto
    then show ?thesis using tx_result_of_info [OF b(1)] by (intro conjI exI [of _ "t # picked"]) auto
  next
    case (Inl f)
    with Cons.prems(1) r obtain e e' where "f = Err e"
      and rest: "run_txs rn fa na s bx env imp txs (of_nat (length acc)) acc (st1\<lparr>rs_executor := e'\<rparr>) = (Inr rs, st')"
      by (auto split: failure.splits if_splits prod.splits sum.splits)
    with run_tx_Err [of rn fa na s bx env imp tx "of_nat (length acc)" st e st1] r Inl
    have "rs_next_log_index (st1\<lparr>rs_executor := e'\<rparr>) = length (messages acc)" using Cons.prems(3) by simp
    from Cons.IH [OF rest Cons.prems(2) this] show ?thesis by auto
  qed
qed auto

section \<open>The result of a batch\<close>

abbreviation block_hash_of ::
  "'h chain_api \<Rightarrow> protocol_version \<Rightarrow> block_context \<Rightarrow> h256 list \<Rightarrow> h256" where
  "block_hash_of ca version bx hashes \<equiv> compute_hash ca version (ucast (bx_miniblock bx)) (bx_timestamp bx)
     (bx_prev_block_hash bx) hashes"

lemma virtual_block_time [simp]: "snd (virtual_block_ctx ca version b t) = snd (advance_timestamp t)"
  by (simp add: virtual_block_ctx_def new_block_def split_def Let_def)

lemma conclude_batch_Inr:
  assumes "conclude_batch ca rn version hashes env bx rs e s = (Inr res, s')"
    and b: "b = bx\<lparr>bx_hash := block_hash_of ca version bx (map (\<lambda>r. rcpt_transaction_hash (res_receipt r)) rs)\<rparr>"
  shows "br_batch_env res = env \<and> br_tx_results res = rs
    \<and> br_block_ctxs res = (if rs = [] then [b] else [b, fst (virtual_block_ctx ca version b (ni_time s))])
    \<and> s' = s\<lparr>ni_time := if rs = [] then ni_time s else snd (advance_timestamp (ni_time s))\<rparr>"
  using assms by (auto simp: conclude_batch_def Let_def split_def split: sum.splits if_splits)

lemma run_tx_batch_elim:
  assumes "run_tx_batch ca rn fa na batch s = (Inr res, s')"
  obtains env bx v rs st time where "create_l1_batch_env ca fa s = Inr (env, bx)" and "br_batch_env res = env"
    and "run_txs rn fa na (s\<lparr>ni_time := time\<rparr>)
        (bx\<lparr>bx_hash := block_hash_of ca (ni_protocol_version s) bx (map tx_hash (batch_txs batch))\<rparr>) env
        (batch_impersonating batch) (batch_txs batch) 0 []
        \<lparr>rs_executor = Running v, rs_storage = ni_fork_storage s, rs_next_log_index = 0\<rparr> = (Inr rs, st)"
    and "br_tx_results res = rs" and "advance_timestamp (ni_time s) = (bx_timestamp bx, time)"
    and "br_block_ctxs res = (let b = bx\<lparr>bx_hash := block_hash_of ca (ni_protocol_version s) bx
          (map (\<lambda>r. rcpt_transaction_hash (res_receipt r)) rs)\<rparr>
        in if rs = [] then [b] else [b, fst (virtual_block_ctx ca (ni_protocol_version s) b time)])"
    and "s' = s\<lparr>ni_time := if rs = [] then time else snd (advance_timestamp time), ni_fork_storage := rs_storage st\<rparr>"
    and "\<exists>boojum sys raw. v = rn_vm_new rn boojum env sys raw"
proof -
  obtain c where c: "contracts VerifyExecute (batch_impersonating batch) (rn_system_contracts rn) = (Inr c :: (node_error, _) outcome)"
    by (cases "batch_impersonating batch") simp_all
  from assms c obtain env bx where e: "create_l1_batch_env ca fa s = Inr (env, bx)"
    by (auto simp: run_tx_batch_def Let_def split: sum.splits)
  obtain time where t: "advance_timestamp (ni_time s) = (bx_timestamp bx, time)"
    using assms c e by (cases "advance_timestamp (ni_time s)") (auto simp: run_tx_batch_def Let_def split: if_splits)
  define sys_env where "sys_env = create_system_env (rn_batch_computational_gas_limit rn) c VerifyExecute s"
  have ver: "se_version sys_env = ni_protocol_version s" by (simp add: sys_env_def create_system_env_def)
  define v where "v = rn_vm_new rn (sc_use_boojum (rn_system_contracts rn)) env sys_env
      (if sc_use_boojum (rn_system_contracts rn) then Some (fs_raw_storage (ni_fork_storage (s\<lparr>ni_time := time\<rparr>))) else None)"
  define bx1 where "bx1 = bx\<lparr>bx_hash := block_hash_of ca (ni_protocol_version s) bx (map tx_hash (batch_txs batch))\<rparr>"
  obtain rs st where x: "run_txs rn fa na (s\<lparr>ni_time := time\<rparr>) bx1 env
        (batch_impersonating batch) (batch_txs batch) 0 []
        \<lparr>rs_executor = Running v, rs_storage = ni_fork_storage s, rs_next_log_index = 0\<rparr> = (Inr rs, st)"
    and y: "conclude_batch ca rn (ni_protocol_version s) (contracts_hashes c) env bx1 rs (rs_executor st)
        (s\<lparr>ni_time := time, ni_fork_storage := rs_storage st\<rparr>) = (Inr res, s')"
    using assms c e t
    by (auto simp: run_tx_batch_def Let_def ver bx1_def simp flip: sys_env_def v_def split: sum.splits prod.splits)
  show thesis
    using conclude_batch_Inr [OF y refl] e t x by (intro that [of env bx time v rs st]) (auto simp: bx1_def Let_def v_def)
qed

text \<open>C28: the results of a batch are those of some of its transactions, in their order. The receipts are numbered
  from zero, all carry the batch and the number of the first block, and the messages to L1 are numbered through the
  batch. They carry the hash announced for a block with all transactions of the batch, which is the hash of the block
  when no transaction was dropped.\<close>

theorem batch_receipts:
  assumes "run_tx_batch ca rn fa na batch s = (Inr res, s')"
  shows "let b = hd (br_block_ctxs res);
      announced = b\<lparr>bx_hash := block_hash_of ca (ni_protocol_version s) b (map tx_hash (batch_txs batch))\<rparr>
    in receipts_ok announced (br_batch_env res) (br_tx_results res)
      \<and> subseq (map (\<lambda>r. info_tx (res_info r)) (br_tx_results res)) (batch_txs batch)
      \<and> (length (br_tx_results res) = length (batch_txs batch) \<longrightarrow> announced = b)"
  using assms
proof (rule run_tx_batch_elim)
  fix env bx v rs st time
  let ?hash = "block_hash_of ca (ni_protocol_version s) bx"
  assume env: "br_batch_env res = env" and rs: "br_tx_results res = rs"
    and ctxs: "br_block_ctxs res = (let b = bx\<lparr>bx_hash := ?hash (map (\<lambda>r. rcpt_transaction_hash (res_receipt r)) rs)\<rparr>
        in if rs = [] then [b] else [b, fst (virtual_block_ctx ca (ni_protocol_version s) b time)])"
    and run: "run_txs rn fa na (s\<lparr>ni_time := time\<rparr>) (bx\<lparr>bx_hash := ?hash (map tx_hash (batch_txs batch))\<rparr>) env
        (batch_impersonating batch) (batch_txs batch) 0 []
        \<lparr>rs_executor = Running v, rs_storage = ni_fork_storage s, rs_next_log_index = 0\<rparr> = (Inr rs, st)"
  have ok: "receipts_ok (bx\<lparr>bx_hash := ?hash (map tx_hash (batch_txs batch))\<rparr>) env rs
      \<and> subseq (map (\<lambda>r. info_tx (res_info r)) rs) (batch_txs batch)"
  proof -
    have "receipts_ok x env []" for x by (simp add: receipts_ok_def)
    from run_txs_receipts [OF _ this, of rn fa na _ _ _ "batch_txs batch", simplified, OF run] show ?thesis by simp
  qed
  have hd: "hd (br_block_ctxs res) = bx\<lparr>bx_hash := ?hash (map (\<lambda>r. rcpt_transaction_hash (res_receipt r)) rs)\<rparr>"
    by (simp add: ctxs Let_def)
  have "map (\<lambda>r. rcpt_transaction_hash (res_receipt r)) rs = map tx_hash (batch_txs batch)"
    if "length rs = length (batch_txs batch)"
  proof -
    have all: "map (\<lambda>r. info_tx (res_info r)) rs = batch_txs batch"
      using ok that by (metis length_map subseq_same_length)
    show ?thesis
      using ok unfolding all [symmetric] by (auto simp: receipts_ok_def in_set_conv_nth)
  qed
  then show ?thesis using ok by (simp add: Let_def hd env rs)
qed


section \<open>Concrete runs\<close>

definition sample_runner :: "(h256 list \<times> h256 list list) vm_runner" where
  "sample_runner = \<lparr>rn_enforced_bytecode_compression = False, rn_system_contracts = sample_system_contracts,
     rn_generate_system_logs = False, rn_vm = sample_batch_vm, rn_vm_new = (\<lambda>boojum env sys raw. ([], [])),
     rn_batch_computational_gas_limit = 80000000, rn_contract_deployer_address = 32774,
     rn_account_code_storage_address = 32770, rn_extract_bytecodes_marked_as_known = (\<lambda>evs. []),
     rn_hash_for_bytecode = (\<lambda>b. 0), rn_signatures_identifier = None\<rparr>"

text \<open>A good transaction, one that halts and one that pays too little.\<close>

abbreviation tx_good :: transaction where
  "tx_good \<equiv> sample_tx 1 10 50"

abbreviation tx_halting :: transaction where
  "tx_halting \<equiv> (sample_tx 2 10 50)\<lparr>tx_calldata := [1]\<rparr>"

abbreviation tx_cheap :: transaction where
  "tx_cheap \<equiv> sample_tx 3 10 1"

abbreviation sample_batch_env :: l1_batch_env where
  "sample_batch_env \<equiv> (genesis_batch_env 1001)\<lparr>env_number := 1, env_fee_input := L1Pegged 10 7\<rparr>"

abbreviation sample_run ::
  "transaction list \<Rightarrow> (node_error, transaction_result list) outcome \<times> (h256 list \<times> h256 list list) run_state" where
  "sample_run txs \<equiv> run_txs sample_runner sample_fee_api sample_node_api (sample_node None)
     \<lparr>bx_hash = 55, bx_batch = 1, bx_miniblock = 1, bx_timestamp = 1001, bx_prev_block_hash = 1000\<rparr> sample_batch_env False txs 0 []
     \<lparr>rs_executor = Running ([], []), rs_storage = ni_fork_storage (sample_node None), rs_next_log_index = 0\<rparr>"

lemma u64_MAX_256: "ucast u64_MAX = (18446744073709551615 :: u256)"
  unfolding u64_MAX_def by (rule word_uint_eqI) (simp add: uint_up_ucast is_up unsigned_minus_1_eq_mask mask_eq_exp_minus_1)

lemma sample_valid:
  assumes "fair_l2_gas_price (env_fee_input env) = 7"
  shows "valid_tx env tx_good" "valid_tx env tx_halting" "\<not> valid_tx env tx_cheap"
  by (simp_all add: valid_tx_def validate_tx_def sample_tx_def u64_MAX_256 assms Let_def)

lemma sample_run_tx_pretty [simp]:
  "run_tx_pretty sample_runner reads tx (Running (c, saved))
    = (Inr (sample_batch_tx_result (tx_calldata tx = [])), Running (c @ [tx_hash tx], c # tl saved))"
  by (simp add: run_tx_pretty_def sample_runner_def sample_batch_vm_def sample_batch_tx_result_def executor_execute_tx_def
      receiver_execute_tx_def execute_tx_in_vm_with_optional_compression_def Let_def)

lemma sample_tx_result_of:
  "\<exists>t. tx_result_of sample_runner fa p bx env tx i n (sample_batch_tx_result True) = Inr t"
  by (simp add: tx_result_of_def sample_runner_def sample_batch_tx_result_def Let_def new_bytecodes_def create_debug_output_def)

lemma sample_run_tx:
  assumes "valid_tx env tx" and "rs_executor st = Running (c, saved)"
  shows "tx_calldata tx = [] \<Longrightarrow> \<exists>t. run_tx sample_runner fa na s bx env False tx i st
      = (Inr t, st\<lparr>rs_executor := Running (c @ [tx_hash tx], c # tl saved)\<rparr>)"
    and "tx_calldata tx \<noteq> [] \<Longrightarrow> run_tx sample_runner fa na s bx env False tx i st
      = (Inl (Err (TransactionHalted ''validation'' (tx_hash tx))), st\<lparr>rs_executor := Running (c @ [tx_hash tx], c # tl saved)\<rparr>)"
proof -
  obtain t where "tx_result_of sample_runner fa (ni_fee_input_provider s) bx env tx i (rs_next_log_index st) (sample_batch_tx_result True) = Inr t"
    using sample_tx_result_of by blast
  then show "tx_calldata tx = [] \<Longrightarrow> \<exists>t. run_tx sample_runner fa na s bx env False tx i st
      = (Inr t, st\<lparr>rs_executor := Running (c @ [tx_hash tx], c # tl saved)\<rparr>)"
    by (simp add: run_tx_valid [OF assms(1)] assms(2)) (simp add: sample_batch_tx_result_def)
  show "tx_calldata tx \<noteq> [] \<Longrightarrow> run_tx sample_runner fa na s bx env False tx i st
      = (Inl (Err (TransactionHalted ''validation'' (tx_hash tx))), st\<lparr>rs_executor := Running (c @ [tx_hash tx], c # tl saved)\<rparr>)"
    by (simp add: run_tx_valid [OF assms(1)] assms(2)) (simp add: sample_batch_tx_result_def)
qed

lemma sample_rollback [simp]:
  "executor_rollback_last_tx e (rn_vm sample_runner) reads (Running (c, d # ds)) = (Inr (), Running (d, ds))"
  by (simp add: sample_runner_def sample_batch_vm_def executor_rollback_last_tx_def receiver_rollback_last_tx_def)

lemma sample_run_txs:
  assumes env: "fair_l2_gas_price (env_fee_input env) = 7"
  shows "\<exists>t st. run_txs sample_runner fa na s bx env False [tx_good, tx_halting] 0 []
      \<lparr>rs_executor = Running ([], []), rs_storage = storage, rs_next_log_index = 0\<rparr> = (Inr [t], st)
    \<and> rs_executor st = Running ([1], [])"
proof -
  let ?st = "\<lparr>rs_executor = Running ([], []), rs_storage = storage, rs_next_log_index = 0\<rparr> :: (h256 list \<times> h256 list list) run_state"
  obtain t where t: "run_tx sample_runner fa na s bx env False tx_good 0 ?st
      = (Inr t, ?st\<lparr>rs_executor := Running ([1], [[]])\<rparr>)"
    using sample_run_tx(1) [OF sample_valid(1) [OF env], of ?st "[]" "[]" fa na s bx 0] by (auto simp: sample_tx_def)
  have "run_tx sample_runner fa na s bx env False tx_halting 1 (?st\<lparr>rs_executor := Running ([1], [[]])\<rparr>)
      = (Inl (Err (TransactionHalted ''validation'' 2)), ?st\<lparr>rs_executor := Running ([1, 2], [[1]])\<rparr>)"
    using sample_run_tx(2) [OF sample_valid(2) [OF env], of "?st\<lparr>rs_executor := Running ([1], [[]])\<rparr>" "[1]" "[[]]" fa na s bx 1] by simp
  with t show ?thesis by simp
qed

theorem batch_atomic_witness:
  "\<exists>rs st v'. sample_run [tx_good, tx_halting] = (Inr rs, st) \<and> rs_executor st = Running v'
    \<and> machine_steps sample_runner fst [] (map (\<lambda>r. info_tx (res_info r)) rs) (fst v')"
proof -
  have price: "fair_l2_gas_price (env_fee_input sample_batch_env) = 7" by simp
  obtain rs st where r: "sample_run [tx_good, tx_halting] = (Inr rs, st)"
    using sample_run_txs [OF price, of sample_fee_api sample_node_api "sample_node None"] by blast
  have "snapshot_laws (rn_vm sample_runner) fst snd" using sample_batch_vm_laws by (simp add: sample_runner_def)
  from batch_atomic [OF this r] sample_valid [OF price] show ?thesis using r by auto
qed

theorem invalid_tx_rollback_witness:
  "\<exists>t st v'. sample_run [tx_good, tx_cheap] = (Inr [t], st) \<and> rs_executor st = Running v' \<and> fst v' = []
    \<and> fst (sample_run [tx_cheap, tx_good]) = Inl (Err (NodeGenericError ''batch executor panicked''))"
proof -
  have laws: "snapshot_laws (rn_vm sample_runner) fst snd" using sample_batch_vm_laws by (simp add: sample_runner_def)
  have price: "fair_l2_gas_price (env_fee_input sample_batch_env) = 7" by simp
  note valid = sample_valid [OF price]
  have good: "tx_calldata tx_good = []" by (simp add: sample_tx_def)
  obtain t st where t: "run_tx sample_runner sample_fee_api sample_node_api (sample_node None)
      \<lparr>bx_hash = 55, bx_batch = 1, bx_miniblock = 1, bx_timestamp = 1001, bx_prev_block_hash = 1000\<rparr> sample_batch_env False
      tx_good 0 \<lparr>rs_executor = Running ([], []), rs_storage = ni_fork_storage (sample_node None), rs_next_log_index = 0\<rparr>
      = (Inr t, st)"
    using sample_run_tx(1) [OF valid(1), of "\<lparr>rs_executor = Running ([], []), rs_storage = ni_fork_storage (sample_node None),
      rs_next_log_index = 0\<rparr>" "[]" "[]" sample_fee_api sample_node_api "sample_node None"] good by fastforce
  from invalid_tx_rollback [OF laws valid(3) refl, of tx_good sample_fee_api sample_node_api "sample_node None"] valid(1) t
  show ?thesis by fastforce
qed

definition sample_tx_batch :: tx_batch where
  "sample_tx_batch = \<lparr>batch_impersonating = False, batch_txs = [tx_good, tx_halting]\<rparr>"

lemma sample_conclude:
  "\<exists>res s'. conclude_batch ca sample_runner ver hashes env bx rs (Running v) s = (Inr res, s') \<and> br_tx_results res = rs"
  by (auto simp: conclude_batch_def finish_run_def sample_runner_def sample_batch_vm_def executor_start_next_l2_block_def
      executor_bootloader_def receiver_bootloader_def sample_batch_tx_result_def Let_def split_def)

lemma sample_env_price:
  assumes "create_l1_batch_env sample_chain_api sample_fee_api (sample_node None) = Inr (env, bx)"
  shows "fair_l2_gas_price (env_fee_input env) = 7"
  using assms by (auto simp: create_l1_batch_env_def sample_node_read Let_def split_def)
    (simp add: sample_defs get_batch_fee_input_def sample_fee_api_def provider_default_def enforce_base_fee_def Let_def split_def)

lemma sample_run_tx_batch:
  "\<exists>res s'. run_tx_batch sample_chain_api sample_runner sample_fee_api sample_node_api sample_tx_batch (sample_node None)
     = (Inr res, s') \<and> length (br_tx_results res) = 1"
proof -
  let ?s = "sample_node None"
  obtain env bx where e: "create_l1_batch_env sample_chain_api sample_fee_api ?s = Inr (env, bx)"
    using sample_env by fastforce
  have bx: "bx_timestamp bx = peek_next_timestamp (ni_time ?s)" "fair_l2_gas_price (env_fee_input env) = 7"
    using e sample_env_price [OF e] by (auto simp: create_l1_batch_env_def sample_node_read Let_def split_def)
  have new: "rn_vm_new sample_runner b env' sys raw = ([], [])" for b env' sys raw by (simp add: sample_runner_def)
  obtain time where t: "advance_timestamp (ni_time ?s) = (bx_timestamp bx, time)"
    using node_clock.advance_is_peek [of "ni_time ?s"] by (cases "advance_timestamp (ni_time ?s)") (simp add: bx(1))
  let ?bx = "bx\<lparr>bx_hash := compute_hash sample_chain_api (ni_protocol_version ?s) (ucast (bx_miniblock bx)) (bx_timestamp bx)
      (bx_prev_block_hash bx) [1, 2]\<rparr>"
  obtain t st where r: "run_txs sample_runner sample_fee_api sample_node_api (?s\<lparr>ni_time := time\<rparr>) ?bx env False
      [tx_good, tx_halting] 0 [] \<lparr>rs_executor = Running ([], []), rs_storage = ni_fork_storage ?s, rs_next_log_index = 0\<rparr>
      = (Inr [t], st)" "rs_executor st = Running ([1], [])"
    using sample_run_txs [OF bx(2)] by blast
  have "se_version (create_system_env gl cs mode ?s) = ni_protocol_version ?s" for gl cs mode
    by (simp add: create_system_env_def)
  then have "run_tx_batch sample_chain_api sample_runner sample_fee_api sample_node_api sample_tx_batch ?s
      = conclude_batch sample_chain_api sample_runner (ni_protocol_version ?s)
          (contracts_hashes (sc_baseline_contracts (rn_system_contracts sample_runner))) env ?bx [t] (Running ([1], []))
          (?s\<lparr>ni_time := time, ni_fork_storage := rs_storage st\<rparr>)"
    using r by (simp add: run_tx_batch_def sample_tx_batch_def e t new Let_def del: run_txs.simps)
  then show ?thesis using sample_conclude by fastforce
qed

theorem batch_receipts_witness:
  "\<exists>res s'. run_tx_batch sample_chain_api sample_runner sample_fee_api sample_node_api sample_tx_batch (sample_node None)
     = (Inr res, s') \<and> length (br_tx_results res) = 1
    \<and> subseq (map (\<lambda>r. info_tx (res_info r)) (br_tx_results res)) [tx_good, tx_halting]"
proof -
  obtain res s' where r: "run_tx_batch sample_chain_api sample_runner sample_fee_api sample_node_api sample_tx_batch (sample_node None)
     = (Inr res, s')" "length (br_tx_results res) = 1"
    using sample_run_tx_batch by blast
  from batch_receipts [OF r(1)] r show ?thesis by (auto simp: Let_def sample_tx_batch_def)
qed

lemma sample_ticking:
  "time_ticking (ni_time (sample_node None))" "time_ticking (snd (advance_timestamp (ni_time (sample_node None))))"
  by (simp_all add: sample_defs time_ticking_def time_valid_def time_new_def advance_timestamp_def interval_or_default_def
      saturating_add_def u64_MAX_def Let_def split_def)


end
