(* ===== verification/Node_Executor.thy ===== *)
theory Node_Executor
  imports Vm_Runner
begin

text \<open>
  The command executor of the node: \<open>crates/core/src/node/inner/node_executor.rs\<close>.

  One task owns the right to change the node. It receives commands from a channel and handles them one at a time;
  the handle sends a command and, for most commands, waits for the reply. The channel is a queue of commands
  not yet handled. The task ends when handling a command fails with an error that \<open>run\<close> passes up or panics; it is
  then \<open>Gone\<close> and every request fails. It is \<open>Stuck\<close> when a command waits for a lock that its own handler holds; a
  request then waits forever. A panic while a block is applied leaves the node partly changed in the source; the
  model keeps the node as it was before the block was applied. Log messages and the progress bar are left out.
\<close>

section \<open>Commands\<close>

datatype node_command =
    SealBlock tx_batch
  | SealBlocks "tx_batch list" u64
  | SetCode address bytes
  | SetStorage storage_key u256
  | SetBalance address u256
  | SetNonce address u256
  | ResetFork string "u32 option"
  | ResetForkBlockNumber u32
  | SetForkUrl string
  | RemoveFork
  | IncreaseTime u64
  | EnforceNextTimestamp u64
  | SetCurrentTimestamp u64
  | SetTimestampInterval u64
  | RemoveTimestampInterval
  | EnforceNextBaseFeePerGas u256
  | SetProgressReport

datatype node_reply =
    ReplyNumber "node_error + u32"
  | ReplyNumbers "node_error + u32 list"
  | ReplyDone
  | ReplyResult "node_error + unit"
  | ReplyUrl "string option"
  | ReplyDiff int
  | ReplyRemoved bool

text \<open>What the executor uses of other crates: bytecode hashes, nonce packing and the RPC client for a URL.\<close>

record ('p, 'b, 't, 'td) exec_api =
  xa_get_code_key :: "address \<Rightarrow> storage_key"
  xa_is_evm_bytecode :: "bytes \<Rightarrow> bool"
  xa_hash_for_bytecode :: "bytes \<Rightarrow> h256"
  xa_hash_for_raw_evm_bytecode :: "bytes \<Rightarrow> h256"
  xa_pad_evm_bytecode :: "bytes \<Rightarrow> bytes"
  xa_nonces_to_full_nonce :: "u256 \<Rightarrow> u256 \<Rightarrow> u256"
  xa_chain_id_try_from :: "u64 \<Rightarrow> string + u64"
  xa_http_client :: "string \<Rightarrow> string + ('p, 'b, 't, 'td) l2_client"

record ('h, 'v, 'f, 'p, 'b, 't, 'td) node_env =
  en_chain :: "'h chain_api"
  en_runner :: "'v vm_runner"
  en_fee :: "('f, 'p) fee_api"
  en_node :: node_api
  en_exec :: "('p, 'b, 't, 'td) exec_api"

section \<open>Handlers\<close>

datatype 'a handled = Reply 'a | Ends | Waits

type_synonym ('f, 'p, 'b, 't, 'td) handling = "node_reply handled \<times> ('f, 'p, 'b, 't, 'td) node_inner"

text \<open>Running and applying one batch, shared by the two sealing commands.\<close>

definition run_and_seal ::
  "('h, 'v, 'f, 'p, 'b, 't, 'td) node_env \<Rightarrow> tx_batch \<Rightarrow> ('f, 'p, 'b, 't, 'td) node_inner
     \<Rightarrow> (node_error, u32) outcome \<times> ('f, 'p, 'b, 't, 'td) node_inner" where
  "run_and_seal env tx_batch s =
     (case run_tx_batch (en_chain env) (en_runner env) (en_fee env) (en_node env) tx_batch s of
        (Inl f, s') \<Rightarrow> (Inl f, s')
      | (Inr result, s') \<Rightarrow> (case seal_block (en_chain env) (en_node env) result s' of
            Inl f \<Rightarrow> (Inl (case f of Err m \<Rightarrow> Err (NodeGenericError m) | Panic m \<Rightarrow> Panic m), s')
          | Inr (number, s'') \<Rightarrow> (Inr number, s'')))"

text \<open>An error of the run ends the executor, an error of the seal is replied.\<close>

definition exec_seal_block ::
  "('h, 'v, 'f, 'p, 'b, 't, 'td) node_env \<Rightarrow> tx_batch \<Rightarrow> ('f, 'p, 'b, 't, 'td) node_inner
     \<Rightarrow> ('f, 'p, 'b, 't, 'td) handling" where
  "exec_seal_block env tx_batch s =
     (case run_tx_batch (en_chain env) (en_runner env) (en_fee env) (en_node env) tx_batch s of
        (Inl f, s') \<Rightarrow> (Ends, s')
      | (Inr result, s') \<Rightarrow> (case seal_block (en_chain env) (en_node env) result s' of
            Inl (Err m) \<Rightarrow> (Reply (ReplyNumber (Inl (NodeGenericError m))), s')
          | Inl (Panic m) \<Rightarrow> (Ends, s')
          | Inr (number, s'') \<Rightarrow> (Reply (ReplyNumber (Inr number)), s'')))"

text \<open>The interval replaces that of the clock from the second block on.\<close>

fun seal_each ::
  "('h, 'v, 'f, 'p, 'b, 't, 'td) node_env \<Rightarrow> u64 \<Rightarrow> nat \<Rightarrow> tx_batch list \<Rightarrow> u32 list \<Rightarrow> ('f, 'p, 'b, 't, 'td) node_inner
     \<Rightarrow> (node_error, u32 list) outcome \<times> ('f, 'p, 'b, 't, 'td) node_inner" where
  "seal_each env gap i [] block_numbers s = (Inr block_numbers, s)"
| "seal_each env gap i (tx_batch # tx_batches) block_numbers s =
     (let s = (if i = 1 then s\<lparr>ni_time := set_block_timestamp_interval (Some gap) (ni_time s)\<rparr> else s)
      in case run_and_seal env tx_batch s of
           (Inl f, s') \<Rightarrow> (Inl f, s')
         | (Inr number, s') \<Rightarrow> seal_each env gap (Suc i) tx_batches (block_numbers @ [number]) s')"

definition exec_seal_blocks ::
  "('h, 'v, 'f, 'p, 'b, 't, 'td) node_env \<Rightarrow> tx_batch list \<Rightarrow> u64 \<Rightarrow> ('f, 'p, 'b, 't, 'td) node_inner
     \<Rightarrow> ('f, 'p, 'b, 't, 'td) handling" where
  "exec_seal_blocks env tx_batches gap s =
     (let old_interval = get_block_timestamp_interval (ni_time s)
      in case seal_each env gap 0 tx_batches [] s of
           (Inl (Panic m), s') \<Rightarrow> (Ends, s')
         | (Inl (Err e), s') \<Rightarrow>
             (Reply (ReplyNumbers (Inl e)), s'\<lparr>ni_time := set_block_timestamp_interval old_interval (ni_time s')\<rparr>)
         | (Inr numbers, s') \<Rightarrow>
             (Reply (ReplyNumbers (Inr numbers)), s'\<lparr>ni_time := set_block_timestamp_interval old_interval (ni_time s')\<rparr>))"

definition write_storage ::
  "storage_key \<Rightarrow> storage_value \<Rightarrow> ('f, 'p, 'b, 't, 'td) node_inner \<Rightarrow> ('f, 'p, 'b, 't, 'td) node_inner" where
  "write_storage key v s = s\<lparr>ni_fork_storage := fs_set_value key v (ni_fork_storage s)\<rparr>"

definition exec_set_code ::
  "('p, 'b, 't, 'td) exec_api \<Rightarrow> address \<Rightarrow> bytes \<Rightarrow> ('f, 'p, 'b, 't, 'td) node_inner \<Rightarrow> ('f, 'p, 'b, 't, 'td) handling" where
  "exec_set_code xa account bytecode s =
     (let code_key = xa_get_code_key xa account;
          evm = xa_is_evm_bytecode xa bytecode;
          bytecode_hash = (if evm then xa_hash_for_raw_evm_bytecode xa bytecode else xa_hash_for_bytecode xa bytecode);
          bytecode = (if evm then xa_pad_evm_bytecode xa bytecode else bytecode);
          s = s\<lparr>ni_fork_storage := fs_store_factory_dep bytecode_hash bytecode (ni_fork_storage s)\<rparr>
      in (Reply ReplyDone, write_storage code_key bytecode_hash s))"

definition exec_set_balance ::
  "node_api \<Rightarrow> address \<Rightarrow> u256 \<Rightarrow> ('f, 'p, 'b, 't, 'td) node_inner \<Rightarrow> ('f, 'p, 'b, 't, 'td) handling" where
  "exec_set_balance na account balance s =
     (case get_storage_key_for_base_token na (ni_storage_key_layout s) account of
        Inl (f :: string failure) \<Rightarrow> (Ends, s)
      | Inr balance_key \<Rightarrow> (Reply ReplyDone, write_storage balance_key balance s))"

definition exec_set_nonce ::
  "node_api \<Rightarrow> ('p, 'b, 't, 'td) exec_api \<Rightarrow> address \<Rightarrow> u256 \<Rightarrow> ('f, 'p, 'b, 't, 'td) node_inner
     \<Rightarrow> ('f, 'p, 'b, 't, 'td) handling" where
  "exec_set_nonce na xa account nonce s =
     (case get_nonce_key na (ni_storage_key_layout s) account of
        Inl (f :: string failure) \<Rightarrow> (Ends, s)
      | Inr nonce_key \<Rightarrow> (Reply ReplyDone, write_storage nonce_key (xa_nonces_to_full_nonce xa nonce nonce) s))"

definition new_fork_client ::
  "('p, 'b, 't, 'td) exec_api \<Rightarrow> 'f fork_config \<Rightarrow> u32 option \<Rightarrow> (string, ('f, 'p, 'b, 't, 'td) fork_client) outcome" where
  "new_fork_client xa config block_number =
     and_then (call (xa_http_client xa (fc_url config))) (\<lambda>client.
     at_block_number (xa_chain_id_try_from xa) config client block_number)"

definition exec_reset ::
  "('h, 'v, 'f, 'p, 'b, 't, 'td) node_env \<Rightarrow> ('f, 'p, 'b, 't, 'td) fork_client option \<Rightarrow> node_reply
     \<Rightarrow> ('f, 'p, 'b, 't, 'td) node_inner \<Rightarrow> ('f, 'p, 'b, 't, 'td) handling" where
  "exec_reset env fork_client reply s = (case inner_reset (en_chain env) (en_node env) fork_client s of
       Inl f \<Rightarrow> (Ends, s)
     | Inr s' \<Rightarrow> (Reply reply, s'))"

definition exec_reset_fork ::
  "('h, 'v, 'f, 'p, 'b, 't, 'td) node_env \<Rightarrow> string \<Rightarrow> u32 option \<Rightarrow> ('f, 'p, 'b, 't, 'td) node_inner
     \<Rightarrow> ('f, 'p, 'b, 't, 'td) handling" where
  "exec_reset_fork env url block_number s =
     (case new_fork_client (en_exec env) (fork_config_unknown (en_fee env) url) block_number of
        Inl (Err m) \<Rightarrow> (Reply (ReplyResult (Inl (NodeGenericError m))), s)
      | Inl (Panic m) \<Rightarrow> (Ends, s)
      | Inr fork_client \<Rightarrow> exec_reset env (Some fork_client) (ReplyResult (Inr ())) s)"

text \<open>The handler takes the write lock of the node to read the fork, keeps it, and takes the same lock again for the reset.\<close>

definition exec_reset_fork_block_number ::
  "('h, 'v, 'f, 'p, 'b, 't, 'td) node_env \<Rightarrow> u32 \<Rightarrow> ('f, 'p, 'b, 't, 'td) node_inner \<Rightarrow> ('f, 'p, 'b, 't, 'td) handling" where
  "exec_reset_fork_block_number env block_number s =
     (case (fork_url (ni_fork s), details (ni_fork s)) of
        (Some url, Some fork_details) \<Rightarrow>
          (case new_fork_client (en_exec env) \<lparr>fc_url = url,
                fc_estimate_gas_price_scale_factor = fd_estimate_gas_price_scale_factor fork_details,
                fc_estimate_gas_scale_factor = fd_estimate_gas_scale_factor fork_details\<rparr> (Some block_number) of
             Inl (Err m) \<Rightarrow> (Reply (ReplyResult (Inl (NodeGenericError m))), s)
           | Inl (Panic m) \<Rightarrow> (Ends, s)
           | Inr fork_client \<Rightarrow> (Waits, s))
      | _ \<Rightarrow> (Reply (ReplyResult (Inl (NodeGenericError ''no existing fork found''))), s))"

text \<open>The conversion of the base fee to 64 bits panics.\<close>

definition exec_enforce_next_base_fee_per_gas ::
  "u256 \<Rightarrow> ('f, 'p, 'b, 't, 'td) node_inner \<Rightarrow> ('f, 'p, 'b, 't, 'td) handling" where
  "exec_enforce_next_base_fee_per_gas base_fee s = (case as_u64 base_fee of
       Inl (f :: string failure) \<Rightarrow> (Ends, s)
     | Inr fee \<Rightarrow> (Reply ReplyDone, s\<lparr>ni_fee_input_provider := set_base_fee fee (ni_fee_input_provider s)\<rparr>))"

definition with_time ::
  "('a \<Rightarrow> node_reply) \<Rightarrow> (time_state \<Rightarrow> 'a \<times> time_state) \<Rightarrow> ('f, 'p, 'b, 't, 'td) node_inner \<Rightarrow> ('f, 'p, 'b, 't, 'td) handling" where
  "with_time reply f s = (let (r, t) = f (ni_time s) in (Reply (reply r), s\<lparr>ni_time := t\<rparr>))"

definition exec_enforce_next_timestamp ::
  "u64 \<Rightarrow> ('f, 'p, 'b, 't, 'td) node_inner \<Rightarrow> ('f, 'p, 'b, 't, 'td) handling" where
  "exec_enforce_next_timestamp timestamp s = (case enforce_next_timestamp timestamp (ni_time s) of
       Inl e \<Rightarrow> (Reply (ReplyResult (Inl (NodeGenericError ''timestamp backwards''))), s)
     | Inr t \<Rightarrow> (Reply (ReplyResult (Inr ())), s\<lparr>ni_time := t\<rparr>))"

fun exec_command ::
  "('h, 'v, 'f, 'p, 'b, 't, 'td) node_env \<Rightarrow> node_command \<Rightarrow> ('f, 'p, 'b, 't, 'td) node_inner
     \<Rightarrow> ('f, 'p, 'b, 't, 'td) handling" where
  "exec_command env (SealBlock tx_batch) s = exec_seal_block env tx_batch s"
| "exec_command env (SealBlocks tx_batches gap) s = exec_seal_blocks env tx_batches gap s"
| "exec_command env (SetCode account code) s = exec_set_code (en_exec env) account code s"
| "exec_command env (SetStorage key v) s = (Reply ReplyDone, write_storage key v s)"
| "exec_command env (SetBalance account balance) s = exec_set_balance (en_node env) account balance s"
| "exec_command env (SetNonce account nonce) s = exec_set_nonce (en_node env) (en_exec env) account nonce s"
| "exec_command env (ResetFork url block_number) s = exec_reset_fork env url block_number s"
| "exec_command env (ResetForkBlockNumber block_number) s = exec_reset_fork_block_number env block_number s"
| "exec_command env (SetForkUrl url) s =
     (let (old_url, fork) = set_fork_url url (ni_fork s) in (Reply (ReplyUrl old_url), s\<lparr>ni_fork := fork\<rparr>))"
| "exec_command env RemoveFork s = exec_reset env None ReplyDone s"
| "exec_command env (IncreaseTime delta) s = with_time (\<lambda>_. ReplyDone) (increase_time delta) s"
| "exec_command env (EnforceNextTimestamp timestamp) s = exec_enforce_next_timestamp timestamp s"
| "exec_command env (SetCurrentTimestamp timestamp) s = with_time ReplyDiff (set_current_timestamp_unchecked timestamp) s"
| "exec_command env (SetTimestampInterval delta) s =
     with_time (\<lambda>_. ReplyDone) (\<lambda>t. ((), set_block_timestamp_interval (Some delta) t)) s"
| "exec_command env RemoveTimestampInterval s = with_time ReplyRemoved remove_block_timestamp_interval s"
| "exec_command env (EnforceNextBaseFeePerGas base_fee) s = exec_enforce_next_base_fee_per_gas base_fee s"
| "exec_command env SetProgressReport s = (Reply ReplyDone, s)"

section \<open>The handle\<close>

datatype exec_status = Serving | Gone | Stuck

record ('f, 'p, 'b, 't, 'td) node_executor =
  nx_inner :: "('f, 'p, 'b, 't, 'td) node_inner"
  nx_status :: exec_status
  nx_queue :: "node_command list"

text \<open>The executor works through its queue; the reply of the last command is the one waited for.\<close>

fun exec_queue ::
  "('h, 'v, 'f, 'p, 'b, 't, 'td) node_env \<Rightarrow> node_reply option \<Rightarrow> node_command list \<Rightarrow> ('f, 'p, 'b, 't, 'td) node_inner
     \<Rightarrow> exec_status \<times> node_reply option \<times> ('f, 'p, 'b, 't, 'td) node_inner" where
  "exec_queue env r [] s = (Serving, r, s)"
| "exec_queue env r (cmd # cmds) s = (case exec_command env cmd s of
       (Reply r', s') \<Rightarrow> exec_queue env (Some r') cmds s'
     | (Ends, s') \<Rightarrow> (Gone, None, s')
     | (Waits, s') \<Rightarrow> (Stuck, None, s'))"

text \<open>The messages of the source name the command.\<close>

definition node_executor_dropped_error :: node_error where
  "node_executor_dropped_error = NodeGenericError ''node executor is dropped''"

definition CHANNEL_CAPACITY :: nat where
  "CHANNEL_CAPACITY = 128"

text \<open>A request that waits forever has no answer.\<close>

definition execute_without_response ::
  "node_command \<Rightarrow> ('f, 'p, 'b, 't, 'td) node_executor
     \<Rightarrow> (node_error + unit) option \<times> ('f, 'p, 'b, 't, 'td) node_executor" where
  "execute_without_response cmd x = (case nx_status x of
       Gone \<Rightarrow> (Some (Inl node_executor_dropped_error), x)
     | Stuck \<Rightarrow> (if length (nx_queue x) < CHANNEL_CAPACITY
         then (Some (Inr ()), x\<lparr>nx_queue := nx_queue x @ [cmd]\<rparr>) else (None, x))
     | Serving \<Rightarrow> (Some (Inr ()), x\<lparr>nx_queue := nx_queue x @ [cmd]\<rparr>))"

definition execute_with_response ::
  "('h, 'v, 'f, 'p, 'b, 't, 'td) node_env \<Rightarrow> node_command \<Rightarrow> ('f, 'p, 'b, 't, 'td) node_executor
     \<Rightarrow> (node_error + node_reply) option \<times> ('f, 'p, 'b, 't, 'td) node_executor" where
  "execute_with_response env cmd x = (case nx_status x of
       Gone \<Rightarrow> (Some (Inl node_executor_dropped_error), x)
     | Stuck \<Rightarrow> (None, x)
     | Serving \<Rightarrow> (case exec_queue env None (nx_queue x @ [cmd]) (nx_inner x) of
           (status, r, s) \<Rightarrow>
             ((case status of
                 Stuck \<Rightarrow> None
               | _ \<Rightarrow> Some (case r of None \<Rightarrow> Inl node_executor_dropped_error | Some reply \<Rightarrow> Inr reply)),
              \<lparr>nx_inner = s, nx_status = status, nx_queue = []\<rparr>)))"

section \<open>The requests of the handle\<close>

text \<open>The type of a reply channel is that of its command.\<close>

fun reply_number :: "node_reply \<Rightarrow> node_error + u32" where
  "reply_number (ReplyNumber r) = r"
| "reply_number _ = Inl node_executor_dropped_error"

fun reply_numbers :: "node_reply \<Rightarrow> node_error + u32 list" where
  "reply_numbers (ReplyNumbers r) = r"
| "reply_numbers _ = Inl node_executor_dropped_error"

fun reply_done :: "node_reply \<Rightarrow> node_error + unit" where
  "reply_done ReplyDone = Inr ()"
| "reply_done (ReplyResult r) = r"
| "reply_done _ = Inl node_executor_dropped_error"

fun reply_url :: "node_reply \<Rightarrow> node_error + string option" where
  "reply_url (ReplyUrl u) = Inr u"
| "reply_url _ = Inl node_executor_dropped_error"

fun reply_diff :: "node_reply \<Rightarrow> node_error + int" where
  "reply_diff (ReplyDiff d) = Inr d"
| "reply_diff _ = Inl node_executor_dropped_error"

fun reply_removed :: "node_reply \<Rightarrow> node_error + bool" where
  "reply_removed (ReplyRemoved b) = Inr b"
| "reply_removed _ = Inl node_executor_dropped_error"

definition request ::
  "('h, 'v, 'f, 'p, 'b, 't, 'td) node_env \<Rightarrow> (node_reply \<Rightarrow> node_error + 'a) \<Rightarrow> node_command
     \<Rightarrow> ('f, 'p, 'b, 't, 'td) node_executor \<Rightarrow> (node_error + 'a) option \<times> ('f, 'p, 'b, 't, 'td) node_executor" where
  "request env reply_of cmd x =
     (case execute_with_response env cmd x of (a, x') \<Rightarrow> (map_option (\<lambda>r. and_then r reply_of) a, x'))"

definition handle_seal_block where "handle_seal_block tx_batch = execute_without_response (SealBlock tx_batch)"

definition seal_block_sync where "seal_block_sync env tx_batch = request env reply_number (SealBlock tx_batch)"

definition seal_blocks_sync where
  "seal_blocks_sync env tx_batches gap = request env reply_numbers (SealBlocks tx_batches gap)"

definition set_code_sync where "set_code_sync env account code = request env reply_done (SetCode account code)"

definition set_storage_sync where "set_storage_sync env key v = request env reply_done (SetStorage key v)"

definition set_balance_sync where "set_balance_sync env account balance = request env reply_done (SetBalance account balance)"

definition set_nonce_sync where "set_nonce_sync env account nonce = request env reply_done (SetNonce account nonce)"

definition reset_fork_sync where
  "reset_fork_sync env url block_number = request env reply_done (ResetFork url block_number)"

definition reset_fork_block_number_sync where
  "reset_fork_block_number_sync env block_number = request env reply_done (ResetForkBlockNumber block_number)"

definition set_fork_url_sync where "set_fork_url_sync env url = request env reply_url (SetForkUrl url)"

definition remove_fork_sync where "remove_fork_sync env = request env reply_done RemoveFork"

definition increase_time_sync where "increase_time_sync env delta = request env reply_done (IncreaseTime delta)"

definition enforce_next_timestamp_sync where
  "enforce_next_timestamp_sync env timestamp = request env reply_done (EnforceNextTimestamp timestamp)"

definition set_current_timestamp_sync where
  "set_current_timestamp_sync env timestamp = request env reply_diff (SetCurrentTimestamp timestamp)"

definition handle_set_block_timestamp_interval where
  "handle_set_block_timestamp_interval seconds = execute_without_response (SetTimestampInterval seconds)"

definition remove_block_timestamp_interval_sync where
  "remove_block_timestamp_interval_sync env = request env reply_removed RemoveTimestampInterval"

definition enforce_next_base_fee_per_gas_sync where
  "enforce_next_base_fee_per_gas_sync env base_fee = request env reply_done (EnforceNextBaseFeePerGas base_fee)"

definition handle_set_progress_report where "handle_set_progress_report = execute_without_response SetProgressReport"

section \<open>The executor is a sequential machine\<close>

text \<open>The specification: one command after the other, each answered when it is handled, until one ends the machine
  or never returns.\<close>

fun serve ::
  "('h, 'v, 'f, 'p, 'b, 't, 'td) node_env \<Rightarrow> node_command \<Rightarrow> exec_status \<times> ('f, 'p, 'b, 't, 'td) node_inner
     \<Rightarrow> (node_error + node_reply) option \<times> exec_status \<times> ('f, 'p, 'b, 't, 'td) node_inner" where
  "serve env cmd (Gone, s) = (Some (Inl node_executor_dropped_error), Gone, s)"
| "serve env cmd (Stuck, s) = (None, Stuck, s)"
| "serve env cmd (Serving, s) = (case exec_command env cmd s of
       (Reply r, s') \<Rightarrow> (Some (Inr r), Serving, s')
     | (Ends, s') \<Rightarrow> (Some (Inl node_executor_dropped_error), Gone, s')
     | (Waits, s') \<Rightarrow> (None, Stuck, s'))"

definition served ::
  "('h, 'v, 'f, 'p, 'b, 't, 'td) node_env \<Rightarrow> ('f, 'p, 'b, 't, 'td) node_executor
     \<Rightarrow> exec_status \<times> ('f, 'p, 'b, 't, 'td) node_inner" where
  "served env x = foldl (\<lambda>m cmd. snd (serve env cmd m)) (nx_status x, nx_inner x) (nx_queue x)"

lemma serve_stopped:
  assumes "st \<noteq> Serving"
  shows "foldl (\<lambda>m cmd. snd (serve env cmd m)) (st, s) cmds = (st, s)"
  using assms by (induction cmds; cases st) auto

lemma exec_queue_serve:
  "exec_queue env r (cmds @ [cmd]) s =
     (case serve env cmd (foldl (\<lambda>m cmd. snd (serve env cmd m)) (Serving, s) cmds) of
        (a, st, s') \<Rightarrow> (st, (case a of Some (Inr r') \<Rightarrow> Some r' | _ \<Rightarrow> None), s'))"
proof (induction cmds arbitrary: r s)
  case Nil
  show ?case by (simp split: prod.split handled.split)
next
  case (Cons c cmds)
  show ?case
    using Cons.IH serve_stopped [of Gone env _ cmds] serve_stopped [of Stuck env _ cmds]
    by (simp split: prod.split handled.split)
qed

lemma serve_answer:
  assumes "serve env cmd m = (a, st, s')"
  shows "(st = Serving \<and> (\<exists>r. a = Some (Inr r))) \<or> (st = Gone \<and> a = Some (Inl node_executor_dropped_error))
    \<or> (st = Stuck \<and> a = None)"
  using assms by (cases "(env, cmd, m)" rule: serve.cases) (auto split: prod.splits handled.splits)


section \<open>What ends the executor\<close>

lemma gone_forever:
  assumes "nx_status x = Gone"
  shows "execute_with_response env cmd x = (Some (Inl node_executor_dropped_error), x)"
    and "execute_without_response cmd x = (Some (Inl node_executor_dropped_error), x)"
  using assms by (simp_all add: execute_with_response_def execute_without_response_def)

lemma stuck_forever:
  assumes "nx_status x = Stuck"
  shows "execute_with_response env cmd x = (None, x)"
  using assms by (simp add: execute_with_response_def)

lemma request_now:
  assumes "nx_status x = Serving" and "nx_queue x = []"
  shows "request env reply_of cmd x = (case exec_command env cmd (nx_inner x) of
      (Reply r, s) \<Rightarrow> (Some (reply_of r), x\<lparr>nx_inner := s\<rparr>)
    | (Ends, s) \<Rightarrow> (Some (Inl node_executor_dropped_error), x\<lparr>nx_inner := s, nx_status := Gone\<rparr>)
    | (Waits, s) \<Rightarrow> (None, x\<lparr>nx_inner := s, nx_status := Stuck\<rparr>))"
  using assms by (cases x) (simp add: request_def execute_with_response_def split: prod.split handled.split)

lemma run_tx_batch_invalid_first:
  assumes "snapshot_laws (rn_vm rn) core saved" and "\<And>b sys raw. saved (rn_vm_new rn b env sys raw) = []"
    and "create_l1_batch_env ca fa s = Inr (env, bx)" and "\<not> valid_tx env bad" and "batch_txs batch = bad # txs"
  shows "\<exists>f s'. run_tx_batch ca rn fa na batch s = (Inl f, s')"
proof (rule ccontr)
  assume "\<not> ?thesis"
  then obtain res s' where "run_tx_batch ca rn fa na batch s = (Inr res, s')"
    by (metis old.sum.exhaust surj_pair)
  then show False
  proof (rule run_tx_batch_elim)
    fix env' bx' v and rs :: "transaction_result list" and st time
    assume env': "create_l1_batch_env ca fa s = Inr (env', bx')" and v: "\<exists>boojum sys raw. v = rn_vm_new rn boojum env' sys raw"
      and "run_txs rn fa na (s\<lparr>ni_time := time\<rparr>)
        (bx'\<lparr>bx_hash := block_hash_of ca (ni_protocol_version s) bx' (map tx_hash (batch_txs batch))\<rparr>) env'
        (batch_impersonating batch) (batch_txs batch) 0 []
        \<lparr>rs_executor = Running v, rs_storage = ni_fork_storage s, rs_next_log_index = 0\<rparr> = (Inr rs, st)"
    moreover from env' v assms(2,3) have "saved v = []" by auto
    ultimately show False
      using run_txs_invalid_first [OF assms(1,4), of "\<lparr>rs_executor = Running v, rs_storage = ni_fork_storage s, rs_next_log_index = 0\<rparr>" v fa na]
        assms(3,5) by (metis Inl_Inr_False fst_conv run_state.select_convs(1) sum.inject(2) prod.inject)
  qed
qed

text \<open>C7: an invalid transaction at the head of a batch ends the node. Sealing a batch whose first transaction fails the
  validation of the runner is answered with an error, and so is every request after it: no command ever changes the
  node again. The same batch sent to \<open>seal_blocks\<close> is answered with the error of the run and leaves the executor serving.\<close>

theorem invalid_first_tx_ends_executor:
  assumes "nx_status x = Serving" and "nx_queue x = []" and "snapshot_laws (rn_vm (en_runner env)) core saved"
    and "\<And>b sys raw. saved (rn_vm_new (en_runner env) b batch_env sys raw) = []"
    and "create_l1_batch_env (en_chain env) (en_fee env) (nx_inner x) = Inr (batch_env, bx)"
    and "\<not> valid_tx batch_env bad" and "batch_txs batch = bad # txs"
  shows "(\<exists>x'. seal_block_sync env batch x = (Some (Inl node_executor_dropped_error), x')
      \<and> (\<forall>cmd. execute_with_response env cmd x' = (Some (Inl node_executor_dropped_error), x')
          \<and> execute_without_response cmd x' = (Some (Inl node_executor_dropped_error), x')))
    \<and> (\<exists>e x'. seal_blocks_sync env [batch] gap x = (Some (Inl e), x'))"
proof (intro conjI)
  obtain f s' where run: "run_tx_batch (en_chain env) (en_runner env) (en_fee env) (en_node env) batch (nx_inner x) = (Inl f, s')"
    using run_tx_batch_invalid_first [OF assms(3-7)] by blast
  then have "seal_block_sync env batch x = (Some (Inl node_executor_dropped_error), x\<lparr>nx_inner := s', nx_status := Gone\<rparr>)"
    by (simp add: seal_block_sync_def request_now assms(1,2) exec_seal_block_def)
  then show "\<exists>x'. seal_block_sync env batch x = (Some (Inl node_executor_dropped_error), x')
      \<and> (\<forall>cmd. execute_with_response env cmd x' = (Some (Inl node_executor_dropped_error), x')
          \<and> execute_without_response cmd x' = (Some (Inl node_executor_dropped_error), x'))"
    by (simp add: gone_forever)
  show "\<exists>e x'. seal_blocks_sync env [batch] gap x = (Some (Inl e), x')"
    using run by (simp add: seal_blocks_sync_def request_now assms(1,2) exec_seal_blocks_def run_and_seal_def split: failure.split)
qed


section \<open>Setting account state\<close>

abbreviation node_reads :: "('f, 'p, 'b, 't, 'td) node_inner \<Rightarrow> reads" where
  "node_reads s \<equiv> storage_view (fork_as_source (ni_fork s)) (ni_fork_storage s)"

lemma write_storage_reads: "node_reads (write_storage k v s) = (node_reads s)(k := Inr v)"
  by (simp add: write_storage_def fs.set_view)

text \<open>The setters of account state write one slot and nothing else. On an Era storage layout, setting a balance,
  a nonce, a slot or the code of an account changes what is read at exactly one key; the bytecode becomes known under its hash.
  On the BoojumOS layout setting a balance or a nonce ends the executor.\<close>

theorem setters_write_one_slot:
  assumes "ni_storage_key_layout s = ZkEra"
  shows "(\<exists>s'. exec_command env (SetBalance a v) s = (Reply ReplyDone, s')
      \<and> node_reads s' = (node_reads s)(key_for_eth_balance (en_node env) a := Inr v))
    \<and> (\<exists>s'. exec_command env (SetNonce a v) s = (Reply ReplyDone, s')
      \<and> node_reads s' = (node_reads s)(key_for_nonce (en_node env) a := Inr (xa_nonces_to_full_nonce (en_exec env) v v)))
    \<and> (\<exists>s'. exec_command env (SetStorage k v) s = (Reply ReplyDone, s') \<and> node_reads s' = (node_reads s)(k := Inr v))
    \<and> (\<exists>s' h. exec_command env (SetCode a code) s = (Reply ReplyDone, s')
      \<and> h = (if xa_is_evm_bytecode (en_exec env) code then xa_hash_for_raw_evm_bytecode (en_exec env) code
             else xa_hash_for_bytecode (en_exec env) code)
      \<and> node_reads s' = (node_reads s)(xa_get_code_key (en_exec env) a := Inr h)
      \<and> st_factory_deps (fs_raw_storage (ni_fork_storage s')) h
         = Some (if xa_is_evm_bytecode (en_exec env) code then xa_pad_evm_bytecode (en_exec env) code else code))
    \<and> exec_command env (SetBalance a v) (s\<lparr>ni_storage_key_layout := BoojumOs\<rparr>) = (Ends, s\<lparr>ni_storage_key_layout := BoojumOs\<rparr>)
    \<and> exec_command env (SetNonce a v) (s\<lparr>ni_storage_key_layout := BoojumOs\<rparr>) = (Ends, s\<lparr>ni_storage_key_layout := BoojumOs\<rparr>)"
proof -
  have keep: "storage_view src (fs_store_factory_dep h c st) = storage_view src st" for src h c st
    by (simp add: fun_eq_iff storage_view_def fs_store_factory_dep_def mem_store_factory_dep_def split: option.split)
  show ?thesis
    using assms
    by (simp add: exec_set_balance_def exec_set_nonce_def exec_set_code_def write_storage_reads keep Let_def)
      (simp add: write_storage_def fs_set_value_def mem_set_value_def fs_store_factory_dep_def mem_store_factory_dep_def)
qed

section \<open>Sealing several blocks\<close>

lemma seal_each_numbers:
  "seal_each env gap i batches acc s = (Inr numbers, s') \<Longrightarrow> length numbers = length acc + length batches"
  by (induction env gap i batches acc s rule: seal_each.induct) (auto split: prod.splits sum.splits)

lemma seal_block_time: "seal_block ca na r s = Inr (n, s') \<Longrightarrow> ni_time s' = ni_time s"
  by (elim seal_block_elim inner_apply_batch_elim) simp

lemma run_and_seal_empty:
  assumes "run_and_seal env batch s = (Inr n, s')" and "batch_txs batch = []"
  shows "ni_time s' = snd (advance_timestamp (ni_time s))"
proof -
  from assms(1) obtain res s1 where run: "run_tx_batch (en_chain env) (en_runner env) (en_fee env) (en_node env) batch s = (Inr res, s1)"
    and seal: "seal_block (en_chain env) (en_node env) res s1 = Inr (n, s')"
    by (auto simp: run_and_seal_def split: prod.splits sum.splits)
  from run have "ni_time s1 = snd (advance_timestamp (ni_time s))"
    by (rule run_tx_batch_elim) (simp add: assms(2))
  then show ?thesis using seal_block_time [OF seal] by simp
qed

lemma seal_each_empty:
  assumes "seal_each env gap i batches acc s = (Inr numbers, s')" and "\<forall>b \<in> set batches. batch_txs b = []"
    and "next_timestamp (ni_time s) = None" and "i = 1 \<or> 1 < i \<and> interval (ni_time s) = Some gap"
  shows "unat (current_timestamp (ni_time s'))
    = min (2 ^ 64 - 1) (unat (current_timestamp (ni_time s)) + length batches * unat gap)"
  using assms
proof (induction batches arbitrary: i acc s)
  case Nil
  then show ?case using unat_less_exp [of "current_timestamp (ni_time s)"] by simp
next
  case (Cons b bs)
  let ?s = "if i = 1 then s\<lparr>ni_time := set_block_timestamp_interval (Some gap) (ni_time s)\<rparr> else s"
  from Cons.prems(1) obtain n s1 where r: "run_and_seal env b ?s = (Inr n, s1)"
    and rest: "seal_each env gap (Suc i) bs (acc @ [n]) s1 = (Inr numbers, s')"
    by (auto simp: Let_def split: prod.splits sum.splits)
  have t: "next_timestamp (ni_time ?s) = None" "interval (ni_time ?s) = Some gap" "current_timestamp (ni_time ?s) = current_timestamp (ni_time s)"
    using Cons.prems(3,4) by (auto simp: set_block_timestamp_interval_def)
  have s1: "ni_time s1 = (ni_time ?s)\<lparr>current_timestamp := saturating_add (current_timestamp (ni_time s)) gap\<rparr>"
    using run_and_seal_empty [OF r] Cons.prems(2) advance_timestamp_None [OF t(1)] t by (simp add: interval_or_default_def)
  have "unat (current_timestamp (ni_time s')) = min (2 ^ 64 - 1) (unat (current_timestamp (ni_time s1)) + length bs * unat gap)"
    using Cons.IH [OF rest] Cons.prems(2,4) s1 t by auto
  then show ?case by (simp add: s1 unat_saturating_add)
qed

text \<open>Sealing several blocks at an interval. A successful call returns one number per batch and leaves the
  block interval of the node as it was, whether it succeeds or fails; for empty batches the first block takes the announced timestamp and each of the
  others follows by the given interval, up to the largest timestamp.\<close>

theorem seal_blocks_spaced:
  assumes "exec_seal_blocks env batches gap s = (Reply (ReplyNumbers r), s')"
  shows "interval (ni_time s') = interval (ni_time s)
    \<and> (\<forall>numbers. r = Inr numbers \<longrightarrow> length numbers = length batches)
    \<and> (\<forall>numbers. r = Inr numbers \<and> batches \<noteq> [] \<and> (\<forall>b \<in> set batches. batch_txs b = []) \<longrightarrow>
        unat (current_timestamp (ni_time s'))
          = min (2 ^ 64 - 1) (unat (peek_next_timestamp (ni_time s)) + (length batches - 1) * unat gap))"
proof (intro conjI allI impI)
  show "interval (ni_time s') = interval (ni_time s)"
    using assms by (auto simp: exec_seal_blocks_def Let_def set_block_timestamp_interval_def
        get_block_timestamp_interval_def split: prod.splits sum.splits failure.splits)
next
  fix numbers assume "r = Inr numbers"
  then show "length numbers = length batches"
    using assms seal_each_numbers [of env gap 0 batches "[]" s numbers]
    by (auto simp: exec_seal_blocks_def Let_def split: prod.splits sum.splits failure.splits)
next
  fix numbers assume a: "r = Inr numbers \<and> batches \<noteq> [] \<and> (\<forall>b \<in> set batches. batch_txs b = [])"
  then obtain b bs where b: "batches = b # bs" by (cases batches) auto
  with a assms obtain s1 n s2 where r: "run_and_seal env b s = (Inr n, s1)" and rest: "seal_each env gap 1 bs [n] s1 = (Inr numbers, s2)"
    and s': "current_timestamp (ni_time s') = current_timestamp (ni_time s2)"
    by (auto simp: exec_seal_blocks_def Let_def set_block_timestamp_interval_def split: prod.splits sum.splits failure.splits)
  have "ni_time s1 = snd (advance_timestamp (ni_time s))" using run_and_seal_empty [OF r] a b by simp
  then have s1: "current_timestamp (ni_time s1) = peek_next_timestamp (ni_time s)" "next_timestamp (ni_time s1) = None"
    using node_clock.now_advance [of "ni_time s"] node_clock.advance_is_peek [of "ni_time s"]
    by (simp_all add: advance_timestamp_def Let_def)
  show "unat (current_timestamp (ni_time s'))
      = min (2 ^ 64 - 1) (unat (peek_next_timestamp (ni_time s)) + (length batches - 1) * unat gap)"
    using seal_each_empty [OF rest _ s1(2)] a b s1(1) s' by simp
qed

section \<open>Concrete runs\<close>

definition sample_remote :: "(u64 \<times> u64, unit, unit, unit) l2_client" where
  "sample_remote = \<lparr>rpc_chain_id = Inr 324, rpc_block_number = Inr 5,
     rpc_block_details = (\<lambda>n. Inr (Some \<lparr>rbd_l1_batch_number = 2, rbd_root_hash = Some 8, rbd_timestamp = 1700,
       rbd_l1_gas_price = 1, rbd_l2_fair_gas_price = 2, rbd_fair_pubdata_price = None,
       rbd_protocol_version = Some 27\<rparr>)),
     rpc_block_by_hash = (\<lambda>g full. Inr (if g = 8 then Some (sample_block 8) else None)),
     rpc_block_by_number = (\<lambda>n full. Inr None), rpc_fee_params = Inr (FeeParamsV2 (1, 2)),
     rpc_storage_at = (\<lambda>a i b. Inr 0), rpc_bytecode_by_hash = (\<lambda>g. Inr None),
     rpc_transaction_by_hash = (\<lambda>g. Inr None), rpc_transaction_details = (\<lambda>g. Inr None),
     rpc_raw_block_transactions = (\<lambda>n. Inr []), rpc_tx_count_by_hash = (\<lambda>g. Inr None),
     rpc_tx_count_by_number = (\<lambda>n. Inr None), rpc_tx_by_hash_and_index = (\<lambda>g i. Inr None),
     rpc_tx_by_number_and_index = (\<lambda>n i. Inr None), rpc_bridge_contracts = Inr (),
     rpc_confirmed_tokens = (\<lambda>a b. Inr [])\<rparr>"

definition sample_exec_api :: "(u64 \<times> u64, unit, unit, unit) exec_api" where
  "sample_exec_api = \<lparr>xa_get_code_key = (\<lambda>a. \<lparr>sk_address = 32770, sk_key = ucast a\<rparr>),
     xa_is_evm_bytecode = (\<lambda>b. length b mod 32 \<noteq> 0), xa_hash_for_bytecode = (\<lambda>b. of_nat (length b)),
     xa_hash_for_raw_evm_bytecode = (\<lambda>b. of_nat (length b) + 1000), xa_pad_evm_bytecode = (\<lambda>b. b @ replicate (32 - length b mod 32) 0),
     xa_nonces_to_full_nonce = (\<lambda>t d. t + push_bit 128 d), xa_chain_id_try_from = Inr, xa_http_client = (\<lambda>url. Inr sample_remote)\<rparr>"

definition sample_exec_env :: "(h256 list, h256 list \<times> h256 list list, nat, u64 \<times> u64, unit, unit, unit) node_env" where
  "sample_exec_env = \<lparr>en_chain = sample_chain_api, en_runner = sample_runner, en_fee = sample_fee_api,
     en_node = sample_node_api, en_exec = sample_exec_api\<rparr>"

definition sample_executor :: "(nat, u64 \<times> u64, unit, unit, unit) node_executor" where
  "sample_executor = \<lparr>nx_inner = sample_node None, nx_status = Serving, nx_queue = []\<rparr>"

theorem invalid_first_tx_ends_executor_witness:
  "\<exists>x'. seal_block_sync sample_exec_env \<lparr>batch_impersonating = False, batch_txs = [tx_cheap]\<rparr> sample_executor
     = (Some (Inl node_executor_dropped_error), x')
    \<and> execute_with_response sample_exec_env (IncreaseTime 5) x' = (Some (Inl node_executor_dropped_error), x')"
proof -
  obtain env bx where e: "create_l1_batch_env sample_chain_api sample_fee_api (sample_node None) = Inr (env, bx)"
    using sample_env by fastforce
  have "fair_l2_gas_price (env_fee_input env) = 7" using sample_env_price [OF e] .
  then have "\<not> valid_tx env tx_cheap" by (rule sample_valid)
  moreover have "snapshot_laws (rn_vm (en_runner sample_exec_env)) fst snd"
    using sample_batch_vm_laws by (simp add: sample_exec_env_def sample_runner_def)
  ultimately show ?thesis
    using invalid_first_tx_ends_executor [of sample_executor sample_exec_env fst snd env bx tx_cheap
        "\<lparr>batch_impersonating = False, batch_txs = [tx_cheap]\<rparr>" "[]"] e
    by (auto simp: sample_executor_def sample_exec_env_def sample_runner_def)
qed


theorem setters_write_one_slot_witness:
  "\<exists>s'. exec_command sample_exec_env (SetBalance 10 77) (sample_node None) = (Reply ReplyDone, s')
    \<and> node_reads s' \<lparr>sk_address = 32778, sk_key = 10\<rparr> = Inr 77"
proof -
  have "ni_storage_key_layout (sample_node None) = ZkEra" by (simp add: sample_node_def node_inner_init_def Let_def)
  from setters_write_one_slot [OF this, of sample_exec_env 10 77 "\<lparr>sk_address = 1, sk_key = 1\<rparr>" "[]"] show ?thesis
    by (auto simp: sample_exec_env_def sample_node_api_def)
qed

lemma sealed_block_found:
  assumes "seal_block ca na r s = Inr (n, s')" and "br_block_ctxs r = [b]"
  shows "\<exists>block. get_block_by_number n (ni_blockchain s') = (Inr (Some block) :: (node_error, _) outcome)"
proof -
  have found: "\<exists>found. get_block_by_number (ucast (blk_number block)) chain' = (Inr (Some found) :: (node_error, _) outcome)"
    if "apply_block block 0 chain = Inr chain'" for block chain chain'
    using that by (auto simp: apply_block_def as_u32_def get_block_by_number_def inspect_block_by_number_def
        state_get_block_hash_by_number_def inspect_def update_conv' Let_def split: option.splits if_splits)
  from assms(1) show ?thesis
    by (elim seal_block_elim inner_apply_batch_elim) (use assms(2) found in \<open>fastforce\<close>)
qed

lemma sample_seal_one:
  assumes "br_block_ctxs r = [b]" and "br_tx_results r = []" and "bx_miniblock b = 1" and "bx_timestamp b = 1001"
    and "env_number (br_batch_env r) = 1"
  shows "\<exists>n s'. seal_block sample_chain_api sample_node_api r ((sample_node None)\<lparr>ni_time := t\<rparr>) = Inr (n, s')"
proof -
  have "\<exists>x. read_aggregation_root sample_node_api (fork_as_source (ni_fork (sample_node None))) modified
      (ni_fork_storage (sample_node None)) = Inr x" for modified
    by (simp add: read_aggregation_root_def read_modified_def fs.read_result sample_node_read fs.read_view Let_def split_def split: option.split)
  then show ?thesis
    using assms
    by (simp add: sample_defs seal_block_def inner_apply_batch_def Let_def split_def
        apply_block_def apply_batch_def as_u32_def as_u64_def bloom_inputs_def)
qed

lemma sample_seal_empty:
  "\<exists>n s' block. run_and_seal sample_exec_env \<lparr>batch_impersonating = False, batch_txs = []\<rparr> (sample_node None) = (Inr n, s')
    \<and> exec_seal_block sample_exec_env \<lparr>batch_impersonating = False, batch_txs = []\<rparr> (sample_node None) = (Reply (ReplyNumber (Inr n)), s')
    \<and> get_block_by_number n (ni_blockchain s') = (Inr (Some block) :: (node_error, _) outcome)"
proof -
  let ?s = "sample_node None"
  obtain env bx where e: "create_l1_batch_env sample_chain_api sample_fee_api ?s = Inr (env, bx)"
    using sample_env by fastforce
  have bx: "bx_timestamp bx = 1001" "bx_miniblock bx = 1" "env_number env = 1"
    using e by (auto simp: create_l1_batch_env_def sample_node_read Let_def split_def last_env_def load_last_l1_batch_def storage_read_def)
      (auto simp: sample_defs Let_def split_def peek_next_timestamp_def time_new_def interval_or_default_def saturating_add_def)
  have t: "advance_timestamp (ni_time ?s) = (1001, time_new 1001)"
    by (simp add: sample_defs Let_def split_def advance_timestamp_def time_new_def interval_or_default_def saturating_add_def)
  obtain res s' where r: "run_tx_batch sample_chain_api sample_runner sample_fee_api sample_node_api
      \<lparr>batch_impersonating = False, batch_txs = []\<rparr> ?s = (Inr res, s')"
  proof -
    have "\<exists>res s'. conclude_batch sample_chain_api sample_runner ver hashes env bx' [] (Running v) (?s\<lparr>ni_time := time_new 1001\<rparr>) = (Inr res, s')" for ver hashes bx' v
      using sample_conclude by blast
    then show thesis using e t bx that by (fastforce simp: run_tx_batch_def Let_def)
  qed
  then obtain b where "br_tx_results res = [] \<and> br_block_ctxs res = [b] \<and> bx_miniblock b = 1 \<and> bx_timestamp b = 1001
      \<and> env_number (br_batch_env res) = 1 \<and> s' = ?s\<lparr>ni_time := time_new 1001\<rparr>"
    by (rule run_tx_batch_elim) (use e bx t in \<open>auto simp: Let_def\<close>)
  then obtain n s2 where seal: "seal_block sample_chain_api sample_node_api res s' = Inr (n, s2)" and b: "br_block_ctxs res = [b]"
    using sample_seal_one [of res b "time_new 1001"] by auto
  then show ?thesis using r sealed_block_found [OF seal b] by (simp add: run_and_seal_def exec_seal_block_def sample_exec_env_def)
qed

theorem seal_blocks_spaced_witness:
  "\<exists>n s'. exec_seal_blocks sample_exec_env [\<lparr>batch_impersonating = False, batch_txs = []\<rparr>] 10 (sample_node None)
      = (Reply (ReplyNumbers (Inr [n])), s') \<and> unat (current_timestamp (ni_time s')) = 1001"
proof -
  obtain n s' where r: "exec_seal_blocks sample_exec_env [\<lparr>batch_impersonating = False, batch_txs = []\<rparr>] 10 (sample_node None)
      = (Reply (ReplyNumbers (Inr [n])), s')"
    using sample_seal_empty by (fastforce simp: exec_seal_blocks_def Let_def)
  moreover have "peek_next_timestamp (ni_time (sample_node None)) = 1001"
    by (simp add: sample_defs Let_def split_def peek_next_timestamp_def time_new_def interval_or_default_def saturating_add_def)
  ultimately show ?thesis using seal_blocks_spaced [OF r] by simp
qed

end
