(* ===== verification/Block_Sealer.thy ===== *)
theory Block_Sealer
  imports Tx_Pool
begin

text \<open>
  The block sealer: \<open>crates/core/src/node/sealer.rs\<close>.

  A sealer repeatedly polls its mode for a batch and hands each batch to the node executor.
  \<open>Poll::Ready b\<close> is \<open>Some b\<close>, \<open>Poll::Pending\<close> is \<open>None\<close>. The listener channel of the immediate
  mode is the list of hashes waiting in it; \<open>poll_tick\<close> of the tokio interval is an input of the
  step that polls. While one poll of the immediate mode runs, other tasks may deliver hashes and
  change the pool: \<open>env\<close> lists, for each pass of the poll, the hashes that arrive while the channel
  is drained and the pool operations that happen before the next look at the pool. Task
  wake-up (\<open>AtomicWaker\<close>) only schedules polls and is not part of the state.
\<close>

section \<open>Modes\<close>

record immediate_block_sealer =
  im_max_transactions :: nat
  im_rx :: "h256 list"

record fixed_time_block_sealer =
  ft_max_transactions :: nat
  ft_block_time :: u64

datatype block_sealer_mode =
    Noop
  | Immediate immediate_block_sealer
  | FixedTime fixed_time_block_sealer

definition mode_immediate :: "nat \<Rightarrow> h256 list \<Rightarrow> block_sealer_mode" where
  "mode_immediate max_transactions listener =
     Immediate \<lparr>im_max_transactions = max_transactions, im_rx = listener\<rparr>"

definition mode_fixed_time :: "nat \<Rightarrow> u64 \<Rightarrow> block_sealer_mode" where
  "mode_fixed_time max_transactions block_time =
     FixedTime \<lparr>ft_max_transactions = max_transactions, ft_block_time = block_time\<rparr>"

fun is_immediate :: "block_sealer_mode \<Rightarrow> bool" where
  "is_immediate (Immediate _) = True"
| "is_immediate _ = False"

type_synonym poll_env = "(h256 list \<times> pool_op list) list"

function immediate_poll ::
  "('l \<Rightarrow> h256 \<Rightarrow> 'l send_result) \<Rightarrow> impersonation_state \<Rightarrow> poll_env \<Rightarrow> immediate_block_sealer
     \<Rightarrow> 'l tx_pool \<Rightarrow> tx_batch option \<times> immediate_block_sealer \<times> 'l tx_pool" where
  "immediate_poll ts imp env s p = (case take_uniform imp (im_max_transactions s) p of
       (Some tx_batch, p') \<Rightarrow> (Some tx_batch, s, p')
     | (None, p') \<Rightarrow>
         let (arriving, ops) = (case env of [] \<Rightarrow> ([], []) | e # _ \<Rightarrow> e);
             has_new_txs = (im_rx s @ arriving \<noteq> [])
         in if has_new_txs
            then immediate_poll ts imp (tl env) (s\<lparr>im_rx := []\<rparr>) (pool_run ts ops p')
            else (None, s\<lparr>im_rx := []\<rparr>, p'))"
  by pat_completeness auto
termination
  by (relation "measure (\<lambda>(ts, imp, env, s, p). 2 * length env + (if im_rx s = [] then 0 else 1))")
    (auto split: list.splits)

declare immediate_poll.simps [simp del]

definition fixed_time_poll ::
  "impersonation_state \<Rightarrow> bool \<Rightarrow> fixed_time_block_sealer \<Rightarrow> 'l tx_pool
     \<Rightarrow> tx_batch option \<times> 'l tx_pool" where
  "fixed_time_poll imp tick s p =
     (if tick then
        (let (b, p') = take_uniform imp (ft_max_transactions s) p
         in (Some (case b of None \<Rightarrow> empty_tx_batch | Some tx_batch \<Rightarrow> tx_batch), p'))
      else (None, p))"

fun mode_poll ::
  "('l \<Rightarrow> h256 \<Rightarrow> 'l send_result) \<Rightarrow> impersonation_state \<Rightarrow> bool \<Rightarrow> poll_env \<Rightarrow> block_sealer_mode
     \<Rightarrow> 'l tx_pool \<Rightarrow> tx_batch option \<times> block_sealer_mode \<times> 'l tx_pool" where
  "mode_poll ts imp tick env Noop p = (None, Noop, p)"
| "mode_poll ts imp tick env (Immediate s) p =
     (let (b, s', p') = immediate_poll ts imp env s p in (b, Immediate s', p'))"
| "mode_poll ts imp tick env (FixedTime s) p =
     (let (b, p') = fixed_time_poll imp tick s p in (b, FixedTime s, p'))"

section \<open>The sealer\<close>

record 'l block_sealer =
  bs_mode :: block_sealer_mode
  bs_pool :: "'l tx_pool"

definition block_sealer_new :: "block_sealer_mode \<Rightarrow> 'l tx_pool \<Rightarrow> 'l block_sealer" where
  "block_sealer_new mode pool = \<lparr>bs_mode = mode, bs_pool = pool\<rparr>"

definition set_mode :: "block_sealer_mode \<Rightarrow> 'l block_sealer \<Rightarrow> 'l block_sealer" where
  "set_mode mode s = s\<lparr>bs_mode := mode\<rparr>"

text \<open>What happens around the sealer: the pool changes, hashes reach its channel, its mode is
  replaced, or it is polled; a poll carries the tick of the interval and, should a batch be found,
  the answer of \<open>node_handle.seal_block\<close>.\<close>

datatype 'e sealer_event =
    PoolChanged pool_op
  | Delivered "h256 list"
  | ModeSet block_sealer_mode
  | Polled impersonation_state bool "'e + unit"

fun deliver_hashes :: "h256 list \<Rightarrow> block_sealer_mode \<Rightarrow> block_sealer_mode" where
  "deliver_hashes hs (Immediate s) = Immediate (s\<lparr>im_rx := im_rx s @ hs\<rparr>)"
| "deliver_hashes hs mode = mode"

text \<open>The loop of \<open>BlockSealer::run\<close> against such a sequence of events: the batches handed to the
  node, the error that ended the loop, if any, and the final state.\<close>

fun sealer_run ::
  "('l \<Rightarrow> h256 \<Rightarrow> 'l send_result) \<Rightarrow> 'e sealer_event list \<Rightarrow> 'l block_sealer
     \<Rightarrow> tx_batch list \<times> 'e option \<times> 'l block_sealer" where
  "sealer_run ts [] s = ([], None, s)"
| "sealer_run ts (PoolChanged op # es) s =
     sealer_run ts es (s\<lparr>bs_pool := pool_exec ts op (bs_pool s)\<rparr>)"
| "sealer_run ts (Delivered hs # es) s =
     sealer_run ts es (s\<lparr>bs_mode := deliver_hashes hs (bs_mode s)\<rparr>)"
| "sealer_run ts (ModeSet mode # es) s = sealer_run ts es (set_mode mode s)"
| "sealer_run ts (Polled imp tick reply # es) s =
     (let (found, mode, pool) = mode_poll ts imp tick [] (bs_mode s) (bs_pool s);
          s' = \<lparr>bs_mode = mode, bs_pool = pool\<rparr>
      in case found of
           None \<Rightarrow> sealer_run ts es s'
         | Some tx_batch \<Rightarrow> (case reply of
               Inl e \<Rightarrow> ([tx_batch], Some e, s')
             | Inr u \<Rightarrow> (let (bs, e, s'') = sealer_run ts es s' in (tx_batch # bs, e, s''))))"

section \<open>Draining a source of transactions\<close>

fun drain :: "('p \<Rightarrow> tx_batch option \<times> 'p) \<Rightarrow> nat \<Rightarrow> 'p \<Rightarrow> tx_batch list \<times> 'p" where
  "drain take_one 0 p = ([], p)"
| "drain take_one (Suc k) p = (case take_one p of
       (None, p') \<Rightarrow> drain take_one k p'
     | (Some b, p') \<Rightarrow> (let (bs, p'') = drain take_one k p' in (b # bs, p'')))"

context tx_source
begin

lemma drain_conserves:
  "concat (map batch_txs (fst (drain (take_batch n) k p))) @ queue (snd (drain (take_batch n) k p))
     = queue p"
proof (induction k arbitrary: p)
  case (Suc k)
  obtain b p' where t: "take_batch n p = (b, p')" by force
  show ?case
    using Suc.IH [of p'] take_conserves [of p n] by (cases b) (simp_all add: t split_def Let_def empty_tx_batch_def)
qed simp

lemma drain_empties:
  assumes "0 < n" and "length (queue p) \<le> k"
  shows "queue (snd (drain (take_batch n) k p)) = []"
  using assms(2)
proof (induction k arbitrary: p)
  case (Suc k)
  obtain b p' where t: "take_batch n p = (b, p')" by force
  have "length (queue p') \<le> k"
  proof (cases "queue p = []")
    case True
    with take_conserves [of p n] t have "queue p' = []" by simp
    then show ?thesis by simp
  next
    case False
    from take_progress [OF assms(1) False] Suc.prems t show ?thesis by simp
  qed
  from Suc.IH [OF this] show ?case by (simp add: t split_def Let_def split: option.split)
qed simp

lemma drain_batches:
  assumes "0 < n" and "b \<in> set (fst (drain (take_batch n) k p))"
  shows "batch_txs b \<noteq> [] \<and> length (batch_txs b) \<le> n
    \<and> (\<forall>tx \<in> set (batch_txs b). status tx = batch_impersonating b)"
  using assms(2)
proof (induction k arbitrary: p)
  case (Suc k)
  obtain c p' where t: "take_batch n p = (c, p')" by force
  show ?case
  proof (cases "c = Some b")
    case True
    then have b: "fst (take_batch n p) = Some b" by (simp add: t)
    then have "queue p \<noteq> []" using take_none [of n p] by auto
    with assms(1) obtain b' where "fst (take_batch n p) = Some b'" "batch_txs b' \<noteq> []"
      by (rule take_nonempty)
    with b take_bounded [OF b] take_uniform_status [OF b] show ?thesis by auto
  next
    case False
    with Suc.prems have "b \<in> set (fst (drain (take_batch n) k p'))"
      by (auto simp: t split_def Let_def split: option.splits)
    then show ?thesis by (rule Suc.IH)
  qed
qed simp

end

section \<open>What the sealer guarantees\<close>

lemma immediate_poll_ready:
  assumes "fst (take_uniform imp (im_max_transactions s) p) = Some b"
  shows "immediate_poll ts imp env s p
    = (Some b, s, snd (take_uniform imp (im_max_transactions s) p))"
  using assms by (subst immediate_poll.simps) (simp add: split_def)

text \<open>One poll with no other task in between is one extraction from the pool.\<close>

lemma immediate_poll_quiet:
  "immediate_poll ts imp [] s p =
     (fst (take_uniform imp (im_max_transactions s) p),
      (if fst (take_uniform imp (im_max_transactions s) p) = None then s\<lparr>im_rx := []\<rparr> else s),
      snd (take_uniform imp (im_max_transactions s) p))"
proof (cases "fst (take_uniform imp (im_max_transactions s) p)")
  case None
  then have t: "take_uniform imp (im_max_transactions s) p = (None, p)"
    using pool_source.take_none_state [OF None] by (simp add: prod_eq_iff)
  show ?thesis
  proof (cases "im_rx s = []")
    case True
    then show ?thesis by (subst immediate_poll.simps) (simp add: t)
  next
    case False
    have "immediate_poll ts imp [] s p = immediate_poll ts imp [] (s\<lparr>im_rx := []\<rparr>) p"
      by (subst immediate_poll.simps) (simp add: t False)
    also have "\<dots> = (None, s\<lparr>im_rx := []\<rparr>, p)"
      by (subst immediate_poll.simps) (simp add: t)
    finally show ?thesis by (simp add: t)
  qed
next
  case (Some b)
  then show ?thesis by (simp add: immediate_poll_ready)
qed

lemma sealer_polls_drain:
  assumes "bs_mode s = Immediate m"
  shows "fst (sealer_run ts (replicate k (Polled imp tick (Inr () :: 'e + unit))) s)
      = fst (drain (take_uniform imp (im_max_transactions m)) k (bs_pool s))
    \<and> fst (snd (sealer_run ts (replicate k (Polled imp tick (Inr () :: 'e + unit))) s)) = None
    \<and> bs_pool (snd (snd (sealer_run ts (replicate k (Polled imp tick (Inr () :: 'e + unit))) s)))
      = snd (drain (take_uniform imp (im_max_transactions m)) k (bs_pool s))"
  using assms
proof (induction k arbitrary: s m)
  case (Suc k)
  obtain b p' where t: "take_uniform imp (im_max_transactions m) (bs_pool s) = (b, p')" by force
  define m' where "m' = (if b = None then m\<lparr>im_rx := []\<rparr> else m)"
  have max: "im_max_transactions m' = im_max_transactions m" by (simp add: m'_def)
  have poll: "mode_poll ts imp tick [] (bs_mode s) (bs_pool s) = (b, Immediate m', p')"
    by (simp add: Suc.prems immediate_poll_quiet t m'_def)
  show ?case
    using Suc.IH [of "\<lparr>bs_mode = Immediate m', bs_pool = p'\<rparr>" m']
    by (cases b) (simp_all add: poll t max split_def Let_def)
qed simp

text \<open>C31: the immediate sealer, polled often enough, hands over exactly the queue of the pool, in
  order, cut into batches that are not empty, no longer than the maximum and uniform in their
  impersonation status; it never fails by itself and leaves the pool empty.\<close>

theorem immediate_sealer_drains:
  assumes "0 < n" and "length (pool_queue p) \<le> k"
  shows "\<exists>bs s'. sealer_run ts (replicate k (Polled imp tick (Inr ())))
        (block_sealer_new (mode_immediate n rx) p) = (bs, None :: 'e option, s')
      \<and> concat (map batch_txs bs) = pool_queue p
      \<and> pool_queue (bs_pool s') = []
      \<and> (\<forall>b \<in> set bs. batch_txs b \<noteq> [] \<and> length (batch_txs b) \<le> n
           \<and> (\<forall>tx \<in> set (batch_txs b). tx_status imp tx = batch_impersonating b))"
proof -
  let ?s = "block_sealer_new (mode_immediate n rx) p"
  let ?r = "sealer_run ts (replicate k (Polled imp tick (Inr () :: 'e + unit))) ?s"
  have "fst ?r = fst (drain (take_uniform imp n) k p)" and none: "fst (snd ?r) = None"
    and "bs_pool (snd (snd ?r)) = snd (drain (take_uniform imp n) k p)"
    using sealer_polls_drain [where 'e = 'e, of ?s "\<lparr>im_max_transactions = n, im_rx = rx\<rparr>" ts k imp tick]
    by (simp_all add: block_sealer_new_def mode_immediate_def)
  with pool_source.drain_conserves [of imp n k p] pool_source.drain_empties [OF assms, of imp]
    pool_source.drain_batches [OF assms(1), of _ imp k p]
  have "concat (map batch_txs (fst ?r)) = pool_queue p" "pool_queue (bs_pool (snd (snd ?r))) = []"
    "\<forall>b \<in> set (fst ?r). batch_txs b \<noteq> [] \<and> length (batch_txs b) \<le> n
       \<and> (\<forall>tx \<in> set (batch_txs b). tx_status imp tx = batch_impersonating b)"
    by simp_all
  with none show ?thesis
    by (intro exI [of _ "fst ?r"] exI [of _ "snd (snd ?r)"]) (simp add: prod_eq_iff)
qed

theorem immediate_sealer_drains_witness:
  "\<exists>bs s'. sealer_run no_send (replicate 3 (Polled \<lparr>auto = False, accounts = {10}\<rparr> False (Inr ())))
        (block_sealer_new (mode_immediate 5 []) (sample_pool Fifo)) = (bs, None :: unit option, s')
      \<and> concat (map batch_txs bs) = pool_queue (sample_pool Fifo) \<and> pool_queue (bs_pool s') = []"
proof -
  have "length (pool_queue (sample_pool Fifo)) \<le> 3" by (simp add: sample_pool_queue)
  from immediate_sealer_drains [OF _ this, of 5 no_send "\<lparr>auto = False, accounts = {10}\<rparr>" False "[]"]
  show ?thesis by auto
qed

text \<open>No wake-up is lost. Whatever hashes are delivered and whatever happens to the pool while
  the immediate mode is being polled, the poll answers \<open>Pending\<close> only when its last look at the pool
  found it empty, and then no delivered hash is left unconsumed in the channel.\<close>

theorem immediate_poll_pending:
  assumes "0 < im_max_transactions s" and "fst (immediate_poll ts imp env s p) = None"
  shows "pool_queue (snd (snd (immediate_poll ts imp env s p))) = []
    \<and> im_rx (fst (snd (immediate_poll ts imp env s p))) = []"
  using assms
proof (induction ts imp env s p rule: immediate_poll.induct)
  case (1 ts imp env s p)
  obtain b p' where t: "take_uniform imp (im_max_transactions s) p = (b, p')" by force
  obtain hs ops where e: "(case env of [] \<Rightarrow> ([], []) | e # _ \<Rightarrow> e) = (hs, ops)" by force
  note unfold = immediate_poll.simps [of ts imp env s p]
  have b: "b = None" using "1.prems"(2) by (cases b) (simp_all add: unfold t)
  show ?case
  proof (cases "im_rx s @ hs = []")
    case True
    have "pool_queue p = []" and "p' = p"
      using t b pool_source.take_none [of imp "im_max_transactions s" p] "1.prems"(1)
        pool_source.take_none_state [of imp "im_max_transactions s" p] by simp_all
    with True b show ?thesis by (simp add: unfold t e)
  next
    case False
    with b have step: "immediate_poll ts imp env s p
        = immediate_poll ts imp (tl env) (s\<lparr>im_rx := []\<rparr>) (pool_run ts ops p')"
      by (auto simp: unfold t e)
    have "pool_queue (snd (snd (immediate_poll ts imp (tl env) (s\<lparr>im_rx := []\<rparr>) (pool_run ts ops p')))) = []
      \<and> im_rx (fst (snd (immediate_poll ts imp (tl env) (s\<lparr>im_rx := []\<rparr>) (pool_run ts ops p')))) = []"
      by (rule "1.IH" [OF _ _ e [symmetric]]) (use "1.prems" t b False step in auto)
    then show ?thesis by (simp only: step)
  qed
qed

theorem immediate_poll_pending_witness:
  "im_rx (fst (snd (immediate_poll no_send impersonation_default
      [([7], [])] \<lparr>im_max_transactions = 2, im_rx = []\<rparr> (tx_pool_new Fifo)))) = []"
proof -
  let ?p = "tx_pool_new Fifo :: unit tx_pool"
  have t: "take_uniform impersonation_default 2 ?p = (None, ?p)"
    by (simp add: take_uniform_def tx_pool_new_def)
  have "fst (immediate_poll no_send impersonation_default [([7], [])]
      \<lparr>im_max_transactions = 2, im_rx = []\<rparr> ?p) = None"
    by (subst immediate_poll.simps) (simp add: t immediate_poll_quiet)
  from immediate_poll_pending [OF _ this] show ?thesis by simp
qed

section \<open>Conservation of transactions\<close>

fun event_txs :: "'e sealer_event \<Rightarrow> transaction list" where
  "event_txs (PoolChanged (AddTx tx)) = [tx]"
| "event_txs (PoolChanged (AddTxs txs)) = txs"
| "event_txs _ = []"

fun only_adds :: "'e sealer_event \<Rightarrow> bool" where
  "only_adds (PoolChanged (AddTx tx)) = True"
| "only_adds (PoolChanged (AddTxs txs)) = True"
| "only_adds (PoolChanged _) = False"
| "only_adds _ = True"

lemma mode_poll_conserves:
  "pool_queue p = (case fst (mode_poll ts imp tick [] mode p) of None \<Rightarrow> [] | Some b \<Rightarrow> batch_txs b)
     @ pool_queue (snd (snd (mode_poll ts imp tick [] mode p)))
   \<and> pool_submission_number (snd (snd (mode_poll ts imp tick [] mode p))) = pool_submission_number p
   \<and> (pool_inv p \<longrightarrow> pool_inv (snd (snd (mode_poll ts imp tick [] mode p))))"
proof -
  have num: "pool_submission_number (snd (take_uniform imp n p)) = pool_submission_number p" for n
    by (simp add: take_uniform_def split_def Let_def)
  have q: "pool_queue p = (case fst (take_uniform imp n p) of None \<Rightarrow> [] | Some b \<Rightarrow> batch_txs b)
      @ pool_queue (snd (take_uniform imp n p))" for n
    using pool_source.take_conserves [of p imp n]
    by (cases "fst (take_uniform imp n p)") (simp_all add: empty_tx_batch_def)
  show ?thesis
  proof (cases mode)
    case Noop
    then show ?thesis by simp
  next
    case (Immediate m)
    then show ?thesis
      using q [of "im_max_transactions m"]
      by (simp add: immediate_poll_quiet num pool_inv_take)
  next
    case (FixedTime m)
    then show ?thesis
      using q [of "ft_max_transactions m"]
      by (cases "fst (take_uniform imp (ft_max_transactions m) p)")
        (simp_all add: fixed_time_poll_def split_def num pool_inv_take empty_tx_batch_def)
  qed
qed

text \<open>What was handed out and is still queued is what was queued and submitted by the events the loop got to.\<close>

definition accounted ::
  "'e sealer_event list \<Rightarrow> 'x option \<Rightarrow> transaction list \<Rightarrow> tx_batch list \<Rightarrow> 'l tx_pool \<Rightarrow> bool" where
  "accounted es e q bs p \<longleftrightarrow> (\<exists>k \<le> length es. mset (concat (map batch_txs bs)) + mset (pool_queue p)
      = mset q + mset (concat (map event_txs (take k es))) \<and> (e = None \<longrightarrow> k = length es) \<and> pool_inv p)"

lemma accounted_Cons:
  assumes "accounted es e q' bs' p"
    and "mset (concat (map batch_txs bs)) + mset q' = mset (concat (map batch_txs bs')) + mset q + mset (event_txs ev)"
  shows "accounted (ev # es) e q bs p"
proof -
  from assms(1) obtain k where k: "k \<le> length es" "e = None \<longrightarrow> k = length es" "pool_inv p"
    and eq: "mset (concat (map batch_txs bs')) + mset (pool_queue p) = mset q' + mset (concat (map event_txs (take k es)))"
    unfolding accounted_def by blast
  have "mset (concat (map batch_txs bs)) + mset (pool_queue p)
      = mset q + mset (concat (map event_txs (take (Suc k) (ev # es))))"
    using eq assms(2) by (simp add: union_assoc) (smt (verit) add.commute add.left_commute add_left_cancel)
  with k show ?thesis unfolding accounted_def by (intro exI [of _ "Suc k"]) simp
qed

lemma accounted_poll:
  fixes s :: "'l block_sealer"
  assumes poll: "mode_poll ts imp tick [] (bs_mode s) (bs_pool s) = (b, mode, pool)" and inv: "pool_inv (bs_pool s)"
    and run: "sealer_run ts (Polled imp tick reply # es) s = (bs, e, s')"
    and rest: "\<And>bs' e' t'. sealer_run ts es \<lparr>bs_mode = mode, bs_pool = pool\<rparr> = (bs', e', t')
      \<Longrightarrow> accounted es e' (pool_queue pool) bs' (bs_pool t')"
  shows "accounted (Polled imp tick reply # es) e (pool_queue (bs_pool s)) bs (bs_pool s')"
proof -
  note c = mode_poll_conserves [of "bs_pool s" ts imp tick "bs_mode s", unfolded poll, simplified]
  show ?thesis
  proof (cases b)
    case None
    with run poll have "accounted es e (pool_queue pool) bs (bs_pool s')" by (intro rest) simp
    then show ?thesis using c None by (intro accounted_Cons) simp_all
  next
    case batch: (Some tx_batch)
    show ?thesis
    proof (cases reply)
      case (Inl err)
      with batch run poll have "bs = [tx_batch]" "e = Some err" "bs_pool s' = pool" by auto
      with c batch inv show ?thesis unfolding accounted_def by (intro exI [of _ 0]) simp
    next
      case (Inr u)
      obtain bs' e' t' where r: "sealer_run ts es \<lparr>bs_mode = mode, bs_pool = pool\<rparr> = (bs', e', t')"
        by (cases "sealer_run ts es \<lparr>bs_mode = mode, bs_pool = pool\<rparr>")
      with Inr batch run poll have "bs = tx_batch # bs'" "e' = e" "t' = s'" by simp_all
      with rest [OF r] c batch show ?thesis by (intro accounted_Cons [of es e "pool_queue pool" bs']) simp_all
    qed
  qed
qed

lemma sealer_run_accounted:
  assumes "list_all only_adds es" and "pool_inv (bs_pool s)"
    and "unat (pool_submission_number (bs_pool s)) + length (concat (map event_txs es)) < 2 ^ 64"
    and "sealer_run ts es s = (bs, e, s')"
  shows "accounted es e (pool_queue (bs_pool s)) bs (bs_pool s')"
  using assms
proof (induction es arbitrary: s bs e s')
  case Nil
  then show ?case by (simp add: accounted_def)
next
  case (Cons ev es)
  note lim = Cons.prems(3)
  show ?case
  proof (cases ev)
    case (PoolChanged op)
    let ?p = "pool_exec ts op (bs_pool s)"
    have add: "?p = fold (add_tx ts) (event_txs ev) (bs_pool s)"
      using PoolChanged Cons.prems(1) by (cases op) (simp_all add: add_txs_eq_fold)
    have l: "unat (pool_submission_number (bs_pool s)) + length (event_txs ev) < 2 ^ 64"
      using lim by simp
    note p = pool_inv_fold_add_tx [OF Cons.prems(2) l, of ts, folded add]
    have "accounted es e (pool_queue ?p) bs (bs_pool s')"
      using Cons.IH [of "s\<lparr>bs_pool := ?p\<rparr>" bs e s'] Cons.prems p PoolChanged by simp
    then show ?thesis using p by (intro accounted_Cons [of es e "pool_queue ?p" bs]) simp_all
  next
    case (Delivered hs)
    with Cons.IH [of "s\<lparr>bs_mode := deliver_hashes hs (bs_mode s)\<rparr>" bs e s'] Cons.prems
    show ?thesis by (intro accounted_Cons [of es e "pool_queue (bs_pool s)" bs]) simp_all
  next
    case (ModeSet mode)
    with Cons.IH [of "set_mode mode s" bs e s'] Cons.prems
    show ?thesis by (intro accounted_Cons [of es e "pool_queue (bs_pool s)" bs]) (simp_all add: set_mode_def)
  next
    case (Polled imp tick reply)
    obtain b mode pool where poll: "mode_poll ts imp tick [] (bs_mode s) (bs_pool s) = (b, mode, pool)"
      by (cases "mode_poll ts imp tick [] (bs_mode s) (bs_pool s)") auto
    note c = mode_poll_conserves [of "bs_pool s" ts imp tick "bs_mode s", unfolded poll, simplified]
    have "accounted es e' (pool_queue pool) bs' (bs_pool t')"
      if "sealer_run ts es \<lparr>bs_mode = mode, bs_pool = pool\<rparr> = (bs', e', t')" for bs' e' t'
      using Cons.IH [OF _ _ _ that] Cons.prems(1,2) lim c Polled by simp
    with accounted_poll [OF poll Cons.prems(2)] Cons.prems(4) show ?thesis unfolding Polled by blast
  qed
qed

text \<open>C32: nothing is lost and nothing is sealed twice. Across any interleaving of submissions, mode
  changes, deliveries and polls, in any of the three modes and even when the node refuses a
  batch and the loop stops, what was handed to the node plus what is still queued is what was
  queued plus what was submitted before the loop ended.\<close>

theorem sealer_conserves:
  assumes "list_all only_adds es" and "pool_inv (bs_pool s)"
    and "unat (pool_submission_number (bs_pool s)) + length (concat (map event_txs es)) < 2 ^ 64"
    and "sealer_run ts es s = (bs, e, s')"
  shows "\<exists>k \<le> length es. mset (concat (map batch_txs bs)) + mset (pool_queue (bs_pool s'))
      = mset (pool_queue (bs_pool s)) + mset (concat (map event_txs (take k es)))
    \<and> (e = None \<longrightarrow> k = length es) \<and> pool_inv (bs_pool s')"
  using sealer_run_accounted [OF assms] unfolding accounted_def .

theorem sealer_conserves_witness:
  "\<exists>k \<le> 3. mset (concat (map batch_txs (fst (sealer_run no_send
        [PoolChanged (AddTx (sample_tx 1 10 5)), ModeSet (mode_fixed_time 4 1000),
         Polled impersonation_default True (Inl ())]
        (block_sealer_new Noop (tx_pool_new Fees)))))) \<subseteq># mset (concat (map event_txs (take k
        [PoolChanged (AddTx (sample_tx 1 10 5)), ModeSet (mode_fixed_time 4 1000),
         Polled impersonation_default True (Inl ())])))"
proof -
  let ?es = "[PoolChanged (AddTx (sample_tx 1 10 5)), ModeSet (mode_fixed_time 4 1000),
         Polled impersonation_default True (Inl ())]"
  let ?s = "block_sealer_new Noop (tx_pool_new Fees :: unit tx_pool)"
  obtain bs e s' where r: "sealer_run no_send ?es ?s = (bs, e, s')" by (cases "sealer_run no_send ?es ?s")
  have q: "pool_queue (bs_pool ?s) = []" and n: "pool_submission_number (bs_pool ?s) = 0"
    by (simp_all add: block_sealer_new_def tx_pool_new_def pool_queue_def)
  have adds: "list_all only_adds ?es" by simp
  have inv: "pool_inv (bs_pool ?s)" by (simp add: block_sealer_new_def pool_inv_new)
  have "length (concat (map event_txs ?es)) = 1" by simp
  then have lim: "unat (pool_submission_number (bs_pool ?s)) + length (concat (map event_txs ?es)) < 2 ^ 64"
    by (simp only: n) simp
  from sealer_conserves [OF adds inv lim r] obtain k where k: "k \<le> length ?es"
    and eq: "mset (concat (map batch_txs bs)) + mset (pool_queue (bs_pool s'))
      = mset (pool_queue (bs_pool ?s)) + mset (concat (map event_txs (take k ?es)))"
    by blast
  have "mset (concat (map batch_txs bs))
      \<subseteq># mset (concat (map batch_txs bs)) + mset (pool_queue (bs_pool s'))" by simp
  then have "mset (concat (map batch_txs bs)) \<subseteq># mset (concat (map event_txs (take k ?es)))"
    by (simp only: eq q mset.simps(1) add_0)
  moreover from k have "k \<le> 3" by simp
  ultimately show ?thesis unfolding r fst_conv by (intro exI [of _ k] conjI)
qed

end
