(* ===== verification/Gas_Estimation.thy ===== *)
theory Gas_Estimation
  imports Node_Inner Vm_Output
begin

text \<open>
  Gas estimation of \<open>crates/core/src/node/inner/in_memory_inner.rs\<close> (\<open>estimate_gas_impl\<close> to
  \<open>check_if_executable\<close>).

  The virtual machine and the fee functions of the zksync crates are the fields of \<open>gas_api\<close>: \<open>ga_vm\<close> runs one
  transaction on a view of the storage and may panic, since a read may. Errors carry the reported reason itself;
  their conversion to the error types of \<open>zksync_error\<close> and the printed reports are left out. The bounds of the
  search are natural numbers: with \<open>MAX_L2_TX_GAS_LIMIT\<close> below \<open>2 ^ 63\<close> no \<open>u64\<close> operation on them wraps.
\<close>

section \<open>Parameters and errors\<close>

definition MAX_TX_SIZE :: nat where
  "MAX_TX_SIZE = 1200000"

definition ESTIMATE_GAS_ACCEPTABLE_OVERESTIMATION :: nat where
  "ESTIMATE_GAS_ACCEPTABLE_OVERESTIMATION = 1000"

record 'r call_request =
  cr_from :: "address option"
  cr_to :: "address option"
  cr_nonce :: "u256 option"
  cr_eip712_gas_per_pubdata :: "u256 option"
  cr_rest :: 'r

record ('f, 'r) gas_api =
  ga_derive_overhead :: "u64 \<Rightarrow> u32 \<Rightarrow> nat \<Rightarrow> u8 \<Rightarrow> u32"
  ga_adjust_pubdata_price :: "batch_fee_input \<Rightarrow> u256 \<Rightarrow> batch_fee_input"
  ga_max_gas_per_pubdata_byte :: u64
  ga_max_l2_tx_gas_limit :: u64
  ga_max_vm_pubdata_per_batch :: nat
  ga_batch_computational_gas_limit :: u32
  ga_scale_gas :: "u64 \<Rightarrow> 'f \<Rightarrow> u64"
  ga_decompose_full_nonce :: "u256 \<Rightarrow> u256 \<times> u256"
  ga_l2_from_request :: "'r call_request \<Rightarrow> nat \<Rightarrow> bool
    \<Rightarrow> string + (l2_tx_common_data \<times> (l2_tx_common_data \<Rightarrow> transaction))"
  ga_l1_from_request :: "'r call_request \<Rightarrow> bool \<Rightarrow> string + transaction"
  ga_vm :: "bool \<Rightarrow> l1_batch_env \<Rightarrow> system_env \<Rightarrow> (storage_key \<Rightarrow> (string, h256) outcome) \<Rightarrow> transaction
    \<Rightarrow> bool \<Rightarrow> (string, vm_result \<times> call list) outcome"
  ga_verbosity :: nat
  ga_signatures_identifier :: "string option"

datatype gas_estimation_error =
    TransactionAlwaysReverts revert_output
  | TransactionAlwaysHalts string
  | EstimationRevert revert_output
  | EstimationHalt string
  | ExceedsLimitForPublishedPubdata u32 u32
  | ExceedsBlockGasLimit u64 u64 u64

datatype estimate_error =
    TransactionGasEstimationFailed gas_estimation_error bytes
  | SerializationError string "address option" "address option" string
  | EstimateGenericError string

section \<open>One attempt\<close>

definition overflow :: string where
  "overflow = ''arithmetic operation overflow''"

fun set_gas_limit :: "u256 \<Rightarrow> transaction \<Rightarrow> ('e, transaction) outcome" where
  "set_gas_limit gas_limit tx = (case tx_common_data tx of
       L1 d \<Rightarrow>
         and_then (expect overflow (checked_mul gas_limit (l1_max_fee_per_gas d))) (\<lambda>cost.
         and_then (expect ''called Option::unwrap() on a None value'' (checked_add cost (tx_value tx))) (\<lambda>required_funds.
         Inr (tx\<lparr>tx_common_data := L1 (d\<lparr>l1_gas_limit := gas_limit, l1_to_mint := required_funds\<rparr>),
           tx_gas_limit := gas_limit\<rparr>)))
     | L2 d \<Rightarrow> Inr (tx\<lparr>tx_common_data := L2 (d\<lparr>l2_fee := (l2_fee d)\<lparr>fee_gas_limit := gas_limit\<rparr>\<rparr>),
         tx_gas_limit := gas_limit\<rparr>)
     | ProtocolUpgrade \<Rightarrow> Inl (Panic ''not implemented''))"

fun gas_cost :: "transaction \<Rightarrow> ('e, u256) outcome" where
  "gas_cost tx = (case tx_common_data tx of
       L1 d \<Rightarrow> expect overflow (checked_mul (l1_gas_limit d) (l1_max_fee_per_gas d))
     | L2 d \<Rightarrow> expect overflow (checked_mul (fee_gas_limit (l2_fee d)) (fee_max_fee_per_gas (l2_fee d)))
     | ProtocolUpgrade \<Rightarrow> Inl (Panic ''not implemented''))"

definition tx_overhead :: "('f, 'r) gas_api \<Rightarrow> transaction \<Rightarrow> u64 \<Rightarrow> u64 \<Rightarrow> u64" where
  "tx_overhead ga tx gas_per_pubdata_byte try_gas_limit =
     ucast (ga_derive_overhead ga try_gas_limit (ucast gas_per_pubdata_byte) (tx_encoding_len tx) (tx_format tx))"

definition estimate_gas_step ::
  "('f, 'r) gas_api \<Rightarrow> node_api \<Rightarrow> system_contracts \<Rightarrow> ('f, 'p, 'b, 't, 'td) node_inner \<Rightarrow> transaction \<Rightarrow> u64 \<Rightarrow> u64
     \<Rightarrow> l1_batch_env \<Rightarrow> system_env \<Rightarrow> bool \<Rightarrow> (string, vm_result \<times> call list) outcome" where
  "estimate_gas_step ga na sc s tx gas_per_pubdata_byte try_gas_limit batch_env sys_env trace_calls =
     (let gas_limit_with_overhead = try_gas_limit + tx_overhead ga tx gas_per_pubdata_byte try_gas_limit
      in and_then (set_gas_limit (ucast gas_limit_with_overhead) tx) (\<lambda>tx.
         and_then (get_storage_key_for_base_token na (ni_storage_key_layout s) (tx_payer tx)) (\<lambda>balance_key.
         and_then (fst (read_value_internal (fork_as_source (ni_fork s)) balance_key (ni_fork_storage s)))
           (\<lambda>current_balance.
         and_then (gas_cost tx) (\<lambda>added_balance.
         and_then (expect overflow (checked_add current_balance added_balance)) (\<lambda>new_balance.
         ga_vm ga (sc_use_boojum sc) batch_env sys_env
           (\<lambda>key. if key = balance_key then Inr new_balance
              else storage_view (fork_as_source (ni_fork s)) (ni_fork_storage s) key)
           tx trace_calls))))))"

definition raw_bytes_or_default :: "transaction \<Rightarrow> bytes" where
  "raw_bytes_or_default tx = case_option [] id (tx_raw_bytes tx)"

definition check_if_executable ::
  "('f, 'r) gas_api \<Rightarrow> node_api \<Rightarrow> system_contracts \<Rightarrow> ('f, 'p, 'b, 't, 'td) node_inner \<Rightarrow> transaction \<Rightarrow> u64
     \<Rightarrow> l1_batch_env \<Rightarrow> system_env \<Rightarrow> (estimate_error, vm_result) outcome" where
  "check_if_executable ga na sc s tx gas_per_pubdata_byte batch_env sys_env =
     and_then (panic_only (estimate_gas_step ga na sc s tx gas_per_pubdata_byte
         (ga_max_l2_tx_gas_limit ga + of_nat (ga_max_vm_pubdata_per_batch ga) * gas_per_pubdata_byte)
         batch_env sys_env True)) (\<lambda>(tx_result, call_traces).
     let result = (case vr_result tx_result of
            Success _ \<Rightarrow> None
          | Revert out \<Rightarrow> Some (TransactionAlwaysReverts out)
          | Halt reason \<Rightarrow> Some (TransactionAlwaysHalts reason))
     in case result of
          None \<Rightarrow> Inr tx_result
        | Some error \<Rightarrow>
            (if call_traces \<noteq> [] \<and> ga_verbosity ga \<ge> 2 \<and> ga_signatures_identifier ga \<noteq> None
             then Inl (Err (EstimateGenericError (''Failed to create SignaturesIdentifier: ''
               @ the (ga_signatures_identifier ga))))
             else Inl (Err (TransactionGasEstimationFailed error (raw_bytes_or_default tx)))))"

section \<open>The search\<close>

function gas_search :: "(nat \<Rightarrow> ('e, bool) outcome) \<Rightarrow> nat \<Rightarrow> nat \<Rightarrow> ('e, nat) outcome" where
  "gas_search fails lower_bound upper_bound =
     (if lower_bound + ESTIMATE_GAS_ACCEPTABLE_OVERESTIMATION < upper_bound
      then let mid = (lower_bound + upper_bound) div 2
           in and_then (fails mid) (\<lambda>failed.
              if failed then gas_search fails (mid + 1) upper_bound
              else gas_search fails lower_bound mid)
      else Inr upper_bound)"
  by pat_completeness auto
termination
  by (relation "measure (\<lambda>(fails, lower_bound, upper_bound). upper_bound - lower_bound)") auto

declare gas_search.simps [simp del]

section \<open>The estimate\<close>

fun set_max_fee :: "u64 \<Rightarrow> transaction \<Rightarrow> ('e, transaction) outcome" where
  "set_max_fee base_fee tx = (case tx_common_data tx of
       L1 d \<Rightarrow> Inr (tx\<lparr>tx_common_data := L1 (d\<lparr>l1_max_fee_per_gas := ucast base_fee\<rparr>),
         tx_max_fee_per_gas := ucast base_fee\<rparr>)
     | L2 d \<Rightarrow> Inr (tx\<lparr>tx_common_data := L2 (d\<lparr>l2_fee := (l2_fee d)\<lparr>fee_max_fee_per_gas := ucast base_fee,
           fee_max_priority_fee_per_gas := ucast base_fee\<rparr>\<rparr>),
         tx_max_fee_per_gas := ucast base_fee\<rparr>)
     | ProtocolUpgrade \<Rightarrow> Inl (Panic ''not implemented''))"

definition additional_gas_for_pubdata ::
  "('f, 'r) gas_api \<Rightarrow> node_api \<Rightarrow> system_contracts \<Rightarrow> ('f, 'p, 'b, 't, 'td) node_inner \<Rightarrow> transaction \<Rightarrow> u64
     \<Rightarrow> l1_batch_env \<Rightarrow> system_env \<Rightarrow> (estimate_error, u64) outcome" where
  "additional_gas_for_pubdata ga na sc s tx gas_per_pubdata_byte batch_env sys_env =
     (if is_l1_tx (tx_common_data tx) then Inr 0
      else and_then (check_if_executable ga na sc s tx gas_per_pubdata_byte batch_env sys_env) (\<lambda>result.
        if vr_pubdata_published result > of_nat (ga_max_vm_pubdata_per_batch ga)
        then Inl (Err (TransactionGasEstimationFailed (ExceedsLimitForPublishedPubdata
          (vr_pubdata_published result) (of_nat (ga_max_vm_pubdata_per_batch ga))) (raw_bytes_or_default tx)))
        else Inr (ucast (vr_pubdata_published result) * gas_per_pubdata_byte)))"

text \<open>The final attempt with the suggested limit, and the fee it gives.\<close>

definition final_fee ::
  "('f, 'r) gas_api \<Rightarrow> transaction \<Rightarrow> u64 \<Rightarrow> u64 \<Rightarrow> u64 \<Rightarrow> u64 \<Rightarrow> u64 \<Rightarrow> vm_result \<Rightarrow> (estimate_error, fee) outcome" where
  "final_fee ga tx base_fee gas_per_pubdata_byte additional tx_body_gas_limit suggested_gas_limit r =
     (let overhead = tx_overhead ga tx gas_per_pubdata_byte suggested_gas_limit;
          result = (case vr_result r of
              Revert out \<Rightarrow> Inl (EstimationRevert out)
            | Halt reason \<Rightarrow> Inl (EstimationHalt reason)
            | Success _ \<Rightarrow> (case overflowing_add suggested_gas_limit overhead of
                (full_gas_limit, False) \<Rightarrow> Inr \<lparr>fee_gas_limit = ucast full_gas_limit,
                  fee_max_fee_per_gas = ucast base_fee, fee_max_priority_fee_per_gas = 0,
                  fee_gas_per_pubdata_limit = ucast gas_per_pubdata_byte\<rparr>
              | (_, True) \<Rightarrow> Inl (ExceedsBlockGasLimit overhead additional tx_body_gas_limit)))
      in case result of
           Inr f \<Rightarrow> Inr f
         | Inl e \<Rightarrow> Inl (Err (TransactionGasEstimationFailed e (raw_bytes_or_default tx))))"

definition estimate_gas_inner ::
  "'h chain_api \<Rightarrow> ('f, 'p) fee_api \<Rightarrow> ('f, 'r) gas_api \<Rightarrow> node_api \<Rightarrow> system_contracts
     \<Rightarrow> ('f, 'p, 'b, 't, 'td) node_inner \<Rightarrow> transaction \<Rightarrow> (estimate_error, fee) outcome" where
  "estimate_gas_inner ca fa ga na sc s tx =
     (let fee_input = ga_adjust_pubdata_price ga (get_batch_fee_input_scaled fa (ni_fee_input_provider s))
            (tx_gas_per_pubdata_byte_limit tx);
          (base_fee, gas_per_pubdata_byte) = derive_base_fee_and_gas_per_pubdata fa fee_input
      in and_then (set_max_fee base_fee tx) (\<lambda>tx.
         and_then (panic_only (create_l1_batch_env ca fa s)) (\<lambda>(env, _).
         let batch_env = env\<lparr>env_fee_input := fee_input\<rparr>;
             impersonating = is_impersonating (ni_impersonation s) (tx_initiator_account tx)
         in and_then (contracts_for_fee_estimate impersonating sc) (\<lambda>base_contracts.
         let sys_env = create_system_env (ga_batch_computational_gas_limit ga) base_contracts EstimateFee s
         in and_then (additional_gas_for_pubdata ga na sc s tx gas_per_pubdata_byte batch_env sys_env) (\<lambda>additional.
         and_then (gas_search (\<lambda>mid. and_then (panic_only (estimate_gas_step ga na sc s tx gas_per_pubdata_byte
               (additional + of_nat mid) batch_env sys_env False)) (\<lambda>(r, _). Inr (is_failed (vr_result r))))
             0 (unat (ga_max_l2_tx_gas_limit ga))) (\<lambda>upper_bound.
         let suggested_gas_limit = ga_scale_gas ga (of_nat upper_bound + additional)
               (estimate_gas_scale_factor (ni_fee_input_provider s))
         in and_then (panic_only (estimate_gas_step ga na sc s tx gas_per_pubdata_byte suggested_gas_limit
               batch_env sys_env False)) (\<lambda>(r, _).
            final_fee ga tx base_fee gas_per_pubdata_byte additional (of_nat upper_bound) suggested_gas_limit r)))))))"

section \<open>Requests\<close>

definition override_gas_per_pubdata :: "('f, 'r) gas_api \<Rightarrow> 'r call_request \<Rightarrow> 'r call_request" where
  "override_gas_per_pubdata ga req = (case cr_eip712_gas_per_pubdata req of
       Some g \<Rightarrow> if g = 0
         then req\<lparr>cr_eip712_gas_per_pubdata := Some (ucast (ga_max_gas_per_pubdata_byte ga))\<rparr> else req
     | None \<Rightarrow> req)"

definition fill_nonce ::
  "('f, 'r) gas_api \<Rightarrow> node_api \<Rightarrow> ('f, 'p, 'b, 't, 'td) node_inner \<Rightarrow> 'r call_request
     \<Rightarrow> (estimate_error, 'r call_request) outcome" where
  "fill_nonce ga na s req = (case cr_nonce req of
       Some _ \<Rightarrow> Inr req
     | None \<Rightarrow>
         and_then (get_nonce_key na (ni_storage_key_layout s) (case_option 0 id (cr_from req))) (\<lambda>nonce_key.
         and_then (panic_only (fst (read_value_internal (fork_as_source (ni_fork s)) nonce_key (ni_fork_storage s))))
           (\<lambda>full_nonce.
         Inr (req\<lparr>cr_nonce := Some (fst (ga_decompose_full_nonce ga full_nonce))\<rparr>))))"

definition placeholder_signature :: bytes where
  "placeholder_signature = (replicate 65 0)[64 := 27]"

definition estimate_gas_impl ::
  "'h chain_api \<Rightarrow> ('f, 'p) fee_api \<Rightarrow> ('f, 'r) gas_api \<Rightarrow> node_api \<Rightarrow> system_contracts
     \<Rightarrow> ('f, 'p, 'b, 't, 'td) node_inner \<Rightarrow> 'r call_request \<Rightarrow> (estimate_error, fee) outcome" where
  "estimate_gas_impl ca fa ga na sc s req =
     and_then (fill_nonce ga na s req) (\<lambda>req1.
     let req2 = override_gas_per_pubdata ga req1;
         is_eip712 = (cr_eip712_gas_per_pubdata req2 \<noteq> None)
     in case ga_l2_from_request ga req2 MAX_TX_SIZE (allow_no_target sc) of
          Inl reason \<Rightarrow> Inl (Err (SerializationError ''L2'' (cr_from req) (cr_to req) reason))
        | Inr (data, into_transaction) \<Rightarrow>
            let data = (if l2_signature data = [] then data\<lparr>l2_signature := placeholder_signature\<rparr> else data);
                data = (if is_eip712 then data\<lparr>l2_transaction_type := EIP712Transaction\<rparr> else data);
                data = data\<lparr>l2_fee := (l2_fee data)
                  \<lparr>fee_gas_per_pubdata_limit := ucast (ga_max_gas_per_pubdata_byte ga)\<rparr>\<rparr>
            in estimate_gas_inner ca fa ga na sc s (into_transaction data))"

definition estimate_l1_to_l2_gas_impl ::
  "'h chain_api \<Rightarrow> ('f, 'p) fee_api \<Rightarrow> ('f, 'r) gas_api \<Rightarrow> node_api \<Rightarrow> system_contracts
     \<Rightarrow> ('f, 'p, 'b, 't, 'td) node_inner \<Rightarrow> 'r call_request \<Rightarrow> (estimate_error, u256) outcome" where
  "estimate_l1_to_l2_gas_impl ca fa ga na sc s req =
     (case ga_l1_from_request ga (override_gas_per_pubdata ga req) (allow_no_target sc) of
        Inl reason \<Rightarrow> Inl (Err (SerializationError ''L1'' (cr_from req) (cr_to req) reason))
      | Inr tx \<Rightarrow> and_then (estimate_gas_inner ca fa ga na sc s tx) (\<lambda>f. Inr (fee_gas_limit f)))"

section \<open>The search finds the smallest sufficient limit\<close>

lemma gas_search_step:
  assumes "lower + ESTIMATE_GAS_ACCEPTABLE_OVERESTIMATION < upper"
  shows "gas_search fails lower upper = and_then (fails ((lower + upper) div 2)) (\<lambda>failed.
    if failed then gas_search fails ((lower + upper) div 2 + 1) upper
    else gas_search fails lower ((lower + upper) div 2))"
  using assms by (simp add: gas_search.simps [of fails lower upper] Let_def)

lemma gas_search_stop:
  "\<not> lower + ESTIMATE_GAS_ACCEPTABLE_OVERESTIMATION < upper \<Longrightarrow> gas_search fails lower upper = Inr upper"
  by (simp add: gas_search.simps)

lemma gas_search_bounds:
  "(\<And>m. is_ok (fails m)) \<Longrightarrow>
   \<exists>u. gas_search fails lower upper = Inr u \<and> u \<le> upper \<and> (u = upper \<or> fails u = Inr False)"
proof (induction "upper - lower" arbitrary: lower upper rule: less_induct)
  case less
  let ?mid = "(lower + upper) div 2"
  show ?case
  proof (cases "lower + ESTIMATE_GAS_ACCEPTABLE_OVERESTIMATION < upper")
    case True
    then have m: "lower < upper" by simp
    obtain failed where f: "fails ?mid = Inr failed" using less.prems [of ?mid] by (auto simp: is_ok_iff)
    show ?thesis
    proof (cases failed)
      case True
      have "upper - (?mid + 1) < upper - lower" using m by simp
      from less.hyps [OF this less.prems] f True m show ?thesis
        by (simp add: gas_search_step [OF \<open>lower + _ < upper\<close>])
    next
      case False
      have "?mid - lower < upper - lower" using m by simp
      from less.hyps [OF this less.prems] f False m show ?thesis
        by (auto simp: gas_search_step [OF \<open>lower + _ < upper\<close>] intro: order_trans)
    qed
  qed (simp add: gas_search_stop)
qed

lemma gas_search_threshold:
  assumes "\<And>m. fails m = Inr (m < t)" and "lower \<le> t" and "t \<le> upper"
  shows "\<exists>u. gas_search fails lower upper = Inr u \<and> t \<le> u \<and> u \<le> t + ESTIMATE_GAS_ACCEPTABLE_OVERESTIMATION"
  using assms(2,3)
proof (induction "upper - lower" arbitrary: lower upper rule: less_induct)
  case less
  let ?mid = "(lower + upper) div 2"
  show ?case
  proof (cases "lower + ESTIMATE_GAS_ACCEPTABLE_OVERESTIMATION < upper")
    case True
    then have m: "upper - (?mid + 1) < upper - lower" "?mid - lower < upper - lower" by simp_all
    show ?thesis
      using less.hyps [OF m(1)] less.hyps [OF m(2)] less.prems assms(1) [of ?mid]
      by (cases "?mid < t") (simp_all add: gas_search_step [OF True])
  next
    case False
    with less.prems show ?thesis by (simp add: gas_search_stop)
  qed
qed

text \<open>C38: the search of gas estimation ends and is exact up to the tolerance. When no attempt panics it returns a limit
  that is the maximal one or was tried with success; and when a transaction needs at least \<open>t\<close> gas and
  succeeds with any limit from \<open>t\<close> on, the limit found is sufficient and at most 1000 above \<open>t\<close>.\<close>

theorem gas_search_minimal:
  "((\<forall>m. is_ok (fails m)) \<longrightarrow>
      (\<exists>u. gas_search fails 0 limit = Inr u \<and> u \<le> limit \<and> (u = limit \<or> fails u = Inr False)))
   \<and> ((\<forall>m. fails m = Inr (m < t)) \<and> t \<le> limit \<longrightarrow>
      (\<exists>u. gas_search fails 0 limit = Inr u \<and> t \<le> u \<and> u \<le> t + ESTIMATE_GAS_ACCEPTABLE_OVERESTIMATION))"
  using gas_search_bounds [of fails 0 limit] gas_search_threshold [of fails t 0 limit] by blast

theorem gas_search_minimal_witness:
  "\<exists>u. gas_search (\<lambda>m. Inr (m < 21000) :: (string, bool) outcome) 0 80000000 = Inr u \<and> 21000 \<le> u \<and> u \<le> 22000"
  using gas_search_minimal [of "\<lambda>m. Inr (m < 21000) :: (string, bool) outcome" 80000000 21000]
  by (simp add: ESTIMATE_GAS_ACCEPTABLE_OVERESTIMATION_def)

section \<open>Estimates are sound\<close>

lemma set_gas_limit_same:
  assumes "set_gas_limit g tx = (Inr tx' :: ('e, _) outcome)"
  shows "tx_gas_limit tx' = g \<and> tx_hash tx' = tx_hash tx \<and> tx_max_fee_per_gas tx' = tx_max_fee_per_gas tx"
  using assms by (auto split: execute_transaction_common.splits)

lemma set_max_fee_same:
  assumes "set_max_fee f tx = (Inr tx' :: ('e, _) outcome)"
  shows "tx_hash tx' = tx_hash tx \<and> tx_max_fee_per_gas tx' = ucast f
    \<and> is_l1_tx (tx_common_data tx') = is_l1_tx (tx_common_data tx)"
  using assms by (auto split: execute_transaction_common.splits)

lemma estimate_gas_step_vm:
  assumes "estimate_gas_step ga na sc s tx gpp limit env sys trace = Inr r"
  shows "\<exists>view tx'. ga_vm ga (sc_use_boojum sc) env sys view tx' trace = Inr r
    \<and> tx_gas_limit tx' = ucast (limit + tx_overhead ga tx gpp limit)
    \<and> tx_hash tx' = tx_hash tx \<and> tx_max_fee_per_gas tx' = tx_max_fee_per_gas tx"
  using assms set_gas_limit_same [where 'e = string, of "ucast (limit + tx_overhead ga tx gpp limit)" tx]
  by (auto simp: estimate_gas_step_def Let_def simp del: set_gas_limit.simps gas_cost.simps)

lemma final_fee_Inr:
  assumes "final_fee ga tx base_fee gpp additional body suggested r = Inr f"
  shows "\<not> is_failed (vr_result r) \<and> fee_max_fee_per_gas f = ucast base_fee
    \<and> fee_gas_per_pubdata_limit f = ucast gpp \<and> fee_max_priority_fee_per_gas f = 0
    \<and> fee_gas_limit f = ucast (suggested + tx_overhead ga tx gpp suggested)
    \<and> unat suggested + unat (tx_overhead ga tx gpp suggested) < 2 ^ 64"
  using assms
  by (cases "vr_result r"; cases "unat suggested + unat (tx_overhead ga tx gpp suggested) < 2 ^ 64")
    (auto simp: final_fee_def Let_def overflowing_add_def)

lemma check_if_executable_ok:
  assumes "check_if_executable ga na sc s tx gpp env sys = Inr r"
  shows "\<not> is_failed (vr_result r)"
proof -
  from assms obtain a traces where "estimate_gas_step ga na sc s tx gpp (ga_max_l2_tx_gas_limit ga
      + of_nat (ga_max_vm_pubdata_per_batch ga) * gpp) env sys True = Inr (a, traces)"
    by (auto simp: check_if_executable_def)
  with assms show ?thesis
    by (cases "vr_result a") (auto simp: check_if_executable_def split: if_splits)
qed

text \<open>C39: estimates are backed by a run. When an estimate is returned, the virtual machine was run on the transaction with
  exactly the returned gas limit and maximal fee, and that run succeeded; the limit is the suggested limit plus the
  overhead, added without overflow. For an L2 transaction the run with the maximal limit succeeded as well and
  published no more pubdata than a batch may.\<close>

theorem estimate_gas_sound:
  assumes "estimate_gas_inner ca fa ga na sc s tx = Inr f"
  shows "(\<exists>env sys_env view tx' r traces. ga_vm ga (sc_use_boojum sc) env sys_env view tx' False = Inr (r, traces)
      \<and> \<not> is_failed (vr_result r) \<and> tx_hash tx' = tx_hash tx
      \<and> tx_gas_limit tx' = fee_gas_limit f \<and> tx_max_fee_per_gas tx' = fee_max_fee_per_gas f)
    \<and> unat (fee_gas_limit f) < 2 ^ 64 \<and> fee_max_priority_fee_per_gas f = 0
    \<and> (is_l1_tx (tx_common_data tx) \<or>
      (\<exists>tx' gpp env sys_env r. check_if_executable ga na sc s tx' gpp env sys_env = Inr r
      \<and> tx_hash tx' = tx_hash tx \<and> \<not> is_failed (vr_result r)
      \<and> vr_pubdata_published r \<le> of_nat (ga_max_vm_pubdata_per_batch ga)))"
proof (intro conjI)
  obtain base_fee gpp where d: "derive_base_fee_and_gas_per_pubdata fa (ga_adjust_pubdata_price ga
      (get_batch_fee_input_scaled fa (ni_fee_input_provider s)) (tx_gas_per_pubdata_byte_limit tx)) = (base_fee, gpp)"
    by fastforce
  from assms d obtain tx1 env sys_env additional upper r traces where
    fee: "set_max_fee base_fee tx = (Inr tx1 :: (estimate_error, _) outcome)"
    and add: "additional_gas_for_pubdata ga na sc s tx1 gpp env sys_env = Inr additional"
    and step: "estimate_gas_step ga na sc s tx1 gpp (ga_scale_gas ga (of_nat upper + additional)
        (estimate_gas_scale_factor (ni_fee_input_provider s))) env sys_env False = Inr (r, traces)"
    and final: "final_fee ga tx1 base_fee gpp additional (of_nat upper) (ga_scale_gas ga (of_nat upper + additional)
        (estimate_gas_scale_factor (ni_fee_input_provider s))) r = Inr f"
    by (auto simp: estimate_gas_inner_def Let_def simp del: set_max_fee.simps)
  note tx1 = set_max_fee_same [OF fee] and f = final_fee_Inr [OF final]
  from estimate_gas_step_vm [OF step] obtain view tx' where
    "ga_vm ga (sc_use_boojum sc) env sys_env view tx' False = Inr (r, traces)"
    "tx_hash tx' = tx_hash tx" "tx_gas_limit tx' = fee_gas_limit f" "tx_max_fee_per_gas tx' = fee_max_fee_per_gas f"
    using tx1 f by auto
  with f show "\<exists>env sys_env view tx' r traces. ga_vm ga (sc_use_boojum sc) env sys_env view tx' False = Inr (r, traces)
      \<and> \<not> is_failed (vr_result r) \<and> tx_hash tx' = tx_hash tx
      \<and> tx_gas_limit tx' = fee_gas_limit f \<and> tx_max_fee_per_gas tx' = fee_max_fee_per_gas f" by blast
  show "unat (fee_gas_limit f) < 2 ^ 64" "fee_max_priority_fee_per_gas f = 0"
    using f unat_less_exp [where 'a = 64] by simp_all
  show "is_l1_tx (tx_common_data tx) \<or>
      (\<exists>tx' gpp env sys_env r. check_if_executable ga na sc s tx' gpp env sys_env = Inr r
      \<and> tx_hash tx' = tx_hash tx \<and> \<not> is_failed (vr_result r)
      \<and> vr_pubdata_published r \<le> of_nat (ga_max_vm_pubdata_per_batch ga))"
    using add tx1 check_if_executable_ok [of ga na sc s tx1 gpp env sys_env]
    by (auto simp: additional_gas_for_pubdata_def not_less split: if_splits) blast
qed

text \<open>A machine on which every transaction succeeds.\<close>

definition sample_vm_result :: vm_result where
  "sample_vm_result = \<lparr>vr_result = Success [], vr_storage_logs = [],
     vr_events = [], vr_user_l2_to_l1_logs = [], vr_system_l2_to_l1_logs = [], vr_gas_used = 21000, vr_computational_gas_used = 20000,
     vr_pubdata_published = 10, vr_gas_refunded = 0,
     vr_cycles_used = 0, vr_contracts_used = 0, vr_dynamic_factory_deps = []\<rparr>"

definition sample_gas_api :: "(nat, unit) gas_api" where
  "sample_gas_api = \<lparr>ga_derive_overhead = (\<lambda>limit price len ty. 500), ga_adjust_pubdata_price = (\<lambda>f p. f),
     ga_max_gas_per_pubdata_byte = 50000, ga_max_l2_tx_gas_limit = 80000000, ga_max_vm_pubdata_per_batch = 120000,
     ga_batch_computational_gas_limit = 100000000, ga_scale_gas = (\<lambda>gas factor. 21000),
     ga_decompose_full_nonce = (\<lambda>n. (n, 0)), ga_l2_from_request = (\<lambda>req size no_target. Inl ''unsupported''),
     ga_l1_from_request = (\<lambda>req no_target. Inl ''unsupported''),
     ga_vm = (\<lambda>boojum env sys_env view tx trace. Inr (sample_vm_result, [])),
     ga_verbosity = 0, ga_signatures_identifier = None\<rparr>"

lemma mul_seven: "checked_mul (ucast (a :: u64)) (7 :: u256) \<noteq> None"
proof -
  have "unat (ucast a :: u256) < 2 ^ 64" using unat_less_exp [of a] by simp
  then show ?thesis by (simp add: checked_mul_def)
qed

lemma sample_step:
  assumes "tx_common_data tx = L2 d" and "fee_max_fee_per_gas (l2_fee d) = 7"
  shows "estimate_gas_step sample_gas_api sample_node_api sc (sample_node t) tx gpp limit env sys trace
    = Inr (sample_vm_result, [])"
proof -
  have layout: "ni_storage_key_layout (sample_node t) = ZkEra" by (simp add: sample_node_def node_inner_init_def Let_def)
  obtain c where "checked_mul (ucast (limit + tx_overhead sample_gas_api tx gpp limit)) (7 :: u256) = Some c"
    using mul_seven by blast
  moreover from this have "checked_add 0 c = Some c" using unat_less_exp [of c] by (simp add: checked_add_def)
  ultimately show ?thesis
    by (simp add: estimate_gas_step_def assms layout Let_def fs.read_result sample_node_read)
      (simp add: sample_node_api_def sample_gas_api_def)
qed

lemma sample_estimate: "\<exists>f. estimate_gas_inner sample_chain_api sample_fee_api sample_gas_api sample_node_api
    sample_system_contracts (sample_node None) (sample_tx 1 10 5) = Inr f"
proof -
  obtain u where u: "gas_search (\<lambda>mid. Inr False :: (estimate_error, bool) outcome) 0 80000000 = Inr u"
    using gas_search_bounds [of "\<lambda>mid. Inr False :: (estimate_error, bool) outcome" 0 80000000] by auto
  have fees: "derive_base_fee_and_gas_per_pubdata sample_fee_api (ga_adjust_pubdata_price sample_gas_api
      (get_batch_fee_input_scaled sample_fee_api (ni_fee_input_provider (sample_node None))) p) = (7, 27215318222)" for p
    by (simp add: sample_defs sample_fee_api_def sample_gas_api_def get_batch_fee_input_scaled_def enforce_base_fee_def
        provider_default_def Let_def DEFAULT_L1_GAS_PRICE_def DEFAULT_FAIR_PUBDATA_PRICE_def split_def)
  have contracts: "\<exists>c. contracts_for_fee_estimate imp sample_system_contracts = (Inr c :: (estimate_error, _) outcome)" for imp
    by (cases imp) (simp_all add: contracts_for_fee_estimate_def)
  obtain c where c: "contracts_for_fee_estimate (is_impersonating (ni_impersonation (sample_node None)) 10)
      sample_system_contracts = (Inr c :: (estimate_error, _) outcome)" using contracts by blast
  obtain e where e: "create_l1_batch_env sample_chain_api sample_fee_api (sample_node None) = Inr e"
    using sample_env by blast
  have check: "check_if_executable sample_gas_api sample_node_api sc (sample_node None) tx gpp env sys
      = Inr sample_vm_result" if "tx_common_data tx = L2 d" "fee_max_fee_per_gas (l2_fee d) = 7" for sc tx d gpp env sys
    by (simp add: check_if_executable_def sample_step [OF that]) (simp add: sample_vm_result_def)
  have data: "tx_common_data (sample_tx 1 10 5) = L2 \<lparr>l2_nonce = 0, l2_fee = \<lparr>fee_gas_limit = 1000000,
        fee_max_fee_per_gas = 5, fee_max_priority_fee_per_gas = 0, fee_gas_per_pubdata_limit = 50000\<rparr>,
        l2_signature = [], l2_transaction_type = EIP1559Transaction, l2_input = None, l2_chain_id = Some 260,
        l2_paymaster = 0, l2_paymaster_input = []\<rparr>"
    by (simp add: sample_tx_def)
  show ?thesis
    using u e
    by (simp add: estimate_gas_inner_def fees data c additional_gas_for_pubdata_def check sample_step split_def Let_def)
      (simp add: sample_gas_api_def sample_vm_result_def final_fee_def tx_overhead_def overflowing_add_def Let_def)
qed

theorem estimate_gas_sound_witness:
  "\<exists>f. estimate_gas_inner sample_chain_api sample_fee_api sample_gas_api sample_node_api
      sample_system_contracts (sample_node None) (sample_tx 1 10 5) = Inr f
    \<and> unat (fee_gas_limit f) < 2 ^ 64 \<and> fee_max_priority_fee_per_gas f = 0"
  using sample_estimate estimate_gas_sound by blast

end
