(* ===== verification/Node_Ext.thy ===== *)
theory Node_Ext
  imports Node_Executor Block_Sealer Gas_Estimation
begin

text \<open>
  The node as its JSON-RPC methods see it: \<open>crates/core/src/node/in_memory_ext.rs\<close> and the methods of
  \<open>in_memory.rs\<close>.

  The node owns the pool, the mode of the sealer, the snapshots and a handle to the executor. A method that reads the
  node's state waits while a stuck executor holds its lock. An answer is \<open>None\<close> when the call never returns, otherwise
  its outcome. Log messages are left out; the logging switches are in \<open>Observability\<close>.
\<close>

section \<open>State\<close>

record ('l, 'f, 'p, 'b, 't, 'td) in_memory_node =
  nd_executor :: "('f, 'p, 'b, 't, 'td) node_executor"
  nd_pool :: "'l tx_pool"
  nd_sealer_mode :: block_sealer_mode
  nd_snapshots :: "('f, 'p) snapshot list"
  nd_show_storage_logs :: show_storage_logs
  nd_show_node_config :: bool

text \<open>Parsers, validators and codecs of other crates.\<close>

record ext_api =
  xt_parse_url :: "string \<Rightarrow> string + string"
  xt_validate_bytecode :: "bytes \<Rightarrow> string + unit"
  xt_system_context_chain_id_key :: storage_key
  xt_gzip_json :: "versioned_state \<Rightarrow> string + bytes"
  xt_has_gzip_header :: "bytes \<Rightarrow> bool"
  xt_gunzip :: "bytes \<Rightarrow> string + bytes"
  xt_state_from_json :: "bytes \<Rightarrow> string + versioned_state"

type_synonym 'a answered = "(node_error, 'a) outcome option"

abbreviation node_of :: "('l, 'f, 'p, 'b, 't, 'td) in_memory_node \<Rightarrow> ('f, 'p, 'b, 't, 'td) node_inner" where
  "node_of nd \<equiv> nx_inner (nd_executor nd)"

definition inner_locked :: "('l, 'f, 'p, 'b, 't, 'td) in_memory_node \<Rightarrow> bool" where
  "inner_locked nd \<longleftrightarrow> nx_status (nd_executor nd) = Stuck"

definition set_node_of ::
  "('f, 'p, 'b, 't, 'td) node_inner \<Rightarrow> ('l, 'f, 'p, 'b, 't, 'td) in_memory_node
     \<Rightarrow> ('l, 'f, 'p, 'b, 't, 'td) in_memory_node" where
  "set_node_of s nd = nd\<lparr>nd_executor := (nd_executor nd)\<lparr>nx_inner := s\<rparr>\<rparr>"

text \<open>A call through the handle, and an anyhow error.\<close>

fun lift_result :: "node_error + 'a \<Rightarrow> (node_error, 'a) outcome" where
  "lift_result (Inl e) = Inl (Err e)"
| "lift_result (Inr a) = Inr a"

definition via_handle ::
  "(('f, 'p, 'b, 't, 'td) node_executor \<Rightarrow> (node_error + 'a) option \<times> ('f, 'p, 'b, 't, 'td) node_executor)
     \<Rightarrow> ('l, 'f, 'p, 'b, 't, 'td) in_memory_node \<Rightarrow> 'a answered \<times> ('l, 'f, 'p, 'b, 't, 'td) in_memory_node" where
  "via_handle f nd = (case f (nd_executor nd) of (a, x) \<Rightarrow> (map_option lift_result a, nd\<lparr>nd_executor := x\<rparr>))"

definition answer_map :: "('a \<Rightarrow> 'c) \<Rightarrow> 'a answered \<times> 'n \<Rightarrow> 'c answered \<times> 'n" where
  "answer_map f = map_prod (map_option (map_sum id f)) id"

abbreviation bail :: "string \<Rightarrow> 'a answered" where
  "bail m \<equiv> Some (Inl (Err (NodeGenericError m)))"

section \<open>Time\<close>

definition node_increase_time where
  "node_increase_time env time_delta_seconds nd =
     answer_map (\<lambda>_. time_delta_seconds) (via_handle (increase_time_sync env time_delta_seconds) nd)"

definition node_set_next_block_timestamp where
  "node_set_next_block_timestamp env timestamp nd = via_handle (enforce_next_timestamp_sync env timestamp) nd"

definition node_set_time where
  "node_set_time env timestamp nd = via_handle (set_current_timestamp_sync env timestamp) nd"

definition node_set_block_timestamp_interval where
  "node_set_block_timestamp_interval seconds nd = via_handle (handle_set_block_timestamp_interval seconds) nd"

definition node_remove_block_timestamp_interval where
  "node_remove_block_timestamp_interval env nd = via_handle (remove_block_timestamp_interval_sync env) nd"

definition get_current_timestamp :: "('l, 'f, 'p, 'b, 't, 'td) in_memory_node \<Rightarrow> u64" where
  "get_current_timestamp nd = current_timestamp (ni_time (node_of nd))"

section \<open>Mining\<close>

definition next_batch ::
  "nat \<Rightarrow> ('l, 'f, 'p, 'b, 't, 'td) in_memory_node \<Rightarrow> tx_batch \<times> ('l, 'f, 'p, 'b, 't, 'td) in_memory_node" where
  "next_batch max_transactions nd =
     (let (b, p) = take_uniform (ni_impersonation (node_of nd)) max_transactions (nd_pool nd)
      in (case_option empty_tx_batch id b, nd\<lparr>nd_pool := p\<rparr>))"

definition mine_block ::
  "('h, 'v, 'f, 'p, 'b, 't, 'td) node_env \<Rightarrow> ('l, 'f, 'p, 'b, 't, 'td) in_memory_node
     \<Rightarrow> u32 answered \<times> ('l, 'f, 'p, 'b, 't, 'td) in_memory_node" where
  "mine_block env nd =
     (if inner_locked nd then (None, nd)
      else let (tx_batch, nd) = next_batch (cfg_max_transactions (ni_config (node_of nd))) nd
           in via_handle (seal_block_sync env tx_batch) nd)"

fun detailed_txs ::
  "blockchain_state \<Rightarrow> transaction_variant list \<Rightarrow> (node_error, detailed_transaction list) outcome" where
  "detailed_txs chain [] = Inr []"
| "detailed_txs chain (tv # tvs) =
     and_then (case tv of
         Full tx \<Rightarrow> and_then (get_detailed_tx tx chain) (expect ''freshly executed tx is missing from storage'')
       | Hash h \<Rightarrow> Inl (Panic ''we only store full txs in blocks'')) (\<lambda>tx.
     and_then (detailed_txs chain tvs) (\<lambda>txs. Inr (tx # txs)))"

definition mine_detailed ::
  "('h, 'v, 'f, 'p, 'b, 't, 'td) node_env \<Rightarrow> ('l, 'f, 'p, 'b, 't, 'td) in_memory_node
     \<Rightarrow> (api_block \<times> detailed_transaction list) answered \<times> ('l, 'f, 'p, 'b, 't, 'td) in_memory_node" where
  "mine_detailed env nd = (case mine_block env nd of
       (None, nd') \<Rightarrow> (None, nd')
     | (Some r, nd') \<Rightarrow>
         (Some (and_then r (\<lambda>block_number.
            and_then (get_block_by_number block_number (ni_blockchain (node_of nd'))) (\<lambda>found.
            and_then (expect ''freshly mined block is missing from storage'' found) (\<lambda>block.
            and_then (detailed_txs (ni_blockchain (node_of nd')) (blk_transactions block)) (\<lambda>txs.
            Inr (block\<lparr>blk_transactions := []\<rparr>, txs)))))), nd'))"

fun next_batches ::
  "nat \<Rightarrow> nat \<Rightarrow> ('l, 'f, 'p, 'b, 't, 'td) in_memory_node \<Rightarrow> tx_batch list \<times> ('l, 'f, 'p, 'b, 't, 'td) in_memory_node" where
  "next_batches max_transactions 0 nd = ([], nd)"
| "next_batches max_transactions (Suc n) nd =
     (let (tx_batch, nd1) = next_batch max_transactions nd;
          (tx_batches, nd2) = next_batches max_transactions n nd1
      in (tx_batch # tx_batches, nd2))"

definition mine_blocks ::
  "('h, 'v, 'f, 'p, 'b, 't, 'td) node_env \<Rightarrow> u64 option \<Rightarrow> u64 option \<Rightarrow> ('l, 'f, 'p, 'b, 't, 'td) in_memory_node
     \<Rightarrow> unit answered \<times> ('l, 'f, 'p, 'b, 't, 'td) in_memory_node" where
  "mine_blocks env num_blocks gap nd =
     (let num_blocks = case_option 1 id num_blocks; interval_sec = case_option 1 id gap
      in if num_blocks = 0 then (Some (Inr ()), nd)
         else if num_blocks > 1 \<and> interval_sec = 0
         then (bail ''Provided interval is `0`; unable to produce blocks with the same timestamp'', nd)
         else if inner_locked nd then (None, nd)
         else let (tx_batches, nd) = next_batches (cfg_max_transactions (ni_config (node_of nd))) (unat num_blocks) nd
              in answer_map (\<lambda>_. ()) (via_handle (seal_blocks_sync env tx_batches interval_sec) nd))"

definition get_automine :: "('l, 'f, 'p, 'b, 't, 'td) in_memory_node \<Rightarrow> bool" where
  "get_automine nd = True"

text \<open>Replayed transactions are not impersonated and all have to be part of the sealed block.\<close>

definition replay_txs ::
  "('h, 'v, 'f, 'p, 'b, 't, 'td) node_env \<Rightarrow> transaction list \<Rightarrow> ('l, 'f, 'p, 'b, 't, 'td) in_memory_node
     \<Rightarrow> unit answered \<times> ('l, 'f, 'p, 'b, 't, 'td) in_memory_node" where
  "replay_txs env txs nd =
     (case via_handle (seal_block_sync env \<lparr>batch_impersonating = False, batch_txs = txs\<rparr>) nd of
        (None, nd') \<Rightarrow> (None, nd')
      | (Some r, nd') \<Rightarrow>
          (Some (and_then r (\<lambda>block_number.
             and_then (get_block_by_number block_number (ni_blockchain (node_of nd'))) (\<lambda>found.
             and_then (expect ''freshly sealed block could not be found in storage'' found) (\<lambda>block.
             if \<forall>tx \<in> set txs. tx_hash tx \<in> variant_hash ` set (blk_transactions block) then Inr ()
             else Inl (Err (NodeGenericError ''Failed to replay transactions''))))))
           , nd'))"

section \<open>Snapshots\<close>

definition MAX_SNAPSHOTS :: nat where
  "MAX_SNAPSHOTS = 100"

definition node_snapshot ::
  "('l, 'f, 'p, 'b, 't, 'td) in_memory_node \<Rightarrow> u64 answered \<times> ('l, 'f, 'p, 'b, 't, 'td) in_memory_node" where
  "node_snapshot nd =
     (if inner_locked nd then (None, nd)
      else if length (nd_snapshots nd) \<ge> MAX_SNAPSHOTS then (bail ''maximum number of snapshots exceeded'', nd)
      else let snapshots = nd_snapshots nd @ [inner_snapshot (node_of nd)]
           in (Some (Inr (of_nat (length snapshots))), nd\<lparr>nd_snapshots := snapshots\<rparr>))"

definition revert_snapshot ::
  "u64 \<Rightarrow> ('l, 'f, 'p, 'b, 't, 'td) in_memory_node \<Rightarrow> bool answered \<times> ('l, 'f, 'p, 'b, 't, 'td) in_memory_node" where
  "revert_snapshot snapshot_id nd =
     (if inner_locked nd then (None, nd)
      else let snapshot_id_index = unat snapshot_id - 1
           in if snapshot_id_index \<ge> length (nd_snapshots nd) then (bail ''no snapshot exists for the id'', nd)
              else (Some (Inr True), set_node_of (restore_snapshot (nd_snapshots nd ! snapshot_id_index) (node_of nd))
                (nd\<lparr>nd_snapshots := take snapshot_id_index (nd_snapshots nd)\<rparr>)))"

section \<open>Accounts and storage\<close>

definition node_set_balance where
  "node_set_balance env account balance nd = answer_map (\<lambda>_. True) (via_handle (set_balance_sync env account balance) nd)"

definition node_set_nonce where
  "node_set_nonce env account nonce nd = answer_map (\<lambda>_. True) (via_handle (set_nonce_sync env account nonce) nd)"

definition node_set_storage_at where
  "node_set_storage_at env account slot v nd =
     answer_map (\<lambda>_. True) (via_handle (set_storage_sync env \<lparr>sk_address = account, sk_key = slot\<rparr> v) nd)"

text \<open>\<open>hex::decode\<close>: an even number of hexadecimal digits of either case.\<close>

definition hex_digit :: "char \<Rightarrow> u8 option" where
  "hex_digit c = (let n = of_char c :: nat in
     if 48 \<le> n \<and> n \<le> 57 then Some (of_nat (n - 48))
     else if 97 \<le> n \<and> n \<le> 102 then Some (of_nat (n - 87))
     else if 65 \<le> n \<and> n \<le> 70 then Some (of_nat (n - 55))
     else None)"

fun hex_pairs :: "string \<Rightarrow> string + bytes" where
  "hex_pairs [] = Inr []"
| "hex_pairs [c] = Inl ''Odd number of digits''"
| "hex_pairs (c # d # cs) = (case (hex_digit c, hex_digit d) of
       (Some h, Some l) \<Rightarrow> and_then (hex_pairs cs) (\<lambda>bs. Inr ((h * 16 + l) # bs))
     | _ \<Rightarrow> Inl ''Invalid character'')"

definition hex_decode :: "string \<Rightarrow> string + bytes" where
  "hex_decode s = (if odd (length s) then Inl ''Odd number of digits'' else hex_pairs s)"

text \<open>The flag that allows EVM bytecode is only looked up for EVM bytecode.\<close>

definition node_set_code ::
  "('h, 'v, 'f, 'p, 'b, 't, 'td) node_env \<Rightarrow> ext_api \<Rightarrow> address \<Rightarrow> string \<Rightarrow> ('l, 'f, 'p, 'b, 't, 'td) in_memory_node
     \<Rightarrow> unit answered \<times> ('l, 'f, 'p, 'b, 't, 'td) in_memory_node" where
  "node_set_code env xt account code nd =
     (if take 2 code \<noteq> ''0x'' then (bail ''code must be 0x-prefixed'', nd)
      else case hex_decode (drop 2 code) of
          Inl e \<Rightarrow> (bail e, nd)
        | Inr bytecode \<Rightarrow>
            if xa_is_evm_bytecode (en_exec env) bytecode
            then if inner_locked nd then (None, nd)
                 else if \<not> cfg_use_evm_interpreter (ni_config (node_of nd))
                 then (bail ''EVM bytecode detected in 'set_code', but EVM interpreter is disabled in config'', nd)
                 else via_handle (set_code_sync env account bytecode) nd
            else (case xt_validate_bytecode xt bytecode of
                Inl e \<Rightarrow> (bail ''Invalid bytecode'', nd)
              | Inr _ \<Rightarrow> via_handle (set_code_sync env account bytecode) nd))"

definition override_bytecode where
  "override_bytecode env account bytecode nd = via_handle (set_code_sync env account bytecode) nd"

definition node_set_rich_account ::
  "('h, 'v, 'f, 'p, 'b, 't, 'td) node_env \<Rightarrow> address \<Rightarrow> u256 \<Rightarrow> ('l, 'f, 'p, 'b, 't, 'td) in_memory_node
     \<Rightarrow> unit answered \<times> ('l, 'f, 'p, 'b, 't, 'td) in_memory_node" where
  "node_set_rich_account env account balance nd =
     (if inner_locked nd then (None, nd)
      else case panic_only (set_rich_account (en_node env) account balance (node_of nd)) of
          Inl f \<Rightarrow> (Some (Inl f), nd)
        | Inr s \<Rightarrow> (Some (Inr ()), set_node_of s nd))"

definition with_impersonation ::
  "(impersonation_state \<Rightarrow> 'a \<times> impersonation_state) \<Rightarrow> ('l, 'f, 'p, 'b, 't, 'td) in_memory_node
     \<Rightarrow> 'a \<times> ('l, 'f, 'p, 'b, 't, 'td) in_memory_node" where
  "with_impersonation f nd =
     (let (r, i) = f (ni_impersonation (node_of nd)) in (r, set_node_of ((node_of nd)\<lparr>ni_impersonation := i\<rparr>) nd))"

definition auto_impersonate_account where
  "auto_impersonate_account enabled nd = snd (with_impersonation (\<lambda>i. ((), set_auto_impersonation enabled i)) nd)"

definition impersonate_account where
  "impersonate_account account nd = with_impersonation (impersonate account) nd"

definition stop_impersonating_account where
  "stop_impersonating_account account nd = with_impersonation (stop_impersonating account) nd"

section \<open>Sealing mode and pool\<close>

definition get_immediate_sealing :: "('l, 'f, 'p, 'b, 't, 'td) in_memory_node \<Rightarrow> bool" where
  "get_immediate_sealing nd = is_immediate (nd_sealer_mode nd)"

text \<open>The listener is registered before the configuration is read.\<close>

definition set_immediate_sealing ::
  "'l \<Rightarrow> bool \<Rightarrow> ('l, 'f, 'p, 'b, 't, 'td) in_memory_node \<Rightarrow> unit answered \<times> ('l, 'f, 'p, 'b, 't, 'td) in_memory_node" where
  "set_immediate_sealing sender enable nd =
     (if enable
      then let nd = nd\<lparr>nd_pool := add_tx_listener sender (nd_pool nd)\<rparr>
           in if inner_locked nd then (None, nd)
              else (Some (Inr ()), nd\<lparr>nd_sealer_mode :=
                mode_immediate (cfg_max_transactions (ni_config (node_of nd))) []\<rparr>)
      else (Some (Inr ()), nd\<lparr>nd_sealer_mode := Noop\<rparr>))"

definition set_interval_sealing ::
  "u64 \<Rightarrow> ('l, 'f, 'p, 'b, 't, 'td) in_memory_node \<Rightarrow> unit answered \<times> ('l, 'f, 'p, 'b, 't, 'td) in_memory_node" where
  "set_interval_sealing seconds nd =
     (if seconds = 0 then (Some (Inr ()), nd\<lparr>nd_sealer_mode := Noop\<rparr>)
      else if inner_locked nd then (None, nd)
      else (Some (Inr ()), nd\<lparr>nd_sealer_mode :=
        mode_fixed_time (cfg_max_transactions (ni_config (node_of nd))) seconds\<rparr>))"

definition node_drop_transaction ::
  "h256 \<Rightarrow> ('l, 'f, 'p, 'b, 't, 'td) in_memory_node \<Rightarrow> h256 option \<times> ('l, 'f, 'p, 'b, 't, 'td) in_memory_node" where
  "node_drop_transaction hash nd =
     (let (tx, p) = drop_transaction hash (nd_pool nd) in (map_option tx_hash tx, nd\<lparr>nd_pool := p\<rparr>))"

definition drop_all_transactions ::
  "('l, 'f, 'p, 'b, 't, 'td) in_memory_node \<Rightarrow> ('l, 'f, 'p, 'b, 't, 'td) in_memory_node" where
  "drop_all_transactions nd = nd\<lparr>nd_pool := pool_clear (nd_pool nd)\<rparr>"

definition remove_pool_transactions ::
  "address \<Rightarrow> ('l, 'f, 'p, 'b, 't, 'td) in_memory_node \<Rightarrow> ('l, 'f, 'p, 'b, 't, 'td) in_memory_node" where
  "remove_pool_transactions account nd =
     nd\<lparr>nd_pool := snd (drop_transactions (\<lambda>x. tx_initiator_account (pt_transaction x) = account) (nd_pool nd))\<rparr>"

definition set_next_block_base_fee_per_gas where
  "set_next_block_base_fee_per_gas env base_fee nd = via_handle (enforce_next_base_fee_per_gas_sync env base_fee) nd"

section \<open>The network\<close>

record reset_request_forking =
  rf_json_rpc_url :: string
  rf_block_number :: "u64 option"

record reset_request =
  rr_to :: "u64 option"
  rr_forking :: "reset_request_forking option"

definition reset_call ::
  "('h, 'v, 'f, 'p, 'b, 't, 'td) node_env \<Rightarrow> ext_api \<Rightarrow> reset_request option \<Rightarrow> ('l, 'f, 'p, 'b, 't, 'td) in_memory_node
     \<Rightarrow> unit answered \<times> ('l, 'f, 'p, 'b, 't, 'td) in_memory_node" where
  "reset_call env xt reset_spec nd = (case reset_spec of
       None \<Rightarrow> via_handle (remove_fork_sync env) nd
     | Some spec \<Rightarrow> (case rr_to spec of
           Some to \<Rightarrow>
             if rr_forking spec \<noteq> None then (bail ''Only one of 'to' and 'forking' attributes can be specified'', nd)
             else (case as_u32 to of
                 Inl f \<Rightarrow> (Some (Inl f), nd)
               | Inr n \<Rightarrow> via_handle (reset_fork_block_number_sync env n) nd)
         | None \<Rightarrow> (case rr_forking spec of
               Some forking \<Rightarrow> (case xt_parse_url xt (rf_json_rpc_url forking) of
                   Inl e \<Rightarrow> (bail ''malformed fork URL'', nd)
                 | Inr url \<Rightarrow> (case rf_block_number forking of
                       None \<Rightarrow> via_handle (reset_fork_sync env url None) nd
                     | Some n \<Rightarrow> (case as_u32 n of
                           Inl f \<Rightarrow> (Some (Inl f), nd)
                         | Inr n \<Rightarrow> via_handle (reset_fork_sync env url (Some n)) nd)))
             | None \<Rightarrow> via_handle (remove_fork_sync env) nd)))"

definition reset_network ::
  "('h, 'v, 'f, 'p, 'b, 't, 'td) node_env \<Rightarrow> ext_api \<Rightarrow> reset_request option \<Rightarrow> ('l, 'f, 'p, 'b, 't, 'td) in_memory_node
     \<Rightarrow> bool answered \<times> ('l, 'f, 'p, 'b, 't, 'td) in_memory_node" where
  "reset_network env xt reset_spec nd = (case reset_call env xt reset_spec nd of
       (Some (Inr u), nd') \<Rightarrow> (Some (Inr True), nd'\<lparr>nd_snapshots := []\<rparr>)
     | (Some (Inl f), nd') \<Rightarrow> (Some (Inl f), nd')
     | (None, nd') \<Rightarrow> (None, nd'))"

definition set_rpc_url ::
  "('h, 'v, 'f, 'p, 'b, 't, 'td) node_env \<Rightarrow> ext_api \<Rightarrow> string \<Rightarrow> ('l, 'f, 'p, 'b, 't, 'td) in_memory_node
     \<Rightarrow> unit answered \<times> ('l, 'f, 'p, 'b, 't, 'td) in_memory_node" where
  "set_rpc_url env xt raw_url nd = (case xt_parse_url xt raw_url of
       Inl e \<Rightarrow> (bail ''malformed fork URL'', nd)
     | Inr url \<Rightarrow> answer_map (\<lambda>_. ()) (via_handle (set_fork_url_sync env url) nd))"

definition node_set_chain_id ::
  "ext_api \<Rightarrow> u32 \<Rightarrow> ('l, 'f, 'p, 'b, 't, 'td) in_memory_node \<Rightarrow> unit answered \<times> ('l, 'f, 'p, 'b, 't, 'td) in_memory_node" where
  "node_set_chain_id xt i nd =
     (if inner_locked nd then (None, nd)
      else (Some (Inr ()), set_node_of ((node_of nd)
        \<lparr>ni_config := (ni_config (node_of nd))\<lparr>cfg_chain_id := Some i\<rparr>,
         ni_fork_storage := set_chain_id (xt_system_context_chain_id_key xt) (ucast i) (ni_fork_storage (node_of nd))\<rparr>) nd))"

definition get_chain_id :: "('l, 'f, 'p, 'b, 't, 'td) in_memory_node \<Rightarrow> u32 option" where
  "get_chain_id nd = (if inner_locked nd then None
     else Some (case_option TEST_NODE_NETWORK_ID id (cfg_chain_id (ni_config (node_of nd)))))"

definition node_chain_id :: "('l, 'f, 'p, 'b, 't, 'td) in_memory_node \<Rightarrow> u64 option" where
  "node_chain_id nd = (if inner_locked nd then None else Some (fs_chain_id (ni_fork_storage (node_of nd))))"

section \<open>Dumps and settings\<close>

datatype state_load_failure =
    StateDecompression string
  | StateDeserialization string
  | StateLoader state_loader_error

definition node_dump_state ::
  "ext_api \<Rightarrow> bool \<Rightarrow> ('l, 'f, 'p, 'b, 't, 'td) in_memory_node \<Rightarrow> bytes answered" where
  "node_dump_state xt preserve_historical_states nd =
     (if inner_locked nd then None
      else case xt_gzip_json xt (dump_state preserve_historical_states (node_of nd)) of
          Inl e \<Rightarrow> bail e
        | Inr bs \<Rightarrow> Some (Inr bs))"

text \<open>Compressed and plain states are told apart by the gzip header.\<close>

definition decode_state :: "ext_api \<Rightarrow> bytes \<Rightarrow> state_load_failure + versioned_state" where
  "decode_state xt buf =
     and_then (if xt_has_gzip_header xt buf
         then (case xt_gunzip xt buf of Inl e \<Rightarrow> Inl (StateDecompression e) | Inr decoded \<Rightarrow> Inr decoded)
         else Inr buf) (\<lambda>decoded.
     case xt_state_from_json xt decoded of Inl e \<Rightarrow> Inl (StateDeserialization e) | Inr state \<Rightarrow> Inr state)"

definition node_load_state ::
  "ext_api \<Rightarrow> bytes \<Rightarrow> ('l, 'f, 'p, 'b, 't, 'td) in_memory_node
     \<Rightarrow> (state_load_failure, bool) outcome option \<times> ('l, 'f, 'p, 'b, 't, 'td) in_memory_node" where
  "node_load_state xt buf nd = (case decode_state xt buf of
       Inl e \<Rightarrow> (Some (Inl (Err e)), nd)
     | Inr state \<Rightarrow>
         if inner_locked nd then (None, nd)
         else (case load_state state (node_of nd) of
             Inl (Err e) \<Rightarrow> (Some (Inl (Err (StateLoader e))), nd)
           | Inl (Panic m) \<Rightarrow> (Some (Inl (Panic m)), nd)
           | Inr (ok, s) \<Rightarrow> (Some (Inr ok), set_node_of s nd)))"

definition set_show_storage_logs ::
  "show_storage_logs \<Rightarrow> ('l, 'f, 'p, 'b, 't, 'td) in_memory_node
     \<Rightarrow> show_storage_logs option \<times> ('l, 'f, 'p, 'b, 't, 'td) in_memory_node" where
  "set_show_storage_logs v nd = (if inner_locked nd then (None, nd) else (Some v, nd\<lparr>nd_show_storage_logs := v\<rparr>))"

definition set_show_node_config ::
  "bool \<Rightarrow> ('l, 'f, 'p, 'b, 't, 'td) in_memory_node \<Rightarrow> bool option \<times> ('l, 'f, 'p, 'b, 't, 'td) in_memory_node" where
  "set_show_node_config v nd = (if inner_locked nd then (None, nd) else (Some v, nd\<lparr>nd_show_node_config := v\<rparr>))"

section \<open>Snapshots\<close>

text \<open>C10: snapshots. A snapshot gets the next number, unless the limit is reached; whatever happens to the node after it,
  as long as that snapshot is still the one with that number, reverting to it restores the state taken then and forgets it and all
  later ones, keeping the earlier; a number that is too large is an error and changes nothing.\<close>

theorem snapshot_revert:
  assumes "\<not> inner_locked nd" and "\<not> inner_locked nd'"
    and "take (length (nd_snapshots nd) + 1) (nd_snapshots nd') = nd_snapshots nd @ [inner_snapshot (node_of nd)]"
  shows "(length (nd_snapshots nd) < 100 \<longrightarrow>
      (\<exists>i nd1. node_snapshot nd = (Some (Inr i), nd1) \<and> unat i = length (nd_snapshots nd) + 1
        \<and> nd_snapshots nd1 = nd_snapshots nd @ [inner_snapshot (node_of nd)] \<and> node_of nd1 = node_of nd
        \<and> (\<exists>nd2. revert_snapshot i nd' = (Some (Inr True), nd2) \<and> nd_snapshots nd2 = nd_snapshots nd
            \<and> node_of nd2 = restore_snapshot (inner_snapshot (node_of nd)) (node_of nd'))))
    \<and> (\<not> length (nd_snapshots nd) < 100 \<longrightarrow> node_snapshot nd = (bail ''maximum number of snapshots exceeded'', nd))
    \<and> (length (nd_snapshots nd') < unat j \<longrightarrow> revert_snapshot j nd' = (bail ''no snapshot exists for the id'', nd'))
    \<and> revert_snapshot 0 nd' = revert_snapshot 1 nd'"
proof -
  let ?n = "length (nd_snapshots nd)"
  have len: "?n < length (nd_snapshots nd')"
    using arg_cong [OF assms(3), of length] by simp
  have "take (?n + 1) (nd_snapshots nd') ! ?n = inner_snapshot (node_of nd)" unfolding assms(3) by simp
  then have at: "nd_snapshots nd' ! ?n = inner_snapshot (node_of nd)" by simp
  have "take ?n (take (?n + 1) (nd_snapshots nd')) = nd_snapshots nd" unfolding assms(3) by simp
  then have before: "take ?n (nd_snapshots nd') = nd_snapshots nd" by simp
  have small: "unat (of_nat (?n + 1) :: u64) = ?n + 1" if "?n < 100"
    using that by (subst unsigned_of_nat) (simp add: take_bit_nat_eq_self)
  show ?thesis
    using assms(1,2) len at before small
    by (auto simp: node_snapshot_def revert_snapshot_def MAX_SNAPSHOTS_def set_node_of_def Let_def)
qed

section \<open>Mining\<close>

lemma next_batch_spec:
  assumes "next_batch mx nd = (b, nd')"
  shows "pool_queue (nd_pool nd) = batch_txs b @ pool_queue (nd_pool nd') \<and> length (batch_txs b) \<le> mx
    \<and> (\<forall>tx \<in> set (batch_txs b). tx_status (ni_impersonation (node_of nd)) tx = batch_impersonating b)
    \<and> (\<exists>p. nd' = nd\<lparr>nd_pool := p\<rparr>)"
proof -
  let ?imp = "ni_impersonation (node_of nd)"
  obtain f p where t: "take_uniform ?imp mx (nd_pool nd) = (f, p)" by fastforce
  with assms have b: "b = case_option empty_tx_batch id f" "nd' = nd\<lparr>nd_pool := p\<rparr>"
    by (simp_all add: next_batch_def)
  have "pool_queue (nd_pool nd) = batch_txs b @ pool_queue p"
    using pool_source.take_conserves [of "nd_pool nd" ?imp mx] t b by (cases f) simp_all
  moreover have "length (batch_txs b) \<le> mx \<and> (\<forall>tx \<in> set (batch_txs b). tx_status ?imp tx = batch_impersonating b)"
    using pool_source.take_bounded [of ?imp mx "nd_pool nd"] pool_source.take_uniform_status [of ?imp mx "nd_pool nd"] t b
    by (cases f) (simp_all add: empty_tx_batch_def)
  ultimately show ?thesis using b by auto
qed

lemma next_batches_spec:
  assumes "next_batches mx n nd = (bs, nd')"
  shows "pool_queue (nd_pool nd) = concat (map batch_txs bs) @ pool_queue (nd_pool nd') \<and> length bs = n
    \<and> (\<forall>b \<in> set bs. length (batch_txs b) \<le> mx
        \<and> (\<forall>tx \<in> set (batch_txs b). tx_status (ni_impersonation (node_of nd)) tx = batch_impersonating b))
    \<and> (\<exists>p. nd' = nd\<lparr>nd_pool := p\<rparr>)"
  using assms
proof (induction n arbitrary: nd bs)
  case (Suc n)
  obtain b nd1 where b: "next_batch mx nd = (b, nd1)" by fastforce
  obtain bs1 nd2 where bs1: "next_batches mx n nd1 = (bs1, nd2)" by fastforce
  from Suc.prems b bs1 have eq: "bs = b # bs1" "nd2 = nd'" by simp_all
  from next_batch_spec [OF b] Suc.IH [OF bs1 [unfolded eq(2)]]
  show ?case by (auto simp: eq(1))
next
  case 0
  then show ?case by (cases nd) auto
qed

text \<open>Mining several blocks. Asking for no block, or for several without time between them, changes nothing; otherwise the
  executor gets one batch per block, in one request; the batches are a prefix of the queue of the pool, none is longer than the limit,
  each is uniform in impersonation, and exactly their transactions leave the pool.\<close>

theorem mine_blocks_spec:
  assumes "\<not> inner_locked nd" and "mine_blocks env num gap nd = (a, nd')"
  shows "(num = Some 0 \<longrightarrow> a = Some (Inr ()) \<and> nd' = nd)
    \<and> (num \<noteq> None \<and> 1 < unat (the num) \<and> gap = Some 0 \<longrightarrow> nd' = nd \<and> (\<exists>m. a = bail m))
    \<and> (num \<noteq> Some 0 \<and> \<not> (num \<noteq> None \<and> 1 < unat (the num) \<and> gap = Some 0) \<longrightarrow>
        (\<exists>batches. length batches = unat (case_option 1 id num)
          \<and> nd_executor nd' = snd (seal_blocks_sync env batches (case_option 1 id gap) (nd_executor nd))
          \<and> pool_queue (nd_pool nd) = concat (map batch_txs batches) @ pool_queue (nd_pool nd')
          \<and> (\<forall>b \<in> set batches. length (batch_txs b) \<le> cfg_max_transactions (ni_config (node_of nd))
              \<and> (\<forall>tx \<in> set (batch_txs b). tx_status (ni_impersonation (node_of nd)) tx = batch_impersonating b))))"
proof (intro conjI impI)
  assume n: "num \<noteq> Some 0 \<and> \<not> (num \<noteq> None \<and> 1 < unat (the num) \<and> gap = Some 0)"
  obtain bs nd1 where bs: "next_batches (cfg_max_transactions (ni_config (node_of nd))) (unat (case_option 1 id num)) nd = (bs, nd1)"
    by fastforce
  have nz: "case_option 1 id num \<noteq> 0" "\<not> (case_option 1 id num > 1 \<and> case_option 1 id gap = 0)"
    using n by (auto split: option.splits simp: word_less_nat_alt)
  from next_batches_spec [OF bs] have nd1: "nd_executor nd1 = nd_executor nd" by auto
  have "nd_executor nd' = snd (seal_blocks_sync env bs (case_option 1 id gap) (nd_executor nd))" "nd_pool nd' = nd_pool nd1"
    using assms bs nz nd1 by (auto simp: mine_blocks_def Let_def answer_map_def via_handle_def split_def)
  then show "\<exists>batches. length batches = unat (case_option 1 id num)
          \<and> nd_executor nd' = snd (seal_blocks_sync env batches (case_option 1 id gap) (nd_executor nd))
          \<and> pool_queue (nd_pool nd) = concat (map batch_txs batches) @ pool_queue (nd_pool nd')
          \<and> (\<forall>b \<in> set batches. length (batch_txs b) \<le> cfg_max_transactions (ni_config (node_of nd))
              \<and> (\<forall>tx \<in> set (batch_txs b). tx_status (ni_impersonation (node_of nd)) tx = batch_impersonating b))"
    using next_batches_spec [OF bs] by (intro exI [of _ bs]) simp
qed (use assms in \<open>auto simp: mine_blocks_def Let_def word_less_nat_alt split: if_splits\<close>)

text \<open>A replay that succeeds left nothing out. When replaying transactions answers without an error, the block
  sealed for them is in the chain and holds every one of them; a transaction the run dropped makes the answer an error.\<close>

theorem replay_txs_complete:
  assumes "replay_txs env txs nd = (Some (Inr ()), nd')"
  shows "\<exists>n block. seal_block_sync env \<lparr>batch_impersonating = False, batch_txs = txs\<rparr> (nd_executor nd)
      = (Some (Inr n), nd_executor nd')
    \<and> get_block_by_number n (ni_blockchain (node_of nd')) = (Inr (Some block) :: (node_error, _) outcome)
    \<and> tx_hash ` set txs \<subseteq> variant_hash ` set (blk_transactions block)"
proof -
  let ?batch = "\<lparr>batch_impersonating = False, batch_txs = txs\<rparr>"
  obtain a x where h: "seal_block_sync env ?batch (nd_executor nd) = (a, x)" by fastforce
  with assms obtain n block where "a = Some (Inr n)" "nd_executor nd' = x"
    and g: "get_block_by_number n (ni_blockchain (node_of nd')) = (Inr (Some block) :: (node_error, _) outcome)"
    and "\<forall>tx \<in> set txs. tx_hash tx \<in> variant_hash ` set (blk_transactions block)"
    by (auto simp: replay_txs_def via_handle_def split: option.splits if_splits elim!: lift_result.elims)
  then show ?thesis using h by blast
qed

section \<open>The node as a state machine\<close>

text \<open>One constructor per call that changes the node: the methods above, a submission, a poll of the sealer, and the executor
  catching up with its queue.\<close>

datatype 'l node_call =
    CallIncreaseTime u64 | CallSetNextBlockTimestamp u64 | CallSetTime u64
  | CallSetInterval u64 | CallRemoveInterval
  | CallMine | CallMineDetailed | CallMineBlocks "u64 option" "u64 option" | CallReplay "transaction list"
  | CallSnapshot | CallRevert u64
  | CallSetBalance address u256 | CallSetNonce address u256 | CallSetStorageAt address u256 u256
  | CallSetCode address string | CallOverrideBytecode address bytes | CallSetRichAccount address u256
  | CallAutoImpersonate bool | CallImpersonate address | CallStopImpersonating address
  | CallSetImmediate 'l bool | CallSetIntervalSealing u64
  | CallDropTransaction h256 | CallDropAll | CallRemovePoolTransactions address
  | CallSetBaseFee u256 | CallReset "reset_request option" | CallSetRpcUrl string | CallSetChainId u32
  | CallLoadState bytes | CallShowStorageLogs show_storage_logs | CallShowNodeConfig bool
  | CallSubmit transaction | CallPollSealer bool poll_env | CallExecutorRuns

text \<open>The sealer hands a batch to the executor without waiting for the block.\<close>

definition poll_sealer ::
  "('l \<Rightarrow> h256 \<Rightarrow> 'l send_result) \<Rightarrow> bool \<Rightarrow> poll_env \<Rightarrow> ('l, 'f, 'p, 'b, 't, 'td) in_memory_node
     \<Rightarrow> ('l, 'f, 'p, 'b, 't, 'td) in_memory_node" where
  "poll_sealer ts tick penv nd =
     (let (found, mode, pool) = mode_poll ts (ni_impersonation (node_of nd)) tick penv (nd_sealer_mode nd) (nd_pool nd);
          nd = nd\<lparr>nd_sealer_mode := mode, nd_pool := pool\<rparr>
      in case found of None \<Rightarrow> nd | Some tx_batch \<Rightarrow> snd (via_handle (handle_seal_block tx_batch) nd))"

definition executor_runs ::
  "('h, 'v, 'f, 'p, 'b, 't, 'td) node_env \<Rightarrow> ('l, 'f, 'p, 'b, 't, 'td) in_memory_node
     \<Rightarrow> ('l, 'f, 'p, 'b, 't, 'td) in_memory_node" where
  "executor_runs env nd = (let x = nd_executor nd in
     if nx_status x \<noteq> Serving then nd
     else case exec_queue env None (nx_queue x) (nx_inner x) of
         (status, r, s) \<Rightarrow> nd\<lparr>nd_executor := \<lparr>nx_inner = s, nx_status = status, nx_queue = []\<rparr>\<rparr>)"

fun node_call_exec ::
  "('h, 'v, 'f, 'p, 'b, 't, 'td) node_env \<Rightarrow> ext_api \<Rightarrow> ('l \<Rightarrow> h256 \<Rightarrow> 'l send_result) \<Rightarrow> 'l node_call
     \<Rightarrow> ('l, 'f, 'p, 'b, 't, 'td) in_memory_node \<Rightarrow> ('l, 'f, 'p, 'b, 't, 'td) in_memory_node" where
  "node_call_exec env xt ts (CallIncreaseTime d) nd = snd (node_increase_time env d nd)"
| "node_call_exec env xt ts (CallSetNextBlockTimestamp t) nd = snd (node_set_next_block_timestamp env t nd)"
| "node_call_exec env xt ts (CallSetTime t) nd = snd (node_set_time env t nd)"
| "node_call_exec env xt ts (CallSetInterval d) nd = snd (node_set_block_timestamp_interval d nd)"
| "node_call_exec env xt ts CallRemoveInterval nd = snd (node_remove_block_timestamp_interval env nd)"
| "node_call_exec env xt ts CallMine nd = snd (mine_block env nd)"
| "node_call_exec env xt ts CallMineDetailed nd = snd (mine_detailed env nd)"
| "node_call_exec env xt ts (CallMineBlocks n d) nd = snd (mine_blocks env n d nd)"
| "node_call_exec env xt ts (CallReplay txs) nd = snd (replay_txs env txs nd)"
| "node_call_exec env xt ts CallSnapshot nd = snd (node_snapshot nd)"
| "node_call_exec env xt ts (CallRevert i) nd = snd (revert_snapshot i nd)"
| "node_call_exec env xt ts (CallSetBalance a v) nd = snd (node_set_balance env a v nd)"
| "node_call_exec env xt ts (CallSetNonce a v) nd = snd (node_set_nonce env a v nd)"
| "node_call_exec env xt ts (CallSetStorageAt a k v) nd = snd (node_set_storage_at env a k v nd)"
| "node_call_exec env xt ts (CallSetCode a c) nd = snd (node_set_code env xt a c nd)"
| "node_call_exec env xt ts (CallOverrideBytecode a c) nd = snd (override_bytecode env a c nd)"
| "node_call_exec env xt ts (CallSetRichAccount a v) nd = snd (node_set_rich_account env a v nd)"
| "node_call_exec env xt ts (CallAutoImpersonate b) nd = auto_impersonate_account b nd"
| "node_call_exec env xt ts (CallImpersonate a) nd = snd (impersonate_account a nd)"
| "node_call_exec env xt ts (CallStopImpersonating a) nd = snd (stop_impersonating_account a nd)"
| "node_call_exec env xt ts (CallSetImmediate l b) nd = snd (set_immediate_sealing l b nd)"
| "node_call_exec env xt ts (CallSetIntervalSealing d) nd = snd (set_interval_sealing d nd)"
| "node_call_exec env xt ts (CallDropTransaction h) nd = snd (node_drop_transaction h nd)"
| "node_call_exec env xt ts CallDropAll nd = drop_all_transactions nd"
| "node_call_exec env xt ts (CallRemovePoolTransactions a) nd = remove_pool_transactions a nd"
| "node_call_exec env xt ts (CallSetBaseFee f) nd = snd (set_next_block_base_fee_per_gas env f nd)"
| "node_call_exec env xt ts (CallReset r) nd = snd (reset_network env xt r nd)"
| "node_call_exec env xt ts (CallSetRpcUrl u) nd = snd (set_rpc_url env xt u nd)"
| "node_call_exec env xt ts (CallSetChainId i) nd = snd (node_set_chain_id xt i nd)"
| "node_call_exec env xt ts (CallLoadState b) nd = snd (node_load_state xt b nd)"
| "node_call_exec env xt ts (CallShowStorageLogs v) nd = snd (set_show_storage_logs v nd)"
| "node_call_exec env xt ts (CallShowNodeConfig v) nd = snd (set_show_node_config v nd)"
| "node_call_exec env xt ts (CallSubmit tx) nd = nd\<lparr>nd_pool := add_tx ts tx (nd_pool nd)\<rparr>"
| "node_call_exec env xt ts (CallPollSealer tick penv) nd = poll_sealer ts tick penv nd"
| "node_call_exec env xt ts CallExecutorRuns nd = executor_runs env nd"

definition in_memory_node_new ::
  "('f, 'p, 'b, 't, 'td) node_inner \<Rightarrow> 'l tx_pool \<Rightarrow> block_sealer_mode \<Rightarrow> show_storage_logs
     \<Rightarrow> ('l, 'f, 'p, 'b, 't, 'td) in_memory_node" where
  "in_memory_node_new inner pool mode show_logs =
     \<lparr>nd_executor = \<lparr>nx_inner = inner, nx_status = Serving, nx_queue = []\<rparr>, nd_pool = pool, nd_sealer_mode = mode,
      nd_snapshots = [], nd_show_storage_logs = show_logs, nd_show_node_config = True\<rparr>"

inductive node_reachable ::
  "('h, 'v, 'f, 'p, 'b, 't, 'td) node_env \<Rightarrow> ext_api \<Rightarrow> ('l \<Rightarrow> h256 \<Rightarrow> 'l send_result)
     \<Rightarrow> ('l, 'f, 'p, 'b, 't, 'td) in_memory_node \<Rightarrow> bool" for env xt ts where
  started: "node_reachable env xt ts (in_memory_node_new (node_inner_init (en_chain env) (en_node env) client cache_config dir
     fees filters config imp version layout) pool mode show_logs)"
| called: "node_reachable env xt ts nd \<Longrightarrow> node_reachable env xt ts (node_call_exec env xt ts c nd)"

section \<open>Invariants of the node\<close>

abbreviation clock_ok :: "('f, 'p, 'b, 't, 'td) node_inner \<Rightarrow> bool" where
  "clock_ok s \<equiv> time_valid (ni_time s)"

lemma conclude_batch_clock:
  "conclude_batch ca rn version hashes env bx rs e s = (r, s') \<Longrightarrow> clock_ok s \<Longrightarrow> clock_ok s'"
  by (auto simp: conclude_batch_def Let_def split_def node_clock.valid_advance split: sum.splits if_splits prod.splits)

lemma run_tx_batch_clock: "run_tx_batch ca rn fa na batch s = (r, s') \<Longrightarrow> clock_ok s \<Longrightarrow> clock_ok s'"
  using node_clock.valid_advance [of "ni_time s"]
  by (auto simp: run_tx_batch_def Let_def split_def split: sum.splits if_splits prod.splits dest: conclude_batch_clock)

lemma run_and_seal_clock: "run_and_seal env batch s = (r, s') \<Longrightarrow> clock_ok s \<Longrightarrow> clock_ok s'"
  by (auto simp: run_and_seal_def split: sum.splits prod.splits dest!: seal_block_time dest: run_tx_batch_clock)

lemma clock_ok_interval [simp]: "time_valid (set_block_timestamp_interval i t) = time_valid t"
  by (simp add: time_valid_def set_block_timestamp_interval_def split: option.split)

lemma seal_each_clock: "seal_each env gap i bs acc s = (r, s') \<Longrightarrow> clock_ok s \<Longrightarrow> clock_ok s'"
proof (induction env gap i bs acc s rule: seal_each.induct)
  case (2 env gap i b bs acc s)
  let ?s = "if i = 1 then s\<lparr>ni_time := set_block_timestamp_interval (Some gap) (ni_time s)\<rparr> else s"
  obtain r1 s1 where r1: "run_and_seal env b ?s = (r1, s1)" by fastforce
  moreover have "clock_ok s1" using run_and_seal_clock [OF r1] "2.prems"(2) by simp
  ultimately show ?case using 2 by (cases r1) (auto simp: Let_def)
qed simp

lemma inner_reset_clock: "inner_reset ca na client s = Inr s' \<Longrightarrow> clock_ok s'"
proof -
  have rich: "set_rich_accounts na as v s = Inr s' \<Longrightarrow> ni_time s' = ni_time s" for as v s s'
    by (induction na as v s arbitrary: s' rule: set_rich_accounts.induct) (fastforce simp: set_rich_account_def)+
  show "inner_reset ca na client s = Inr s' \<Longrightarrow> clock_ok s'"
    by (auto simp: inner_reset_def Let_def set_current_timestamp_unchecked_def time_valid_def dest!: rich)
qed

lemma exec_command_clock:
  assumes "exec_command env cmd s = (r, s')" and "clock_ok s"
  shows "clock_ok s'"
proof (cases cmd)
  case (SealBlock batch)
  then show ?thesis using assms
    by (auto simp: exec_seal_block_def split: prod.splits sum.splits failure.splits dest!: seal_block_time dest: run_tx_batch_clock)
next
  case (SealBlocks bs gap)
  then show ?thesis using assms
    by (auto simp: exec_seal_blocks_def Let_def split: prod.splits sum.splits failure.splits dest: seal_each_clock)
qed (use assms in \<open>auto simp: exec_set_code_def exec_set_balance_def exec_set_nonce_def write_storage_def exec_reset_fork_def exec_reset_def
    exec_reset_fork_block_number_def exec_enforce_next_base_fee_per_gas_def with_time_def exec_enforce_next_timestamp_def
    time_valid_def time_defs Let_def
    split: sum.splits failure.splits option.splits prod.splits if_splits dest: inner_reset_clock\<close>)

lemma exec_queue_clock: "exec_queue env r cmds s = (st, r', s') \<Longrightarrow> clock_ok s \<Longrightarrow> clock_ok s'"
  by (induction env r cmds s rule: exec_queue.induct)
    (auto split: prod.splits handled.splits dest: exec_command_clock)

definition node_inv :: "('l, 'f, 'p, 'b, 't, 'td) in_memory_node \<Rightarrow> bool" where
  "node_inv nd \<longleftrightarrow> clock_ok (node_of nd) \<and> length (nd_snapshots nd) \<le> MAX_SNAPSHOTS"

lemma with_response_clock:
  assumes "clock_ok (nx_inner x)"
  shows "clock_ok (nx_inner (snd (execute_with_response env cmd x)))"
  using assms by (auto simp: execute_with_response_def split: exec_status.split prod.splits dest: exec_queue_clock)

lemma without_response_inner [simp]: "nx_inner (snd (execute_without_response cmd x)) = nx_inner x"
  by (simp add: execute_without_response_def split: exec_status.split)

lemma node_inv_request [inv_intros]:
  "node_inv nd \<Longrightarrow> node_inv (snd (via_handle (request env reply_of cmd) nd))"
  "node_inv nd \<Longrightarrow> node_inv (snd (via_handle (execute_without_response cmd) nd))"
  using with_response_clock [of "nd_executor nd" env cmd]
  by (simp_all add: node_inv_def via_handle_def request_def split_def)

lemma node_inv_pool [simp]: "node_inv (nd\<lparr>nd_pool := p\<rparr>) = node_inv nd"
  by (simp add: node_inv_def)

lemma node_inv_mode [simp]: "node_inv (nd\<lparr>nd_sealer_mode := mode\<rparr>) = node_inv nd"
  by (simp add: node_inv_def)

lemma node_inv_show [simp]:
  "node_inv (nd\<lparr>nd_show_storage_logs := v\<rparr>) = node_inv nd" "node_inv (nd\<lparr>nd_show_node_config := b\<rparr>) = node_inv nd"
  by (simp_all add: node_inv_def)

lemma node_inv_clock: "node_inv nd \<Longrightarrow> clock_ok (node_of nd)"
  by (simp add: node_inv_def)

lemma snd_answer_map [simp]: "snd (answer_map f x) = snd x"
  by (simp add: answer_map_def)

lemmas handle_defs = seal_block_sync_def seal_blocks_sync_def set_code_sync_def set_storage_sync_def set_balance_sync_def
  set_nonce_sync_def reset_fork_sync_def reset_fork_block_number_sync_def set_fork_url_sync_def remove_fork_sync_def
  increase_time_sync_def enforce_next_timestamp_sync_def set_current_timestamp_sync_def
  handle_set_block_timestamp_interval_def remove_block_timestamp_interval_sync_def enforce_next_base_fee_per_gas_sync_def
  handle_seal_block_def

lemma node_inv_mine:
  assumes "node_inv nd"
  shows "node_inv (snd (mine_block env nd))" "node_inv (snd (mine_detailed env nd))"
    "node_inv (snd (mine_blocks env num gap nd))" "node_inv (snd (replay_txs env txs nd))"
proof -
  obtain b nd1 where b: "next_batch (cfg_max_transactions (ni_config (node_of nd))) nd = (b, nd1)" by fastforce
  then have "node_inv nd1" using next_batch_spec [OF b] assms by auto
  then show mine: "node_inv (snd (mine_block env nd))"
    using assms by (simp add: mine_block_def b handle_defs node_inv_request)
  then show "node_inv (snd (mine_detailed env nd))"
    by (auto simp: mine_detailed_def split: prod.splits option.splits)
  obtain bs nd2 where bs: "next_batches (cfg_max_transactions (ni_config (node_of nd))) (unat (case_option 1 id num)) nd = (bs, nd2)"
    by fastforce
  then have "node_inv nd2" using next_batches_spec [OF bs] assms by auto
  then show "node_inv (snd (mine_blocks env num gap nd))"
    using assms by (simp add: mine_blocks_def bs handle_defs node_inv_request Let_def)
  show "node_inv (snd (replay_txs env txs nd))"
    using node_inv_request(1) [OF assms, of env reply_number "SealBlock \<lparr>batch_impersonating = False, batch_txs = txs\<rparr>"]
    by (auto simp: replay_txs_def handle_defs split: prod.splits option.splits)
qed

lemma set_node_of_inv:
  assumes "clock_ok s" and "node_inv nd"
  shows "node_inv (set_node_of s nd)"
  using assms by (simp add: node_inv_def set_node_of_def)

lemma node_inv_snapshots:
  assumes "node_inv nd"
  shows "node_inv (snd (node_snapshot nd))" "node_inv (snd (revert_snapshot i nd))"
  using assms by (auto simp: node_inv_def node_snapshot_def revert_snapshot_def set_node_of_def restore_snapshot_def Let_def)

lemma node_inv_reset:
  assumes "node_inv nd"
  shows "node_inv (snd (reset_network env xt r nd))"
proof -
  have "node_inv (snd (reset_call env xt r nd))"
    using assms by (auto simp: reset_call_def handle_defs node_inv_request split: option.split sum.split)
  then show ?thesis
    by (auto simp: reset_network_def node_inv_def split: prod.splits option.splits sum.splits)
qed

lemma node_inv_load:
  assumes "node_inv nd"
  shows "node_inv (snd (node_load_state xt buf nd))"
proof -
  have "clock_ok s'" if "load_state state (node_of nd) = Inr (ok, s')" for state ok s'
    using that by (auto simp: load_state_def load_blocks_def reset_to_def time_valid_def Let_def split_def
        split: versioned_state.splits if_splits option.splits)
  then show ?thesis
    using assms by (auto simp: node_load_state_def intro: set_node_of_inv split: sum.splits failure.splits prod.splits)
qed

lemmas node_call_defs = node_increase_time_def node_set_next_block_timestamp_def node_set_time_def
  node_set_block_timestamp_interval_def node_remove_block_timestamp_interval_def node_set_balance_def node_set_nonce_def
  node_set_storage_at_def override_bytecode_def set_next_block_base_fee_per_gas_def

lemma node_inv_set_code:
  assumes "node_inv nd"
  shows "node_inv (snd (node_set_code env xt account code nd))"
  using assms by (auto simp: node_set_code_def handle_defs node_inv_request split: sum.splits)

lemma node_inv_rich:
  assumes "node_inv nd"
  shows "node_inv (snd (node_set_rich_account env account v nd))"
  using assms by (auto simp: node_set_rich_account_def node_inv_def set_node_of_def set_rich_account_def split: sum.splits)

lemma node_inv_poll:
  assumes "node_inv nd"
  shows "node_inv (poll_sealer ts tick penv nd)"
  using assms by (simp add: poll_sealer_def handle_defs node_inv_request split_def Let_def split: option.split)

lemma node_inv_runs:
  assumes "node_inv nd"
  shows "node_inv (executor_runs env nd)"
  using assms by (auto simp: executor_runs_def node_inv_def Let_def split: prod.split dest: exec_queue_clock)

lemma node_inv_call [inv_intros]:
  assumes "node_inv nd"
  shows "node_inv (node_call_exec env xt ts c nd)"
proof (cases c)
  case (CallReset r) then show ?thesis using assms by (simp add: node_inv_reset)
next
  case (CallLoadState b) then show ?thesis using assms by (simp add: node_inv_load)
qed (use assms in \<open>simp_all add: node_call_defs handle_defs node_inv_request node_inv_mine node_inv_snapshots node_inv_set_code
    node_inv_rich node_inv_poll node_inv_runs auto_impersonate_account_def impersonate_account_def stop_impersonating_account_def
    with_impersonation_def set_node_of_inv set_immediate_sealing_def set_interval_sealing_def node_drop_transaction_def
    drop_all_transactions_def remove_pool_transactions_def set_rpc_url_def node_set_chain_id_def set_show_storage_logs_def
    set_show_node_config_def node_inv_clock Let_def split_def split: sum.split\<close>)


section \<open>Concrete runs\<close>

definition sample_ext_api :: ext_api where
  "sample_ext_api = \<lparr>xt_parse_url = Inr, xt_validate_bytecode = (\<lambda>b. Inr ()),
     xt_system_context_chain_id_key = \<lparr>sk_address = 32779, sk_key = 0\<rparr>, xt_gzip_json = (\<lambda>st. Inl ''unsupported''),
     xt_has_gzip_header = (\<lambda>b. False), xt_gunzip = Inr, xt_state_from_json = (\<lambda>b. Inl ''unsupported'')\<rparr>"

definition sample_in_memory_node :: "(unit, nat, u64 \<times> u64, unit, unit, unit) in_memory_node" where
  "sample_in_memory_node = in_memory_node_new (sample_node None) (tx_pool_new Fifo) Noop ShowNone"

lemma sample_unlocked [simp]: "\<not> inner_locked sample_in_memory_node"
  by (simp add: inner_locked_def sample_in_memory_node_def in_memory_node_new_def)

theorem snapshot_revert_witness:
  "\<exists>nd1 nd2. node_snapshot sample_in_memory_node = (Some (Inr 1), nd1) \<and> revert_snapshot 1 nd1 = (Some (Inr True), nd2)
    \<and> nd_snapshots nd2 = []"
proof -
  let ?nd = sample_in_memory_node
  have none: "nd_snapshots ?nd = []" by (simp add: sample_in_memory_node_def in_memory_node_new_def)
  let ?nd1 = "?nd\<lparr>nd_snapshots := [inner_snapshot (node_of ?nd)]\<rparr>"
  have s: "node_snapshot ?nd = (Some (Inr 1), ?nd1)"
    by (simp add: node_snapshot_def none MAX_SNAPSHOTS_def Let_def)
  have "\<not> inner_locked ?nd1" using sample_unlocked by (simp add: inner_locked_def)
  with snapshot_revert [of ?nd ?nd1 0] s none show ?thesis by auto
qed

theorem mine_blocks_spec_witness:
  "mine_blocks sample_exec_env (Some 2) (Some 0) sample_in_memory_node
    = (fst (mine_blocks sample_exec_env (Some 2) (Some 0) sample_in_memory_node), sample_in_memory_node)"
  using mine_blocks_spec [of sample_in_memory_node sample_exec_env "Some 2" "Some 0"
      "fst (mine_blocks sample_exec_env (Some 2) (Some 0) sample_in_memory_node)"
      "snd (mine_blocks sample_exec_env (Some 2) (Some 0) sample_in_memory_node)"]
  by (simp add: prod_eq_iff)

theorem replay_txs_complete_witness:
  "\<exists>nd' n block. replay_txs sample_exec_env [] sample_in_memory_node = (Some (Inr ()), nd')
    \<and> get_block_by_number n (ni_blockchain (node_of nd')) = (Inr (Some block) :: (node_error, _) outcome)"
proof -
  have nd: "nd_executor sample_in_memory_node = \<lparr>nx_inner = sample_node None, nx_status = Serving, nx_queue = []\<rparr>"
    by (simp add: sample_in_memory_node_def in_memory_node_new_def)
  obtain nd' where r: "replay_txs sample_exec_env [] sample_in_memory_node = (Some (Inr ()), nd')"
    using sample_seal_empty by (auto simp: replay_txs_def via_handle_def handle_defs request_now nd)
  from replay_txs_complete [OF r] r show ?thesis by blast
qed


end
