(* ===== verification/State_Override.thy ===== *)
theory State_Override
  imports Node_Executor
begin

text \<open>
  State overrides of calls: \<open>crates/core/src/node/state_override.rs\<close>.

  \<open>StorageWithOverrides\<close> of the VM crate is the record \<open>overrides_api\<close>: the operations used here, on a state \<open>'s\<close>. What
  it documents is \<open>override_laws\<close>: writes and erased accounts hide the storage underneath, reads change nothing. The
  override is a hash map from accounts; the model takes any list of its entries, so the results hold for every order
  of the iteration.
\<close>

section \<open>Overrides\<close>

datatype bytecode_override = CodeUnspecified bytes | CodeEraVm bytes | CodeEvm bytes

datatype override_state = OverrideFull "(h256 \<times> h256) list" | OverrideDiff "(h256 \<times> h256) list"

record account_override =
  ao_balance :: "u256 option"
  ao_nonce :: "u256 option"
  ao_code :: "bytecode_override option"
  ao_state :: "override_state option"

record 's overrides_api =
  ov_new :: "reads \<Rightarrow> 's"
  ov_set_value :: "storage_key \<Rightarrow> h256 \<Rightarrow> 's \<Rightarrow> 's"
  ov_store_factory_dep :: "h256 \<Rightarrow> bytes \<Rightarrow> 's \<Rightarrow> 's"
  ov_insert_erased_account :: "address \<Rightarrow> 's \<Rightarrow> 's"
  ov_read_value :: "storage_key \<Rightarrow> 's \<Rightarrow> (string, h256) outcome \<times> 's"
  ov_decompose_full_nonce :: "u256 \<Rightarrow> u256 \<times> u256"
  ov_get_evm_code_hash_key :: "h256 \<Rightarrow> storage_key"
  ov_get_known_code_key :: "h256 \<Rightarrow> storage_key"
  ov_keccak256 :: "bytes \<Rightarrow> h256"

definition override_laws :: "'s overrides_api \<Rightarrow> ('s \<Rightarrow> reads) \<Rightarrow> ('s \<Rightarrow> storage_key set) \<Rightarrow> bool" where
  "override_laws ov view touched \<longleftrightarrow>
     (\<forall>r. view (ov_new ov r) = r \<and> touched (ov_new ov r) = {})
   \<and> (\<forall>k v s. view (ov_set_value ov k v s) = (view s)(k := Inr v) \<and> touched (ov_set_value ov k v s) = insert k (touched s))
   \<and> (\<forall>h c s. view (ov_store_factory_dep ov h c s) = view s \<and> touched (ov_store_factory_dep ov h c s) = touched s)
   \<and> (\<forall>a s. view (ov_insert_erased_account ov a s) = (\<lambda>k. if sk_address k = a \<and> k \<notin> touched s then Inr 0 else view s k)
        \<and> touched (ov_insert_erased_account ov a s) = touched s)
   \<and> (\<forall>k s. fst (ov_read_value ov k s) = view s k \<and> view (snd (ov_read_value ov k s)) = view s
        \<and> touched (snd (ov_read_value ov k s)) = touched s)"

section \<open>Applying them\<close>

definition override_balance :: "'s overrides_api \<Rightarrow> node_api \<Rightarrow> address \<Rightarrow> u256 option \<Rightarrow> 's \<Rightarrow> 's" where
  "override_balance ov na account balance s = (case balance of
       None \<Rightarrow> s
     | Some b \<Rightarrow> ov_set_value ov (key_for_eth_balance na account) b s)"

definition override_nonce ::
  "'s overrides_api \<Rightarrow> node_api \<Rightarrow> ('p, 'b, 't, 'td) exec_api \<Rightarrow> address \<Rightarrow> u256 option \<Rightarrow> 's \<Rightarrow> (string, 's) outcome" where
  "override_nonce ov na xa account nonce s = (case nonce of
       None \<Rightarrow> Inr s
     | Some n \<Rightarrow>
         let nonce_key = key_for_nonce na account; (full_nonce, s') = ov_read_value ov nonce_key s
         in and_then full_nonce (\<lambda>full_nonce.
            Inr (ov_set_value ov nonce_key
              (xa_nonces_to_full_nonce xa n (snd (ov_decompose_full_nonce ov full_nonce))) s')))"

fun override_bytes :: "('p, 'b, 't, 'td) exec_api \<Rightarrow> bytecode_override \<Rightarrow> bool \<times> bytes" where
  "override_bytes xa (CodeUnspecified c) = (xa_is_evm_bytecode xa c, c)"
| "override_bytes xa (CodeEraVm c) = (False, c)"
| "override_bytes xa (CodeEvm c) = (True, c)"

definition override_code ::
  "'s overrides_api \<Rightarrow> ('p, 'b, 't, 'td) exec_api \<Rightarrow> address \<Rightarrow> bytecode_override option \<Rightarrow> 's \<Rightarrow> 's" where
  "override_code ov xa account code s = (case code of
       None \<Rightarrow> s
     | Some c \<Rightarrow>
         let (evm, bs) = override_bytes xa c;
             code_hash = (if evm then xa_hash_for_raw_evm_bytecode xa bs else xa_hash_for_bytecode xa bs);
             s = (if evm then ov_set_value ov (ov_get_evm_code_hash_key ov code_hash) (ov_keccak256 ov bs) s else s);
             prepared_code = (if evm then xa_pad_evm_bytecode xa bs else bs);
             s = ov_set_value ov (xa_get_code_key xa account) code_hash s;
             s = ov_set_value ov (ov_get_known_code_key ov code_hash) 1 s
         in ov_store_factory_dep ov code_hash prepared_code s)"

fun set_slots :: "'s overrides_api \<Rightarrow> address \<Rightarrow> (h256 \<times> h256) list \<Rightarrow> 's \<Rightarrow> 's" where
  "set_slots ov account [] s = s"
| "set_slots ov account ((k, v) # kvs) s = set_slots ov account kvs (ov_set_value ov \<lparr>sk_address = account, sk_key = k\<rparr> v s)"

definition override_slots :: "'s overrides_api \<Rightarrow> address \<Rightarrow> override_state option \<Rightarrow> 's \<Rightarrow> 's" where
  "override_slots ov account st s = (case st of
       None \<Rightarrow> s
     | Some (OverrideFull kvs) \<Rightarrow> ov_insert_erased_account ov account (set_slots ov account kvs s)
     | Some (OverrideDiff kvs) \<Rightarrow> set_slots ov account kvs s)"

definition override_account ::
  "'s overrides_api \<Rightarrow> node_api \<Rightarrow> ('p, 'b, 't, 'td) exec_api \<Rightarrow> address \<Rightarrow> account_override \<Rightarrow> 's \<Rightarrow> (string, 's) outcome" where
  "override_account ov na xa account acc s =
     and_then (override_nonce ov na xa account (ao_nonce acc) (override_balance ov na account (ao_balance acc) s)) (\<lambda>s.
     Inr (override_slots ov account (ao_state acc) (override_code ov xa account (ao_code acc) s)))"

fun override_accounts ::
  "'s overrides_api \<Rightarrow> node_api \<Rightarrow> ('p, 'b, 't, 'td) exec_api \<Rightarrow> (address \<times> account_override) list \<Rightarrow> 's \<Rightarrow> (string, 's) outcome" where
  "override_accounts ov na xa [] s = Inr s"
| "override_accounts ov na xa ((account, acc) # os) s =
     and_then (override_account ov na xa account acc s) (\<lambda>s. override_accounts ov na xa os s)"

definition apply_state_override ::
  "'s overrides_api \<Rightarrow> node_api \<Rightarrow> ('p, 'b, 't, 'td) exec_api \<Rightarrow> reads \<Rightarrow> (address \<times> account_override) list
     \<Rightarrow> (string, 's) outcome" where
  "apply_state_override ov na xa reads os = override_accounts ov na xa os (ov_new ov reads)"

section \<open>What an override changes\<close>

text \<open>The keys an account's override may write; a full replacement of the state also hides the rest of the account.\<close>

definition override_code_keys ::
  "'s overrides_api \<Rightarrow> ('p, 'b, 't, 'td) exec_api \<Rightarrow> address \<Rightarrow> bytecode_override \<Rightarrow> storage_key set" where
  "override_code_keys ov xa account c =
     (let (evm, bs) = override_bytes xa c;
          h = (if evm then xa_hash_for_raw_evm_bytecode xa bs else xa_hash_for_bytecode xa bs)
      in {ov_get_evm_code_hash_key ov h, xa_get_code_key xa account, ov_get_known_code_key ov h})"

definition override_keys ::
  "'s overrides_api \<Rightarrow> node_api \<Rightarrow> ('p, 'b, 't, 'td) exec_api \<Rightarrow> address \<Rightarrow> account_override \<Rightarrow> storage_key set" where
  "override_keys ov na xa account acc =
     (if ao_balance acc = None then {} else {key_for_eth_balance na account})
   \<union> (if ao_nonce acc = None then {} else {key_for_nonce na account})
   \<union> (case ao_code acc of
        None \<Rightarrow> {}
      | Some c \<Rightarrow> override_code_keys ov xa account c)
   \<union> (case ao_state acc of None \<Rightarrow> {} | Some _ \<Rightarrow> {k. sk_address k = account})"

lemma override_lawsD:
  assumes "override_laws ov view touched"
  shows "view (ov_new ov r) = r" "touched (ov_new ov r) = {}"
    and "view (ov_set_value ov k v s) = (view s)(k := Inr v)" "touched (ov_set_value ov k v s) = insert k (touched s)"
    and "view (ov_store_factory_dep ov h c s) = view s" "touched (ov_store_factory_dep ov h c s) = touched s"
    and "view (ov_insert_erased_account ov a s) = (\<lambda>k. if sk_address k = a \<and> k \<notin> touched s then Inr 0 else view s k)"
    and "touched (ov_insert_erased_account ov a s) = touched s"
    and "fst (ov_read_value ov k s) = view s k" "view (snd (ov_read_value ov k s)) = view s"
    and "touched (snd (ov_read_value ov k s)) = touched s"
  using assms unfolding override_laws_def by blast+

lemma override_balance_view:
  assumes "override_laws ov view touched" and "balance = None \<or> k \<noteq> key_for_eth_balance na account"
  shows "view (override_balance ov na account balance s) k = view s k"
    and "k \<in> touched (override_balance ov na account balance s) \<longleftrightarrow> k \<in> touched s"
  using assms(2) by (auto simp: override_balance_def override_lawsD [OF assms(1)] split: option.splits)

lemma override_nonce_view:
  assumes laws: "override_laws ov view touched" and "nonce = None \<or> k \<noteq> key_for_nonce na account"
    and "override_nonce ov na xa account nonce s = Inr s'"
  shows "view s' k = view s k" and "k \<in> touched s' \<longleftrightarrow> k \<in> touched s"
  using assms(2,3)
  by (auto simp: override_nonce_def override_lawsD [OF laws] case_prod_unfold Let_def split: option.splits)

lemma override_code_view:
  assumes laws: "override_laws ov view touched"
    and "k \<notin> (case code of None \<Rightarrow> {} | Some c \<Rightarrow> override_code_keys ov xa account c)"
  shows "view (override_code ov xa account code s) k = view s k"
    and "k \<in> touched (override_code ov xa account code s) \<longleftrightarrow> k \<in> touched s"
  using assms(2)
  by (auto simp: override_code_def override_code_keys_def override_lawsD [OF laws] Let_def case_prod_unfold
        split: option.splits)

lemma set_slots_view:
  assumes laws: "override_laws ov view touched"
  shows "view (set_slots ov account kvs s) k = (if sk_address k = account
           then (case map_of (rev kvs) (sk_key k) of Some v \<Rightarrow> Inr v | None \<Rightarrow> view s k) else view s k)"
    and "k \<in> touched (set_slots ov account kvs s) \<longleftrightarrow> sk_address k = account \<and> sk_key k \<in> fst ` set kvs \<or> k \<in> touched s"
proof (induction kvs arbitrary: s)
  case Nil
  case 1 show ?case by simp
  case 2 show ?case by simp
next
  case (Cons kv kvs)
  obtain sl v where kv: "kv = (sl, v)" by force
  have eq: "k = \<lparr>sk_address = account, sk_key = sl\<rparr> \<longleftrightarrow> sk_address k = account \<and> sk_key k = sl"
    by (cases k) auto
  case 1 show ?case
    by (simp add: kv Cons(1) override_lawsD [OF laws] eq map_add_def split: option.split)
  case 2 show ?case
    by (auto simp: kv Cons(2) override_lawsD [OF laws] eq)
qed

lemma override_slots_view:
  assumes laws: "override_laws ov view touched"
  shows "view (override_slots ov account st s) k = (case st of
           Some (OverrideFull kvs) \<Rightarrow> if sk_address k = account then
               (case map_of (rev kvs) (sk_key k) of Some v \<Rightarrow> Inr v | None \<Rightarrow> if k \<in> touched s then view s k else Inr 0)
             else view s k
         | Some (OverrideDiff kvs) \<Rightarrow> if sk_address k = account then
               (case map_of (rev kvs) (sk_key k) of Some v \<Rightarrow> Inr v | None \<Rightarrow> view s k) else view s k
         | None \<Rightarrow> view s k)"
    and "st = None \<or> sk_address k \<noteq> account \<Longrightarrow> k \<in> touched (override_slots ov account st s) \<longleftrightarrow> k \<in> touched s"
proof -
  have none: "map_of (rev kvs) a = None \<longleftrightarrow> a \<notin> fst ` set kvs" for a and kvs :: "(h256 \<times> h256) list"
    by (simp add: map_of_eq_None_iff)
  show "view (override_slots ov account st s) k = (case st of
           Some (OverrideFull kvs) \<Rightarrow> if sk_address k = account then
               (case map_of (rev kvs) (sk_key k) of Some v \<Rightarrow> Inr v | None \<Rightarrow> if k \<in> touched s then view s k else Inr 0)
             else view s k
         | Some (OverrideDiff kvs) \<Rightarrow> if sk_address k = account then
               (case map_of (rev kvs) (sk_key k) of Some v \<Rightarrow> Inr v | None \<Rightarrow> view s k) else view s k
         | None \<Rightarrow> view s k)"
    using none by (auto simp: override_slots_def override_lawsD [OF laws] set_slots_view [OF laws]
        split: option.split override_state.split)
      (metis fst_conv imageI option.distinct(1))+
  show "st = None \<or> sk_address k \<noteq> account \<Longrightarrow> k \<in> touched (override_slots ov account st s) \<longleftrightarrow> k \<in> touched s"
    by (auto simp: override_slots_def override_lawsD [OF laws] set_slots_view [OF laws]
        split: option.split override_state.split)
qed

lemma override_account_prefix:
  assumes laws: "override_laws ov view touched" and run: "override_account ov na xa account acc s = Inr s'"
    and k: "k \<notin> override_keys ov na xa account (acc\<lparr>ao_state := None\<rparr>)"
  obtains t where "s' = override_slots ov account (ao_state acc) t" "view t k = view s k" "k \<in> touched t \<longleftrightarrow> k \<in> touched s"
proof -
  let ?b = "override_balance ov na account (ao_balance acc) s"
  obtain n where n: "override_nonce ov na xa account (ao_nonce acc) ?b = Inr n"
    and s': "s' = override_slots ov account (ao_state acc) (override_code ov xa account (ao_code acc) n)"
    using run by (auto simp: override_account_def)
  have "ao_balance acc = None \<or> k \<noteq> key_for_eth_balance na account" "ao_nonce acc = None \<or> k \<noteq> key_for_nonce na account"
    "k \<notin> (case ao_code acc of None \<Rightarrow> {} | Some c \<Rightarrow> override_code_keys ov xa account c)"
    using k by (auto simp: override_keys_def split: if_splits)
  then show thesis
    using that s' override_balance_view [OF laws] override_nonce_view [OF laws _ n] override_code_view [OF laws] by metis
qed

lemma override_account_frame:
  assumes laws: "override_laws ov view touched" and run: "override_account ov na xa account acc s = Inr s'"
    and k: "k \<notin> override_keys ov na xa account acc"
  shows "view s' k = view s k \<and> (k \<in> touched s' \<longleftrightarrow> k \<in> touched s)"
proof -
  have "k \<notin> override_keys ov na xa account (acc\<lparr>ao_state := None\<rparr>)"
    and "ao_state acc = None \<or> sk_address k \<noteq> account"
    using k by (auto simp: override_keys_def split: option.splits)
  with override_account_prefix [OF laws run] obtain t where "s' = override_slots ov account (ao_state acc) t"
    "view t k = view s k" "k \<in> touched t \<longleftrightarrow> k \<in> touched s" "ao_state acc = None \<or> sk_address k \<noteq> account"
    by metis
  then show ?thesis
    by (auto simp: override_slots_view [OF laws] split: option.split override_state.split)
qed

lemma override_accounts_frame:
  assumes laws: "override_laws ov view touched" and "override_accounts ov na xa os s = Inr s'"
    and "\<forall>(account, acc) \<in> set os. k \<notin> override_keys ov na xa account acc"
  shows "view s' k = view s k \<and> (k \<in> touched s' \<longleftrightarrow> k \<in> touched s)"
  using assms(2,3)
proof (induction os arbitrary: s)
  case (Cons e os)
  obtain account acc t where e: "e = (account, acc)" "override_account ov na xa account acc s = Inr t"
    "override_accounts ov na xa os t = Inr s'"
    using Cons.prems by (cases e) auto
  with Cons.prems have "k \<notin> override_keys ov na xa account acc" by auto
  from override_account_frame [OF laws e(2) this] Cons.IH [OF e(3)] Cons.prems show ?case
    by simp
qed simp

lemma override_accounts_append:
  "override_accounts ov na xa (pre @ post) s = and_then (override_accounts ov na xa pre s) (override_accounts ov na xa post)"
proof (induction pre arbitrary: s)
  case (Cons e pre)
  obtain account acc where e: "e = (account, acc)" by force
  show ?case
    by (cases "override_account ov na xa account acc s") (simp_all add: e Cons)
qed simp

theorem apply_state_override_frame:
  assumes "override_laws ov view touched" and "apply_state_override ov na xa reads os = Inr s"
    and "\<forall>(account, acc) \<in> set os. k \<notin> override_keys ov na xa account acc"
  shows "view s k = reads k"
  using override_accounts_frame [OF assms(1) _ assms(3)] assms(2) override_lawsD(1) [OF assms(1)]
  by (metis apply_state_override_def)

text \<open>A full state replaces the account: its listed slots read as given and every other slot as zero.\<close>

theorem full_state_replaces:
  assumes laws: "override_laws ov view touched"
    and run: "apply_state_override ov na xa reads (pre @ (account, acc) # post) = Inr s"
    and st: "ao_state acc = Some (OverrideFull kvs)" and k: "sk_address k = account"
    and others: "\<forall>(a, ac) \<in> set (pre @ post). k \<notin> override_keys ov na xa a ac"
    and own: "k \<notin> override_keys ov na xa account (acc\<lparr>ao_state := None\<rparr>)"
  shows "view s k = Inr (case map_of (rev kvs) (sk_key k) of Some v \<Rightarrow> v | None \<Rightarrow> 0)"
proof -
  obtain t u where t: "override_accounts ov na xa pre (ov_new ov reads) = Inr t"
    and u: "override_account ov na xa account acc t = Inr u" and s: "override_accounts ov na xa post u = Inr s"
    using run by (auto simp: apply_state_override_def override_accounts_append)
  have "k \<notin> touched t"
    using override_accounts_frame [OF laws t] others override_lawsD(2) [OF laws] by auto
  moreover obtain w where w: "u = override_slots ov account (ao_state acc) w" "k \<in> touched w \<longleftrightarrow> k \<in> touched t"
    using override_account_prefix [OF laws u own] by metis
  ultimately have "view u k = Inr (case map_of (rev kvs) (sk_key k) of Some v \<Rightarrow> v | None \<Rightarrow> 0)"
    using st k by (auto simp: override_slots_view [OF laws] split: option.split)
  then show ?thesis
    using override_accounts_frame [OF laws s] others by auto
qed

lemma override_account_total:
  assumes laws: "override_laws ov view touched" and total: "\<forall>k. \<exists>v. view s k = Inr v"
  shows "\<exists>s'. override_account ov na xa account acc s = Inr s' \<and> (\<forall>k. \<exists>v. view s' k = Inr v)"
proof -
  let ?b = "override_balance ov na account (ao_balance acc) s"
  have b: "\<forall>k. \<exists>v. view ?b k = Inr v"
    using total by (simp add: override_balance_def override_lawsD [OF laws] split: option.split)
  then obtain v where "view ?b (key_for_nonce na account) = Inr v"
    by blast
  then obtain n where n: "override_nonce ov na xa account (ao_nonce acc) ?b = Inr n" "\<forall>k. \<exists>v. view n k = Inr v"
    using b by (cases "ao_nonce acc") (simp_all add: override_nonce_def case_prod_unfold Let_def override_lawsD [OF laws])
  have c: "\<forall>k. \<exists>v. view (override_code ov xa account (ao_code acc) n) k = Inr v"
    using n(2) by (auto simp: override_code_def override_lawsD [OF laws] Let_def case_prod_unfold split: option.split)
  have "\<exists>v. view (override_slots ov account (ao_state acc) (override_code ov xa account (ao_code acc) n)) k = Inr v" for k
    using c by (auto simp: override_slots_view [OF laws] split: option.split override_state.split)
  with n(1) show ?thesis
    by (simp add: override_account_def)
qed

lemma override_accounts_total:
  assumes laws: "override_laws ov view touched" and "\<forall>k. \<exists>v. view s k = Inr v"
  shows "\<exists>s'. override_accounts ov na xa os s = Inr s'"
  using assms(2)
proof (induction os arbitrary: s)
  case (Cons e os)
  obtain account acc where "e = (account, acc)" by force
  with override_account_total [OF laws Cons.prems, of na xa account acc] Cons.IH show ?case
    by auto
qed simp

lemma apply_state_override_total:
  assumes "override_laws ov view touched" and "\<forall>k. \<exists>v. reads k = Inr v"
  shows "\<exists>s. apply_state_override ov na xa reads os = Inr s"
  using override_accounts_total [OF assms(1), of "ov_new ov reads"] assms(2)
  by (simp add: apply_state_override_def override_lawsD [OF assms(1)])

text \<open>A plain implementation of the operations, as the VM crate describes them: written slots first, then erased
  accounts, then the storage underneath.\<close>

type_synonym overlay = "reads \<times> (storage_key \<rightharpoonup> h256) \<times> address set"

fun overlay_read :: "overlay \<Rightarrow> reads" where
  "overlay_read (r, ws, er) k = (case ws k of Some v \<Rightarrow> Inr v | None \<Rightarrow> if sk_address k \<in> er then Inr 0 else r k)"

definition overlay_api :: "overlay overrides_api" where
  "overlay_api = \<lparr>ov_new = \<lambda>r. (r, \<lambda>_. None, {}), ov_set_value = \<lambda>k v (r, ws, er). (r, ws(k \<mapsto> v), er),
     ov_store_factory_dep = \<lambda>_ _ s. s, ov_insert_erased_account = \<lambda>a (r, ws, er). (r, ws, insert a er),
     ov_read_value = \<lambda>k s. (overlay_read s k, s), ov_decompose_full_nonce = \<lambda>n. (n mod 2 ^ 128, n div 2 ^ 128),
     ov_get_evm_code_hash_key = \<lambda>h. \<lparr>sk_address = 0x8012, sk_key = h\<rparr>,
     ov_get_known_code_key = \<lambda>h. \<lparr>sk_address = 0x8004, sk_key = h\<rparr>, ov_keccak256 = \<lambda>_. 7\<rparr>"

lemma overlay_laws: "override_laws overlay_api overlay_read (\<lambda>s. dom (fst (snd s)))"
  by (auto simp: override_laws_def overlay_api_def fun_eq_iff split: option.split)

definition sample_overrides :: "(address \<times> account_override) list" where
  "sample_overrides =
     [(11, \<lparr>ao_balance = Some 9, ao_nonce = Some 3, ao_code = Some (CodeEvm [1, 2]), ao_state = None\<rparr>),
      (12, \<lparr>ao_balance = None, ao_nonce = None, ao_code = None, ao_state = Some (OverrideFull [(4, 40)])\<rparr>)]"

lemma sample_override_runs: "\<exists>s. apply_state_override overlay_api sample_node_api sample_exec_api (\<lambda>_. Inr 5) sample_overrides = Inr s"
  by (rule apply_state_override_total [OF overlay_laws]) simp

theorem apply_state_override_frame_witness:
  "\<exists>s. apply_state_override overlay_api sample_node_api sample_exec_api (\<lambda>_. Inr 5) sample_overrides = Inr s
     \<and> overlay_read s \<lparr>sk_address = 13, sk_key = 0\<rparr> = Inr 5"
proof -
  obtain s where s: "apply_state_override overlay_api sample_node_api sample_exec_api (\<lambda>_. Inr 5) sample_overrides = Inr s"
    using sample_override_runs by blast
  show ?thesis
    using s apply_state_override_frame [OF overlay_laws s, of "\<lparr>sk_address = 13, sk_key = 0\<rparr>"]
    by (simp add: sample_overrides_def override_keys_def override_code_keys_def sample_node_api_def sample_exec_api_def
        overlay_api_def)
qed

theorem full_state_replaces_witness:
  "\<exists>s. apply_state_override overlay_api sample_node_api sample_exec_api (\<lambda>_. Inr 5) sample_overrides = Inr s
     \<and> overlay_read s \<lparr>sk_address = 12, sk_key = 4\<rparr> = Inr 40"
proof -
  obtain s where s: "apply_state_override overlay_api sample_node_api sample_exec_api (\<lambda>_. Inr 5) sample_overrides = Inr s"
    using sample_override_runs by blast
  then have run: "apply_state_override overlay_api sample_node_api sample_exec_api (\<lambda>_. Inr 5)
      ([hd sample_overrides] @ (12, snd (last sample_overrides)) # []) = Inr s"
    by (simp add: sample_overrides_def)
  show ?thesis
    using s full_state_replaces [OF overlay_laws run, of "[(4, 40)]" "\<lparr>sk_address = 12, sk_key = 4\<rparr>"]
    by (simp add: sample_overrides_def override_keys_def override_code_keys_def sample_node_api_def sample_exec_api_def
        overlay_api_def)
qed

end
