(* ===== verification/Eth_Api.thy ===== *)
theory Eth_Api
  imports Node_Ext State_Override
begin

text \<open>
  The \<open>eth\<close> namespace: \<open>crates/core/src/node/eth.rs\<close> and \<open>run_l2_call\<close> of \<open>in_memory.rs\<close>.

  Decoding and signing of transactions, the virtual machine and the limits of the zksync crates are the fields of
  \<open>eth_api\<close>. A method that takes the lock of the node's state answers \<open>None\<close> while a stuck executor holds it; the others
  read the chain, the storage and the fork through handles of their own. Reads may fill the caches of the storage and of
  the fork, so they return the node as well. An \<open>L2Tx\<close> is a \<open>transaction\<close> with L2 data. Warnings, printed reports and
  the rendering of call traces are left out.
\<close>

section \<open>Requests and errors\<close>

record 'q request_fields =
  rq_gas :: "u256 option"
  rq_gas_price :: "u256 option"
  rq_max_fee_per_gas :: "u256 option"
  rq_max_priority_fee_per_gas :: "u256 option"
  rq_transaction_type :: "u64 option"
  rq_rest :: 'q

type_synonym 'q eth_request = "'q request_fields call_request"

record 'u transaction_request =
  tr_from :: "address option"
  tr_chain_id :: "u64 option"
  tr_r :: "u256 option"
  tr_s :: "u256 option"
  tr_v :: "u64 option"
  tr_rest :: 'u

datatype eth_error =
    EthInternal string
  | EthPruned u32
  | NoBlock
  | SubmitTransactionError string bytes
  | EthSerialization string

record ('q, 'u, 's) eth_api =
  ea_request_from :: "'q eth_request \<Rightarrow> 'u transaction_request"
  ea_request_from_bytes :: "bytes \<Rightarrow> u64 \<Rightarrow> string + ('u transaction_request \<times> h256)"
  ea_get_signed_bytes :: "'u transaction_request \<Rightarrow> h256 \<times> h256 \<times> u8 \<Rightarrow> string + bytes"
  ea_l2_from_request :: "'u transaction_request \<Rightarrow> nat \<Rightarrow> bool \<Rightarrow> string + transaction"
  ea_set_input :: "bytes \<Rightarrow> h256 \<Rightarrow> transaction \<Rightarrow> transaction"
  ea_get_is_account_key :: "address \<Rightarrow> storage_key"
  ea_eth_call_gas_limit :: u64
  ea_max_l1_transaction_gas_limit :: u64
  ea_overrides :: "'s overrides_api"
  ea_vm :: "bool \<Rightarrow> l1_batch_env \<Rightarrow> system_env \<Rightarrow> 's \<Rightarrow> transaction \<Rightarrow> (string, vm_result \<times> call list) outcome"

fun eth_err :: "(string, 'a) outcome \<Rightarrow> (eth_error, 'a) outcome" where
  "eth_err (Inr a) = Inr a"
| "eth_err (Inl (Err e)) = Inl (Err (EthInternal e))"
| "eth_err (Inl (Panic m)) = Inl (Panic m)"

fun eth_sum :: "(string \<Rightarrow> eth_error) \<Rightarrow> string + 'a \<Rightarrow> (eth_error, 'a) outcome" where
  "eth_sum f (Inr a) = Inr a"
| "eth_sum f (Inl e) = Inl (Err (f e))"

text \<open>The node behind its handles: the storage, the fork and the filters.\<close>

definition node_read_value ::
  "storage_key \<Rightarrow> ('l, 'f, 'p, 'b, 't, 'td) in_memory_node
     \<Rightarrow> (string, h256) outcome \<times> ('l, 'f, 'p, 'b, 't, 'td) in_memory_node" where
  "node_read_value key nd =
     (case read_value_internal (fork_as_source (ni_fork (node_of nd))) key (ni_fork_storage (node_of nd)) of
        (r, fs) \<Rightarrow> (r, set_node_of ((node_of nd)\<lparr>ni_fork_storage := fs\<rparr>) nd))"

definition node_load_factory_dep ::
  "h256 \<Rightarrow> ('l, 'f, 'p, 'b, 't, 'td) in_memory_node
     \<Rightarrow> (string, bytes option) outcome \<times> ('l, 'f, 'p, 'b, 't, 'td) in_memory_node" where
  "node_load_factory_dep hash nd =
     (case load_factory_dep_internal (fork_as_source (ni_fork (node_of nd))) hash (ni_fork_storage (node_of nd)) of
        (r, fs) \<Rightarrow> (r, set_node_of ((node_of nd)\<lparr>ni_fork_storage := fs\<rparr>) nd))"

definition node_fork ::
  "(('f, 'p, 'b, 't, 'td) fork_state \<Rightarrow> (string + 'a) \<times> ('f, 'p, 'b, 't, 'td) fork_state)
     \<Rightarrow> ('l, 'f, 'p, 'b, 't, 'td) in_memory_node
     \<Rightarrow> (eth_error, 'a) outcome \<times> ('l, 'f, 'p, 'b, 't, 'td) in_memory_node" where
  "node_fork f nd = (case f (ni_fork (node_of nd)) of
     (r, fk) \<Rightarrow> (eth_sum EthInternal r, set_node_of ((node_of nd)\<lparr>ni_fork := fk\<rparr>) nd))"

definition node_filters ::
  "(eth_filters \<Rightarrow> (string, 'a) outcome \<times> eth_filters) \<Rightarrow> ('l, 'f, 'p, 'b, 't, 'td) in_memory_node
     \<Rightarrow> (eth_error, 'a) outcome option \<times> ('l, 'f, 'p, 'b, 't, 'td) in_memory_node" where
  "node_filters f nd =
     (if inner_locked nd then (None, nd)
      else case f (ni_filters (node_of nd)) of
        (r, ef) \<Rightarrow> (Some (eth_err r), set_node_of ((node_of nd)\<lparr>ni_filters := ef\<rparr>) nd))"

abbreviation chain_of :: "('l, 'f, 'p, 'b, 't, 'td) in_memory_node \<Rightarrow> blockchain_state" where
  "chain_of nd \<equiv> ni_blockchain (node_of nd)"

section \<open>Calls\<close>

definition BOOJUM_CALL_GAS_LIMIT :: u64 where
  "BOOJUM_CALL_GAS_LIMIT = 100000000"

fun set_l2_gas_limit :: "u256 \<Rightarrow> transaction \<Rightarrow> transaction" where
  "set_l2_gas_limit limit tx = (case tx_common_data tx of
       L2 d \<Rightarrow> tx\<lparr>tx_common_data := L2 (d\<lparr>l2_fee := (l2_fee d)\<lparr>fee_gas_limit := limit\<rparr>\<rparr>), tx_gas_limit := limit\<rparr>
     | _ \<Rightarrow> tx)"

fun inject_signature :: "transaction \<Rightarrow> transaction" where
  "inject_signature tx = (case tx_common_data tx of
       L2 d \<Rightarrow> if l2_signature d = [] then tx\<lparr>tx_common_data := L2 (d\<lparr>l2_signature := placeholder_signature\<rparr>)\<rparr> else tx
     | _ \<Rightarrow> tx)"

definition call_gas_limit :: "('q, 'u, 's) eth_api \<Rightarrow> system_contracts \<Rightarrow> u256" where
  "call_gas_limit ea sc = ucast (if sc_use_boojum sc then BOOJUM_CALL_GAS_LIMIT else ea_eth_call_gas_limit ea)"

definition call_storage ::
  "('q, 'u, 's) eth_api \<Rightarrow> node_api \<Rightarrow> ('p, 'b, 't, 'td) exec_api \<Rightarrow> (address \<times> account_override) list option
     \<Rightarrow> ('f, 'p, 'b, 't, 'td) node_inner \<Rightarrow> (string, 's) outcome" where
  "call_storage ea na xa state_override s =
     (let reads = storage_view (fork_as_source (ni_fork s)) (ni_fork_storage s)
      in case state_override of
           Some os \<Rightarrow> apply_state_override (ea_overrides ea) na xa reads os
         | None \<Rightarrow> Inr (ov_new (ea_overrides ea) reads))"

definition run_l2_call ::
  "('h, 'v, 'f, 'p, 'b, 't, 'td) node_env \<Rightarrow> ('q, 'u, 's) eth_api \<Rightarrow> ('f, 'r) gas_api \<Rightarrow> system_contracts \<Rightarrow> transaction
     \<Rightarrow> base_system_contracts \<Rightarrow> (address \<times> account_override) list option
     \<Rightarrow> ('f, 'p, 'b, 't, 'td) node_inner \<Rightarrow> (string, execution_result) outcome" where
  "run_l2_call env ea ga sc l2_tx base_contracts state_override s =
     and_then (create_l1_batch_env (en_chain env) (en_fee env) s) (\<lambda>(batch_env, _).
     let system_env = create_system_env (ga_batch_computational_gas_limit ga) base_contracts EthCall s
     in and_then (call_storage ea (en_node env) (en_exec env) state_override s) (\<lambda>storage.
        and_then (ea_vm ea (sc_use_boojum sc) batch_env system_env storage (inject_signature l2_tx)) (\<lambda>(tx_result, call_traces).
        if call_traces \<noteq> [] \<and> ga_verbosity ga \<ge> 2 \<and> ga_signatures_identifier ga \<noteq> None
        then Inl (Err (''Failed to create SignaturesIdentifier: '' @ the (ga_signatures_identifier ga)))
        else Inr (vr_result tx_result))))"

fun call_output :: "execution_result \<Rightarrow> (eth_error, bytes) outcome" where
  "call_output (Success output) = Inr output"
| "call_output (Revert output) = Inl (Err (SubmitTransactionError
     (''execution reverted'' @ (if ro_string output = '''' then '''' else '': '') @ ro_string output)
     (ro_encoded_data output)))"
| "call_output (Halt reason) = Inl (Err (SubmitTransactionError
     (''execution halted '' @ (if reason = '''' then '''' else '': '') @ reason) []))"

definition call_target_check ::
  "('p, 'b, 't, 'td) exec_api \<Rightarrow> transaction \<Rightarrow> ('l, 'f, 'p, 'b, 't, 'td) in_memory_node
     \<Rightarrow> (string, unit) outcome \<times> ('l, 'f, 'p, 'b, 't, 'td) in_memory_node" where
  "call_target_check xa tx nd = (case tx_recipient_account tx of
       None \<Rightarrow> (Inr (), nd)
     | Some to_address \<Rightarrow> (case node_read_value (xa_get_code_key xa to_address) nd of
         (r, nd') \<Rightarrow> (and_then r (\<lambda>_. Inr ()), nd')))"

definition call_impl ::
  "('h, 'v, 'f, 'p, 'b, 't, 'td) node_env \<Rightarrow> ('q, 'u, 's) eth_api \<Rightarrow> ('f, 'r) gas_api \<Rightarrow> system_contracts
     \<Rightarrow> 'q eth_request \<Rightarrow> (address \<times> account_override) list option \<Rightarrow> ('l, 'f, 'p, 'b, 't, 'td) in_memory_node
     \<Rightarrow> (eth_error, bytes) outcome option \<times> ('l, 'f, 'p, 'b, 't, 'td) in_memory_node" where
  "call_impl env ea ga sc req state_override nd =
     (case contracts_for_l2_call sc of
        Inl f \<Rightarrow> (Some (Inl f), nd)
      | Inr base_contracts \<Rightarrow>
     (case ea_l2_from_request ea (ea_request_from ea req) MAX_TX_SIZE (allow_no_target sc) of
        Inl e \<Rightarrow> (Some (Inl (Err (EthSerialization e))), nd)
      | Inr tx \<Rightarrow>
     (case call_target_check (en_exec env) tx nd of
        (Inl f, nd) \<Rightarrow> (Some (eth_err (Inl f)), nd)
      | (Inr _, nd) \<Rightarrow>
          if inner_locked nd then (None, nd)
          else (Some (and_then (eth_err (with_context ''Invalid data due to invalid name''
              (run_l2_call env ea ga sc (set_l2_gas_limit (call_gas_limit ea sc) tx) base_contracts state_override
                (node_of nd)))) call_output), nd))))"

section \<open>Submitting transactions\<close>

definition node_add_tx ::
  "('l \<Rightarrow> h256 \<Rightarrow> 'l send_result) \<Rightarrow> transaction \<Rightarrow> ('l, 'f, 'p, 'b, 't, 'td) in_memory_node
     \<Rightarrow> ('l, 'f, 'p, 'b, 't, 'td) in_memory_node" where
  "node_add_tx ts tx nd = nd\<lparr>nd_pool := add_tx ts tx (nd_pool nd)\<rparr>"

definition send_raw_transaction_impl ::
  "('q, 'u, 's) eth_api \<Rightarrow> system_contracts \<Rightarrow> ('l \<Rightarrow> h256 \<Rightarrow> 'l send_result) \<Rightarrow> bytes
     \<Rightarrow> ('l, 'f, 'p, 'b, 't, 'td) in_memory_node
     \<Rightarrow> (eth_error, h256) outcome option \<times> ('l, 'f, 'p, 'b, 't, 'td) in_memory_node" where
  "send_raw_transaction_impl ea sc ts tx_bytes nd = (case node_chain_id nd of
       None \<Rightarrow> (None, nd)
     | Some chain_id \<Rightarrow>
         (case ea_request_from_bytes ea tx_bytes chain_id of
            Inl e \<Rightarrow> (Some (Inl (Err (EthSerialization e))), nd)
          | Inr (tx_req, hash) \<Rightarrow>
              (case ea_l2_from_request ea tx_req MAX_TX_SIZE (allow_no_target sc) of
                 Inl e \<Rightarrow> (Some (Inl (Err (EthSerialization e))), nd)
               | Inr tx \<Rightarrow>
                   let l2_tx = ea_set_input ea tx_bytes hash tx
                   in if hash \<noteq> tx_hash l2_tx
                      then (Some (Inl (Err (EthInternal
                        ''Invalid transaction data: computed hash does not match the provided hash.''))), nd)
                      else (Some (Inr hash), node_add_tx ts l2_tx nd))))"

text \<open>The defaults a request gets; two kinds of gas price at once are refused.\<close>

definition EIP_1559_TX_TYPE :: u64 where
  "EIP_1559_TX_TYPE = 2"

definition fill_gas_price :: "u64 \<Rightarrow> 'q request_fields \<Rightarrow> (eth_error, 'q request_fields) outcome" where
  "fill_gas_price l2_gas_price q =
     (if rq_gas_price q \<noteq> None
      then if rq_max_fee_per_gas q \<noteq> None \<or> rq_max_priority_fee_per_gas q \<noteq> None
        then Inl (Err (EthInternal
          ''Transaction contains unsupported fields: max_fee_per_gas or max_priority_fee_per_gas''))
        else Inr q
      else Inr (q\<lparr>rq_gas_price := Some (case_option (ucast l2_gas_price) id (rq_max_fee_per_gas q)),
        rq_max_priority_fee_per_gas := Some (case_option 0 id (rq_max_priority_fee_per_gas q)),
        rq_transaction_type := Some (case_option EIP_1559_TX_TYPE id (rq_transaction_type q))\<rparr>))"

definition default_nonce ::
  "node_api \<Rightarrow> 'q eth_request \<Rightarrow> ('l, 'f, 'p, 'b, 't, 'td) in_memory_node
     \<Rightarrow> (eth_error, u256) outcome \<times> ('l, 'f, 'p, 'b, 't, 'td) in_memory_node" where
  "default_nonce na req nd = (case cr_nonce req of
       Some n \<Rightarrow> (Inr n, nd)
     | None \<Rightarrow>
         (case and_then (expect ''called `Option::unwrap()` on a `None` value'' (cr_from req))
             (get_nonce_key na (ni_storage_key_layout (node_of nd))) of
            Inl f \<Rightarrow> (Inl f, nd)
          | Inr nonce_key \<Rightarrow> (case node_read_value nonce_key nd of
              (r, nd) \<Rightarrow> (and_then (eth_err r) (\<lambda>v. expect overflow (checked_add v 1)), nd))))"

definition into_impersonated_tx ::
  "('q, 'u, 's) eth_api \<Rightarrow> system_contracts \<Rightarrow> u64 \<Rightarrow> 'q eth_request \<Rightarrow> (eth_error, transaction \<times> h256) outcome" where
  "into_impersonated_tx ea sc chain_id req =
     (let tx_req = (ea_request_from ea req)\<lparr>tr_chain_id := Some chain_id, tr_r := Some 0, tr_s := Some 0, tr_v := Some 0\<rparr>
      in and_then (eth_sum EthSerialization (ea_get_signed_bytes ea tx_req (0, 0, 0))) (\<lambda>bytes.
         and_then (eth_sum EthSerialization (ea_request_from_bytes ea bytes chain_id)) (\<lambda>(tx_req, hash).
         and_then (eth_sum EthSerialization
           (ea_l2_from_request ea (tx_req\<lparr>tr_from := cr_from req\<rparr>) MAX_TX_SIZE (allow_no_target sc))) (\<lambda>tx.
         Inr (ea_set_input ea bytes hash tx, hash)))))"

definition send_transaction_impl ::
  "('h, 'v, 'f, 'p, 'b, 't, 'td) node_env \<Rightarrow> ('q, 'u, 's) eth_api \<Rightarrow> system_contracts
     \<Rightarrow> ('l \<Rightarrow> h256 \<Rightarrow> 'l send_result) \<Rightarrow> 'q eth_request \<Rightarrow> ('l, 'f, 'p, 'b, 't, 'td) in_memory_node
     \<Rightarrow> (eth_error, h256) outcome option \<times> ('l, 'f, 'p, 'b, 't, 'td) in_memory_node" where
  "send_transaction_impl env ea sc ts tx nd = (case node_chain_id nd of
       None \<Rightarrow> (None, nd)
     | Some chain_id \<Rightarrow>
         let l2_gas_price = gas_price (en_fee env) (ni_fee_input_provider (node_of nd));
             q = (cr_rest tx)\<lparr>rq_gas := Some (case_option (ucast (ea_max_l1_transaction_gas_limit ea)) id (rq_gas (cr_rest tx)))\<rparr>
         in case fill_gas_price l2_gas_price q of
              Inl f \<Rightarrow> (Some (Inl f), nd)
            | Inr q \<Rightarrow> (case default_nonce (en_node env) tx nd of
                (Inl f, nd) \<Rightarrow> (Some (Inl f), nd)
              | (Inr nonce, nd) \<Rightarrow>
                  (case into_impersonated_tx ea sc chain_id (tx\<lparr>cr_rest := q, cr_nonce := Some nonce\<rparr>) of
                     Inl f \<Rightarrow> (Some (Inl f), nd)
                   | Inr (l2_tx, hash) \<Rightarrow>
                       if \<not> is_impersonating (ni_impersonation (node_of nd)) (tx_initiator_account l2_tx)
                       then (Some (Inl (Err (EthInternal ''Initiator address is not allowed to perform transactions''))), nd)
                       else (Some (Inr hash), node_add_tx ts l2_tx nd))))"

section \<open>Reading accounts and blocks\<close>

fun read_error :: "string \<Rightarrow> (string, 'a) outcome \<Rightarrow> (eth_error, 'a) outcome" where
  "read_error m (Inr a) = Inr a"
| "read_error m (Inl (Err e)) = Inl (Err (EthInternal (m @ e)))"
| "read_error m (Inl (Panic p)) = Inl (Panic p)"

definition get_balance_impl ::
  "node_api \<Rightarrow> address \<Rightarrow> block_id_variant option \<Rightarrow> ('l, 'f, 'p, 'b, 't, 'td) in_memory_node
     \<Rightarrow> (eth_error, u256) outcome \<times> ('l, 'f, 'p, 'b, 't, 'td) in_memory_node" where
  "get_balance_impl na a block nd =
     (case get_storage_key_for_base_token na (ni_storage_key_layout (node_of nd)) a of
        Inl f \<Rightarrow> (Inl f, nd)
      | Inr balance_key \<Rightarrow> (case node_read_value balance_key nd of
          (r, nd) \<Rightarrow> (read_error ''failed to read account balance: '' r, nd)))"

fun shape_transaction :: "bool \<Rightarrow> transaction_variant \<Rightarrow> (eth_error, transaction_variant) outcome" where
  "shape_transaction full (Full inner) = Inr (if full then Full inner else Hash (atx_hash inner))"
| "shape_transaction full (Hash h) = (if full then Inl (Panic ''unexpected non full transaction for block'') else Inr (Hash h))"

fun shape_transactions :: "bool \<Rightarrow> transaction_variant list \<Rightarrow> (eth_error, transaction_variant list) outcome" where
  "shape_transactions full [] = Inr []"
| "shape_transactions full (t # ts) =
     and_then (shape_transaction full t) (\<lambda>t. and_then (shape_transactions full ts) (\<lambda>ts. Inr (t # ts)))"

definition shape_block :: "bool \<Rightarrow> api_block option \<Rightarrow> (eth_error, api_block option) outcome" where
  "shape_block full maybe_block = (case maybe_block of
       None \<Rightarrow> Inr None
     | Some b \<Rightarrow> and_then (shape_transactions full (blk_transactions b)) (\<lambda>ts. Inr (Some (b\<lparr>blk_transactions := ts\<rparr>))))"

definition get_block_impl ::
  "block_id \<Rightarrow> bool \<Rightarrow> ('l, 'f, 'p, 'b, 't, 'td) in_memory_node
     \<Rightarrow> (eth_error, api_block option) outcome \<times> ('l, 'f, 'p, 'b, 't, 'td) in_memory_node" where
  "get_block_impl block_id full nd = (case get_block_by_id block_id (chain_of nd) of
       Inl f \<Rightarrow> (Inl f, nd)
     | Inr (Some b) \<Rightarrow> (shape_block full (Some b), nd)
     | Inr None \<Rightarrow> (case node_fork (fork_get_block_by_id block_id) nd of
         (r, nd) \<Rightarrow> (and_then r (shape_block full), nd)))"

definition get_code_impl ::
  "('p, 'b, 't, 'td) exec_api \<Rightarrow> address \<Rightarrow> block_id_variant option \<Rightarrow> ('l, 'f, 'p, 'b, 't, 'td) in_memory_node
     \<Rightarrow> (eth_error, bytes) outcome \<times> ('l, 'f, 'p, 'b, 't, 'td) in_memory_node" where
  "get_code_impl xa a block nd = (case node_read_value (xa_get_code_key xa a) nd of
       (Inl f, nd) \<Rightarrow> (read_error ''failed to read code storage: '' (Inl f), nd)
     | (Inr code_hash, nd) \<Rightarrow> (case node_load_factory_dep code_hash nd of
         (r, nd) \<Rightarrow> (and_then (read_error ''failed to load factory dep: '' r) (\<lambda>raw_code. Inr (case_option [] id raw_code)), nd)))"

definition read_three ::
  "storage_key \<Rightarrow> storage_key \<Rightarrow> storage_key \<Rightarrow> ('l, 'f, 'p, 'b, 't, 'td) in_memory_node
     \<Rightarrow> (string, h256 \<times> h256 \<times> h256) outcome \<times> ('l, 'f, 'p, 'b, 't, 'td) in_memory_node" where
  "read_three k1 k2 k3 nd = (case node_read_value k1 nd of
       (Inl f, nd) \<Rightarrow> (Inl f, nd)
     | (Inr v1, nd) \<Rightarrow> (case node_read_value k2 nd of
         (Inl f, nd) \<Rightarrow> (Inl f, nd)
       | (Inr v2, nd) \<Rightarrow> (case node_read_value k3 nd of
           (r, nd) \<Rightarrow> (and_then r (\<lambda>v3. Inr (v1, v2, v3)), nd))))"

definition get_transaction_count_impl ::
  "('h, 'v, 'f, 'p, 'b, 't, 'td) node_env \<Rightarrow> ('q, 'u, 's) eth_api \<Rightarrow> address \<Rightarrow> block_id_variant option
     \<Rightarrow> ('l, 'f, 'p, 'b, 't, 'td) in_memory_node
     \<Rightarrow> (eth_error, u256) outcome \<times> ('l, 'f, 'p, 'b, 't, 'td) in_memory_node" where
  "get_transaction_count_impl env ea a block nd =
     (case get_nonce_key (en_node env) (ni_storage_key_layout (node_of nd)) a of
        Inl f \<Rightarrow> (Inl f, nd)
      | Inr nonce_key \<Rightarrow>
          (case read_three nonce_key (xa_get_code_key (en_exec env) a) (ea_get_is_account_key ea a) nd of
             (r, nd) \<Rightarrow> (and_then (eth_err r) (\<lambda>(full_nonce, code_hash, account_info).
               let (account_nonce, deployment_nonce) = ov_decompose_full_nonce (ea_overrides ea) full_nonce
               in if code_hash = 0 \<or> account_info \<noteq> 0 then Inr account_nonce else Inr deployment_nonce), nd)))"

definition get_transaction_receipt_impl ::
  "h256 \<Rightarrow> ('l, 'f, 'p, 'b, 't, 'td) in_memory_node \<Rightarrow> (eth_error, transaction_receipt option) outcome" where
  "get_transaction_receipt_impl h nd = get_tx_receipt h (chain_of nd)"

definition get_transaction_by_hash_impl ::
  "h256 \<Rightarrow> ('l, 'f, 'p, 'b, 't, 'td) in_memory_node
     \<Rightarrow> (eth_error, api_transaction option) outcome \<times> ('l, 'f, 'p, 'b, 't, 'td) in_memory_node" where
  "get_transaction_by_hash_impl h nd = (case get_tx_api h (chain_of nd) of
       Inl f \<Rightarrow> (eth_err (Inl f), nd)
     | Inr (Some tx) \<Rightarrow> (Inr (Some tx), nd)
     | Inr None \<Rightarrow> node_fork (fork_get_transaction_by_hash h) nd)"

definition get_block_number_impl :: "('l, 'f, 'p, 'b, 't, 'td) in_memory_node \<Rightarrow> u64" where
  "get_block_number_impl nd = ucast (bc_current_block (chain_of nd))"

definition eth_estimate_gas_impl ::
  "('h, 'v, 'f, 'p, 'b, 't, 'td) node_env \<Rightarrow> ('f, 'r) gas_api \<Rightarrow> system_contracts \<Rightarrow> 'r call_request
     \<Rightarrow> ('l, 'f, 'p, 'b, 't, 'td) in_memory_node \<Rightarrow> (estimate_error, u256) outcome option" where
  "eth_estimate_gas_impl env ga sc req nd =
     (if inner_locked nd then None
      else Some (and_then (estimate_gas_impl (en_chain env) (en_fee env) ga (en_node env) sc (node_of nd) req)
        (\<lambda>f. Inr (fee_gas_limit f))))"

definition gas_price_impl ::
  "('h, 'v, 'f, 'p, 'b, 't, 'td) node_env \<Rightarrow> ('l, 'f, 'p, 'b, 't, 'td) in_memory_node \<Rightarrow> u256 option" where
  "gas_price_impl env nd =
     (if inner_locked nd then None else Some (ucast (gas_price (en_fee env) (ni_fee_input_provider (node_of nd)))))"

section \<open>Filters and logs\<close>

record filter_request =
  fr_from_block :: "block_number option"
  fr_to_block :: "block_number option"
  fr_address :: "address list option"
  fr_topics :: "h256 list option list option"

definition topic_array :: "h256 list option list option \<Rightarrow> h256 set option list" where
  "topic_array topics = (case topics of
       None \<Rightarrow> replicate 4 None
     | Some ts \<Rightarrow> map (map_option set) (take 4 ts) @ replicate (4 - length ts) None)"

definition new_filter_impl ::
  "filter_request \<Rightarrow> ('l, 'f, 'p, 'b, 't, 'td) in_memory_node
     \<Rightarrow> (eth_error, u256) outcome option \<times> ('l, 'f, 'p, 'b, 't, 'td) in_memory_node" where
  "new_filter_impl fr = node_filters (add_log_filter (case_option Latest id (fr_from_block fr))
     (case_option Latest id (fr_to_block fr)) (case_option [] id (fr_address fr)) (topic_array (fr_topics fr)))"

definition new_block_filter_impl ::
  "('l, 'f, 'p, 'b, 't, 'td) in_memory_node
     \<Rightarrow> (eth_error, u256) outcome option \<times> ('l, 'f, 'p, 'b, 't, 'td) in_memory_node" where
  "new_block_filter_impl = node_filters add_block_filter"

definition new_pending_transaction_filter_impl ::
  "('l, 'f, 'p, 'b, 't, 'td) in_memory_node
     \<Rightarrow> (eth_error, u256) outcome option \<times> ('l, 'f, 'p, 'b, 't, 'td) in_memory_node" where
  "new_pending_transaction_filter_impl = node_filters add_pending_transaction_filter"

definition uninstall_filter_impl ::
  "u256 \<Rightarrow> ('l, 'f, 'p, 'b, 't, 'td) in_memory_node
     \<Rightarrow> (eth_error, bool) outcome option \<times> ('l, 'f, 'p, 'b, 't, 'td) in_memory_node" where
  "uninstall_filter_impl i = node_filters (\<lambda>ef. map_prod Inr id (remove_filter i ef))"

definition get_logs_impl ::
  "filter_request \<Rightarrow> ('l, 'f, 'p, 'b, 't, 'td) in_memory_node \<Rightarrow> (eth_error, log list) outcome" where
  "get_logs_impl fr nd = eth_err (get_filter_logs (log_filter_new (case_option Earliest id (fr_from_block fr))
     (case_option Latest id (fr_to_block fr)) (case_option [] id (fr_address fr)) (topic_array (fr_topics fr)))
     (chain_of nd))"

definition get_filter_logs_impl ::
  "u256 \<Rightarrow> ('l, 'f, 'p, 'b, 't, 'td) in_memory_node \<Rightarrow> (eth_error, filter_changes) outcome option" where
  "get_filter_logs_impl i nd =
     (if inner_locked nd then None
      else Some (case get_filter i (ni_filters (node_of nd)) of
          Some (LogFilter f) \<Rightarrow> and_then (eth_err (get_filter_logs f (chain_of nd))) (\<lambda>logs. Inr (ChangesLogs logs))
        | _ \<Rightarrow> Inl (Err (EthInternal ''Failed to acquire read lock for filter logs.''))))"

definition get_filter_changes_impl ::
  "u256 \<Rightarrow> ('l, 'f, 'p, 'b, 't, 'td) in_memory_node
     \<Rightarrow> (eth_error, filter_changes) outcome option \<times> ('l, 'f, 'p, 'b, 't, 'td) in_memory_node" where
  "get_filter_changes_impl i = node_filters (get_new_changes i)"

section \<open>Counts, storage, accounts and fees\<close>

definition get_block_transaction_count_impl ::
  "block_id \<Rightarrow> ('l, 'f, 'p, 'b, 't, 'td) in_memory_node \<Rightarrow> (eth_error, u256 option) outcome" where
  "get_block_transaction_count_impl block_id nd =
     and_then (get_block_tx_count_by_id block_id (chain_of nd)) (\<lambda>c.
     and_then (case c of
         Some n \<Rightarrow> Inr (Some (of_nat n))
       | None \<Rightarrow> eth_sum EthInternal (fork_get_block_transaction_count_by_id block_id (ni_fork (node_of nd)))) (\<lambda>count.
     case count of Some n \<Rightarrow> Inr (Some n) | None \<Rightarrow> Inl (Err NoBlock)))"

fun of_web3 :: "(web3_error, 'a) outcome \<Rightarrow> (eth_error, 'a) outcome" where
  "of_web3 (Inr a) = Inr a"
| "of_web3 (Inl (Err (InternalError e))) = Inl (Err (EthInternal e))"
| "of_web3 (Inl (Err (PrunedBlock n))) = Inl (Err (EthPruned n))"
| "of_web3 (Inl (Panic m)) = Inl (Panic m)"

definition get_storage_impl ::
  "address \<Rightarrow> u256 \<Rightarrow> block_id_variant option \<Rightarrow> ('l, 'f, 'p, 'b, 't, 'td) in_memory_node
     \<Rightarrow> (eth_error, h256) outcome option" where
  "get_storage_impl a idx block nd =
     (if inner_locked nd then None else Some (of_web3 (get_storage_at_block a idx block (node_of nd))))"

definition get_transaction_by_block_and_index_impl ::
  "block_id \<Rightarrow> u64 \<Rightarrow> ('l, 'f, 'p, 'b, 't, 'td) in_memory_node \<Rightarrow> (eth_error, api_transaction option) outcome" where
  "get_transaction_by_block_and_index_impl block_id index nd =
     and_then (get_block_tx_by_id block_id (unat index) (chain_of nd)) (\<lambda>t. case t of
       Some tx \<Rightarrow> Inr (Some tx)
     | None \<Rightarrow> eth_sum EthInternal (fork_get_transaction_by_block_id_and_index block_id index (ni_fork (node_of nd))))"

definition PROTOCOL_VERSION :: string where
  "PROTOCOL_VERSION = ''zks/1''"

definition protocol_version_impl :: string where
  "protocol_version_impl = PROTOCOL_VERSION"

datatype sync_state = NotSyncing

definition syncing_impl :: sync_state where
  "syncing_impl = NotSyncing"

definition accounts_impl :: "('l, 'f, 'p, 'b, 't, 'td) in_memory_node \<Rightarrow> address set option" where
  "accounts_impl nd = (if inner_locked nd then None else Some (ni_rich_accounts (node_of nd)))"

text \<open>The gas ratios are floating-point zeros in the code.\<close>

record fee_history =
  fh_oldest_block :: u64
  fh_base_fee_per_gas :: "u256 list"
  fh_gas_used_ratio :: "int list"
  fh_reward :: "u256 list list option"

definition clamp :: "nat \<Rightarrow> nat \<Rightarrow> nat \<Rightarrow> nat" where
  "clamp lo hi n = (if n < lo then lo else if hi < n then hi else n)"

definition fee_history_impl ::
  "('h, 'v, 'f, 'p, 'b, 't, 'td) node_env \<Rightarrow> u64 \<Rightarrow> block_number \<Rightarrow> nat option
     \<Rightarrow> ('l, 'f, 'p, 'b, 't, 'td) in_memory_node \<Rightarrow> fee_history option" where
  "fee_history_impl env block_count newest_block reward_percentiles nd =
     (if inner_locked nd then None
      else let current_block = bc_current_block (chain_of nd);
               n = clamp 1 (unat current_block + 1) (min (unat block_count) 1024);
               price = ucast (gas_price (en_fee env) (ni_fee_input_provider (node_of nd)));
               base_fee_per_gas = replicate n price
           in Some \<lparr>fh_oldest_block = ucast (current_block + 1 - of_nat (length base_fee_per_gas)),
                fh_base_fee_per_gas = base_fee_per_gas @ [last base_fee_per_gas],
                fh_gas_used_ratio = replicate (length base_fee_per_gas) 0,
                fh_reward = Some (replicate (length base_fee_per_gas) (replicate (case_option 0 id reward_percentiles) 0))\<rparr>)"

section \<open>Reads through the handles\<close>

lemma set_node_of_sel [simp]:
  "node_of (set_node_of s nd) = s" "nd_pool (set_node_of s nd) = nd_pool nd" "inner_locked (set_node_of s nd) = inner_locked nd"
  "nd_snapshots (set_node_of s nd) = nd_snapshots nd"
  by (simp_all add: set_node_of_def inner_locked_def)

lemma node_read_value_eq:
  "\<exists>fs. node_read_value k nd = (node_reads (node_of nd) k, set_node_of ((node_of nd)\<lparr>ni_fork_storage := fs\<rparr>) nd)
    \<and> storage_view (fork_as_source (ni_fork (node_of nd))) fs = node_reads (node_of nd)
    \<and> fs_raw_storage fs = fs_raw_storage (ni_fork_storage (node_of nd))"
proof -
  let ?src = "fork_as_source (ni_fork (node_of nd))" and ?st = "ni_fork_storage (node_of nd)"
  have "fs_raw_storage (snd (read_value_internal ?src k ?st)) = fs_raw_storage ?st"
    by (auto simp: read_value_internal_def split: option.split sum.split)
  then show ?thesis
    by (intro exI [of _ "snd (read_value_internal ?src k ?st)"])
      (simp add: node_read_value_def fs.read_result fs.read_view case_prod_unfold)
qed

lemma node_read_value_keeps:
  assumes "node_read_value k nd = (r, nd')"
  shows "r = node_reads (node_of nd) k" "node_reads (node_of nd') = node_reads (node_of nd)" "nd_pool nd' = nd_pool nd"
    "chain_of nd' = chain_of nd" "inner_locked nd' = inner_locked nd"
    "fs_raw_storage (ni_fork_storage (node_of nd')) = fs_raw_storage (ni_fork_storage (node_of nd))"
    "ni_impersonation (node_of nd') = ni_impersonation (node_of nd)"
  using assms node_read_value_eq [of k nd] by auto

lemma fst_node_read_value [simp]: "fst (node_read_value k nd) = node_reads (node_of nd) k"
  using node_read_value_eq [of k nd] by auto

lemma load_dep_local:
  "st_factory_deps (fs_raw_storage (ni_fork_storage (node_of nd))) h = Some c \<Longrightarrow> fst (node_load_factory_dep h nd) = Inr (Some c)"
  by (simp add: node_load_factory_dep_def load_factory_dep_internal_def mem_load_factory_dep_def)

lemma write_storage_layout [simp]: "ni_storage_key_layout (write_storage k v s) = ni_storage_key_layout s"
  by (simp add: write_storage_def)

lemma read_three_result:
  "fst (read_three k1 k2 k3 nd) = and_then (node_reads (node_of nd) k1) (\<lambda>v1. and_then (node_reads (node_of nd) k2) (\<lambda>v2.
     and_then (node_reads (node_of nd) k3) (\<lambda>v3. Inr (v1, v2, v3))))"
proof -
  obtain r1 nd1 where 1: "node_read_value k1 nd = (r1, nd1)" by force
  obtain r2 nd2 where 2: "node_read_value k2 nd1 = (r2, nd2)" by force
  obtain r3 nd3 where 3: "node_read_value k3 nd2 = (r3, nd3)" by force
  have reads: "node_reads (node_of nd) k1 = r1" "node_reads (node_of nd) k2 = r2" "node_reads (node_of nd) k3 = r3"
    using node_read_value_keeps [OF 1] node_read_value_keeps [OF 2] node_read_value_keeps [OF 3] by simp_all
  show ?thesis
    by (cases r1; cases r2) (simp_all add: read_three_def 1 2 3 reads)
qed

section \<open>What is set is what is read\<close>

lemma handle_now:
  assumes "nx_status (nd_executor nd) = Serving" and "nx_queue (nd_executor nd) = []"
    and "exec_command env cmd (node_of nd) = (Reply r, s)"
  shows "via_handle (request env reply_of cmd) nd = (Some (lift_result (reply_of r)), set_node_of s nd)"
  using assms by (simp add: via_handle_def request_now set_node_of_def)

text \<open>C11: accounts read back what was set. While the executor serves, the balance, the nonce and the code set through
  the node are what \<open>eth_getBalance\<close>, \<open>eth_getTransactionCount\<close> and \<open>eth_getCode\<close> return, for an account with code as for
  one without; EVM code comes back padded.\<close>

theorem set_then_get:
  assumes serving: "nx_status (nd_executor nd) = Serving" "nx_queue (nd_executor nd) = []"
    and era: "ni_storage_key_layout (node_of nd) = ZkEra"
    and codec: "ov_decompose_full_nonce (ea_overrides ea) (xa_nonces_to_full_nonce (en_exec env) n n) = (n, n)"
    and reads: "\<forall>k. is_ok (node_reads (node_of nd) k)"
  shows "fst (get_balance_impl (en_node env) a block (snd (node_set_balance env a v nd))) = Inr v
    \<and> fst (get_transaction_count_impl env ea a block (snd (node_set_nonce env a n nd))) = Inr n
    \<and> fst (get_code_impl (en_exec env) a block (snd (override_bytecode env a code nd)))
        = Inr (if xa_is_evm_bytecode (en_exec env) code then xa_pad_evm_bytecode (en_exec env) code else code)"
proof (intro conjI)
  note now = handle_now [OF serving]
  let ?s = "write_storage (key_for_eth_balance (en_node env) a) v (node_of nd)"
  have "node_set_balance env a v nd = (Some (Inr True), set_node_of ?s nd)"
    using era by (simp add: node_set_balance_def set_balance_sync_def now exec_set_balance_def answer_map_def)
  then show "fst (get_balance_impl (en_node env) a block (snd (node_set_balance env a v nd))) = Inr v"
    using era by (simp add: get_balance_impl_def write_storage_layout write_storage_reads case_prod_unfold)
  let ?t = "write_storage (key_for_nonce (en_node env) a) (xa_nonces_to_full_nonce (en_exec env) n n) (node_of nd)"
  have set: "node_set_nonce env a n nd = (Some (Inr True), set_node_of ?t nd)"
    using era by (simp add: node_set_nonce_def set_nonce_sync_def now exec_set_nonce_def answer_map_def)
  obtain c i where "node_reads ?t (xa_get_code_key (en_exec env) a) = Inr c" "node_reads ?t (ea_get_is_account_key ea a) = Inr i"
    using reads by (fastforce simp: write_storage_reads is_ok_iff)
  then show "fst (get_transaction_count_impl env ea a block (snd (node_set_nonce env a n nd))) = Inr n"
    using era codec
    by (simp add: set get_transaction_count_impl_def write_storage_layout read_three_result case_prod_unfold)
      (simp add: write_storage_reads codec Let_def)
  let ?evm = "xa_is_evm_bytecode (en_exec env) code"
  let ?h = "if ?evm then xa_hash_for_raw_evm_bytecode (en_exec env) code else xa_hash_for_bytecode (en_exec env) code"
  let ?c = "if ?evm then xa_pad_evm_bytecode (en_exec env) code else code"
  let ?u = "write_storage (xa_get_code_key (en_exec env) a) ?h
    ((node_of nd)\<lparr>ni_fork_storage := fs_store_factory_dep ?h ?c (ni_fork_storage (node_of nd))\<rparr>)"
  have set: "override_bytecode env a code nd = (Some (Inr ()), set_node_of ?u nd)"
    by (simp add: override_bytecode_def set_code_sync_def now exec_set_code_def Let_def)
  obtain r nd' where r: "node_read_value (xa_get_code_key (en_exec env) a) (set_node_of ?u nd) = (r, nd')" by force
  have "r = Inr ?h" "st_factory_deps (fs_raw_storage (ni_fork_storage (node_of nd'))) ?h = Some ?c"
    using node_read_value_keeps [OF r]
    by (simp_all add: write_storage_reads)
      (simp add: write_storage_def fs_set_value_def mem_set_value_def fs_store_factory_dep_def mem_store_factory_dep_def)
  then show "fst (get_code_impl (en_exec env) a block (snd (override_bytecode env a code nd))) = Inr ?c"
    by (simp add: set get_code_impl_def r load_dep_local case_prod_unfold)
qed

section \<open>Calls and submissions\<close>

text \<open>A call changes nothing. Whatever \<open>eth_call\<close> returns, with or without overrides, the chain, the pool, the local
  storage and every value that can be read stay as they were.\<close>

theorem call_impl_readonly:
  assumes "call_impl env ea ga sc req state_override nd = (answer, nd')"
  shows "chain_of nd' = chain_of nd \<and> nd_pool nd' = nd_pool nd \<and> node_reads (node_of nd') = node_reads (node_of nd)
    \<and> fs_raw_storage (ni_fork_storage (node_of nd')) = fs_raw_storage (ni_fork_storage (node_of nd))"
proof -
  have "chain_of nd1 = chain_of nd \<and> nd_pool nd1 = nd_pool nd \<and> node_reads (node_of nd1) = node_reads (node_of nd)
      \<and> fs_raw_storage (ni_fork_storage (node_of nd1)) = fs_raw_storage (ni_fork_storage (node_of nd))"
    if "call_target_check xa tx nd = (r, nd1)" for xa tx r nd1
    using that node_read_value_keeps [of _ nd] by (auto simp: call_target_check_def split: option.splits prod.splits)
  with assms show ?thesis
    by (auto simp: call_impl_def split: sum.splits prod.splits if_splits)
qed

definition input_laws :: "('q, 'u, 's) eth_api \<Rightarrow> bool" where
  "input_laws ea \<longleftrightarrow> (\<forall>bs h tx. tx_hash (ea_set_input ea bs h tx) = h)"


section \<open>Blocks and fees\<close>

fun is_full :: "transaction_variant \<Rightarrow> bool" where
  "is_full (Full tx) = True"
| "is_full (Hash h) = False"

lemma shape_transactions_spec:
  "shape_transactions full ts = Inr ts' \<Longrightarrow>
     map variant_hash ts' = map variant_hash ts \<and> (\<forall>t\<in>set ts'. is_full t \<longleftrightarrow> full)"
proof (induction ts arbitrary: ts')
  case (Cons t ts)
  then show ?case by (cases t) (auto split: if_splits)
qed simp

lemma shape_transactions_full: "\<forall>t\<in>set ts. is_full t \<Longrightarrow> \<exists>ts'. shape_transactions full ts = Inr ts'"
proof (induction ts)
  case (Cons t ts)
  then show ?case by (cases t) auto
qed simp

text \<open>Blocks are returned in the shape asked for. The transactions of a block are all full or all hashes, as asked, in
  the order of the block and with their own hashes; nothing else of the block changes. A block the chain has is answered from
  the chain, without the fork, and a chain that stores full transactions never panics.\<close>

theorem get_block_shape:
  "(get_block_impl i full nd = (Inr (Some b'), nd') \<longrightarrow>
      (\<exists>b. (get_block_by_id i (chain_of nd) = (Inr (Some b) :: (eth_error, _) outcome)
          \<or> get_block_by_id i (chain_of nd) = (Inr None :: (eth_error, _) outcome)
            \<and> fst (fork_get_block_by_id i (ni_fork (node_of nd))) = Inr (Some b))
        \<and> b' = b\<lparr>blk_transactions := blk_transactions b'\<rparr>
        \<and> map variant_hash (blk_transactions b') = map variant_hash (blk_transactions b)
        \<and> (\<forall>t\<in>set (blk_transactions b'). is_full t \<longleftrightarrow> full)))
    \<and> (get_block_by_id i (chain_of nd) = (Inr (Some b) :: (eth_error, _) outcome)
        \<and> (\<forall>t\<in>set (blk_transactions b). is_full t)
        \<longrightarrow> (\<exists>b'. get_block_impl i full nd = (Inr (Some b'), nd)))"
proof (intro conjI impI)
  have shape: "\<exists>ts. b' = b\<lparr>blk_transactions := ts\<rparr> \<and> map variant_hash ts = map variant_hash (blk_transactions b)
      \<and> (\<forall>t\<in>set ts. is_full t \<longleftrightarrow> full)" if "shape_block full (Some b) = Inr (Some b')" for b b'
    using that by (auto simp: shape_block_def dest: shape_transactions_spec)
  assume "get_block_impl i full nd = (Inr (Some b'), nd')"
  then obtain b where "get_block_by_id i (chain_of nd) = (Inr (Some b) :: (eth_error, _) outcome)
        \<or> get_block_by_id i (chain_of nd) = (Inr None :: (eth_error, _) outcome)
          \<and> fst (fork_get_block_by_id i (ni_fork (node_of nd))) = Inr (Some b)"
    and "shape_block full (Some b) = Inr (Some b')"
    by (auto simp: get_block_impl_def node_fork_def split: sum.splits option.splits prod.splits)
      (auto simp: shape_block_def split: option.splits elim!: eth_sum.elims)
  with shape [of b b'] show "\<exists>b. (get_block_by_id i (chain_of nd) = (Inr (Some b) :: (eth_error, _) outcome)
          \<or> get_block_by_id i (chain_of nd) = (Inr None :: (eth_error, _) outcome)
            \<and> fst (fork_get_block_by_id i (ni_fork (node_of nd))) = Inr (Some b))
        \<and> b' = b\<lparr>blk_transactions := blk_transactions b'\<rparr>
        \<and> map variant_hash (blk_transactions b') = map variant_hash (blk_transactions b)
        \<and> (\<forall>t\<in>set (blk_transactions b'). is_full t \<longleftrightarrow> full)"
    by (intro exI [of _ b]) auto
next
  assume "get_block_by_id i (chain_of nd) = (Inr (Some b) :: (eth_error, _) outcome)
        \<and> (\<forall>t\<in>set (blk_transactions b). is_full t)"
  then show "\<exists>b'. get_block_impl i full nd = (Inr (Some b'), nd)"
    using shape_transactions_full [of "blk_transactions b" full] by (auto simp: get_block_impl_def shape_block_def)
qed

text \<open>The fee history covers between one and 1024 blocks, never more than the chain has, ending at the current block;
  it has one base fee more than blocks, and one list of rewards of the asked length for each.\<close>

theorem fee_history_bounds:
  assumes "fee_history_impl env block_count newest percentiles nd = Some h" and "n = length (fh_gas_used_ratio h)"
  shows "1 \<le> n \<and> n \<le> 1024 \<and> n \<le> max 1 (unat block_count) \<and> n \<le> unat (bc_current_block (chain_of nd)) + 1
    \<and> unat (fh_oldest_block h) + n = unat (bc_current_block (chain_of nd)) + 1
    \<and> length (fh_base_fee_per_gas h) = n + 1
    \<and> set (fh_base_fee_per_gas h) = {ucast (gas_price (en_fee env) (ni_fee_input_provider (node_of nd)))}
    \<and> fh_reward h = Some (replicate n (replicate (case_option 0 id percentiles) 0))"
proof -
  let ?c = "bc_current_block (chain_of nd)"
  have n: "n = clamp 1 (unat ?c + 1) (min (unat block_count) 1024)"
    using assms by (auto simp: fee_history_impl_def Let_def split: if_splits)
  have bounds: "1 \<le> n" "n \<le> 1024" "n \<le> max 1 (unat block_count)" "n \<le> unat ?c + 1"
    by (auto simp: n clamp_def)
  obtain m where m: "n = Suc m" using bounds(1) by (cases n) auto
  have "unat (of_nat m :: u32) = m"
    using bounds(2) m by (simp add: unsigned_of_nat take_bit_nat_eq_self)
  then have "unat (?c - of_nat m) = unat ?c - m"
    using bounds(4) m by (subst unat_sub) (simp_all add: word_le_nat_alt)
  then have oldest: "unat (?c + 1 - of_nat n) + n = unat ?c + 1"
    using bounds(4) by (simp add: m)
  have h: "fh_oldest_block h = ucast (?c + 1 - of_nat n)"
    "fh_base_fee_per_gas h = replicate n (ucast (gas_price (en_fee env) (ni_fee_input_provider (node_of nd))))
      @ [last (replicate n (ucast (gas_price (en_fee env) (ni_fee_input_provider (node_of nd)))))]"
    "fh_reward h = Some (replicate n (replicate (case_option 0 id percentiles) 0))"
    using assms by (auto simp: fee_history_impl_def Let_def split: if_splits)
  show ?thesis
    using bounds oldest h by (simp add: unsigned_ucast_eq set_replicate_conv_if)
qed


section \<open>The stored filters\<close>

datatype filter_call =
    NewFilter filter_request
  | NewBlockFilter
  | NewPendingTransactionFilter
  | UninstallFilter u256
  | GetFilterChanges u256
  | Announced filter_event

text \<open>An announcement that panics ends the sealing that made it and changes no filter.\<close>

fun filter_call_exec ::
  "filter_call \<Rightarrow> ('l, 'f, 'p, 'b, 't, 'td) in_memory_node \<Rightarrow> ('l, 'f, 'p, 'b, 't, 'td) in_memory_node" where
  "filter_call_exec (NewFilter fr) nd = snd (new_filter_impl fr nd)"
| "filter_call_exec NewBlockFilter nd = snd (new_block_filter_impl nd)"
| "filter_call_exec NewPendingTransactionFilter nd = snd (new_pending_transaction_filter_impl nd)"
| "filter_call_exec (UninstallFilter i) nd = snd (uninstall_filter_impl i nd)"
| "filter_call_exec (GetFilterChanges i) nd = snd (get_filter_changes_impl i nd)"
| "filter_call_exec (Announced e) nd = (case notify e (ni_filters (node_of nd)) of
     Inl f \<Rightarrow> nd | Inr ef \<Rightarrow> set_node_of ((node_of nd)\<lparr>ni_filters := ef\<rparr>) nd)"

fun topics_typed :: "filter_type \<Rightarrow> bool" where
  "topics_typed (LogFilter f) \<longleftrightarrow> length (lf_topics f) = 4"
| "topics_typed _ \<longleftrightarrow> True"

definition filters_typed :: "eth_filters \<Rightarrow> bool" where
  "filters_typed ef \<longleftrightarrow> filters_inv ef \<and> (\<forall>i f. get_filter i ef = Some f \<longrightarrow> topics_typed f)"

lemma length_topic_array [simp]: "length (topic_array ts) = 4"
  by (auto simp: topic_array_def split: option.split)

lemma topics_typed_deliver [simp]: "topics_typed (deliver es f) = topics_typed f"
  by (cases f) simp_all

lemma topics_typed_cleared [simp]: "topics_typed (cleared f) = topics_typed f"
  by (cases f) simp_all

lemma filters_typed_add [inv_intros]:
  assumes "filters_typed ef" and "topics_typed f"
  shows "filters_typed (snd (add_filter f ef))"
  using assms filters_inv_add [of ef f]
  by (auto simp: filters_typed_def add_filter_def get_filter_def update_conv' split: option.split)

lemma filters_typed_remove [inv_intros]:
  assumes "filters_typed ef"
  shows "filters_typed (snd (remove_filter i ef))"
proof -
  have "filters_inv (snd (remove_filter i ef))"
    using assms by (auto simp: filters_typed_def filters_inv_def remove_filter_def distinct_delete list_all_iff
        dest: set_delete_subset [THEN subsetD])
  then show ?thesis
    using assms by (auto simp: filters_typed_def remove_filter_def get_filter_def delete_conv' split: option.split)
qed

lemma filters_typed_changes [inv_intros]:
  assumes "filters_typed ef"
  shows "filters_typed (snd (get_new_changes i ef))"
proof -
  have "filters_inv (snd (get_new_changes i ef))"
  proof (cases "get_filter i ef")
    case (Some f)
    then have "map fst (AList.update i (cleared f) (ef_filters ef)) = map fst (ef_filters ef)"
      by (auto simp: get_filter_def update_keys dest: map_of_SomeD intro: rev_image_eqI)
    with assms Some show ?thesis
      by (auto simp: get_new_changes_eq filters_typed_def intro: filters_inv_keys [THEN iffD2])
  qed (use assms in \<open>simp add: get_new_changes_eq filters_typed_def\<close>)
  then show ?thesis
    using assms by (auto simp: filters_typed_def get_filter_get_new_changes split: option.split)
qed

lemma filters_typed_notify [inv_intros]: "notify e ef = Inr ef' \<Longrightarrow> filters_typed ef \<Longrightarrow> filters_typed ef'"
  using filters_inv_notify [of e ef ef'] by (auto simp: filters_typed_def get_filter_notify simp del: deliver.simps split: option.split)

lemma node_filters_typed:
  "filters_typed (ni_filters (node_of nd)) \<Longrightarrow> filters_typed (snd (f (ni_filters (node_of nd))))
    \<Longrightarrow> filters_typed (ni_filters (node_of (snd (node_filters f nd))))"
  by (simp add: node_filters_def case_prod_unfold)

lemma filter_call_typed:
  assumes "filters_typed (ni_filters (node_of nd))"
  shows "filters_typed (ni_filters (node_of (filter_call_exec c nd)))"
proof (cases c)
  case (Announced e)
  then show ?thesis using assms filters_typed_notify [of e "ni_filters (node_of nd)"] by (auto split: sum.split)
qed (simp_all add: new_filter_impl_def new_block_filter_impl_def new_pending_transaction_filter_impl_def
    uninstall_filter_impl_def get_filter_changes_impl_def add_log_filter_def add_block_filter_def
    add_pending_transaction_filter_def log_filter_new_def node_filters_typed [OF assms] filters_typed_add [OF assms]
    filters_typed_remove [OF assms] filters_typed_changes [OF assms])

text \<open>C13: the stored filters are well-formed. After any sequence of filter requests and announcements on a node that starts
  without filters, identifiers are distinct, not zero and at most the counter, and every log filter has exactly the four topic
  sets that matching indexes, however many the request named.\<close>

theorem filter_calls_typed:
  assumes "ni_filters (node_of nd) = eth_filters_default" and "nd' = fold filter_call_exec cs nd"
  shows "distinct (map fst (ef_filters (ni_filters (node_of nd'))))
    \<and> list_all (\<lambda>(i, f). 0 < i \<and> i \<le> ef_id_counter (ni_filters (node_of nd')) \<and> topics_typed f)
        (ef_filters (ni_filters (node_of nd')))"
proof -
  have "filters_typed (ni_filters (node_of nd))"
    using assms(1) by (simp add: filters_typed_def filters_inv_def eth_filters_default_def get_filter_def)
  then have "filters_typed (ni_filters (node_of (fold filter_call_exec cs nd)))"
    by (induction cs arbitrary: nd) (simp_all add: filter_call_typed)
  then show ?thesis
    using assms(2) by (auto simp: filters_typed_def filters_inv_def get_filter_def list_all_iff)
qed

section \<open>Concrete runs\<close>

definition sample_eth_tx :: "unit transaction_request \<Rightarrow> transaction" where
  "sample_eth_tx r = sample_tx 0 (case_option 1 id (tr_from r)) 100"

definition sample_eth_api :: "(unit, unit, overlay) eth_api" where
  "sample_eth_api = \<lparr>ea_request_from = (\<lambda>r. \<lparr>tr_from = cr_from r, tr_chain_id = None, tr_r = None, tr_s = None, tr_v = None, tr_rest = ()\<rparr>),
     ea_request_from_bytes = (\<lambda>bs c. Inr (\<lparr>tr_from = Some 10, tr_chain_id = Some c, tr_r = None, tr_s = None, tr_v = None, tr_rest = ()\<rparr>,
       of_nat (length bs))),
     ea_get_signed_bytes = (\<lambda>r sig. Inr [1, 2, 3]), ea_l2_from_request = (\<lambda>r n b. Inr (sample_eth_tx r)),
     ea_set_input = (\<lambda>bs h tx. tx\<lparr>tx_hash := h\<rparr>), ea_get_is_account_key = (\<lambda>a. \<lparr>sk_address = 32770, sk_key = ucast a + 7\<rparr>),
     ea_eth_call_gas_limit = 80000000, ea_max_l1_transaction_gas_limit = 72000000, ea_overrides = overlay_api,
     ea_vm = (\<lambda>boojum env sys st tx. Inr (sample_vm_result, []))\<rparr>"

definition sample_eth_request :: "unit eth_request" where
  "sample_eth_request = \<lparr>cr_from = Some 10, cr_to = Some 20, cr_nonce = None, cr_eip712_gas_per_pubdata = None,
     cr_rest = \<lparr>rq_gas = None, rq_gas_price = None, rq_max_fee_per_gas = None, rq_max_priority_fee_per_gas = None,
       rq_transaction_type = None, rq_rest = ()\<rparr>\<rparr>"

lemma sample_serving:
  "nx_status (nd_executor sample_in_memory_node) = Serving" "nx_queue (nd_executor sample_in_memory_node) = []"
  "node_of sample_in_memory_node = sample_node None" "nd_pool sample_in_memory_node = tx_pool_new Fifo"
  "ni_storage_key_layout (sample_node None) = ZkEra"
  by (simp_all add: sample_in_memory_node_def in_memory_node_new_def sample_node_def node_inner_init_def Let_def)

theorem set_then_get_witness:
  "fst (get_balance_impl sample_node_api 10 None (snd (node_set_balance sample_exec_env 10 77 sample_in_memory_node))) = Inr 77"
  using set_then_get [of sample_in_memory_node sample_eth_api sample_exec_env 0 10 None 77 "[]"]
  by (simp add: sample_serving sample_node_read sample_eth_api_def sample_exec_env_def sample_exec_api_def overlay_api_def)

theorem call_impl_readonly_witness:
  "nd_pool (snd (call_impl sample_exec_env sample_eth_api sample_gas_api sample_system_contracts sample_eth_request None
     sample_in_memory_node)) = tx_pool_new Fifo"
  using call_impl_readonly [of sample_exec_env sample_eth_api sample_gas_api sample_system_contracts sample_eth_request None
      sample_in_memory_node] sample_serving(4)
  by (metis prod.collapse)


theorem get_block_shape_witness:
  "\<exists>b b'. get_block_by_id (BlockNumber Latest) (chain_of sample_in_memory_node) = (Inr (Some b) :: (eth_error, _) outcome)
     \<and> get_block_impl (BlockNumber Latest) True sample_in_memory_node = (Inr (Some b'), sample_in_memory_node)"
proof -
  obtain b where b: "get_block_by_id (BlockNumber Latest) (chain_of sample_in_memory_node) = (Inr (Some b) :: (eth_error, _) outcome)"
    "blk_transactions b = []"
    by (auto simp: sample_serving sample_defs get_block_by_id_def inspect_block_by_id_def state_get_block_hash_by_id_def inspect_def
        Let_def split_def)
  with get_block_shape [of "BlockNumber Latest" True sample_in_memory_node undefined undefined b] show ?thesis by auto
qed

theorem fee_history_bounds_witness:
  "\<exists>h. fee_history_impl sample_exec_env 5 Latest (Some 2) sample_in_memory_node = Some h \<and> length (fh_base_fee_per_gas h) = 2"
proof -
  obtain h where h: "fee_history_impl sample_exec_env 5 Latest (Some 2) sample_in_memory_node = Some h"
    by (simp add: fee_history_impl_def Let_def)
  have "bc_current_block (chain_of sample_in_memory_node) = 0"
    by (simp add: sample_serving sample_defs Let_def split_def)
  with h fee_history_bounds [OF h refl] show ?thesis by auto
qed

theorem filter_calls_typed_witness:
  "length (ef_filters (ni_filters (node_of (fold filter_call_exec
      [NewFilter \<lparr>fr_from_block = None, fr_to_block = None, fr_address = None, fr_topics = Some [Some [1], None, None, None, Some [2]]\<rparr>,
       NewBlockFilter, Announced (NewBlock 5)] sample_in_memory_node)))) = 2
   \<and> distinct (map fst (ef_filters (ni_filters (node_of (fold filter_call_exec
      [NewFilter \<lparr>fr_from_block = None, fr_to_block = None, fr_address = None, fr_topics = Some [Some [1], None, None, None, Some [2]]\<rparr>,
       NewBlockFilter, Announced (NewBlock 5)] sample_in_memory_node)))))"
proof -
  have start: "ni_filters (node_of sample_in_memory_node) = eth_filters_default"
    by (simp add: sample_serving sample_node_def node_inner_init_def Let_def)
  show ?thesis
    using filter_calls_typed [OF start refl, of "[NewFilter \<lparr>fr_from_block = None, fr_to_block = None, fr_address = None,
        fr_topics = Some [Some [1], None, None, None, Some [2]]\<rparr>, NewBlockFilter, Announced (NewBlock 5)]"] start
    by (simp add: new_filter_impl_def new_block_filter_impl_def node_filters_def add_log_filter_def add_block_filter_def
        add_filter_def eth_filters_default_def checked_add_def notify_new_block_def)
qed


end
