(* ===== verification/Zks_Api.thy ===== *)
theory Zks_Api
  imports Eth_Api
begin

text \<open>
  The \<open>zks\<close> and \<open>debug\<close> namespaces: \<open>crates/core/src/node/zks.rs\<close> and \<open>debug.rs\<close>.

  The Merkle tree over the logs of a batch, the hashes, and the token and bridge records of the zksync crates are the fields of
  \<open>zks_api\<close>. Details of a block or a transaction come from the node, in its own record, or from the fork.
\<close>

section \<open>Parameters\<close>

record ('b, 't, 'dt) zks_api =
  za_bridge_default :: 'b
  za_ether_token :: 't
  za_token_l2_address :: "'t \<Rightarrow> address"
  za_token_balance_key :: "address \<Rightarrow> address \<Rightarrow> storage_key"
  za_from_timestamp :: "int \<Rightarrow> u32 \<Rightarrow> 'dt option"
  za_log_bytes :: "user_l2_to_l1_log \<Rightarrow> bytes"
  za_logs_tree_size :: "protocol_version \<Rightarrow> nat"
  za_merkle_root_and_path :: "bytes list \<Rightarrow> nat \<Rightarrow> nat \<Rightarrow> h256 \<times> h256 list"
  za_compress :: "h256 \<Rightarrow> h256 \<Rightarrow> h256"
  za_log_proof_metadata_version :: u8
  za_contract_deployer_address :: address

section \<open>Estimates, blocks and tokens\<close>

definition estimate_fee_impl ::
  "('h, 'v, 'f, 'p, 'b, 't, 'td) node_env \<Rightarrow> ('f, 'r) gas_api \<Rightarrow> system_contracts \<Rightarrow> 'r call_request
     \<Rightarrow> ('l, 'f, 'p, 'b, 't, 'td) in_memory_node \<Rightarrow> (estimate_error, fee) outcome option" where
  "estimate_fee_impl env ga sc req nd =
     (if inner_locked nd then None
      else Some (estimate_gas_impl (en_chain env) (en_fee env) ga (en_node env) sc (node_of nd) req))"

definition estimate_gas_l1_to_l2 ::
  "('h, 'v, 'f, 'p, 'b, 't, 'td) node_env \<Rightarrow> ('f, 'r) gas_api \<Rightarrow> system_contracts \<Rightarrow> 'r call_request
     \<Rightarrow> ('l, 'f, 'p, 'b, 't, 'td) in_memory_node \<Rightarrow> (estimate_error, u256) outcome option" where
  "estimate_gas_l1_to_l2 env ga sc req nd =
     (if inner_locked nd then None
      else Some (estimate_l1_to_l2_gas_impl (en_chain env) (en_fee env) ga (en_node env) sc (node_of nd) req))"

definition missing_tx :: string where
  "missing_tx = ''Unexpectedly transaction belongs to a block but could not be found''"

fun collect_txs :: "(h256 \<Rightarrow> (eth_error, 'a option) outcome) \<Rightarrow> h256 list \<Rightarrow> (eth_error, 'a list) outcome" where
  "collect_txs lookup [] = Inr []"
| "collect_txs lookup (h # hs) =
     and_then (lookup h) (\<lambda>t. and_then (ok_or (EthInternal missing_tx) t) (\<lambda>a.
     and_then (collect_txs lookup hs) (\<lambda>as. Inr (a # as))))"

definition get_raw_block_transactions_impl ::
  "u32 \<Rightarrow> ('l, 'f, 'p, 'b, 't, 'td) in_memory_node
     \<Rightarrow> (eth_error, transaction list) outcome \<times> ('l, 'f, 'p, 'b, 't, 'td) in_memory_node" where
  "get_raw_block_transactions_impl n nd = (case get_block_tx_hashes_by_number n (chain_of nd) of
       Inl f \<Rightarrow> (Inl f, nd)
     | Inr (Some tx_hashes) \<Rightarrow> (collect_txs (\<lambda>h. get_zksync_tx h (chain_of nd)) tx_hashes, nd)
     | Inr None \<Rightarrow> node_fork (fork_get_raw_block_transactions n) nd)"

definition get_bridge_contracts_impl ::
  "('b, 't, 'dt) zks_api \<Rightarrow> ('l, 'f, 'p, 'b, 't, 'td) in_memory_node
     \<Rightarrow> (eth_error, 'b) outcome \<times> ('l, 'f, 'p, 'b, 't, 'td) in_memory_node" where
  "get_bridge_contracts_impl za nd = (case node_fork fork_get_bridge_contracts nd of
     (r, nd) \<Rightarrow> (and_then r (\<lambda>b. Inr (case_option (za_bridge_default za) id b)), nd))"

definition get_confirmed_tokens_impl ::
  "('b, 't, 'dt) zks_api \<Rightarrow> u32 \<Rightarrow> u8 \<Rightarrow> ('l, 'f, 'p, 'b, 't, 'td) in_memory_node
     \<Rightarrow> (eth_error, 't list) outcome \<times> ('l, 'f, 'p, 'b, 't, 'td) in_memory_node" where
  "get_confirmed_tokens_impl za start limit nd = (case node_fork (fork_get_confirmed_tokens start limit) nd of
     (r, nd) \<Rightarrow> (and_then r (\<lambda>ts. Inr (case_option [za_ether_token za] id ts)), nd))"

fun token_balances ::
  "('b, 't, 'dt) zks_api \<Rightarrow> address \<Rightarrow> 't list \<Rightarrow> (address \<rightharpoonup> u256) \<Rightarrow> ('l, 'f, 'p, 'b, 't, 'td) in_memory_node
     \<Rightarrow> (eth_error, address \<rightharpoonup> u256) outcome \<times> ('l, 'f, 'p, 'b, 't, 'td) in_memory_node" where
  "token_balances za a [] balances nd = (Inr balances, nd)"
| "token_balances za a (token # tokens) balances nd =
     (case node_read_value (za_token_balance_key za (za_token_l2_address za token) a) nd of
        (Inl f, nd) \<Rightarrow> (eth_err (Inl f), nd)
      | (Inr balance, nd) \<Rightarrow> token_balances za a tokens
          (if balance \<noteq> 0 then balances(za_token_l2_address za token \<mapsto> balance) else balances) nd)"

definition get_all_account_balances_impl ::
  "('b, 't, 'dt) zks_api \<Rightarrow> address \<Rightarrow> ('l, 'f, 'p, 'b, 't, 'td) in_memory_node
     \<Rightarrow> (eth_error, address \<rightharpoonup> u256) outcome \<times> ('l, 'f, 'p, 'b, 't, 'td) in_memory_node" where
  "get_all_account_balances_impl za a nd = (case get_confirmed_tokens_impl za 0 100 nd of
       (Inl f, nd) \<Rightarrow> (Inl f, nd)
     | (Inr tokens, nd) \<Rightarrow> token_balances za a tokens (\<lambda>_. None) nd)"

definition get_block_details_impl ::
  "('h, 'v, 'f, 'p, 'b, 't, 'td) node_env \<Rightarrow> system_contracts \<Rightarrow> u32 \<Rightarrow> ('l, 'f, 'p, 'b, 't, 'td) in_memory_node
     \<Rightarrow> (eth_error, (block_details + remote_block_details) option) outcome option" where
  "get_block_details_impl env sc n nd =
     (if inner_locked nd then None
      else Some (and_then (get_block_details_by_number (ni_protocol_version (node_of nd)) n
            (gas_price (en_fee env) (ni_fee_input_provider (node_of nd)))
            (Some (fair_pubdata_price (en_fee env) (ni_fee_input_provider (node_of nd))))
            (system_base_system_contracts_hashes sc) (chain_of nd)) (\<lambda>d. case d of
          Some found \<Rightarrow> Inr (Some (Inl found))
        | None \<Rightarrow> and_then (eth_sum EthInternal (fork_get_block_details n (ni_fork (node_of nd))))
            (\<lambda>r. Inr (map_option Inr r)))))"

definition get_transaction_details_impl ::
  "('b, 't, 'dt) zks_api \<Rightarrow> h256 \<Rightarrow> ('l, 'f, 'p, 'b, 't, 'td) in_memory_node
     \<Rightarrow> (eth_error, ('dt transaction_details + 'td) option) outcome" where
  "get_transaction_details_impl za h nd =
     and_then (get_tx_details (za_from_timestamp za) h (chain_of nd)) (\<lambda>d. case d of
       Some found \<Rightarrow> Inr (Some (Inl found))
     | None \<Rightarrow> and_then (eth_sum EthInternal (fork_get_transaction_details h (ni_fork (node_of nd))))
         (\<lambda>r. Inr (map_option Inr r)))"

definition get_bytecode_by_hash_impl ::
  "h256 \<Rightarrow> ('l, 'f, 'p, 'b, 't, 'td) in_memory_node
     \<Rightarrow> (eth_error, bytes option) outcome \<times> ('l, 'f, 'p, 'b, 't, 'td) in_memory_node" where
  "get_bytecode_by_hash_impl h nd = (case node_load_factory_dep h nd of
       (Inl f, nd) \<Rightarrow> (eth_err (Inl f), nd)
     | (Inr (Some bytecode), nd) \<Rightarrow> (Inr (Some bytecode), nd)
     | (Inr None, nd) \<Rightarrow> (eth_sum EthInternal (fork_get_bytecode_by_hash h (ni_fork (node_of nd))), nd))"

definition get_base_token_l1_address_impl :: address where
  "get_base_token_l1_address_impl = 1"

section \<open>Proofs of logs\<close>

record l2_to_l1_log_proof =
  lp_proof :: "h256 list"
  lp_root :: h256
  lp_id :: u32

definition nth_option :: "'a list \<Rightarrow> nat \<Rightarrow> 'a option" where
  "nth_option xs i = (if i < length xs then Some (xs ! i) else None)"

definition proof_metadata :: "u8 \<Rightarrow> nat \<Rightarrow> h256" where
  "proof_metadata version len = of_nat (be_value ([version, of_nat len, 0, 1] @ replicate 28 0))"

definition get_l2_to_l1_log_proof_impl ::
  "('b, 't, 'dt) zks_api \<Rightarrow> h256 \<Rightarrow> nat option \<Rightarrow> ('l, 'f, 'p, 'b, 't, 'td) in_memory_node
     \<Rightarrow> (eth_error, l2_to_l1_log_proof option) outcome" where
  "get_l2_to_l1_log_proof_impl za h index nd =
     and_then (get_tx_receipt h (chain_of nd)) (\<lambda>receipt. case receipt of
       None \<Rightarrow> Inr None
     | Some tx_receipt \<Rightarrow>
         and_then (and_then (expect '''' (rcpt_l1_batch_number tx_receipt)) as_u32) (\<lambda>l1_batch_number.
         and_then (get_batch_header l1_batch_number (chain_of nd)) (\<lambda>batch. case batch of
           None \<Rightarrow> Inr None
         | Some l1_batch \<Rightarrow>
             let all_logs = hd_l2_to_l1_logs l1_batch
             in and_then (and_then (expect '''' (rcpt_l1_batch_tx_index tx_receipt)) as_u32) (\<lambda>tx_index.
                case nth_option (filter (\<lambda>(i, log). ul_tx_number_in_block log = ucast tx_index) (enumerate 0 all_logs))
                    (case_option 0 id index) of
                  None \<Rightarrow> Inr None
                | Some (l1_log_index, _) \<Rightarrow>
                    let (local_root, path) = za_merkle_root_and_path za (map (za_log_bytes za) all_logs)
                          (za_logs_tree_size za (ni_protocol_version (node_of nd))) l1_log_index
                    in and_then (get_batch_aggregation_root l1_batch_number (chain_of nd)) (\<lambda>agg. case agg of
                         None \<Rightarrow> Inr None
                       | Some aggregated_root \<Rightarrow>
                           let log_leaf_proof = path @ [aggregated_root]
                           in Inr (Some \<lparr>lp_proof = proof_metadata (za_log_proof_metadata_version za) (length log_leaf_proof)
                                  # log_leaf_proof,
                                lp_root = za_compress za local_root aggregated_root,
                                lp_id = of_nat l1_log_index\<rparr>))))))"

section \<open>Traces\<close>

fun submit_err :: "(string, 'a) outcome \<Rightarrow> (eth_error, 'a) outcome" where
  "submit_err (Inr a) = Inr a"
| "submit_err (Inl (Err e)) = Inl (Err (SubmitTransactionError e []))"
| "submit_err (Inl (Panic m)) = Inl (Panic m)"

definition trace_block_impl ::
  "block_id \<Rightarrow> bool option \<Rightarrow> ('l, 'f, 'p, 'b, 't, 'td) in_memory_node \<Rightarrow> (eth_error, debug_call list) outcome" where
  "trace_block_impl block_id only_top_call nd =
     (let only_top = (only_top_call = Some True)
      in and_then (get_block_tx_hashes_by_id block_id (chain_of nd)) (\<lambda>hs.
         and_then (ok_or (EthInternal ''Block not found'') hs)
           (collect_txs (\<lambda>h. get_tx_debug_info h only_top (chain_of nd)))))"

definition trace_call_impl ::
  "('h, 'v, 'f, 'p, 'b, 't, 'td) node_env \<Rightarrow> ('q, 'u, 's) eth_api \<Rightarrow> ('f, 'r) gas_api \<Rightarrow> ('b, 't, 'dt) zks_api \<Rightarrow> system_contracts
     \<Rightarrow> 'q eth_request \<Rightarrow> block_id option \<Rightarrow> bool option \<Rightarrow> ('l, 'f, 'p, 'b, 't, 'td) in_memory_node
     \<Rightarrow> (eth_error, debug_call) outcome option" where
  "trace_call_impl env ea ga za sc req block only_top_call nd =
     (if inner_locked nd then None
      else Some (let only_top = (only_top_call = Some True) in
        and_then (contracts_for_l2_call sc) (\<lambda>base_contracts.
        if block \<noteq> None \<and> block \<noteq> Some (BlockNumber Latest)
        then Inl (Err (EthInternal ''tracing only supported at `latest` block''))
        else and_then (eth_sum EthSerialization
            (ea_l2_from_request ea (ea_request_from ea req) MAX_TX_SIZE (allow_no_target sc))) (\<lambda>l2_tx.
          and_then (eth_err (create_l1_batch_env (en_chain env) (en_fee env) (node_of nd))) (\<lambda>(env1, _).
          and_then (as_u64 (tx_max_fee_per_gas l2_tx)) (\<lambda>base_fee.
          let batch_env = env1\<lparr>env_enforced_base_fee := Some base_fee\<rparr>;
              system_env = create_system_env (ga_batch_computational_gas_limit ga) base_contracts EthCall (node_of nd);
              tx = set_l2_gas_limit (call_gas_limit ea sc) (inject_signature l2_tx)
          in and_then (eth_err (ea_vm ea False batch_env system_env
                 (ov_new (ea_overrides ea) (node_reads (node_of nd))) tx)) (\<lambda>(tx_result, call_traces).
             submit_err (create_debug_output (za_contract_deployer_address za) tx tx_result
               (if only_top then [] else call_traces)))))))))"

definition trace_transaction_impl ::
  "h256 \<Rightarrow> bool option \<Rightarrow> ('l, 'f, 'p, 'b, 't, 'td) in_memory_node \<Rightarrow> (eth_error, debug_call option) outcome" where
  "trace_transaction_impl h only_top_call nd = get_tx_debug_info h (only_top_call = Some True) (chain_of nd)"

section \<open>A proof verifies\<close>

text \<open>The root a verifier computes from a leaf and its siblings, as the verifying contract does it.\<close>

fun climb :: "(h256 \<Rightarrow> h256 \<Rightarrow> h256) \<Rightarrow> nat \<Rightarrow> h256 \<Rightarrow> h256 list \<Rightarrow> h256" where
  "climb f i h [] = h"
| "climb f i h (s # p) = climb f (i div 2) (if even i then f h s else f s h) p"

definition merkle_laws :: "('b, 't, 'dt) zks_api \<Rightarrow> (bytes \<Rightarrow> h256) \<Rightarrow> bool" where
  "merkle_laws za leaf \<longleftrightarrow> (\<forall>leaves size i. i < length leaves \<longrightarrow> length leaves \<le> size \<longrightarrow>
     i < 2 ^ length (snd (za_merkle_root_and_path za leaves size i))
     \<and> climb (za_compress za) i (leaf (leaves ! i)) (snd (za_merkle_root_and_path za leaves size i))
        = fst (za_merkle_root_and_path za leaves size i))"

lemma climb_append: "climb f i h (p @ q) = climb f (i div 2 ^ length p) (climb f i h p) q"
  by (induction p arbitrary: i h) (simp_all add: div_mult2_eq)

lemma nth_enumerated:
  assumes "nth_option (filter (\<lambda>(i, x). P x) (enumerate n xs)) k = Some (i, x)"
  shows "n \<le> i \<and> i < n + length xs \<and> xs ! (i - n) = x \<and> P x \<and> length (filter P (take (i - n) xs)) = k"
  using assms
proof (induction xs arbitrary: n k)
  case (Cons y ys)
  show ?case
  proof (cases "P y \<and> k = 0")
    case True
    with Cons.prems show ?thesis by (simp add: nth_option_def)
  next
    case False
    define k' where "k' = (if P y then k - 1 else k)"
    have "nth_option (filter (\<lambda>(i, x). P x) (enumerate (Suc n) ys)) k' = Some (i, x)"
      using Cons.prems False by (auto simp: nth_option_def k'_def nth_Cons split: if_splits nat.splits)
    from Cons.IH [OF this] have "Suc n \<le> i" "i < n + length (y # ys)" "ys ! (i - Suc n) = x" "P x"
      "length (filter P (take (i - Suc n) ys)) = k'" by auto
    moreover from this have "i - n = Suc (i - Suc n)" by simp
    ultimately show ?thesis using False by (auto simp: k'_def)
  qed
qed (simp add: nth_option_def)

text \<open>C15: proofs of logs verify. The proof returned for a transaction's log is for that log, the asked-for one among the
  transaction's logs in its batch, and climbing from the log's leaf along the returned siblings gives the returned root: the
  aggregated root of the batch is one more sibling on the right.\<close>

theorem log_proof_verifies:
  assumes laws: "merkle_laws za leaf"
    and ok: "get_l2_to_l1_log_proof_impl za h index nd = Inr (Some pr)"
    and fits: "\<forall>n b. bc_batches (chain_of nd) n = Some b \<longrightarrow>
      length (hd_l2_to_l1_logs (sb_header b)) \<le> za_logs_tree_size za (ni_protocol_version (node_of nd))"
  shows "\<exists>res batch b tx_index i. map_of (bc_tx_results (chain_of nd)) h = Some res
    \<and> rcpt_l1_batch_number (res_receipt res) = Some batch \<and> bc_batches (chain_of nd) (ucast batch) = Some b
    \<and> rcpt_l1_batch_tx_index (res_receipt res) = Some tx_index
    \<and> i < length (hd_l2_to_l1_logs (sb_header b)) \<and> lp_id pr = of_nat i
    \<and> ul_tx_number_in_block (hd_l2_to_l1_logs (sb_header b) ! i) = ucast tx_index
    \<and> length (filter (\<lambda>log. ul_tx_number_in_block log = ucast tx_index) (take i (hd_l2_to_l1_logs (sb_header b))))
        = case_option 0 id index
    \<and> last (lp_proof pr) = sb_aggregation_root b
    \<and> climb (za_compress za) i (leaf (za_log_bytes za (hd_l2_to_l1_logs (sb_header b) ! i))) (tl (lp_proof pr)) = lp_root pr"
proof -
  let ?size = "za_logs_tree_size za (ni_protocol_version (node_of nd))"
  obtain res batch n b t tx_index i log where
    res: "map_of (bc_tx_results (chain_of nd)) h = Some res" "rcpt_l1_batch_number (res_receipt res) = Some batch"
    and n: "as_u32 batch = (Inr n :: (eth_error, u32) outcome)" "bc_batches (chain_of nd) n = Some b"
    and t: "rcpt_l1_batch_tx_index (res_receipt res) = Some t" "as_u32 t = (Inr tx_index :: (eth_error, u32) outcome)"
    and i: "nth_option (filter (\<lambda>(i, log). ul_tx_number_in_block log = ucast tx_index)
          (enumerate 0 (hd_l2_to_l1_logs (sb_header b)))) (case_option 0 id index) = Some (i, log)"
    and pr: "pr = (let (root, path) = za_merkle_root_and_path za (map (za_log_bytes za) (hd_l2_to_l1_logs (sb_header b))) ?size i
          in \<lparr>lp_proof = proof_metadata (za_log_proof_metadata_version za) (length (path @ [sb_aggregation_root b]))
                # path @ [sb_aggregation_root b],
              lp_root = za_compress za root (sb_aggregation_root b), lp_id = of_nat i\<rparr>)"
    using ok
    by (auto simp: get_l2_to_l1_log_proof_impl_def get_tx_receipt_def inspect_tx_def inspect_def get_batch_header_def
        inspect_batch_def get_batch_aggregation_root_def Let_def case_prod_unfold split: option.splits)
  let ?logs = "hd_l2_to_l1_logs (sb_header b)"
  obtain root path where m: "za_merkle_root_and_path za (map (za_log_bytes za) ?logs) ?size i = (root, path)" by force
  from nth_enumerated [OF i] have log: "i < length ?logs" "ul_tx_number_in_block (?logs ! i) = ucast tx_index"
    "length (filter (\<lambda>log. ul_tx_number_in_block log = ucast tx_index) (take i ?logs)) = case_option 0 id index" by auto
  have "i < 2 ^ length path" "climb (za_compress za) i (leaf (za_log_bytes za (?logs ! i))) path = root"
    using laws fits n(2) log(1) m unfolding merkle_laws_def
    by (metis fst_conv length_map nth_map snd_conv)+
  then have "climb (za_compress za) i (leaf (za_log_bytes za (?logs ! i))) (path @ [sb_aggregation_root b]) = lp_root pr"
    by (simp add: climb_append pr m)
  moreover have "(ucast (ucast t :: u32) :: u16) = ucast t"
    by (rule bit_word_eqI) (auto simp: bit_ucast_iff)
  then have "n = ucast batch" "ucast tx_index = (ucast t :: u16)"
    using n(1) t(2) by (auto simp: as_u32_def split: if_splits)
  ultimately show ?thesis
    using res n(2) t(1) log
    by (intro exI [of _ res] exI [of _ batch] exI [of _ b] exI [of _ t] exI [of _ i]) (simp add: pr m)
qed

section \<open>Balances and transactions of a block\<close>

definition held :: "reads \<Rightarrow> storage_key \<Rightarrow> u256 option" where
  "held reads k = (case reads k of Inr v \<Rightarrow> if v = 0 then None else Some v | Inl f \<Rightarrow> None)"

lemma token_balances_spec:
  assumes "\<forall>k. is_ok (reads k)" and "node_reads (node_of nd) = reads"
  shows "fst (token_balances za a tokens balances nd) = Inr (balances ++ (\<lambda>t.
      if t \<in> za_token_l2_address za ` set tokens then held reads (za_token_balance_key za t a) else None))"
  using assms(2)
proof (induction tokens arbitrary: balances nd)
  case (Cons token tokens)
  let ?t = "za_token_l2_address za token"
  obtain r nd1 where r: "node_read_value (za_token_balance_key za ?t a) nd = (r, nd1)" by force
  note keeps = node_read_value_keeps [OF r]
  obtain v where v: "r = Inr v" using Cons.prems assms(1) keeps(1) by (auto simp: is_ok_iff)
  then have "held reads (za_token_balance_key za ?t a) = (if v = 0 then None else Some v)"
    using keeps(1) Cons.prems by (simp add: held_def)
  then show ?case
    using Cons.IH [of nd1] Cons.prems keeps(2)
    by (auto simp: r v map_add_def fun_eq_iff split: option.split)
qed (auto simp: map_add_def)

lemma node_fork_reads:
  assumes "node_fork f nd = (r, nd')" and "\<forall>s. fork_as_source (snd (f s)) = fork_as_source s"
  shows "node_reads (node_of nd') = node_reads (node_of nd)"
  using assms by (auto simp: node_fork_def split: prod.splits) (metis snd_conv)

lemma confirmed_tokens_source: "fork_as_source (snd (fork_get_confirmed_tokens n l s)) = fork_as_source s"
  by (simp add: fork_get_confirmed_tokens_def fork_as_source_def fork_get_storage_at_forked_def fork_get_storage_at_def
      fork_get_bytecode_by_hash_def make_call_def split: option.split sum.split)

text \<open>The balances of an account are its non-zero balances of the confirmed tokens, and nothing else: of the fork's
  tokens, or of the base token alone on a node without a fork.\<close>

theorem all_account_balances:
  assumes reads: "\<forall>k. is_ok (node_reads (node_of nd) k)"
    and tokens: "fst (fork_get_confirmed_tokens 0 100 (ni_fork (node_of nd))) = Inr ts"
  shows "fst (get_all_account_balances_impl za a nd) = Inr (\<lambda>t.
    if t \<in> za_token_l2_address za ` set (case_option [za_ether_token za] id ts)
    then held (node_reads (node_of nd)) (za_token_balance_key za t a) else None)"
proof -
  obtain r nd' where f: "node_fork (fork_get_confirmed_tokens 0 100) nd = (r, nd')" by force
  then have r: "r = Inr ts"
    using tokens by (auto simp: node_fork_def split: prod.splits)
  have "node_reads (node_of nd') = node_reads (node_of nd)"
    by (rule node_fork_reads [OF f]) (simp add: confirmed_tokens_source)
  with token_balances_spec [OF reads, of nd' za a "case_option [za_ether_token za] id ts" Map.empty] show ?thesis
    by (simp add: get_all_account_balances_impl_def get_confirmed_tokens_impl_def f r)
qed

lemma collect_txs_spec:
  "(\<forall>h\<in>set hs. \<exists>a. lookup h = Inr (Some a)) \<Longrightarrow> collect_txs lookup hs = Inr (map (\<lambda>h. case lookup h of Inr (Some a) \<Rightarrow> a) hs)"
  by (induction hs) auto

lemma collect_txs_missing:
  assumes "\<forall>h\<in>set hs. \<exists>t. lookup h = Inr t" and "h \<in> set hs" and "lookup h = Inr None"
  shows "collect_txs lookup hs = Inl (Err (EthInternal missing_tx))"
  using assms
proof (induction hs)
  case (Cons g hs)
  obtain t where "lookup g = Inr t" using Cons.prems by auto
  with Cons show ?case by (cases t) (auto simp: and_then_Inl_iff)
qed simp

text \<open>The raw transactions and the traces of a block. When every transaction of a local block has its result, both are
  in the order of the block, one per transaction, and \<open>only_top_call\<close> drops exactly the inner calls; one missing result is
  an error of the whole request.\<close>

theorem block_transactions_and_traces:
  assumes block: "get_block_by_id (BlockNumber (Number (ucast n))) (chain_of nd) = (Inr (Some b) :: (eth_error, _) outcome)"
  shows "((\<forall>t\<in>set (blk_transactions b). map_of (bc_tx_results (chain_of nd)) (variant_hash t) \<noteq> None) \<longrightarrow>
      fst (get_raw_block_transactions_impl n nd)
        = Inr (map (\<lambda>t. info_tx (res_info (the (map_of (bc_tx_results (chain_of nd)) (variant_hash t))))) (blk_transactions b))
    \<and> trace_block_impl (BlockNumber (Number (ucast n))) ot nd
        = Inr (map (\<lambda>t. debug_info (ot = Some True) (the (map_of (bc_tx_results (chain_of nd)) (variant_hash t)))) (blk_transactions b)))
    \<and> ((\<exists>t\<in>set (blk_transactions b). map_of (bc_tx_results (chain_of nd)) (variant_hash t) = None) \<longrightarrow>
      fst (get_raw_block_transactions_impl n nd) = Inl (Err (EthInternal missing_tx))
    \<and> trace_block_impl (BlockNumber (Number (ucast n))) ot nd = Inl (Err (EthInternal missing_tx)))"
proof -
  have hs: "get_block_tx_hashes_by_id (BlockNumber (Number (ucast n))) (chain_of nd)
      = (Inr (Some (map variant_hash (blk_transactions b))) :: (eth_error, _) outcome)"
  proof -
    obtain h where "state_get_block_hash_by_id (BlockNumber (Number (ucast n))) (chain_of nd) = (Inr (Some h) :: (eth_error, _) outcome)"
      "map_of (bc_blocks (chain_of nd)) h = Some b"
      using block unfolding get_block_by_id_def inspect_block_by_id_def inspect_def
      by (cases "state_get_block_hash_by_id (BlockNumber (Number (ucast n))) (chain_of nd) :: (eth_error, _) outcome")
        (auto split: option.splits)
    then show ?thesis by (simp add: get_block_tx_hashes_by_id_def inspect_block_by_id_def inspect_def)
  qed
  note defs = get_raw_block_transactions_impl_def trace_block_impl_def get_block_tx_hashes_by_number_def hs
    get_zksync_tx_def get_tx_debug_info_def inspect_tx_def inspect_def
  show ?thesis
  proof (intro conjI impI)
    assume all: "\<forall>t\<in>set (blk_transactions b). map_of (bc_tx_results (chain_of nd)) (variant_hash t) \<noteq> None"
    show "fst (get_raw_block_transactions_impl n nd)
        = Inr (map (\<lambda>t. info_tx (res_info (the (map_of (bc_tx_results (chain_of nd)) (variant_hash t))))) (blk_transactions b))"
      using all by (simp add: defs) (subst collect_txs_spec, auto)
    show "trace_block_impl (BlockNumber (Number (ucast n))) ot nd
        = Inr (map (\<lambda>t. debug_info (ot = Some True) (the (map_of (bc_tx_results (chain_of nd)) (variant_hash t)))) (blk_transactions b))"
      using all by (simp add: defs) (subst collect_txs_spec, auto)
  next
    assume "\<exists>t\<in>set (blk_transactions b). map_of (bc_tx_results (chain_of nd)) (variant_hash t) = None"
    then obtain t where t: "t \<in> set (blk_transactions b)" "map_of (bc_tx_results (chain_of nd)) (variant_hash t) = None" by blast
    show "fst (get_raw_block_transactions_impl n nd) = Inl (Err (EthInternal missing_tx))"
      using t by (simp add: defs) (rule collect_txs_missing [of _ _ "variant_hash t"], auto split: option.split)
    show "trace_block_impl (BlockNumber (Number (ucast n))) ot nd = Inl (Err (EthInternal missing_tx))"
      using t by (simp add: defs) (rule collect_txs_missing [of _ _ "variant_hash t"], auto split: option.split)
  qed
qed

section \<open>Concrete runs\<close>

definition sample_leaf :: "bytes \<Rightarrow> h256" where
  "sample_leaf b = of_nat (length b)"

definition sample_root :: "bytes list \<Rightarrow> h256" where
  "sample_root leaves = foldr (\<lambda>b acc. sample_leaf b + 31 * acc) leaves 0"

text \<open>A tree whose inner nodes add their children: the sibling on the path is the difference to the root.\<close>

definition sample_zks_api :: "(unit, unit, nat) zks_api" where
  "sample_zks_api = \<lparr>za_bridge_default = (), za_ether_token = (), za_token_l2_address = (\<lambda>_. 0x800a),
     za_token_balance_key = (\<lambda>t a. \<lparr>sk_address = t, sk_key = ucast a\<rparr>), za_from_timestamp = (\<lambda>s n. Some (nat s)),
     za_log_bytes = (\<lambda>log. replicate (unat (ul_shard_id log)) 1), za_logs_tree_size = (\<lambda>v. 16384),
     za_merkle_root_and_path = (\<lambda>leaves size i. (sample_root leaves, (sample_root leaves - sample_leaf (leaves ! i)) # replicate i 0)),
     za_compress = (+), za_log_proof_metadata_version = 1, za_contract_deployer_address = 0x8006\<rparr>"

lemma climb_sum: "climb (+) i h p = h + sum_list p"
  by (induction p arbitrary: i h) (simp_all add: algebra_simps)

lemma sample_merkle: "merkle_laws sample_zks_api sample_leaf"
proof -
  have "i < 2 * 2 ^ i" for i :: nat using less_exp [of i] by linarith
  then show ?thesis by (auto simp: merkle_laws_def sample_zks_api_def climb_sum sum_list_replicate)
qed

definition sample_user_log :: "u16 \<Rightarrow> u8 \<Rightarrow> user_l2_to_l1_log" where
  "sample_user_log n i = \<lparr>ul_shard_id = i, ul_is_service = False, ul_tx_number_in_block = n, ul_sender = 0, ul_key = 0, ul_value = 0\<rparr>"

definition sample_chain_node :: "(unit, nat, u64 \<times> u64, unit, unit, unit) in_memory_node" where
  "sample_chain_node = set_node_of ((sample_node None)\<lparr>ni_blockchain := (ni_blockchain (sample_node None))
     \<lparr>bc_hashes := [0 \<mapsto> 5], bc_blocks := [(5, (sample_block 5)\<lparr>blk_transactions := [Hash 9]\<rparr>)],
      bc_tx_results := [(9, (sample_result 9)\<lparr>res_receipt := (res_receipt (sample_result 9))
        \<lparr>rcpt_l1_batch_number := Some 1, rcpt_l1_batch_tx_index := Some 0\<rparr>\<rparr>)],
      bc_batches := [1 \<mapsto> \<lparr>sb_header = (l1_batch_header_new 1 0 base_system_contracts_hashes_default 26)
        \<lparr>hd_l2_to_l1_logs := [sample_user_log 3 1, sample_user_log 0 2, sample_user_log 0 3]\<rparr>,
        sb_state_diffs = [], sb_aggregation_root = 77\<rparr>]\<rparr>\<rparr>) sample_in_memory_node"

theorem log_proof_verifies_witness:
  "\<exists>pr. get_l2_to_l1_log_proof_impl sample_zks_api 9 (Some 1) sample_chain_node = Inr (Some pr)
     \<and> lp_id pr = 2 \<and> last (lp_proof pr) = 77"
proof -
  obtain pr where pr: "get_l2_to_l1_log_proof_impl sample_zks_api 9 (Some 1) sample_chain_node = Inr (Some pr)" "lp_id pr = 2"
    by (simp add: get_l2_to_l1_log_proof_impl_def sample_chain_node_def get_tx_receipt_def inspect_tx_def inspect_def
        get_batch_header_def inspect_batch_def get_batch_aggregation_root_def as_u32_def sample_zks_api_def sample_user_log_def
        nth_option_def)
  have "\<forall>n b. bc_batches (chain_of sample_chain_node) n = Some b \<longrightarrow>
      length (hd_l2_to_l1_logs (sb_header b)) \<le> za_logs_tree_size sample_zks_api (ni_protocol_version (node_of sample_chain_node))"
    by (auto simp: sample_chain_node_def sample_zks_api_def split: if_splits)
  from log_proof_verifies [OF sample_merkle pr(1) this] pr show ?thesis
    by (auto simp: sample_chain_node_def split: if_splits)
qed

theorem all_account_balances_witness:
  "fst (get_all_account_balances_impl sample_zks_api 10 sample_in_memory_node) = Inr (\<lambda>t. None)"
proof -
  have "fst (fork_get_confirmed_tokens 0 100 (ni_fork (node_of sample_in_memory_node))) = Inr None"
    by (simp add: sample_serving sample_defs fork_get_confirmed_tokens_def get_confirmed_tokens_def make_call_def cache_new_def
        cache_default_def Let_def split_def)
  from all_account_balances [OF _ this, of sample_zks_api 10] show ?thesis
    by (auto simp: sample_serving sample_node_read sample_zks_api_def held_def fun_eq_iff)
qed

theorem block_transactions_and_traces_witness:
  "fst (get_raw_block_transactions_impl 0 sample_chain_node) = Inr [sample_tx 9 10 5]"
proof -
  have "get_block_by_id (BlockNumber (Number (ucast (0 :: u32)))) (chain_of sample_chain_node)
      = (Inr (Some ((sample_block 5)\<lparr>blk_transactions := [Hash 9]\<rparr>)) :: (eth_error, _) outcome)"
    by (simp add: sample_chain_node_def get_block_by_id_def inspect_block_by_id_def state_get_block_hash_by_id_def inspect_def
        as_u32_def)
  from block_transactions_and_traces [OF this, of None] show ?thesis
    by (simp add: sample_chain_node_def sample_result_def)
qed

end
