(* ===== verification/Trace_Values.thy ===== *)
theory Trace_Values
  imports Vm_Output
begin

text \<open>
  The values shown in call traces and their text: \<open>crates/types/src/numbers.rs\<close>, the value types of
  \<open>crates/types/src/traces.rs\<close>, \<open>crates/common/src/utils/format.rs\<close> and \<open>crates/traces/src/format\<close>.

  Text is the list of its UTF-8 bytes. What other crates contribute to the text (the Unicode tables behind
  \<open>escape_debug\<close>, terminal colours, abbreviated hashes, the debug form of a halt) is in the record \<open>text_api\<close>.
  Taking more bytes of a fixed-size value than it has panics, so formatting returns an outcome.
\<close>

section \<open>Text\<close>

datatype ansi_color = Green | Red | Yellow | Cyan

datatype halt_reason = VmHalt string | TracerCustom string

record text_api =
  tx_escape_debug :: "string \<Rightarrow> string"
  tx_debug_string :: "string \<Rightarrow> string"
  tx_dimmed :: "string \<Rightarrow> string"
  tx_style_on :: "ansi_color \<Rightarrow> string"
  tx_style_off :: "ansi_color \<Rightarrow> string"
  tx_h256_debug :: "h256 \<Rightarrow> string"
  tx_h256_display :: "h256 \<Rightarrow> string"
  tx_halt_debug :: "halt_reason \<Rightarrow> string"
  tx_user_friendly :: "revert_output \<Rightarrow> string"

definition hex_char :: "nat \<Rightarrow> char" where
  "hex_char d = (if d < 10 then digit d else char_of (87 + d))"

definition hex_encode :: "bytes \<Rightarrow> string" where
  "hex_encode bs = concat (map (\<lambda>b. [hex_char (unat b div 16), hex_char (unat b mod 16)]) bs)"

fun big_endian :: "nat \<Rightarrow> nat \<Rightarrow> bytes" where
  "big_endian 0 n = []"
| "big_endian (Suc k) n = big_endian k (n div 256) @ [of_nat (n mod 256)]"

definition address_hex :: "address \<Rightarrow> string" where
  "address_hex a = hex_encode (big_endian 20 (unat a))"

definition text_of_bytes :: "bytes \<Rightarrow> string" where
  "text_of_bytes bs = map (\<lambda>b. char_of (unat b)) bs"

fun joined :: "string \<Rightarrow> string list \<Rightarrow> string" where
  "joined sep [] = []"
| "joined sep [s] = s"
| "joined sep (s # t # ss) = s @ sep @ joined sep (t # ss)"

text \<open>Well-formed UTF-8, as \<open>std::str::from_utf8\<close> accepts it.\<close>

definition between :: "nat \<Rightarrow> nat \<Rightarrow> u8 \<Rightarrow> bool" where
  "between lo hi b \<longleftrightarrow> lo \<le> unat b \<and> unat b \<le> hi"

abbreviation continuation :: "u8 \<Rightarrow> bool" where
  "continuation \<equiv> between 128 191"

definition utf8_pair :: "u8 \<Rightarrow> u8 \<Rightarrow> bool" where
  "utf8_pair a b \<longleftrightarrow> between 194 223 a \<and> continuation b"

definition utf8_triple :: "u8 \<Rightarrow> u8 \<Rightarrow> u8 \<Rightarrow> bool" where
  "utf8_triple a b c \<longleftrightarrow> continuation c \<and>
     (unat a = 224 \<and> between 160 191 b \<or> between 225 236 a \<and> continuation b
      \<or> unat a = 237 \<and> between 128 159 b \<or> between 238 239 a \<and> continuation b)"

definition utf8_quad :: "u8 \<Rightarrow> u8 \<Rightarrow> u8 \<Rightarrow> u8 \<Rightarrow> bool" where
  "utf8_quad a b c d \<longleftrightarrow> continuation c \<and> continuation d \<and>
     (unat a = 240 \<and> between 144 191 b \<or> between 241 243 a \<and> continuation b \<or> unat a = 244 \<and> between 128 143 b)"

fun utf8_valid :: "bytes \<Rightarrow> bool" where
  "utf8_valid [] = True"
| "utf8_valid [a] = (unat a < 128)"
| "utf8_valid [a, b] = (if unat a < 128 then utf8_valid [b] else utf8_pair a b)"
| "utf8_valid [a, b, c] =
     (if unat a < 128 then utf8_valid [b, c] else if utf8_pair a b then utf8_valid [c] else utf8_triple a b c)"
| "utf8_valid (a # b # c # d # bs) =
     (if unat a < 128 then utf8_valid (b # c # d # bs)
      else if utf8_pair a b then utf8_valid (c # d # bs)
      else if utf8_triple a b c then utf8_valid (d # bs)
      else utf8_quad a b c d \<and> utf8_valid bs)"

definition is_ascii :: "bytes \<Rightarrow> bool" where
  "is_ascii bs = list_all (\<lambda>b. unat b < 128) bs"

definition ellipsis :: string where
  "ellipsis = [char_of (226 :: nat), char_of (128 :: nat), char_of (166 :: nat)]"

definition trimmed_hex :: "bytes \<Rightarrow> string" where
  "trimmed_hex s = (let n = 32 in
     if length s \<le> n then hex_encode s
     else hex_encode (take (n div 2) s) @ ellipsis @ hex_encode (drop (length s - n div 2) s)
       @ '' ('' @ decimal (length s) @ '' bytes)'')"

section \<open>Signed numbers\<close>

datatype sign = NonNegative | Negative

fun sign_fmt :: "sign \<Rightarrow> string" where
  "sign_fmt NonNegative = ''+''"
| "sign_fmt Negative = ''-''"

record signed_u256 =
  su_sign :: sign
  su_inner :: u256

definition signed_u256_fmt :: "signed_u256 \<Rightarrow> string" where
  "signed_u256_fmt v = (if su_sign v = Negative then ''-'' else []) @ decimal (unat (su_inner v))"

definition signed_u256_from :: "u256 \<Rightarrow> signed_u256" where
  "signed_u256_from v = \<lparr>su_sign = NonNegative, su_inner = v\<rparr>"

record number_exponential_repr =
  ne_value :: signed_u256
  ne_mantissa :: string
  ne_exponent :: nat

definition trim_end_zeros :: "string \<Rightarrow> string" where
  "trim_end_zeros s = rev (dropWhile (\<lambda>c. c = CHR ''0'') (rev s))"

definition to_exp_notation :: "signed_u256 \<Rightarrow> nat \<Rightarrow> bool \<Rightarrow> number_exponential_repr" where
  "to_exp_notation v precision trim =
     (let stringified = decimal (unat (su_inner v));
          exponent = length stringified - 1;
          mantissa = take precision stringified;
          mantissa = (if trim then trim_end_zeros mantissa else mantissa);
          mantissa = (if length mantissa > 1 then take 1 mantissa @ ''.'' @ drop 1 mantissa else mantissa)
      in \<lparr>ne_value = v, ne_mantissa = mantissa, ne_exponent = exponent\<rparr>)"

definition exponential_repr_from :: "signed_u256 \<Rightarrow> number_exponential_repr" where
  "exponential_repr_from v = to_exp_notation v 4 True"

definition exponential_repr_fmt :: "number_exponential_repr \<Rightarrow> string" where
  "exponential_repr_fmt r =
     (if su_sign (ne_value r) = Negative then ''-'' else []) @ ne_mantissa r @ ''e'' @ decimal (ne_exponent r)"

definition pretty_number_fmt :: "text_api \<Rightarrow> number_exponential_repr \<Rightarrow> string" where
  "pretty_number_fmt tx r =
     (if su_inner (ne_value r) = 0 then ''0''
      else signed_u256_fmt (ne_value r)
        @ (if su_inner (ne_value r) > 10000
           then '' '' @ tx_dimmed tx (''['' @ exponential_repr_fmt r @ '']'') else []))"

section \<open>Decoded values\<close>

record labeled_address =
  la_label :: "string option"
  la_address :: address

datatype decoded_value =
    DecBool bool
  | DecInt signed_u256
  | DecUint u256
  | DecFixedBytes bytes nat
  | DecAddress labeled_address
  | DecFunction bytes
  | DecBytes bytes
  | DecString string
  | DecArray "decoded_value list"
  | DecFixedArray "decoded_value list"
  | DecTuple "decoded_value list"
  | DecCustomStruct string "string list" "decoded_value list"

definition labeled_address_fmt :: "labeled_address \<Rightarrow> string" where
  "labeled_address_fmt a =
     (case la_label a of Some label \<Rightarrow> label @ '': '' | None \<Rightarrow> []) @ ''[0x'' @ address_hex (la_address a) @ '']''"

definition slice_to :: "nat \<Rightarrow> 'a list \<Rightarrow> ('e, 'a list) outcome" where
  "slice_to n xs = (if n \<le> length xs then Inr (take n xs) else Inl (Panic ''range end index out of range''))"

fun decoded_value_fmt :: "text_api \<Rightarrow> decoded_value \<Rightarrow> ('e, string) outcome"
  and decoded_values_fmt :: "text_api \<Rightarrow> decoded_value list \<Rightarrow> ('e, string list) outcome" where
  "decoded_value_fmt tx (DecBool b) = Inr (if b then ''true'' else ''false'')"
| "decoded_value_fmt tx (DecInt v) = Inr (signed_u256_fmt v)"
| "decoded_value_fmt tx (DecUint v) = Inr (decimal (unat v))"
| "decoded_value_fmt tx (DecFixedBytes word sz) = and_then (slice_to sz word) (\<lambda>bs. Inr (''0x'' @ hex_encode bs))"
| "decoded_value_fmt tx (DecAddress a) = Inr (labeled_address_fmt a)"
| "decoded_value_fmt tx (DecFunction bs) = Inr (''0x'' @ hex_encode bs)"
| "decoded_value_fmt tx (DecBytes bs) = Inr (''0x'' @ hex_encode bs)"
| "decoded_value_fmt tx (DecString s) = Inr (tx_escape_debug tx s)"
| "decoded_value_fmt tx (DecArray vs) =
     and_then (decoded_values_fmt tx vs) (\<lambda>ss. Inr (''['' @ joined '', '' ss @ '']''))"
| "decoded_value_fmt tx (DecFixedArray vs) =
     and_then (decoded_values_fmt tx vs) (\<lambda>ss. Inr (''['' @ joined '', '' ss @ '']''))"
| "decoded_value_fmt tx (DecTuple vs) =
     and_then (decoded_values_fmt tx vs) (\<lambda>ss. Inr (''('' @ joined '', '' ss @ '')''))"
| "decoded_value_fmt tx (DecCustomStruct name prop_names vs) =
     and_then (decoded_values_fmt tx vs) (\<lambda>ss. Inr (''('' @ joined '', '' ss @ '')''))"
| "decoded_values_fmt tx [] = Inr []"
| "decoded_values_fmt tx (v # vs) =
     and_then (decoded_value_fmt tx v) (\<lambda>s. and_then (decoded_values_fmt tx vs) (\<lambda>ss. Inr (s # ss)))"

definition as_bytes :: "decoded_value \<Rightarrow> bytes option" where
  "as_bytes v = (case v of DecBytes bs \<Rightarrow> Some bs | _ \<Rightarrow> None)"

fun pretty_decoded_value_fmt :: "text_api \<Rightarrow> decoded_value \<Rightarrow> ('e, string) outcome"
  and pretty_decoded_values_fmt :: "text_api \<Rightarrow> decoded_value list \<Rightarrow> ('e, string list) outcome" where
  "pretty_decoded_value_fmt tx (DecInt v) = Inr (pretty_number_fmt tx (exponential_repr_from v))"
| "pretty_decoded_value_fmt tx (DecUint v) = Inr (pretty_number_fmt tx (exponential_repr_from (signed_u256_from v)))"
| "pretty_decoded_value_fmt tx (DecString s) = Inr (tx_debug_string tx s)"
| "pretty_decoded_value_fmt tx (DecCustomStruct name prop_names vs) =
     and_then (pretty_decoded_values_fmt tx vs) (\<lambda>ss.
       Inr (name @ (if length prop_names = length vs
         then ''({ '' @ joined '', '' (map (\<lambda>(p, s). p @ '': '' @ s) (zip prop_names ss)) @ '' })''
         else joined '','' ss)))"
| "pretty_decoded_value_fmt tx (DecArray vs) =
     and_then (pretty_decoded_values_fmt tx vs) (\<lambda>ss. Inr (''['' @ joined '', '' ss @ '']''))"
| "pretty_decoded_value_fmt tx (DecFixedArray vs) =
     and_then (pretty_decoded_values_fmt tx vs) (\<lambda>ss. Inr (''['' @ joined '', '' ss @ '']''))"
| "pretty_decoded_value_fmt tx (DecTuple vs) =
     and_then (pretty_decoded_values_fmt tx vs) (\<lambda>ss. Inr (''('' @ joined '', '' ss @ '')''))"
| "pretty_decoded_value_fmt tx (DecBool b) = decoded_value_fmt tx (DecBool b)"
| "pretty_decoded_value_fmt tx (DecFixedBytes word sz) = decoded_value_fmt tx (DecFixedBytes word sz)"
| "pretty_decoded_value_fmt tx (DecAddress a) = decoded_value_fmt tx (DecAddress a)"
| "pretty_decoded_value_fmt tx (DecFunction bs) = decoded_value_fmt tx (DecFunction bs)"
| "pretty_decoded_value_fmt tx (DecBytes bs) = decoded_value_fmt tx (DecBytes bs)"
| "pretty_decoded_values_fmt tx [] = Inr []"
| "pretty_decoded_values_fmt tx (v # vs) =
     and_then (pretty_decoded_value_fmt tx v) (\<lambda>s. and_then (pretty_decoded_values_fmt tx vs) (\<lambda>ss. Inr (s # ss)))"

section \<open>Decoded errors and return data\<close>

datatype decoded_error =
    DeEmpty
  | DeCustomError string "decoded_value list"
  | DeGenericCustomError bytes bytes
  | DeRevert string
  | DePanic string
  | DeRaw bytes
  | DeString string

datatype decoded_revert_data = RevertValue decoded_value | RevertError decoded_error

datatype decoded_return_data = NormalReturn "decoded_value list" | ReturnRevert decoded_revert_data

definition decoded_error_fmt :: "text_api \<Rightarrow> decoded_error \<Rightarrow> ('e, string) outcome" where
  "decoded_error_fmt tx e = (case e of
       DeEmpty \<Rightarrow> Inr []
     | DeCustomError name vs \<Rightarrow>
         and_then (decoded_values_fmt tx vs) (\<lambda>ss. Inr (name @ ''('' @ joined '', '' ss @ '')''))
     | DeGenericCustomError selector raw \<Rightarrow>
         Inr (''custom error with function selector 0x'' @ hex_encode selector
           @ (if raw = [] then []
              else '': '' @ (if utf8_valid raw then text_of_bytes raw else hex_encode raw)))
     | DeRevert message \<Rightarrow> Inr message
     | DePanic message \<Rightarrow> Inr message
     | DeRaw data \<Rightarrow> Inr (if data = [] then ''<empty revert data>'' else trimmed_hex data)
     | DeString message \<Rightarrow> Inr message)"

definition decoded_revert_data_fmt :: "text_api \<Rightarrow> decoded_revert_data \<Rightarrow> ('e, string) outcome" where
  "decoded_revert_data_fmt tx d = (case d of
       RevertValue v \<Rightarrow> decoded_value_fmt tx v
     | RevertError e \<Rightarrow> decoded_error_fmt tx e)"

definition decoded_return_data_fmt :: "text_api \<Rightarrow> decoded_return_data \<Rightarrow> ('e, string) outcome" where
  "decoded_return_data_fmt tx d = (case d of
       NormalReturn vs \<Rightarrow> and_then (decoded_values_fmt tx vs) (\<lambda>ss. Inr (joined '', '' ss))
     | ReturnRevert r \<Rightarrow> decoded_revert_data_fmt tx r)"

record decoded_call_data =
  dc_signature :: string
  dc_args :: "decoded_value list"

record decoded_call_trace =
  dt_label :: "string option"
  dt_return_data :: decoded_return_data
  dt_call_data :: "decoded_call_data option"

definition decoded_call_trace_default :: decoded_call_trace where
  "decoded_call_trace_default = \<lparr>dt_label = None, dt_return_data = NormalReturn [], dt_call_data = None\<rparr>"

record decoded_call_event =
  de_name :: "string option"
  de_params :: "(string \<times> decoded_value) list option"

definition decoded_call_event_default :: decoded_call_event where
  "decoded_call_event_default = \<lparr>de_name = None, de_params = None\<rparr>"

section \<open>Log data\<close>

record log_data =
  ld_topics :: "h256 list"
  ld_data :: bytes

definition log_data_is_valid :: "log_data \<Rightarrow> bool" where
  "log_data_is_valid l \<longleftrightarrow> length (ld_topics l) \<le> 4"

definition log_data_new_unchecked :: "h256 list \<Rightarrow> bytes \<Rightarrow> log_data" where
  "log_data_new_unchecked topics data = \<lparr>ld_topics = topics, ld_data = data\<rparr>"

definition log_data_new :: "h256 list \<Rightarrow> bytes \<Rightarrow> log_data option" where
  "log_data_new topics data =
     (let this = log_data_new_unchecked topics data in if log_data_is_valid this then Some this else None)"

definition log_data_empty :: log_data where
  "log_data_empty = \<lparr>ld_topics = [], ld_data = []\<rparr>"

definition set_topics_unchecked :: "h256 list \<Rightarrow> log_data \<Rightarrow> log_data" where
  "set_topics_unchecked topics l = l\<lparr>ld_topics := topics\<rparr>"

definition set_topics_truncating :: "h256 list \<Rightarrow> log_data \<Rightarrow> log_data" where
  "set_topics_truncating topics l = set_topics_unchecked (take 4 topics) l"

definition log_data_split :: "log_data \<Rightarrow> h256 list \<times> bytes" where
  "log_data_split l = (ld_topics l, ld_data l)"

lemma log_data_valid:
  "log_data_new topics data = Some l \<Longrightarrow> log_data_is_valid l \<and> log_data_split l = (topics, data)"
  "log_data_is_valid (set_topics_truncating topics l)" "log_data_is_valid log_data_empty"
  by (auto simp: log_data_new_def log_data_new_unchecked_def log_data_is_valid_def log_data_split_def Let_def
      set_topics_truncating_def set_topics_unchecked_def log_data_empty_def split: if_splits)

section \<open>Lemmas: exponential notation\<close>

fun digits_value :: "string \<Rightarrow> nat" where
  "digits_value s = foldl (\<lambda>n c. 10 * n + (of_char c - 48)) 0 s"

lemma digits_value_snoc: "digits_value (s @ [c]) = 10 * digits_value s + (of_char c - 48)"
  by simp

lemma of_char_digit: "d < 10 \<Longrightarrow> (of_char (digit d) :: nat) = 48 + d"
  by (simp add: digit_def)

declare digits_value.simps [simp del]

lemma digits_value_decimal [simp]: "digits_value (decimal n) = n"
proof (induction n rule: decimal.induct)
  case (1 n)
  show ?case
  proof (cases "n < 10")
    case True
    then show ?thesis
      by (simp add: decimal.simps [of n] digits_value_snoc [of "[]", simplified] of_char_digit) (simp add: digits_value.simps)
  next
    case False
    then show ?thesis
      using 1 by (simp add: decimal.simps [of n] digits_value_snoc of_char_digit)
  qed
qed

lemma decimal_take:
  "0 < k \<Longrightarrow> k \<le> length (decimal n) \<Longrightarrow> digits_value (take k (decimal n)) = n div 10 ^ (length (decimal n) - k)"
proof (induction n arbitrary: k rule: decimal.induct)
  case (1 n)
  show ?case
  proof (cases "k = length (decimal n)")
    case False
    then have n: "\<not> n < 10" using 1(2,3) by (auto simp: decimal.simps [of n] split: if_splits)
    then have len: "length (decimal n) = Suc (length (decimal (n div 10)))" by (simp add: decimal.simps [of n])
    with False 1(3) have k: "k \<le> length (decimal (n div 10))" by simp
    then have "take k (decimal n) = take k (decimal (n div 10))" using n by (simp add: decimal.simps [of n])
    then show ?thesis
      using 1(1) [OF n 1(2) k] k by (simp add: len Suc_diff_le flip: div_mult2_eq)
  qed simp
qed

text \<open>Trimming zeros at the end divides by the power of ten they stand for.\<close>

lemma digits_value_zeros: "digits_value (s @ replicate k CHR ''0'') = digits_value s * 10 ^ k"
  by (induction k) (simp_all add: replicate_append_same [symmetric] digits_value_snoc flip: append_assoc)

lemma trim_end_zeros_split: "\<exists>k. s = trim_end_zeros s @ replicate k CHR ''0''"
proof -
  let ?z = "takeWhile (\<lambda>c. c = CHR ''0'') (rev s)"
  have "?z = replicate (length ?z) CHR ''0''"
    by (rule replicate_length_same [symmetric]) (auto dest: set_takeWhileD)
  moreover have "s = trim_end_zeros s @ rev ?z"
    unfolding trim_end_zeros_def by (metis rev_append rev_rev_ident takeWhile_dropWhile_id)
  ultimately show ?thesis by (metis rev_replicate)
qed

lemma decimal_no_point: "CHR ''.'' \<notin> set (decimal n)"
proof (induction n rule: decimal.induct)
  case (1 n)
  have "digit d \<noteq> CHR ''.'' \<and> CHR ''.'' \<noteq> digit d" if "d < 10" for d
    using of_char_digit [OF that] by (auto dest!: arg_cong [of _ _ "of_char :: char \<Rightarrow> nat"])
  with 1 show ?case by (simp add: decimal.simps [of n])
qed

text \<open>
  Exponential notation gives the first digits of the number: read back, it is the number rounded down to the precision,
  and trimming zeros does not change it.
\<close>

lemma exp_notation_value:
  assumes "r = to_exp_notation v precision trim" "ds = filter (\<lambda>c. c \<noteq> CHR ''.'') (ne_mantissa r)"
    and "n = unat (su_inner v)" "m = length (decimal n) - precision" "0 < precision"
  shows "digits_value ds * 10 ^ (Suc (ne_exponent r) - length ds) = n - n mod 10 ^ m"
proof -
  let ?s = "decimal n"
  define M where "M = take precision ?s"
  define T where "T = (if trim then trim_end_zeros M else M)"
  have s: "?s \<noteq> []" by (simp add: decimal.simps [of n])
  obtain k where k: "M = T @ replicate k CHR ''0''"
  proof (cases trim)
    case True
    then show ?thesis using trim_end_zeros_split [of M] that by (auto simp: T_def)
  next
    case False
    then show ?thesis using that [of 0] by (simp add: T_def)
  qed
  have "CHR ''.'' \<notin> set M" using decimal_no_point [of n] by (auto simp: M_def dest: in_set_takeD)
  then have no: "filter (\<lambda>c. c \<noteq> CHR ''.'') xs = xs" if "set xs \<subseteq> set T" for xs
    using that k by (auto simp: filter_id_conv)
  have "ne_mantissa r = (if length T > 1 then take 1 T @ ''.'' @ drop 1 T else T)"
    unfolding assms(1,3) to_exp_notation_def T_def M_def Let_def by simp
  then have ds: "ds = T"
    using assms(2) no [of T] no [of "take 1 T"] no [of "drop 1 T"]
    by (simp add: set_take_subset set_drop_subset del: One_nat_def)
  have len: "Suc (ne_exponent r) = length ?s"
    using assms(1,3) s by (simp add: to_exp_notation_def Let_def)
  have T: "length T + k = length ?s - m" "m \<le> length ?s"
    using arg_cong [OF k, of length] assms(4) by (auto simp: M_def)
  have M: "digits_value M = n div 10 ^ m"
  proof -
    have "M = take (length ?s - m) ?s" by (cases "precision \<le> length ?s") (auto simp: M_def assms(4))
    then show ?thesis using decimal_take [of "length ?s - m" n] s assms(4,5) by (auto simp: assms(4))
  qed
  have "Suc (ne_exponent r) - length ds = k + m"
    using T s by (simp add: ds len)
  moreover have "digits_value T * 10 ^ k = n div 10 ^ m"
    using digits_value_zeros [of T k] M by (simp flip: k)
  ultimately show ?thesis
    by (simp add: ds power_add minus_mod_eq_div_mult flip: mult.assoc)
qed

end
