(* ===== verification/Selector_Resolver.thy ===== *)
theory Selector_Resolver
  imports Trace_Values Fork_Cache
begin

text \<open>
  Names for selectors: \<open>crates/common/src/resolver.rs\<close>, the client of the signature database, and
  \<open>crates/traces/src/identifier/signatures.rs\<close>, which remembers what the database answered.

  The network is the function \<open>re_http\<close> of the environment: the \<open>n\<close>-th request of the program and its address give a text or
  an error. The client carries the number of requests made, so that theorems can say when the network is asked.
  Parsing the JSON of an answer and the table of known signatures are fields of the environment too.
\<close>

section \<open>The client\<close>

record http_error =
  he_timeout :: bool
  he_connect :: bool
  he_status :: "nat option"

record decoded_signature =
  ds_name :: string
  ds_filtered :: bool

record 'd api_response =
  ar_ok :: bool
  ar_event :: "string \<rightharpoonup> 'd list option"
  ar_function :: "string \<rightharpoonup> 'd list option"

record resolver_env =
  re_http :: "nat \<Rightarrow> string \<Rightarrow> http_error + string"
  re_parse_filtered :: "string \<Rightarrow> decoded_signature api_response option"
  re_parse_names :: "string \<Rightarrow> string api_response option"
  re_known_signatures :: "string \<rightharpoonup> string"

datatype resolver_error =
    SpuriousConnection
  | RequestFailed http_error
  | UndecodableResponse string
  | DecodeFailed string
  | NoSignatureFound
  | InvalidSelector string nat

datatype selector_type = SelFunction | SelEvent | SelError

record sign_eth_client =
  sec_spurious_connection :: bool
  sec_timedout_requests :: u64
  sec_max_timedout_requests :: u64
  sec_requests :: nat

definition MAX_TIMEDOUT_REQ :: u64 where
  "MAX_TIMEDOUT_REQ = 4"

definition SELECTOR_DATABASE_URL :: string where
  "SELECTOR_DATABASE_URL = ''https://api.openchain.xyz/signature-database/v1/lookup''"

definition sign_eth_client_new :: "nat \<Rightarrow> sign_eth_client" where
  "sign_eth_client_new requests = \<lparr>sec_spurious_connection = False, sec_timedout_requests = 0,
     sec_max_timedout_requests = MAX_TIMEDOUT_REQ, sec_requests = requests\<rparr>"

definition is_connectivity_err :: "http_error \<Rightarrow> bool" where
  "is_connectivity_err e \<longleftrightarrow> he_timeout e \<or> he_connect e
     \<or> (case he_status e of Some code \<Rightarrow> 500 \<le> code \<and> code < 600 | None \<Rightarrow> False)"

definition on_reqwest_err :: "http_error \<Rightarrow> sign_eth_client \<Rightarrow> sign_eth_client" where
  "on_reqwest_err e c =
     (if is_connectivity_err e
      then let previous = sec_timedout_requests c;
               c = c\<lparr>sec_timedout_requests := previous + 1\<rparr>
           in if previous \<ge> sec_max_timedout_requests c then c\<lparr>sec_spurious_connection := True\<rparr> else c
      else c)"

definition get_text :: "resolver_env \<Rightarrow> string \<Rightarrow> sign_eth_client \<Rightarrow> (resolver_error + string) \<times> sign_eth_client" where
  "get_text env url c =
     (let c' = c\<lparr>sec_requests := Suc (sec_requests c)\<rparr>
      in case re_http env (sec_requests c) url of
           Inr s \<Rightarrow> (Inr s, c')
         | Inl e \<Rightarrow> (Inl (RequestFailed e), on_reqwest_err e c'))"

definition ensure_not_spurious :: "sign_eth_client \<Rightarrow> resolver_error + unit" where
  "ensure_not_spurious c = (if sec_spurious_connection c then Inl SpuriousConnection else Inr ())"

text \<open>Reading an answer: it has to parse and to say that it is fine.\<close>

definition checked_response :: "(string \<Rightarrow> 'd api_response option) \<Rightarrow> string \<Rightarrow> resolver_error + 'd api_response" where
  "checked_response parse res = (case parse res of
       None \<Rightarrow> Inl (UndecodableResponse res)
     | Some api_response \<Rightarrow> if ar_ok api_response then Inr api_response else Inl (DecodeFailed res))"

definition response_table :: "selector_type \<Rightarrow> 'd api_response \<Rightarrow> string \<rightharpoonup> 'd list option" where
  "response_table ty response = (case ty of SelEvent \<Rightarrow> ar_event response | _ \<Rightarrow> ar_function response)"

definition lookup_param :: "selector_type \<Rightarrow> string" where
  "lookup_param ty = (case ty of SelEvent \<Rightarrow> ''event'' | _ \<Rightarrow> ''function'')"

definition decode_selector ::
  "resolver_env \<Rightarrow> string \<Rightarrow> selector_type \<Rightarrow> sign_eth_client \<Rightarrow> (resolver_error + string option) \<times> sign_eth_client" where
  "decode_selector env selector ty c = (case ensure_not_spurious c of
       Inl e \<Rightarrow> (Inl e, c)
     | Inr _ \<Rightarrow>
         let url = SELECTOR_DATABASE_URL @ ''?'' @ lookup_param ty @ ''='' @ selector @ ''&filter=true'';
             (res, c) = get_text env url c
         in (and_then res (\<lambda>res.
             and_then (checked_response (re_parse_filtered env) res) (\<lambda>api_response.
             case response_table ty api_response selector of
               None \<Rightarrow> Inl NoSignatureFound
             | Some found \<Rightarrow>
                 let ds = case_option [\<lparr>ds_name = selector, ds_filtered = False\<rparr>] id found;
                     names = map ds_name (filter (\<lambda>d. \<not> ds_filtered d) ds)
                 in Inr (case names of [] \<Rightarrow> None | name # _ \<Rightarrow> Some name))), c))"

definition ascii_lowercase :: "string \<Rightarrow> string" where
  "ascii_lowercase s = map (\<lambda>c. let n = of_char c :: nat in if 65 \<le> n \<and> n \<le> 90 then char_of (n + 32) else c) s"

definition normal_selector :: "string \<Rightarrow> string" where
  "normal_selector s = (let s = ascii_lowercase s in if take 2 s = ''0x'' then s else ''0x'' @ s)"

definition expected_len :: "selector_type \<Rightarrow> nat" where
  "expected_len ty = (case ty of SelEvent \<Rightarrow> 66 | _ \<Rightarrow> 10)"

definition decode_selectors ::
  "resolver_env \<Rightarrow> selector_type \<Rightarrow> string list \<Rightarrow> sign_eth_client
     \<Rightarrow> (resolver_error + string list option list) \<times> sign_eth_client" where
  "decode_selectors env ty ss c =
     (let selectors = map normal_selector ss
      in if selectors = [] then (Inr [], c)
         else case ensure_not_spurious c of
           Inl e \<Rightarrow> (Inl e, c)
         | Inr _ \<Rightarrow>
             (case find (\<lambda>s. length s \<noteq> expected_len ty) selectors of
                Some s \<Rightarrow> (Inl (InvalidSelector s (expected_len ty)), c)
              | None \<Rightarrow>
                  let url = SELECTOR_DATABASE_URL @ ''?'' @ lookup_param ty @ ''='' @ joined '','' selectors;
                      (res, c) = get_text env url c
                  in (and_then res (\<lambda>res.
                      and_then (checked_response (re_parse_names env) res) (\<lambda>api_response.
                        Inr (map (\<lambda>selector. case response_table ty api_response selector of
                              Some (Some r) \<Rightarrow> Some r
                            | _ \<Rightarrow> None) selectors))), c)))"

definition client_decode_function_selector ::
  "resolver_env \<Rightarrow> string \<Rightarrow> sign_eth_client \<Rightarrow> (resolver_error + string option) \<times> sign_eth_client" where
  "client_decode_function_selector env selector c =
     (let prefixed_selector = ''0x'' @ (if take 2 selector = ''0x'' then drop 2 selector else selector)
      in if length prefixed_selector \<noteq> 10 then (Inl (InvalidSelector prefixed_selector 10), c)
         else case re_known_signatures env prefixed_selector of
           Some r \<Rightarrow> (Inr (Some r), c)
         | None \<Rightarrow> decode_selector env prefixed_selector SelFunction c)"

section \<open>Lookups through the cache on disk\<close>

text \<open>
  Each lookup makes a client with a cache of its own, which reads the cache directory; \<open>requests\<close> counts the requests
  made before. The type \<open>'b\<close> is that of bridge addresses, which the cache also holds.
\<close>

definition cached_lookup ::
  "(sign_eth_client \<Rightarrow> (resolver_error + string option) \<times> sign_eth_client) \<Rightarrow> string \<Rightarrow> nat \<Rightarrow> 'b cache_dir
     \<Rightarrow> (resolver_error + string option) \<times> nat \<times> 'b cache_dir" where
  "cached_lookup lookup selector requests d =
     (let (cache, d) = (cache_new (CacheDisk ''.cache'' False) d :: ('b, unit) cache \<times> 'b cache_dir)
      in case get_resolver_selector selector cache of
           Some resolved_selector \<Rightarrow> (Inr (Some resolved_selector), requests, d)
         | None \<Rightarrow>
             let (res, c) = lookup (sign_eth_client_new requests);
                 d = (case res of
                        Inr found \<Rightarrow> snd (insert_resolver_selector selector (case_option [] id found) cache d)
                      | Inl _ \<Rightarrow> d)
             in (res, sec_requests c, d))"

definition decode_function_selector ::
  "resolver_env \<Rightarrow> string \<Rightarrow> nat \<Rightarrow> 'b cache_dir \<Rightarrow> (resolver_error + string option) \<times> nat \<times> 'b cache_dir" where
  "decode_function_selector env selector = cached_lookup (client_decode_function_selector env selector) selector"

definition decode_event_selector ::
  "resolver_env \<Rightarrow> string \<Rightarrow> nat \<Rightarrow> 'b cache_dir \<Rightarrow> (resolver_error + string option) \<times> nat \<times> 'b cache_dir" where
  "decode_event_selector env selector = cached_lookup (decode_selector env selector SelEvent) selector"

section \<open>The identifier\<close>

record cached_signatures =
  cs_errors :: "string \<rightharpoonup> string"
  cs_events :: "string \<rightharpoonup> string"
  cs_functions :: "string \<rightharpoonup> string"

definition cached_signatures_default :: cached_signatures where
  "cached_signatures_default = \<lparr>cs_errors = Map.empty, cs_events = Map.empty, cs_functions = Map.empty\<rparr>"

datatype signatures_file = NoFile | Unreadable | Stored cached_signatures

record signatures_identifier =
  si_cached :: cached_signatures
  si_cached_path :: "string option"
  si_unavailable :: "string \<rightharpoonup> string"
  si_client :: "sign_eth_client option"

definition cached_signatures_load :: "signatures_file \<Rightarrow> cached_signatures" where
  "cached_signatures_load f = (case f of Stored s \<Rightarrow> s | _ \<Rightarrow> cached_signatures_default)"

definition signatures_identifier_new :: "signatures_file \<Rightarrow> string option \<Rightarrow> bool \<Rightarrow> nat \<Rightarrow> signatures_identifier" where
  "signatures_identifier_new f cache_path offline requests =
     (let client = (if offline then None else Some (sign_eth_client_new requests))
      in case cache_path of
           Some p \<Rightarrow> \<lparr>si_cached = cached_signatures_load f, si_cached_path = Some (p @ ''/signatures''),
             si_unavailable = Map.empty, si_client = client\<rparr>
         | None \<Rightarrow> \<lparr>si_cached = cached_signatures_default, si_cached_path = None, si_unavailable = Map.empty, si_client = client\<rparr>)"

definition signatures_identifier_save :: "bool \<Rightarrow> signatures_identifier \<Rightarrow> signatures_file \<Rightarrow> signatures_file" where
  "signatures_identifier_save writable si f =
     (if si_cached_path si \<noteq> None \<and> writable then Stored (si_cached si) else f)"

definition cache_of :: "selector_type \<Rightarrow> cached_signatures \<Rightarrow> string \<rightharpoonup> string" where
  "cache_of ty s = (case ty of SelFunction \<Rightarrow> cs_functions s | SelEvent \<Rightarrow> cs_events s | SelError \<Rightarrow> cs_errors s)"

definition set_cache_of :: "selector_type \<Rightarrow> (string \<rightharpoonup> string) \<Rightarrow> cached_signatures \<Rightarrow> cached_signatures" where
  "set_cache_of ty m s = (case ty of
       SelFunction \<Rightarrow> s\<lparr>cs_functions := m\<rparr>
     | SelEvent \<Rightarrow> s\<lparr>cs_events := m\<rparr>
     | SelError \<Rightarrow> s\<lparr>cs_errors := m\<rparr>)"

fun remember ::
  "(string \<times> string list option) list \<Rightarrow> (string \<rightharpoonup> string) \<times> (string \<rightharpoonup> string)
     \<Rightarrow> (string \<rightharpoonup> string) \<times> (string \<rightharpoonup> string)" where
  "remember [] (cache, unavailable) = (cache, unavailable)"
| "remember ((hex_id, selector_result) # rs) (cache, unavailable) = (case selector_result of
       Some (decoded_result # _) \<Rightarrow> remember rs (cache(hex_id \<mapsto> decoded_result), unavailable)
     | _ \<Rightarrow> remember rs (cache, unavailable(hex_id \<mapsto> hex_id)))"

definition encode_prefixed :: "bytes \<Rightarrow> string" where
  "encode_prefixed bs = ''0x'' @ hex_encode bs"

definition unresolved :: "selector_type \<Rightarrow> signatures_identifier \<Rightarrow> string list \<Rightarrow> string list" where
  "unresolved ty si ids =
     filter (\<lambda>v. si_unavailable si v = None) (filter (\<lambda>v. cache_of ty (si_cached si) v = None) ids)"

definition identify ::
  "resolver_env \<Rightarrow> selector_type \<Rightarrow> bytes list \<Rightarrow> (string \<Rightarrow> 'a option) \<Rightarrow> signatures_identifier
     \<Rightarrow> 'a option list \<times> signatures_identifier" where
  "identify env ty identifiers get_type si =
     (let hex_identifiers = map encode_prefixed identifiers;
          si = (case si_client si of
              None \<Rightarrow> si
            | Some client \<Rightarrow>
                let query = unresolved ty si hex_identifiers;
                    (res, client) = decode_selectors env ty query client;
                    si = si\<lparr>si_client := Some client\<rparr>
                in case res of
                     Inl _ \<Rightarrow> si
                   | Inr res \<Rightarrow>
                       let (cache, unavailable) = remember (zip query res) (cache_of ty (si_cached si), si_unavailable si)
                       in si\<lparr>si_cached := set_cache_of ty cache (si_cached si), si_unavailable := unavailable\<rparr>)
      in (map (\<lambda>v. Option.bind (cache_of ty (si_cached si) v) get_type) hex_identifiers, si))"

definition identify_functions where
  "identify_functions env identifiers get_func = identify env SelFunction identifiers get_func"

definition identify_events where
  "identify_events env identifiers get_event = identify env SelEvent identifiers get_event"

definition identify_errors where
  "identify_errors env identifiers get_error = identify env SelError identifiers get_error"

text \<open>\<open>pop().unwrap()\<close> on the list of one answer.\<close>

definition identify_one ::
  "(bytes list \<Rightarrow> signatures_identifier \<Rightarrow> 'a option list \<times> signatures_identifier) \<Rightarrow> bytes \<Rightarrow> signatures_identifier
     \<Rightarrow> 'a option \<times> signatures_identifier" where
  "identify_one id_all identifier si = (let (res, si) = id_all [identifier] si in (last res, si))"

definition identify_function where
  "identify_function env get_func = identify_one (\<lambda>ids. identify_functions env ids get_func)"

definition identify_event where
  "identify_event env get_event = identify_one (\<lambda>ids. identify_events env ids get_event)"

definition identify_error where
  "identify_error env get_error = identify_one (\<lambda>ids. identify_errors env ids get_error)"

section \<open>Lemmas: the identifier\<close>

lemma length_identify: "length (fst (identify env ty ids f si)) = length ids"
  by (simp add: identify_def Let_def)

lemma length_decode_selectors:
  "fst (decode_selectors env ty ss c) = Inr res \<Longrightarrow> length res = length ss"
  by (auto simp: decode_selectors_def Let_def split: if_splits sum.splits option.splits prod.splits)

lemma remember_mono:
  "remember rs (cache, un) = (cache', un') \<Longrightarrow> v \<in> dom cache \<union> dom un \<Longrightarrow> v \<in> dom cache' \<union> dom un'"
  by (induction rs "(cache, un)" arbitrary: cache un rule: remember.induct)
    (auto split: option.splits list.splits)

lemma remember_unavailable: "remember rs (cache, un) = (cache', un') \<Longrightarrow> dom un \<subseteq> dom un'"
  by (induction rs "(cache, un)" arbitrary: cache un rule: remember.induct) (fastforce split: option.splits list.splits)+

lemma remember_covers:
  "remember rs (cache, un) = (cache', un') \<Longrightarrow> v \<in> fst ` set rs \<Longrightarrow> v \<in> dom cache' \<union> dom un'"
proof (induction rs "(cache, un)" arbitrary: cache un rule: remember.induct)
  case (2 hex_id result rs cache un)
  show ?case
  proof (cases "v \<in> fst ` set rs")
    case True
    then show ?thesis using 2 by (auto split: option.splits list.splits)
  next
    case False
    then have "v = hex_id" using 2(5) by auto
    then show ?thesis
      using 2(4) remember_mono [where v = v] by (fastforce split: option.splits list.splits)
  qed
qed auto

lemma cache_of_set [simp]: "cache_of ty (set_cache_of ty m s) = m"
  by (simp add: cache_of_def set_cache_of_def split: selector_type.split)

lemma identify_resolved:
  assumes "unresolved ty si (map encode_prefixed ids) = []"
  shows "identify env ty ids f si
     = (map (\<lambda>v. Option.bind (cache_of ty (si_cached si) v) f) (map encode_prefixed ids), si)"
proof -
  have "set_cache_of ty (cache_of ty s) s = s" for s
    by (simp add: cache_of_def set_cache_of_def split: selector_type.split)
  then show ?thesis
    using assms by (simp add: identify_def decode_selectors_def Let_def split: option.split)
qed

text \<open>Whether the database answers the question that an identification asks.\<close>

definition answered :: "resolver_env \<Rightarrow> selector_type \<Rightarrow> bytes list \<Rightarrow> signatures_identifier \<Rightarrow> bool" where
  "answered env ty ids si = (case si_client si of
       None \<Rightarrow> False
     | Some client \<Rightarrow> is_ok (fst (decode_selectors env ty (unresolved ty si (map encode_prefixed ids)) client)))"

lemma identify_answered:
  assumes "answered env ty ids si" "identify env ty ids f si = (found, si')"
  shows "unresolved ty si' (map encode_prefixed ids) = []"
    "found = map (\<lambda>v. Option.bind (cache_of ty (si_cached si') v) f) (map encode_prefixed ids)"
proof -
  let ?ids = "map encode_prefixed ids"
  let ?query = "unresolved ty si ?ids"
  obtain client res client' where dec: "si_client si = Some client" "decode_selectors env ty ?query client = (Inr res, client')"
    using assms(1) by (auto simp: answered_def is_ok_iff split: option.splits) (metis prod.collapse)
  obtain cache un where rem: "remember (zip ?query res) (cache_of ty (si_cached si), si_unavailable si) = (cache, un)"
    by fastforce
  have si': "si' = si\<lparr>si_client := Some client', si_cached := set_cache_of ty cache (si_cached si), si_unavailable := un\<rparr>"
      and found: "found = map (\<lambda>v. Option.bind (cache v) f) ?ids"
    using assms(2) dec rem by (auto simp: identify_def Let_def)
  have "v \<in> dom cache \<union> dom un" if "v \<in> set ?ids" for v
  proof (cases "v \<in> set ?query")
    case True
    then have "v \<in> fst ` set (zip ?query res)"
      using length_decode_selectors [of env ty ?query client res] dec(2) by (metis fst_conv list.set_map map_fst_zip)
    then show ?thesis using remember_covers [OF rem] by blast
  next
    case False
    then show ?thesis using that remember_mono [OF rem, of v] by (auto simp: unresolved_def)
  qed
  then show "unresolved ty si' ?ids = []"
    by (auto simp: unresolved_def si' filter_empty_conv dom_def)
  show "found = map (\<lambda>v. Option.bind (cache_of ty (si_cached si') v) f) ?ids"
    using found by (simp add: si')
qed

text \<open>The identifier asks the signature database about a selector once. When a lookup was answered, repeating it
  makes no request, whatever the network would say, gives the same names and changes nothing, also for the
  selectors that the database does not know.\<close>

theorem identify_asks_once:
  assumes "answered env ty ids si" "identify env ty ids f si = (found, si')"
  shows "identify env' ty ids f si' = (found, si') \<and> length found = length ids"
  using identify_resolved [OF identify_answered(1) [OF assms]] identify_answered(2) [OF assms] by simp

text \<open>A later identification forgets nothing.\<close>

lemma identify_keeps:
  assumes "unresolved ty' si ids' = []"
  shows "unresolved ty' (snd (identify env ty ids f si)) ids' = []"
proof (cases "si_client si")
  case None
  then show ?thesis using assms by (simp add: identify_def Let_def)
next
  case (Some client)
  let ?query = "unresolved ty si (map encode_prefixed ids)"
  obtain res client' where dec: "decode_selectors env ty ?query client = (res, client')" by fastforce
  show ?thesis
  proof (cases res)
    case (Inl e)
    then show ?thesis using assms dec Some by (simp add: identify_def Let_def unresolved_def)
  next
    case (Inr rs)
    obtain cache un where rem: "remember (zip ?query rs) (cache_of ty (si_cached si), si_unavailable si) = (cache, un)"
      by fastforce
    have other: "cache_of ty' (set_cache_of ty m s) = (if ty' = ty then m else cache_of ty' s)" for m s
      by (simp add: cache_of_def set_cache_of_def split: selector_type.split)
    have un: "v \<in> dom un" if "v \<in> dom (si_unavailable si)" for v
      using that remember_unavailable [OF rem] by blast
    show ?thesis
      using assms dec Some Inr rem remember_mono [OF rem] un
      by (fastforce simp: identify_def Let_def unresolved_def filter_empty_conv other dom_def)
  qed
qed

section \<open>Lemmas: the client\<close>

lemma cached_lookup_eq:
  fixes d :: "'b cache_dir"
  assumes "dir_distinct d"
  shows "cached_lookup lookup selector n d = (case map_of (dir_resolver_selectors d) selector of
       Some s \<Rightarrow> (Inr (Some s), n, d)
     | None \<Rightarrow> let (res, c) = lookup (sign_eth_client_new n) in
         (res, sec_requests c, case res of
            Inr found \<Rightarrow> if dir_writable d
              then d\<lparr>dir_resolver_selectors := AList.update selector (case_option [] id found) (dir_resolver_selectors d)\<rparr> else d
          | Inl _ \<Rightarrow> d))"
proof -
  obtain cache :: "('b, unit) cache" where new: "cache_new (CacheDisk ''.cache'' False) d = (cache, d)"
    by (simp add: cache_new_def)
  have "ca_config cache = CacheDisk ''.cache'' False"
    using new by (auto simp: cache_new_def read_all_from_disk_def cache_default_def Let_def split: option.split)
  moreover have "ca_resolver_selectors cache = map_of (dir_resolver_selectors d)"
    using persisted_cache_new [OF assms, of "''.cache''"] new unfolding persisted_def by (metis fst_conv)
  ultimately show ?thesis
    by (auto simp: cached_lookup_def new get_resolver_selector_def insert_resolver_selector_def on_disk_def Let_def
        split: option.split sum.split prod.split)
qed

lemma cached_answer:
  assumes "dir_distinct d" "dir_writable d"
    and "cached_lookup lookup selector n d = (Inr found, n', d')"
  shows "cached_lookup lookup' selector m d' = (Inr (Some (case_option [] id found)), m, d')"
proof (cases "map_of (dir_resolver_selectors d) selector")
  case None
  let ?v = "case_option [] id found"
  have d': "d' = d\<lparr>dir_resolver_selectors := AList.update selector ?v (dir_resolver_selectors d)\<rparr>"
    using assms None by (auto simp: cached_lookup_eq Let_def split: prod.splits)
  then have "dir_distinct d'" "map_of (dir_resolver_selectors d') selector = Some ?v"
    using assms(1) by (simp_all add: dir_distinct_def distinct_update update_conv')
  then show ?thesis by (simp add: cached_lookup_eq)
next
  case (Some s)
  then show ?thesis using assms by (auto simp: cached_lookup_eq split: option.splits)
qed

text \<open>A lookup that was answered is not repeated: from then on the cache directory answers, without a request. But
  a selector without a name is stored under the empty name, so the second answer is a name that is empty
  where the first was that there is none.\<close>

theorem decode_function_selector_again:
  assumes "dir_distinct d" "dir_writable d"
    and "decode_function_selector env selector n d = (Inr found, n', d')"
  shows "decode_function_selector env' selector m d' = (Inr (Some (case_option [] id found)), m, d')"
  using cached_answer [OF assms(1,2)] assms(3) by (simp add: decode_function_selector_def)

text \<open>A client whose requests all time out makes five of them.\<close>

definition silent_network :: "resolver_env \<Rightarrow> bool" where
  "silent_network env \<longleftrightarrow> (\<forall>n url. \<exists>e. re_http env n url = Inl e \<and> is_connectivity_err e)"

definition client_trusts :: "nat \<Rightarrow> sign_eth_client \<Rightarrow> bool" where
  "client_trusts n c \<longleftrightarrow> sec_max_timedout_requests c = 4 \<and> sec_requests c = n + unat (sec_timedout_requests c)
     \<and> unat (sec_timedout_requests c) \<le> 5 \<and> (sec_spurious_connection c \<longleftrightarrow> unat (sec_timedout_requests c) = 5)"

lemma get_text_silent:
  assumes "silent_network env" "client_trusts n c" "\<not> sec_spurious_connection c"
  shows "client_trusts n (snd (get_text env url c))"
proof -
  obtain e where e: "re_http env (sec_requests c) url = Inl e" "is_connectivity_err e"
    using assms(1) unfolding silent_network_def by blast
  have less: "unat (sec_timedout_requests c) < 5"
    using assms(2,3) by (auto simp: client_trusts_def)
  then have "unat (sec_timedout_requests c + 1) = Suc (unat (sec_timedout_requests c))"
    by (simp add: unat_word_ariths)
  moreover have "(4 :: u64) \<le> sec_timedout_requests c \<longleftrightarrow> unat (sec_timedout_requests c) = 4"
    using less by (auto simp: word_le_nat_alt)
  moreover have "snd (get_text env url c) = on_reqwest_err e (c\<lparr>sec_requests := Suc (sec_requests c)\<rparr>)"
    by (simp add: get_text_def e(1) Let_def)
  ultimately show ?thesis
    using assms(2,3) less by (auto simp: client_trusts_def e(2) on_reqwest_err_def Let_def)
qed

lemma decode_selectors_silent:
  assumes "silent_network env" "client_trusts n c"
  shows "client_trusts n (snd (decode_selectors env ty ss c))"
  using assms get_text_silent [OF assms(1,2)]
  by (auto simp: decode_selectors_def ensure_not_spurious_def Let_def split: option.split prod.splits)
    (metis snd_conv)

lemma silent_requests:
  assumes "silent_network env"
  shows "sec_requests (fold (\<lambda>(ty, ss) c. snd (decode_selectors env ty ss c)) qs (sign_eth_client_new n)) \<le> n + 5"
proof -
  have "client_trusts n (fold (\<lambda>(ty, ss) c. snd (decode_selectors env ty ss c)) qs c)" if "client_trusts n c" for c
    using that by (induction qs arbitrary: c) (auto simp: decode_selectors_silent assms)
  then show ?thesis
    by (fastforce simp: client_trusts_def sign_eth_client_new_def MAX_TIMEDOUT_REQ_def)
qed

section \<open>Witnesses\<close>

text \<open>A database that knows no names.\<close>

definition sample_resolver :: resolver_env where
  "sample_resolver = \<lparr>re_http = (\<lambda>_ _. Inr []),
     re_parse_filtered = (\<lambda>_. Some \<lparr>ar_ok = True, ar_event = Map.empty, ar_function = (\<lambda>_. Some (Some []))\<rparr>),
     re_parse_names = (\<lambda>_. Some \<lparr>ar_ok = True, ar_event = Map.empty, ar_function = Map.empty\<rparr>),
     re_known_signatures = Map.empty\<rparr>"

definition sample_identifier :: signatures_identifier where
  "sample_identifier = signatures_identifier_new NoFile None False 0"

lemma length_big_endian [simp]: "length (big_endian k n) = k"
  by (induction k arbitrary: n) auto

lemma length_encoded: "length (normal_selector (encode_prefixed bs)) = 2 + 2 * length bs"
proof -
  have "take 2 (ascii_lowercase (encode_prefixed bs)) = ''0x''" by (simp add: ascii_lowercase_def encode_prefixed_def Let_def)
  moreover have "length (hex_encode bs) = 2 * length bs"
    by (induction bs) (auto simp: hex_encode_def)
  ultimately show ?thesis by (simp add: normal_selector_def ascii_lowercase_def encode_prefixed_def Let_def)
qed

definition trusting :: "signatures_identifier \<Rightarrow> bool" where
  "trusting i \<longleftrightarrow> (\<exists>c. si_client i = Some c \<and> \<not> sec_spurious_connection c)"

lemma sample_answered:
  assumes "trusting i" "\<forall>s \<in> set ids. 2 + 2 * length s = expected_len ty"
  shows "answered sample_resolver ty ids i" "trusting (snd (identify sample_resolver ty ids f i))"
proof -
  obtain c where c: "si_client i = Some c" "\<not> sec_spurious_connection c" using assms(1) by (auto simp: trusting_def)
  let ?q = "unresolved ty i (map encode_prefixed ids)"
  have "find (\<lambda>s. length s \<noteq> expected_len ty) (map normal_selector ?q) = None"
    using assms(2) by (auto simp: find_None_iff unresolved_def length_encoded)
  then have "\<exists>res c'. decode_selectors sample_resolver ty ?q c = (Inr res, c') \<and> \<not> sec_spurious_connection c'"
    using c(2) by (auto simp: decode_selectors_def ensure_not_spurious_def Let_def get_text_def sample_resolver_def checked_response_def)
  then obtain res c' where "decode_selectors sample_resolver ty ?q c = (Inr res, c')" "\<not> sec_spurious_connection c'" by blast
  then show "answered sample_resolver ty ids i" "trusting (snd (identify sample_resolver ty ids f i))"
    using c(1) by (auto simp: answered_def identify_def trusting_def Let_def split: prod.split)
qed

lemma sample_trusting: "trusting sample_identifier"
  by (simp add: trusting_def sample_identifier_def signatures_identifier_new_def sign_eth_client_new_def)

theorem identify_asks_once_witness:
  "identify \<lparr>re_http = (\<lambda>_ _. Inl \<lparr>he_timeout = True, he_connect = False, he_status = None\<rparr>), re_parse_filtered = Map.empty,
       re_parse_names = Map.empty, re_known_signatures = Map.empty\<rparr> SelFunction [[1, 2, 3, 4]] Some
       (snd (identify sample_resolver SelFunction [[1, 2, 3, 4]] Some sample_identifier))
     = identify sample_resolver SelFunction [[1, 2, 3, 4]] Some sample_identifier"
proof -
  let ?silent = "\<lparr>re_http = (\<lambda>_ _. Inl \<lparr>he_timeout = True, he_connect = False, he_status = None\<rparr>), re_parse_filtered = Map.empty,
    re_parse_names = Map.empty, re_known_signatures = Map.empty\<rparr>"
  let ?r = "identify sample_resolver SelFunction [[1, 2, 3, 4]] Some sample_identifier"
  have "answered sample_resolver SelFunction [[1, 2, 3, 4]] sample_identifier"
    by (rule sample_answered [OF sample_trusting]) (simp add: expected_len_def)
  then show ?thesis
    using identify_asks_once [of _ _ _ _ Some "fst ?r" "snd ?r" ?silent] by simp
qed

theorem decode_function_selector_again_witness:
  "decode_function_selector sample_resolver ''01020304'' 0 (empty_dir :: unit cache_dir)
       = (Inr None, 1, empty_dir\<lparr>dir_resolver_selectors := [(''01020304'', [])]\<rparr>)
     \<and> decode_function_selector sample_resolver ''01020304'' 5
         ((empty_dir :: unit cache_dir)\<lparr>dir_resolver_selectors := [(''01020304'', [])]\<rparr>)
       = (Inr (Some []), 5, empty_dir\<lparr>dir_resolver_selectors := [(''01020304'', [])]\<rparr>)"
proof -
  have d: "dir_distinct (empty_dir :: unit cache_dir)" "dir_writable (empty_dir :: unit cache_dir)"
    by (simp_all add: dir_distinct_def empty_dir_def)
  have first: "decode_function_selector sample_resolver ''01020304'' 0 (empty_dir :: unit cache_dir)
       = (Inr None, 1, empty_dir\<lparr>dir_resolver_selectors := [(''01020304'', [])]\<rparr>)"
    using d by (simp add: decode_function_selector_def cached_lookup_eq client_decode_function_selector_def decode_selector_def
        ensure_not_spurious_def sign_eth_client_new_def get_text_def sample_resolver_def checked_response_def response_table_def
        Let_def empty_dir_def)
  then show ?thesis
    using decode_function_selector_again [OF d first, of sample_resolver 5] by simp
qed

end
