(* ===== verification/Node_Errors.thy ===== *)
theory Node_Errors
  imports Selector_Resolver
begin

text \<open>
  Errors: their codes and messages in \<open>crates/zksync_error/src/\<close>, the reports made of a revert or a halt of the VM in
  \<open>crates/core/src/node/error.rs\<close>, and what the JSON-RPC server answers, \<open>crates/api_server/src/error.rs\<close>.

  The error types of the node itself are here with all their variants; of the errors of other tools that share the
  numbering only the kinds are. A Web3 error's own text is a field of \<open>rpc_text\<close>. The numbers behind the
  standard JSON-RPC codes belong to the server library: a code is either one of these or a number.
\<close>

section \<open>Kinds and identifiers\<close>

datatype anvil_component = CAnvilEnvironment | CAnvilGeneric | CAnvilNode | CGasEstimation | CHalt | CRevert | CStateLoader
  | CTransactionValidation

datatype compiler_component = CLLVM_EVM | CLLVM_Era | CSolc | CSolcFork | CZksolc | CZkvyper

datatype core_component = CAPI | CEraVM | CExecutionPlatform | CSequencer

datatype foundry_component = CFoundryUpstream | CFoundryZksync

datatype hardhat_component = CHardhatUpstream | CHardhatZksync

datatype kind =
    KindAnvilZksync anvil_component
  | KindCompiler compiler_component
  | KindCore core_component
  | KindFoundry foundry_component
  | KindHardhat hardhat_component

definition anvil_components :: "anvil_component list" where
  "anvil_components =
     [CAnvilEnvironment, CAnvilGeneric, CAnvilNode, CGasEstimation, CHalt, CRevert, CStateLoader, CTransactionValidation]"

definition compiler_components :: "compiler_component list" where
  "compiler_components = [CLLVM_EVM, CLLVM_Era, CSolc, CSolcFork, CZksolc, CZkvyper]"

definition core_components :: "core_component list" where
  "core_components = [CAPI, CEraVM, CExecutionPlatform, CSequencer]"

definition foundry_components :: "foundry_component list" where
  "foundry_components = [CFoundryUpstream, CFoundryZksync]"

definition hardhat_components :: "hardhat_component list" where
  "hardhat_components = [CHardhatUpstream, CHardhatZksync]"

text \<open>The number of a variant is its place among the variants.\<close>

fun place :: "'a \<Rightarrow> 'a list \<Rightarrow> u32" where
  "place x [] = 0"
| "place x (y # ys) = (if x = y then 0 else 1 + place x ys)"

definition from_repr :: "'a list \<Rightarrow> u32 \<Rightarrow> 'a option" where
  "from_repr xs n = (if unat n < length xs then Some (xs ! unat n) else None)"

fun domain_code :: "kind \<Rightarrow> u32" where
  "domain_code (KindAnvilZksync _) = 5"
| "domain_code (KindCompiler _) = 2"
| "domain_code (KindCore _) = 1"
| "domain_code (KindFoundry _) = 4"
| "domain_code (KindHardhat _) = 3"

fun component_code :: "kind \<Rightarrow> u32" where
  "component_code (KindAnvilZksync c) = place c anvil_components"
| "component_code (KindCompiler c) = place c compiler_components"
| "component_code (KindCore c) = place c core_components"
| "component_code (KindFoundry c) = place c foundry_components"
| "component_code (KindHardhat c) = place c hardhat_components"

record structured_error_code =
  sc_domain_code :: u32
  sc_component_code :: u32
  sc_error_code :: u32

definition structured_encode :: "structured_error_code \<Rightarrow> u32" where
  "structured_encode c = sc_domain_code c * 10000 + sc_component_code c * 1000 + sc_error_code c"

definition structured_decode :: "u32 \<Rightarrow> structured_error_code" where
  "structured_decode raw_code = \<lparr>sc_domain_code = raw_code div 10000 mod 10, sc_component_code = raw_code div 1000 mod 10,
     sc_error_code = raw_code mod 1000\<rparr>"

record error_identifier =
  id_kind :: kind
  id_code :: u32

definition identifier_encode :: "error_identifier \<Rightarrow> u32" where
  "identifier_encode i = domain_code (id_kind i) * 10000 + component_code (id_kind i) * 1000 + id_code i"

definition identifier_decode :: "structured_error_code \<Rightarrow> error_identifier option" where
  "identifier_decode c =
     (let component = sc_component_code c;
          domain = sc_domain_code c;
          found = (if domain = 5 then map_option KindAnvilZksync (from_repr anvil_components component)
            else if domain = 2 then map_option KindCompiler (from_repr compiler_components component)
            else if domain = 1 then map_option KindCore (from_repr core_components component)
            else if domain = 4 then map_option KindFoundry (from_repr foundry_components component)
            else if domain = 3 then map_option KindHardhat (from_repr hardhat_components component)
            else None)
      in map_option (\<lambda>k. \<lparr>id_kind = k, id_code = sc_error_code c\<rparr>) found)"

fun kind_repr :: "kind \<Rightarrow> string" where
  "kind_repr (KindAnvilZksync CAnvilEnvironment) = ''anvil_zksync-env''"
| "kind_repr (KindAnvilZksync CAnvilGeneric) = ''anvil_zksync-gen''"
| "kind_repr (KindAnvilZksync CAnvilNode) = ''anvil_zksync-node''"
| "kind_repr (KindAnvilZksync CGasEstimation) = ''anvil_zksync-gas_estim''"
| "kind_repr (KindAnvilZksync CHalt) = ''anvil_zksync-halt''"
| "kind_repr (KindAnvilZksync CRevert) = ''anvil_zksync-revert''"
| "kind_repr (KindAnvilZksync CStateLoader) = ''anvil_zksync-state''"
| "kind_repr (KindAnvilZksync CTransactionValidation) = ''anvil_zksync-tx_invalid''"
| "kind_repr (KindCompiler CLLVM_EVM) = ''compiler-llvm+evm''"
| "kind_repr (KindCompiler CLLVM_Era) = ''compiler-llvm+era''"
| "kind_repr (KindCompiler CSolc) = ''compiler-solc''"
| "kind_repr (KindCompiler CSolcFork) = ''compiler-solc+fork''"
| "kind_repr (KindCompiler CZksolc) = ''compiler-zksolc''"
| "kind_repr (KindCompiler CZkvyper) = ''compiler-zkvyper''"
| "kind_repr (KindCore CAPI) = ''core-api''"
| "kind_repr (KindCore CEraVM) = ''core-eravm''"
| "kind_repr (KindCore CExecutionPlatform) = ''core-exec''"
| "kind_repr (KindCore CSequencer) = ''core-seq''"
| "kind_repr (KindFoundry CFoundryUpstream) = ''foundry-upstream''"
| "kind_repr (KindFoundry CFoundryZksync) = ''foundry-zksync''"
| "kind_repr (KindHardhat CHardhatUpstream) = ''hardhat-upstream''"
| "kind_repr (KindHardhat CHardhatZksync) = ''hardhat-zksync''"

definition identifier_repr :: "error_identifier \<Rightarrow> string" where
  "identifier_repr i = ''['' @ kind_repr (id_kind i) @ ''-'' @ decimal (unat (id_code i)) @ '']''"

section \<open>The errors of the node\<close>

definition newline_text :: string where
  "newline_text = [CHR 0x0A]"

datatype anvil_environment =
    EnvInvalidArguments string string
  | EnvServerStartupFailed string u32 string
  | EnvLogFileAccessFailed string string
  | EnvLogFileWriteFailed string string
  | EnvGenericError string

fun anvil_environment_code :: "anvil_environment \<Rightarrow> u32" where
  "anvil_environment_code (EnvInvalidArguments _ _) = 1"
| "anvil_environment_code (EnvServerStartupFailed _ _ _) = 2"
| "anvil_environment_code (EnvLogFileAccessFailed _ _) = 10"
| "anvil_environment_code (EnvLogFileWriteFailed _ _) = 11"
| "anvil_environment_code (EnvGenericError _) = 0"

fun anvil_environment_message :: "text_api \<Rightarrow> anvil_environment \<Rightarrow> string" where
  "anvil_environment_message tx (EnvInvalidArguments details _) =
     ''[anvil_zksync-env-1] Invalid arguments: '' @ details @ ''.''"
| "anvil_environment_message tx (EnvServerStartupFailed host_requested port_requested details) =
     ''[anvil_zksync-env-2] Failed to start server at '' @ host_requested @ '':'' @ decimal (unat port_requested) @ '': ''
       @ details @ ''.''"
| "anvil_environment_message tx (EnvLogFileAccessFailed log_file_path wrapped_error) =
     ''[anvil_zksync-env-10] Unable to access log file: '' @ log_file_path @ ''. Details: '' @ wrapped_error"
| "anvil_environment_message tx (EnvLogFileWriteFailed log_filename wrapped_error) =
     ''[anvil_zksync-env-11] Unable to append more lines to the log file `'' @ log_filename @ ''`: '' @ wrapped_error"
| "anvil_environment_message tx (EnvGenericError message) =
     ''[anvil_zksync-env-0] Generic error: '' @ message"

datatype anvil_generic =
    GenGenericError string

fun anvil_generic_code :: "anvil_generic \<Rightarrow> u32" where
  "anvil_generic_code (GenGenericError _) = 0"

fun anvil_generic_message :: "text_api \<Rightarrow> anvil_generic \<Rightarrow> string" where
  "anvil_generic_message tx (GenGenericError message) =
     ''[anvil_zksync-gen-0] Generic error: '' @ message"

datatype transaction_validation_error =
    TvInvalidGasLimit u256 u256
  | TvGasPerPubdataLimit u256 u256
  | TvMaxFeePerGasTooLow u256 u256
  | TvMaxPriorityFeeGreaterThanMaxFee u256 u256
  | TvGenericError string

fun transaction_validation_error_code :: "transaction_validation_error \<Rightarrow> u32" where
  "transaction_validation_error_code (TvInvalidGasLimit _ _) = 1"
| "transaction_validation_error_code (TvGasPerPubdataLimit _ _) = 2"
| "transaction_validation_error_code (TvMaxFeePerGasTooLow _ _) = 3"
| "transaction_validation_error_code (TvMaxPriorityFeeGreaterThanMaxFee _ _) = 4"
| "transaction_validation_error_code (TvGenericError _) = 0"

fun transaction_validation_error_message :: "text_api \<Rightarrow> transaction_validation_error \<Rightarrow> string" where
  "transaction_validation_error_message tx (TvInvalidGasLimit gas_limit max_gas) =
     ''[anvil_zksync-tx_invalid-1] Gas limit for transaction is '' @ decimal (unat gas_limit)
       @ '' which exceeds maximum allowed gas '' @ decimal (unat max_gas)"
| "transaction_validation_error_message tx (TvGasPerPubdataLimit gas_per_pubdata_limit max_gas) =
     ''[anvil_zksync-tx_invalid-2] Gas per pubdata limit is '' @ decimal (unat gas_per_pubdata_limit)
       @ '' which exceeds maximum allowed gas '' @ decimal (unat max_gas)"
| "transaction_validation_error_message tx (TvMaxFeePerGasTooLow max_fee_per_gas l2_gas_price) =
     ''[anvil_zksync-tx_invalid-3] Max fee per gas: '' @ decimal (unat max_fee_per_gas) @ '', current L2 gas price ''
       @ decimal (unat l2_gas_price) @ '' is too expensive.''"
| "transaction_validation_error_message tx (TvMaxPriorityFeeGreaterThanMaxFee max_fee_per_gas max_priority_fee_per_gas) =
     ''[anvil_zksync-tx_invalid-4] maxPriorityFeePerGas='' @ decimal (unat max_priority_fee_per_gas)
       @ '' exceeds the limit value maxFeePerGas='' @ decimal (unat max_fee_per_gas)"
| "transaction_validation_error_message tx (TvGenericError message) =
     ''[anvil_zksync-tx_invalid-0] Generic error: '' @ message"

datatype halt_error =
    HeValidationFailed string string
  | HePaymasterValidationFailed string string
  | HePrePaymasterPreparationFailed string string
  | HePayForTxFailed string string
  | HeFailedToMarkFactoryDependencies string string
  | HeFailedToChargeFee string string
  | HeFromIsNotAnAccount
  | HeInnerTxError
  | HeUnknown string string
  | HeUnexpectedVMBehavior string
  | HeBootloaderOutOfGas
  | HeValidationOutOfGas
  | HeTooBigGasLimit
  | HeNotEnoughGasProvided
  | HeMissingInvocationLimitReached
  | HeFailedToSetL2Block string
  | HeFailedToAppendTransactionToL2Block string
  | HeVMPanic
  | HeTracerCustom string
  | HeFailedToPublishCompressedBytecodes
  | HeFailedBlockTimestampAssertion
  | HeGenericError string

fun halt_error_code :: "halt_error \<Rightarrow> u32" where
  "halt_error_code (HeValidationFailed _ _) = 1"
| "halt_error_code (HePaymasterValidationFailed _ _) = 2"
| "halt_error_code (HePrePaymasterPreparationFailed _ _) = 3"
| "halt_error_code (HePayForTxFailed _ _) = 4"
| "halt_error_code (HeFailedToMarkFactoryDependencies _ _) = 5"
| "halt_error_code (HeFailedToChargeFee _ _) = 6"
| "halt_error_code HeFromIsNotAnAccount = 7"
| "halt_error_code HeInnerTxError = 8"
| "halt_error_code (HeUnknown _ _) = 9"
| "halt_error_code (HeUnexpectedVMBehavior _) = 10"
| "halt_error_code HeBootloaderOutOfGas = 11"
| "halt_error_code HeValidationOutOfGas = 12"
| "halt_error_code HeTooBigGasLimit = 13"
| "halt_error_code HeNotEnoughGasProvided = 14"
| "halt_error_code HeMissingInvocationLimitReached = 15"
| "halt_error_code (HeFailedToSetL2Block _) = 16"
| "halt_error_code (HeFailedToAppendTransactionToL2Block _) = 17"
| "halt_error_code HeVMPanic = 18"
| "halt_error_code (HeTracerCustom _) = 19"
| "halt_error_code HeFailedToPublishCompressedBytecodes = 20"
| "halt_error_code HeFailedBlockTimestampAssertion = 21"
| "halt_error_code (HeGenericError _) = 0"

fun halt_error_message :: "text_api \<Rightarrow> halt_error \<Rightarrow> string" where
  "halt_error_message tx (HeValidationFailed msg data) =
     ''[anvil_zksync-halt-1] Account validation error: '' @ msg @ '': '' @ data"
| "halt_error_message tx (HePaymasterValidationFailed msg data) =
     ''[anvil_zksync-halt-2] Paymaster validation error: '' @ msg @ '': '' @ data @ ''.''"
| "halt_error_message tx (HePrePaymasterPreparationFailed msg data) =
     ''[anvil_zksync-halt-3] Pre-paymaster preparation error: '' @ msg @ '': '' @ data"
| "halt_error_message tx (HePayForTxFailed msg data) =
     ''[anvil_zksync-halt-4] Failed to pay for the transaction: '' @ msg @ '': '' @ data"
| "halt_error_message tx (HeFailedToMarkFactoryDependencies msg data) =
     ''[anvil_zksync-halt-5] Failed to mark factory dependencies: '' @ msg @ '': '' @ data"
| "halt_error_message tx (HeFailedToChargeFee msg data) =
     ''[anvil_zksync-halt-6] Failed to charge fee: '' @ msg @ '': '' @ data"
| "halt_error_message tx HeFromIsNotAnAccount =
     ''[anvil_zksync-halt-7] Sender is not an account''"
| "halt_error_message tx HeInnerTxError =
     ''[anvil_zksync-halt-8] Bootloader-based tx failed''"
| "halt_error_message tx (HeUnknown msg data) =
     ''[anvil_zksync-halt-9] Unknown reason: '' @ msg @ '': '' @ data"
| "halt_error_message tx (HeUnexpectedVMBehavior problem) =
     ''[anvil_zksync-halt-10] Virtual machine entered unexpected state. Error description: '' @ problem"
| "halt_error_message tx HeBootloaderOutOfGas =
     ''[anvil_zksync-halt-11] Bootloader out of gas''"
| "halt_error_message tx HeValidationOutOfGas =
     ''[anvil_zksync-halt-12] Validation run out of gas''"
| "halt_error_message tx HeTooBigGasLimit =
     ''[anvil_zksync-halt-13] Transaction has a too big ergs limit and will not be executed by the server''"
| "halt_error_message tx HeNotEnoughGasProvided =
     ''[anvil_zksync-halt-14] Bootloader does not have enough gas to proceed with the transaction.''"
| "halt_error_message tx HeMissingInvocationLimitReached =
     ''[anvil_zksync-halt-15] Transaction produced too much storage accesses.''"
| "halt_error_message tx (HeFailedToSetL2Block msg) =
     ''[anvil_zksync-halt-16] Failed to set information about the L2 block: '' @ msg"
| "halt_error_message tx (HeFailedToAppendTransactionToL2Block msg) =
     ''[anvil_zksync-halt-17] Failed to append the transaction to the current L2 block: '' @ msg"
| "halt_error_message tx HeVMPanic =
     ''[anvil_zksync-halt-18] VM panicked''"
| "halt_error_message tx (HeTracerCustom msg) =
     ''[anvil_zksync-halt-19] Tracer aborted execution: '' @ msg"
| "halt_error_message tx HeFailedToPublishCompressedBytecodes =
     ''[anvil_zksync-halt-20] Failed to publish compressed bytecodes''"
| "halt_error_message tx HeFailedBlockTimestampAssertion =
     ''[anvil_zksync-halt-21] Transaction failed `block.timestamp` assertion''"
| "halt_error_message tx (HeGenericError message) =
     ''[anvil_zksync-halt-0] Generic error: '' @ message"

datatype revert_error =
    ReGeneral string bytes
  | ReInnerTxError
  | ReVmError
  | ReUnknown string string
  | ReGenericError string

fun revert_error_code :: "revert_error \<Rightarrow> u32" where
  "revert_error_code (ReGeneral _ _) = 1"
| "revert_error_code ReInnerTxError = 2"
| "revert_error_code ReVmError = 3"
| "revert_error_code (ReUnknown _ _) = 4"
| "revert_error_code (ReGenericError _) = 0"

fun revert_error_message :: "text_api \<Rightarrow> revert_error \<Rightarrow> string" where
  "revert_error_message tx (ReGeneral msg _) =
     ''[anvil_zksync-revert-1] Execution reverted with message: '' @ msg"
| "revert_error_message tx ReInnerTxError =
     ''[anvil_zksync-revert-2] Bootloader-based transaction failed.''"
| "revert_error_message tx ReVmError =
     ''[anvil_zksync-revert-3] VM Error''"
| "revert_error_message tx (ReUnknown function_selector data) =
     ''[anvil_zksync-revert-4] Unknown VM revert reason: function_selector='' @ function_selector @ '', data='' @ data"
| "revert_error_message tx (ReGenericError message) =
     ''[anvil_zksync-revert-0] Generic error: '' @ message"

datatype gas_estim_error =
    GeExceedsLimitForPublishedPubdata u32 u32
  | GeExceedsBlockGasLimit u64 u64 u64
  | GeTransactionHalt halt_error
  | GeTransactionRevert revert_error bytes
  | GeTransactionAlwaysHalts halt_error
  | GeTransactionAlwaysReverts revert_error bytes
  | GeGenericError string

fun gas_estim_error_code :: "gas_estim_error \<Rightarrow> u32" where
  "gas_estim_error_code (GeExceedsLimitForPublishedPubdata _ _) = 1"
| "gas_estim_error_code (GeExceedsBlockGasLimit _ _ _) = 2"
| "gas_estim_error_code (GeTransactionHalt _) = 10"
| "gas_estim_error_code (GeTransactionRevert _ _) = 11"
| "gas_estim_error_code (GeTransactionAlwaysHalts _) = 20"
| "gas_estim_error_code (GeTransactionAlwaysReverts _ _) = 21"
| "gas_estim_error_code (GeGenericError _) = 0"

fun gas_estim_error_message :: "text_api \<Rightarrow> gas_estim_error \<Rightarrow> string" where
  "gas_estim_error_message tx (GeExceedsLimitForPublishedPubdata pubdata_published pubdata_limit) =
     ''[anvil_zksync-gas_estim-1] Transaction has published '' @ decimal (unat pubdata_published)
       @ '' bytes which exceeds limit for published pubdata ('' @ decimal (unat pubdata_limit) @ '').''"
| "gas_estim_error_message tx (GeExceedsBlockGasLimit overhead gas_for_pubdata estimated_body_cost) =
     ''[anvil_zksync-gas_estim-2] Estimating full gas limit overflows while adding up additional gas (''
       @ decimal (unat gas_for_pubdata) @ ''), overhead ('' @ decimal (unat overhead)
       @ ''), and estimated transaction body gas cost ('' @ decimal (unat estimated_body_cost) @ '').''"
| "gas_estim_error_message tx (GeTransactionHalt inner) =
     ''[anvil_zksync-gas_estim-10] Gas estimation failed because the transaction exhibits exotic gas behavior and ''
       @ ''reverts, burning all gas: '' @ halt_error_message tx inner"
| "gas_estim_error_message tx (GeTransactionRevert inner _) =
     ''[anvil_zksync-gas_estim-11] Gas estimation failed because the transaction exhibits exotic gas behavior and ''
       @ ''reverts, returning unspent gas: '' @ revert_error_message tx inner"
| "gas_estim_error_message tx (GeTransactionAlwaysHalts inner) =
     ''[anvil_zksync-gas_estim-20] Gas estimation is impossible because the transaction can not be executed with maximum ''
       @ ''gas, it reverts and returns unspent gas:'' @ newline_text @ halt_error_message tx inner"
| "gas_estim_error_message tx (GeTransactionAlwaysReverts inner _) =
     ''[anvil_zksync-gas_estim-21] Gas estimation is impossible because the transaction can not be executed with maximum ''
       @ ''gas, it reverts and burns all gas:'' @ newline_text @ revert_error_message tx inner"
| "gas_estim_error_message tx (GeGenericError message) =
     ''[anvil_zksync-gas_estim-0] Generic error: '' @ message"

datatype anvil_node_error =
    AnTransactionHalt halt_error h256
  | AnTransactionValidationFailed transaction_validation_error h256
  | AnTransactionGasEstimationFailed gas_estim_error bytes
  | AnTimestampBackwardsError u64 u64
  | AnSerializationError string h256 h256 string
  | AnGenericError string

fun anvil_node_error_code :: "anvil_node_error \<Rightarrow> u32" where
  "anvil_node_error_code (AnTransactionHalt _ _) = 1"
| "anvil_node_error_code (AnTransactionValidationFailed _ _) = 10"
| "anvil_node_error_code (AnTransactionGasEstimationFailed _ _) = 11"
| "anvil_node_error_code (AnTimestampBackwardsError _ _) = 20"
| "anvil_node_error_code (AnSerializationError _ _ _ _) = 30"
| "anvil_node_error_code (AnGenericError _) = 0"

fun anvil_node_error_message :: "text_api \<Rightarrow> anvil_node_error \<Rightarrow> string" where
  "anvil_node_error_message tx (AnTransactionHalt inner transaction_hash) =
     ''[anvil_zksync-node-1] Transaction '' @ tx_h256_display tx transaction_hash @ '' execution reverted and gas was burned:''
       @ newline_text @ halt_error_message tx inner"
| "anvil_node_error_message tx (AnTransactionValidationFailed inner transaction_hash) =
     ''[anvil_zksync-node-10] Transaction '' @ tx_h256_display tx transaction_hash @ '': validation failed:'' @ newline_text
       @ transaction_validation_error_message tx inner"
| "anvil_node_error_message tx (AnTransactionGasEstimationFailed inner _) =
     ''[anvil_zksync-node-11] Gas estimation failed:'' @ newline_text @ gas_estim_error_message tx inner"
| "anvil_node_error_message tx (AnTimestampBackwardsError timestamp_requested timestamp_now) =
     ''[anvil_zksync-node-20] Failed to force the next timestamp to value '' @ decimal (unat timestamp_requested)
       @ ''. It should be greater than the last timestamp '' @ decimal (unat timestamp_now) @ ''.''"
| "anvil_node_error_message tx (AnSerializationError transaction_type sender receiver reason) =
     ''[anvil_zksync-node-30] Failed to parse a '' @ transaction_type @ '' transaction from request (from=''
       @ tx_h256_display tx sender @ '', to='' @ tx_h256_display tx receiver @ ''): '' @ reason @ ''.''"
| "anvil_node_error_message tx (AnGenericError message) =
     ''[anvil_zksync-node-0] Generic error: '' @ message"

datatype state_load_error =
    SlLoadingStateOverExistingState
  | SlLoadEmptyState
  | SlStateDecompression string
  | SlStateDeserialization string
  | SlUnknownStateVersion u32
  | SlStateFileAccess string string
  | SlGenericError string

fun state_load_error_code :: "state_load_error \<Rightarrow> u32" where
  "state_load_error_code SlLoadingStateOverExistingState = 1"
| "state_load_error_code SlLoadEmptyState = 2"
| "state_load_error_code (SlStateDecompression _) = 3"
| "state_load_error_code (SlStateDeserialization _) = 4"
| "state_load_error_code (SlUnknownStateVersion _) = 5"
| "state_load_error_code (SlStateFileAccess _ _) = 6"
| "state_load_error_code (SlGenericError _) = 0"

fun state_load_error_message :: "text_api \<Rightarrow> state_load_error \<Rightarrow> string" where
  "state_load_error_message tx SlLoadingStateOverExistingState =
     ''[anvil_zksync-state-1] Loading state into a node with existing state is not allowed.''"
| "state_load_error_message tx SlLoadEmptyState =
     ''[anvil_zksync-state-2] Loading a state without blocks is not allowed.''"
| "state_load_error_message tx (SlStateDecompression details) =
     ''[anvil_zksync-state-3] Failed to decompress state: '' @ details @ ''.''"
| "state_load_error_message tx (SlStateDeserialization details) =
     ''[anvil_zksync-state-4] Failed to deserialize state: '' @ details"
| "state_load_error_message tx (SlUnknownStateVersion version) =
     ''[anvil_zksync-state-5] Unknown version of the state: '' @ decimal (unat version) @ ''.''"
| "state_load_error_message tx (SlStateFileAccess path reason) =
     ''[anvil_zksync-state-6] Error while accessing the state located at `'' @ path @ ''`: '' @ reason @ ''.''"
| "state_load_error_message tx (SlGenericError message) =
     ''[anvil_zksync-state-0] Generic error: '' @ message"

datatype anvil_error =
    AnvilEnvironmentError anvil_environment
  | AnvilGenericError anvil_generic
  | AnvilNodeError anvil_node_error
  | GasEstimationError gas_estim_error
  | HaltError halt_error
  | RevertReasonError revert_error
  | StateLoaderError state_load_error
  | TransactionValidationError transaction_validation_error

fun get_kind :: "anvil_error \<Rightarrow> kind" where
  "get_kind (AnvilEnvironmentError _) = KindAnvilZksync CAnvilEnvironment"
| "get_kind (AnvilGenericError _) = KindAnvilZksync CAnvilGeneric"
| "get_kind (AnvilNodeError _) = KindAnvilZksync CAnvilNode"
| "get_kind (GasEstimationError _) = KindAnvilZksync CGasEstimation"
| "get_kind (HaltError _) = KindAnvilZksync CHalt"
| "get_kind (RevertReasonError _) = KindAnvilZksync CRevert"
| "get_kind (StateLoaderError _) = KindAnvilZksync CStateLoader"
| "get_kind (TransactionValidationError _) = KindAnvilZksync CTransactionValidation"

fun get_code :: "anvil_error \<Rightarrow> u32" where
  "get_code (AnvilEnvironmentError e) = anvil_environment_code e"
| "get_code (AnvilGenericError e) = anvil_generic_code e"
| "get_code (AnvilNodeError e) = anvil_node_error_code e"
| "get_code (GasEstimationError e) = gas_estim_error_code e"
| "get_code (HaltError e) = halt_error_code e"
| "get_code (RevertReasonError e) = revert_error_code e"
| "get_code (StateLoaderError e) = state_load_error_code e"
| "get_code (TransactionValidationError e) = transaction_validation_error_code e"

fun get_message :: "text_api \<Rightarrow> anvil_error \<Rightarrow> string" where
  "get_message tx (AnvilEnvironmentError e) = anvil_environment_message tx e"
| "get_message tx (AnvilGenericError e) = anvil_generic_message tx e"
| "get_message tx (AnvilNodeError e) = anvil_node_error_message tx e"
| "get_message tx (GasEstimationError e) = gas_estim_error_message tx e"
| "get_message tx (HaltError e) = halt_error_message tx e"
| "get_message tx (RevertReasonError e) = revert_error_message tx e"
| "get_message tx (StateLoaderError e) = state_load_error_message tx e"
| "get_message tx (TransactionValidationError e) = transaction_validation_error_message tx e"

definition get_identifier :: "anvil_error \<Rightarrow> error_identifier" where
  "get_identifier e = \<lparr>id_kind = get_kind e, id_code = get_code e\<rparr>"

text \<open>An error on its way out of the process: \<open>packed.rs\<close>, \<open>serialized.rs\<close>; \<open>to_json\<close> is the JSON of its data.\<close>

record packed_error =
  pe_identifier :: error_identifier
  pe_message :: string
  pe_data :: anvil_error

record 'j serialized_error =
  se_code :: u32
  se_message :: string
  se_data :: 'j

definition pack :: "text_api \<Rightarrow> anvil_error \<Rightarrow> packed_error" where
  "pack tx e = \<lparr>pe_identifier = get_identifier e, pe_message = get_message tx e, pe_data = e\<rparr>"

definition serialize :: "(anvil_error \<Rightarrow> 'j) \<Rightarrow> packed_error \<Rightarrow> 'j serialized_error" where
  "serialize to_json p =
     \<lparr>se_code = identifier_encode (pe_identifier p), se_message = pe_message p, se_data = to_json (pe_data p)\<rparr>"

definition serialized_identifier :: "'j serialized_error \<Rightarrow> ('e, error_identifier) outcome" where
  "serialized_identifier s =
     expect ''called `Option::unwrap()` on a `None` value'' (identifier_decode (structured_decode (se_code s)))"

section \<open>Reverts and halts of the virtual machine\<close>

datatype vm_revert_reason =
    VmGeneral string bytes
  | VmInnerTxError
  | VmVmError
  | VmUnknown bytes bytes

datatype vm_halt =
    VhValidationFailed vm_revert_reason
  | VhPaymasterValidationFailed vm_revert_reason
  | VhPrePaymasterPreparationFailed vm_revert_reason
  | VhPayForTxFailed vm_revert_reason
  | VhFailedToMarkFactoryDependencies vm_revert_reason
  | VhFailedToChargeFee vm_revert_reason
  | VhFromIsNotAnAccount
  | VhInnerTxError
  | VhUnknown vm_revert_reason
  | VhUnexpectedVMBehavior string
  | VhBootloaderOutOfGas
  | VhValidationOutOfGas
  | VhTooBigGasLimit
  | VhNotEnoughGasProvided
  | VhMissingInvocationLimitReached
  | VhFailedToSetL2Block string
  | VhFailedToAppendTransactionToL2Block string
  | VhVMPanic
  | VhTracerCustom string
  | VhFailedToPublishCompressedBytecodes
  | VhFailedBlockTimestampAssertion

text \<open>The lookup of a selector threads the count of requests and the cache directory; \<open>shown\<close> is the text of its failure.\<close>

definition handle_vm_revert_reason ::
  "resolver_env \<Rightarrow> (resolver_error \<Rightarrow> string) \<Rightarrow> vm_revert_reason \<Rightarrow> nat \<Rightarrow> 'b cache_dir
     \<Rightarrow> (string \<times> bytes) \<times> nat \<times> 'b cache_dir" where
  "handle_vm_revert_reason env shown reason n dir = (case reason of
       VmGeneral msg data \<Rightarrow> ((msg, data), n, dir)
     | VmInnerTxError \<Rightarrow> ((''Inner transaction error'', []), n, dir)
     | VmVmError \<Rightarrow> ((''VM Error'', []), n, dir)
     | VmUnknown function_selector data \<Rightarrow>
         if function_selector = [] then ((''Error: no function selector available'', []), n, dir)
         else let hex_selector = hex_encode function_selector;
                  (res, n, dir) = decode_function_selector env hex_selector n dir
              in (case res of
                    Inr (Some decoded_name) \<Rightarrow> (decoded_name, data)
                  | Inr None \<Rightarrow> (''Error with function selector: 0x'' @ hex_selector, data)
                  | Inl e \<Rightarrow> (''Error with function selector: 0x'' @ hex_selector @ ''. Decode failure: '' @ shown e, data),
                  n, dir))"

definition string_bytes :: "string \<Rightarrow> bytes" where
  "string_bytes s = map (\<lambda>c. of_nat (of_char c)) s"

definition to_revert_reason ::
  "resolver_env \<Rightarrow> (resolver_error \<Rightarrow> string) \<Rightarrow> vm_revert_reason \<Rightarrow> nat \<Rightarrow> 'b cache_dir
     \<Rightarrow> revert_error \<times> nat \<times> 'b cache_dir" where
  "to_revert_reason env shown reason n dir =
     (let ((message, data), n, dir) = handle_vm_revert_reason env shown reason n dir
      in (case reason of
            VmGeneral _ _ \<Rightarrow> ReGeneral message (string_bytes (hex_encode data))
          | VmInnerTxError \<Rightarrow> ReInnerTxError
          | VmVmError \<Rightarrow> ReVmError
          | VmUnknown _ _ \<Rightarrow> ReUnknown message (hex_encode data), n, dir))"

fun halt_revert_reason :: "vm_halt \<Rightarrow> vm_revert_reason option" where
  "halt_revert_reason (VhValidationFailed r) = Some r"
| "halt_revert_reason (VhPaymasterValidationFailed r) = Some r"
| "halt_revert_reason (VhPrePaymasterPreparationFailed r) = Some r"
| "halt_revert_reason (VhPayForTxFailed r) = Some r"
| "halt_revert_reason (VhFailedToMarkFactoryDependencies r) = Some r"
| "halt_revert_reason (VhFailedToChargeFee r) = Some r"
| "halt_revert_reason (VhUnknown r) = Some r"
| "halt_revert_reason _ = None"

definition to_halt_error ::
  "resolver_env \<Rightarrow> (resolver_error \<Rightarrow> string) \<Rightarrow> vm_halt \<Rightarrow> nat \<Rightarrow> 'b cache_dir \<Rightarrow> halt_error \<times> nat \<times> 'b cache_dir" where
  "to_halt_error env shown halt n dir =
     (let ((msg, data), n, dir) = (case halt_revert_reason halt of
            Some reason \<Rightarrow> (let ((msg, data), n, dir) = handle_vm_revert_reason env shown reason n dir
              in ((msg, hex_encode data), n, dir))
          | None \<Rightarrow> ((''Unknown revert reason'', []), n, dir))
      in (case halt of
            VhValidationFailed _ \<Rightarrow> HeValidationFailed msg data
          | VhPaymasterValidationFailed _ \<Rightarrow> HePaymasterValidationFailed msg data
          | VhPrePaymasterPreparationFailed _ \<Rightarrow> HePrePaymasterPreparationFailed msg data
          | VhPayForTxFailed _ \<Rightarrow> HePayForTxFailed msg data
          | VhFailedToMarkFactoryDependencies _ \<Rightarrow> HeFailedToMarkFactoryDependencies msg data
          | VhFailedToChargeFee _ \<Rightarrow> HeFailedToChargeFee msg data
          | VhUnknown _ \<Rightarrow> HeUnknown msg data
          | VhUnexpectedVMBehavior m \<Rightarrow> HeUnexpectedVMBehavior m
          | VhFailedToSetL2Block m \<Rightarrow> HeFailedToSetL2Block m
          | VhFailedToAppendTransactionToL2Block m \<Rightarrow> HeFailedToAppendTransactionToL2Block m
          | VhTracerCustom m \<Rightarrow> HeTracerCustom m
          | VhFromIsNotAnAccount \<Rightarrow> HeFromIsNotAnAccount
          | VhInnerTxError \<Rightarrow> HeInnerTxError
          | VhBootloaderOutOfGas \<Rightarrow> HeBootloaderOutOfGas
          | VhValidationOutOfGas \<Rightarrow> HeValidationOutOfGas
          | VhTooBigGasLimit \<Rightarrow> HeTooBigGasLimit
          | VhNotEnoughGasProvided \<Rightarrow> HeNotEnoughGasProvided
          | VhMissingInvocationLimitReached \<Rightarrow> HeMissingInvocationLimitReached
          | VhVMPanic \<Rightarrow> HeVMPanic
          | VhFailedToPublishCompressedBytecodes \<Rightarrow> HeFailedToPublishCompressedBytecodes
          | VhFailedBlockTimestampAssertion \<Rightarrow> HeFailedBlockTimestampAssertion, n, dir))"

section \<open>Answers of the server\<close>

datatype rpc_error_code = InvalidParams | InternalErrorCode | MethodNotFound | ServerIsBusy | ServerError "32 word"

datatype rpc_code = StandardCode rpc_error_code | NumberCode "32 word"

datatype rpc_data = RpcText string | RpcError anvil_error

record rpc_error =
  rpc_code :: rpc_code
  rpc_message :: string
  rpc_data :: "rpc_data option"

datatype web3_error =
    W3InternalError string
  | W3MethodNotImplemented
  | W3NoBlock
  | W3PrunedBlock u32
  | W3PrunedL1Batch u32
  | W3ProxyError string
  | W3TooManyTopics
  | W3FilterNotFound
  | W3LogsLimitExceeded nat u32 u32
  | W3InvalidFilterBlockHash
  | W3TreeApiUnavailable
  | W3SubmitTransactionError string bytes
  | W3SerializationError string
  | W3ServerShuttingDown

record rpc_text =
  rt_text :: text_api
  rt_web3 :: "web3_error \<Rightarrow> string"

definition to_rpc :: "rpc_text \<Rightarrow> rpc_error_code option \<Rightarrow> anvil_error \<Rightarrow> rpc_error" where
  "to_rpc rt code e = \<lparr>rpc_code = (case code of Some c \<Rightarrow> StandardCode c
       | None \<Rightarrow> NumberCode (identifier_encode (get_identifier e))),
     rpc_message = get_message (rt_text rt) e, rpc_data = Some (RpcError e)\<rparr>"

definition rpc_of_state_loader :: "rpc_text \<Rightarrow> state_load_error \<Rightarrow> rpc_error" where
  "rpc_of_state_loader rt e =
     (let error_code = (case e of
          SlLoadingStateOverExistingState \<Rightarrow> InvalidParams
        | SlLoadEmptyState \<Rightarrow> InvalidParams
        | SlStateDecompression _ \<Rightarrow> InvalidParams
        | SlStateDeserialization _ \<Rightarrow> InvalidParams
        | SlUnknownStateVersion _ \<Rightarrow> InvalidParams
        | SlStateFileAccess _ _ \<Rightarrow> InvalidParams
        | SlGenericError _ \<Rightarrow> InternalErrorCode)
      in to_rpc rt (Some error_code) (StateLoaderError e))"

definition rpc_of_web3 :: "rpc_text \<Rightarrow> web3_error \<Rightarrow> rpc_error" where
  "rpc_of_web3 rt e =
     (let code = (case e of
          W3InternalError _ \<Rightarrow> InternalErrorCode
        | W3MethodNotImplemented \<Rightarrow> MethodNotFound
        | W3SubmitTransactionError _ _ \<Rightarrow> ServerError 3
        | W3SerializationError _ \<Rightarrow> ServerError 3
        | W3ServerShuttingDown \<Rightarrow> ServerIsBusy
        | _ \<Rightarrow> InvalidParams);
          data = (case e of W3SubmitTransactionError _ data \<Rightarrow> Some (RpcText (''0x'' @ hex_encode data)) | _ \<Rightarrow> None);
          message = (case e of W3InternalError m \<Rightarrow> m | _ \<Rightarrow> rt_web3 rt e)
      in \<lparr>rpc_code = StandardCode code, rpc_message = message, rpc_data = data\<rparr>)"

definition rpc_of_node :: "rpc_text \<Rightarrow> anvil_node_error \<Rightarrow> rpc_error" where
  "rpc_of_node rt e = (case e of
       AnTransactionGasEstimationFailed inner _ \<Rightarrow>
         rpc_of_web3 rt (W3SubmitTransactionError (get_message (rt_text rt) (AnvilNodeError e))
           (case inner of
              GeTransactionRevert _ data \<Rightarrow> data
            | GeTransactionAlwaysReverts _ data \<Rightarrow> data
            | _ \<Rightarrow> []))
     | AnSerializationError _ _ _ _ \<Rightarrow>
         rpc_of_web3 rt (W3SubmitTransactionError (get_message (rt_text rt) (AnvilNodeError e)) [])
     | _ \<Rightarrow> to_rpc rt (Some InternalErrorCode) (AnvilNodeError e))"

definition rpc_of_anyhow :: "string \<Rightarrow> rpc_error" where
  "rpc_of_anyhow m = \<lparr>rpc_code = StandardCode InternalErrorCode, rpc_message = m, rpc_data = None\<rparr>"

definition rpc_invalid_params :: "string \<Rightarrow> rpc_error" where
  "rpc_invalid_params m = \<lparr>rpc_code = StandardCode InvalidParams, rpc_message = m, rpc_data = None\<rparr>"

definition rpc_unsupported :: "string \<Rightarrow> rpc_error" where
  "rpc_unsupported method_name =
     \<lparr>rpc_code = StandardCode MethodNotFound, rpc_message = ''Method not found: '' @ method_name, rpc_data = None\<rparr>"

section \<open>Lemmas\<close>

lemma structured_roundtrip:
  assumes "unat d < 10" "unat k < 10" "unat c < 1000"
  shows "structured_decode (d * 10000 + k * 1000 + c) = \<lparr>sc_domain_code = d, sc_component_code = k, sc_error_code = c\<rparr>"
proof -
  have n: "unat (d * 10000 + k * 1000 + c) = unat d * 10000 + unat k * 1000 + unat c"
    using assms by (simp add: unat_word_ariths)
  have "x div 10000 mod 10 = a" "x div 1000 mod 10 = b" "x mod 1000 = e"
    if "x = a * 10000 + b * 1000 + e" "a < 10" "b < 10" "e < 1000" for x a b e :: nat
  proof -
    define q where "q = b + 10 * a"
    have "x = e + 1000 * q" using that(1) by (simp add: q_def)
    then have "x div 1000 = b + 10 * a" "x mod 1000 = e" using that(4) by (simp_all add: q_def [symmetric])
    then show "x div 1000 mod 10 = b" "x mod 1000 = e" using that(3) by simp_all
    have "x = (e + 1000 * b) + 10000 * a" using that(1) by simp
    then have "x div 10000 = a" using that(3,4) by simp
    then show "x div 10000 mod 10 = a" using that(2) by simp
  qed
  then have "(d * 10000 + k * 1000 + c) div 10000 mod 10 = d" "(d * 10000 + k * 1000 + c) div 1000 mod 10 = k"
    "(d * 10000 + k * 1000 + c) mod 1000 = c"
    using assms by (auto intro!: unat_eqI simp: unat_div unat_mod n)
  then show ?thesis by (simp add: structured_decode_def)
qed

text \<open>Every kind has its own pair of numbers, from which it is found again.\<close>

lemmas components_defs =
  anvil_components_def compiler_components_def core_components_def foundry_components_def hardhat_components_def

lemma kind_codes:
  "unat (domain_code k) < 10 \<and> unat (component_code k) < 10 \<and>
     identifier_decode \<lparr>sc_domain_code = domain_code k, sc_component_code = component_code k, sc_error_code = c\<rparr>
       = Some \<lparr>id_kind = k, id_code = c\<rparr>"
  by (cases k rule: kind_repr.cases) (simp_all add: components_defs identifier_decode_def from_repr_def Let_def)

lemma identifier_roundtrip:
  "unat (id_code i) < 1000 \<Longrightarrow> identifier_decode (structured_decode (identifier_encode i)) = Some i"
  using structured_roundtrip [of "domain_code (id_kind i)" "component_code (id_kind i)" "id_code i"]
    kind_codes [of "id_kind i" "id_code i"]
  by (simp add: identifier_encode_def)

lemma error_codes_small:
  "unat (anvil_environment_code ee) < 1000" "unat (anvil_generic_code g) < 1000" "unat (transaction_validation_error_code tv) < 1000"
  "unat (halt_error_code h) < 1000" "unat (revert_error_code rv) < 1000" "unat (gas_estim_error_code ge) < 1000"
  "unat (anvil_node_error_code n) < 1000" "unat (state_load_error_code sl) < 1000"
  subgoal by (cases ee) simp_all
  subgoal by (cases g) simp_all
  subgoal by (cases tv) simp_all
  subgoal by (cases h) simp_all
  subgoal by (cases rv) simp_all
  subgoal by (cases ge) simp_all
  subgoal by (cases n) simp_all
  subgoal by (cases sl) simp_all
  done

lemma get_code_small: "unat (get_code e) < 1000"
  by (cases e) (simp_all add: error_codes_small)

lemma decimal_codes:
  "decimal 0 = ''0''"
  "decimal (Suc 0) = ''1''"
  "decimal 2 = ''2''"
  "decimal 3 = ''3''"
  "decimal 4 = ''4''"
  "decimal 5 = ''5''"
  "decimal 6 = ''6''"
  "decimal 7 = ''7''"
  "decimal 8 = ''8''"
  "decimal 9 = ''9''"
  "decimal 10 = ''10''"
  "decimal 11 = ''11''"
  "decimal 12 = ''12''"
  "decimal 13 = ''13''"
  "decimal 14 = ''14''"
  "decimal 15 = ''15''"
  "decimal 16 = ''16''"
  "decimal 17 = ''17''"
  "decimal 18 = ''18''"
  "decimal 19 = ''19''"
  "decimal 20 = ''20''"
  "decimal 21 = ''21''"
  "decimal 30 = ''30''"
  by code_simp+

definition tagged :: "anvil_component \<Rightarrow> u32 \<Rightarrow> string \<Rightarrow> bool" where
  "tagged c code m \<longleftrightarrow> (let tag = identifier_repr \<lparr>id_kind = KindAnvilZksync c, id_code = code\<rparr> in take (length tag) m = tag)"

lemmas tagged_defs = tagged_def identifier_repr_def decimal_codes Let_def

lemma messages_tagged:
  "tagged CAnvilEnvironment (anvil_environment_code ee) (anvil_environment_message tx ee)"
  "tagged CAnvilGeneric (anvil_generic_code g) (anvil_generic_message tx g)"
  "tagged CTransactionValidation (transaction_validation_error_code tv) (transaction_validation_error_message tx tv)"
  "tagged CHalt (halt_error_code h) (halt_error_message tx h)"
  "tagged CRevert (revert_error_code rv) (revert_error_message tx rv)"
  "tagged CGasEstimation (gas_estim_error_code ge) (gas_estim_error_message tx ge)"
  "tagged CAnvilNode (anvil_node_error_code n) (anvil_node_error_message tx n)"
  "tagged CStateLoader (state_load_error_code sl) (state_load_error_message tx sl)"
  subgoal by (cases ee) (simp_all add: tagged_defs)
  subgoal by (cases g) (simp_all add: tagged_defs)
  subgoal by (cases tv) (simp_all add: tagged_defs)
  subgoal by (cases h) (simp_all add: tagged_defs)
  subgoal by (cases rv) (simp_all add: tagged_defs)
  subgoal by (cases ge) (simp_all add: tagged_defs)
  subgoal by (cases n) (simp_all add: tagged_defs)
  subgoal by (cases sl) (simp_all add: tagged_defs)
  done

text \<open>C26: An error that left the process is recognised again: the number it was sent with decodes to its identifier, so
  no two kinds of error share a number, and the message starts with the same identifier.\<close>

theorem error_identified:
  "serialized_identifier (serialize to_json (pack tx e)) = (Inr (get_identifier e) :: ('x, error_identifier) outcome)
     \<and> take (length (identifier_repr (get_identifier e))) (get_message tx e) = identifier_repr (get_identifier e)"
  using identifier_roundtrip [of "get_identifier e"] get_code_small [of e] messages_tagged [of _ tx]
  by (cases e) (simp_all add: serialized_identifier_def serialize_def pack_def get_identifier_def tagged_def Let_def)

text \<open>
  A revert that is looked up twice: the first report names the selector, the second, from the cache, has an empty name
  when the database knows none.
\<close>

lemma revert_report_again:
  assumes "dir_distinct d" "dir_writable d" "selector \<noteq> []"
    and "decode_function_selector env (hex_encode selector) n d = (Inr None, n', d')"
  shows "to_revert_reason env shown (VmUnknown selector data) n d =
      (ReUnknown (''Error with function selector: 0x'' @ hex_encode selector) (hex_encode data), n', d')"
    "to_revert_reason env' shown (VmUnknown selector data) m d' = (ReUnknown [] (hex_encode data), m, d')"
proof -
  show "to_revert_reason env shown (VmUnknown selector data) n d =
      (ReUnknown (''Error with function selector: 0x'' @ hex_encode selector) (hex_encode data), n', d')"
    using assms(3,4) by (simp add: to_revert_reason_def handle_vm_revert_reason_def Let_def)
  have "decode_function_selector env' (hex_encode selector) m d' = (Inr (Some []), m, d')"
    using cached_answer [OF assms(1,2), of "client_decode_function_selector env (hex_encode selector)"] assms(4)
    unfolding decode_function_selector_def by force
  then show "to_revert_reason env' shown (VmUnknown selector data) m d' = (ReUnknown [] (hex_encode data), m, d')"
    using assms(3) by (simp add: to_revert_reason_def handle_vm_revert_reason_def Let_def)
qed

end
