(* ===== verification/L1_Batches.thy ===== *)
theory L1_Batches
  imports Node_Ext
begin

text \<open>
  Batches as L1 sees them: \<open>commitment_generator.rs\<close> and \<open>contracts/mod.rs\<close> of \<open>crates/l1_sidecar/src/\<close>.

  The commitment computation, the ABI encoding, the Merkle tree of priority operations (\<open>'m\<close>) and the built-in
  configuration files are the fields of \<open>l1_api\<close>. A batch's random root hash is an argument.
\<close>

section \<open>Batches with metadata\<close>

record genesis_config =
  gc_genesis_root :: h256
  gc_genesis_rollup_leaf_index :: u64
  gc_genesis_batch_commitment :: h256
  gc_genesis_protocol_version :: protocol_version
  gc_default_aa_hash :: h256
  gc_bootloader_hash :: h256
  gc_evm_emulator_hash :: "h256 option"
  gc_l1_chain_id :: u64
  gc_l2_chain_id :: u64
  gc_fee_account :: address

text \<open>Of the addresses of \<open>ContractsConfig\<close>, those the sidecar and the \<open>zks\<close> namespace read.\<close>

record l1_contracts =
  ct_validator_timelock_addr :: address
  ct_diamond_proxy_addr :: address
  ct_governance_addr :: address
  ct_chain_admin_addr :: address
  ct_state_transition_proxy_addr :: address
  ct_bridgehub_proxy_addr :: address
  ct_shared_l1_address :: address
  ct_shared_l2_address :: "address option"
  ct_erc20_l1_address :: address
  ct_erc20_l2_address :: "address option"
  ct_legacy_shared_bridge_addr :: "address option"

record zkstack_config =
  zc_genesis :: genesis_config
  zc_contracts :: l1_contracts

record commitment_common =
  ci_l2_to_l1_logs :: "user_l2_to_l1_log list"
  ci_rollup_last_leaf_index :: u64
  ci_rollup_root_hash :: h256
  ci_hashes :: base_system_contracts_hashes
  ci_protocol_version :: protocol_version

datatype commitment_input =
    GenesisInput commitment_common
  | PostBoojum commitment_common "user_l2_to_l1_log list" "state_diff_record list" "h256 \<times> h256" "(h256 \<times> h256) list" h256

record artifacts =
  ar_initial_writes :: "bytes option"
  ar_repeated_writes :: "bytes option"
  ar_commitment :: h256
  ar_l2_l1_merkle_root :: h256
  ar_meta_params :: bytes
  ar_aux_data_hash :: h256
  ar_meta_parameters_hash :: h256
  ar_pass_through_data_hash :: h256
  ar_aux_commitments :: "(h256 \<times> h256) option"
  ar_state_diffs_compressed :: "bytes option"
  ar_state_diff_hash :: h256
  ar_local_root :: h256
  ar_aggregation_root :: h256

record l1_batch_metadata =
  mt_root_hash :: h256
  mt_rollup_last_leaf_index :: u64
  mt_initial_writes_compressed :: "bytes option"
  mt_repeated_writes_compressed :: "bytes option"
  mt_commitment :: h256
  mt_l2_l1_merkle_root :: h256
  mt_block_meta_params :: bytes
  mt_aux_data_hash :: h256
  mt_meta_parameters_hash :: h256
  mt_pass_through_data_hash :: h256
  mt_events_queue_commitment :: "h256 option"
  mt_bootloader_initial_content_commitment :: "h256 option"
  mt_state_diffs_compressed :: bytes
  mt_state_diff_hash :: "h256 option"
  mt_local_root :: "h256 option"
  mt_aggregation_root :: "h256 option"

record batch_with_metadata =
  bm_header :: l1_batch_header
  bm_fee_address :: address
  bm_metadata :: l1_batch_metadata

record stored_batch_info =
  si_number :: u64
  si_root_hash :: h256
  si_rollup_last_leaf_index :: u64
  si_l1_tx_count :: u256
  si_priority_ops_hash :: h256
  si_l2_l1_merkle_root :: h256
  si_timestamp :: u256
  si_commitment :: h256

record commit_batch_info =
  cb_number :: u64
  cb_timestamp :: u64
  cb_rollup_last_leaf_index :: u64
  cb_root_hash :: h256
  cb_l1_tx_count :: u256
  cb_priority_ops_hash :: h256
  cb_bootloader_initial_content :: h256
  cb_events_queue :: h256
  cb_system_logs :: bytes
  cb_da_input :: h256

record priority_ops_batch_info =
  po_left_path :: "h256 list"
  po_right_path :: "h256 list"
  po_item_hashes :: "h256 list"

record upgrade_tx =
  up_hash :: h256
  up_initiator :: address
  up_transaction :: transaction

record 'm l1_api =
  la_artifacts :: "commitment_input \<Rightarrow> artifacts"
  la_num_blobs_required :: "protocol_version \<Rightarrow> nat"
  la_onchain_data_hash :: "bytes \<Rightarrow> h256"
  la_priority_ops_hash :: "bytes list \<Rightarrow> h256"
  la_serialize_commitments :: "user_l2_to_l1_log list \<Rightarrow> bytes"
  la_encode_commit :: "stored_batch_info \<Rightarrow> commit_batch_info list \<Rightarrow> bytes"
  la_encode_prove :: "stored_batch_info \<Rightarrow> stored_batch_info list \<Rightarrow> u256 list \<Rightarrow> bytes"
  la_encode_execute :: "stored_batch_info list \<Rightarrow> priority_ops_batch_info list \<Rightarrow> bytes"
  la_tree_new :: 'm
  la_tree_push_hash :: "h256 \<Rightarrow> 'm \<Rightarrow> 'm"
  la_tree_paths_for_range :: "nat \<Rightarrow> 'm \<Rightarrow> h256 option list \<times> h256 option list"
  la_tree_hashes_prefix :: "nat \<Rightarrow> 'm \<Rightarrow> h256 list"
  la_builtin_config :: "protocol_version \<rightharpoonup> zkstack_config"
  la_builtin_upgrade_tx :: "protocol_version \<rightharpoonup> upgrade_tx"

section \<open>The commitment generator\<close>

record commitment_generator =
  cg_hashes :: base_system_contracts_hashes
  cg_fee_address :: address
  cg_batches :: "u32 \<rightharpoonup> batch_with_metadata"

fun input_common :: "commitment_input \<Rightarrow> commitment_common" where
  "input_common (GenesisInput c) = c"
| "input_common (PostBoojum c _ _ _ _ _) = c"

definition generate_metadata_inner ::
  "'m l1_api \<Rightarrow> l1_batch_header \<Rightarrow> address \<Rightarrow> commitment_input \<Rightarrow> batch_with_metadata" where
  "generate_metadata_inner la header fee_address commitment_input =
     (let ar = la_artifacts la commitment_input;
          merkle_root = (if hd_number header = 0 then 0 else ar_l2_l1_merkle_root ar)
      in \<lparr>bm_header = header, bm_fee_address = fee_address,
          bm_metadata = \<lparr>mt_root_hash = ci_rollup_root_hash (input_common commitment_input),
            mt_rollup_last_leaf_index = ci_rollup_last_leaf_index (input_common commitment_input),
            mt_initial_writes_compressed = ar_initial_writes ar, mt_repeated_writes_compressed = ar_repeated_writes ar,
            mt_commitment = ar_commitment ar, mt_l2_l1_merkle_root = merkle_root, mt_block_meta_params = ar_meta_params ar,
            mt_aux_data_hash = ar_aux_data_hash ar, mt_meta_parameters_hash = ar_meta_parameters_hash ar,
            mt_pass_through_data_hash = ar_pass_through_data_hash ar,
            mt_events_queue_commitment = map_option fst (ar_aux_commitments ar),
            mt_bootloader_initial_content_commitment = map_option snd (ar_aux_commitments ar),
            mt_state_diffs_compressed = case_option [] id (ar_state_diffs_compressed ar),
            mt_state_diff_hash = Some (ar_state_diff_hash ar), mt_local_root = Some (ar_local_root ar),
            mt_aggregation_root = Some (ar_aggregation_root ar)\<rparr>\<rparr>)"

definition commitment_generator_new :: "'m l1_api \<Rightarrow> zkstack_config \<Rightarrow> (string, commitment_generator) outcome" where
  "commitment_generator_new la config =
     (let g = zc_genesis config;
          hashes = \<lparr>bsc_bootloader = gc_bootloader_hash g, bsc_default_aa = gc_default_aa_hash g,
            bsc_evm_emulator = gc_evm_emulator_hash g\<rparr>;
          header = l1_batch_header_new 0 0 hashes (gc_genesis_protocol_version g);
          genesis = generate_metadata_inner la header (gc_fee_account g)
            (GenesisInput \<lparr>ci_l2_to_l1_logs = [], ci_rollup_last_leaf_index = gc_genesis_rollup_leaf_index g,
              ci_rollup_root_hash = gc_genesis_root g, ci_hashes = hashes, ci_protocol_version = gc_genesis_protocol_version g\<rparr>)
      in if gc_genesis_batch_commitment g \<noteq> mt_commitment (bm_metadata genesis)
         then Inl (Panic ''Computed genesis batch commitment does not match zkstack config'')
         else Inr \<lparr>cg_hashes = hashes, cg_fee_address = gc_fee_account g, cg_batches = [0 \<mapsto> genesis]\<rparr>)"

definition generate_metadata ::
  "'m l1_api \<Rightarrow> commitment_generator \<Rightarrow> l1_batch_header \<Rightarrow> state_diff_record list \<Rightarrow> h256 \<Rightarrow> h256 \<times> u64
     \<Rightarrow> (string, batch_with_metadata) outcome" where
  "generate_metadata la cg header state_diffs aggregation_root tree_data =
     and_then (expect ''batch header is missing protocol version'' (hd_protocol_version header)) (\<lambda>version.
       let common = \<lparr>ci_l2_to_l1_logs = hd_l2_to_l1_logs header, ci_rollup_last_leaf_index = snd tree_data,
             ci_rollup_root_hash = fst tree_data, ci_hashes = cg_hashes cg, ci_protocol_version = version\<rparr>;
           input = PostBoojum common (hd_system_logs header) state_diffs (0, 0)
             (replicate (la_num_blobs_required la version) (0, 0)) aggregation_root
       in Inr (generate_metadata_inner la header (cg_fee_address cg) input))"

definition get_or_generate_metadata ::
  "'m l1_api \<Rightarrow> h256 \<Rightarrow> u32 \<Rightarrow> blockchain_state \<Rightarrow> commitment_generator
     \<Rightarrow> (string, batch_with_metadata option) outcome \<times> commitment_generator" where
  "get_or_generate_metadata la random batch_number chain cg = (case cg_batches cg batch_number of
       Some batch \<Rightarrow> (Inr (Some batch), cg)
     | None \<Rightarrow> (case and_then (get_batch_header batch_number chain) (\<lambda>h.
           and_then (get_batch_state_diffs batch_number chain) (\<lambda>d.
           and_then (get_batch_aggregation_root batch_number chain) (\<lambda>r. Inr (h, d, r)))) of
         Inl f \<Rightarrow> (Inl f, cg)
       | Inr (Some header, Some state_diffs, Some aggregation_root) \<Rightarrow>
           (case generate_metadata la cg (header\<lparr>hd_base_system_contracts_hashes := cg_hashes cg\<rparr>) state_diffs aggregation_root
               (random, 42) of
              Inl f \<Rightarrow> (Inl f, cg)
            | Inr batch \<Rightarrow> (Inr (Some batch), cg\<lparr>cg_batches := (cg_batches cg)(batch_number \<mapsto> batch)\<rparr>))
       | Inr _ \<Rightarrow> (Inr None, cg)))"

section \<open>Calls to the L1 contracts\<close>

datatype l1_call =
    CommitBatches u64 u32 u32 bytes
  | ProveBatches u64 u32 u32 bytes
  | ExecuteBatches u64 u32 u32 bytes

definition SUPPORTED_ENCODING_VERSION :: u8 where
  "SUPPORTED_ENCODING_VERSION = 0"

definition stored_batch_info_from :: "'m l1_api \<Rightarrow> batch_with_metadata \<Rightarrow> stored_batch_info" where
  "stored_batch_info_from la b =
     \<lparr>si_number = ucast (hd_number (bm_header b)), si_root_hash = mt_root_hash (bm_metadata b),
      si_rollup_last_leaf_index = mt_rollup_last_leaf_index (bm_metadata b), si_l1_tx_count = ucast (hd_l1_tx_count (bm_header b)),
      si_priority_ops_hash = la_priority_ops_hash la (hd_priority_ops_onchain_data (bm_header b)),
      si_l2_l1_merkle_root = mt_l2_l1_merkle_root (bm_metadata b), si_timestamp = ucast (hd_timestamp (bm_header b)),
      si_commitment = mt_commitment (bm_metadata b)\<rparr>"

definition commit_calldata ::
  "'m l1_api \<Rightarrow> batch_with_metadata \<Rightarrow> batch_with_metadata \<Rightarrow> (string, bytes) outcome" where
  "commit_calldata la last_committed batch =
     and_then (expect ''unwrap'' (mt_bootloader_initial_content_commitment (bm_metadata batch))) (\<lambda>bootloader.
     and_then (expect ''unwrap'' (mt_events_queue_commitment (bm_metadata batch))) (\<lambda>events.
     and_then (expect ''Failed to get state_diff_hash from metadata'' (mt_state_diff_hash (bm_metadata batch))) (\<lambda>state_diff_hash.
     Inr (SUPPORTED_ENCODING_VERSION # la_encode_commit la (stored_batch_info_from la last_committed)
       [\<lparr>cb_number = ucast (hd_number (bm_header batch)), cb_timestamp = hd_timestamp (bm_header batch),
         cb_rollup_last_leaf_index = mt_rollup_last_leaf_index (bm_metadata batch),
         cb_root_hash = mt_root_hash (bm_metadata batch), cb_l1_tx_count = ucast (hd_l1_tx_count (bm_header batch)),
         cb_priority_ops_hash = la_priority_ops_hash la (hd_priority_ops_onchain_data (bm_header batch)),
         cb_bootloader_initial_content = bootloader, cb_events_queue = events,
         cb_system_logs = la_serialize_commitments la (hd_system_logs (bm_header batch)), cb_da_input = state_diff_hash\<rparr>]))))"

definition commit_batches_shared_bridge_call ::
  "'m l1_api \<Rightarrow> u64 \<Rightarrow> batch_with_metadata \<Rightarrow> batch_with_metadata \<Rightarrow> (string, l1_call) outcome" where
  "commit_batches_shared_bridge_call la chain_id last_committed batch =
     and_then (commit_calldata la last_committed batch) (\<lambda>calldata.
     Inr (CommitBatches chain_id (hd_number (bm_header last_committed) + 1) (hd_number (bm_header last_committed) + 1) calldata))"

definition prove_calldata :: "'m l1_api \<Rightarrow> batch_with_metadata \<Rightarrow> batch_with_metadata \<Rightarrow> bytes" where
  "prove_calldata la last_proved batch = SUPPORTED_ENCODING_VERSION
     # la_encode_prove la (stored_batch_info_from la last_proved) [stored_batch_info_from la batch] []"

definition prove_batches_shared_bridge_call ::
  "'m l1_api \<Rightarrow> u64 \<Rightarrow> batch_with_metadata \<Rightarrow> batch_with_metadata \<Rightarrow> l1_call" where
  "prove_batches_shared_bridge_call la chain_id last_proved batch =
     ProveBatches chain_id (hd_number (bm_header last_proved) + 1) (hd_number (bm_header last_proved) + 1)
       (prove_calldata la last_proved batch)"

definition priority_ops_proofs :: "'m l1_api \<Rightarrow> batch_with_metadata \<Rightarrow> 'm \<Rightarrow> priority_ops_batch_info" where
  "priority_ops_proofs la batch tree =
     (let n = unat (hd_l1_tx_count (bm_header batch))
      in if n > 0
         then let (left, right) = la_tree_paths_for_range la n tree
              in \<lparr>po_left_path = map (case_option 0 id) left, po_right_path = map (case_option 0 id) right,
                  po_item_hashes = la_tree_hashes_prefix la n tree\<rparr>
         else \<lparr>po_left_path = [], po_right_path = [], po_item_hashes = []\<rparr>)"

definition execute_calldata :: "'m l1_api \<Rightarrow> batch_with_metadata \<Rightarrow> 'm \<Rightarrow> bytes" where
  "execute_calldata la batch tree = SUPPORTED_ENCODING_VERSION
     # la_encode_execute la [stored_batch_info_from la batch] [priority_ops_proofs la batch tree]"

definition execute_batches_shared_bridge_call :: "'m l1_api \<Rightarrow> u64 \<Rightarrow> batch_with_metadata \<Rightarrow> 'm \<Rightarrow> l1_call" where
  "execute_batches_shared_bridge_call la chain_id batch tree =
     ExecuteBatches chain_id (hd_number (bm_header batch)) (hd_number (bm_header batch)) (execute_calldata la batch tree)"

end
