(* ===== verification/L1_Sidecar.thy ===== *)
theory L1_Sidecar
  imports L1_Batches
begin

text \<open>
  The L1 sidecar: \<open>crates/l1_sidecar/src/\<close>, with the sender of L1 transactions, the watcher of priority requests, the automatic
  executor and the requests of the node.

  What the L1 node answers to one command or poll is an argument of that step, so it may change from step to step. Starting the L1
  process, the choice of the task that ends first and printing are left out.
\<close>

section \<open>The sender\<close>

text \<open>What the L1 node answers while one command is handled: the gas price and fees, and a transaction that is sent, with its
  receipt. The blob sidecar is always that of empty data.\<close>

record l1_receipt =
  lr_status :: bool
  lr_transaction_hash :: h256

record l1_tx_request =
  lq_to :: address
  lq_max_fee_per_blob_gas :: nat
  lq_max_fee_per_gas :: nat
  lq_max_priority_fee_per_gas :: nat
  lq_gas_limit :: nat
  lq_call :: l1_call

record l1_replies =
  lp_sidecar :: "string + unit"
  lp_gas_price :: "string + nat"
  lp_eip1559_fees :: "string + nat \<times> nat"
  lp_send :: "l1_tx_request \<Rightarrow> string + h256"
  lp_receipt :: "h256 \<Rightarrow> string + l1_receipt"

record 'm l1_sender =
  ls_l2_chain_id :: u64
  ls_validator_timelock_addr :: address
  ls_last_committed :: batch_with_metadata
  ls_last_proved :: batch_with_metadata
  ls_tree :: 'm

definition l1_sender_new :: "'m l1_api \<Rightarrow> zkstack_config \<Rightarrow> batch_with_metadata \<Rightarrow> 'm l1_sender" where
  "l1_sender_new la config genesis = \<lparr>ls_l2_chain_id = gc_l2_chain_id (zc_genesis config),
     ls_validator_timelock_addr = ct_validator_timelock_addr (zc_contracts config), ls_last_committed = genesis, ls_last_proved = genesis,
     ls_tree = la_tree_new la\<rparr>"

text \<open>Sending a call and waiting for its receipt, the same for the three commands.\<close>

definition send_l1_call :: "address \<Rightarrow> l1_replies \<Rightarrow> string \<Rightarrow> l1_call \<Rightarrow> (string, h256) outcome" where
  "send_l1_call timelock rp what c =
     and_then (call (lp_gas_price rp)) (\<lambda>gas_price.
     and_then (call (lp_eip1559_fees rp)) (\<lambda>(max_fee, max_priority_fee).
     and_then (call (lp_send rp \<lparr>lq_to = timelock, lq_max_fee_per_blob_gas = gas_price, lq_max_fee_per_gas = max_fee,
       lq_max_priority_fee_per_gas = max_priority_fee, lq_gas_limit = 15000000, lq_call = c\<rparr>)) (\<lambda>pending.
     and_then (call (lp_receipt rp pending)) (\<lambda>receipt.
     if lr_status receipt then Inr (lr_transaction_hash receipt)
     else Inl (Err (what @ '' transaction failed, see L1 transaction's trace for more details''))))))"

definition commit_fallible ::
  "'m l1_api \<Rightarrow> l1_replies \<Rightarrow> batch_with_metadata \<Rightarrow> 'm l1_sender \<Rightarrow> (string, h256) outcome" where
  "commit_fallible la rp batch s =
     and_then (call (lp_sidecar rp)) (\<lambda>_.
     and_then (commit_batches_shared_bridge_call la (ls_l2_chain_id s) (ls_last_committed s) batch) (\<lambda>c.
     send_l1_call (ls_validator_timelock_addr s) rp ''commit'' c))"

definition sender_commit ::
  "'m l1_api \<Rightarrow> l1_replies \<Rightarrow> batch_with_metadata \<Rightarrow> 'm l1_sender \<Rightarrow> (string, h256) outcome \<times> 'm l1_sender" where
  "sender_commit la rp batch s =
     (let result = commit_fallible la rp batch s
      in (result, if is_ok result then s\<lparr>ls_last_committed := batch\<rparr> else s))"

definition prove_fallible ::
  "'m l1_api \<Rightarrow> l1_replies \<Rightarrow> batch_with_metadata \<Rightarrow> 'm l1_sender \<Rightarrow> (string, h256) outcome" where
  "prove_fallible la rp batch s =
     and_then (call (lp_sidecar rp)) (\<lambda>_.
     send_l1_call (ls_validator_timelock_addr s) rp ''prove''
       (prove_batches_shared_bridge_call la (ls_l2_chain_id s) (ls_last_proved s) batch))"

definition sender_prove ::
  "'m l1_api \<Rightarrow> l1_replies \<Rightarrow> batch_with_metadata \<Rightarrow> 'm l1_sender \<Rightarrow> (string, h256) outcome \<times> 'm l1_sender" where
  "sender_prove la rp batch s =
     (let result = prove_fallible la rp batch s
      in (result, if is_ok result then s\<lparr>ls_last_proved := batch\<rparr> else s))"

definition push_hashes :: "'m l1_api \<Rightarrow> batch_with_metadata \<Rightarrow> 'm \<Rightarrow> 'm" where
  "push_hashes la batch tree =
     fold (\<lambda>op. la_tree_push_hash la (la_onchain_data_hash la op)) (hd_priority_ops_onchain_data (bm_header batch)) tree"

definition sender_execute ::
  "'m l1_api \<Rightarrow> l1_replies \<Rightarrow> batch_with_metadata \<Rightarrow> 'm l1_sender \<Rightarrow> (string, h256) outcome \<times> 'm l1_sender" where
  "sender_execute la rp batch s = (case lp_sidecar rp of
       Inl e \<Rightarrow> (Inl (Err e), s)
     | Inr _ \<Rightarrow>
         let s = s\<lparr>ls_tree := push_hashes la batch (ls_tree s)\<rparr>
         in (send_l1_call (ls_validator_timelock_addr s) rp ''execute''
               (execute_batches_shared_bridge_call la (ls_l2_chain_id s) batch (ls_tree s)), s))"

text \<open>A command handled by the task of the sender, which ends with a panic; its handle then answers with an error.\<close>

datatype l1_command = Commit batch_with_metadata | Prove batch_with_metadata | Execute batch_with_metadata

fun sender_command ::
  "'m l1_api \<Rightarrow> l1_replies \<Rightarrow> l1_command \<Rightarrow> 'm l1_sender \<Rightarrow> (string, h256) outcome \<times> 'm l1_sender" where
  "sender_command la rp (Commit batch) s = sender_commit la rp batch s"
| "sender_command la rp (Prove batch) s = sender_prove la rp batch s"
| "sender_command la rp (Execute batch) s = sender_execute la rp batch s"

definition sender_sync ::
  "'m l1_api \<Rightarrow> l1_replies \<Rightarrow> l1_command \<Rightarrow> 'm l1_sender option \<Rightarrow> (string + h256) \<times> 'm l1_sender option" where
  "sender_sync la rp c sender = (case sender of
       None \<Rightarrow> (Inl ''failed as L1 sender is dropped'', None)
     | Some s \<Rightarrow> (case sender_command la rp c s of
         (Inl (Panic m), s') \<Rightarrow> (Inl ''failed as L1 sender is dropped'', None)
       | (Inl (Err e), s') \<Rightarrow> (Inl e, Some s')
       | (Inr h, s') \<Rightarrow> (Inr h, Some s')))"

section \<open>The watcher\<close>

record l1_watcher =
  lw_addresses :: "address list"
  lw_next_expected_priority_id :: u64
  lw_from_block :: u64

definition l1_watcher_new :: "zkstack_config \<Rightarrow> address \<Rightarrow> l1_watcher" where
  "l1_watcher_new config message_root = \<lparr>lw_addresses = [ct_diamond_proxy_addr (zc_contracts config),
       ct_governance_addr (zc_contracts config), ct_state_transition_proxy_addr (zc_contracts config),
       ct_chain_admin_addr (zc_contracts config), message_root],
     lw_next_expected_priority_id = 0, lw_from_block = 0\<rparr>"

text \<open>What L1 answers to one poll: the number of the latest block and the requests emitted by some
  addresses in a range of blocks. An event is decoded to a
  priority transaction with its serial id.\<close>

record 'e l1_view =
  lv_latest :: "string + u64 option"
  lv_logs :: "address list \<Rightarrow> u64 \<Rightarrow> u64 \<Rightarrow> string + 'e list"

type_synonym priority_tx = "u64 \<times> transaction"

fun decode_events :: "('e \<Rightarrow> string + priority_tx) \<Rightarrow> 'e list \<Rightarrow> (string, priority_tx list) outcome" where
  "decode_events dec [] = Inr []"
| "decode_events dec (e # es) = and_then (call (dec e)) (\<lambda>t. and_then (decode_events dec es) (\<lambda>ts. Inr (t # ts)))"

definition watcher_poll ::
  "('e \<Rightarrow> string + priority_tx) \<Rightarrow> ('l \<Rightarrow> h256 \<Rightarrow> 'l send_result) \<Rightarrow> 'e l1_view \<Rightarrow> l1_watcher \<times> 'l tx_pool
     \<Rightarrow> (string, unit) outcome \<times> l1_watcher \<times> 'l tx_pool" where
  "watcher_poll dec ts view state = (case state of (w, pool) \<Rightarrow>
     (case and_then (call (lv_latest view)) (ok_or ''L1 does not have any block'') of
        Inl f \<Rightarrow> (Inl f, state)
      | Inr to_block \<Rightarrow>
          if lw_from_block w > to_block then (Inr (), state)
          else (case and_then (call (lv_logs view (lw_addresses w) (lw_from_block w) to_block)) (decode_events dec) of
              Inl f \<Rightarrow> (Inl f, state)
            | Inr priority_txs \<Rightarrow>
                if priority_txs = [] then (Inr (), state)
                else if fst (last priority_txs) < fst (hd priority_txs)
                then (Inl (Panic ''attempt to subtract with overflow''), state)
                else if fst (last priority_txs) - fst (hd priority_txs) + 1 \<noteq> of_nat (length priority_txs)
                then (Inl (Err ''there is a gap in priority transactions received''), state)
                else let new_txs = dropWhile (\<lambda>t. fst t < lw_next_expected_priority_id w) priority_txs
                     in if new_txs = [] then (Inr (), state)
                        else if fst (hd new_txs) \<noteq> lw_next_expected_priority_id w
                        then (Inl (Err ''priority transaction serial id mismatch''), state)
                        else (Inr (), w\<lparr>lw_next_expected_priority_id := fst (last new_txs) + 1, lw_from_block := to_block + 1\<rparr>,
                              fold (add_tx ts) (map snd new_txs) pool))))"

section \<open>The automatic executor\<close>

text \<open>One turn of the loop: the executor asks for the next batch and sends its three transactions. It ends with the first
  error. The argument gives L1's answers to the three commands.\<close>

record 'm l1_auto =
  au_last_executed_batch :: u32
  au_generator :: commitment_generator
  au_sender :: "'m l1_sender option"

definition auto_step ::
  "'m l1_api \<Rightarrow> h256 \<Rightarrow> (l1_replies \<times> l1_replies \<times> l1_replies) \<Rightarrow> blockchain_state \<Rightarrow> 'm l1_auto
     \<Rightarrow> (string, bool) outcome \<times> 'm l1_auto" where
  "auto_step la random rps chain a = (case rps of (rp1, rp2, rp3) \<Rightarrow>
     let next_batch = au_last_executed_batch a + 1
     in case get_or_generate_metadata la random next_batch chain (au_generator a) of
          (Inl f, cg) \<Rightarrow> (Inl f, a\<lparr>au_generator := cg\<rparr>)
        | (Inr None, cg) \<Rightarrow> (Inr False, a\<lparr>au_generator := cg\<rparr>)
        | (Inr (Some batch), cg) \<Rightarrow>
            (case sender_sync la rp1 (Commit batch) (au_sender a) of
               (Inl e, s) \<Rightarrow> (Inl (Err e), a\<lparr>au_generator := cg, au_sender := s\<rparr>)
             | (Inr _, s) \<Rightarrow>
            (case sender_sync la rp2 (Prove batch) s of
               (Inl e, s) \<Rightarrow> (Inl (Err e), a\<lparr>au_generator := cg, au_sender := s\<rparr>)
             | (Inr _, s) \<Rightarrow>
            (case sender_sync la rp3 (Execute batch) s of
               (Inl e, s) \<Rightarrow> (Inl (Err e), a\<lparr>au_generator := cg, au_sender := s\<rparr>)
             | (Inr _, s) \<Rightarrow> (Inr True, \<lparr>au_last_executed_batch = next_batch, au_generator = cg, au_sender = s\<rparr>)))))"

section \<open>The sidecar\<close>

record 'm l1_sidecar =
  sd_generator :: commitment_generator
  sd_sender :: "'m l1_sender option"
  sd_config :: zkstack_config

definition sidecar_new :: "'m l1_api \<Rightarrow> h256 \<Rightarrow> blockchain_state \<Rightarrow> zkstack_config \<Rightarrow> (string, 'm l1_sidecar) outcome" where
  "sidecar_new la random chain config =
     and_then (commitment_generator_new la config) (\<lambda>cg.
     case get_or_generate_metadata la random 0 chain cg of
       (r, cg) \<Rightarrow> and_then (and_then r (ok_or ''genesis is missing from local storage, can't start L1 sidecar'')) (\<lambda>genesis.
         Inr \<lparr>sd_generator = cg, sd_sender = Some (l1_sender_new la config genesis), sd_config = config\<rparr>))"

definition sidecar_batch ::
  "'m l1_api \<Rightarrow> string \<Rightarrow> (batch_with_metadata \<Rightarrow> l1_command) \<Rightarrow> h256 \<Rightarrow> l1_replies \<Rightarrow> u32 \<Rightarrow> blockchain_state
     \<Rightarrow> 'm l1_sidecar option \<Rightarrow> (string, h256) outcome \<times> 'm l1_sidecar option" where
  "sidecar_batch la what cmd random rp batch_number chain sidecar = (case sidecar of
       None \<Rightarrow> (Inl (Err (''cannot '' @ what @ '' a batch as there is no L1 configured'')), None)
     | Some sd \<Rightarrow> (case get_or_generate_metadata la random batch_number chain (sd_generator sd) of
         (Inl f, cg) \<Rightarrow> (Inl f, Some (sd\<lparr>sd_generator := cg\<rparr>))
       | (Inr None, cg) \<Rightarrow> (Inl (Err ''batch does not exist''), Some (sd\<lparr>sd_generator := cg\<rparr>))
       | (Inr (Some batch), cg) \<Rightarrow> (case sender_sync la rp (cmd batch) (sd_sender sd) of
           (r, s) \<Rightarrow> (call r, Some (sd\<lparr>sd_generator := cg, sd_sender := s\<rparr>)))))"

definition commit_batch where "commit_batch la = sidecar_batch la ''commit'' Commit"
definition prove_batch where "prove_batch la = sidecar_batch la ''prove'' Prove"
definition execute_batch where "execute_batch la = sidecar_batch la ''execute'' Execute"

definition contracts_config :: "'m l1_sidecar option \<Rightarrow> string + l1_contracts" where
  "contracts_config sidecar = (case sidecar of
     None \<Rightarrow> Inl ''cannot get contracts config as there is no L1 configured'' | Some sd \<Rightarrow> Inr (zc_contracts (sd_config sd)))"

definition genesis_config_of :: "'m l1_sidecar option \<Rightarrow> string + genesis_config" where
  "genesis_config_of sidecar = (case sidecar of
     None \<Rightarrow> Inl ''cannot get genesis config as there is no L1 configured'' | Some sd \<Rightarrow> Inr (zc_genesis (sd_config sd)))"

text \<open>The first transaction on a clean L1: the upgrade, sealed in a block of its own.\<close>

definition sidecar_upgrade ::
  "'m l1_api \<Rightarrow> ('h, 'v, 'f, 'p, 'b, 't, 'td) node_env \<Rightarrow> protocol_version \<Rightarrow> ('f, 'p, 'b, 't, 'td) node_executor
     \<Rightarrow> (node_error, unit) outcome option \<times> ('f, 'p, 'b, 't, 'td) node_executor" where
  "sidecar_upgrade la env version x = (case la_builtin_upgrade_tx la version of
       None \<Rightarrow> (Some (Inl (Panic ''unsupported protocol version'')), x)
     | Some up \<Rightarrow> (case seal_block_sync env \<lparr>batch_impersonating = False, batch_txs = [(up_transaction up)
           \<lparr>tx_common_data := ProtocolUpgrade, tx_hash := up_hash up, tx_initiator_account := up_initiator up,
            tx_received_timestamp_ms := 0, tx_raw_bytes := None\<rparr>]\<rparr> x of
         (r, x) \<Rightarrow> (map_option (\<lambda>r. and_then (lift_result r) (\<lambda>_. Inr ())) r, x)))"

section \<open>Every priority request is submitted once\<close>

fun poll_all ::
  "('e \<Rightarrow> string + priority_tx) \<Rightarrow> ('l \<Rightarrow> h256 \<Rightarrow> 'l send_result) \<Rightarrow> 'e l1_view list \<Rightarrow> l1_watcher \<times> 'l tx_pool
     \<Rightarrow> (string, unit) outcome \<times> l1_watcher \<times> 'l tx_pool" where
  "poll_all dec ts [] state = (Inr (), state)"
| "poll_all dec ts (v # vs) state = (case watcher_poll dec ts v state of
     (Inl f, state) \<Rightarrow> (Inl f, state) | (Inr _, state) \<Rightarrow> poll_all dec ts vs state)"

text \<open>An L1 chain with the requests in its blocks, and what it answers at a height.\<close>

definition l1_at :: "(u64 \<times> 'e) list \<Rightarrow> u64 \<Rightarrow> 'e l1_view" where
  "l1_at reqs h = \<lparr>lv_latest = Inr (Some h), lv_logs = \<lambda>_ a b. Inr (map snd (filter (\<lambda>(n, e). a \<le> n \<and> n \<le> b) reqs))\<rparr>"

definition priority_chain :: "('e \<Rightarrow> string + priority_tx) \<Rightarrow> (u64 \<times> 'e) list \<Rightarrow> priority_tx list \<Rightarrow> bool" where
  "priority_chain dec reqs txs \<longleftrightarrow> sorted (map fst reqs) \<and> decode_events dec (map snd reqs) = Inr txs
     \<and> map fst txs = map of_nat [0..<length txs] \<and> length txs < 2 ^ 64"

lemma decode_events_append:
  "decode_events dec (xs @ ys) = Inr zs \<longleftrightarrow> (\<exists>as bs. decode_events dec xs = Inr as \<and> decode_events dec ys = Inr bs \<and> zs = as @ bs)"
proof (induction xs arbitrary: zs)
  case (Cons x xs)
  show ?case by (simp add: Cons) (metis append_Cons)
qed simp

lemma decode_events_length: "decode_events dec xs = Inr zs \<Longrightarrow> length zs = length xs"
  by (induction xs arbitrary: zs) auto

lemma sorted_split_at:
  assumes "sorted (map fst reqs)" and "a \<le> h"
  shows "filter (\<lambda>(n, e). n \<le> h) reqs = filter (\<lambda>(n, e). n < a) reqs @ filter (\<lambda>(n, e). a \<le> n \<and> n \<le> (h :: u64)) reqs"
  using assms(1)
proof (induction reqs)
  case (Cons r reqs)
  obtain n e where r: "r = (n, e)" by force
  show ?case
  proof (cases "n < a")
    case False
    then have "\<forall>x\<in>set reqs. a \<le> fst x" using Cons.prems r by fastforce
    then have "filter (\<lambda>(n, e). n < a) reqs = []" by (auto simp: filter_empty_conv not_less)
    then show ?thesis using Cons r False by auto
  qed (use Cons r assms(2) in auto)
qed simp

lemma sorted_prefix: "sorted (map fst reqs) \<Longrightarrow> \<exists>post. reqs = filter (\<lambda>(n, e). n \<le> (h :: u64)) reqs @ post"
proof (induction reqs)
  case (Cons r reqs)
  obtain n e where r: "r = (n, e)" by force
  show ?case
  proof (cases "n \<le> h")
    case False
    then have "filter (\<lambda>(n, e). n \<le> h) (r # reqs) = []"
      using Cons.prems by (fastforce simp: r filter_empty_conv)
    then show ?thesis by simp
  qed (use Cons r in auto)
qed simp

text \<open>What the watcher has seen: the requests in the blocks below \<open>lw_from_block\<close>, all of them in the pool.\<close>

definition seen :: "(u64 \<times> 'e) list \<Rightarrow> u64 \<Rightarrow> nat" where
  "seen reqs a = length (filter (\<lambda>(n, e). n < a) reqs)"

definition watch_inv ::
  "('l \<Rightarrow> h256 \<Rightarrow> 'l send_result) \<Rightarrow> (u64 \<times> 'e) list \<Rightarrow> priority_tx list \<Rightarrow> 'l tx_pool \<Rightarrow> l1_watcher \<times> 'l tx_pool \<Rightarrow> bool" where
  "watch_inv ts reqs txs pool0 state \<longleftrightarrow> (case state of (w, pool) \<Rightarrow>
     lw_next_expected_priority_id w = of_nat (seen reqs (lw_from_block w))
   \<and> pool = fold (add_tx ts) (map snd (take (seen reqs (lw_from_block w)) txs)) pool0)"

lemma consecutive_part:
  assumes "map fst (as @ bs @ cs) = map of_nat [0..<length (as @ bs @ cs)]" and "length (as @ bs @ cs) < 2 ^ 64" and "bs \<noteq> []"
  shows "fst (hd bs) = (of_nat (length as) :: u64)" "fst (last bs) + 1 = (of_nat (length as + length bs) :: u64)"
    "\<not> fst (last bs) < fst (hd bs)" "fst (last bs) - fst (hd bs) + 1 = (of_nat (length bs) :: u64)"
proof -
  have nth: "fst (bs ! i) = of_nat (length as + i)" if "i < length bs" for i
  proof -
    have "fst (bs ! i) = map fst (as @ bs @ cs) ! (length as + i)" using that by (simp add: nth_append)
    also have "\<dots> = of_nat (length as + i)" using that by (simp only: assms(1)) simp
    finally show ?thesis .
  qed
  have hd: "fst (hd bs) = of_nat (length as)" using nth [of 0] assms(3) by (simp add: hd_conv_nth)
  have last: "fst (last bs) = of_nat (length as + (length bs - 1))"
    using nth [of "length bs - 1"] assms(3) by (simp add: last_conv_nth)
  obtain m where m: "length bs = Suc m" using assms(3) by (cases bs) auto
  show "fst (hd bs) = (of_nat (length as) :: u64)" by (rule hd)
  show "fst (last bs) + 1 = (of_nat (length as + length bs) :: u64)" by (simp add: last m)
  show "fst (last bs) - fst (hd bs) + 1 = (of_nat (length bs) :: u64)" by (simp add: last hd m)
  show "\<not> fst (last bs) < fst (hd bs)"
    using assms(2) by (simp add: last hd m word_less_nat_alt unsigned_of_nat take_bit_nat_eq_self del: of_nat_add)
qed

lemma watcher_poll_step:
  assumes chain: "priority_chain dec reqs txs" and inv: "watch_inv ts reqs txs pool0 (w, pool)" and h: "h \<noteq> - 1"
  shows "\<exists>w' pool'. watcher_poll dec ts (l1_at reqs h) (w, pool) = (Inr (), w', pool')
    \<and> watch_inv ts reqs txs pool0 (w', pool')
    \<and> filter (\<lambda>(n, e). n < lw_from_block w') reqs = filter (\<lambda>(n, e). n < lw_from_block w \<or> n \<le> h) reqs"
proof (cases "lw_from_block w > h")
  case True
  then have "filter (\<lambda>(n, e). n < lw_from_block w \<or> n \<le> h) reqs = filter (\<lambda>(n, e). n < lw_from_block w) reqs"
    by (intro filter_cong) auto
  with True inv show ?thesis by (simp add: watcher_poll_def l1_at_def)
next
  case False
  let ?a = "lw_from_block w"
  let ?pre = "filter (\<lambda>(n, e). n < ?a) reqs" and ?mid = "filter (\<lambda>(n, e). ?a \<le> n \<and> n \<le> h) reqs"
  have below: "filter (\<lambda>(n, e). n < ?a \<or> n \<le> h) reqs = filter (\<lambda>(n, e). n \<le> h) reqs"
    using False by (intro filter_cong) auto
  have split: "filter (\<lambda>(n, e). n \<le> h) reqs = ?pre @ ?mid"
    using chain False by (intro sorted_split_at) (simp_all add: priority_chain_def)
  obtain post where "reqs = ?pre @ ?mid @ post"
    using sorted_prefix [of reqs h] chain unfolding split by (auto simp: priority_chain_def)
  then have "decode_events dec (map snd (?pre @ ?mid @ post)) = Inr txs"
    using chain by (simp add: priority_chain_def)
  then obtain dp dm dq where d: "decode_events dec (map snd ?pre) = Inr dp" "decode_events dec (map snd ?mid) = Inr dm"
    "txs = dp @ dm @ dq"
    by (auto simp: decode_events_append)
  have len: "length dp = seen reqs ?a" using decode_events_length [OF d(1)] by (simp add: seen_def)
  show ?thesis
  proof (cases "dm = []")
    case True
    then have "?mid = []" using decode_events_length [OF d(2)] by simp
    with False True d(2) inv split below show ?thesis by (simp add: watcher_poll_def l1_at_def)
  next
    case nonempty: False
    have ids: "map fst (dp @ dm @ dq) = map of_nat [0..<length (dp @ dm @ dq)]" "length (dp @ dm @ dq) < 2 ^ 64"
      using chain by (simp_all add: priority_chain_def d(3))
    note part = consecutive_part [OF ids nonempty]
    have id: "lw_next_expected_priority_id w = of_nat (length dp)" and pool: "pool = fold (add_tx ts) (map snd dp) pool0"
      using inv by (simp_all add: watch_inv_def len [symmetric] d(3))
    have kept: "dropWhile (\<lambda>t. fst t < of_nat (length dp)) dm = dm"
      using nonempty part(1) by (cases dm) simp_all
    let ?w = "w\<lparr>lw_next_expected_priority_id := fst (last dm) + 1, lw_from_block := h + 1\<rparr>"
    let ?pool = "fold (add_tx ts) (map snd dm) pool"
    have poll: "watcher_poll dec ts (l1_at reqs h) (w, pool) = (Inr (), ?w, ?pool)"
      using False nonempty part d(2) by (simp add: watcher_poll_def l1_at_def Let_def kept id del: dropWhile_eq_Nil_conv)
    have "n < h + 1 \<longleftrightarrow> n \<le> h" for n :: u64
      using h unat_bounds(1) [of n] unat_bounds(1) [of h] by (simp add: word_less_nat_alt word_le_nat_alt unat_word_ariths eq_max_word_iff less_Suc_eq_le)
    then have "filter (\<lambda>(n, e). n < h + 1) reqs = ?pre @ ?mid" using split by simp
    moreover from this have "seen reqs (h + 1) = length dp + length dm"
      using decode_events_length [OF d(1)] decode_events_length [OF d(2)] by (simp add: seen_def)
    ultimately have "watch_inv ts reqs txs pool0 (?w, ?pool)"
      using part(2) by (simp add: watch_inv_def pool d(3))
    with poll \<open>filter (\<lambda>(n, e). n < h + 1) reqs = ?pre @ ?mid\<close> split below show ?thesis by auto
  qed
qed

lemma filter_same_iff: "filter P xs = filter Q xs \<longleftrightarrow> (\<forall>x\<in>set xs. P x = Q x)"
  by (metis (mono_tags, lifting) filter_cong filter_id_conv mem_Collect_eq set_filter)

lemma poll_all_seen:
  assumes chain: "priority_chain dec reqs txs" and "watch_inv ts reqs txs pool0 state" and "- 1 \<notin> set hs"
  shows "\<exists>w pool. poll_all dec ts (map (l1_at reqs) hs) state = (Inr (), w, pool) \<and> watch_inv ts reqs txs pool0 (w, pool)
    \<and> filter (\<lambda>(n, e). n < lw_from_block w) reqs = filter (\<lambda>(n, e). n < lw_from_block (fst state) \<or> (\<exists>h\<in>set hs. n \<le> h)) reqs"
  using assms(2,3)
proof (induction hs arbitrary: state)
  case Nil
  then show ?case by (cases state) simp
next
  case (Cons h hs)
  obtain w pool where state: "state = (w, pool)" by force
  obtain w1 pool1 where one: "watcher_poll dec ts (l1_at reqs h) (w, pool) = (Inr (), w1, pool1)"
    "watch_inv ts reqs txs pool0 (w1, pool1)"
    "filter (\<lambda>(n, e). n < lw_from_block w1) reqs = filter (\<lambda>(n, e). n < lw_from_block w \<or> n \<le> h) reqs"
    using watcher_poll_step [OF chain, of ts pool0 w pool h] Cons.prems state by force
  obtain w2 pool2 where two: "poll_all dec ts (map (l1_at reqs) hs) (w1, pool1) = (Inr (), w2, pool2)"
    "watch_inv ts reqs txs pool0 (w2, pool2)"
    "filter (\<lambda>(n, e). n < lw_from_block w2) reqs = filter (\<lambda>(n, e). n < lw_from_block w1 \<or> (\<exists>h\<in>set hs. n \<le> h)) reqs"
    using Cons.IH [OF one(2)] Cons.prems by auto
  have "n < lw_from_block w1 \<longleftrightarrow> n < lw_from_block w \<or> n \<le> h" if "(n, e) \<in> set reqs" for n e
    using one(3) that by (auto simp: filter_same_iff)
  then have "filter (\<lambda>(n, e). n < lw_from_block w1 \<or> (\<exists>h\<in>set hs. n \<le> h)) reqs
    = filter (\<lambda>(n, e). n < lw_from_block w \<or> (\<exists>h\<in>set (h # hs). n \<le> h)) reqs"
    by (intro filter_cong) auto
  with two one state show ?case by auto
qed

text \<open>C16: However L1 is polled, at whatever heights and in whatever order, as long as its priority requests have consecutive ids and decode,
  the watcher never fails and hands the transactions of all requests up to the highest block seen to the pool, each of them once
  and in the order of their ids; a poll of a range that was seen before adds nothing.\<close>

theorem watcher_exactly_once:
  assumes "priority_chain dec reqs txs" and "- 1 \<notin> set hs"
  shows "\<exists>w. poll_all dec ts (map (l1_at reqs) hs) (l1_watcher_new config root, pool) = (Inr (), w,
    fold (add_tx ts) (map snd (take (length (filter (\<lambda>(n, e). \<exists>h\<in>set hs. n \<le> h) reqs)) txs)) pool)"
proof -
  have "watch_inv ts reqs txs pool (l1_watcher_new config root, pool)" by (simp add: watch_inv_def l1_watcher_new_def seen_def)
  from poll_all_seen [OF assms(1) this assms(2)] show ?thesis
    by (auto simp: watch_inv_def seen_def l1_watcher_new_def)
qed

definition sample_zkstack_config :: zkstack_config where
  "sample_zkstack_config = \<lparr>zc_genesis = \<lparr>gc_genesis_root = 0, gc_genesis_rollup_leaf_index = 0, gc_genesis_batch_commitment = 5,
       gc_genesis_protocol_version = 26, gc_default_aa_hash = 0, gc_bootloader_hash = 0, gc_evm_emulator_hash = None,
       gc_l1_chain_id = 31337, gc_l2_chain_id = 260, gc_fee_account = 0\<rparr>,
     zc_contracts = \<lparr>ct_validator_timelock_addr = 9, ct_diamond_proxy_addr = 1, ct_governance_addr = 2, ct_chain_admin_addr = 3,
       ct_state_transition_proxy_addr = 4, ct_bridgehub_proxy_addr = 5, ct_shared_l1_address = 6, ct_shared_l2_address = None,
       ct_erc20_l1_address = 7, ct_erc20_l2_address = None, ct_legacy_shared_bridge_addr = None\<rparr>\<rparr>"

theorem watcher_exactly_once_witness:
  "\<exists>w. poll_all (\<lambda>i. Inr (i, sample_tx (ucast i) 1 0)) (\<lambda>l _. SendOk l) (map (l1_at [(1, 0), (3, 1), (3, 2), (7, 3)]) [2, 3, 2, 3])
      (l1_watcher_new sample_zkstack_config 0, sample_pool Fifo)
    = (Inr (), w, fold (add_tx (\<lambda>l _. SendOk l)) [sample_tx 0 1 0, sample_tx 1 1 0, sample_tx 2 1 0] (sample_pool Fifo))"
proof -
  let ?dec = "\<lambda>i :: u64. Inr (i, sample_tx (ucast i) 1 0)"
  have "length (filter (\<lambda>(n, e). \<exists>h\<in>set [2, 3, 2, 3]. n \<le> h) [(1, 0), (3, 1), (3, 2), (7 :: u64, 3 :: u64)]) = 3" by simp
  then have txs: "map snd (take (length (filter (\<lambda>(n, e). \<exists>h\<in>set [2, 3, 2, 3]. n \<le> h) [(1, 0), (3, 1), (3, 2), (7 :: u64, 3 :: u64)]))
      (map (\<lambda>i :: u64. (i, sample_tx (ucast i) 1 0)) [0, 1, 2, 3])) = [sample_tx 0 1 0, sample_tx 1 1 0, sample_tx 2 1 0]"
    by (simp only:) simp
  have "priority_chain ?dec [(1, 0), (3, 1), (3, 2), (7, 3)] (map (\<lambda>i. (i, sample_tx (ucast i) 1 0)) [0, 1, 2, 3])"
    by (simp add: priority_chain_def upt_rec)
  then show ?thesis
    using watcher_exactly_once [of ?dec "[(1, 0), (3, 1), (3, 2), (7, 3)]" "map (\<lambda>i. (i, sample_tx (ucast i) 1 0)) [0, 1, 2, 3]"
        "[2, 3, 2, 3]" "\<lambda>l _. SendOk l" sample_zkstack_config 0 "sample_pool Fifo", unfolded txs] by simp
qed

section \<open>The executor keeps the order of the batches\<close>

definition numbered :: "blockchain_state \<Rightarrow> commitment_generator \<Rightarrow> bool" where
  "numbered chain cg \<longleftrightarrow> (\<forall>n b. cg_batches cg n = Some b \<longrightarrow> hd_number (bm_header b) = n)
     \<and> (\<forall>n i. bc_batches chain n = Some i \<longrightarrow> hd_number (sb_header i) = n)"

lemma generate_metadata_header: "generate_metadata la cg header diffs agg td = Inr b \<Longrightarrow> bm_header b = header"
  by (auto simp: generate_metadata_def generate_metadata_inner_def Let_def)

lemma get_or_generate_numbered:
  assumes "numbered chain cg" and "get_or_generate_metadata la random n chain cg = (Inr (Some b), cg')"
  shows "numbered chain cg' \<and> hd_number (bm_header b) = n"
  using assms
  by (cases "bc_batches chain n")
    (auto simp: get_or_generate_metadata_def numbered_def get_batch_header_def get_batch_state_diffs_def
        get_batch_aggregation_root_def inspect_batch_def inspect_def
      split: option.splits sum.splits prod.splits if_splits dest!: generate_metadata_header)

text \<open>A batch gets its random root once: what was generated for it is returned from then on.\<close>

lemma metadata_stable:
  assumes "get_or_generate_metadata la random n chain cg = (Inr (Some b), cg1)"
    and "get_or_generate_metadata la random' m chain' cg1 = (r, cg2)"
  shows "get_or_generate_metadata la random'' n chain'' cg2 = (Inr (Some b), cg2)"
proof -
  have "cg_batches cg1 n = Some b"
    using assms(1) by (auto simp: get_or_generate_metadata_def split: option.splits sum.splits prod.splits)
  moreover have "cg_batches cg1 n = Some b \<Longrightarrow> cg_batches cg2 n = Some b"
    using assms(2) by (auto simp: get_or_generate_metadata_def split: option.splits sum.splits prod.splits)
  ultimately show ?thesis by (simp add: get_or_generate_metadata_def)
qed

definition l1_accepts :: "address \<Rightarrow> l1_replies \<Rightarrow> l1_call \<Rightarrow> bool" where
  "l1_accepts timelock rp c \<longleftrightarrow> is_ok (send_l1_call timelock rp [] c)"

definition in_step :: "'m l1_auto \<Rightarrow> bool" where
  "in_step a \<longleftrightarrow> (case au_sender a of None \<Rightarrow> False | Some s \<Rightarrow>
     hd_number (bm_header (ls_last_committed s)) = au_last_executed_batch a
   \<and> hd_number (bm_header (ls_last_proved s)) = au_last_executed_batch a)"

lemma send_l1_call_accepts: "send_l1_call timelock rp what c = Inr h \<Longrightarrow> l1_accepts timelock rp c"
  by (auto simp: send_l1_call_def l1_accepts_def split: if_splits prod.splits)

lemma sender_sync_commit:
  assumes "sender_sync la rp (Commit b) (Some s) = (Inr h, s')"
  shows "s' = Some (s\<lparr>ls_last_committed := b\<rparr>) \<and> (\<exists>d. l1_accepts (ls_validator_timelock_addr s) rp
    (CommitBatches (ls_l2_chain_id s) (hd_number (bm_header (ls_last_committed s)) + 1)
      (hd_number (bm_header (ls_last_committed s)) + 1) d))"
  using assms
  by (auto simp: sender_sync_def sender_commit_def commit_fallible_def commit_batches_shared_bridge_call_def Let_def
      split: sum.splits failure.splits if_splits dest!: send_l1_call_accepts)

lemma sender_sync_prove:
  assumes "sender_sync la rp (Prove b) (Some s) = (Inr h, s')"
  shows "s' = Some (s\<lparr>ls_last_proved := b\<rparr>) \<and> (\<exists>d. l1_accepts (ls_validator_timelock_addr s) rp
    (ProveBatches (ls_l2_chain_id s) (hd_number (bm_header (ls_last_proved s)) + 1)
      (hd_number (bm_header (ls_last_proved s)) + 1) d))"
  using assms
  by (auto simp: sender_sync_def sender_prove_def prove_fallible_def prove_batches_shared_bridge_call_def Let_def
      split: sum.splits failure.splits if_splits dest!: send_l1_call_accepts)

lemma sender_sync_execute:
  assumes "sender_sync la rp (Execute b) (Some s) = (Inr h, s')"
  shows "(\<exists>t. s' = Some (s\<lparr>ls_tree := t\<rparr>)) \<and> (\<exists>d. l1_accepts (ls_validator_timelock_addr s) rp
    (ExecuteBatches (ls_l2_chain_id s) (hd_number (bm_header b)) (hd_number (bm_header b)) d))"
  using assms
  by (auto simp: sender_sync_def sender_execute_def execute_batches_shared_bridge_call_def Let_def
      split: sum.splits failure.splits if_splits dest!: send_l1_call_accepts)

text \<open>A concrete L1: the tree is the list of its leaves, every transaction is accepted.\<close>

definition sample_l1_api :: "h256 list l1_api" where
  "sample_l1_api = \<lparr>la_artifacts = \<lambda>_. \<lparr>ar_initial_writes = None, ar_repeated_writes = None, ar_commitment = 5,
       ar_l2_l1_merkle_root = 0, ar_meta_params = [], ar_aux_data_hash = 0, ar_meta_parameters_hash = 0,
       ar_pass_through_data_hash = 0, ar_aux_commitments = Some (1, 2), ar_state_diffs_compressed = None, ar_state_diff_hash = 3,
       ar_local_root = 0, ar_aggregation_root = 0\<rparr>,
     la_num_blobs_required = \<lambda>_. 6, la_onchain_data_hash = \<lambda>op. of_nat (length op), la_priority_ops_hash = \<lambda>ops. of_nat (length ops),
     la_serialize_commitments = \<lambda>_. [], la_encode_commit = \<lambda>_ _. [], la_encode_prove = \<lambda>_ _ _. [], la_encode_execute = \<lambda>_ _. [],
     la_tree_new = [], la_tree_push_hash = \<lambda>h t. t @ [h], la_tree_paths_for_range = \<lambda>_ _. ([], []),
     la_tree_hashes_prefix = take, la_builtin_config = Map.empty, la_builtin_upgrade_tx = Map.empty\<rparr>"

definition sample_l1_batch :: "u32 \<Rightarrow> bytes list \<Rightarrow> batch_with_metadata" where
  "sample_l1_batch n ops = generate_metadata_inner sample_l1_api
     ((l1_batch_header_new n 0 base_system_contracts_hashes_default 26)
       \<lparr>hd_l1_tx_count := of_nat (length ops), hd_priority_ops_onchain_data := ops\<rparr>) 0
     (GenesisInput \<lparr>ci_l2_to_l1_logs = [], ci_rollup_last_leaf_index = 0, ci_rollup_root_hash = 0,
       ci_hashes = base_system_contracts_hashes_default, ci_protocol_version = 26\<rparr>)"

definition sample_l1_replies :: l1_replies where
  "sample_l1_replies = \<lparr>lp_sidecar = Inr (), lp_gas_price = Inr 1, lp_eip1559_fees = Inr (2, 1), lp_send = \<lambda>_. Inr 7,
     lp_receipt = \<lambda>h. Inr \<lparr>lr_status = True, lr_transaction_hash = h\<rparr>\<rparr>"

definition sample_l1_auto :: "h256 list l1_auto" where
  "sample_l1_auto = \<lparr>au_last_executed_batch = 0, au_generator = \<lparr>cg_hashes = base_system_contracts_hashes_default, cg_fee_address = 0,
       cg_batches = [0 \<mapsto> sample_l1_batch 0 [], 1 \<mapsto> sample_l1_batch 1 []]\<rparr>,
     au_sender = Some (l1_sender_new sample_l1_api sample_zkstack_config (sample_l1_batch 0 []))\<rparr>"

lemma sample_l1_batch_header [simp]:
  "bm_header (sample_l1_batch n ops) = (l1_batch_header_new n 0 base_system_contracts_hashes_default 26)
     \<lparr>hd_l1_tx_count := of_nat (length ops), hd_priority_ops_onchain_data := ops\<rparr>"
  "mt_bootloader_initial_content_commitment (bm_metadata (sample_l1_batch n ops)) = Some 2"
  "mt_events_queue_commitment (bm_metadata (sample_l1_batch n ops)) = Some 1"
  "mt_state_diff_hash (bm_metadata (sample_l1_batch n ops)) = Some 3"
  by (simp_all add: sample_l1_batch_def generate_metadata_inner_def Let_def sample_l1_api_def)

lemma sample_send [simp]: "send_l1_call t sample_l1_replies what c = Inr 7"
  by (simp add: send_l1_call_def sample_l1_replies_def)

text \<open>C17: every turn of the automatic executor that succeeds has executed the next batch: L1 has accepted the commit, the proof and the
  execution of exactly the batch after the last one, each call for this one batch; and the sender and the executor agree on the
  last batch again, so no batch is skipped or sent twice.\<close>

theorem auto_in_order:
  assumes "numbered chain (au_generator a)" and "in_step a" and "auto_step la random (rp1, rp2, rp3) chain a = (Inr True, a')"
  shows "numbered chain (au_generator a') \<and> in_step a' \<and> au_last_executed_batch a' = au_last_executed_batch a + 1
    \<and> (\<exists>timelock chain_id d1 d2 d3. let n = au_last_executed_batch a + 1 in
        l1_accepts timelock rp1 (CommitBatches chain_id n n d1) \<and> l1_accepts timelock rp2 (ProveBatches chain_id n n d2)
      \<and> l1_accepts timelock rp3 (ExecuteBatches chain_id n n d3))"
proof -
  let ?n = "au_last_executed_batch a + 1"
  obtain s where s: "au_sender a = Some s" "hd_number (bm_header (ls_last_committed s)) = au_last_executed_batch a"
    "hd_number (bm_header (ls_last_proved s)) = au_last_executed_batch a"
    using assms(2) by (auto simp: in_step_def split: option.splits)
  obtain b cg where g: "get_or_generate_metadata la random ?n chain (au_generator a) = (Inr (Some b), cg)"
    using assms(3) by (auto simp: auto_step_def Let_def split: prod.splits sum.splits option.splits)
  note num = get_or_generate_numbered [OF assms(1) g]
  obtain h1 s1 where c: "sender_sync la rp1 (Commit b) (Some s) = (Inr h1, s1)"
    using assms(3) g s(1) by (auto simp: auto_step_def Let_def split: prod.splits sum.splits)
  note c' = sender_sync_commit [OF c]
  then obtain h2 s2 where p: "sender_sync la rp2 (Prove b) (Some (s\<lparr>ls_last_committed := b\<rparr>)) = (Inr h2, s2)"
    using assms(3) g s(1) c by (auto simp: auto_step_def Let_def split: prod.splits sum.splits)
  note p' = sender_sync_prove [OF p]
  then obtain h3 s3 where e: "sender_sync la rp3 (Execute b) (Some (s\<lparr>ls_last_committed := b, ls_last_proved := b\<rparr>)) = (Inr h3, s3)"
    using assms(3) g s(1) c c' p by (auto simp: auto_step_def Let_def split: prod.splits sum.splits)
  note e' = sender_sync_execute [OF e]
  have a': "a' = \<lparr>au_last_executed_batch = ?n, au_generator = cg, au_sender = s3\<rparr>"
    using assms(3) g s(1) c c' p p' e by (simp add: auto_step_def Let_def)
  show ?thesis using num c' p' e' s by (auto simp: a' in_step_def Let_def)
qed

theorem auto_in_order_witness:
  "\<exists>a'. auto_step sample_l1_api 0 (sample_l1_replies, sample_l1_replies, sample_l1_replies)
      (blockchain_new sample_chain_api 26 (None :: (unit, unit) fork_details option) None None) sample_l1_auto = (Inr True, a')
    \<and> in_step a' \<and> au_last_executed_batch a' = 1"
proof -
  let ?chain = "blockchain_new sample_chain_api 26 (None :: (unit, unit) fork_details option) None None"
  let ?rps = "(sample_l1_replies, sample_l1_replies, sample_l1_replies)"
  have sidecar: "lp_sidecar sample_l1_replies = Inr ()" by (simp add: sample_l1_replies_def)
  obtain a' where step: "auto_step sample_l1_api 0 ?rps ?chain sample_l1_auto = (Inr True, a')"
    by (simp add: auto_step_def sample_l1_auto_def get_or_generate_metadata_def sender_sync_def sender_commit_def commit_fallible_def
        commit_batches_shared_bridge_call_def commit_calldata_def sender_prove_def prove_fallible_def sender_execute_def Let_def sidecar)
  have "numbered ?chain (au_generator sample_l1_auto)"
    by (auto simp: numbered_def sample_l1_auto_def blockchain_new_def create_genesis_def Let_def l1_batch_header_new_def
        split: if_splits)
  moreover have "in_step sample_l1_auto"
    by (simp add: in_step_def sample_l1_auto_def l1_sender_new_def l1_batch_header_new_def)
  ultimately show ?thesis using auto_in_order [OF _ _ step] step by (auto simp: sample_l1_auto_def)
qed

lemma auto_failure_keeps:
  assumes "auto_step la random rps chain a = (r, a')" and "r \<noteq> Inr True"
  shows "au_last_executed_batch a' = au_last_executed_batch a"
  using assms by (auto simp: auto_step_def Let_def split: prod.splits sum.splits option.splits)

section \<open>The priority operations of an executed batch\<close>

fun execute_all :: "'m l1_api \<Rightarrow> (l1_replies \<times> batch_with_metadata) list \<Rightarrow> 'm l1_sender \<Rightarrow> 'm l1_sender" where
  "execute_all la [] s = s"
| "execute_all la ((rp, b) # xs) s = execute_all la xs (snd (sender_execute la rp b s))"

definition op_hashes :: "'m l1_api \<Rightarrow> batch_with_metadata \<Rightarrow> h256 list" where
  "op_hashes la b = map (la_onchain_data_hash la) (hd_priority_ops_onchain_data (bm_header b))"

lemma push_hashes_leaves:
  assumes "\<And>h t. leaves (la_tree_push_hash la h t) = leaves t @ [h]"
  shows "leaves (push_hashes la b t) = leaves t @ op_hashes la b"
proof -
  have "leaves (fold (\<lambda>op. la_tree_push_hash la (la_onchain_data_hash la op)) ops t)
      = leaves t @ map (la_onchain_data_hash la) ops" for ops
    by (induction ops arbitrary: t) (simp_all add: assms)
  then show ?thesis by (simp add: push_hashes_def op_hashes_def)
qed

lemma execute_all_leaves:
  assumes push: "\<And>h t. leaves (la_tree_push_hash la h t) = leaves t @ [h]"
    and "\<forall>(rp, b)\<in>set xs. is_ok (lp_sidecar rp)"
  shows "leaves (ls_tree (execute_all la xs s)) = leaves (ls_tree s) @ concat (map (op_hashes la \<circ> snd) xs)"
  using assms(2)
proof (induction xs arbitrary: s)
  case (Cons x xs)
  then show ?case
    by (cases x) (auto simp: sender_execute_def Let_def push_hashes_leaves [where leaves = leaves, OF push] is_ok_iff)
qed simp

text \<open>The execution of a batch with n priority operations presents the first n hashes of all operations ever pushed since the sidecar
  started, by this or an earlier execution, successful or not. These are the batch's own hashes only if no earlier execution
  pushed an operation: the tree is not trimmed.\<close>

theorem execute_item_hashes:
  assumes push: "\<And>h t. leaves (la_tree_push_hash la h t) = leaves t @ [h]" and new: "leaves (la_tree_new la) = []"
    and prefix: "\<And>n t. la_tree_hashes_prefix la n t = take n (leaves t)"
    and ok: "\<forall>(rp, b)\<in>set xs. is_ok (lp_sidecar rp)" "is_ok (lp_sidecar rp)" and "0 < hd_l1_tx_count (bm_header b)"
  shows "\<exists>proof s'. sender_execute la rp b (execute_all la xs (l1_sender_new la config genesis))
      = (send_l1_call (ct_validator_timelock_addr (zc_contracts config)) rp ''execute''
           (ExecuteBatches (gc_l2_chain_id (zc_genesis config)) (hd_number (bm_header b)) (hd_number (bm_header b))
             (SUPPORTED_ENCODING_VERSION # la_encode_execute la [stored_batch_info_from la b] [proof])), s')
    \<and> po_item_hashes proof = take (unat (hd_l1_tx_count (bm_header b))) (concat (map (op_hashes la \<circ> snd) xs) @ op_hashes la b)"
proof -
  let ?s = "execute_all la xs (l1_sender_new la config genesis)"
  let ?t = "push_hashes la b (ls_tree ?s)"
  have "ls_validator_timelock_addr (execute_all la xs s) = ls_validator_timelock_addr s
      \<and> ls_l2_chain_id (execute_all la xs s) = ls_l2_chain_id s" for s
    by (induction xs arbitrary: s) (auto simp: sender_execute_def Let_def split: sum.splits)
  then have kept: "ls_validator_timelock_addr ?s = ct_validator_timelock_addr (zc_contracts config)" "ls_l2_chain_id ?s = gc_l2_chain_id (zc_genesis config)"
    by (simp_all add: l1_sender_new_def)
  have "leaves ?t = concat (map (op_hashes la \<circ> snd) xs) @ op_hashes la b"
    using ok by (simp add: push_hashes_leaves [where leaves = leaves, OF push] execute_all_leaves [where leaves = leaves, OF push]
      l1_sender_new_def new)
  moreover have "po_item_hashes (priority_ops_proofs la b ?t) = take (unat (hd_l1_tx_count (bm_header b))) (leaves ?t)"
    using assms(6) by (simp add: priority_ops_proofs_def Let_def prefix unat_gt_0 word_neq_0_conv split: prod.split)
  ultimately show ?thesis
    using ok(2) kept by (auto simp: is_ok_iff sender_execute_def Let_def execute_batches_shared_bridge_call_def execute_calldata_def)
qed

theorem execute_item_hashes_witness:
  "\<exists>proof s'. sender_execute sample_l1_api sample_l1_replies (sample_l1_batch 2 [[1, 1]])
        (execute_all sample_l1_api [(sample_l1_replies, sample_l1_batch 1 [[1]])]
          (l1_sender_new sample_l1_api sample_zkstack_config (sample_l1_batch 0 [])))
      = (send_l1_call 9 sample_l1_replies ''execute'' (ExecuteBatches 260 2 2
           (SUPPORTED_ENCODING_VERSION # la_encode_execute sample_l1_api
              [stored_batch_info_from sample_l1_api (sample_l1_batch 2 [[1, 1]])] [proof])), s')
    \<and> po_item_hashes proof = [1] \<and> op_hashes sample_l1_api (sample_l1_batch 2 [[1, 1]]) = [2]"
proof -
  let ?xs = "[(sample_l1_replies, sample_l1_batch 1 [[1]])]" and ?b = "sample_l1_batch 2 [[1, 1]]"
  have hashes: "op_hashes sample_l1_api ?b = [2]" "op_hashes sample_l1_api (sample_l1_batch 1 [[1]]) = [1]"
    by (simp_all add: op_hashes_def sample_l1_api_def)
  have laws: "la_tree_push_hash sample_l1_api h t = t @ [h]" "la_tree_new sample_l1_api = []"
    "la_tree_hashes_prefix sample_l1_api n t = take n t" for h t n
    by (simp_all add: sample_l1_api_def)
  have replies: "\<forall>(rp, b)\<in>set ?xs. is_ok (lp_sidecar rp)" "is_ok (lp_sidecar sample_l1_replies)"
    by (simp_all add: sample_l1_replies_def)
  show ?thesis
    using execute_item_hashes [where leaves = "\<lambda>t. t" and la = sample_l1_api, OF laws replies, of ?b
        sample_zkstack_config "sample_l1_batch 0 []"]
    by (simp add: hashes sample_zkstack_config_def l1_batch_header_new_def)
qed

end
