(* ===== verification/Node_Config.thy ===== *)
theory Node_Config
  imports Node_Ext
begin

text \<open>
  The configuration of the node: \<open>crates/config/src/\<close> and the option types of \<open>crates/types/src/\<close>.

  Keys are derived by the wallet library, a field of \<open>wallet_api\<close>; \<open>'k\<close> is the type of private keys and \<open>'f\<close> that of
  floating-point numbers. A path is a string, a duration the unit of the block sealer. Printing the configuration is left out.
\<close>

section \<open>Option types\<close>

datatype show_vm_details = VmDetailsNone | VmDetailsAll
datatype show_gas_details = GasDetailsNone | GasDetailsAll
datatype log_level = Trace | Debug | Info | Warn | Error | NoLog
datatype level_filter = LevelTrace | LevelDebug | LevelInfo | LevelWarn | LevelError | LevelOff

fun level_filter_from :: "log_level \<Rightarrow> level_filter" where
  "level_filter_from Trace = LevelTrace"
| "level_filter_from Debug = LevelDebug"
| "level_filter_from Info = LevelInfo"
| "level_filter_from Warn = LevelWarn"
| "level_filter_from Error = LevelError"
| "level_filter_from NoLog = LevelOff"

fun log_level_name :: "log_level \<Rightarrow> string" where
  "log_level_name Trace = ''TRACE''"
| "log_level_name Debug = ''DEBUG''"
| "log_level_name Info = ''INFO''"
| "log_level_name Warn = ''WARN''"
| "log_level_name Error = ''ERROR''"
| "log_level_name NoLog = ''NONE''"

definition storage_logs_from_str :: "string \<Rightarrow> string + show_storage_logs" where
  "storage_logs_from_str s = (let l = to_lowercase s in
     if l = ''none'' then Inr ShowNone else if l = ''read'' then Inr ShowRead else if l = ''write'' then Inr ShowWrite
     else if l = ''paid'' then Inr ShowPaid else if l = ''all'' then Inr ShowAll
     else Inl (''Unknown ShowStorageLogs value '' @ s @ '' - expected one of none|read|write|paid|all.''))"

definition vm_details_from_str :: "string \<Rightarrow> string + show_vm_details" where
  "vm_details_from_str s = (let l = to_lowercase s in
     if l = ''none'' then Inr VmDetailsNone else if l = ''all'' then Inr VmDetailsAll
     else Inl (''Unknown ShowVMDetails value '' @ s @ '' - expected one of none|all.''))"

definition gas_details_from_str :: "string \<Rightarrow> string + show_gas_details" where
  "gas_details_from_str s = (let l = to_lowercase s in
     if l = ''none'' then Inr GasDetailsNone else if l = ''all'' then Inr GasDetailsAll
     else Inl (''Unknown ShowGasDetails value '' @ s @ '' - expected one of none|all.''))"

text \<open>The \<open>Display\<close> instances: the name of the variant.\<close>

fun storage_logs_display :: "show_storage_logs \<Rightarrow> string" where
  "storage_logs_display ShowNone = ''None''"
| "storage_logs_display ShowRead = ''Read''"
| "storage_logs_display ShowWrite = ''Write''"
| "storage_logs_display ShowPaid = ''Paid''"
| "storage_logs_display ShowAll = ''All''"

fun vm_details_display :: "show_vm_details \<Rightarrow> string" where
  "vm_details_display VmDetailsNone = ''None''"
| "vm_details_display VmDetailsAll = ''All''"

fun gas_details_display :: "show_gas_details \<Rightarrow> string" where
  "gas_details_display GasDetailsNone = ''None''"
| "gas_details_display GasDetailsAll = ''All''"

section \<open>Accounts\<close>

record account_generator =
  ag_chain_id :: u32
  ag_amount :: nat
  ag_phrase :: string
  ag_derivation_path :: "string option"

definition DERIVATION_PATH :: string where "DERIVATION_PATH = ''m/44'/60'/0'/0/0''"
definition DEFAULT_MNEMONIC :: string where
  "DEFAULT_MNEMONIC = ''test test test test test test test test test test test junk''"

text \<open>The key of a phrase, a derivation path and a chain, \<open>None\<close> for a malformed phrase or path.\<close>

record 'k wallet_api =
  wa_key :: "string \<Rightarrow> string \<Rightarrow> u32 \<Rightarrow> 'k option"
  wa_address :: "'k \<Rightarrow> address"

definition account_generator_new :: "string \<Rightarrow> nat \<Rightarrow> account_generator" where
  "account_generator_new random_phrase amount =
     \<lparr>ag_chain_id = TEST_NODE_NETWORK_ID, ag_amount = amount, ag_phrase = random_phrase, ag_derivation_path = None\<rparr>"

definition with_phrase :: "string \<Rightarrow> account_generator \<Rightarrow> account_generator" where
  "with_phrase phrase g = g\<lparr>ag_phrase := phrase\<rparr>"

definition with_generator_chain_id :: "u32 \<Rightarrow> account_generator \<Rightarrow> account_generator" where
  "with_generator_chain_id chain_id g = g\<lparr>ag_chain_id := chain_id\<rparr>"

definition with_derivation_path :: "string \<Rightarrow> account_generator \<Rightarrow> account_generator" where
  "with_derivation_path derivation_path g = g\<lparr>ag_derivation_path :=
     Some (if derivation_path \<noteq> [] \<and> last derivation_path = CHR ''/'' then derivation_path else derivation_path @ ''/'')\<rparr>"

definition get_derivation_path :: "account_generator \<Rightarrow> string" where
  "get_derivation_path g = case_option DERIVATION_PATH id (ag_derivation_path g)"

definition account_path :: "account_generator \<Rightarrow> nat \<Rightarrow> string" where
  "account_path g idx = get_derivation_path g @ decimal idx"

fun generate_from :: "'k wallet_api \<Rightarrow> account_generator \<Rightarrow> nat list \<Rightarrow> ('e, 'k list) outcome" where
  "generate_from wa g [] = Inr []"
| "generate_from wa g (idx # rest) =
     and_then (expect ''unwrap'' (wa_key wa (ag_phrase g) (account_path g idx) (ag_chain_id g))) (\<lambda>key.
     and_then (generate_from wa g rest) (\<lambda>keys. Inr (key # keys)))"

definition generate_accounts :: "'k wallet_api \<Rightarrow> account_generator \<Rightarrow> ('e, 'k list) outcome" where
  "generate_accounts wa g = generate_from wa g [0..<ag_amount g]"

section \<open>The configuration\<close>

datatype l1_config = Spawn u16 | External string
datatype ip_addr = V4 u32 | V6 u128

record boojum_config =
  bj_use_boojum :: bool
  bj_boojum_bin_path :: "string option"

record base_token_config =
  btk_symbol :: string
  btk_ratio :: base_token_ratio

record ('f, 'k) test_node_config =
  tn_config_out :: "string option"
  tn_port :: u16
  tn_show_node_config :: bool
  tn_show_storage_logs :: show_storage_logs
  tn_show_vm_details :: show_vm_details
  tn_show_gas_details :: show_gas_details
  tn_verbosity :: u8
  tn_silent :: bool
  tn_system_contracts_options :: system_contracts_options
  tn_system_contracts_path :: "string option"
  tn_protocol_version :: "protocol_version option"
  tn_override_bytecodes_dir :: "string option"
  tn_bytecode_compression :: bool
  tn_use_evm_interpreter :: bool
  tn_boojum :: boojum_config
  tn_chain_id :: "u32 option"
  tn_l1_gas_price :: "u64 option"
  tn_l2_gas_price :: "u64 option"
  tn_l1_pubdata_price :: "u64 option"
  tn_price_scale_factor :: "'f option"
  tn_limit_scale_factor :: "'f option"
  tn_log_level :: log_level
  tn_log_file_path :: string
  tn_cache_dir :: string
  tn_cache_config :: cache_config
  tn_genesis_accounts :: "'k list"
  tn_genesis_balance :: u256
  tn_account_generator :: "account_generator option"
  tn_signer_accounts :: "'k list"
  tn_genesis :: "genesis option"
  tn_genesis_timestamp :: "u64 option"
  tn_enable_auto_impersonate :: bool
  tn_offline :: bool
  tn_host :: "ip_addr list"
  tn_health_check_endpoint :: bool
  tn_block_time :: "u64 option"
  tn_max_transactions :: nat
  tn_no_mining :: bool
  tn_allow_origin :: string
  tn_no_cors :: bool
  tn_transaction_order :: transaction_order
  tn_state :: "string option"
  tn_dump_state :: "string option"
  tn_state_interval :: "u64 option"
  tn_preserve_historical_states :: bool
  tn_load_state :: "string option"
  tn_l1_config :: "l1_config option"
  tn_auto_execute_l1 :: bool
  tn_base_token_config :: base_token_config

definition NODE_PORT :: u16 where "NODE_PORT = 8011"
definition DEFAULT_LOG_FILE_PATH :: string where "DEFAULT_LOG_FILE_PATH = ''anvil-zksync.log''"
definition DEFAULT_DISK_CACHE_DIR :: string where "DEFAULT_DISK_CACHE_DIR = ''.cache''"
definition DEFAULT_PROTOCOL_VERSION :: protocol_version where "DEFAULT_PROTOCOL_VERSION = 27"
definition LOCALHOST :: ip_addr where "LOCALHOST = V4 0x7F000001"

definition cache_config_default :: cache_config where
  "cache_config_default = CacheDisk DEFAULT_DISK_CACHE_DIR False"

definition boojum_config_default :: boojum_config where
  "boojum_config_default = \<lparr>bj_use_boojum = False, bj_boojum_bin_path = None\<rparr>"

definition base_token_config_default :: base_token_config where
  "base_token_config_default = \<lparr>btk_symbol = ''ETH'', btk_ratio = \<lparr>ratio_numerator = 1, ratio_denominator = 1\<rparr>\<rparr>"

definition config_with_accounts :: "'k list \<Rightarrow> ('f, 'k) test_node_config" where
  "config_with_accounts genesis_accounts =
    \<lparr>tn_config_out = None, tn_port = NODE_PORT, tn_show_node_config = True, tn_show_storage_logs = ShowNone,
     tn_show_vm_details = VmDetailsNone, tn_show_gas_details = GasDetailsNone, tn_verbosity = 0, tn_silent = False,
     tn_system_contracts_options = BuiltIn, tn_system_contracts_path = None, tn_protocol_version = None,
     tn_override_bytecodes_dir = None, tn_bytecode_compression = False, tn_use_evm_interpreter = False,
     tn_boojum = boojum_config_default, tn_chain_id = None, tn_l1_gas_price = None, tn_l2_gas_price = None,
     tn_l1_pubdata_price = None, tn_price_scale_factor = None, tn_limit_scale_factor = None, tn_log_level = NoLog,
     tn_log_file_path = DEFAULT_LOG_FILE_PATH, tn_cache_dir = DEFAULT_DISK_CACHE_DIR, tn_cache_config = cache_config_default,
     tn_genesis_accounts = genesis_accounts, tn_genesis_balance = 100 * 10 ^ 18, tn_account_generator = None,
     tn_signer_accounts = genesis_accounts, tn_genesis = None, tn_genesis_timestamp = Some NON_FORK_FIRST_BLOCK_TIMESTAMP,
     tn_enable_auto_impersonate = False, tn_offline = False, tn_host = [LOCALHOST], tn_health_check_endpoint = False,
     tn_block_time = None, tn_max_transactions = 1000, tn_no_mining = False, tn_allow_origin = ''*'', tn_no_cors = False,
     tn_transaction_order = Fifo, tn_state = None, tn_dump_state = None, tn_state_interval = None,
     tn_preserve_historical_states = False, tn_load_state = None, tn_l1_config = None, tn_auto_execute_l1 = False,
     tn_base_token_config = base_token_config_default\<rparr>"

definition test_node_config_default :: "'k wallet_api \<Rightarrow> string \<Rightarrow> ('e, ('f, 'k) test_node_config) outcome" where
  "test_node_config_default wa random_phrase =
     and_then (generate_accounts wa (with_phrase DEFAULT_MNEMONIC (account_generator_new random_phrase 10))) (\<lambda>genesis_accounts.
     Inr (config_with_accounts genesis_accounts))"

text \<open>\<open>TestNodeConfig::protocol_version\<close> panics for local contracts without a version.\<close>

definition config_protocol_version :: "('f, 'k) test_node_config \<Rightarrow> ('e, protocol_version) outcome" where
  "config_protocol_version c = (case tn_system_contracts_options c of
       BuiltIn \<Rightarrow> Inr (case_option DEFAULT_PROTOCOL_VERSION id (tn_protocol_version c))
     | Local \<Rightarrow> expect ''cannot deduce protocol version when using local contracts; please specify --protocol-version explicitly''
         (tn_protocol_version c)
     | BuiltInWithoutSecurity \<Rightarrow> Inr (case_option DEFAULT_PROTOCOL_VERSION id (tn_protocol_version c)))"

subsection \<open>Setters\<close>

definition with_port where "with_port port c = (case port of Some v \<Rightarrow> c\<lparr>tn_port := v\<rparr> | None \<Rightarrow> c)"
definition with_chain_id where "with_chain_id chain_id c = (case chain_id of Some v \<Rightarrow> c\<lparr>tn_chain_id := Some v\<rparr> | None \<Rightarrow> c)"
definition with_system_contracts where "with_system_contracts options c = (case options of Some v \<Rightarrow> c\<lparr>tn_system_contracts_options := v\<rparr> | None \<Rightarrow> c)"
definition with_system_contracts_path where "with_system_contracts_path path c = (case path of Some v \<Rightarrow> c\<lparr>tn_system_contracts_path := Some v\<rparr> | None \<Rightarrow> c)"
definition with_protocol_version where "with_protocol_version protocol_version c = c\<lparr>tn_protocol_version := protocol_version\<rparr>"
definition with_override_bytecodes_dir where "with_override_bytecodes_dir dir c = (case dir of Some v \<Rightarrow> c\<lparr>tn_override_bytecodes_dir := Some v\<rparr> | None \<Rightarrow> c)"
definition with_enforce_bytecode_compression where "with_enforce_bytecode_compression enforce c = (case enforce of Some v \<Rightarrow> c\<lparr>tn_bytecode_compression := v\<rparr> | None \<Rightarrow> c)"
definition with_evm_interpreter where "with_evm_interpreter enable c = (case enable of Some v \<Rightarrow> c\<lparr>tn_use_evm_interpreter := v\<rparr> | None \<Rightarrow> c)"
definition with_boojum where "with_boojum boojum c = c\<lparr>tn_boojum := boojum\<rparr>"
definition with_l1_gas_price where "with_l1_gas_price price c = (case price of Some v \<Rightarrow> c\<lparr>tn_l1_gas_price := Some v\<rparr> | None \<Rightarrow> c)"
definition with_l2_gas_price where "with_l2_gas_price price c = (case price of Some v \<Rightarrow> c\<lparr>tn_l2_gas_price := Some v\<rparr> | None \<Rightarrow> c)"
definition with_l1_pubdata_price where "with_l1_pubdata_price price c = c\<lparr>tn_l1_pubdata_price := price\<rparr>"
definition with_log_level where "with_log_level level c = (case level of Some v \<Rightarrow> c\<lparr>tn_log_level := v\<rparr> | None \<Rightarrow> c)"
definition with_cache_dir where "with_cache_dir dir c = (case dir of Some v \<Rightarrow> c\<lparr>tn_cache_dir := v\<rparr> | None \<Rightarrow> c)"
definition with_cache_config where "with_cache_config config c = (case config of Some v \<Rightarrow> c\<lparr>tn_cache_config := v\<rparr> | None \<Rightarrow> c)"
definition with_log_file_path where "with_log_file_path path c = (case path of Some v \<Rightarrow> c\<lparr>tn_log_file_path := v\<rparr> | None \<Rightarrow> c)"
definition with_verbosity_level where "with_verbosity_level verbosity c = c\<lparr>tn_verbosity := verbosity\<rparr>"
definition with_silent where "with_silent silent c = (case silent of Some v \<Rightarrow> c\<lparr>tn_silent := v\<rparr> | None \<Rightarrow> c)"
definition with_show_node_config where "with_show_node_config show c = (case show of Some v \<Rightarrow> c\<lparr>tn_show_node_config := v\<rparr> | None \<Rightarrow> c)"
definition with_show_storage_logs where "with_show_storage_logs show c = (case show of Some v \<Rightarrow> c\<lparr>tn_show_storage_logs := v\<rparr> | None \<Rightarrow> c)"
definition with_vm_log_detail where "with_vm_log_detail detail c = (case detail of Some v \<Rightarrow> c\<lparr>tn_show_vm_details := v\<rparr> | None \<Rightarrow> c)"
definition with_show_gas_details where "with_show_gas_details show c = (case show of Some v \<Rightarrow> c\<lparr>tn_show_gas_details := v\<rparr> | None \<Rightarrow> c)"
definition with_gas_limit_scale where "with_gas_limit_scale scale c = (case scale of Some v \<Rightarrow> c\<lparr>tn_limit_scale_factor := Some v\<rparr> | None \<Rightarrow> c)"
definition with_price_scale where "with_price_scale scale c = (case scale of Some v \<Rightarrow> c\<lparr>tn_price_scale_factor := Some v\<rparr> | None \<Rightarrow> c)"
definition with_genesis_balance where "with_genesis_balance balance c = c\<lparr>tn_genesis_balance := balance\<rparr>"
definition with_genesis_accounts where "with_genesis_accounts keys c = c\<lparr>tn_genesis_accounts := keys\<rparr>"
definition with_signer_accounts where "with_signer_accounts keys c = c\<lparr>tn_signer_accounts := keys\<rparr>"
definition with_genesis_timestamp where "with_genesis_timestamp timestamp c = c\<lparr>tn_genesis_timestamp := timestamp\<rparr>"
definition with_genesis where "with_genesis genesis_opt c = c\<lparr>tn_genesis := genesis_opt\<rparr>"
definition with_auto_impersonate where "with_auto_impersonate enable c = c\<lparr>tn_enable_auto_impersonate := enable\<rparr>"
definition with_offline where "with_offline offline c = (case offline of Some v \<Rightarrow> c\<lparr>tn_offline := v\<rparr> | None \<Rightarrow> c)"
definition with_health_check_endpoint where "with_health_check_endpoint enable c = (case enable of Some v \<Rightarrow> c\<lparr>tn_health_check_endpoint := v\<rparr> | None \<Rightarrow> c)"
definition with_block_time where "with_block_time block_time c = c\<lparr>tn_block_time := block_time\<rparr>"
definition with_no_mining where "with_no_mining no_mining c = c\<lparr>tn_no_mining := no_mining\<rparr>"
definition with_transaction_order where "with_transaction_order ord c = c\<lparr>tn_transaction_order := ord\<rparr>"
definition with_allow_origin where "with_allow_origin origin c = c\<lparr>tn_allow_origin := origin\<rparr>"
definition with_no_cors where "with_no_cors no_cors c = c\<lparr>tn_no_cors := no_cors\<rparr>"
definition with_state where "with_state path c = c\<lparr>tn_state := path\<rparr>"
definition with_dump_state where "with_dump_state path c = c\<lparr>tn_dump_state := path\<rparr>"
definition with_state_interval where "with_state_interval seconds c = c\<lparr>tn_state_interval := seconds\<rparr>"
definition with_preserve_historical_states where "with_preserve_historical_states preserve c = c\<lparr>tn_preserve_historical_states := preserve\<rparr>"
definition with_load_state where "with_load_state path c = c\<lparr>tn_load_state := path\<rparr>"
definition with_l1_config where "with_l1_config config c = c\<lparr>tn_l1_config := config\<rparr>"
definition with_base_token_config where "with_base_token_config config c = c\<lparr>tn_base_token_config := config\<rparr>"
definition set_config_out where "set_config_out path c = c\<lparr>tn_config_out := path\<rparr>"
definition update_chain_id where "update_chain_id chain_id c = c\<lparr>tn_chain_id := chain_id\<rparr>"
definition update_l1_gas_price where "update_l1_gas_price price c = c\<lparr>tn_l1_gas_price := price\<rparr>"
definition update_l2_gas_price where "update_l2_gas_price price c = c\<lparr>tn_l2_gas_price := price\<rparr>"
definition update_l1_pubdata_price where "update_l1_pubdata_price price c = c\<lparr>tn_l1_pubdata_price := price\<rparr>"
definition update_gas_limit_scale where "update_gas_limit_scale scale c = c\<lparr>tn_limit_scale_factor := scale\<rparr>"
definition update_price_scale where "update_price_scale scale c = c\<lparr>tn_price_scale_factor := scale\<rparr>"
definition with_host where "with_host hosts c = c\<lparr>tn_host := if hosts = [] then [LOCALHOST] else hosts\<rparr>"
definition with_auto_execute_l1 where
  "with_auto_execute_l1 enable c = c\<lparr>tn_auto_execute_l1 := case_option False id enable\<rparr>"

definition with_account_generator ::
  "'k wallet_api \<Rightarrow> account_generator \<Rightarrow> ('f, 'k) test_node_config \<Rightarrow> ('e, ('f, 'k) test_node_config) outcome" where
  "with_account_generator wa g c = and_then (generate_accounts wa g) (\<lambda>keys.
     Inr (with_genesis_accounts keys (with_signer_accounts keys (c\<lparr>tn_account_generator := Some g\<rparr>))))"

subsection \<open>Getters with a default\<close>

definition config_get_chain_id :: "('f, 'k) test_node_config \<Rightarrow> u32" where
  "config_get_chain_id c = case_option TEST_NODE_NETWORK_ID id (tn_chain_id c)"

definition get_l1_gas_price :: "('f, 'k) test_node_config \<Rightarrow> u64" where
  "get_l1_gas_price c = case_option DEFAULT_L1_GAS_PRICE id (tn_l1_gas_price c)"

definition get_l2_gas_price :: "('f, 'k) test_node_config \<Rightarrow> u64" where
  "get_l2_gas_price c = case_option DEFAULT_L2_GAS_PRICE id (tn_l2_gas_price c)"

definition get_l1_pubdata_price :: "('f, 'k) test_node_config \<Rightarrow> u64" where
  "get_l1_pubdata_price c = case_option DEFAULT_FAIR_PUBDATA_PRICE id (tn_l1_pubdata_price c)"

definition get_price_scale :: "('f, 'p) fee_api \<Rightarrow> ('f, 'k) test_node_config \<Rightarrow> 'f" where
  "get_price_scale fa c = case_option (f_gas_price_scale_default fa) id (tn_price_scale_factor c)"

definition get_gas_limit_scale :: "('f, 'p) fee_api \<Rightarrow> ('f, 'k) test_node_config \<Rightarrow> 'f" where
  "get_gas_limit_scale fa c = case_option (f_gas_scale_default fa) id (tn_limit_scale_factor c)"

definition get_genesis_timestamp :: "('f, 'k) test_node_config \<Rightarrow> u64" where
  "get_genesis_timestamp c = case_option NON_FORK_FIRST_BLOCK_TIMESTAMP id (tn_genesis_timestamp c)"

section \<open>Options are read back\<close>

lemmas from_str_defs = storage_logs_from_str_def vm_details_from_str_def gas_details_from_str_def
  to_lowercase_def Let_def

lemma lower_letters:
  "char_of (110 :: nat) = CHR ''n''" "char_of (114 :: nat) = CHR ''r''" "char_of (119 :: nat) = CHR ''w''"
  "char_of (112 :: nat) = CHR ''p''" "char_of (97 :: nat) = CHR ''a''"
  by code_simp+

lemma options_roundtrip:
  "storage_logs_from_str (storage_logs_display l) = Inr l \<and> vm_details_from_str (vm_details_display v) = Inr v
   \<and> gas_details_from_str (gas_details_display g) = Inr g"
  by (cases l; cases v; cases g) (simp_all add: from_str_defs lower_letters)

section \<open>The generated accounts\<close>

lemma decimal_inj: "decimal m = decimal n \<Longrightarrow> m = n"
proof (induction m arbitrary: n rule: decimal.induct)
  case (1 m)
  have digits: "digit a = digit b \<longleftrightarrow> a = b" if "a < 10" "b < 10" for a b
    using that by (simp add: digit_def char_of_eq_iff take_bit_nat_eq_self)
  have ne: "decimal k \<noteq> []" for k by (simp add: decimal.simps [of k])
  show ?case
  proof (cases "m < 10 \<or> n < 10")
    case True
    then show ?thesis using 1 (2) digits ne [of "m div 10"] ne [of "n div 10", symmetric] by (auto simp: decimal.simps [of m] decimal.simps [of n] split: if_splits)
  next
    case False
    then have "decimal (m div 10) = decimal (n div 10)" "m mod 10 = n mod 10"
      using 1 (2) digits by (simp_all add: decimal.simps [of m] decimal.simps [of n])
    then show ?thesis using 1 (1) [of "n div 10"] False by (metis div_mult_mod_eq)
  qed
qed

lemma generate_from_nth:
  assumes "generate_from wa g is = Inr keys"
  shows "length keys = length is \<and> (\<forall>i<length is. wa_key wa (ag_phrase g) (account_path g (is ! i)) (ag_chain_id g) = Some (keys ! i))"
  using assms
proof (induction "is" arbitrary: keys)
  case (Cons idx rest)
  then show ?case by (auto simp: nth_Cons split: nat.splits)
qed simp

text \<open>The generated accounts: as many as asked for, the i-th derived from the phrase at the i-th path, and all paths different.\<close>

lemma generate_accounts_spec:
  assumes "generate_accounts wa g = (Inr keys :: ('e, 'k list) outcome)"
  shows "length keys = ag_amount g \<and> (\<forall>i<ag_amount g. wa_key wa (ag_phrase g) (account_path g i) (ag_chain_id g) = Some (keys ! i))
    \<and> distinct (map (account_path g) [0..<ag_amount g])"
proof -
  have "inj (account_path g)" by (rule injI) (simp add: account_path_def decimal_inj)
  then show ?thesis
    using generate_from_nth [OF assms [unfolded generate_accounts_def]] by (simp add: distinct_map inj_on_subset [OF _ subset_UNIV])
qed

end
