(* ===== verification/Observability.thy ===== *)
theory Observability
  imports Trace_Values Node_Config
begin

text \<open>
  The log filter behind the logging switches: \<open>crates/core/src/observability.rs\<close> and the methods of
  \<open>in_memory.rs\<close> and \<open>in_memory_ext.rs\<close> that reach it.

  A filter, its directives and the handle that replaces it are of the tracing crates and are the fields of \<open>log_api\<close>; reloading fails with
  \<open>lg_reload_error\<close> when the subscriber is gone. The lock around the last directives is never held across a panic. Writing events to the
  console and to the log file is not modelled.
\<close>

section \<open>The filter\<close>

record ('d, 'fl) log_api =
  lg_default_env :: 'fl
  lg_off :: 'fl
  lg_parse :: "string \<Rightarrow> string + 'd"
  lg_add_directive :: "'d \<Rightarrow> 'fl \<Rightarrow> 'fl"
  lg_reload_error :: "string option"

record 'fl observability =
  ob_binary_names :: "string list"
  ob_filter :: 'fl
  ob_last_directives :: string

fun level_text :: "level_filter \<Rightarrow> string" where
  "level_text LevelTrace = ''trace''"
| "level_text LevelDebug = ''debug''"
| "level_text LevelInfo = ''info''"
| "level_text LevelWarn = ''warn''"
| "level_text LevelError = ''error''"
| "level_text LevelOff = ''off''"

fun split_on :: "char \<Rightarrow> string \<Rightarrow> string list" where
  "split_on c [] = [[]]"
| "split_on c (x # xs) =
     (if x = c then [] # split_on c xs
      else case split_on c xs of p # ps \<Rightarrow> (x # p) # ps | [] \<Rightarrow> [[x]])"

fun add_directives :: "('d, 'fl) log_api \<Rightarrow> string list \<Rightarrow> 'fl \<Rightarrow> string + 'fl" where
  "add_directives lg [] fl = Inr fl"
| "add_directives lg (d # ds) fl = and_then (lg_parse lg d) (\<lambda>d. add_directives lg ds (lg_add_directive lg d fl))"

definition parse_filter :: "('d, 'fl) log_api \<Rightarrow> string \<Rightarrow> string + 'fl" where
  "parse_filter lg directives = add_directives lg (split_on CHR '','' directives) (lg_default_env lg)"

definition init_directives :: "level_filter \<Rightarrow> string list \<Rightarrow> string" where
  "init_directives level names = joined '','' (map (\<lambda>x. x @ ''='' @ level_text level) names)"

definition observability_init ::
  "('d, 'fl) log_api \<Rightarrow> string list \<Rightarrow> level_filter \<Rightarrow> bool \<Rightarrow> string + 'fl observability" where
  "observability_init lg binary_names level disabled =
     (let directives = init_directives level binary_names
      in and_then (if disabled then Inr (lg_off lg) else parse_filter lg directives) (\<lambda>fl.
         Inr \<lparr>ob_binary_names = binary_names, ob_filter = fl, ob_last_directives = directives\<rparr>))"

definition reload :: "('d, 'fl) log_api \<Rightarrow> 'fl \<Rightarrow> 'fl observability \<Rightarrow> string + 'fl observability" where
  "reload lg fl ob = (case lg_reload_error lg of Some e \<Rightarrow> Inl e | None \<Rightarrow> Inr (ob\<lparr>ob_filter := fl\<rparr>))"

definition set_logging :: "('d, 'fl) log_api \<Rightarrow> string \<Rightarrow> 'fl observability \<Rightarrow> string + 'fl observability" where
  "set_logging lg directives ob =
     and_then (parse_filter lg directives) (\<lambda>fl. and_then (reload lg fl ob) (\<lambda>ob.
     Inr (ob\<lparr>ob_last_directives := directives\<rparr>)))"

text \<open>The names joined by the level: the text that stands between two names, not after each.\<close>

definition level_directives :: "level_filter \<Rightarrow> string list \<Rightarrow> string" where
  "level_directives level names = joined (''='' @ level_text level @ '','') names"

definition set_log_level :: "('d, 'fl) log_api \<Rightarrow> log_level \<Rightarrow> 'fl observability \<Rightarrow> string + 'fl observability" where
  "set_log_level lg level ob =
     (let directives = level_directives (level_filter_from level) (ob_binary_names ob)
      in and_then (parse_filter lg directives) (\<lambda>fl. and_then (reload lg fl ob) (\<lambda>ob.
         Inr (ob\<lparr>ob_last_directives := directives\<rparr>))))"

definition enable_logging :: "('d, 'fl) log_api \<Rightarrow> 'fl observability \<Rightarrow> string + 'fl observability" where
  "enable_logging lg ob = and_then (parse_filter lg (ob_last_directives ob)) (\<lambda>fl. reload lg fl ob)"

definition disable_logging :: "('d, 'fl) log_api \<Rightarrow> 'fl observability \<Rightarrow> string + 'fl observability" where
  "disable_logging lg ob = reload lg (lg_off lg) ob"

section \<open>The methods of the node\<close>

text \<open>A node may have no logging. A switch that fails leaves the stack as it was.\<close>

definition switch_logging ::
  "string \<Rightarrow> ('fl observability \<Rightarrow> string + 'fl observability) \<Rightarrow> 'a \<Rightarrow> 'fl observability option
     \<Rightarrow> (string + 'a) \<times> 'fl observability option" where
  "switch_logging missing f a stack = (case stack of
       None \<Rightarrow> (Inl missing, None)
     | Some ob \<Rightarrow> (case f ob of Inl e \<Rightarrow> (Inl e, Some ob) | Inr ob \<Rightarrow> (Inr a, Some ob)))"

definition node_set_logging_enabled ::
  "('d, 'fl) log_api \<Rightarrow> bool \<Rightarrow> 'fl observability option \<Rightarrow> (string + unit) \<times> 'fl observability option" where
  "node_set_logging_enabled lg enable =
     switch_logging ''Node's logging is not set up'' (if enable then enable_logging lg else disable_logging lg) ()"

definition node_set_log_level ::
  "('d, 'fl) log_api \<Rightarrow> log_level \<Rightarrow> 'fl observability option \<Rightarrow> (string + bool) \<times> 'fl observability option" where
  "node_set_log_level lg level = switch_logging ''Node's logging is not set up.'' (set_log_level lg level) True"

definition node_set_logging ::
  "('d, 'fl) log_api \<Rightarrow> string \<Rightarrow> 'fl observability option \<Rightarrow> (string + bool) \<times> 'fl observability option" where
  "node_set_logging lg directive = switch_logging ''Node's logging is not set up.'' (set_logging lg directive) True"

section \<open>Lemmas\<close>

lemma split_on_plain: "c \<notin> set s \<Longrightarrow> split_on c s = [s]"
  by (induction s) auto

lemma split_on_append: "c \<notin> set s \<Longrightarrow> split_on c (s @ c # t) = s # split_on c t"
  by (induction s) auto

lemma split_on_joined:
  "ss \<noteq> [] \<Longrightarrow> \<forall>s\<in>set ss. c \<notin> set s \<Longrightarrow> split_on c (joined [c] ss) = ss"
proof (induction "[c]" ss rule: joined.induct)
  case (2 s)
  then show ?case by (simp add: split_on_plain)
next
  case (3 s t ss)
  then show ?case by (simp add: split_on_append del: joined.simps(3) flip: append_Cons) (simp add: split_on_append)
qed simp

lemma level_text_plain [simp]: "CHR '','' \<notin> set (level_text level)"
  by (cases level) simp_all

lemma joined_between:
  "joined (sep @ [c]) (ns @ [n]) = joined [c] (map (\<lambda>x. x @ sep) ns @ [n])"
proof (induction ns)
  case (Cons m ns)
  then show ?case by (cases ns) simp_all
qed simp

text \<open>Whatever the switches do, the filter is off or the one of the last directives.\<close>

definition log_inv :: "('d, 'fl) log_api \<Rightarrow> 'fl observability \<Rightarrow> bool" where
  "log_inv lg ob \<longleftrightarrow> ob_filter ob = lg_off lg \<or> parse_filter lg (ob_last_directives ob) = Inr (ob_filter ob)"

lemma reload_Inr_iff [simp]: "reload lg fl ob = Inr ob' \<longleftrightarrow> lg_reload_error lg = None \<and> ob' = ob\<lparr>ob_filter := fl\<rparr>"
  by (auto simp: reload_def split: option.split)

lemma log_inv_init: "observability_init lg names level disabled = Inr ob \<Longrightarrow> log_inv lg ob"
  by (auto simp: observability_init_def log_inv_def Let_def split: if_splits)

lemma log_inv_switches:
  "set_logging lg ds ob = Inr ob' \<Longrightarrow> log_inv lg ob'"
  "set_log_level lg level ob = Inr ob' \<Longrightarrow> log_inv lg ob'"
  "enable_logging lg ob = Inr ob' \<Longrightarrow> log_inv lg ob'"
  "disable_logging lg ob = Inr ob' \<Longrightarrow> log_inv lg ob'"
  by (auto simp: set_logging_def set_log_level_def enable_logging_def disable_logging_def log_inv_def Let_def)

lemma logging_restored:
  assumes "log_inv lg ob" and "ob_filter ob \<noteq> lg_off lg" and "disable_logging lg ob = Inr ob1"
  shows "enable_logging lg ob1 = Inr ob"
  using assms by (auto simp: log_inv_def disable_logging_def enable_logging_def)

section \<open>Setting a level\<close>

text \<open>C30: setting a log level. The level is written after every binary's name but the last; the directives the program starts with
  have it after each. With the one name the program passes, the level that is asked for makes no difference at all.\<close>

theorem log_level_skips_last:
  assumes "\<forall>m\<in>set (ns @ [n]). CHR '','' \<notin> set m"
  shows "split_on CHR '','' (level_directives level (ns @ [n])) = map (\<lambda>x. x @ ''='' @ level_text level) ns @ [n]
    \<and> split_on CHR '','' (init_directives level (ns @ [n])) = map (\<lambda>x. x @ ''='' @ level_text level) (ns @ [n])
    \<and> (ob_binary_names ob = [n] \<longrightarrow> set_log_level lg l1 ob = set_log_level lg l2 ob)"
proof (intro conjI impI)
  have "level_directives level (ns @ [n]) = joined '','' (map (\<lambda>x. x @ ''='' @ level_text level) ns @ [n])"
    using joined_between [of "''='' @ level_text level" "CHR '',''" ns n] by (simp add: level_directives_def)
  then show "split_on CHR '','' (level_directives level (ns @ [n])) = map (\<lambda>x. x @ ''='' @ level_text level) ns @ [n]"
    using assms by (auto intro!: split_on_joined)
  show "split_on CHR '','' (init_directives level (ns @ [n])) = map (\<lambda>x. x @ ''='' @ level_text level) (ns @ [n])"
    unfolding init_directives_def using assms by (intro split_on_joined) auto
  show "set_log_level lg l1 ob = set_log_level lg l2 ob" if "ob_binary_names ob = [n]"
    using that by (simp add: set_log_level_def level_directives_def)
qed

definition sample_log_api :: "(string, string list) log_api" where
  "sample_log_api = \<lparr>lg_default_env = [], lg_off = [''off''], lg_parse = (\<lambda>s. if s = [] then Inl ''empty'' else Inr s),
     lg_add_directive = (\<lambda>d fl. fl @ [d]), lg_reload_error = None\<rparr>"

definition sample_observability :: "string list observability" where
  "sample_observability =
     \<lparr>ob_binary_names = [''anvil_zksync''], ob_filter = [''off''], ob_last_directives = ''anvil_zksync=off''\<rparr>"

theorem log_level_skips_last_witness:
  "split_on CHR '','' (level_directives LevelError [''a'', ''b'']) = [''a=error'', ''b'']
   \<and> split_on CHR '','' (init_directives LevelError [''a'', ''b'']) = [''a=error'', ''b=error'']
   \<and> set_log_level sample_log_api Error sample_observability = set_log_level sample_log_api Trace sample_observability
   \<and> set_log_level sample_log_api Error sample_observability = Inr (sample_observability
       \<lparr>ob_filter := [''anvil_zksync''], ob_last_directives := ''anvil_zksync''\<rparr>)"
proof -
  have "set_log_level sample_log_api Error sample_observability = Inr (sample_observability
       \<lparr>ob_filter := [''anvil_zksync''], ob_last_directives := ''anvil_zksync''\<rparr>)"
    by (simp add: sample_log_api_def sample_observability_def set_log_level_def level_directives_def parse_filter_def
        reload_def Let_def)
  then show ?thesis
    using log_level_skips_last [of "[''a'']" "''b''" LevelError sample_observability sample_log_api Error Trace]
      log_level_skips_last [of "[]" "''anvil_zksync''" LevelError sample_observability sample_log_api Error Trace]
    by (simp add: sample_observability_def)
qed

end
