(* ===== verification/Rpc_Methods.thy ===== *)
theory Rpc_Methods
  imports Zks_Api Node_Errors L1_Sidecar Observability
begin

text \<open>
  The namespaces of the JSON-RPC server: \<open>crates/api_server/src/impls/\<close>, and the names under which their methods are
  registered, \<open>crates/api_decl/src/namespaces/\<close>.

  A request is a method with its arguments; reading it from JSON, the transport and the order in which requests reach the node are the server
  library's. The names of the methods of the \<open>eth\<close>, \<open>zks\<close>, \<open>debug\<close>, \<open>net\<close> and \<open>web3\<close> namespaces are declared in another crate; the
  server that merges the namespaces takes them as a parameter. A method answers \<open>None\<close> while it waits for a lock that is never released. The warning printed by
  \<open>set_min_gas_price\<close> is left out.

  Where the earlier theories keep an error of the node by its kind only, \<open>sv_detail\<close>, \<open>sv_estimate_detail\<close> and \<open>sv_anyhow\<close> are the full error and
  its text.
\<close>

section \<open>Parameters, values and state\<close>

record ('l, 'h, 'v, 'f, 'p, 'b, 't, 'td, 'q, 'u, 's, 'r, 'dt, 'm, 'd, 'fl) server_env =
  sv_env :: "('h, 'v, 'f, 'p, 'b, 't, 'td) node_env"
  sv_ext :: ext_api
  sv_send :: "'l \<Rightarrow> h256 \<Rightarrow> 'l send_result"
  sv_eth :: "('q, 'u, 's) eth_api"
  sv_gas :: "('f, 'r) gas_api"
  sv_gas_request :: "'q eth_request \<Rightarrow> 'r call_request"
  sv_zks :: "('b, 't, 'dt) zks_api"
  sv_contracts :: system_contracts
  sv_l1 :: "'m l1_api"
  sv_log :: "('d, 'fl) log_api"
  sv_text :: rpc_text
  sv_detail :: "node_error \<Rightarrow> anvil_node_error"
  sv_estimate_detail :: "estimate_error \<Rightarrow> anvil_node_error"
  sv_anyhow :: "node_error \<Rightarrow> string"
  sv_telemetry :: bool

text \<open>What a request meets outside the process: the channel made for a listener, the random root of a batch, the replies of L1.\<close>

record 'l rpc_io =
  io_sender :: 'l
  io_random :: h256
  io_replies :: l1_replies

record bridge_addresses =
  br_l1_shared_default_bridge :: "address option"
  br_l2_shared_default_bridge :: "address option"
  br_l1_erc20_default_bridge :: "address option"
  br_l2_erc20_default_bridge :: "address option"
  br_l1_weth_bridge :: "address option"
  br_l2_weth_bridge :: "address option"
  br_l2_legacy_shared_bridge :: "address option"

datatype (dead 'b, dead 't, dead 'td, dead 'dt) rpc_value =
    UnitValue | BoolValue bool | U64Value u64 | DiffValue int | U256Value u256 | OptU256Value "u256 option"
  | BytesValue bytes | OptBytesValue "bytes option" | TextValue string | H256Value h256 | OptH256Value "h256 option"
  | AddressValue address | OptAddressValue "address option" | AccountsValue "address set"
  | BlockValue "api_block option" | DetailedBlockValue "api_block \<times> detailed_transaction list"
  | LogsValue "log list" | ChangesValue filter_changes | ReceiptValue "transaction_receipt option"
  | TransactionValue "api_transaction option" | SyncValue sync_state | FeeHistoryValue fee_history | FeeValue fee
  | L1BridgesValue bridge_addresses | BridgesValue 'b | TokensValue "'t list" | BalancesValue "address \<rightharpoonup> u256"
  | ProofValue "l2_to_l1_log_proof option" | BlockDetailsValue "(block_details + remote_block_details) option"
  | TransactionDetailsValue "('dt transaction_details + 'td) option" | RawTransactionsValue "transaction list"
  | TraceValue debug_call | OptTraceValue "debug_call option" | TracesValue "debug_call list"

type_synonym ('b, 't, 'td, 'dt) rpc_answer = "(rpc_error, ('b, 't, 'td, 'dt) rpc_value) outcome option"

record ('l, 'f, 'p, 'b, 't, 'td, 'm, 'fl) rpc_server =
  sr_node :: "('l, 'f, 'p, 'b, 't, 'td) in_memory_node"
  sr_sidecar :: "'m l1_sidecar option"
  sr_logging :: "'fl observability option"
  sr_show_vm_details :: show_vm_details
  sr_show_gas_details :: show_gas_details
  sr_tracked :: "string list"

section \<open>Errors of the methods\<close>

fun adapt :: "('e \<Rightarrow> rpc_error) \<Rightarrow> ('a \<Rightarrow> 'v) \<Rightarrow> ('e, 'a) outcome \<Rightarrow> (rpc_error, 'v) outcome" where
  "adapt g f (Inr a) = Inr (f a)"
| "adapt g f (Inl (Err e)) = Inl (Err (g e))"
| "adapt g f (Inl (Panic m)) = Inl (Panic m)"

definition reply ::
  "('e \<Rightarrow> rpc_error) \<Rightarrow> ('a \<Rightarrow> 'v) \<Rightarrow> ('e, 'a) outcome option \<times> 'n \<Rightarrow> (rpc_error, 'v) outcome option \<times> 'n" where
  "reply g f = map_prod (map_option (adapt g f)) id"

fun web3_of_eth :: "eth_error \<Rightarrow> Node_Errors.web3_error" where
  "web3_of_eth (EthInternal m) = W3InternalError m"
| "web3_of_eth (EthPruned n) = W3PrunedBlock n"
| "web3_of_eth NoBlock = W3NoBlock"
| "web3_of_eth (SubmitTransactionError m bs) = W3SubmitTransactionError m bs"
| "web3_of_eth (EthSerialization m) = W3SerializationError m"

fun load_error :: "state_load_failure \<Rightarrow> state_load_error" where
  "load_error (StateDecompression m) = SlStateDecompression m"
| "load_error (StateDeserialization m) = SlStateDeserialization m"
| "load_error (StateLoader LoadingStateOverExistingState) = SlLoadingStateOverExistingState"
| "load_error (StateLoader (UnknownStateVersion v)) = SlUnknownStateVersion (ucast v)"
| "load_error (StateLoader LoadEmptyState) = SlLoadEmptyState"

abbreviation eth_reply where
  "eth_reply sv \<equiv> reply (\<lambda>e. rpc_of_web3 (sv_text sv) (web3_of_eth e))"

abbreviation node_reply_of where
  "node_reply_of sv \<equiv> reply (\<lambda>e. rpc_of_node (sv_text sv) (sv_detail sv e))"

abbreviation estimate_reply where
  "estimate_reply sv \<equiv> reply (\<lambda>e. rpc_of_node (sv_text sv) (sv_estimate_detail sv e))"

abbreviation anyhow_reply where
  "anyhow_reply sv \<equiv> reply (\<lambda>e. rpc_of_anyhow (sv_anyhow sv e))"

abbreviation unlocked :: "('e, 'a) outcome \<times> 'n \<Rightarrow> ('e, 'a) outcome option \<times> 'n" where
  "unlocked \<equiv> map_prod Some id"

abbreviation gives :: "'v \<Rightarrow> (rpc_error, 'v) outcome option" where
  "gives v \<equiv> Some (Inr v)"

abbreviation unsupported :: "string \<Rightarrow> (rpc_error, 'v) outcome option" where
  "unsupported name \<equiv> Some (Inl (Err (rpc_unsupported name)))"

section \<open>The \<open>anvil\<close> namespace\<close>

text \<open>A number arrives as an integer or as a hexadecimal string.\<close>

datatype numeric = NumericU64 u64 | NumericNum u64

fun u64_of_numeric :: "numeric \<Rightarrow> u64" where
  "u64_of_numeric (NumericU64 n) = n"
| "u64_of_numeric (NumericNum n) = n"

datatype anvil_request =
    AnvilDumpState "bool option" | AnvilLoadState bytes | AnvilMineDetailed | AnvilSetRpcUrl string
  | AnvilSetNextBlockBaseFeePerGas u256 | AnvilDropTransaction h256 | AnvilDropAllTransactions
  | AnvilRemovePoolTransactions address | AnvilGetAutoMine | AnvilSetAutoMine bool | AnvilSetIntervalMining u64
  | AnvilSetBlockTimestampInterval u64 | AnvilRemoveBlockTimestampInterval | AnvilSetMinGasPrice u256
  | AnvilSetLoggingEnabled bool | AnvilSnapshot | AnvilRevert u64 | AnvilSetTime numeric | AnvilIncreaseTime numeric
  | AnvilSetNextBlockTimestamp numeric | AnvilAutoImpersonateAccount bool | AnvilSetBalance address u256
  | AnvilSetNonce address u256 | AnvilMine "u64 option" "u64 option" | AnvilResetNetwork "reset_request option"
  | AnvilImpersonateAccount address | AnvilStopImpersonatingAccount address | AnvilSetCode address string
  | AnvilSetStorageAt address u256 u256 | AnvilSetChainId u32

primrec anvil_names :: "anvil_request \<Rightarrow> string list" where
  "anvil_names (AnvilDumpState _) = [''anvil_dumpState'', ''hardhat_dumpState'']"
| "anvil_names (AnvilLoadState _) = [''anvil_loadState'', ''hardhat_loadState'']"
| "anvil_names AnvilMineDetailed = [''anvil_mine_detailed'', ''evm_mine_detailed'']"
| "anvil_names (AnvilSetRpcUrl _) = [''anvil_setRpcUrl'']"
| "anvil_names (AnvilSetNextBlockBaseFeePerGas _) =
     [''anvil_setNextBlockBaseFeePerGas'', ''hardhat_setNextBlockBaseFeePerGas'']"
| "anvil_names (AnvilDropTransaction _) = [''anvil_dropTransaction'', ''hardhat_dropTransaction'']"
| "anvil_names AnvilDropAllTransactions = [''anvil_dropAllTransactions'', ''hardhat_dropAllTransactions'']"
| "anvil_names (AnvilRemovePoolTransactions _) = [''anvil_removePoolTransactions'']"
| "anvil_names AnvilGetAutoMine = [''anvil_getAutomine'', ''hardhat_getAutomine'']"
| "anvil_names (AnvilSetAutoMine _) = [''anvil_setAutomine'', ''evm_setAutomine'']"
| "anvil_names (AnvilSetIntervalMining _) = [''anvil_setIntervalMining'', ''evm_setIntervalMining'']"
| "anvil_names (AnvilSetBlockTimestampInterval _) = [''anvil_setBlockTimestampInterval'']"
| "anvil_names AnvilRemoveBlockTimestampInterval = [''anvil_removeBlockTimestampInterval'']"
| "anvil_names (AnvilSetMinGasPrice _) = [''anvil_setMinGasPrice'', ''hardhat_setMinGasPrice'']"
| "anvil_names (AnvilSetLoggingEnabled _) = [''anvil_setLoggingEnabled'', ''hardhat_setLoggingEnabled'']"
| "anvil_names AnvilSnapshot = [''anvil_snapshot'', ''evm_snapshot'']"
| "anvil_names (AnvilRevert _) = [''anvil_revert'', ''evm_revert'']"
| "anvil_names (AnvilSetTime _) = [''anvil_setTime'', ''evm_setTime'']"
| "anvil_names (AnvilIncreaseTime _) = [''anvil_increaseTime'', ''evm_increaseTime'']"
| "anvil_names (AnvilSetNextBlockTimestamp _) = [''anvil_setNextBlockTimestamp'', ''evm_setNextBlockTimestamp'']"
| "anvil_names (AnvilAutoImpersonateAccount _) = [''anvil_autoImpersonateAccount'', ''hardhat_autoImpersonateAccount'']"
| "anvil_names (AnvilSetBalance _ _) = [''anvil_setBalance'', ''hardhat_setBalance'']"
| "anvil_names (AnvilSetNonce _ _) = [''anvil_setNonce'', ''hardhat_setNonce'', ''evm_setAccountNonce'']"
| "anvil_names (AnvilMine _ _) = [''anvil_mine'', ''hardhat_mine'']"
| "anvil_names (AnvilResetNetwork _) = [''anvil_reset'', ''hardhat_reset'']"
| "anvil_names (AnvilImpersonateAccount _) = [''anvil_impersonateAccount'', ''hardhat_impersonateAccount'']"
| "anvil_names (AnvilStopImpersonatingAccount _) =
     [''anvil_stopImpersonatingAccount'', ''hardhat_stopImpersonatingAccount'']"
| "anvil_names (AnvilSetCode _ _) = [''anvil_setCode'', ''hardhat_setCode'']"
| "anvil_names (AnvilSetStorageAt _ _ _) = [''anvil_setStorageAt'', ''hardhat_setStorageAt'']"
| "anvil_names (AnvilSetChainId _) = [''anvil_setChainId'']"

definition on_node where
  "on_node f s = (case f (sr_node s) of (a, nd) \<Rightarrow> (a, s\<lparr>sr_node := nd\<rparr>))"

primrec anvil_rpc ::
  "('l, 'h, 'v, 'f, 'p, 'b, 't, 'td, 'q, 'u, 's, 'r, 'dt, 'm, 'd, 'fl) server_env \<Rightarrow> 'l rpc_io \<Rightarrow> anvil_request
     \<Rightarrow> ('l, 'f, 'p, 'b, 't, 'td, 'm, 'fl) rpc_server
     \<Rightarrow> ('b, 't, 'td, 'dt) rpc_answer \<times> ('l, 'f, 'p, 'b, 't, 'td, 'm, 'fl) rpc_server" where
  "anvil_rpc sv io (AnvilDumpState preserve) s = on_node (\<lambda>nd.
     node_reply_of sv BytesValue (node_dump_state (sv_ext sv) (case_option False id preserve) nd, nd)) s"
| "anvil_rpc sv io (AnvilLoadState bs) s = on_node (\<lambda>nd.
     reply (\<lambda>e. rpc_of_state_loader (sv_text sv) (load_error e)) BoolValue (node_load_state (sv_ext sv) bs nd)) s"
| "anvil_rpc sv io AnvilMineDetailed s = on_node (\<lambda>nd.
     anyhow_reply sv DetailedBlockValue (mine_detailed (sv_env sv) nd)) s"
| "anvil_rpc sv io (AnvilSetRpcUrl url) s = on_node (\<lambda>nd.
     anyhow_reply sv (\<lambda>_. UnitValue) (set_rpc_url (sv_env sv) (sv_ext sv) url nd)) s"
| "anvil_rpc sv io (AnvilSetNextBlockBaseFeePerGas base_fee) s = on_node (\<lambda>nd.
     node_reply_of sv (\<lambda>_. UnitValue) (set_next_block_base_fee_per_gas (sv_env sv) base_fee nd)) s"
| "anvil_rpc sv io (AnvilDropTransaction hash) s = on_node (\<lambda>nd.
     (case node_drop_transaction hash nd of (h, nd) \<Rightarrow> (gives (OptH256Value h), nd))) s"
| "anvil_rpc sv io AnvilDropAllTransactions s = on_node (\<lambda>nd.
     (gives UnitValue, drop_all_transactions nd)) s"
| "anvil_rpc sv io (AnvilRemovePoolTransactions a) s = on_node (\<lambda>nd.
     (gives UnitValue, remove_pool_transactions a nd)) s"
| "anvil_rpc sv io AnvilGetAutoMine s = on_node (\<lambda>nd.
     (gives (BoolValue (get_immediate_sealing nd)), nd)) s"
| "anvil_rpc sv io (AnvilSetAutoMine enable) s = on_node (\<lambda>nd.
     anyhow_reply sv (\<lambda>_. UnitValue) (set_immediate_sealing (io_sender io) enable nd)) s"
| "anvil_rpc sv io (AnvilSetIntervalMining seconds) s = on_node (\<lambda>nd.
     anyhow_reply sv (\<lambda>_. UnitValue) (set_interval_sealing seconds nd)) s"
| "anvil_rpc sv io (AnvilSetBlockTimestampInterval seconds) s = on_node (\<lambda>nd.
     anyhow_reply sv (\<lambda>_. UnitValue) (node_set_block_timestamp_interval seconds nd)) s"
| "anvil_rpc sv io AnvilRemoveBlockTimestampInterval s = on_node (\<lambda>nd.
     node_reply_of sv BoolValue (node_remove_block_timestamp_interval (sv_env sv) nd)) s"
| "anvil_rpc sv io (AnvilSetMinGasPrice gas) s = on_node (\<lambda>nd.
     (unsupported ''set_min_gas_price'', nd)) s"
| "anvil_rpc sv io (AnvilSetLoggingEnabled enable) s =
     (case node_set_logging_enabled (sv_log sv) enable (sr_logging s) of
        (r, ob) \<Rightarrow> (case r of Inl e \<Rightarrow> Some (Inl (Err (rpc_of_anyhow e))) | Inr _ \<Rightarrow> gives UnitValue, s\<lparr>sr_logging := ob\<rparr>))"
| "anvil_rpc sv io AnvilSnapshot s = on_node (\<lambda>nd.
     anyhow_reply sv U64Value (node_snapshot nd)) s"
| "anvil_rpc sv io (AnvilRevert i) s = on_node (\<lambda>nd.
     anyhow_reply sv BoolValue (revert_snapshot i nd)) s"
| "anvil_rpc sv io (AnvilSetTime timestamp) s = on_node (\<lambda>nd.
     node_reply_of sv DiffValue (node_set_time (sv_env sv) (u64_of_numeric timestamp) nd)) s"
| "anvil_rpc sv io (AnvilIncreaseTime seconds) s = on_node (\<lambda>nd.
     anyhow_reply sv U64Value (node_increase_time (sv_env sv) (u64_of_numeric seconds) nd)) s"
| "anvil_rpc sv io (AnvilSetNextBlockTimestamp timestamp) s = on_node (\<lambda>nd.
     anyhow_reply sv (\<lambda>_. UnitValue) (node_set_next_block_timestamp (sv_env sv) (u64_of_numeric timestamp) nd)) s"
| "anvil_rpc sv io (AnvilAutoImpersonateAccount enabled) s = on_node (\<lambda>nd.
     (gives UnitValue, auto_impersonate_account enabled nd)) s"
| "anvil_rpc sv io (AnvilSetBalance a balance) s = on_node (\<lambda>nd.
     anyhow_reply sv BoolValue (node_set_balance (sv_env sv) a balance nd)) s"
| "anvil_rpc sv io (AnvilSetNonce a nonce) s = on_node (\<lambda>nd.
     anyhow_reply sv BoolValue (node_set_nonce (sv_env sv) a nonce nd)) s"
| "anvil_rpc sv io (AnvilMine num_blocks gap) s = on_node (\<lambda>nd.
     anyhow_reply sv (\<lambda>_. UnitValue) (mine_blocks (sv_env sv) num_blocks gap nd)) s"
| "anvil_rpc sv io (AnvilResetNetwork reset_spec) s = on_node (\<lambda>nd.
     anyhow_reply sv BoolValue (reset_network (sv_env sv) (sv_ext sv) reset_spec nd)) s"
| "anvil_rpc sv io (AnvilImpersonateAccount a) s = on_node (\<lambda>nd.
     (gives UnitValue, snd (impersonate_account a nd))) s"
| "anvil_rpc sv io (AnvilStopImpersonatingAccount a) s = on_node (\<lambda>nd.
     (gives UnitValue, snd (stop_impersonating_account a nd))) s"
| "anvil_rpc sv io (AnvilSetCode a code) s = on_node (\<lambda>nd.
     anyhow_reply sv (\<lambda>_. UnitValue) (node_set_code (sv_env sv) (sv_ext sv) a code nd)) s"
| "anvil_rpc sv io (AnvilSetStorageAt a slot v) s = on_node (\<lambda>nd.
     anyhow_reply sv BoolValue (node_set_storage_at (sv_env sv) a slot v nd)) s"
| "anvil_rpc sv io (AnvilSetChainId i) s = on_node (\<lambda>nd.
     anyhow_reply sv (\<lambda>_. UnitValue) (node_set_chain_id (sv_ext sv) i nd)) s"

section \<open>The small namespaces\<close>

text \<open>The batches of the L1 sidecar. The witness of a batch is a \<open>todo\<close> of the code: the method panics.\<close>

datatype anvil_zks_request = ZksCommitBatch u32 | ZksProveBatch u32 | ZksExecuteBatch u32 | ZksBoojumWitness u32

primrec anvil_zks_names :: "anvil_zks_request \<Rightarrow> string list" where
  "anvil_zks_names (ZksCommitBatch _) = [''anvil_zks_commitBatch'']"
| "anvil_zks_names (ZksProveBatch _) = [''anvil_zks_proveBatch'']"
| "anvil_zks_names (ZksExecuteBatch _) = [''anvil_zks_executeBatch'']"
| "anvil_zks_names (ZksBoojumWitness _) = [''anvil_zks_getBoojumWitness'']"

definition on_sidecar where
  "on_sidecar f s = (case f (chain_of (sr_node s)) (sr_sidecar s) of
     (r, sd) \<Rightarrow> (Some (adapt rpc_of_anyhow H256Value r), s\<lparr>sr_sidecar := sd\<rparr>))"

primrec anvil_zks_rpc ::
  "('l, 'h, 'v, 'f, 'p, 'b, 't, 'td, 'q, 'u, 's, 'r, 'dt, 'm, 'd, 'fl) server_env \<Rightarrow> 'l rpc_io \<Rightarrow> anvil_zks_request
     \<Rightarrow> ('l, 'f, 'p, 'b, 't, 'td, 'm, 'fl) rpc_server
     \<Rightarrow> ('b, 't, 'td, 'dt) rpc_answer \<times> ('l, 'f, 'p, 'b, 't, 'td, 'm, 'fl) rpc_server" where
  "anvil_zks_rpc sv io (ZksCommitBatch n) s = on_sidecar (commit_batch (sv_l1 sv) (io_random io) (io_replies io) n) s"
| "anvil_zks_rpc sv io (ZksProveBatch n) s = on_sidecar (prove_batch (sv_l1 sv) (io_random io) (io_replies io) n) s"
| "anvil_zks_rpc sv io (ZksExecuteBatch n) s = on_sidecar (execute_batch (sv_l1 sv) (io_random io) (io_replies io) n) s"
| "anvil_zks_rpc sv io (ZksBoojumWitness n) s = (Some (Inl (Panic ''not yet implemented'')), s)"

datatype config_request =
    ConfigGetCurrentTimestamp | ConfigSetShowStorageLogs show_storage_logs | ConfigSetShowVmDetails show_vm_details
  | ConfigSetShowGasDetails show_gas_details | ConfigSetShowNodeConfig bool | ConfigSetLogLevel log_level
  | ConfigSetLogging string

primrec config_names :: "config_request \<Rightarrow> string list" where
  "config_names ConfigGetCurrentTimestamp = [''config_getCurrentTimestamp'']"
| "config_names (ConfigSetShowStorageLogs _) = [''config_setShowStorageLogs'']"
| "config_names (ConfigSetShowVmDetails _) = [''config_setShowVmDetails'']"
| "config_names (ConfigSetShowGasDetails _) = [''config_setShowGasDetails'']"
| "config_names (ConfigSetShowNodeConfig _) = [''config_setShowNodeConfig'']"
| "config_names (ConfigSetLogLevel _) = [''config_setLogLevel'']"
| "config_names (ConfigSetLogging _) = [''config_setLogging'']"

fun storage_logs_text :: "show_storage_logs \<Rightarrow> string" where
  "storage_logs_text ShowNone = ''None''"
| "storage_logs_text ShowRead = ''Read''"
| "storage_logs_text ShowWrite = ''Write''"
| "storage_logs_text ShowPaid = ''Paid''"
| "storage_logs_text ShowAll = ''All''"

fun vm_details_text :: "show_vm_details \<Rightarrow> string" where
  "vm_details_text VmDetailsNone = ''None''"
| "vm_details_text VmDetailsAll = ''All''"

fun gas_details_text :: "show_gas_details \<Rightarrow> string" where
  "gas_details_text GasDetailsNone = ''None''"
| "gas_details_text GasDetailsAll = ''All''"

definition node_set_show_vm_details where
  "node_set_show_vm_details v s =
     (if inner_locked (sr_node s) then (None, s) else (gives (TextValue (vm_details_text v)), s\<lparr>sr_show_vm_details := v\<rparr>))"

definition node_set_show_gas_details where
  "node_set_show_gas_details v s =
     (if inner_locked (sr_node s) then (None, s) else (gives (TextValue (gas_details_text v)), s\<lparr>sr_show_gas_details := v\<rparr>))"

definition on_logging where
  "on_logging sv f s = (case f (sr_logging s) of
     (r, ob) \<Rightarrow> (case r of
        Inl e \<Rightarrow> Some (Inl (Err (rpc_of_node (sv_text sv) (AnGenericError e))))
      | Inr b \<Rightarrow> gives (BoolValue b), s\<lparr>sr_logging := ob\<rparr>))"

primrec config_rpc ::
  "('l, 'h, 'v, 'f, 'p, 'b, 't, 'td, 'q, 'u, 's, 'r, 'dt, 'm, 'd, 'fl) server_env \<Rightarrow> config_request
     \<Rightarrow> ('l, 'f, 'p, 'b, 't, 'td, 'm, 'fl) rpc_server
     \<Rightarrow> ('b, 't, 'td, 'dt) rpc_answer \<times> ('l, 'f, 'p, 'b, 't, 'td, 'm, 'fl) rpc_server" where
  "config_rpc sv ConfigGetCurrentTimestamp s = (gives (U64Value (get_current_timestamp (sr_node s))), s)"
| "config_rpc sv (ConfigSetShowStorageLogs v) s = on_node (\<lambda>nd.
     case set_show_storage_logs v nd of (r, nd) \<Rightarrow> (map_option (\<lambda>v. Inr (TextValue (storage_logs_text v))) r, nd)) s"
| "config_rpc sv (ConfigSetShowVmDetails v) s = node_set_show_vm_details v s"
| "config_rpc sv (ConfigSetShowGasDetails v) s = node_set_show_gas_details v s"
| "config_rpc sv (ConfigSetShowNodeConfig v) s = on_node (\<lambda>nd.
     case set_show_node_config v nd of (r, nd) \<Rightarrow> (map_option (\<lambda>v. Inr (BoolValue v)) r, nd)) s"
| "config_rpc sv (ConfigSetLogLevel level) s = on_logging sv (node_set_log_level (sv_log sv) level) s"
| "config_rpc sv (ConfigSetLogging directive) s = on_logging sv (node_set_logging (sv_log sv) directive) s"

datatype (dead 'q) debug_request =
    DebugTraceBlockByNumber block_number "bool option" | DebugTraceBlockByHash h256 "bool option"
  | DebugTraceCall "'q eth_request" "block_id option" "bool option" | DebugTraceTransaction h256 "bool option"

primrec debug_rpc ::
  "('l, 'h, 'v, 'f, 'p, 'b, 't, 'td, 'q, 'u, 's, 'r, 'dt, 'm, 'd, 'fl) server_env \<Rightarrow> 'q debug_request
     \<Rightarrow> ('l, 'f, 'p, 'b, 't, 'td, 'm, 'fl) rpc_server
     \<Rightarrow> ('b, 't, 'td, 'dt) rpc_answer \<times> ('l, 'f, 'p, 'b, 't, 'td, 'm, 'fl) rpc_server" where
  "debug_rpc sv (DebugTraceBlockByNumber block options) s = on_node (\<lambda>nd.
     eth_reply sv TracesValue (Some (trace_block_impl (BlockNumber block) options nd), nd)) s"
| "debug_rpc sv (DebugTraceBlockByHash hash options) s = on_node (\<lambda>nd.
     eth_reply sv TracesValue (Some (trace_block_impl (BlockHash hash) options nd), nd)) s"
| "debug_rpc sv (DebugTraceCall req block options) s = on_node (\<lambda>nd. eth_reply sv TraceValue
     (trace_call_impl (sv_env sv) (sv_eth sv) (sv_gas sv) (sv_zks sv) (sv_contracts sv) req block options nd, nd)) s"
| "debug_rpc sv (DebugTraceTransaction hash options) s = on_node (\<lambda>nd.
     eth_reply sv OptTraceValue (Some (trace_transaction_impl hash options nd), nd)) s"

datatype evm_request = EvmMine

primrec evm_names :: "evm_request \<Rightarrow> string list" where
  "evm_names EvmMine = [''evm_mine'']"

primrec evm_rpc ::
  "('l, 'h, 'v, 'f, 'p, 'b, 't, 'td, 'q, 'u, 's, 'r, 'dt, 'm, 'd, 'fl) server_env \<Rightarrow> evm_request
     \<Rightarrow> ('l, 'f, 'p, 'b, 't, 'td, 'm, 'fl) rpc_server
     \<Rightarrow> ('b, 't, 'td, 'dt) rpc_answer \<times> ('l, 'f, 'p, 'b, 't, 'td, 'm, 'fl) rpc_server" where
  "evm_rpc sv EvmMine s = on_node (\<lambda>nd. node_reply_of sv (\<lambda>_. TextValue ''0x0'') (mine_block (sv_env sv) nd)) s"

datatype (dead 'q) eth_test_request = EthTestSendTransaction "'q eth_request"

primrec eth_test_names :: "'q eth_test_request \<Rightarrow> string list" where
  "eth_test_names (EthTestSendTransaction _) = [''eth_sendTransaction'']"

primrec eth_test_rpc ::
  "('l, 'h, 'v, 'f, 'p, 'b, 't, 'td, 'q, 'u, 's, 'r, 'dt, 'm, 'd, 'fl) server_env \<Rightarrow> 'q eth_test_request
     \<Rightarrow> ('l, 'f, 'p, 'b, 't, 'td, 'm, 'fl) rpc_server
     \<Rightarrow> ('b, 't, 'td, 'dt) rpc_answer \<times> ('l, 'f, 'p, 'b, 't, 'td, 'm, 'fl) rpc_server" where
  "eth_test_rpc sv (EthTestSendTransaction tx) s = on_node (\<lambda>nd.
     eth_reply sv H256Value (send_transaction_impl (sv_env sv) (sv_eth sv) (sv_contracts sv) (sv_send sv) tx nd)) s"

datatype net_request = NetVersion | NetPeerCount | NetIsListening

primrec net_rpc ::
  "('l, 'h, 'v, 'f, 'p, 'b, 't, 'td, 'q, 'u, 's, 'r, 'dt, 'm, 'd, 'fl) server_env \<Rightarrow> net_request
     \<Rightarrow> ('l, 'f, 'p, 'b, 't, 'td, 'm, 'fl) rpc_server
     \<Rightarrow> ('b, 't, 'td, 'dt) rpc_answer \<times> ('l, 'f, 'p, 'b, 't, 'td, 'm, 'fl) rpc_server" where
  "net_rpc sv NetVersion s =
     (map_option (\<lambda>chain_id. Inr (TextValue (decimal (unat chain_id)))) (get_chain_id (sr_node s)), s)"
| "net_rpc sv NetPeerCount s = (gives (U256Value 0), s)"
| "net_rpc sv NetIsListening s = (gives (BoolValue False), s)"

datatype web3_request = Web3ClientVersion

primrec web3_rpc ::
  "('l, 'h, 'v, 'f, 'p, 'b, 't, 'td, 'q, 'u, 's, 'r, 'dt, 'm, 'd, 'fl) server_env \<Rightarrow> web3_request
     \<Rightarrow> ('l, 'f, 'p, 'b, 't, 'td, 'm, 'fl) rpc_server
     \<Rightarrow> ('b, 't, 'td, 'dt) rpc_answer \<times> ('l, 'f, 'p, 'b, 't, 'td, 'm, 'fl) rpc_server" where
  "web3_rpc sv Web3ClientVersion s = (gives (TextValue ''zkSync/v2.0''), s)"

section \<open>The \<open>eth\<close> namespace\<close>

datatype (dead 'q) eth_method =
    EthBlockNumber | EthChainId
  | EthCall "'q eth_request" "block_id_variant option" "(address \<times> account_override) list option"
  | EthEstimateGas "'q eth_request" "block_number option" "(address \<times> account_override) list option"
  | EthGasPrice | EthNewFilter filter_request | EthNewBlockFilter | EthUninstallFilter u256
  | EthNewPendingTransactionFilter | EthGetLogs filter_request | EthGetFilterLogs u256 | EthGetFilterChanges u256
  | EthGetBalance address "block_id_variant option" | EthGetBlockByNumber block_number bool | EthGetBlockByHash h256 bool
  | EthGetBlockTransactionCountByNumber block_number | EthGetBlockReceipts block_id
  | EthGetBlockTransactionCountByHash h256 | EthGetCode address "block_id_variant option"
  | EthGetStorageAt address u256 "block_id_variant option" | EthGetTransactionCount address "block_id_variant option"
  | EthGetTransactionByHash h256 | EthGetTransactionByBlockHashAndIndex h256 u64
  | EthGetTransactionByBlockNumberAndIndex block_number u64 | EthGetTransactionReceipt h256 | EthProtocolVersion
  | EthSendRawTransaction bytes | EthSyncing | EthAccounts | EthCoinbase | EthCompilers | EthHashrate
  | EthGetUncleCountByBlockHash h256 | EthGetUncleCountByBlockNumber block_number | EthMining
  | EthFeeHistory u64 block_number "nat option" | EthMaxPriorityFeePerGas

text \<open>The block of a call and the overrides of an estimate are ignored, as in the code.\<close>

primrec eth_rpc ::
  "('l, 'h, 'v, 'f, 'p, 'b, 't, 'td, 'q, 'u, 's, 'r, 'dt, 'm, 'd, 'fl) server_env \<Rightarrow> 'q eth_method
     \<Rightarrow> ('l, 'f, 'p, 'b, 't, 'td, 'm, 'fl) rpc_server
     \<Rightarrow> ('b, 't, 'td, 'dt) rpc_answer \<times> ('l, 'f, 'p, 'b, 't, 'td, 'm, 'fl) rpc_server" where
  "eth_rpc sv EthBlockNumber s = (gives (U64Value (get_block_number_impl (sr_node s))), s)"
| "eth_rpc sv EthChainId s = (map_option (\<lambda>i. Inr (U64Value (ucast i))) (get_chain_id (sr_node s)), s)"
| "eth_rpc sv (EthCall req block overrides) s = on_node (\<lambda>nd.
     eth_reply sv BytesValue (call_impl (sv_env sv) (sv_eth sv) (sv_gas sv) (sv_contracts sv) req overrides nd)) s"
| "eth_rpc sv (EthEstimateGas req block overrides) s = on_node (\<lambda>nd. estimate_reply sv U256Value
     (eth_estimate_gas_impl (sv_env sv) (sv_gas sv) (sv_contracts sv) (sv_gas_request sv req) nd, nd)) s"
| "eth_rpc sv EthGasPrice s = (map_option (\<lambda>v. Inr (U256Value v)) (gas_price_impl (sv_env sv) (sr_node s)), s)"
| "eth_rpc sv (EthNewFilter f) s = on_node (\<lambda>nd. eth_reply sv U256Value (new_filter_impl f nd)) s"
| "eth_rpc sv EthNewBlockFilter s = on_node (\<lambda>nd. eth_reply sv U256Value (new_block_filter_impl nd)) s"
| "eth_rpc sv (EthUninstallFilter i) s = on_node (\<lambda>nd. eth_reply sv BoolValue (uninstall_filter_impl i nd)) s"
| "eth_rpc sv EthNewPendingTransactionFilter s = on_node (\<lambda>nd.
     eth_reply sv U256Value (new_pending_transaction_filter_impl nd)) s"
| "eth_rpc sv (EthGetLogs f) s = on_node (\<lambda>nd. eth_reply sv LogsValue (Some (get_logs_impl f nd), nd)) s"
| "eth_rpc sv (EthGetFilterLogs i) s = on_node (\<lambda>nd. eth_reply sv ChangesValue (get_filter_logs_impl i nd, nd)) s"
| "eth_rpc sv (EthGetFilterChanges i) s = on_node (\<lambda>nd. eth_reply sv ChangesValue (get_filter_changes_impl i nd)) s"
| "eth_rpc sv (EthGetBalance a block) s = on_node (\<lambda>nd.
     eth_reply sv U256Value (unlocked (get_balance_impl (en_node (sv_env sv)) a block nd))) s"
| "eth_rpc sv (EthGetBlockByNumber n full) s = on_node (\<lambda>nd.
     eth_reply sv BlockValue (unlocked (get_block_impl (BlockNumber n) full nd))) s"
| "eth_rpc sv (EthGetBlockByHash h full) s = on_node (\<lambda>nd.
     eth_reply sv BlockValue (unlocked (get_block_impl (BlockHash h) full nd))) s"
| "eth_rpc sv (EthGetBlockTransactionCountByNumber n) s = on_node (\<lambda>nd.
     eth_reply sv OptU256Value (Some (get_block_transaction_count_impl (BlockNumber n) nd), nd)) s"
| "eth_rpc sv (EthGetBlockReceipts block) s = (unsupported ''get_block_receipts'', s)"
| "eth_rpc sv (EthGetBlockTransactionCountByHash h) s = on_node (\<lambda>nd.
     eth_reply sv OptU256Value (Some (get_block_transaction_count_impl (BlockHash h) nd), nd)) s"
| "eth_rpc sv (EthGetCode a block) s = on_node (\<lambda>nd.
     eth_reply sv BytesValue (unlocked (get_code_impl (en_exec (sv_env sv)) a block nd))) s"
| "eth_rpc sv (EthGetStorageAt a idx block) s = on_node (\<lambda>nd. eth_reply sv H256Value (get_storage_impl a idx block nd, nd)) s"
| "eth_rpc sv (EthGetTransactionCount a block) s = on_node (\<lambda>nd.
     eth_reply sv U256Value (unlocked (get_transaction_count_impl (sv_env sv) (sv_eth sv) a block nd))) s"
| "eth_rpc sv (EthGetTransactionByHash h) s = on_node (\<lambda>nd.
     eth_reply sv TransactionValue (unlocked (get_transaction_by_hash_impl h nd))) s"
| "eth_rpc sv (EthGetTransactionByBlockHashAndIndex h index) s = on_node (\<lambda>nd.
     eth_reply sv TransactionValue (Some (get_transaction_by_block_and_index_impl (BlockHash h) index nd), nd)) s"
| "eth_rpc sv (EthGetTransactionByBlockNumberAndIndex n index) s = on_node (\<lambda>nd.
     eth_reply sv TransactionValue (Some (get_transaction_by_block_and_index_impl (BlockNumber n) index nd), nd)) s"
| "eth_rpc sv (EthGetTransactionReceipt h) s = on_node (\<lambda>nd.
     eth_reply sv ReceiptValue (Some (get_transaction_receipt_impl h nd), nd)) s"
| "eth_rpc sv EthProtocolVersion s = (gives (TextValue protocol_version_impl), s)"
| "eth_rpc sv (EthSendRawTransaction bs) s = on_node (\<lambda>nd.
     eth_reply sv H256Value (send_raw_transaction_impl (sv_eth sv) (sv_contracts sv) (sv_send sv) bs nd)) s"
| "eth_rpc sv EthSyncing s = (gives (SyncValue syncing_impl), s)"
| "eth_rpc sv EthAccounts s = (map_option (\<lambda>as. Inr (AccountsValue as)) (accounts_impl (sr_node s)), s)"
| "eth_rpc sv EthCoinbase s = (unsupported ''coinbase'', s)"
| "eth_rpc sv EthCompilers s = (unsupported ''compilers'', s)"
| "eth_rpc sv EthHashrate s = (unsupported ''hashrate'', s)"
| "eth_rpc sv (EthGetUncleCountByBlockHash h) s = (unsupported ''get_uncle_count_by_block_hash'', s)"
| "eth_rpc sv (EthGetUncleCountByBlockNumber n) s = (unsupported ''get_uncle_count_by_block_number'', s)"
| "eth_rpc sv EthMining s = (unsupported ''mining'', s)"
| "eth_rpc sv (EthFeeHistory block_count newest_block percentiles) s =
     (map_option (\<lambda>h. Inr (FeeHistoryValue h)) (fee_history_impl (sv_env sv) block_count newest_block percentiles (sr_node s)), s)"
| "eth_rpc sv EthMaxPriorityFeePerGas s = (unsupported ''max_priority_fee_per_gas'', s)"

section \<open>The \<open>zks\<close> namespace\<close>

datatype (dead 'q) zks_method =
    ZksEstimateFee "'q eth_request" "(address \<times> account_override) list option"
  | ZksEstimateGasL1ToL2 "'q eth_request" "(address \<times> account_override) list option"
  | ZksGetBridgehubContract | ZksGetMainL1Contract | ZksGetTestnetPaymaster | ZksGetBridgeContracts
  | ZksGetBaseTokenL1Address | ZksL1ChainId | ZksGetConfirmedTokens u32 u8 | ZksGetAllAccountBalances address
  | ZksGetL2ToL1MsgProof u32 address h256 "nat option" | ZksGetL2ToL1LogProof h256 "nat option"
  | ZksGetL1BatchNumber | ZksGetL2BlockRange u32 | ZksGetBlockDetails u32 | ZksGetTransactionDetails h256
  | ZksGetRawBlockTransactions u32 | ZksGetL1BatchDetails u32 | ZksGetBytecodeByHash h256 | ZksGetL1GasPrice
  | ZksGetFeeParams | ZksGetProtocolVersion "u16 option" | ZksGetProof address "h256 list" u32 | ZksGetBatchFeeInput
  | ZksSendRawTransactionWithDetailedOutput bytes | ZksGetTimestampAsserter | ZksGetL2Multicall3

definition rpc_get_bridgehub_contract where
  "rpc_get_bridgehub_contract s = (case contracts_config (sr_sidecar s) of
     Inl e \<Rightarrow> Some (Inl (Err (rpc_of_anyhow e))) | Inr c \<Rightarrow> gives (OptAddressValue (Some (ct_bridgehub_proxy_addr c))))"

text \<open>With an L1 the bridges are those of its contracts, and the fork is not asked.\<close>

definition rpc_get_bridge_contracts where
  "rpc_get_bridge_contracts sv s = (case contracts_config (sr_sidecar s) of
       Inr c \<Rightarrow> (gives (L1BridgesValue \<lparr>br_l1_shared_default_bridge = Some (ct_shared_l1_address c),
           br_l2_shared_default_bridge = ct_shared_l2_address c, br_l1_erc20_default_bridge = Some (ct_erc20_l1_address c),
           br_l2_erc20_default_bridge = ct_erc20_l2_address c, br_l1_weth_bridge = None, br_l2_weth_bridge = None,
           br_l2_legacy_shared_bridge = ct_legacy_shared_bridge_addr c\<rparr>), s)
     | Inl e \<Rightarrow> on_node (\<lambda>nd. eth_reply sv BridgesValue (unlocked (get_bridge_contracts_impl (sv_zks sv) nd))) s)"

definition rpc_l1_chain_id where
  "rpc_l1_chain_id s = (case genesis_config_of (sr_sidecar s) of
     Inl e \<Rightarrow> Some (Inl (Err (rpc_of_anyhow e))) | Inr g \<Rightarrow> gives (U64Value (gc_l1_chain_id g)))"

primrec zks_rpc ::
  "('l, 'h, 'v, 'f, 'p, 'b, 't, 'td, 'q, 'u, 's, 'r, 'dt, 'm, 'd, 'fl) server_env \<Rightarrow> 'q zks_method
     \<Rightarrow> ('l, 'f, 'p, 'b, 't, 'td, 'm, 'fl) rpc_server
     \<Rightarrow> ('b, 't, 'td, 'dt) rpc_answer \<times> ('l, 'f, 'p, 'b, 't, 'td, 'm, 'fl) rpc_server" where
  "zks_rpc sv (ZksEstimateFee req overrides) s = on_node (\<lambda>nd. estimate_reply sv FeeValue
     (estimate_fee_impl (sv_env sv) (sv_gas sv) (sv_contracts sv) (sv_gas_request sv req) nd, nd)) s"
| "zks_rpc sv (ZksEstimateGasL1ToL2 req overrides) s = on_node (\<lambda>nd. estimate_reply sv U256Value
     (estimate_gas_l1_to_l2 (sv_env sv) (sv_gas sv) (sv_contracts sv) (sv_gas_request sv req) nd, nd)) s"
| "zks_rpc sv ZksGetBridgehubContract s = (rpc_get_bridgehub_contract s, s)"
| "zks_rpc sv ZksGetMainL1Contract s = (unsupported ''get_main_l1_contract'', s)"
| "zks_rpc sv ZksGetTestnetPaymaster s = (unsupported ''get_testnet_paymaster'', s)"
| "zks_rpc sv ZksGetBridgeContracts s = rpc_get_bridge_contracts sv s"
| "zks_rpc sv ZksGetBaseTokenL1Address s = (gives (AddressValue get_base_token_l1_address_impl), s)"
| "zks_rpc sv ZksL1ChainId s = (rpc_l1_chain_id s, s)"
| "zks_rpc sv (ZksGetConfirmedTokens start limit) s = on_node (\<lambda>nd.
     eth_reply sv TokensValue (unlocked (get_confirmed_tokens_impl (sv_zks sv) start limit nd))) s"
| "zks_rpc sv (ZksGetAllAccountBalances a) s = on_node (\<lambda>nd.
     eth_reply sv BalancesValue (unlocked (get_all_account_balances_impl (sv_zks sv) a nd))) s"
| "zks_rpc sv (ZksGetL2ToL1MsgProof block sender msg pos) s = (unsupported ''get_l2_to_l1_msg_proof'', s)"
| "zks_rpc sv (ZksGetL2ToL1LogProof h index) s = on_node (\<lambda>nd.
     eth_reply sv ProofValue (Some (get_l2_to_l1_log_proof_impl (sv_zks sv) h index nd), nd)) s"
| "zks_rpc sv ZksGetL1BatchNumber s = (unsupported ''get_l1_batch_number'', s)"
| "zks_rpc sv (ZksGetL2BlockRange batch) s = (unsupported ''get_l2_block_range'', s)"
| "zks_rpc sv (ZksGetBlockDetails n) s = on_node (\<lambda>nd.
     eth_reply sv BlockDetailsValue (get_block_details_impl (sv_env sv) (sv_contracts sv) n nd, nd)) s"
| "zks_rpc sv (ZksGetTransactionDetails h) s = on_node (\<lambda>nd.
     eth_reply sv TransactionDetailsValue (Some (get_transaction_details_impl (sv_zks sv) h nd), nd)) s"
| "zks_rpc sv (ZksGetRawBlockTransactions n) s = on_node (\<lambda>nd.
     eth_reply sv RawTransactionsValue (unlocked (get_raw_block_transactions_impl n nd))) s"
| "zks_rpc sv (ZksGetL1BatchDetails batch) s = (unsupported ''get_l1_batch_details'', s)"
| "zks_rpc sv (ZksGetBytecodeByHash h) s = on_node (\<lambda>nd.
     eth_reply sv OptBytesValue (unlocked (get_bytecode_by_hash_impl h nd))) s"
| "zks_rpc sv ZksGetL1GasPrice s = (unsupported ''get_l1_gas_price'', s)"
| "zks_rpc sv ZksGetFeeParams s = (unsupported ''get_fee_params'', s)"
| "zks_rpc sv (ZksGetProtocolVersion version) s = (unsupported ''get_protocol_version'', s)"
| "zks_rpc sv (ZksGetProof a keys batch) s = (unsupported ''get_proof'', s)"
| "zks_rpc sv ZksGetBatchFeeInput s = (unsupported ''get_batch_fee_input'', s)"
| "zks_rpc sv (ZksSendRawTransactionWithDetailedOutput bs) s =
     (unsupported ''send_raw_transaction_with_detailed_output'', s)"
| "zks_rpc sv ZksGetTimestampAsserter s = (unsupported ''get_timestamp_asserter'', s)"
| "zks_rpc sv ZksGetL2Multicall3 s = (unsupported ''get_l2_multicall3'', s)"

end
