(* ===== verification/Rpc_Server.thy ===== *)
theory Rpc_Server
  imports Rpc_Methods
begin

text \<open>
  The JSON-RPC server: \<open>crates/api_server/src/server.rs\<close>, over the namespaces of \<open>Rpc_Methods\<close>.

  The names of the methods another crate declares are the fields of \<open>declared_names\<close>. Binding the socket, the HTTP layers and the
  scheduling of requests are the server library's; a request is served as one step.
\<close>

section \<open>The module of all methods\<close>

record declared_names =
  dn_eth :: "string list"
  dn_debug :: "string list"
  dn_net :: "string list"
  dn_zks :: "string list"
  dn_web3 :: "string list"

text \<open>One request per method, in the order of the declarations.\<close>

definition anvil_methods :: "anvil_request list" where
  "anvil_methods =
     [AnvilDumpState None, AnvilLoadState [], AnvilMineDetailed, AnvilSetRpcUrl [], AnvilSetNextBlockBaseFeePerGas 0,
      AnvilDropTransaction 0, AnvilDropAllTransactions, AnvilRemovePoolTransactions 0, AnvilGetAutoMine, AnvilSetAutoMine False,
      AnvilSetIntervalMining 0, AnvilSetBlockTimestampInterval 0, AnvilRemoveBlockTimestampInterval, AnvilSetMinGasPrice 0,
      AnvilSetLoggingEnabled False, AnvilSnapshot, AnvilRevert 0, AnvilSetTime (NumericNum 0), AnvilIncreaseTime (NumericNum 0),
      AnvilSetNextBlockTimestamp (NumericNum 0), AnvilAutoImpersonateAccount False, AnvilSetBalance 0 0, AnvilSetNonce 0 0,
      AnvilMine None None, AnvilResetNetwork None, AnvilImpersonateAccount 0, AnvilStopImpersonatingAccount 0,
      AnvilSetCode 0 [], AnvilSetStorageAt 0 0 0, AnvilSetChainId 0]"

definition config_methods :: "config_request list" where
  "config_methods = [ConfigGetCurrentTimestamp, ConfigSetShowStorageLogs ShowNone, ConfigSetShowVmDetails VmDetailsNone,
     ConfigSetShowGasDetails GasDetailsNone, ConfigSetShowNodeConfig False, ConfigSetLogLevel NoLog, ConfigSetLogging []]"

definition anvil_zks_methods :: "anvil_zks_request list" where
  "anvil_zks_methods = [ZksCommitBatch 0, ZksProveBatch 0, ZksExecuteBatch 0, ZksBoojumWitness 0]"

abbreviation registered :: "('a \<Rightarrow> string list) \<Rightarrow> 'a list \<Rightarrow> string list" where
  "registered names methods \<equiv> concat (map names methods)"

text \<open>\<open>RpcModule::merge\<close> refuses a name that is taken; the result is unwrapped.\<close>

definition rpc_merge :: "string list \<Rightarrow> string list \<Rightarrow> (unit, string list) outcome" where
  "rpc_merge other rpc = (case find (\<lambda>name. name \<in> set rpc) other of
     Some name \<Rightarrow> Inl (Panic (''called `Result::unwrap()` on an `Err` value: AlreadyRegistered '' @ name)) | None \<Rightarrow> Inr (rpc @ other))"

fun rpc_merge_all :: "string list list \<Rightarrow> string list \<Rightarrow> (unit, string list) outcome" where
  "rpc_merge_all [] rpc = Inr rpc"
| "rpc_merge_all (other # others) rpc = and_then (rpc_merge other rpc) (rpc_merge_all others)"

definition default_rpc :: "declared_names \<Rightarrow> (unit, string list) outcome" where
  "default_rpc dn = rpc_merge_all
     [dn_eth dn, [''eth_sendTransaction''], registered anvil_names anvil_methods,
      registered anvil_zks_names anvil_zks_methods, evm_names EvmMine, dn_debug dn, dn_net dn,
      registered config_names config_methods, dn_zks dn, dn_web3 dn] []"

section \<open>Serving a request\<close>

datatype (dead 'q) rpc_request =
    InEth "'q eth_method" | InEthTest "'q eth_test_request" | InAnvil anvil_request | InAnvilZks anvil_zks_request
  | InEvm evm_request | InDebug "'q debug_request" | InNet net_request | InConfig config_request | InZks "'q zks_method"
  | InWeb3 web3_request

primrec rpc_call ::
  "('l, 'h, 'v, 'f, 'p, 'b, 't, 'td, 'q, 'u, 's, 'r, 'dt, 'm, 'd, 'fl) server_env \<Rightarrow> 'l rpc_io \<Rightarrow> 'q rpc_request
     \<Rightarrow> ('l, 'f, 'p, 'b, 't, 'td, 'm, 'fl) rpc_server
     \<Rightarrow> ('b, 't, 'td, 'dt) rpc_answer \<times> ('l, 'f, 'p, 'b, 't, 'td, 'm, 'fl) rpc_server" where
  "rpc_call sv io (InEth r) s = eth_rpc sv r s"
| "rpc_call sv io (InEthTest r) s = eth_test_rpc sv r s"
| "rpc_call sv io (InAnvil r) s = anvil_rpc sv io r s"
| "rpc_call sv io (InAnvilZks r) s = anvil_zks_rpc sv io r s"
| "rpc_call sv io (InEvm r) s = evm_rpc sv r s"
| "rpc_call sv io (InDebug r) s = debug_rpc sv r s"
| "rpc_call sv io (InNet r) s = net_rpc sv r s"
| "rpc_call sv io (InConfig r) s = config_rpc sv r s"
| "rpc_call sv io (InZks r) s = zks_rpc sv r s"
| "rpc_call sv io (InWeb3 r) s = web3_rpc sv r s"

definition reported :: "string \<Rightarrow> bool" where
  "reported name \<longleftrightarrow> prefix ''anvil_'' name \<or> prefix ''config_'' name"

text \<open>The reporter sees the name the client used. Whether the event could be sent is ignored.\<close>

definition serve ::
  "('l, 'h, 'v, 'f, 'p, 'b, 't, 'td, 'q, 'u, 's, 'r, 'dt, 'm, 'd, 'fl) server_env \<Rightarrow> 'l rpc_io \<Rightarrow> string \<Rightarrow> 'q rpc_request
     \<Rightarrow> ('l, 'f, 'p, 'b, 't, 'td, 'm, 'fl) rpc_server
     \<Rightarrow> ('b, 't, 'td, 'dt) rpc_answer \<times> ('l, 'f, 'p, 'b, 't, 'td, 'm, 'fl) rpc_server" where
  "serve sv io name req s =
     (if \<not> sv_telemetry sv then (Some (Inl (Panic ''telemetry is not initialized'')), s)
      else let s = (if reported name then s\<lparr>sr_tracked := sr_tracked s @ [name]\<rparr> else s) in rpc_call sv io req s)"

section \<open>The methods are registered\<close>

lemma rpc_merge_Inr: "set other \<inter> set rpc = {} \<Longrightarrow> rpc_merge other rpc = Inr (rpc @ other)"
  by (auto simp: rpc_merge_def find_None_iff split: option.split dest!: find_Some_iff [THEN iffD1] dest: nth_mem)

lemma rpc_merge_all_Inr: "distinct (rpc @ concat others) \<Longrightarrow> rpc_merge_all others rpc = Inr (rpc @ concat others)"
proof (induction others arbitrary: rpc)
  case (Cons other others)
  then have "set other \<inter> set rpc = {}" by auto
  then show ?case using Cons.IH [of "rpc @ other"] Cons.prems by (simp add: rpc_merge_Inr)
qed simp

text \<open>What the other crate declares: the names of each namespace, with its prefix.\<close>

definition names_of :: "string \<Rightarrow> string list \<Rightarrow> bool" where
  "names_of namespace names \<longleftrightarrow> distinct names \<and> (\<forall>name\<in>set names. takeWhile (\<lambda>c. c \<noteq> CHR ''_'') name = namespace)"

definition declared_well :: "declared_names \<Rightarrow> bool" where
  "declared_well dn \<longleftrightarrow> names_of ''eth'' (dn_eth dn) \<and> ''eth_sendTransaction'' \<notin> set (dn_eth dn) \<and> names_of ''debug'' (dn_debug dn)
     \<and> names_of ''net'' (dn_net dn) \<and> names_of ''zks'' (dn_zks dn) \<and> names_of ''web3'' (dn_web3 dn)"

abbreviation own_names :: "string list" where
  "own_names \<equiv> ''eth_sendTransaction'' # registered anvil_names anvil_methods @ registered anvil_zks_names anvil_zks_methods
     @ evm_names EvmMine @ registered config_names config_methods"

lemma own_names_distinct: "distinct own_names"
  by (simp add: anvil_methods_def anvil_zks_methods_def config_methods_def)

abbreviation namespace_of :: "string \<Rightarrow> string" where
  "namespace_of \<equiv> takeWhile (\<lambda>c. c \<noteq> CHR ''_'')"

lemma own_namespaces:
  "namespace_of ` set (registered anvil_names anvil_methods) = {''anvil'', ''hardhat'', ''evm''}"
  "namespace_of ` set (registered anvil_zks_names anvil_zks_methods) = {''anvil''}"
  "namespace_of ` set (registered config_names config_methods) = {''config''}"
  by (simp_all add: anvil_methods_def anvil_zks_methods_def config_methods_def insert_commute)

lemma names_disjoint: "names_of n names \<Longrightarrow> n \<notin> namespace_of ` set others \<Longrightarrow> set names \<inter> set others = {}"
  by (auto simp: names_of_def)

lemma anvil_method_listed: "anvil_names r \<in> set (map anvil_names anvil_methods)"
  by (cases r) (simp_all add: anvil_methods_def)

lemma config_method_listed: "config_names r \<in> set (map config_names config_methods)"
  by (cases r) (simp_all add: config_methods_def)

lemma anvil_zks_method_listed: "anvil_zks_names r \<in> set (map anvil_zks_names anvil_zks_methods)"
  by (cases r) (simp_all add: anvil_zks_methods_def)

lemma namespaces_of: "list_all2 names_of ns xss \<Longrightarrow> namespace_of ` set (concat xss) \<subseteq> set ns"
  by (induction rule: list_all2_induct) (auto simp: names_of_def)

lemma namespaces_distinct: "list_all2 names_of ns xss \<Longrightarrow> distinct ns \<Longrightarrow> distinct (concat xss)"
proof (induction rule: list_all2_induct)
  case (Cons n ns names xss)
  then have "set names \<inter> set (concat xss) = {}"
    by (intro names_disjoint [of n]) (use namespaces_of [of ns xss] in auto)
  with Cons show ?case by (simp add: names_of_def)
qed simp

lemma distinct_around: "distinct xs \<Longrightarrow> distinct (a # ys) \<Longrightarrow> a \<notin> set xs \<Longrightarrow> set xs \<inter> set ys = {} \<Longrightarrow> distinct (xs @ a # ys)"
  by auto

lemma namespaces_disjoint:
  "namespace_of ` set xs \<subseteq> N \<Longrightarrow> namespace_of ` set ys = M \<Longrightarrow> N \<inter> M = {} \<Longrightarrow> set xs \<inter> set ys = {}"
  by blast

lemma default_rpc_distinct:
  assumes "declared_well dn"
  shows "distinct (concat [dn_eth dn, dn_debug dn, dn_net dn, dn_zks dn, dn_web3 dn] @ own_names)"
proof (rule distinct_around [OF _ own_names_distinct])
  let ?xss = "[dn_eth dn, dn_debug dn, dn_net dn, dn_zks dn, dn_web3 dn]"
  have declared: "list_all2 names_of [''eth'', ''debug'', ''net'', ''zks'', ''web3''] ?xss"
    using assms unfolding declared_well_def by simp
  show "distinct (concat ?xss)" by (rule namespaces_distinct [OF declared]) simp
  show "set (concat ?xss) \<inter> set (registered anvil_names anvil_methods @ registered anvil_zks_names anvil_zks_methods
      @ evm_names EvmMine @ registered config_names config_methods) = {}"
  proof (rule namespaces_disjoint [OF namespaces_of [OF declared]])
    show "namespace_of ` set (registered anvil_names anvil_methods @ registered anvil_zks_names anvil_zks_methods
      @ evm_names EvmMine @ registered config_names config_methods)
      = {''anvil'', ''hardhat'', ''evm''} \<union> ({''anvil''} \<union> ({''evm''} \<union> {''config''}))"
      unfolding set_append image_Un own_namespaces by simp
  qed simp
  show "''eth_sendTransaction'' \<notin> set (concat ?xss)"
  proof
    assume "''eth_sendTransaction'' \<in> set (concat ?xss)"
    then obtain names n where "''eth_sendTransaction'' \<in> set names" "names_of n names" "n \<in> {''debug'', ''net'', ''zks'', ''web3''}"
      using assms unfolding declared_well_def by fastforce
    then show False by (auto simp: names_of_def)
  qed
qed

text \<open>The module is built. Whatever methods the other namespaces declare, as long as they carry their prefixes, no two methods
  share a name: merging the namespaces does not panic, and every method of the node's own namespaces is registered under its name and
  all its aliases.\<close>

theorem default_rpc_registers:
  assumes "declared_well dn"
  shows "\<exists>names. default_rpc dn = Inr names \<and> distinct names \<and> set (anvil_names a) \<union> set (config_names c) \<union> set (anvil_zks_names z)
    \<union> set (evm_names e) \<union> set (eth_test_names t) \<subseteq> set names"
proof -
  let ?parts = "[dn_eth dn, [''eth_sendTransaction''], registered anvil_names anvil_methods,
      registered anvil_zks_names anvil_zks_methods, evm_names EvmMine, dn_debug dn, dn_net dn,
      registered config_names config_methods, dn_zks dn, dn_web3 dn]"
  have perm: "mset (concat ?parts) = mset (concat [dn_eth dn, dn_debug dn, dn_net dn, dn_zks dn, dn_web3 dn] @ own_names)"
    by simp
  have distinct: "distinct (concat ?parts)"
    using default_rpc_distinct [OF assms] by (rule mset_eq_imp_distinct_iff [OF perm, THEN iffD2])
  have "set (anvil_names a) \<union> set (config_names c) \<union> set (anvil_zks_names z) \<union> set (evm_names e) \<union> set (eth_test_names t)
      \<subseteq> set (concat ?parts)"
    using anvil_method_listed [of a] config_method_listed [of c] anvil_zks_method_listed [of z]
    by (cases e; cases t) (force simp del: anvil_names.simps config_names.simps anvil_zks_names.simps)
  with distinct rpc_merge_all_Inr [of "[]" ?parts] show ?thesis
    unfolding default_rpc_def append_Nil by blast
qed

section \<open>What a request may change\<close>

text \<open>A query may fill the caches in front of the fork; everything else of the node stays, and every slot reads as before.\<close>

definition only_caches ::
  "('l, 'f, 'p, 'b, 't, 'td) in_memory_node \<Rightarrow> ('l, 'f, 'p, 'b, 't, 'td) in_memory_node \<Rightarrow> bool" where
  "only_caches nd nd' \<longleftrightarrow>
     (\<exists>fs fk. nd' = set_node_of ((node_of nd)\<lparr>ni_fork_storage := fs, ni_fork := fk\<rparr>) nd
        \<and> fs_raw_storage fs = fs_raw_storage (ni_fork_storage (node_of nd))
        \<and> fs_chain_id fs = fs_chain_id (ni_fork_storage (node_of nd))
        \<and> fk_client fk = fk_client (ni_fork (node_of nd)))
     \<and> node_reads (node_of nd') = node_reads (node_of nd)"

lemma set_node_of_same [simp]: "set_node_of (node_of nd) nd = nd"
  by (simp add: set_node_of_def)

lemma only_caches_refl [simp]: "only_caches nd nd"
proof -
  have "nd = set_node_of ((node_of nd)\<lparr>ni_fork_storage := ni_fork_storage (node_of nd), ni_fork := ni_fork (node_of nd)\<rparr>) nd"
    by (simp add: set_node_of_def)
  then show ?thesis unfolding only_caches_def by (intro conjI exI) (simp_all)
qed

lemma only_caches_trans: "only_caches a b \<Longrightarrow> only_caches b c \<Longrightarrow> only_caches a c"
  by (fastforce simp: only_caches_def set_node_of_def)

lemma fork_as_source_client: "fk_client fk = fk_client fk' \<Longrightarrow> fork_as_source fk = fork_as_source fk'"
  by (simp add: fork_as_source_def fork_get_storage_at_forked_def fork_get_storage_at_def fork_get_bytecode_by_hash_def make_call_def
      cong: option.case_cong)

lemma only_cachesI:
  assumes "nd' = set_node_of ((node_of nd)\<lparr>ni_fork_storage := fs, ni_fork := fk\<rparr>) nd"
    and "fs_raw_storage fs = fs_raw_storage (ni_fork_storage (node_of nd))" "fs_chain_id fs = fs_chain_id (ni_fork_storage (node_of nd))"
    and "fk_client fk = fk_client (ni_fork (node_of nd))"
    and "storage_view (fork_as_source (ni_fork (node_of nd))) fs = node_reads (node_of nd)"
  shows "only_caches nd nd'"
  unfolding only_caches_def using assms fork_as_source_client [OF assms(4)]
  by (intro conjI exI [of _ fs] exI [of _ fk]) simp_all

lemma only_caches_read [intro]: "only_caches nd (snd (node_read_value k nd))"
  by (rule only_cachesI [where fk = "ni_fork (node_of nd)"
        and fs = "snd (read_value_internal (fork_as_source (ni_fork (node_of nd))) k (ni_fork_storage (node_of nd)))"],
      simp_all add: node_read_value_def fs.read_view case_prod_unfold)
    (auto simp: read_value_internal_def split: option.split sum.split)

lemma only_caches_dep [intro]: "only_caches nd (snd (node_load_factory_dep h nd))"
  by (rule only_cachesI [where fk = "ni_fork (node_of nd)"
        and fs = "snd (load_factory_dep_internal (fork_as_source (ni_fork (node_of nd))) h (ni_fork_storage (node_of nd)))"])
    (auto simp: node_load_factory_dep_def case_prod_unfold load_factory_dep_internal_def storage_view_def Let_def fun_eq_iff
      split: option.split sum.split)

lemma only_caches_fork:
  assumes "fk_client (snd (f (ni_fork (node_of nd)))) = fk_client (ni_fork (node_of nd))"
  shows "only_caches nd (snd (node_fork f nd))"
  by (rule only_cachesI [where fk = "snd (f (ni_fork (node_of nd)))" and fs = "ni_fork_storage (node_of nd)"])
    (simp_all add: node_fork_def case_prod_unfold assms)

lemma fork_calls_keep_client [simp]:
  "fk_client (snd (fork_get_transaction_by_hash h fk)) = fk_client fk"
  "fk_client (snd (fork_get_raw_block_transactions n fk)) = fk_client fk"
  "fk_client (snd (fork_get_block_by_id b fk)) = fk_client fk"
  "fk_client (snd (fork_get_bridge_contracts fk)) = fk_client fk"
  "fk_client (snd (fork_get_confirmed_tokens i l fk)) = fk_client fk"
  by (auto simp: fork_get_transaction_by_hash_def fork_get_raw_block_transactions_def fork_get_block_by_id_def fork_get_block_by_hash_def
      fork_get_block_by_number_def fork_get_bridge_contracts_def fork_get_confirmed_tokens_def Let_def
      split: option.split sum.split prod.split block_id.split block_number.split)

text \<open>The methods that only look.\<close>

lemma only_caches_stepped: "f nd = (r, nd') \<Longrightarrow> only_caches nd (snd (f nd)) \<Longrightarrow> only_caches nd nd'"
  by simp

lemmas only_caches_steps =
  only_caches_stepped [OF _ only_caches_read] only_caches_stepped [OF _ only_caches_dep]
  only_caches_stepped [OF _ only_caches_fork]

lemma only_caches_reading:
  "only_caches nd (snd (get_balance_impl na a block nd))" "only_caches nd (snd (get_code_impl xa a block nd))"
  "only_caches nd (snd (get_bytecode_by_hash_impl h nd))" "only_caches nd (snd (call_target_check xa tx nd))"
  by (auto simp: get_balance_impl_def get_code_impl_def get_bytecode_by_hash_impl_def call_target_check_def
      split: sum.split prod.split option.split dest!: only_caches_steps intro: only_caches_trans)

lemma only_caches_fetching:
  "only_caches nd (snd (get_block_impl b full nd))" "only_caches nd (snd (get_transaction_by_hash_impl h nd))"
  "only_caches nd (snd (get_raw_block_transactions_impl n nd))" "only_caches nd (snd (get_bridge_contracts_impl za nd))"
  "only_caches nd (snd (get_confirmed_tokens_impl za i l nd))"
  by (auto simp: get_block_impl_def get_transaction_by_hash_impl_def get_raw_block_transactions_impl_def get_bridge_contracts_impl_def
      get_confirmed_tokens_impl_def only_caches_fork split: sum.split prod.split option.split dest!: only_caches_steps)

lemma only_caches_three: "only_caches nd (snd (read_three k1 k2 k3 nd))"
  by (auto simp: read_three_def split: sum.split prod.split dest!: only_caches_steps intro: only_caches_trans)

lemma only_caches_count: "only_caches nd (snd (get_transaction_count_impl env ea a block nd))"
  by (auto simp: get_transaction_count_impl_def split: sum.split prod.split
      dest!: only_caches_stepped [OF _ only_caches_three])

lemma only_caches_tokens: "only_caches nd (snd (token_balances za a tokens balances nd))"
proof (induction tokens arbitrary: balances nd)
  case (Cons token tokens)
  then show ?case by (auto split: sum.split prod.split dest!: only_caches_steps intro: only_caches_trans)
qed simp

lemma only_caches_balances: "only_caches nd (snd (get_all_account_balances_impl za a nd))"
  by (auto simp: get_all_account_balances_impl_def split: sum.split prod.split
      dest!: only_caches_stepped [OF _ only_caches_fetching(5)] intro: only_caches_trans only_caches_tokens)

lemma only_caches_call: "only_caches nd (snd (call_impl env ea ga sc req overrides nd))"
  by (auto simp: call_impl_def split: sum.split prod.split dest!: only_caches_stepped [OF _ only_caches_reading(4)])

lemmas only_caches_methods = only_caches_reading only_caches_fetching only_caches_count only_caches_balances only_caches_call

section \<open>Requests and steps of the node\<close>

text \<open>What a request does to the node: nothing but filling caches, one call of the node's state machine, one call on the filters, or, for
  a transaction, a submission if it is accepted.\<close>

datatype 'l effect = Looks | Calls "'l node_call" | Filters filter_call | Submits

primrec anvil_effect :: "'l rpc_io \<Rightarrow> anvil_request \<Rightarrow> 'l effect" where
  "anvil_effect io (AnvilDumpState preserve) = Looks"
| "anvil_effect io (AnvilLoadState bs) = Calls (CallLoadState bs)"
| "anvil_effect io AnvilMineDetailed = Calls CallMineDetailed"
| "anvil_effect io (AnvilSetRpcUrl url) = Calls (CallSetRpcUrl url)"
| "anvil_effect io (AnvilSetNextBlockBaseFeePerGas base_fee) = Calls (CallSetBaseFee base_fee)"
| "anvil_effect io (AnvilDropTransaction hash) = Calls (CallDropTransaction hash)"
| "anvil_effect io AnvilDropAllTransactions = Calls CallDropAll"
| "anvil_effect io (AnvilRemovePoolTransactions a) = Calls (CallRemovePoolTransactions a)"
| "anvil_effect io AnvilGetAutoMine = Looks"
| "anvil_effect io (AnvilSetAutoMine enable) = Calls (CallSetImmediate (io_sender io) enable)"
| "anvil_effect io (AnvilSetIntervalMining seconds) = Calls (CallSetIntervalSealing seconds)"
| "anvil_effect io (AnvilSetBlockTimestampInterval seconds) = Calls (CallSetInterval seconds)"
| "anvil_effect io AnvilRemoveBlockTimestampInterval = Calls CallRemoveInterval"
| "anvil_effect io (AnvilSetMinGasPrice gas) = Looks"
| "anvil_effect io (AnvilSetLoggingEnabled enable) = Looks"
| "anvil_effect io AnvilSnapshot = Calls CallSnapshot"
| "anvil_effect io (AnvilRevert i) = Calls (CallRevert i)"
| "anvil_effect io (AnvilSetTime timestamp) = Calls (CallSetTime (u64_of_numeric timestamp))"
| "anvil_effect io (AnvilIncreaseTime seconds) = Calls (CallIncreaseTime (u64_of_numeric seconds))"
| "anvil_effect io (AnvilSetNextBlockTimestamp timestamp) = Calls (CallSetNextBlockTimestamp (u64_of_numeric timestamp))"
| "anvil_effect io (AnvilAutoImpersonateAccount enabled) = Calls (CallAutoImpersonate enabled)"
| "anvil_effect io (AnvilSetBalance a balance) = Calls (CallSetBalance a balance)"
| "anvil_effect io (AnvilSetNonce a nonce) = Calls (CallSetNonce a nonce)"
| "anvil_effect io (AnvilMine num_blocks gap) = Calls (CallMineBlocks num_blocks gap)"
| "anvil_effect io (AnvilResetNetwork reset_spec) = Calls (CallReset reset_spec)"
| "anvil_effect io (AnvilImpersonateAccount a) = Calls (CallImpersonate a)"
| "anvil_effect io (AnvilStopImpersonatingAccount a) = Calls (CallStopImpersonating a)"
| "anvil_effect io (AnvilSetCode a code) = Calls (CallSetCode a code)"
| "anvil_effect io (AnvilSetStorageAt a slot v) = Calls (CallSetStorageAt a slot v)"
| "anvil_effect io (AnvilSetChainId i) = Calls (CallSetChainId i)"

primrec eth_effect :: "'q eth_method \<Rightarrow> 'l effect" where
  "eth_effect EthBlockNumber = Looks"
| "eth_effect EthChainId = Looks"
| "eth_effect (EthCall _ _ _) = Looks"
| "eth_effect (EthEstimateGas _ _ _) = Looks"
| "eth_effect EthGasPrice = Looks"
| "eth_effect (EthNewFilter f) = Filters (NewFilter f)"
| "eth_effect EthNewBlockFilter = Filters NewBlockFilter"
| "eth_effect (EthUninstallFilter f) = Filters (UninstallFilter f)"
| "eth_effect EthNewPendingTransactionFilter = Filters NewPendingTransactionFilter"
| "eth_effect (EthGetLogs _) = Looks"
| "eth_effect (EthGetFilterLogs _) = Looks"
| "eth_effect (EthGetFilterChanges f) = Filters (GetFilterChanges f)"
| "eth_effect (EthGetBalance _ _) = Looks"
| "eth_effect (EthGetBlockByNumber _ _) = Looks"
| "eth_effect (EthGetBlockByHash _ _) = Looks"
| "eth_effect (EthGetBlockTransactionCountByNumber _) = Looks"
| "eth_effect (EthGetBlockReceipts _) = Looks"
| "eth_effect (EthGetBlockTransactionCountByHash _) = Looks"
| "eth_effect (EthGetCode _ _) = Looks"
| "eth_effect (EthGetStorageAt _ _ _) = Looks"
| "eth_effect (EthGetTransactionCount _ _) = Looks"
| "eth_effect (EthGetTransactionByHash _) = Looks"
| "eth_effect (EthGetTransactionByBlockHashAndIndex _ _) = Looks"
| "eth_effect (EthGetTransactionByBlockNumberAndIndex _ _) = Looks"
| "eth_effect (EthGetTransactionReceipt _) = Looks"
| "eth_effect EthProtocolVersion = Looks"
| "eth_effect (EthSendRawTransaction _) = Submits"
| "eth_effect EthSyncing = Looks"
| "eth_effect EthAccounts = Looks"
| "eth_effect EthCoinbase = Looks"
| "eth_effect EthCompilers = Looks"
| "eth_effect EthHashrate = Looks"
| "eth_effect (EthGetUncleCountByBlockHash _) = Looks"
| "eth_effect (EthGetUncleCountByBlockNumber _) = Looks"
| "eth_effect EthMining = Looks"
| "eth_effect (EthFeeHistory _ _ _) = Looks"
| "eth_effect EthMaxPriorityFeePerGas = Looks"

definition config_effect :: "config_request \<Rightarrow> 'l effect" where
  "config_effect r = (case r of
       ConfigSetShowStorageLogs v \<Rightarrow> Calls (CallShowStorageLogs v)
     | ConfigSetShowNodeConfig v \<Rightarrow> Calls (CallShowNodeConfig v)
     | _ \<Rightarrow> Looks)"

primrec request_effect :: "'l rpc_io \<Rightarrow> 'q rpc_request \<Rightarrow> 'l effect" where
  "request_effect io (InEth r) = eth_effect r"
| "request_effect io (InEthTest r) = Submits"
| "request_effect io (InAnvil r) = anvil_effect io r"
| "request_effect io (InAnvilZks r) = Looks"
| "request_effect io (InEvm r) = Calls CallMine"
| "request_effect io (InDebug r) = Looks"
| "request_effect io (InNet r) = Looks"
| "request_effect io (InConfig r) = config_effect r"
| "request_effect io (InZks r) = Looks"
| "request_effect io (InWeb3 r) = Looks"

definition has_effect where
  "has_effect sv e nd nd' = (case e of
       Looks \<Rightarrow> only_caches nd nd'
     | Calls c \<Rightarrow> nd' = node_call_exec (sv_env sv) (sv_ext sv) (sv_send sv) c nd
     | Filters c \<Rightarrow> nd' = filter_call_exec c nd
     | Submits \<Rightarrow> (\<exists>nd1. only_caches nd nd1
         \<and> (nd' = nd1 \<or> (\<exists>tx. nd' = node_call_exec (sv_env sv) (sv_ext sv) (sv_send sv) (CallSubmit tx) nd1))))"

lemma has_effect_simps:
  "has_effect sv Looks nd nd' \<longleftrightarrow> only_caches nd nd'"
  "has_effect sv (Calls c) nd nd' \<longleftrightarrow> nd' = node_call_exec (sv_env sv) (sv_ext sv) (sv_send sv) c nd"
  "has_effect sv (Filters f) nd nd' \<longleftrightarrow> nd' = filter_call_exec f nd"
  by (simp_all add: has_effect_def)

lemma sr_node_simps [simp]:
  "sr_node (snd (on_node f s)) = snd (f (sr_node s))" "snd (reply g h x) = snd x"
  "sr_node (snd (on_sidecar fs s)) = sr_node s" "sr_node (snd (on_logging sv fl s)) = sr_node s"
  "sr_node (snd (node_set_show_vm_details vd s)) = sr_node s" "sr_node (snd (node_set_show_gas_details gd s)) = sr_node s"
  by (simp_all add: on_node_def reply_def on_sidecar_def on_logging_def node_set_show_vm_details_def node_set_show_gas_details_def
      case_prod_unfold)

lemma anvil_has_effect: "has_effect sv (anvil_effect io r) (sr_node s) (sr_node (snd (anvil_rpc sv io r s)))"
  by (cases r) (simp_all add: has_effect_def case_prod_unfold)

lemma only_caches_nonce: "only_caches nd (snd (default_nonce na req nd))"
  by (auto simp: default_nonce_def split: option.split sum.split prod.split dest!: only_caches_steps)

lemma submits_nothing: "only_caches nd nd' \<Longrightarrow> has_effect sv Submits nd nd'"
  by (auto simp: has_effect_def)

lemma submits_tx: "only_caches nd nd1 \<Longrightarrow> has_effect sv Submits nd (node_add_tx (sv_send sv) tx nd1)"
  unfolding has_effect_def effect.case node_call_exec.simps node_add_tx_def by blast

lemma submit_raw_effect: "has_effect sv Submits nd (snd (send_raw_transaction_impl ea sc (sv_send sv) bs nd))"
  by (simp add: send_raw_transaction_impl_def Let_def submits_nothing submits_tx split: option.split sum.split prod.split)

lemma submit_effect: "has_effect sv Submits nd (snd (send_transaction_impl env ea sc (sv_send sv) tx nd))"
proof -
  obtain r nd1 where nonce: "default_nonce (en_node env) tx nd = (r, nd1)" by force
  have "only_caches nd nd1" using only_caches_nonce [of nd "en_node env" tx] by (simp add: nonce)
  then show ?thesis
    by (simp add: send_transaction_impl_def Let_def nonce submits_nothing submits_tx split: option.split sum.split prod.split)
qed

lemma eth_has_effect: "has_effect sv (eth_effect r) (sr_node s) (sr_node (snd (eth_rpc sv r s)))"
  by (cases r) (simp_all only: eth_effect.simps eth_rpc.simps sr_node_simps has_effect_simps submit_raw_effect filter_call_exec.simps
      only_caches_refl snd_conv, simp_all add: only_caches_methods)

lemma eth_test_has_effect: "has_effect sv Submits (sr_node s) (sr_node (snd (eth_test_rpc sv r s)))"
  by (cases r) (simp add: submit_effect)

lemma zks_has_effect: "has_effect sv Looks (sr_node s) (sr_node (snd (zks_rpc sv r s)))"
  by (cases r) (simp_all add: has_effect_def only_caches_methods rpc_get_bridge_contracts_def split: sum.split)

lemma small_has_effect:
  "has_effect sv (config_effect c) (sr_node s) (sr_node (snd (config_rpc sv c s)))"
  "has_effect sv Looks (sr_node s) (sr_node (snd (debug_rpc sv d s)))"
  "has_effect sv Looks (sr_node s) (sr_node (snd (net_rpc sv n s)))"
  "has_effect sv Looks (sr_node s) (sr_node (snd (web3_rpc sv w s)))"
  "has_effect sv Looks (sr_node s) (sr_node (snd (anvil_zks_rpc sv io z s)))"
  "has_effect sv (Calls CallMine) (sr_node s) (sr_node (snd (evm_rpc sv e s)))"
  by (cases c; cases d; cases n; cases w; cases z; cases e; simp add: has_effect_def config_effect_def case_prod_unfold)+

lemma serve_has_effect:
  assumes "sv_telemetry sv"
  shows "has_effect sv (request_effect io req) (sr_node s) (sr_node (snd (serve sv io name req s)))"
proof -
  define s1 where "s1 = (if reported name then s\<lparr>sr_tracked := sr_tracked s @ [name]\<rparr> else s)"
  have "has_effect sv (request_effect io req) (sr_node s1) (sr_node (snd (rpc_call sv io req s1)))"
    by (cases req) (simp_all only: request_effect.simps rpc_call.simps eth_has_effect eth_test_has_effect anvil_has_effect
        zks_has_effect small_has_effect)
  moreover have "sr_node s1 = sr_node s" by (simp add: s1_def)
  ultimately show ?thesis using assms by (simp only: serve_def Let_def s1_def [symmetric] not_True_eq_False if_False)
qed


section \<open>The server over time\<close>

text \<open>Requests interleaved with what the node does by itself: polls of the sealer and the executor's own turns.\<close>

datatype ('l, 'q) server_event = Served "'l rpc_io" string "'q rpc_request" | Background "'l node_call"

primrec server_step where
  "server_step sv (Served io name req) s = snd (serve sv io name req s)"
| "server_step sv (Background c) s = s\<lparr>sr_node := node_call_exec (sv_env sv) (sv_ext sv) (sv_send sv) c (sr_node s)\<rparr>"

definition server_run where
  "server_run sv events s = foldl (\<lambda>s ev. server_step sv ev s) s events"

fun request_names :: "('l, 'q) server_event list \<Rightarrow> string list" where
  "request_names [] = []"
| "request_names (Served io name req # events) = name # request_names events"
| "request_names (Background c # events) = request_names events"

lemma node_inv_only_caches: "only_caches nd nd' \<Longrightarrow> node_inv nd \<Longrightarrow> node_inv nd'"
  by (auto simp: only_caches_def node_inv_def set_node_of_def)

lemma node_inv_filter_call: "node_inv nd \<Longrightarrow> node_inv (filter_call_exec c nd)"
proof -
  have "clock_ok ((node_of nd)\<lparr>ni_filters := ef\<rparr>) = clock_ok (node_of nd)" for ef by simp
  then show "node_inv nd \<Longrightarrow> node_inv (filter_call_exec c nd)"
    by (cases c) (auto simp: new_filter_impl_def new_block_filter_impl_def new_pending_transaction_filter_impl_def
        uninstall_filter_impl_def get_filter_changes_impl_def node_filters_def node_inv_def split: prod.split sum.split)
qed

text \<open>What the server relies on in a node: looking and acting both keep the invariant, and looks compose.\<close>

locale observed_machine =
  fixes look :: "'s \<Rightarrow> 's \<Rightarrow> bool" and act :: "'c \<Rightarrow> 's \<Rightarrow> 's" and inv :: "'s \<Rightarrow> bool"
  assumes look_refl: "look s s"
    and look_trans: "look s t \<Longrightarrow> look t u \<Longrightarrow> look s u"
    and look_inv: "look s t \<Longrightarrow> inv s \<Longrightarrow> inv t"
    and act_inv: "inv s \<Longrightarrow> inv (act c s)"
begin

lemma looked_then_acted: "look s t \<Longrightarrow> u = t \<or> (\<exists>c. u = act c t) \<Longrightarrow> inv s \<Longrightarrow> inv u"
  using look_inv act_inv by blast

lemma acts_inv: "inv s \<Longrightarrow> inv (fold act cs s)"
  by (induction cs arbitrary: s) (simp_all add: act_inv)

end

interpretation served: observed_machine only_caches "node_call_exec env xt ts" node_inv
  by unfold_locales (auto intro: only_caches_trans node_inv_only_caches node_inv_call)

interpretation filtered: observed_machine only_caches filter_call_exec node_inv
  by unfold_locales (auto intro: only_caches_trans node_inv_only_caches node_inv_filter_call)

lemma node_inv_effect:
  assumes "has_effect sv e nd nd'" and "node_inv nd"
  shows "node_inv nd'"
proof (cases e)
  case Looks
  then show ?thesis using assms served.look_inv by (simp only: has_effect_simps) blast
next
  case (Calls c)
  then show ?thesis using assms by (simp only: has_effect_simps served.act_inv)
next
  case (Filters c)
  then show ?thesis using assms by (simp only: has_effect_simps filtered.act_inv)
next
  case Submits
  then have "has_effect sv Submits nd nd'" using assms(1) by (simp only:)
  then obtain nd1 where "only_caches nd nd1"
    "nd' = nd1 \<or> (\<exists>c. nd' = node_call_exec (sv_env sv) (sv_ext sv) (sv_send sv) c nd1)"
    unfolding has_effect_def effect.case by blast
  then show ?thesis using assms(2) by (rule served.looked_then_acted)
qed

lemma sr_tracked_simps [simp]:
  "sr_tracked (snd (on_node f s)) = sr_tracked s"
  "sr_tracked (snd (on_sidecar fs s)) = sr_tracked s" "sr_tracked (snd (on_logging sv fl s)) = sr_tracked s"
  "sr_tracked (snd (node_set_show_vm_details vd s)) = sr_tracked s"
  "sr_tracked (snd (node_set_show_gas_details gd s)) = sr_tracked s"
  by (simp_all add: on_node_def on_sidecar_def on_logging_def node_set_show_vm_details_def node_set_show_gas_details_def
      case_prod_unfold)

lemma eth_tracks_nothing: "sr_tracked (snd (eth_rpc sv r s)) = sr_tracked s"
  by (cases r) simp_all

lemma anvil_tracks_nothing: "sr_tracked (snd (anvil_rpc sv io r s)) = sr_tracked s"
  by (cases r) (simp_all add: case_prod_unfold)

lemma zks_tracks_nothing: "sr_tracked (snd (zks_rpc sv r s)) = sr_tracked s"
  by (cases r) (simp_all add: rpc_get_bridge_contracts_def split: sum.split)

lemma small_tracks_nothing:
  "sr_tracked (snd (config_rpc sv c s)) = sr_tracked s" "sr_tracked (snd (debug_rpc sv d s)) = sr_tracked s"
  "sr_tracked (snd (net_rpc sv n s)) = sr_tracked s" "sr_tracked (snd (web3_rpc sv w s)) = sr_tracked s"
  "sr_tracked (snd (anvil_zks_rpc sv io z s)) = sr_tracked s" "sr_tracked (snd (evm_rpc sv e s)) = sr_tracked s"
  "sr_tracked (snd (eth_test_rpc sv t s)) = sr_tracked s"
  by (cases c; simp; fail) (cases d; simp; fail | cases n; simp; fail | cases w; simp; fail | cases z; simp; fail
      | cases e; simp; fail | cases t; simp; fail)+

lemma rpc_call_tracks_nothing: "sr_tracked (snd (rpc_call sv io req s)) = sr_tracked s"
  by (cases req) (simp_all only: rpc_call.simps eth_tracks_nothing anvil_tracks_nothing zks_tracks_nothing small_tracks_nothing)

lemma serve_tracked:
  "sv_telemetry sv \<Longrightarrow> sr_tracked (snd (serve sv io name req s)) = sr_tracked s @ filter reported [name]"
  by (simp add: serve_def rpc_call_tracks_nothing Let_def)


section \<open>An example\<close>

definition sample_names :: declared_names where
  "sample_names = \<lparr>dn_eth = [''eth_blockNumber'', ''eth_sendRawTransaction''], dn_debug = [''debug_traceCall''], dn_net = [''net_version''],
     dn_zks = [''zks_estimateFee''], dn_web3 = [''web3_clientVersion'']\<rparr>"

theorem default_rpc_registers_witness:
  "\<exists>names. default_rpc sample_names = Inr names \<and> distinct names \<and> ''evm_snapshot'' \<in> set names \<and> ''config_setLogLevel'' \<in> set names"
proof -
  have "declared_well sample_names" by (simp add: declared_well_def sample_names_def names_of_def)
  from default_rpc_registers [OF this, of AnvilSnapshot "ConfigSetLogLevel Info" "ZksCommitBatch 0" EvmMine "EthTestSendTransaction sample_eth_request"]
  show ?thesis by auto
qed

text \<open>A node without an L1: a snapshot under its alias, one under its own name, and a look at the block number.\<close>

definition sample_rpc_text :: rpc_text where
  "sample_rpc_text = \<lparr>rt_text = \<lparr>tx_escape_debug = id, tx_debug_string = id, tx_dimmed = id, tx_style_on = (\<lambda>_. []),
     tx_style_off = (\<lambda>_. []), tx_h256_debug = (\<lambda>h. decimal (unat h)), tx_h256_display = (\<lambda>h. decimal (unat h)),
     tx_halt_debug = (\<lambda>_. ''halt''), tx_user_friendly = ro_string\<rparr>, rt_web3 = (\<lambda>e. ''error'')\<rparr>"

definition sample_server_env where
  "sample_server_env =
     \<lparr>sv_env = sample_exec_env, sv_ext = sample_ext_api, sv_send = (\<lambda>(l :: unit) h. SendOk l), sv_eth = sample_eth_api,
      sv_gas = sample_gas_api, sv_gas_request = (\<lambda>req. \<lparr>cr_from = cr_from req, cr_to = cr_to req, cr_nonce = cr_nonce req, cr_eip712_gas_per_pubdata = cr_eip712_gas_per_pubdata req, cr_rest = ()\<rparr>), sv_zks = sample_zks_api,
      sv_contracts = sample_system_contracts, sv_l1 = sample_l1_api, sv_log = sample_log_api,
      sv_text = sample_rpc_text, sv_detail = (\<lambda>e. AnGenericError ''error''),
      sv_estimate_detail = (\<lambda>e. AnGenericError ''error''), sv_anyhow = (\<lambda>e. ''error''), sv_telemetry = True\<rparr>"

definition sample_server where
  "sample_server = \<lparr>sr_node = sample_in_memory_node, sr_sidecar = None, sr_logging = Some sample_observability,
     sr_show_vm_details = VmDetailsNone, sr_show_gas_details = GasDetailsNone, sr_tracked = []\<rparr>"

definition sample_io :: "unit rpc_io" where
  "sample_io = \<lparr>io_sender = (), io_random = 7, io_replies = sample_l1_replies\<rparr>"

definition sample_events where
  "sample_events = [Served sample_io ''evm_snapshot'' (InAnvil AnvilSnapshot), Background CallExecutorRuns,
     Served sample_io ''anvil_snapshot'' (InAnvil AnvilSnapshot), Served sample_io ''eth_blockNumber'' (InEth EthBlockNumber)]"


end
