(* ===== verification/Cli_Options.thy ===== *)
theory Cli_Options
  imports Node_Config
begin

text \<open>
  The command line: \<open>crates/cli/src/cli.rs\<close> and the telemetry part of \<open>utils.rs\<close>.

  Options arrive parsed by clap, except where the source has a parser of its own. URLs are parsed by another crate, phrases are
  generated by another crate from a random generator or a seed; both are arguments.
\<close>

section \<open>Arguments\<close>

datatype builtin_network =
    Era | EraTestnet | Abstract | AbstractTestnet | Sophon | SophonTestnet | Cronos | CronosTestnet | Lens | LensTestnet
  | Openzk | OpenzkTestnet | WonderchainTestnet | Zkcandy

datatype cli_fork_url = BuiltinUrl builtin_network | CustomUrl string

record fork_args =
  fa_fork_url :: cli_fork_url
  fa_fork_block_number :: "u64 option"
  fa_fork_transaction_hash :: "h256 option"

record replay_args =
  ra_fork_url :: cli_fork_url
  ra_tx :: h256

datatype cli_command = Run | Fork fork_args | ReplayTx replay_args

datatype cache_type = CacheTypeNone | CacheTypeMemory | CacheTypeDisk

record l1_group =
  l1_spawn_l1 :: "u16 option"
  l1_external_l1 :: "string option"

record 'f cli =
  co_command :: "cli_command option"
  co_offline :: bool
  co_health_check_endpoint :: bool
  co_config_out :: "string option"
  co_port :: "u16 option"
  co_host :: "ip_addr list"
  co_chain_id :: "u32 option"
  co_show_node_config :: "bool option"
  co_show_storage_logs :: "show_storage_logs option"
  co_show_vm_details :: "show_vm_details option"
  co_show_gas_details :: "show_gas_details option"
  co_verbosity :: u8
  co_l1_gas_price :: "u64 option"
  co_l2_gas_price :: "u64 option"
  co_l1_pubdata_price :: "u64 option"
  co_price_scale_factor :: "'f option"
  co_limit_scale_factor :: "'f option"
  co_override_bytecodes_dir :: "string option"
  co_enforce_bytecode_compression :: "bool option"
  co_dev_system_contracts :: "system_contracts_options option"
  co_system_contracts_path :: "string option"
  co_protocol_version :: "protocol_version option"
  co_evm_interpreter :: bool
  co_boojum_group :: boojum_config
  co_log :: "log_level option"
  co_log_file_path :: "string option"
  co_silent :: "bool option"
  co_cache :: "cache_type option"
  co_reset_cache :: "bool option"
  co_cache_dir :: "string option"
  co_accounts :: u64
  co_balance :: u64
  co_timestamp :: "u64 option"
  co_init :: "genesis option"
  co_state :: "string option"
  co_state_interval :: "u64 option"
  co_dump_state :: "string option"
  co_preserve_historical_states :: bool
  co_load_state :: "string option"
  co_mnemonic :: "string option"
  co_mnemonic_random :: "nat option"
  co_mnemonic_seed :: "u64 option"
  co_derivation_path :: "string option"
  co_auto_impersonate :: bool
  co_block_time :: "u64 option"
  co_no_mining :: bool
  co_allow_origin :: string
  co_no_cors :: bool
  co_order :: transaction_order
  co_l1_group :: "l1_group option"
  co_auto_execute_l1 :: "bool option"
  co_base_token_symbol :: "string option"
  co_base_token_ratio :: "(u64 \<times> u64) option"

section \<open>Networks\<close>

text \<open>The names clap accepts, aliases included, ignoring case.\<close>

definition network_names :: "(string \<times> builtin_network) list" where
  "network_names = [(''era'', Era), (''mainnet'', Era), (''era-testnet'', EraTestnet), (''sepolia-testnet'', EraTestnet),
     (''abstract'', Abstract), (''abstract-testnet'', AbstractTestnet), (''sophon'', Sophon), (''sophon-mainnet'', Sophon),
     (''sophon-testnet'', SophonTestnet), (''cronos'', Cronos), (''cronos-testnet'', CronosTestnet), (''lens'', Lens),
     (''lens-testnet'', LensTestnet), (''openzk'', Openzk), (''openzk-testnet'', OpenzkTestnet),
     (''wonderchain-testnet'', WonderchainTestnet), (''zkcandy'', Zkcandy)]"

definition fork_url_from_str :: "(string \<Rightarrow> string + string) \<Rightarrow> string \<Rightarrow> string + cli_fork_url" where
  "fork_url_from_str parse_url s = (case map_of network_names (to_lowercase s) of
       Some net \<Rightarrow> Inr (BuiltinUrl net)
     | None \<Rightarrow> (case parse_url s of
         Inr url \<Rightarrow> Inr (CustomUrl url)
       | Inl e \<Rightarrow> Inl (''`'' @ s @ ''` is neither a known network nor a valid URL: '' @ e)))"

fun builtin_url :: "builtin_network \<Rightarrow> string" where
  "builtin_url Era = ''https://mainnet.era.zksync.io''"
| "builtin_url EraTestnet = ''https://sepolia.era.zksync.dev''"
| "builtin_url Abstract = ''https://api.mainnet.abs.xyz''"
| "builtin_url AbstractTestnet = ''https://api.testnet.abs.xyz''"
| "builtin_url Sophon = ''https://rpc.sophon.xyz''"
| "builtin_url SophonTestnet = ''https://rpc.testnet.sophon.xyz''"
| "builtin_url Cronos = ''https://mainnet.zkevm.cronos.org''"
| "builtin_url CronosTestnet = ''https://testnet.zkevm.cronos.org''"
| "builtin_url Lens = ''https://rpc.lens.xyz''"
| "builtin_url LensTestnet = ''https://rpc.testnet.lens.xyz''"
| "builtin_url Openzk = ''https://rpc.openzk.net''"
| "builtin_url OpenzkTestnet = ''https://openzk-testnet.rpc.caldera.xyz/http''"
| "builtin_url WonderchainTestnet = ''https://rpc.testnet.wonderchain.org''"
| "builtin_url Zkcandy = ''https://rpc.zkcandy.io''"

text \<open>The scale factors in tenths.\<close>

definition to_fork_config :: "(nat \<Rightarrow> 'f) \<Rightarrow> builtin_network \<Rightarrow> 'f fork_config" where
  "to_fork_config tenths net = \<lparr>fc_url = builtin_url net,
     fc_estimate_gas_price_scale_factor = tenths (if net = EraTestnet then 20 else 15),
     fc_estimate_gas_scale_factor = tenths 13\<rparr>"

fun fork_url_to_config :: "('f, 'p) fee_api \<Rightarrow> (nat \<Rightarrow> 'f) \<Rightarrow> cli_fork_url \<Rightarrow> 'f fork_config" where
  "fork_url_to_config fa tenths (BuiltinUrl net) = to_fork_config tenths net"
| "fork_url_to_config fa tenths (CustomUrl url) = fork_config_unknown fa url"

section \<open>Deprecated options\<close>

definition deprecated_flags :: "string list" where
  "deprecated_flags = [''--config'', ''--show-calls'', ''--show-event-logs'', ''--resolve-hashes'', ''--show-outputs'', ''--debug'', ''-d'']"

definition prefix_flags :: "string list" where
  "prefix_flags = [''--config='', ''--show-calls='', ''--resolve-hashes='', ''--show-outputs='', ''--show-event-logs='']"

definition starts_with :: "string \<Rightarrow> string \<Rightarrow> bool" where
  "starts_with p s \<longleftrightarrow> take (length p) s = p"

text \<open>The flag warned about for an argument, and the flags warned about for a command line.\<close>

definition deprecated_flag :: "string \<Rightarrow> string option" where
  "deprecated_flag arg = (if arg \<in> set deprecated_flags then Some arg
     else map_option butlast (List.find (\<lambda>p. starts_with p arg) prefix_flags))"

definition deprecated_config_option :: "string list \<Rightarrow> string list" where
  "deprecated_config_option args = List.map_filter deprecated_flag args"

section \<open>Parsers\<close>

text \<open>\<open>str::parse\<close> of an unsigned number: an optional plus sign and at least one digit, no overflow.\<close>

definition digit_value :: "char \<Rightarrow> nat option" where
  "digit_value c = (let n = of_char c :: nat in if 48 \<le> n \<and> n \<le> 57 then Some (n - 48) else None)"

fun parse_digits :: "nat \<Rightarrow> string \<Rightarrow> nat option" where
  "parse_digits acc [] = Some acc"
| "parse_digits acc (c # cs) = Option.bind (digit_value c) (\<lambda>d. parse_digits (10 * acc + d) cs)"

definition parse_u16 :: "string \<Rightarrow> string + u16" where
  "parse_u16 s =
     (let digits = (if starts_with ''+'' s then tl s else s)
      in if digits = [] then Inl (if s = [] then ''cannot parse integer from empty string'' else ''invalid digit found in string'')
         else case parse_digits 0 digits of
             None \<Rightarrow> Inl ''invalid digit found in string''
           | Some n \<Rightarrow> if n < 2 ^ 16 then Inr (of_nat n) else Inl ''number too large to fit in target type'')"

definition protocol_version_from_str :: "(u16 \<Rightarrow> string + protocol_version) \<Rightarrow> string \<Rightarrow> string + protocol_version" where
  "protocol_version_from_str try_from s = and_then (parse_u16 s) try_from"

section \<open>The configuration of the command line\<close>

text \<open>\<open>account_generator\<close>: the phrase for a number of random words, \<open>None\<close> for a number of words there is none for, and the phrase
  for a seed are arguments.\<close>

definition cli_account_generator ::
  "string \<Rightarrow> (nat \<Rightarrow> string option) \<Rightarrow> (u64 \<Rightarrow> string) \<Rightarrow> 'f cli \<Rightarrow> account_generator" where
  "cli_account_generator random_phrase phrase_of_count phrase_of_seed c =
     (let gen = with_generator_chain_id (case_option TEST_NODE_NETWORK_ID id (co_chain_id c))
            (with_phrase DEFAULT_MNEMONIC (account_generator_new random_phrase (unat (co_accounts c))));
          gen = (case co_mnemonic c of
              Some mnemonic \<Rightarrow> with_phrase mnemonic gen
            | None \<Rightarrow> (case co_mnemonic_random c of
                Some n \<Rightarrow> with_phrase (case_option DEFAULT_MNEMONIC id (phrase_of_count n)) gen
              | None \<Rightarrow> (case co_mnemonic_seed c of Some seed \<Rightarrow> with_phrase (phrase_of_seed seed) gen | None \<Rightarrow> gen)))
      in case co_derivation_path c of Some derivation \<Rightarrow> with_derivation_path derivation gen | None \<Rightarrow> gen)"

datatype cli_error = InvalidArguments string

definition genesis_balance_of :: "u64 \<Rightarrow> u256" where
  "genesis_balance_of balance = ucast ((ucast balance :: u128) * 10 ^ 18)"

definition flag :: "bool \<Rightarrow> bool option" where
  "flag b = (if b then Some True else None)"

definition cli_cache_config :: "'f cli \<Rightarrow> cache_config option" where
  "cli_cache_config c = map_option (\<lambda>ty. case ty of
       CacheTypeNone \<Rightarrow> CacheNone
     | CacheTypeMemory \<Rightarrow> CacheMemory
     | CacheTypeDisk \<Rightarrow> CacheDisk (case_option DEFAULT_DISK_CACHE_DIR id (co_cache_dir c)) (case_option False id (co_reset_cache c)))
     (co_cache c)"

definition cli_l1_config :: "l1_group option \<Rightarrow> l1_config option" where
  "cli_l1_config g = Option.bind g (\<lambda>group. case l1_spawn_l1 group of
     Some port \<Rightarrow> Some (Spawn port) | None \<Rightarrow> map_option External (l1_external_l1 group))"

definition non_zero_u64 :: "u64 \<Rightarrow> u64 option" where
  "non_zero_u64 n = (if n = 0 then None else Some n)"

definition cli_base_token_config :: "'f cli \<Rightarrow> ('e, base_token_config) outcome" where
  "cli_base_token_config c =
     (let (numer, denom) = case_option (1, 1) id (co_base_token_ratio c)
      in and_then (expect ''base token conversion ratio cannot have 0 as numerator'' (non_zero_u64 numer)) (\<lambda>n.
         and_then (expect ''base token conversion ratio cannot have 0 as denominator'' (non_zero_u64 denom)) (\<lambda>d.
         Inr \<lparr>btk_symbol = case_option ''ETH'' id (co_base_token_symbol c),
              btk_ratio = \<lparr>ratio_numerator = n, ratio_denominator = d\<rparr>\<rparr>)))"

text \<open>\<open>into_test_node_config\<close>: the setters in the order of the source; deriving the accounts is the one that may panic.\<close>

definition apply_setters :: "('c \<Rightarrow> 'c) list \<Rightarrow> 'c \<Rightarrow> 'c" where
  "apply_setters fs c = fold (\<lambda>f. f) fs c"

definition setters_before_accounts :: "'f cli \<Rightarrow> (('f, 'k) test_node_config \<Rightarrow> ('f, 'k) test_node_config) list" where
  "setters_before_accounts c =
     [with_port (co_port c), with_offline (flag (co_offline c)), with_l1_gas_price (co_l1_gas_price c),
      with_l2_gas_price (co_l2_gas_price c), with_l1_pubdata_price (co_l1_pubdata_price c),
      with_vm_log_detail (co_show_vm_details c), with_show_storage_logs (co_show_storage_logs c),
      with_show_gas_details (co_show_gas_details c), with_gas_limit_scale (co_limit_scale_factor c),
      with_price_scale (co_price_scale_factor c), with_verbosity_level (co_verbosity c),
      with_show_node_config (co_show_node_config c), with_silent (co_silent c), with_system_contracts (co_dev_system_contracts c),
      with_system_contracts_path (co_system_contracts_path c), with_protocol_version (co_protocol_version c),
      with_override_bytecodes_dir (co_override_bytecodes_dir c),
      with_enforce_bytecode_compression (co_enforce_bytecode_compression c), with_log_level (co_log c),
      with_log_file_path (co_log_file_path c)]"

definition setters_after_accounts ::
  "'f cli \<Rightarrow> base_token_config \<Rightarrow> (('f, 'k) test_node_config \<Rightarrow> ('f, 'k) test_node_config) list" where
  "setters_after_accounts c base_token =
     [with_auto_impersonate (co_auto_impersonate c), with_genesis_balance (genesis_balance_of (co_balance c)),
      with_cache_dir (co_cache_dir c), with_cache_config (cli_cache_config c), with_genesis_timestamp (co_timestamp c),
      with_genesis (co_init c), with_chain_id (co_chain_id c), set_config_out (co_config_out c), with_host (co_host c),
      with_evm_interpreter (flag (co_evm_interpreter c)), with_boojum (co_boojum_group c),
      with_health_check_endpoint (flag (co_health_check_endpoint c)), with_block_time (co_block_time c),
      with_no_mining (co_no_mining c), with_allow_origin (co_allow_origin c), with_no_cors (co_no_cors c),
      with_transaction_order (co_order c), with_state (co_state c), with_state_interval (co_state_interval c),
      with_dump_state (co_dump_state c), with_preserve_historical_states (co_preserve_historical_states c),
      with_load_state (co_load_state c), with_l1_config (cli_l1_config (co_l1_group c)),
      with_auto_execute_l1 (co_auto_execute_l1 c), with_base_token_config base_token]"

definition into_test_node_config ::
  "'k wallet_api \<Rightarrow> (nat \<Rightarrow> string) \<Rightarrow> (nat \<Rightarrow> string option) \<Rightarrow> (u64 \<Rightarrow> string) \<Rightarrow> 'f cli
     \<Rightarrow> (cli_error, ('f, 'k) test_node_config) outcome" where
  "into_test_node_config wa random_phrases phrase_of_count phrase_of_seed c =
     and_then (test_node_config_default wa (random_phrases 0)) (\<lambda>config.
     and_then (with_account_generator wa (cli_account_generator (random_phrases 1) phrase_of_count phrase_of_seed c)
       (apply_setters (setters_before_accounts c) config)) (\<lambda>config.
     and_then (cli_base_token_config c) (\<lambda>base_token.
     let config = apply_setters (setters_after_accounts c base_token) config
     in if co_evm_interpreter c
        then and_then (config_protocol_version config) (\<lambda>version.
          if version < 27 then Inl (Err (InvalidArguments ''EVM interpreter requires protocol version 27 or higher''))
          else Inr config)
        else Inr config)))"

section \<open>Telemetry\<close>

text \<open>A property that is sent: a value, or the mark that a value is there. Numbers are not printed and the name of a protocol
  version is an argument.\<close>

datatype 'f telemetry =
    Sensitive | TBool bool | TNumber u64 | TString string | TFloat 'f | TDuration u64 | TProps "(string \<times> 'f telemetry) list"

definition insert_prop ::
  "string \<Rightarrow> 'f telemetry option \<Rightarrow> (string \<times> 'f telemetry) list \<Rightarrow> (string \<times> 'f telemetry) list" where
  "insert_prop key v props = (case v of None \<Rightarrow> props | Some t \<Rightarrow> props @ [(key, t)])"

definition masked :: "'a option \<Rightarrow> 'f telemetry option" where
  "masked v = map_option (\<lambda>_. Sensitive) v"

definition if_true :: "bool \<Rightarrow> 'f telemetry option" where
  "if_true b = (if b then Some (TBool True) else None)"

text \<open>The derived \<open>Debug\<close> instances.\<close>

fun network_debug :: "builtin_network \<Rightarrow> string" where
  "network_debug Era = ''Era''"
| "network_debug EraTestnet = ''EraTestnet''"
| "network_debug Abstract = ''Abstract''"
| "network_debug AbstractTestnet = ''AbstractTestnet''"
| "network_debug Sophon = ''Sophon''"
| "network_debug SophonTestnet = ''SophonTestnet''"
| "network_debug Cronos = ''Cronos''"
| "network_debug CronosTestnet = ''CronosTestnet''"
| "network_debug Lens = ''Lens''"
| "network_debug LensTestnet = ''LensTestnet''"
| "network_debug Openzk = ''Openzk''"
| "network_debug OpenzkTestnet = ''OpenzkTestnet''"
| "network_debug WonderchainTestnet = ''WonderchainTestnet''"
| "network_debug Zkcandy = ''Zkcandy''"

fun contracts_debug :: "system_contracts_options \<Rightarrow> string" where
  "contracts_debug BuiltIn = ''BuiltIn''"
| "contracts_debug Local = ''Local''"
| "contracts_debug BuiltInWithoutSecurity = ''BuiltInWithoutSecurity''"

fun cache_debug :: "cache_type \<Rightarrow> string" where
  "cache_debug CacheTypeNone = ''None''"
| "cache_debug CacheTypeMemory = ''Memory''"
| "cache_debug CacheTypeDisk = ''Disk''"

definition fork_url_prop :: "cli_fork_url \<Rightarrow> 'f telemetry option" where
  "fork_url_prop url = (case url of CustomUrl _ \<Rightarrow> Some Sensitive | BuiltinUrl net \<Rightarrow> Some (TString (network_debug net)))"

definition get_cli_command_telemetry_props :: "cli_command option \<Rightarrow> 'f telemetry option" where
  "get_cli_command_telemetry_props c = map_option (\<lambda>c.
     let (name, args) = (case c of
         Run \<Rightarrow> (''run'', None)
       | Fork a \<Rightarrow> (''fork'', Some (TProps (
           (insert_prop ''fork_transaction_hash'' (masked (fa_fork_transaction_hash a)) \<circ>
            insert_prop ''fork_block_number'' (map_option TNumber (fa_fork_block_number a)) \<circ>
            insert_prop ''fork_url'' (fork_url_prop (fa_fork_url a))) [])))
       | ReplayTx a \<Rightarrow> (''replay_tx'', Some (TProps (
           (insert_prop ''tx'' (Some Sensitive) \<circ> insert_prop ''fork_url'' (fork_url_prop (ra_fork_url a))) []))))
     in TProps ((insert_prop ''args'' args \<circ> insert_prop ''name'' (Some (TString name))) [])) c"

definition DEFAULT_HOST :: ip_addr where "DEFAULT_HOST = V4 0"

text \<open>Values that are only reported when they differ from the default.\<close>

definition port_prop :: "u16 option \<Rightarrow> 'f telemetry option" where
  "port_prop v = (case v of None \<Rightarrow> None | Some p \<Rightarrow> if p \<noteq> 8011 then Some Sensitive else None)"

definition host_prop :: "ip_addr list \<Rightarrow> 'f telemetry option" where
  "host_prop v = (case v of [] \<Rightarrow> None | h # _ \<Rightarrow> if h \<noteq> DEFAULT_HOST \<or> length v \<noteq> 1 then Some Sensitive else None)"

definition origin_prop :: "string \<Rightarrow> 'f telemetry option" where
  "origin_prop v = (if v \<noteq> ''*'' then Some Sensitive else None)"

definition telemetry_items :: "(protocol_version \<Rightarrow> string) \<Rightarrow> 'f cli \<Rightarrow> (string \<times> 'f telemetry option) list" where
  "telemetry_items version_name c =
     [(''command'', get_cli_command_telemetry_props (co_command c)),
      (''offline'', if_true (co_offline c)),
      (''health_check_endpoint'', if_true (co_health_check_endpoint c)),
      (''config_out'', masked (co_config_out c)),
      (''port'', port_prop (co_port c)),
      (''host'', host_prop (co_host c)),
      (''chain_id'', masked (co_chain_id c)),
      (''show_node_config'', if case_option False id (co_show_node_config c) then None else Some (TBool False)),
      (''show_storage_logs'', map_option (TString \<circ> storage_logs_display) (co_show_storage_logs c)),
      (''show_vm_details'', map_option (TString \<circ> vm_details_display) (co_show_vm_details c)),
      (''show_gas_details'', map_option (TString \<circ> gas_details_display) (co_show_gas_details c)),
      (''l1_gas_price'', map_option TNumber (co_l1_gas_price c)),
      (''l2_gas_price'', map_option TNumber (co_l2_gas_price c)),
      (''l1_pubdata_price'', map_option TNumber (co_l1_pubdata_price c)),
      (''price_scale_factor'', map_option TFloat (co_price_scale_factor c)),
      (''limit_scale_factor'', map_option TFloat (co_limit_scale_factor c)),
      (''override_bytecodes_dir'', masked (co_override_bytecodes_dir c)),
      (''dev_system_contracts'', map_option (TString \<circ> contracts_debug) (co_dev_system_contracts c)),
      (''protocol_version'', map_option (TString \<circ> version_name) (co_protocol_version c)),
      (''evm_interpreter'', if_true (co_evm_interpreter c)),
      (''log'', map_option (TString \<circ> log_level_name) (co_log c)),
      (''log_file_path'', masked (co_log_file_path c)),
      (''silent'', map_option TBool (co_silent c)),
      (''cache'', map_option (TString \<circ> cache_debug) (co_cache c)),
      (''reset_cache'', map_option TBool (co_reset_cache c)),
      (''cache_dir'', masked (co_cache_dir c)),
      (''accounts'', if co_accounts c \<noteq> 10 then Some (TNumber (co_accounts c)) else None),
      (''balance'', if co_balance c \<noteq> 10000 then Some (TNumber (co_balance c)) else None),
      (''timestamp'', map_option TNumber (co_timestamp c)),
      (''init'', masked (co_init c)),
      (''state'', masked (co_state c)),
      (''state_interval'', map_option TNumber (co_state_interval c)),
      (''dump_state'', masked (co_dump_state c)),
      (''preserve_historical_states'', if_true (co_preserve_historical_states c)),
      (''load_state'', masked (co_load_state c)),
      (''mnemonic'', masked (co_mnemonic c)),
      (''mnemonic_random'', masked (co_mnemonic_random c)),
      (''mnemonic_seed'', masked (co_mnemonic_seed c)),
      (''derivation_path'', masked (co_derivation_path c)),
      (''auto_impersonate'', if_true (co_auto_impersonate c)),
      (''block_time'', map_option TDuration (co_block_time c)),
      (''no_mining'', if_true (co_no_mining c)),
      (''allow_origin'', origin_prop (co_allow_origin c)),
      (''no_cors'', if_true (co_no_cors c)),
      (''order'', if co_order c \<noteq> Fifo then Some (TString (transaction_order_fmt (co_order c))) else None)]"

definition into_telemetry_props :: "(protocol_version \<Rightarrow> string) \<Rightarrow> 'f cli \<Rightarrow> (string \<times> 'f telemetry) list" where
  "into_telemetry_props version_name c = fold (\<lambda>(key, v). insert_prop key v) (telemetry_items version_name c) []"

section \<open>What the telemetry reveals\<close>

text \<open>The command line with every path, key material, address, hash and custom URL replaced by a fixed one.\<close>

fun public_url :: "cli_fork_url \<Rightarrow> cli_fork_url" where
  "public_url (CustomUrl url) = CustomUrl []"
| "public_url (BuiltinUrl net) = BuiltinUrl net"

fun public_command :: "cli_command \<Rightarrow> cli_command" where
  "public_command Run = Run"
| "public_command (Fork a) = Fork (a\<lparr>fa_fork_url := public_url (fa_fork_url a),
     fa_fork_transaction_hash := map_option (\<lambda>_. 0) (fa_fork_transaction_hash a)\<rparr>)"
| "public_command (ReplayTx a) = ReplayTx (a\<lparr>ra_fork_url := public_url (ra_fork_url a), ra_tx := 0\<rparr>)"

abbreviation present :: "'b \<Rightarrow> 'a option \<Rightarrow> 'b option" where
  "present d \<equiv> map_option (\<lambda>_. d)"

definition public_part :: "'f cli \<Rightarrow> 'f cli" where
  "public_part c = c\<lparr>co_command := map_option public_command (co_command c), co_config_out := present [] (co_config_out c),
     co_port := map_option (\<lambda>p. if p = 8011 then p else 0) (co_port c),
     co_host := (if co_host c = [] \<or> co_host c = [DEFAULT_HOST] then co_host c else [LOCALHOST]),
     co_chain_id := present 0 (co_chain_id c), co_override_bytecodes_dir := present [] (co_override_bytecodes_dir c),
     co_system_contracts_path := None, co_boojum_group := boojum_config_default, co_log_file_path := present [] (co_log_file_path c),
     co_cache_dir := present [] (co_cache_dir c),
     co_init := present \<lparr>gen_hash = None, gen_parent_hash = None, gen_block_number = None, gen_timestamp = None,
       gen_l1_batch_env = None, gen_transactions = None, gen_gas_used = None, gen_logs_bloom = None\<rparr> (co_init c),
     co_state := present [] (co_state c), co_dump_state := present [] (co_dump_state c), co_load_state := present [] (co_load_state c),
     co_mnemonic := present [] (co_mnemonic c), co_mnemonic_random := present 0 (co_mnemonic_random c),
     co_mnemonic_seed := present 0 (co_mnemonic_seed c), co_derivation_path := present [] (co_derivation_path c),
     co_allow_origin := (if co_allow_origin c = ''*'' then ''*'' else []), co_l1_group := None, co_auto_execute_l1 := None,
     co_base_token_symbol := None, co_base_token_ratio := None\<rparr>"

lemma masked_present: "masked (present d v) = masked v"
  by (simp add: masked_def option.map_comp comp_def)

lemma fork_url_prop_public: "fork_url_prop (public_url url) = fork_url_prop url"
  by (cases url) (simp_all add: fork_url_prop_def)

lemma command_props_public:
  "get_cli_command_telemetry_props (map_option public_command c) = get_cli_command_telemetry_props c"
proof (cases c)
  case (Some d)
  then show ?thesis
    by (cases d) (simp_all add: get_cli_command_telemetry_props_def fork_url_prop_public masked_def option.map_comp comp_def)
qed simp

text \<open>C20: the telemetry event of a command line is the same when every path, mnemonic, seed, derivation path, address, custom URL, chain
  id, transaction hash and genesis file is replaced by a fixed value: nothing of them is sent but that they were given.\<close>

theorem telemetry_reveals_public:
  "into_telemetry_props version_name (public_part (c :: 'f cli)) = into_telemetry_props version_name c"
proof -
  have port: "port_prop (map_option (\<lambda>p. if p = 8011 then p else 0) v) = (port_prop v :: 'f telemetry option)" for v
    by (simp add: port_prop_def split: option.split)
  have host: "host_prop (if hs = [] \<or> hs = [DEFAULT_HOST] then hs else [LOCALHOST]) = (host_prop hs :: 'f telemetry option)" for hs
    by (cases hs) (auto simp: host_prop_def DEFAULT_HOST_def LOCALHOST_def)
  have origin: "origin_prop (if v = ''*'' then ''*'' else []) = (origin_prop v :: 'f telemetry option)" for v
    by (simp add: origin_prop_def)
  have "telemetry_items version_name (public_part c) = telemetry_items version_name c"
    by (simp add: telemetry_items_def public_part_def command_props_public masked_present port host origin)
  then show ?thesis by (simp add: into_telemetry_props_def)
qed

section \<open>The configuration of a command line\<close>

lemmas option_setter_defs = with_port_def with_chain_id_def with_system_contracts_def with_system_contracts_path_def
  with_override_bytecodes_dir_def with_enforce_bytecode_compression_def with_evm_interpreter_def with_l1_gas_price_def
  with_l2_gas_price_def with_log_level_def with_cache_dir_def with_cache_config_def with_log_file_path_def with_silent_def
  with_show_node_config_def with_show_storage_logs_def with_vm_log_detail_def with_show_gas_details_def
  with_gas_limit_scale_def with_price_scale_def with_offline_def with_health_check_endpoint_def

text \<open>A setter with an optional argument as one update.\<close>

lemma option_setters:
  "with_port v1 c = c\<lparr>tn_port := case_option (tn_port c) id v1\<rparr>"
  "with_chain_id v2 c = c\<lparr>tn_chain_id := case_option (tn_chain_id c) Some v2\<rparr>"
  "with_system_contracts v3 c = c\<lparr>tn_system_contracts_options := case_option (tn_system_contracts_options c) id v3\<rparr>"
  "with_system_contracts_path v4 c = c\<lparr>tn_system_contracts_path := case_option (tn_system_contracts_path c) Some v4\<rparr>"
  "with_override_bytecodes_dir v5 c = c\<lparr>tn_override_bytecodes_dir := case_option (tn_override_bytecodes_dir c) Some v5\<rparr>"
  "with_enforce_bytecode_compression v6 c = c\<lparr>tn_bytecode_compression := case_option (tn_bytecode_compression c) id v6\<rparr>"
  "with_evm_interpreter v7 c = c\<lparr>tn_use_evm_interpreter := case_option (tn_use_evm_interpreter c) id v7\<rparr>"
  "with_l1_gas_price v8 c = c\<lparr>tn_l1_gas_price := case_option (tn_l1_gas_price c) Some v8\<rparr>"
  "with_l2_gas_price v9 c = c\<lparr>tn_l2_gas_price := case_option (tn_l2_gas_price c) Some v9\<rparr>"
  "with_log_level v10 c = c\<lparr>tn_log_level := case_option (tn_log_level c) id v10\<rparr>"
  "with_cache_dir v11 c = c\<lparr>tn_cache_dir := case_option (tn_cache_dir c) id v11\<rparr>"
  "with_cache_config v12 c = c\<lparr>tn_cache_config := case_option (tn_cache_config c) id v12\<rparr>"
  "with_log_file_path v13 c = c\<lparr>tn_log_file_path := case_option (tn_log_file_path c) id v13\<rparr>"
  "with_silent v14 c = c\<lparr>tn_silent := case_option (tn_silent c) id v14\<rparr>"
  "with_show_node_config v15 c = c\<lparr>tn_show_node_config := case_option (tn_show_node_config c) id v15\<rparr>"
  "with_show_storage_logs v16 c = c\<lparr>tn_show_storage_logs := case_option (tn_show_storage_logs c) id v16\<rparr>"
  "with_vm_log_detail v17 c = c\<lparr>tn_show_vm_details := case_option (tn_show_vm_details c) id v17\<rparr>"
  "with_show_gas_details v18 c = c\<lparr>tn_show_gas_details := case_option (tn_show_gas_details c) id v18\<rparr>"
  "with_gas_limit_scale v19 c = c\<lparr>tn_limit_scale_factor := case_option (tn_limit_scale_factor c) Some v19\<rparr>"
  "with_price_scale v20 c = c\<lparr>tn_price_scale_factor := case_option (tn_price_scale_factor c) Some v20\<rparr>"
  "with_offline v21 c = c\<lparr>tn_offline := case_option (tn_offline c) id v21\<rparr>"
  "with_health_check_endpoint v22 c = c\<lparr>tn_health_check_endpoint := case_option (tn_health_check_endpoint c) id v22\<rparr>"
  by (simp_all add: option_setter_defs split: option.split)

lemmas setter_updates = option_setters with_protocol_version_def with_boojum_def with_l1_pubdata_price_def
  with_verbosity_level_def with_genesis_balance_def with_genesis_accounts_def with_signer_accounts_def
  with_genesis_timestamp_def with_genesis_def with_auto_impersonate_def with_block_time_def with_no_mining_def
  with_transaction_order_def with_allow_origin_def with_no_cors_def with_state_def with_dump_state_def
  with_state_interval_def with_preserve_historical_states_def with_load_state_def with_l1_config_def
  with_base_token_config_def set_config_out_def with_host_def with_auto_execute_l1_def

text \<open>The balance in wei is computed in 128 bits and stored in 256: it does not overflow.\<close>

lemma genesis_balance_exact: "unat (genesis_balance_of balance) = unat balance * 10 ^ 18"
proof -
  have "unat balance * 10 ^ 18 < 2 ^ 128" using unat_bounds(1) [of balance] by simp
  then show ?thesis
    by (simp add: genesis_balance_of_def unat_word_ariths take_bit_nat_eq_self unsigned_ucast_eq)
qed

text \<open>What the setters leave of a configuration.\<close>

lemma setters_before:
  "tn_system_contracts_options (apply_setters (setters_before_accounts c) k)
     = case_option (tn_system_contracts_options k) id (co_dev_system_contracts c)"
  "tn_use_evm_interpreter (apply_setters (setters_before_accounts c) k) = tn_use_evm_interpreter k"
  "tn_cache_config (apply_setters (setters_before_accounts c) k) = tn_cache_config k"
  by (simp_all add: apply_setters_def setters_before_accounts_def setter_updates cong: option.case_cong)

lemma setters_after:
  "tn_genesis_balance (apply_setters (setters_after_accounts c b) k) = genesis_balance_of (co_balance c)"
  "tn_host (apply_setters (setters_after_accounts c b) k) = (if co_host c = [] then [LOCALHOST] else co_host c)"
  "tn_genesis_accounts (apply_setters (setters_after_accounts c b) k) = tn_genesis_accounts k"
  "tn_signer_accounts (apply_setters (setters_after_accounts c b) k) = tn_signer_accounts k"
  "tn_base_token_config (apply_setters (setters_after_accounts c b) k) = b"
  "tn_use_evm_interpreter (apply_setters (setters_after_accounts c b) k) = (co_evm_interpreter c \<or> tn_use_evm_interpreter k)"
  "tn_cache_config (apply_setters (setters_after_accounts c b) k) = case_option (tn_cache_config k) id (cli_cache_config c)"
  by (simp_all add: apply_setters_def setters_after_accounts_def setter_updates flag_def cong: option.case_cong)

lemma cache_of_default: "test_node_config_default wa r = Inr k \<Longrightarrow> tn_cache_config k = cache_config_default \<and> \<not> tn_use_evm_interpreter k"
  by (auto simp: test_node_config_default_def config_with_accounts_def)

text \<open>C21: a command line that is accepted gives a sound configuration: the balance of the accounts is the given number of whole tokens
  exactly, there is a host to listen on, there are as many accounts as asked for and they are the signers too, the conversion ratio
  is not zero, and the EVM interpreter is on only with protocol version 27 or later. Without a cache type the cache is the default
  one, whatever cache directory or reset is asked for.\<close>

theorem cli_config_sound:
  assumes "into_test_node_config wa rs pc ps c = Inr config"
  shows "unat (tn_genesis_balance config) = unat (co_balance c) * 10 ^ 18 \<and> tn_host config \<noteq> []
    \<and> length (tn_genesis_accounts config) = unat (co_accounts c) \<and> tn_signer_accounts config = tn_genesis_accounts config
    \<and> ratio_numerator (btk_ratio (tn_base_token_config config)) \<noteq> 0 \<and> ratio_denominator (btk_ratio (tn_base_token_config config)) \<noteq> 0
    \<and> (tn_use_evm_interpreter config \<longrightarrow> (\<exists>v \<ge> 27. config_protocol_version config = (Inr v :: (cli_error, protocol_version) outcome)))
    \<and> (co_cache c = None \<longrightarrow> tn_cache_config config = cache_config_default)"
proof -
  let ?g = "cli_account_generator (rs 1) pc ps c"
  obtain k0 keys b where k0: "test_node_config_default wa (rs 0) = (Inr k0 :: (cli_error, _) outcome)"
    and keys: "generate_accounts wa ?g = (Inr keys :: (cli_error, _) outcome)"
    and b: "cli_base_token_config c = (Inr b :: (cli_error, _) outcome)"
    and config: "config = apply_setters (setters_after_accounts c b) (with_genesis_accounts keys (with_signer_accounts keys
      ((apply_setters (setters_before_accounts c) k0)\<lparr>tn_account_generator := Some ?g\<rparr>)))"
    and evm: "co_evm_interpreter c \<longrightarrow> (\<exists>v \<ge> 27. config_protocol_version config = (Inr v :: (cli_error, protocol_version) outcome))"
    using assms by (auto simp: into_test_node_config_def with_account_generator_def Let_def not_less split: if_splits)
  have amount: "length keys = unat (co_accounts c)"
    using generate_accounts_spec [OF keys]
    by (simp add: cli_account_generator_def Let_def account_generator_new_def with_phrase_def with_generator_chain_id_def
        with_derivation_path_def split: option.splits)
  have ratio: "ratio_numerator (btk_ratio b) \<noteq> 0" "ratio_denominator (btk_ratio b) \<noteq> 0"
    using b by (auto simp: cli_base_token_config_def non_zero_u64_def split: if_splits prod.splits)
  have kept: "tn_genesis_accounts config = keys" "tn_signer_accounts config = keys"
    "tn_use_evm_interpreter config = co_evm_interpreter c" "co_cache c = None \<longrightarrow> tn_cache_config config = cache_config_default"
    using cache_of_default [OF k0]
    by (simp_all add: config setters_after setters_before with_genesis_accounts_def with_signer_accounts_def cli_cache_config_def)
  show ?thesis using ratio evm amount kept by (simp add: genesis_balance_exact config setters_after)
qed

definition sample_wallet :: "string wallet_api" where
  "sample_wallet = \<lparr>wa_key = \<lambda>phrase path chain_id. Some path, wa_address = \<lambda>key. of_nat (length key)\<rparr>"

text \<open>The command line \<open>anvil-zksync --cache-dir other --reset-cache true\<close> with the defaults of clap.\<close>

definition sample_cli :: "nat cli" where
  "sample_cli = \<lparr>co_command = None, co_offline = False, co_health_check_endpoint = False, co_config_out = None, co_port = Some 8011,
     co_host = [V4 0], co_chain_id = None, co_show_node_config = Some True, co_show_storage_logs = None, co_show_vm_details = None,
     co_show_gas_details = None, co_verbosity = 0, co_l1_gas_price = None, co_l2_gas_price = None, co_l1_pubdata_price = None,
     co_price_scale_factor = None, co_limit_scale_factor = None, co_override_bytecodes_dir = None,
     co_enforce_bytecode_compression = None, co_dev_system_contracts = None, co_system_contracts_path = None,
     co_protocol_version = None, co_evm_interpreter = False, co_boojum_group = boojum_config_default, co_log = None,
     co_log_file_path = None, co_silent = None, co_cache = None, co_reset_cache = Some True, co_cache_dir = Some ''other'',
     co_accounts = 10, co_balance = 10000, co_timestamp = None, co_init = None, co_state = None, co_state_interval = None,
     co_dump_state = None, co_preserve_historical_states = False, co_load_state = None, co_mnemonic = None,
     co_mnemonic_random = None, co_mnemonic_seed = None, co_derivation_path = None, co_auto_impersonate = False,
     co_block_time = None, co_no_mining = False, co_allow_origin = ''*'', co_no_cors = False, co_order = Fifo, co_l1_group = None,
     co_auto_execute_l1 = None, co_base_token_symbol = None, co_base_token_ratio = None\<rparr>"

lemma sample_cli_simps [simp]:
  "\<not> co_evm_interpreter sample_cli" "co_base_token_ratio sample_cli = None" "co_balance sample_cli = 10000"
  "co_accounts sample_cli = 10" "co_cache sample_cli = None"
  by (simp_all add: sample_cli_def)

lemma generate_from_sample: "\<exists>keys. generate_from sample_wallet g is = Inr keys"
  by (induction "is") (auto simp: sample_wallet_def)

lemma sample_config_exists:
  assumes "\<not> co_evm_interpreter c" and "co_base_token_ratio c = None"
  shows "\<exists>config. into_test_node_config sample_wallet rs pc ps c = Inr config"
proof -
  have keys: "\<exists>keys. generate_accounts sample_wallet g = Inr keys" for g
    using generate_from_sample by (simp add: generate_accounts_def)
  show ?thesis
    using keys [of "with_phrase DEFAULT_MNEMONIC (account_generator_new (rs 0) 10)"]
      keys [of "cli_account_generator (rs 1) pc ps c"] assms
    by (auto simp: into_test_node_config_def test_node_config_default_def with_account_generator_def cli_base_token_config_def
        non_zero_u64_def)
qed

theorem cli_config_sound_witness:
  "\<exists>config. into_test_node_config sample_wallet (\<lambda>_. []) (\<lambda>_. None) (\<lambda>_. []) sample_cli = Inr config
    \<and> unat (tn_genesis_balance config) = 10000 * 10 ^ 18 \<and> length (tn_genesis_accounts config) = 10
    \<and> tn_cache_config config = cache_config_default"
proof -
  obtain config where config: "into_test_node_config sample_wallet (\<lambda>_. []) (\<lambda>_. None) (\<lambda>_. []) sample_cli = Inr config"
    using sample_config_exists [of sample_cli "\<lambda>_. []" "\<lambda>_. None" "\<lambda>_. []"] by auto
  from cli_config_sound [OF config] config show ?thesis by simp
qed

section \<open>Networks and versions are read\<close>

lemma network_names_distinct: "distinct (map fst network_names)"
  by (simp add: network_names_def)

text \<open>Every network has a name, in whatever case it is written, and no name stands for two networks.\<close>

lemma network_from_str:
  assumes "(name, net) \<in> set network_names" and "to_lowercase s = name"
  shows "fork_url_from_str parse_url s = Inr (BuiltinUrl net)"
  using map_of_is_SomeI [OF network_names_distinct assms(1)] assms(2) by (simp add: fork_url_from_str_def)

lemma network_named: "\<exists>name. (name, net) \<in> set network_names"
  by (cases net) (auto simp: network_names_def)

lemma parse_digits_snoc:
  "parse_digits acc (cs @ [c]) = Option.bind (parse_digits acc cs) (\<lambda>n. map_option (\<lambda>d. 10 * n + d) (digit_value c))"
  by (induction cs arbitrary: acc) (auto split: bind_split)

lemma digit_value_digit: "d < 10 \<Longrightarrow> digit_value (digit d) = Some d"
  by (simp add: digit_value_def digit_def take_bit_nat_eq_self)

lemma parse_digits_decimal: "parse_digits 0 (decimal n) = Some n"
proof (induction n rule: decimal.induct)
  case (1 n)
  show ?case
  proof (cases "n < 10")
    case True
    then show ?thesis by (simp add: decimal.simps [of n] digit_value_digit)
  next
    case False
    then show ?thesis using 1 by (simp add: decimal.simps [of n] parse_digits_snoc digit_value_digit)
  qed
qed

lemma decimal_first: "decimal n \<noteq> [] \<and> hd (decimal n) \<noteq> CHR ''+''"
proof (induction n rule: decimal.induct)
  case (1 n)
  have "digit d \<noteq> CHR ''+''" if "d < 10" for d
  proof
    assume "digit d = CHR ''+''"
    then have "of_char (digit d) = (43 :: nat)" by simp
    then show False using that by (simp add: digit_def take_bit_nat_eq_self)
  qed
  with 1 show ?case by (simp add: decimal.simps [of n])
qed

text \<open>A version written in decimal is read back, and what is read is in range.\<close>

lemma parse_u16_decimal: "parse_u16 (decimal (unat v)) = Inr v"
proof -
  have "\<not> starts_with ''+'' (decimal (unat v))"
    using decimal_first [of "unat v"] by (cases "decimal (unat v)") (auto simp: starts_with_def)
  moreover have "unat v < 2 ^ 16" using unat_less_exp [of v] by simp
  ultimately show ?thesis using decimal_first [of "unat v"] by (simp add: parse_u16_def Let_def parse_digits_decimal)
qed

end
