(* ===== verification/Cli_Start.thy ===== *)
theory Cli_Start
  imports Cli_Options Eth_Api L1_Sidecar
begin

text \<open>
  Starting the node: \<open>start_program\<close> of \<open>crates/cli/src/main.rs\<close>, \<open>bytecode_override.rs\<close> and \<open>update_with_fork_details\<close> of
  \<open>utils.rs\<close>.

  The remote networks, the file system, the sockets and the signing of the first transactions are arguments. Left out are
  telemetry, logging and printing, the tasks that run from then on (the servers, the block sealer, the L1 sidecar, whose parts are
  modelled in their own theories) and the progress bar of a replay.
\<close>

section \<open>Fork details and prices\<close>

definition or_else :: "'a option \<Rightarrow> 'a option \<Rightarrow> 'a option" where
  "or_else v w = (case v of None \<Rightarrow> w | Some a \<Rightarrow> v)"

definition update_with_fork_details ::
  "('f, 'p) fork_details \<Rightarrow> ('f, 'k) test_node_config \<Rightarrow> ('f, 'k) test_node_config" where
  "update_with_fork_details fd config = apply_setters
     [update_l1_gas_price (or_else (tn_l1_gas_price config) (Some (fd_l1_gas_price fd))),
      update_l2_gas_price (or_else (tn_l2_gas_price config) (Some (fd_l2_fair_gas_price fd))),
      update_l1_pubdata_price (or_else (tn_l1_pubdata_price config) (Some (fd_fair_pubdata_price fd))),
      update_price_scale (or_else (tn_price_scale_factor config) (Some (fd_estimate_gas_price_scale_factor fd))),
      update_gas_limit_scale (or_else (tn_limit_scale_factor config) (Some (fd_estimate_gas_scale_factor fd))),
      update_chain_id (or_else (tn_chain_id config) (Some (ucast (fd_chain_id fd))))] config"

definition fill_prices ::
  "('f, 'p) fee_api \<Rightarrow> u64 \<Rightarrow> u64 \<Rightarrow> u64 \<Rightarrow> ('f, 'k) test_node_config \<Rightarrow> ('f, 'k) test_node_config" where
  "fill_prices fa l1 l2 pubdata config = apply_setters
     [with_l1_gas_price (or_else (tn_l1_gas_price config) (Some l1)),
      with_l2_gas_price (or_else (tn_l2_gas_price config) (Some l2)),
      with_price_scale (or_else (tn_price_scale_factor config) (Some (f_gas_price_scale_default fa))),
      with_gas_limit_scale (or_else (tn_limit_scale_factor config) (Some (f_gas_scale_default fa))),
      with_l1_pubdata_price (or_else (tn_l1_pubdata_price config) (Some pubdata)),
      with_chain_id (or_else (tn_chain_id config) (Some TEST_NODE_NETWORK_ID))] config"

section \<open>The command\<close>

datatype start_error = StartArguments string | StartGeneric string | StartNode node_error | StartServer | StartStateFile string
  | StartState state_load_failure

fun map_err :: "('a \<Rightarrow> 'b) \<Rightarrow> ('a, 'c) outcome \<Rightarrow> ('b, 'c) outcome" where
  "map_err f (Inl (Err e)) = Inl (Err (f e))"
| "map_err f (Inl (Panic m)) = Inl (Panic m)"
| "map_err f (Inr a) = Inr a"

definition fork_before_tx ::
  "('p, 'b, 't, 'td) exec_api \<Rightarrow> 'f fork_config \<Rightarrow> h256 \<Rightarrow> (string, ('f, 'p, 'b, 't, 'td) fork_client \<times> transaction list) outcome" where
  "fork_before_tx xa config txh =
     and_then (call (xa_http_client xa (fc_url config))) (\<lambda>client. at_before_tx (xa_chain_id_try_from xa) config client txh)"

text \<open>The fork client, the transactions to replay and the configuration with the prices filled in. A fork block number is
  truncated to 32 bits.\<close>

definition prepare_command ::
  "('h, 'v, 'f, 'p, 'b, 't, 'td) node_env \<Rightarrow> (nat \<Rightarrow> 'f) \<Rightarrow> cli_command \<Rightarrow> ('f, 'k) test_node_config
     \<Rightarrow> (start_error, ('f, 'p, 'b, 't, 'td) fork_client option \<times> transaction list \<times> ('f, 'k) test_node_config) outcome" where
  "prepare_command env tenths c config = (let fa = en_fee env; xa = en_exec env in case c of
       Run \<Rightarrow>
         if tn_offline config
         then Inr (None, [], fill_prices fa DEFAULT_L1_GAS_PRICE DEFAULT_L2_GAS_PRICE DEFAULT_FAIR_PUBDATA_PRICE config)
         else map_err StartGeneric (
           and_then (new_fork_client xa (to_fork_config tenths Era) None) (\<lambda>client.
           and_then (fork_client_get_fee_params client) (\<lambda>fee. case fee of
               FeeParamsV1 \<Rightarrow> Inl (Err ''Unsupported FeeParams::V1 in this context'')
             | FeeParamsV2 p \<Rightarrow> Inr (None, [], fill_prices fa (params_l1_gas_price fa p)
                 (minimal_l2_gas_price (params_config fa p)) (params_l1_pubdata_price fa p) config))))
     | Fork a \<Rightarrow> map_err StartGeneric (
         and_then (case fa_fork_transaction_hash a of
             Some txh \<Rightarrow> fork_before_tx xa (fork_url_to_config fa tenths (fa_fork_url a)) txh
           | None \<Rightarrow> and_then (new_fork_client xa (fork_url_to_config fa tenths (fa_fork_url a))
               (map_option ucast (fa_fork_block_number a))) (\<lambda>client. Inr (client, []))) (\<lambda>(client, txs).
         Inr (Some client, txs, update_with_fork_details (cl_details client) config)))
     | ReplayTx a \<Rightarrow> map_err StartGeneric (
         and_then (fork_before_tx xa (fork_url_to_config fa tenths (ra_fork_url a)) (ra_tx a)) (\<lambda>(client, txs).
         Inr (Some client, txs, update_with_fork_details (cl_details client) config))))"

section \<open>Building the node\<close>

text \<open>The part of the configuration the node keeps.\<close>

definition rich_wallet_addresses :: "'k wallet_api \<Rightarrow> address list \<Rightarrow> ('f, 'k) test_node_config \<Rightarrow> address list" where
  "rich_wallet_addresses wa wallets config =
     map (wa_address wa) (tn_genesis_accounts config) @ map (wa_address wa) (tn_signer_accounts config) @ wallets"

definition node_config_of :: "'k wallet_api \<Rightarrow> address list \<Rightarrow> ('f, 'k) test_node_config \<Rightarrow> node_config" where
  "node_config_of wa wallets config =
     \<lparr>cfg_genesis = tn_genesis config, cfg_genesis_timestamp = tn_genesis_timestamp config, cfg_chain_id = tn_chain_id config,
      cfg_rich_addresses = rich_wallet_addresses wa wallets config, cfg_genesis_balance = tn_genesis_balance config,
      cfg_max_transactions = tn_max_transactions config, cfg_use_evm_interpreter = tn_use_evm_interpreter config\<rparr>"

record 'b start_env =
  st_zksync_home :: "string option"
  st_is_dir :: "string \<Rightarrow> bool"
  st_cache_dir :: "'b cache_dir"
  st_contracts :: contract_source
  st_latest_version :: protocol_version
  st_wallets :: "address list"
  st_sign_tx :: "address \<Rightarrow> u32 \<Rightarrow> u256 \<Rightarrow> bytes \<Rightarrow> u64 \<Rightarrow> transaction"
  st_contract_deployer :: address
  st_predeploys_manager :: address
  st_predeploy_calls :: "bytes list"
  st_read_file :: "string \<Rightarrow> string + bytes"
  st_origin_ok :: "string \<Rightarrow> bool"
  st_bind :: "ip_addr \<Rightarrow> u16 \<Rightarrow> string + u16"

definition check_contracts_path :: "'b start_env \<Rightarrow> ('f, 'k) test_node_config \<Rightarrow> (start_error, unit) outcome" where
  "check_contracts_path st config =
     (if tn_system_contracts_options config \<noteq> Local \<and> tn_system_contracts_path config \<noteq> None
      then Inl (Err (StartGeneric ''The --system-contracts-path option can only be specified when --dev-system-contracts is set to 'local'.''))
      else if tn_system_contracts_options config = Local
      then (case or_else (tn_system_contracts_path config) (st_zksync_home st) of
          Some path \<Rightarrow> if st_is_dir st path then Inr ()
            else Inl (Err (StartGeneric ''The specified system contracts path does not exist or is not a directory.''))
        | None \<Rightarrow> Inr ())
      else Inr ())"

definition check_fork_fees :: "('f, 'p, 'b, 't, 'td) fork_client option \<Rightarrow> (start_error, unit) outcome" where
  "check_fork_fees client = (case client of
       None \<Rightarrow> Inr ()
     | Some c \<Rightarrow> (case fd_fee_params (cl_details c) of
         FeeParamsV2 p \<Rightarrow> Inr ()
       | FeeParamsV1 \<Rightarrow> Inl (Err (StartGeneric ''fork is using unsupported fee parameters''))))"

definition build_system_contracts ::
  "'b start_env \<Rightarrow> ('f, 'k) test_node_config \<Rightarrow> (start_error, system_contracts) outcome" where
  "build_system_contracts st config =
     and_then (config_protocol_version config) (\<lambda>version.
     builder_build (st_contracts st) (st_latest_version st)
       \<lparr>scb_options = Some (tn_system_contracts_options config), scb_path = tn_system_contracts_path config,
        scb_protocol_version = Some version, scb_use_evm_interpreter = tn_use_evm_interpreter config,
        scb_use_boojum = bj_use_boojum (tn_boojum config)\<rparr>)"

text \<open>The environment of the executor of this node: the runner gets the system contracts and two switches.\<close>

definition configure_runner ::
  "system_contracts \<Rightarrow> ('f, 'k) test_node_config \<Rightarrow> ('h, 'v, 'f, 'p, 'b, 't, 'td) node_env
     \<Rightarrow> ('h, 'v, 'f, 'p, 'b, 't, 'td) node_env" where
  "configure_runner sc config env = env\<lparr>en_runner := (en_runner env)\<lparr>rn_system_contracts := sc,
     rn_generate_system_logs := tn_l1_config config \<noteq> None, rn_enforced_bytecode_compression := tn_bytecode_compression config\<rparr>\<rparr>"

definition initial_impersonation :: "('f, 'k) test_node_config \<Rightarrow> impersonation_state" where
  "initial_impersonation config = (if tn_enable_auto_impersonate config then set_auto_impersonation True impersonation_default
     else impersonation_default)"

definition initial_sealing :: "'l \<Rightarrow> ('f, 'k) test_node_config \<Rightarrow> block_sealer_mode \<times> 'l tx_pool" where
  "initial_sealing sender config =
     (let pool = tx_pool_new (tn_transaction_order config)
      in if tn_no_mining config then (Noop, pool)
         else case tn_block_time config of
             Some block_time \<Rightarrow> (mode_fixed_time (tn_max_transactions config) block_time, pool)
           | None \<Rightarrow> (mode_immediate (tn_max_transactions config) [], add_tx_listener sender pool))"

definition build_node ::
  "('h, 'v, 'f, 'p, 'b, 't, 'td) node_env \<Rightarrow> 'b start_env \<Rightarrow> 'k wallet_api \<Rightarrow> 'l
     \<Rightarrow> ('f, 'p, 'b, 't, 'td) fork_client option \<Rightarrow> ('f, 'k) test_node_config
     \<Rightarrow> (start_error, ('h, 'v, 'f, 'p, 'b, 't, 'td) node_env \<times> ('l, 'f, 'p, 'b, 't, 'td) in_memory_node) outcome" where
  "build_node env st wa sender client config =
     and_then (map_err StartGeneric (from_fork (en_fee env)
       (map_option (\<lambda>c. (fd_fee_params (cl_details c), fd_estimate_gas_price_scale_factor (cl_details c),
          fd_estimate_gas_scale_factor (cl_details c))) client) (btk_ratio (tn_base_token_config config)))) (\<lambda>fees.
     and_then (build_system_contracts st config) (\<lambda>sc.
     let env = configure_runner sc config env;
         inner = node_inner_init (en_chain env) (en_node env) client (tn_cache_config config) (st_cache_dir st) fees eth_filters_default
           (node_config_of wa (st_wallets st) config) (initial_impersonation config) (sc_protocol_version sc)
           (if bj_use_boojum (tn_boojum config) then BoojumOs else ZkEra);
         (mode, pool) = initial_sealing sender config
     in if tn_l1_config config \<noteq> None \<and> client \<noteq> None
        then Inl (Err (StartArguments ''Running L1 in forking mode is unsupported''))
        else Inr (env, (in_memory_node_new inner pool mode (tn_show_storage_logs config))\<lparr>nd_show_node_config := tn_show_node_config config\<rparr>)))"

section \<open>The first calls\<close>

text \<open>Steps on the node that may fail or, when the executor never answers, not return.\<close>

type_synonym ('a, 'n) node_step = "(start_error, 'a) outcome option \<times> 'n"

fun then_node :: "('a, 'n) node_step \<Rightarrow> ('a \<Rightarrow> 'n \<Rightarrow> ('b, 'n) node_step) \<Rightarrow> ('b, 'n) node_step" where
  "then_node (None, nd) f = (None, nd)"
| "then_node (Some (Inl e), nd) f = (Some (Inl e), nd)"
| "then_node (Some (Inr a), nd) f = f a nd"

definition node_step :: "'a answered \<times> 'n \<Rightarrow> ('a, 'n) node_step" where
  "node_step r = map_prod (map_option (map_err StartNode)) id r"

definition PSEUDO_CALLER :: address where "PSEUDO_CALLER = - 1"

definition EVM_EMULATOR_ENABLER_CALLDATA :: bytes where
  "EVM_EMULATOR_ENABLER_CALLDATA = [0xfe, 0x06, 0x38, 0x0c] @ replicate 31 0 @ [1]"

text \<open>The transaction that allows EVM bytecode, followed by the predeployed contracts unless the node is a fork. The address, the
  nonce, the gas limit and the data are what the signing gets; the fee is the largest 32-bit number.\<close>

definition evm_txs :: "'b start_env \<Rightarrow> bool \<Rightarrow> u64 \<Rightarrow> transaction list" where
  "evm_txs st is_fork_mode chain_id =
     st_sign_tx st (st_contract_deployer st) 0 300000 EVM_EMULATOR_ENABLER_CALLDATA chain_id
     # (if is_fork_mode then []
        else map (\<lambda>(i, data). st_sign_tx st (st_predeploys_manager st) (of_nat (Suc i)) 10000000 data chain_id)
          (enumerate 0 (st_predeploy_calls st)))"

definition enable_evm ::
  "('h, 'v, 'f, 'p, 'b, 't, 'td) node_env \<Rightarrow> 'b start_env \<Rightarrow> bool \<Rightarrow> ('l, 'f, 'p, 'b, 't, 'td) in_memory_node
     \<Rightarrow> (unit, ('l, 'f, 'p, 'b, 't, 'td) in_memory_node) node_step" where
  "enable_evm env st is_fork_mode nd =
     (let nd = snd (impersonate_account PSEUDO_CALLER nd)
      in then_node (node_step (node_set_rich_account env PSEUDO_CALLER 1000000000000 nd)) (\<lambda>_ nd.
         case node_chain_id nd of None \<Rightarrow> (None, nd) | Some chain_id \<Rightarrow>
         then_node (node_step (via_handle (seal_block_sync env \<lparr>batch_impersonating = True,
           batch_txs = evm_txs st is_fork_mode chain_id\<rparr>) nd)) (\<lambda>_ nd.
         then_node (node_step (node_set_rich_account env PSEUDO_CALLER 0 nd)) (\<lambda>_ nd.
         (Some (Inr ()), snd (stop_impersonating_account PSEUDO_CALLER nd))))))"

text \<open>\<open>override_bytecodes\<close>: the entries of the directory in its order, each a file or not, with a name that may not be text and
  contents that may not be read. Addresses and the artifact are parsed by other crates.\<close>

record dir_entry =
  de_is_file :: bool
  de_name :: "string option"
  de_content :: "string + string"

record parse_api =
  pa_address :: "string \<Rightarrow> string + address"
  pa_bytecode_object :: "string \<Rightarrow> string + string"

definition strip_suffix :: "string \<Rightarrow> string \<Rightarrow> string option" where
  "strip_suffix sfx s = (let n = length s - length sfx in if length sfx \<le> length s \<and> drop n s = sfx then Some (take n s) else None)"

fun override_bytecodes ::
  "('h, 'v, 'f, 'p, 'b, 't, 'td) node_env \<Rightarrow> parse_api \<Rightarrow> dir_entry list \<Rightarrow> ('l, 'f, 'p, 'b, 't, 'td) in_memory_node
     \<Rightarrow> (unit, ('l, 'f, 'p, 'b, 't, 'td) in_memory_node) node_step" where
  "override_bytecodes env pa [] nd = (Some (Inr ()), nd)"
| "override_bytecodes env pa (entry # entries) nd =
     (if \<not> de_is_file entry then override_bytecodes env pa entries nd
      else case de_name entry of
          None \<Rightarrow> (Some (Inl (Panic ''Invalid filename'')), nd)
        | Some name \<Rightarrow> (case strip_suffix ''.json'' name of
            None \<Rightarrow> override_bytecodes env pa entries nd
          | Some filename \<Rightarrow> (case and_then (pa_address pa filename) (\<lambda>a.
                and_then (de_content entry) (\<lambda>content.
                and_then (pa_bytecode_object pa content) (\<lambda>obj.
                and_then (hex_decode obj) (\<lambda>code. Inr (a, code))))) of
              Inl e \<Rightarrow> (Some (Inl (Panic e)), nd)
            | Inr (a, code) \<Rightarrow> (case override_bytecode env a code nd of
                (None, nd) \<Rightarrow> (None, nd)
              | (Some (Inr _), nd) \<Rightarrow> override_bytecodes env pa entries nd
              | (Some (Inl _), nd) \<Rightarrow> (Some (Inl (Panic ''Failed to override bytecode'')), nd)))))"

fun fund_accounts ::
  "('h, 'v, 'f, 'p, 'b, 't, 'td) node_env \<Rightarrow> u256 \<Rightarrow> address list \<Rightarrow> ('l, 'f, 'p, 'b, 't, 'td) in_memory_node
     \<Rightarrow> (unit, ('l, 'f, 'p, 'b, 't, 'td) in_memory_node) node_step" where
  "fund_accounts env balance [] nd = (Some (Inr ()), nd)"
| "fund_accounts env balance (a # as) nd =
     then_node (node_step (node_set_rich_account env a balance nd)) (\<lambda>_ nd. fund_accounts env balance as nd)"

text \<open>A server per host. When a port is taken, any free one is used, and the port that is bound is asked for at the next host.\<close>

fun bind_hosts :: "(ip_addr \<Rightarrow> u16 \<Rightarrow> string + u16) \<Rightarrow> ip_addr list \<Rightarrow> u16 \<Rightarrow> (start_error, u16 list \<times> u16) outcome" where
  "bind_hosts bind [] port = Inr ([], port)"
| "bind_hosts bind (host # hosts) port = (case bind host port of
       Inr bound \<Rightarrow> and_then (bind_hosts bind hosts bound) (\<lambda>(ports, port). Inr (bound # ports, port))
     | Inl _ \<Rightarrow> (case bind host 0 of
         Inr bound \<Rightarrow> and_then (bind_hosts bind hosts bound) (\<lambda>(ports, port). Inr (bound # ports, port))
       | Inl _ \<Rightarrow> Inl (Err StartServer)))"

definition load_initial_state ::
  "'b start_env \<Rightarrow> ext_api \<Rightarrow> ('f, 'k) test_node_config \<Rightarrow> ('l, 'f, 'p, 'b, 't, 'td) in_memory_node
     \<Rightarrow> (unit, ('l, 'f, 'p, 'b, 't, 'td) in_memory_node) node_step" where
  "load_initial_state st xt config nd = (case or_else (tn_load_state config) (tn_state config) of
       None \<Rightarrow> (Some (Inr ()), nd)
     | Some path \<Rightarrow> (case st_read_file st path of
         Inl e \<Rightarrow> (Some (Inl (Err (StartStateFile path))), nd)
       | Inr bytes \<Rightarrow> (case node_load_state xt bytes nd of
           (None, nd) \<Rightarrow> (None, nd)
         | (Some r, nd) \<Rightarrow> (Some (map_err StartState (and_then r (\<lambda>_. Inr ()))), nd))))"

definition dump_path :: "'b start_env \<Rightarrow> ('f, 'k) test_node_config \<Rightarrow> string option" where
  "dump_path st config = map_option (\<lambda>path. if st_is_dir st path then path @ ''/state.json'' else path)
     (or_else (tn_dump_state config) (tn_state config))"

section \<open>The program\<close>

text \<open>How the start ends: the node serves on these ports, or it has replayed transactions and the program is done.\<close>

datatype started = Replayed | Serves "u16 list" "string option"

definition start_prepared ::
  "('h, 'v, 'f, 'p, 'b, 't, 'td) node_env \<Rightarrow> 'b start_env \<Rightarrow> ext_api \<Rightarrow> parse_api \<Rightarrow> dir_entry list \<Rightarrow> 'k wallet_api \<Rightarrow> 'l
     \<Rightarrow> ('f, 'p, 'b, 't, 'td) fork_client option \<Rightarrow> transaction list \<Rightarrow> ('f, 'k) test_node_config
     \<Rightarrow> (start_error, (('h, 'v, 'f, 'p, 'b, 't, 'td) node_env \<times> (started, ('l, 'f, 'p, 'b, 't, 'td) in_memory_node) node_step)) outcome" where
  "start_prepared env st xt pa overrides wa sender client txs config =
     and_then (check_contracts_path st config) (\<lambda>_.
     and_then (check_fork_fees client) (\<lambda>_.
     and_then (build_node env st wa sender client config) (\<lambda>(env, nd). Inr (env,
       then_node (if tn_use_evm_interpreter config then enable_evm env st (client \<noteq> None) nd else (Some (Inr ()), nd)) (\<lambda>_ nd.
       then_node (if tn_override_bytecodes_dir config \<noteq> None then override_bytecodes env pa overrides nd else (Some (Inr ()), nd)) (\<lambda>_ nd.
       if txs \<noteq> [] then then_node (node_step (replay_txs env txs nd)) (\<lambda>_ nd. (Some (Inr Replayed), nd))
       else then_node (fund_accounts env (tn_genesis_balance config) (rich_wallet_addresses wa (st_wallets st) config) nd) (\<lambda>_ nd.
         if \<not> st_origin_ok st (tn_allow_origin config) then (Some (Inl (Err (StartGeneric ''allow origin is malformed''))), nd)
         else case bind_hosts (st_bind st) (tn_host config) (tn_port config) of
             Inl e \<Rightarrow> (Some (Inl e), nd)
           | Inr (ports, port) \<Rightarrow> then_node (load_initial_state st xt config nd) (\<lambda>_ nd.
               (Some (Inr (Serves ports (dump_path st config))), nd)))))))))"

definition start_program ::
  "('h, 'v, 'f, 'p, 'b, 't, 'td) node_env \<Rightarrow> 'b start_env \<Rightarrow> ext_api \<Rightarrow> parse_api \<Rightarrow> dir_entry list \<Rightarrow> (nat \<Rightarrow> 'f) \<Rightarrow> 'k wallet_api \<Rightarrow> 'l
     \<Rightarrow> cli_command option \<Rightarrow> ('f, 'k) test_node_config
     \<Rightarrow> (start_error, (('h, 'v, 'f, 'p, 'b, 't, 'td) node_env \<times> (started, ('l, 'f, 'p, 'b, 't, 'td) in_memory_node) node_step)) outcome" where
  "start_program env st xt pa overrides tenths wa sender c config =
     and_then (prepare_command env tenths (case_option Run id c) config) (\<lambda>(client, txs, config).
     start_prepared env st xt pa overrides wa sender client txs config)"

section \<open>The fee options\<close>

definition no_fees :: "('f, 'k) test_node_config \<Rightarrow> ('f, 'k) test_node_config" where
  "no_fees k = k\<lparr>tn_l1_gas_price := None, tn_l2_gas_price := None, tn_l1_pubdata_price := None, tn_price_scale_factor := None,
     tn_limit_scale_factor := None\<rparr>"

lemma no_fees_fields [simp]:
  "tn_config_out (no_fees k) = tn_config_out k" "tn_port (no_fees k) = tn_port k"
  "tn_show_node_config (no_fees k) = tn_show_node_config k" "tn_show_storage_logs (no_fees k) = tn_show_storage_logs k"
  "tn_show_vm_details (no_fees k) = tn_show_vm_details k" "tn_show_gas_details (no_fees k) = tn_show_gas_details k"
  "tn_verbosity (no_fees k) = tn_verbosity k" "tn_silent (no_fees k) = tn_silent k"
  "tn_system_contracts_options (no_fees k) = tn_system_contracts_options k"
  "tn_system_contracts_path (no_fees k) = tn_system_contracts_path k"
  "tn_protocol_version (no_fees k) = tn_protocol_version k"
  "tn_override_bytecodes_dir (no_fees k) = tn_override_bytecodes_dir k"
  "tn_bytecode_compression (no_fees k) = tn_bytecode_compression k"
  "tn_use_evm_interpreter (no_fees k) = tn_use_evm_interpreter k" "tn_boojum (no_fees k) = tn_boojum k"
  "tn_chain_id (no_fees k) = tn_chain_id k" "tn_log_level (no_fees k) = tn_log_level k"
  "tn_log_file_path (no_fees k) = tn_log_file_path k" "tn_cache_dir (no_fees k) = tn_cache_dir k"
  "tn_cache_config (no_fees k) = tn_cache_config k" "tn_genesis_accounts (no_fees k) = tn_genesis_accounts k"
  "tn_genesis_balance (no_fees k) = tn_genesis_balance k" "tn_account_generator (no_fees k) = tn_account_generator k"
  "tn_signer_accounts (no_fees k) = tn_signer_accounts k" "tn_genesis (no_fees k) = tn_genesis k"
  "tn_genesis_timestamp (no_fees k) = tn_genesis_timestamp k"
  "tn_enable_auto_impersonate (no_fees k) = tn_enable_auto_impersonate k" "tn_offline (no_fees k) = tn_offline k"
  "tn_host (no_fees k) = tn_host k" "tn_health_check_endpoint (no_fees k) = tn_health_check_endpoint k"
  "tn_block_time (no_fees k) = tn_block_time k" "tn_max_transactions (no_fees k) = tn_max_transactions k"
  "tn_no_mining (no_fees k) = tn_no_mining k" "tn_allow_origin (no_fees k) = tn_allow_origin k"
  "tn_no_cors (no_fees k) = tn_no_cors k" "tn_transaction_order (no_fees k) = tn_transaction_order k"
  "tn_state (no_fees k) = tn_state k" "tn_dump_state (no_fees k) = tn_dump_state k"
  "tn_state_interval (no_fees k) = tn_state_interval k"
  "tn_preserve_historical_states (no_fees k) = tn_preserve_historical_states k"
  "tn_load_state (no_fees k) = tn_load_state k" "tn_l1_config (no_fees k) = tn_l1_config k"
  "tn_auto_execute_l1 (no_fees k) = tn_auto_execute_l1 k" "tn_base_token_config (no_fees k) = tn_base_token_config k"
  by (simp_all add: no_fees_def)

lemma no_fees_kept:
  "check_contracts_path st (no_fees k) = check_contracts_path st k"
  "build_node env st wa sender client (no_fees k) = build_node env st wa sender client k"
  "rich_wallet_addresses wa ws (no_fees k) = rich_wallet_addresses wa ws k"
  "load_initial_state st xt (no_fees k) nd = load_initial_state st xt k nd" "dump_path st (no_fees k) = dump_path st k"
  unfolding check_contracts_path_def build_node_def build_system_contracts_def config_protocol_version_def configure_runner_def
    node_config_of_def rich_wallet_addresses_def initial_impersonation_def initial_sealing_def load_initial_state_def dump_path_def
    no_fees_fields
  by (rule refl)+

lemma start_prepared_no_fees:
  "start_prepared env st xt pa ov wa sender client txs (no_fees k) = start_prepared env st xt pa ov wa sender client txs k"
  unfolding start_prepared_def no_fees_kept no_fees_fields ..

lemma or_else_Some: "or_else v (Some w) = Some (case_option w id v)"
  by (simp add: or_else_def split: option.split)

lemma prices_no_fees:
  "no_fees (fill_prices fa l1 l2 pd (no_fees k)) = no_fees (fill_prices fa l1 l2 pd k)"
  "no_fees (update_with_fork_details fd (no_fees k)) = no_fees (update_with_fork_details fd k)"
  by (simp_all add: or_else_Some no_fees_def fill_prices_def update_with_fork_details_def apply_setters_def setter_updates update_l1_gas_price_def
      update_l2_gas_price_def update_l1_pubdata_price_def update_price_scale_def update_gas_limit_scale_def update_chain_id_def)

lemma prepare_command_no_fees:
  "map_sum id (\<lambda>(client, txs, k). (client, txs, no_fees k)) (prepare_command env tenths c (no_fees config))
   = map_sum id (\<lambda>(client, txs, k). (client, txs, no_fees k)) (prepare_command env tenths c config)"
proof -
  have err: "map_sum id g (map_err f r) = map_err f (map_sum id g r)" for f :: "string \<Rightarrow> start_error" and g :: "'x \<Rightarrow> 'y" and r
    by (cases "(f, r)" rule: map_err.cases) simp_all
  have bind: "map_sum id g (and_then r f) = and_then r (\<lambda>a. map_sum id g (f a))" for r f and g :: "'x \<Rightarrow> 'y"
    by (cases r) simp_all
  show ?thesis
    by (cases c) (auto simp: prepare_command_def Let_def err bind prices_no_fees split_def
        intro!: arg_cong [where f = "map_err StartGeneric"] arg_cong2 [where f = and_then] ext split: fee_params.split)
qed


section \<open>Replay or serve\<close>

lemma then_node_done [simp]:
  "then_node r f = (Some (Inr b), nd') \<longleftrightarrow> (\<exists>a nd. r = (Some (Inr a), nd) \<and> f a nd = (Some (Inr b), nd'))"
  by (cases "(r, f)" rule: then_node.cases) auto

lemma start_prepared_steps:
  assumes "start_prepared env st xt pa ov wa sender client txs config = Inr (env', Some (Inr r), nd)"
  shows "\<exists>nd0 nd1 nd2. build_node env st wa sender client config = Inr (env', nd0)
    \<and> (if tn_use_evm_interpreter config then enable_evm env' st (client \<noteq> None) nd0 else (Some (Inr ()), nd0)) = (Some (Inr ()), nd1)
    \<and> (if tn_override_bytecodes_dir config \<noteq> None then override_bytecodes env' pa ov nd1 else (Some (Inr ()), nd1)) = (Some (Inr ()), nd2)
    \<and> (txs \<noteq> [] \<longrightarrow> r = Replayed)
    \<and> (txs = [] \<longrightarrow> (\<exists>nd3 ports port.
        fund_accounts env' (tn_genesis_balance config) (rich_wallet_addresses wa (st_wallets st) config) nd2 = (Some (Inr ()), nd3)
      \<and> bind_hosts (st_bind st) (tn_host config) (tn_port config) = Inr (ports, port)
      \<and> load_initial_state st xt config nd3 = (Some (Inr ()), nd) \<and> r = Serves ports (dump_path st config)))"
proof (cases "bind_hosts (st_bind st) (tn_host config) (tn_port config)")
  case (Inl e)
  then show ?thesis using assms by (cases "txs = []") (auto simp: start_prepared_def split: if_split_asm)
next
  case (Inr pp)
  moreover obtain ports port where "pp = (ports, port)" by force
  ultimately show ?thesis using assms by (cases "txs = []") (auto simp: start_prepared_def split: if_split_asm)
qed

lemma call_Inr_iff [simp]: "call r = Inr a \<longleftrightarrow> r = Inr a"
  by (cases r) simp_all

lemma map_err_Inr_iff [simp]: "map_err f r = Inr a \<longleftrightarrow> r = Inr a"
  by (cases "(f, r)" rule: map_err.cases) simp_all

lemma prepare_fork_at_tx:
  assumes "prepare_command env tenths (Fork a) config = Inr (client, txs, k)" and "fa_fork_transaction_hash a = Some txh"
  shows "\<exists>l2 n raw. xa_http_client (en_exec env) (fc_url (fork_url_to_config (en_fee env) tenths (fa_fork_url a))) = Inr l2
    \<and> rpc_raw_block_transactions l2 n = Inr raw \<and> txs = txs_through txh raw"
  using assms by (auto simp: prepare_command_def Let_def fork_before_tx_def at_before_tx_def split: if_splits)

fun serves :: "(start_error, 'e \<times> (started, 'n) node_step) outcome \<Rightarrow> bool" where
  "serves (Inr (e, Some (Inr (Serves ports dump)), nd)) = True"
| "serves _ = False"

text \<open>Forking at a transaction never leads to a node that serves: the transactions of the block up to that one are replayed, which is
  at least one when the remote answers with the transactions of the block, and the program ends.\<close>

theorem fork_at_transaction_never_serves:
  assumes "fa_fork_transaction_hash a = Some txh"
    and remote: "\<And>l2 n raw. xa_http_client (en_exec env) (fc_url (fork_url_to_config (en_fee env) tenths (fa_fork_url a))) = Inr l2
      \<Longrightarrow> rpc_raw_block_transactions l2 n = Inr raw \<Longrightarrow> raw \<noteq> []"
  shows "\<not> serves (start_program env st xt pa ov tenths wa sender (Some (Fork a)) config)"
proof
  assume "serves (start_program env st xt pa ov tenths wa sender (Some (Fork a)) config)"
  then obtain env' ports dump nd
    where serving: "start_program env st xt pa ov tenths wa sender (Some (Fork a)) config = Inr (env', Some (Inr (Serves ports dump)), nd)"
    by (auto elim: serves.elims(2))
  obtain client txs k where prep: "prepare_command env tenths (Fork a) config = Inr (client, txs, k)"
    and start: "start_prepared env st xt pa ov wa sender client txs k = Inr (env', Some (Inr (Serves ports dump)), nd)"
    using serving by (auto simp: start_program_def)
  obtain raw where "raw \<noteq> []" "txs = txs_through txh raw"
    using prepare_fork_at_tx [OF prep assms(1)] remote by blast
  then have "txs \<noteq> []" by (cases raw) simp_all
  then show False using start_prepared_steps [OF start] by blast
qed

section \<open>The served node\<close>

definition same_start :: "('f, 'k) test_node_config \<Rightarrow> ('f, 'k) test_node_config \<Rightarrow> bool" where
  "same_start k config \<longleftrightarrow> tn_genesis_balance k = tn_genesis_balance config \<and> tn_host k = tn_host config
    \<and> tn_load_state k = tn_load_state config \<and> tn_state k = tn_state config
    \<and> tn_genesis_accounts k = tn_genesis_accounts config \<and> tn_signer_accounts k = tn_signer_accounts config"

lemma prices_keep: "same_start (fill_prices fa l1 l2 pd config) config" "same_start (update_with_fork_details fd config) config"
  by (simp_all add: same_start_def fill_prices_def update_with_fork_details_def apply_setters_def setter_updates
      update_l1_gas_price_def update_l2_gas_price_def update_l1_pubdata_price_def update_price_scale_def
      update_gas_limit_scale_def update_chain_id_def)

lemma prepare_keeps: "prepare_command env tenths c config = Inr (client, txs, k) \<Longrightarrow> same_start k config"
proof (cases c)
  case Run
  assume "prepare_command env tenths c config = Inr (client, txs, k)"
  with Run have "\<exists>l1 l2 pd. k = fill_prices (en_fee env) l1 l2 pd config"
    by (auto simp: prepare_command_def Let_def split: if_split_asm) (case_tac aa; auto)
  then show ?thesis by (auto simp: prices_keep)
qed (auto simp: prepare_command_def Let_def prices_keep)

lemma bind_hosts_length: "bind_hosts bind hosts port = Inr (ports, p) \<Longrightarrow> length ports = length hosts"
  by (induction bind hosts port arbitrary: ports p rule: bind_hosts.induct) (auto split: sum.splits)

lemma rich_account_reads:
  assumes "node_set_rich_account env a balance nd = (Some (Inr ()), nd')"
  shows "ni_storage_key_layout (node_of nd') = ZkEra
    \<and> (\<forall>b. b = a \<or> node_reads (node_of nd) (key_for_eth_balance (en_node env) b) = Inr balance
        \<longrightarrow> node_reads (node_of nd') (key_for_eth_balance (en_node env) b) = Inr balance)"
  using assms
  by (cases "ni_storage_key_layout (node_of nd)")
    (auto simp: node_set_rich_account_def set_rich_account_def set_node_of_def fs.set_view split: if_splits)

lemma node_step_done [simp]: "node_step r = (Some (Inr a), nd) \<longleftrightarrow> r = (Some (Inr a), nd)"
  by (cases r) (auto simp: node_step_def)

lemma fund_accounts_reads:
  assumes "fund_accounts env balance as nd = (Some (Inr ()), nd')"
  shows "(as \<noteq> [] \<longrightarrow> ni_storage_key_layout (node_of nd') = ZkEra)
    \<and> (\<forall>b. b \<in> set as \<or> node_reads (node_of nd) (key_for_eth_balance (en_node env) b) = Inr balance
        \<longrightarrow> node_reads (node_of nd') (key_for_eth_balance (en_node env) b) = Inr balance)"
  using assms
proof (induction env balance "as" nd rule: fund_accounts.induct)
  case (2 env balance a as nd)
  obtain nd1 where one: "node_set_rich_account env a balance nd = (Some (Inr ()), nd1)"
    and rest: "fund_accounts env balance as nd1 = (Some (Inr ()), nd')"
    using "2.prems" by auto
  show ?case
  proof (cases "as = []")
    case True
    then show ?thesis using rest rich_account_reads [OF one] by auto
  next
    case False
    then show ?thesis using "2.IH" [OF rest] rich_account_reads [OF one] by auto
  qed
qed simp

lemma node_step_state [simp]: "snd (node_step r) = snd r"
  by (simp add: node_step_def)

lemma then_node_inv:
  assumes "node_inv (snd r)" and "\<And>a nd. node_inv nd \<Longrightarrow> node_inv (snd (f a nd))"
  shows "node_inv (snd (then_node r f))"
  using assms by (cases "(r, f)" rule: then_node.cases) auto

lemma start_steps_inv:
  assumes "node_inv nd"
  shows "node_inv (snd (enable_evm env st fork nd))" "node_inv (snd (override_bytecodes env pa ov nd))"
    "node_inv (snd (fund_accounts env balance as nd))" "node_inv (snd (load_initial_state st xt config nd))"
proof -
  show "node_inv (snd (enable_evm env st fork nd))"
    using assms
    by (auto simp: enable_evm_def Let_def node_inv_rich node_inv_request handle_defs impersonate_account_def
        stop_impersonating_account_def with_impersonation_def split_def node_inv_clock intro!: then_node_inv set_node_of_inv node_inv_rich
        split: option.split)
  show "node_inv (snd (override_bytecodes env pa ov nd))"
    using assms
  proof (induction ov arbitrary: nd)
    case (Cons entry entries)
    have "node_inv nd'" if "override_bytecode env a code nd = (r, nd')" for a code r nd'
      using node_inv_request(1) [OF Cons.prems, of env reply_done "SetCode a code"] that
      by (simp add: override_bytecode_def handle_defs)
    with Cons show ?case by (auto split: option.splits sum.splits prod.splits)
  qed simp
  show "node_inv (snd (fund_accounts env balance as nd))"
    using assms by (induction env balance "as" nd rule: fund_accounts.induct) (auto intro!: then_node_inv simp: node_inv_rich)
  show "node_inv (snd (load_initial_state st xt config nd))"
    using node_inv_load [OF assms] assms
    by (auto simp: load_initial_state_def split: option.splits sum.splits prod.splits) (metis snd_conv)+
qed

lemma build_node_inv:
  assumes "build_node env st wa sender client config = Inr (env', nd)"
  shows "node_inv nd \<and> en_node env' = en_node env"
  using assms
  by (cases "initial_sealing sender config")
    (auto simp: build_node_def configure_runner_def in_memory_node_new_def node_inner_init_def node_inv_def time_new_def time_valid_def
      Let_def split: if_split_asm)

text \<open>C18: a node that serves: every development account, generated or built in, has the configured balance for whoever asks, unless a
  saved state was loaded over it; there is a server for every host; and the invariants of the node hold.\<close>

theorem served_node:
  assumes "start_program env st xt pa ov tenths wa sender c config = Inr (env', Some (Inr (Serves ports dump)), nd)"
    and "tn_load_state config = None" and "tn_state config = None"
  shows "(\<forall>a \<in> set (rich_wallet_addresses wa (st_wallets st) config).
      fst (get_balance_impl (en_node env) a block nd) = Inr (tn_genesis_balance config))
    \<and> length ports = length (tn_host config) \<and> time_valid (ni_time (node_of nd)) \<and> length (nd_snapshots nd) \<le> 100"
proof -
  obtain client txs k where prep: "prepare_command env tenths (case_option Run id c) config = Inr (client, txs, k)"
    and start: "start_prepared env st xt pa ov wa sender client txs k = Inr (env', Some (Inr (Serves ports dump)), nd)"
    using assms(1) by (auto simp: start_program_def)
  note same = prepare_keeps [OF prep, unfolded same_start_def]
  then have rich: "rich_wallet_addresses wa (st_wallets st) k = rich_wallet_addresses wa (st_wallets st) config"
    by (simp add: rich_wallet_addresses_def)
  obtain nd0 nd1 nd2 nd3 port where build: "build_node env st wa sender client k = Inr (env', nd0)"
    and evm: "(if tn_use_evm_interpreter k then enable_evm env' st (client \<noteq> None) nd0 else (Some (Inr ()), nd0)) = (Some (Inr ()), nd1)"
    and code: "(if tn_override_bytecodes_dir k \<noteq> None then override_bytecodes env' pa ov nd1 else (Some (Inr ()), nd1)) = (Some (Inr ()), nd2)"
    and fund: "fund_accounts env' (tn_genesis_balance k) (rich_wallet_addresses wa (st_wallets st) k) nd2 = (Some (Inr ()), nd3)"
    and bind: "bind_hosts (st_bind st) (tn_host k) (tn_port k) = Inr (ports, port)"
    and load: "load_initial_state st xt k nd3 = (Some (Inr ()), nd)"
    using start_prepared_steps [OF start] by fastforce
  have nd: "nd = nd3" using load same assms(2,3) by (simp add: load_initial_state_def or_else_def)
  note built = build_node_inv [OF build]
  have "node_inv nd1" using start_steps_inv(1) [of nd0 env' st "client \<noteq> None"] built evm by (auto split: if_splits)
  then have "node_inv nd2" using start_steps_inv(2) [of nd1 env' pa ov] code by (auto split: if_splits)
  then have "node_inv nd"
    using start_steps_inv(3) [of nd2 env' "tn_genesis_balance k" "rich_wallet_addresses wa (st_wallets st) k"] fund nd by simp
  moreover have "fst (get_balance_impl (en_node env) a block nd) = Inr (tn_genesis_balance config)"
    if "a \<in> set (rich_wallet_addresses wa (st_wallets st) config)" for a
    using fund_accounts_reads [OF fund] that same built
    by (auto simp: get_balance_impl_def nd rich case_prod_unfold)
  ultimately show ?thesis using bind_hosts_length [OF bind] same by (auto simp: node_inv_def MAX_SNAPSHOTS_def)
qed

section \<open>Concrete starts\<close>

definition sample_start_env :: "unit start_env" where
  "sample_start_env = \<lparr>st_zksync_home = None, st_is_dir = \<lambda>_. False, st_cache_dir = empty_dir, st_contracts = sample_contract_source,
     st_latest_version = 27, st_wallets = [1, 2], st_sign_tx = \<lambda>to nonce gas_limit data chain_id. sample_tx (ucast nonce) to 0,
     st_contract_deployer = 32774, st_predeploys_manager = 65540, st_predeploy_calls = [], st_read_file = \<lambda>_. Inl ''missing'',
     st_origin_ok = \<lambda>_. True, st_bind = \<lambda>host port. Inr port\<rparr>"

definition sample_parse_api :: parse_api where
  "sample_parse_api = \<lparr>pa_address = \<lambda>_. Inl ''unsupported'', pa_bytecode_object = Inr\<rparr>"

definition sample_start_config :: "(nat, string) test_node_config" where
  "sample_start_config = (config_with_accounts [''key''])\<lparr>tn_offline := True\<rparr>"

lemma fund_accounts_ok:
  assumes "\<not> inner_locked nd" and "ni_storage_key_layout (node_of nd) = ZkEra"
  shows "\<exists>nd'. fund_accounts env balance as nd = (Some (Inr ()), nd')"
  using assms
proof (induction env balance "as" nd rule: fund_accounts.induct)
  case (2 env balance a as nd)
  then show ?case
    by (auto simp: node_set_rich_account_def set_rich_account_def set_node_of_def inner_locked_def node_step_def)
qed simp

lemma sample_fees: "\<exists>fees. from_fork sample_fee_api None \<lparr>ratio_numerator = 1, ratio_denominator = 1\<rparr> = Inr fees"
  by (simp add: from_fork_def scale_default_price_def DEFAULT_L1_GAS_PRICE_def DEFAULT_FAIR_PUBDATA_PRICE_def)

lemma sample_start:
  "\<exists>env' nd. start_program sample_exec_env sample_start_env sample_ext_api sample_parse_api [] (\<lambda>n. n) sample_wallet () None
     sample_start_config = Inr (env', Some (Inr (Serves [8011] None)), nd)"
proof -
  define k where "k = fill_prices (en_fee sample_exec_env) DEFAULT_L1_GAS_PRICE DEFAULT_L2_GAS_PRICE DEFAULT_FAIR_PUBDATA_PRICE
    sample_start_config"
  have env: "en_fee sample_exec_env = sample_fee_api" by (simp add: sample_exec_env_def)
  have fields: "tn_use_evm_interpreter k = False" "tn_override_bytecodes_dir k = None" "tn_host k = [LOCALHOST]" "tn_port k = 8011"
    "tn_load_state k = None" "tn_state k = None" "tn_dump_state k = None" "tn_system_contracts_options k = BuiltIn"
    "tn_system_contracts_path k = None" "tn_protocol_version k = None" "tn_l1_config k = None" "tn_boojum k = boojum_config_default"
    "tn_base_token_config k = base_token_config_default"
    by (simp_all add: k_def fill_prices_def apply_setters_def setter_updates sample_start_config_def config_with_accounts_def NODE_PORT_def)
  obtain env' nd where build: "build_node sample_exec_env sample_start_env sample_wallet () None k = Inr (env', nd)"
    and nd: "\<not> inner_locked nd" "ni_storage_key_layout (node_of nd) = ZkEra"
    using sample_fees
    by (cases "initial_sealing () k")
      (auto simp: build_node_def build_system_contracts_def config_protocol_version_def builder_build_def fields env
        base_token_config_default_def boojum_config_default_def Let_def in_memory_node_new_def node_inner_init_def inner_locked_def)
  obtain nd' where fund: "fund_accounts env' (tn_genesis_balance k) (rich_wallet_addresses sample_wallet [1, 2] k) nd = (Some (Inr ()), nd')"
    using fund_accounts_ok [OF nd] by blast
  have "prepare_command sample_exec_env (\<lambda>n. n) Run sample_start_config = Inr (None, [], k)"
    by (simp add: prepare_command_def Let_def k_def) (simp add: sample_start_config_def)
  then show ?thesis
    using build fund
    by (simp add: start_program_def start_prepared_def check_contracts_path_def check_fork_fees_def fields load_initial_state_def
        dump_path_def or_else_def sample_start_env_def)
qed

theorem served_node_witness:
  "\<exists>env' nd. start_program sample_exec_env sample_start_env sample_ext_api sample_parse_api [] (\<lambda>n. n) sample_wallet () None
     sample_start_config = Inr (env', Some (Inr (Serves [8011] None)), nd)
   \<and> fst (get_balance_impl sample_node_api 1 None nd) = Inr (100 * 10 ^ 18)
   \<and> fst (get_balance_impl sample_node_api (wa_address sample_wallet ''key'') None nd) = Inr (100 * 10 ^ 18)"
proof -
  obtain env' nd where start: "start_program sample_exec_env sample_start_env sample_ext_api sample_parse_api [] (\<lambda>n. n) sample_wallet ()
     None sample_start_config = Inr (env', Some (Inr (Serves [8011] None)), nd)"
    using sample_start by blast
  have env: "en_node sample_exec_env = sample_node_api" by (simp add: sample_exec_env_def)
  have config: "tn_load_state sample_start_config = None" "tn_state sample_start_config = None"
    "tn_genesis_balance sample_start_config = 100 * 10 ^ 18" "tn_genesis_accounts sample_start_config = [''key'']"
    by (simp_all add: sample_start_config_def config_with_accounts_def)
  have accounts: "1 \<in> set (rich_wallet_addresses sample_wallet (st_wallets sample_start_env) sample_start_config)"
    "wa_address sample_wallet ''key'' \<in> set (rich_wallet_addresses sample_wallet (st_wallets sample_start_env) sample_start_config)"
    by (simp_all add: rich_wallet_addresses_def sample_start_env_def config)
  show ?thesis
    using served_node [OF start config(1,2), of None] accounts start by (auto simp: env config(3))
qed

theorem fork_at_transaction_never_serves_witness:
  "\<not> serves (start_program
     (sample_exec_env\<lparr>en_exec := sample_exec_api\<lparr>xa_http_client := \<lambda>_. Inr (sample_remote\<lparr>rpc_raw_block_transactions := \<lambda>_. Inr [sample_tx 1 10 5]\<rparr>)\<rparr>\<rparr>)
     sample_start_env sample_ext_api sample_parse_api [] (\<lambda>n. n) sample_wallet ()
     (Some (Fork \<lparr>fa_fork_url = BuiltinUrl Era, fa_fork_block_number = None, fa_fork_transaction_hash = Some 1\<rparr>)) sample_start_config)"
  by (rule fork_at_transaction_never_serves [where txh = 1]) auto

end
