(* ===== verification/Shell_Output.thy ===== *)
theory Shell_Output
  imports Trace_Values
begin

text \<open>
  Writing for humans: the shell of \<open>crates/common/src/shell.rs\<close>, the indenting writer of
  \<open>crates/core/src/formatter/util/indenting_writer.rs\<close> and the tree of lines of \<open>Formatter\<close> in
  \<open>crates/core/src/formatter/log.rs\<close>.

  The shell is a global value behind a lock. Its two streams are the texts written to them so far, and writing to
  them succeeds. A text may panic while it is formatted; the formatting happens under the lock, which is poisoned then.
  The colours that the crate \<open>colored\<close> adds are the parameter \<open>paint\<close>.
\<close>

section \<open>The shell\<close>

datatype color_choice = AutoColor | AlwaysColor | NeverColor

datatype output_mode = NormalOutput | QuietOutput

record shell =
  sh_verbosity :: u8
  sh_output_mode :: output_mode
  sh_color_choice :: color_choice
  sh_stdout :: string
  sh_stderr :: string
  sh_poisoned :: bool

definition shell_new :: shell where
  "shell_new = \<lparr>sh_verbosity = 0, sh_output_mode = NormalOutput, sh_color_choice = AutoColor,
     sh_stdout = [], sh_stderr = [], sh_poisoned = False\<rparr>"

definition line_end :: string where
  "line_end = [CHR 0x0A]"

text \<open>A printer changes the shell and returns or panics.\<close>

type_synonym 'e printer = "shell \<Rightarrow> ('e, unit) outcome \<times> shell"

definition write_stdout :: "string \<Rightarrow> shell \<Rightarrow> shell" where
  "write_stdout t s = s\<lparr>sh_stdout := sh_stdout s @ t\<rparr>"

definition write_stderr :: "string \<Rightarrow> shell \<Rightarrow> shell" where
  "write_stderr t s = s\<lparr>sh_stderr := sh_stderr s @ t\<rparr>"

fun write_fmt :: "(string \<Rightarrow> shell \<Rightarrow> shell) \<Rightarrow> ('e, string) outcome \<Rightarrow> 'e printer" where
  "write_fmt stream (Inl e) s = (Inl e, s)"
| "write_fmt stream (Inr t) s = (Inr (), stream t s)"

definition print_out :: "('e, string) outcome \<Rightarrow> 'e printer" where
  "print_out args s = (if sh_output_mode s = QuietOutput then (Inr (), s) else write_fmt write_stdout args s)"

definition println_out :: "('e, string) outcome \<Rightarrow> 'e printer" where
  "println_out args s =
     (if sh_output_mode s = QuietOutput then (Inr (), s)
      else case write_fmt write_stdout args s of
             (Inl e, s) \<Rightarrow> (Inl e, s)
           | (Inr _, s) \<Rightarrow> (Inr (), write_stdout line_end s))"

definition print_err :: "('e, string) outcome \<Rightarrow> 'e printer" where
  "print_err args s = (if sh_output_mode s = QuietOutput then (Inr (), s) else write_fmt write_stderr args s)"

definition println_err :: "('e, string) outcome \<Rightarrow> 'e printer" where
  "println_err args s =
     (if sh_output_mode s = QuietOutput then (Inr (), s)
      else case write_fmt write_stderr args s of
             (Inl e, s) \<Rightarrow> (Inl e, s)
           | (Inr _, s) \<Rightarrow> (Inr (), write_stderr line_end s))"

definition should_color :: "bool \<Rightarrow> shell \<Rightarrow> bool" where
  "should_color is_terminal s = (case sh_color_choice s of
       AlwaysColor \<Rightarrow> True
     | NeverColor \<Rightarrow> False
     | AutoColor \<Rightarrow> is_terminal)"

text \<open>The styles of the two prefixes and the terminal, which \<open>anstyle\<close> and the system provide.\<close>

record terminal =
  tm_is_terminal :: bool
  tm_warn :: string
  tm_error :: string
  tm_reset :: string

definition shell_warn :: "terminal \<Rightarrow> ('e, string) outcome \<Rightarrow> 'e printer" where
  "shell_warn tm args s =
     (if sh_output_mode s = QuietOutput then (Inr (), s)
      else let s = write_stderr (if should_color (tm_is_terminal tm) s
                 then tm_warn tm @ ''Warning:'' @ tm_reset tm @ '' '' else ''Warning: '') s
           in case write_fmt write_stderr args s of
                (Inl e, s) \<Rightarrow> (Inl e, s)
              | (Inr _, s) \<Rightarrow> (Inr (), write_stderr line_end s))"

definition shell_error :: "terminal \<Rightarrow> ('e, string) outcome \<Rightarrow> 'e printer" where
  "shell_error tm args s =
     (let s = write_stderr (if should_color (tm_is_terminal tm) s
                then tm_error tm @ ''Error:'' @ tm_reset tm @ '' '' else ''Error: '') s
      in case write_fmt write_stderr args s of
           (Inl e, s) \<Rightarrow> (Inl e, s)
         | (Inr _, s) \<Rightarrow> (Inr (), write_stderr line_end s))"

text \<open>The macros take the lock of \<open>get_shell\<close>; a panic under the lock poisons it.\<close>

definition with_shell :: "'e printer \<Rightarrow> 'e printer" where
  "with_shell p s =
     (if sh_poisoned s then (Inl (Panic ''global shell mutex is poisoned''), s)
      else case p s of
             (Inl e, s) \<Rightarrow> (Inl e, s\<lparr>sh_poisoned := True\<rparr>)
           | (Inr u, s) \<Rightarrow> (Inr u, s))"

definition sh_print :: "('e, string) outcome \<Rightarrow> 'e printer" where
  "sh_print args = with_shell (print_out args)"

definition sh_println :: "('e, string) outcome \<Rightarrow> 'e printer" where
  "sh_println args = with_shell (println_out args)"

definition sh_eprint :: "('e, string) outcome \<Rightarrow> 'e printer" where
  "sh_eprint args = with_shell (print_err args)"

definition sh_eprintln :: "('e, string) outcome \<Rightarrow> 'e printer" where
  "sh_eprintln args = with_shell (println_err args)"

definition sh_warn :: "terminal \<Rightarrow> ('e, string) outcome \<Rightarrow> 'e printer" where
  "sh_warn tm args = with_shell (shell_warn tm args)"

definition sh_err :: "terminal \<Rightarrow> ('e, string) outcome \<Rightarrow> 'e printer" where
  "sh_err tm args = with_shell (shell_error tm args)"

definition and_print :: "'e printer \<Rightarrow> 'e printer \<Rightarrow> 'e printer" where
  "and_print p q s = (case p s of (Inl e, s) \<Rightarrow> (Inl e, s) | (Inr _, s) \<Rightarrow> q s)"

definition print_nothing :: "'e printer" where
  "print_nothing s = (Inr (), s)"

section \<open>The indenting writer\<close>

text \<open>
  The writer under it is the text written so far. The code walks over the characters of a text and the model over its
  bytes: only a line end is treated differently, and only the first call of \<open>do_indent\<close> in a line does anything.
\<close>

record indenting_writer =
  iw_writer :: string
  iw_indent :: nat
  iw_prefix :: "string list"
  iw_newline :: bool

definition TABULATION :: string where
  "TABULATION = ''   ''"

definition indenting_writer_new :: "string \<Rightarrow> string option \<Rightarrow> indenting_writer" where
  "indenting_writer_new w prefix =
     \<lparr>iw_writer = w, iw_indent = 0, iw_prefix = (case prefix of Some p \<Rightarrow> [p] | None \<Rightarrow> []), iw_newline = True\<rparr>"

definition push_prefix :: "string \<Rightarrow> indenting_writer \<Rightarrow> indenting_writer" where
  "push_prefix p w = w\<lparr>iw_prefix := iw_prefix w @ [p]\<rparr>"

definition pop_prefix :: "indenting_writer \<Rightarrow> indenting_writer" where
  "pop_prefix w = w\<lparr>iw_prefix := butlast (iw_prefix w)\<rparr>"

definition indent :: "indenting_writer \<Rightarrow> indenting_writer" where
  "indent w = w\<lparr>iw_indent := iw_indent w + 1\<rparr>"

definition dedent :: "indenting_writer \<Rightarrow> indenting_writer" where
  "dedent w = (if iw_indent w > 0 then w\<lparr>iw_indent := iw_indent w - 1\<rparr> else w)"

definition append_text :: "string \<Rightarrow> indenting_writer \<Rightarrow> indenting_writer" where
  "append_text t w = w\<lparr>iw_writer := iw_writer w @ t\<rparr>"

definition do_indent :: "indenting_writer \<Rightarrow> indenting_writer" where
  "do_indent w =
     (if iw_newline w
      then (let w = append_text (concat (replicate (iw_indent w) TABULATION)) w;
                w = append_text (if iw_prefix w = [] then [] else last (iw_prefix w)) w
            in w\<lparr>iw_newline := False\<rparr>)
      else w)"

text \<open>The loop at position \<open>i\<close> of \<open>s\<close>; \<open>[start, i)\<close> has been walked over and not yet written.\<close>

function write_str_from :: "string \<Rightarrow> nat \<Rightarrow> nat \<Rightarrow> indenting_writer \<Rightarrow> indenting_writer" where
  "write_str_from s start i w =
     (if i < length s
      then (let w = do_indent w
            in if s ! i = CHR 0x0A
               then write_str_from s (i + 1) (i + 1)
                 (append_text (take (i + 1 - start) (drop start s)) (w\<lparr>iw_newline := True\<rparr>))
               else if i + 1 = length s
               then write_str_from s start (i + 1) (append_text (drop start s) w)
               else write_str_from s start (i + 1) w)
      else w)"
  by pat_completeness auto
termination
  by (relation "measure (\<lambda>(s, start, i, w). length s - i)") auto

declare write_str_from.simps [simp del]

definition write_str :: "string \<Rightarrow> indenting_writer \<Rightarrow> indenting_writer" where
  "write_str s w = write_str_from s 0 0 w"

definition iw_writeln :: "string \<Rightarrow> indenting_writer \<Rightarrow> indenting_writer" where
  "iw_writeln s w = write_str line_end (write_str s w)"

section \<open>The formatter\<close>

datatype style = Bold | Dimmed | Underline | RedText | GreenText | BlueText | CyanText | MagentaText
  | BrightRed | BrightBlue | BrightGreen

type_synonym paint = "style list \<Rightarrow> string \<Rightarrow> string"

record formatter =
  fm_sibling_stack :: "bool list"

definition formatter_new :: formatter where
  "formatter_new = \<lparr>fm_sibling_stack = []\<rparr>"

text \<open>The branches of the tree in UTF-8.\<close>

definition utf8 :: "nat list \<Rightarrow> string" where
  "utf8 bs = map char_of bs"

definition bar :: string where
  "bar = utf8 [226, 148, 130] @ ''   ''"

definition corner :: string where
  "corner = utf8 [226, 148, 148, 226, 148, 128] @ '' ''"

definition tee :: string where
  "tee = utf8 [226, 148, 156, 226, 148, 128] @ '' ''"

definition build_prefix :: "bool list \<Rightarrow> bool \<Rightarrow> string" where
  "build_prefix sibling_stack is_last_sibling =
     (if sibling_stack = [] then []
      else concat (map (\<lambda>is_last. if \<not> is_last then bar else ''    '') sibling_stack)
        @ (if is_last_sibling then corner else tee))"

type_synonym 'e fprinter = "formatter \<times> shell \<Rightarrow> ('e, unit) outcome \<times> formatter \<times> shell"

definition fm_then :: "'e fprinter \<Rightarrow> 'e fprinter \<Rightarrow> 'e fprinter" where
  "fm_then p q st = (case p st of (Inl e, st) \<Rightarrow> (Inl e, st) | (Inr _, st) \<Rightarrow> q st)"

definition fm_done :: "'e fprinter" where
  "fm_done st = (Inr (), st)"

text \<open>A value that is computed on the way and may panic.\<close>

definition fm_bind :: "('e, 'a) outcome \<Rightarrow> ('a \<Rightarrow> 'e fprinter) \<Rightarrow> 'e fprinter" where
  "fm_bind r f st = (case r of Inl e \<Rightarrow> (Inl e, st) | Inr a \<Rightarrow> f a st)"

definition enter_scope :: "bool \<Rightarrow> formatter \<Rightarrow> formatter" where
  "enter_scope has_more_siblings f = f\<lparr>fm_sibling_stack := fm_sibling_stack f @ [has_more_siblings]\<rparr>"

definition exit_scope :: "formatter \<Rightarrow> formatter" where
  "exit_scope f = f\<lparr>fm_sibling_stack := butlast (fm_sibling_stack f)\<rparr>"

definition format_log :: "bool \<Rightarrow> string \<Rightarrow> 'e fprinter" where
  "format_log is_last_sibling message = (\<lambda>(f, s).
     let (r, s) = sh_println (Inr (build_prefix (fm_sibling_stack f) is_last_sibling @ message)) s in (r, f, s))"

definition format_error :: "paint \<Rightarrow> bool \<Rightarrow> string \<Rightarrow> 'e fprinter" where
  "format_error paint is_last_sibling message = (\<lambda>(f, s).
     let (r, s) = sh_println
           (Inr (paint [RedText] (build_prefix (fm_sibling_stack f) is_last_sibling @ message))) s
     in (r, f, s))"

definition fm_section :: "string \<Rightarrow> bool \<Rightarrow> 'e fprinter \<Rightarrow> 'e fprinter" where
  "fm_section title is_last_sibling body =
     fm_then (format_log is_last_sibling title)
     (fm_then (\<lambda>(f, s). (Inr (), enter_scope is_last_sibling f, s))
     (fm_then body (\<lambda>(f, s). (Inr (), exit_scope f, s))))"

definition fm_item :: "paint \<Rightarrow> bool \<Rightarrow> string \<Rightarrow> string \<Rightarrow> 'e fprinter" where
  "fm_item paint is_last_sibling key v =
     format_log is_last_sibling (paint [Bold] key @ '': '' @ paint [Dimmed] v)"

section \<open>Lemmas: a poisoned shell\<close>

text \<open>Printing keeps the mode and the verbosity, and a lock that is poisoned stays so.\<close>

lemmas printing_defs = sh_print_def sh_println_def sh_eprint_def sh_eprintln_def sh_warn_def sh_err_def with_shell_def
  print_out_def println_out_def print_err_def println_err_def shell_warn_def shell_error_def write_stdout_def write_stderr_def

lemma write_fmt_cases:
  "write_fmt stream args s = (case args of Inl e \<Rightarrow> (Inl e, s) | Inr t \<Rightarrow> (Inr (), stream t s))"
  by (cases args) simp_all

lemma sh_println_text:
  "\<not> sh_poisoned s \<Longrightarrow> sh_println (Inr t) s =
     (Inr (), if sh_output_mode s = QuietOutput then s else s\<lparr>sh_stdout := sh_stdout s @ t @ line_end\<rparr>)"
  by (simp add: printing_defs)

lemma sh_println_panic:
  "\<not> sh_poisoned s \<Longrightarrow> sh_output_mode s \<noteq> QuietOutput \<Longrightarrow> sh_println (Inl e) s = (Inl e, s\<lparr>sh_poisoned := True\<rparr>)"
  by (simp add: printing_defs)

lemma poisoned_printing:
  assumes "sh_poisoned s"
  shows "sh_print args s = (Inl (Panic ''global shell mutex is poisoned''), s)"
    "sh_println args s = (Inl (Panic ''global shell mutex is poisoned''), s)"
    "sh_eprint args s = (Inl (Panic ''global shell mutex is poisoned''), s)"
    "sh_eprintln args s = (Inl (Panic ''global shell mutex is poisoned''), s)"
    "sh_warn tm args s = (Inl (Panic ''global shell mutex is poisoned''), s)"
    "sh_err tm args s = (Inl (Panic ''global shell mutex is poisoned''), s)"
  using assms by (simp_all add: printing_defs)

section \<open>Lemmas: the indenting writer\<close>

text \<open>The reference: the margin goes before the first byte of every line.\<close>

fun indented :: "string \<Rightarrow> bool \<Rightarrow> string \<Rightarrow> string" where
  "indented margin at_start [] = []"
| "indented margin at_start (c # cs) = (if at_start then margin else []) @ c # indented margin (c = CHR 0x0A) cs"

definition margin :: "indenting_writer \<Rightarrow> string" where
  "margin w = concat (replicate (iw_indent w) TABULATION) @ (if iw_prefix w = [] then [] else last (iw_prefix w))"

definition at_line_start :: "bool \<Rightarrow> string \<Rightarrow> bool" where
  "at_line_start before s = (if s = [] then before else last s = CHR 0x0A)"

lemma do_indent_eq:
  "do_indent w = w\<lparr>iw_writer := iw_writer w @ (if iw_newline w then margin w else []), iw_newline := False\<rparr>"
  by (simp add: do_indent_def append_text_def margin_def Let_def)

lemma margin_update [simp]: "margin (w\<lparr>iw_writer := t\<rparr>) = margin w" "margin (w\<lparr>iw_newline := b\<rparr>) = margin w"
  by (simp_all add: margin_def)

lemma indented_append: "indented m b (s @ t) = indented m b s @ indented m (at_line_start b s) t"
  by (induction s arbitrary: b) (auto simp: at_line_start_def)

lemma write_str_from_eq:
  assumes "start \<le> i" "i < length s" "start < i \<longrightarrow> \<not> iw_newline w"
  shows "write_str_from s start i w = w\<lparr>iw_writer := iw_writer w @ (if iw_newline w then margin w else [])
      @ take (i - start) (drop start s) @ indented (margin w) False (drop i s),
    iw_newline := last s = CHR 0x0A\<rparr>"
  using assms
proof (induction s start i w rule: write_str_from.induct)
  case (1 s start i w)
  let ?w = "do_indent w" and ?wn = "append_text (take (i + 1 - start) (drop start s)) ((do_indent w)\<lparr>iw_newline := True\<rparr>)"
  have drop: "drop i s = s ! i # drop (i + 1) s" using 1(5) by (simp add: Cons_nth_drop_Suc)
  have split: "take (i + 1 - start) (drop start s) = take (i - start) (drop start s) @ [s ! i]"
    using 1(4,5) take_Suc_conv_app_nth [of "i - start" "drop start s"] by (simp add: Suc_diff_le)
  note step = write_str_from.simps [of s start i w]
  show ?case
  proof (cases "s ! i = CHR 0x0A")
    case newline: True
    show ?thesis
    proof (cases "i + 1 < length s")
      case True
      from 1(1) [OF 1(5) refl newline _ True]
      show ?thesis using 1(5) newline True drop split step
        by (cases "drop (i + 1) s") (auto simp: do_indent_eq append_text_def Let_def)
    next
      case False
      then have "i + 1 = length s" using 1(5) by simp
      moreover from this have "last s = s ! i" by (metis add_diff_cancel_right' last_conv_nth list.size(3) Zero_not_Suc Suc_eq_plus1)
      ultimately show ?thesis using newline drop split step write_str_from.simps [of s "i + 1" "i + 1"]
        by (simp add: do_indent_eq append_text_def Let_def)
    qed
  next
    case other: False
    show ?thesis
    proof (cases "i + 1 = length s")
      case True
      then have "last s = s ! i" by (metis add_diff_cancel_right' last_conv_nth list.size(3) Zero_not_Suc Suc_eq_plus1)
      moreover have "drop start s = take (i - start) (drop start s) @ [s ! i]"
        using split True by simp
      ultimately show ?thesis using True other drop step write_str_from.simps [of s start "i + 1"]
        by (simp add: do_indent_eq append_text_def Let_def)
    next
      case False
      then have "i + 1 < length s" using 1(5) by simp
      from 1(3) [OF 1(5) refl other False _ this]
      show ?thesis using 1(4,5) other False drop split step
        by (simp add: do_indent_eq append_text_def Let_def)
    qed
  qed
qed

theorem write_str_eq:
  "write_str s w = w\<lparr>iw_writer := iw_writer w @ indented (margin w) (iw_newline w) s,
     iw_newline := at_line_start (iw_newline w) s\<rparr>"
proof (cases s)
  case Nil
  then show ?thesis by (simp add: write_str_def write_str_from.simps at_line_start_def)
next
  case (Cons c cs)
  then show ?thesis using write_str_from_eq [of 0 0 s w] by (simp add: write_str_def at_line_start_def)
qed

text \<open>How a text is cut into calls of \<open>write_str\<close> does not matter.\<close>

lemma write_str_append: "write_str (s @ t) w = write_str t (write_str s w)"
  by (simp add: write_str_eq indented_append at_line_start_def)

definition unlines :: "string list \<Rightarrow> string" where
  "unlines ls = concat (map (\<lambda>l. l @ line_end) ls)"

lemma indented_line: "CHR 0x0A \<notin> set l \<Longrightarrow> indented m b (l @ line_end @ t) =
    (if b then m else []) @ l @ line_end @ indented m True t"
  by (induction l arbitrary: b) (auto simp: line_end_def)

lemma indented_lines:
  "\<forall>l \<in> set ls. CHR 0x0A \<notin> set l \<Longrightarrow> indented m True (unlines ls) = unlines (map (\<lambda>l. m @ l) ls)"
  by (induction ls) (simp_all add: unlines_def indented_line)

section \<open>Lemmas: the formatter prints trees\<close>

text \<open>The reference: a tree of lines in which the last of several siblings gets the corner.\<close>

datatype log_tree = LogLine string | LogError string | LogSection string "log_tree list"

fun tree_lines :: "paint \<Rightarrow> bool list \<Rightarrow> bool \<Rightarrow> log_tree \<Rightarrow> string list"
  and forest_lines :: "paint \<Rightarrow> bool list \<Rightarrow> log_tree list \<Rightarrow> string list" where
  "tree_lines paint stack is_last (LogLine m) = [build_prefix stack is_last @ m]"
| "tree_lines paint stack is_last (LogError m) = [paint [RedText] (build_prefix stack is_last @ m)]"
| "tree_lines paint stack is_last (LogSection m ts) =
     (build_prefix stack is_last @ m) # forest_lines paint (stack @ [is_last]) ts"
| "forest_lines paint stack [] = []"
| "forest_lines paint stack (t # ts) = tree_lines paint stack (ts = []) t @ forest_lines paint stack ts"

definition say :: "string list \<Rightarrow> shell \<Rightarrow> shell" where
  "say ls s = (if sh_output_mode s = QuietOutput then s else s\<lparr>sh_stdout := sh_stdout s @ unlines ls\<rparr>)"

text \<open>A printer that prints these lines for every stack, and leaves the stack as it was.\<close>

definition prints :: "(bool list \<Rightarrow> string list) \<Rightarrow> 'e fprinter \<Rightarrow> bool" where
  "prints ls p \<longleftrightarrow> (\<forall>f s. \<not> sh_poisoned s \<longrightarrow> p (f, s) = (Inr (), f, say (ls (fm_sibling_stack f)) s))"

lemma say_say: "say ls' (say ls s) = say (ls @ ls') s"
  by (simp add: say_def unlines_def)

lemma say_fields [simp]: "sh_poisoned (say ls s) = sh_poisoned s" "say [] s = s"
    "sh_output_mode (say ls s) = sh_output_mode s" "sh_verbosity (say ls s) = sh_verbosity s"
  by (simp_all add: say_def unlines_def)

lemma prints_log: "prints (\<lambda>st. [build_prefix st b @ m]) (format_log b m)"
  by (auto simp: prints_def format_log_def sh_println_text say_def unlines_def)

lemma prints_error: "prints (\<lambda>st. [paint [RedText] (build_prefix st b @ m)]) (format_error paint b m)"
  by (auto simp: prints_def format_error_def sh_println_text say_def unlines_def)

lemma prints_done: "prints (\<lambda>st. []) fm_done"
  by (simp add: prints_def fm_done_def)

lemma prints_then: "prints ls p \<Longrightarrow> prints ls' q \<Longrightarrow> prints (\<lambda>st. ls st @ ls' st) (fm_then p q)"
  by (simp add: prints_def fm_then_def say_say)

lemma prints_section:
  assumes "prints ls p"
  shows "prints (\<lambda>st. (build_prefix st b @ m) # ls (st @ [b])) (fm_section m b p)"
  unfolding prints_def
proof (intro allI impI)
  fix f and s :: shell
  assume s: "\<not> sh_poisoned s"
  have "fm_section m b p (f, s) = (Inr (), f, say (ls (fm_sibling_stack f @ [b])) (say [build_prefix (fm_sibling_stack f) b @ m] s))"
    using assms s prints_log [of b m, where 'a = 'a]
    by (simp add: fm_section_def fm_then_def prints_def enter_scope_def exit_scope_def)
  then show "fm_section m b p (f, s) = (Inr (), f, say ((build_prefix (fm_sibling_stack f) b @ m)
      # ls (fm_sibling_stack f @ [b])) s)"
    by (simp add: say_say)
qed

end
