(* ===== verification/Call_Traces.thy ===== *)
theory Call_Traces
  imports Trace_Values
begin

text \<open>
  Call traces: the arena of \<open>crates/types/src/traces.rs\<close>, its construction and filtering in
  \<open>crates/traces/src/lib.rs\<close>, the address map of \<open>crates/common/src/address_map.rs\<close> and the writer of
  \<open>crates/traces/src/writer.rs\<close>.

  An arena is a list of nodes that refer to each other by index. Its readers follow these indices, which could
  form a cycle; they take fuel and return \<open>Err OutOfFuel\<close> when it is used up. The specification is a
  tree: building an arena lays out the trees of the calls in preorder, filtering prunes them and writing prints them.
\<close>

section \<open>Known addresses\<close>

datatype contract_type = System | Precompile | Popular | Unknown

record known_address =
  ka_name :: string
  ka_contract_type :: contract_type

type_synonym known_addresses = "address \<rightharpoonup> known_address"

definition is_precompile :: "known_addresses \<Rightarrow> address \<Rightarrow> bool" where
  "is_precompile known a = (case known a of Some k \<Rightarrow> ka_contract_type k = Precompile | None \<Rightarrow> False)"

definition is_system :: "known_addresses \<Rightarrow> address \<Rightarrow> bool" where
  "is_system known a = (case known a of Some k \<Rightarrow> ka_contract_type k = System | None \<Rightarrow> False)"

section \<open>The arena\<close>

datatype l2_l1_log = UserLog user_l2_to_l1_log | SystemLog user_l2_to_l1_log

record call_log =
  cl_raw_log :: vm_event
  cl_decoded :: decoded_call_event
  cl_position :: u64

record l2_l1_logs =
  ll_raw_log :: l2_l1_log
  ll_position :: u64

definition with_position :: "u64 \<Rightarrow> call_log \<Rightarrow> call_log" where
  "with_position position l = l\<lparr>cl_position := position\<rparr>"

datatype trace_result =
    TrSuccess bytes
  | TrRevert string
  | TrHalt halt_reason

fun trace_failed :: "trace_result \<Rightarrow> bool" where
  "trace_failed (TrSuccess _) = False"
| "trace_failed _ = True"

definition trace_result_from :: "text_api \<Rightarrow> execution_result \<Rightarrow> trace_result" where
  "trace_result_from tx r = (case r of
       Success out \<Rightarrow> TrSuccess out
     | Revert out \<Rightarrow> TrRevert (tx_user_friendly tx out)
     | Halt reason \<Rightarrow> TrHalt (VmHalt reason))"

definition trace_result_display :: "text_api \<Rightarrow> trace_result \<Rightarrow> string" where
  "trace_result_display tx r = (case r of
       TrSuccess _ \<Rightarrow> ''Success''
     | TrRevert out \<Rightarrow> ''Revert: '' @ out
     | TrHalt reason \<Rightarrow> ''Halt: '' @ tx_halt_debug tx reason)"

record call_trace =
  ct_success :: bool
  ct_caller :: address
  ct_address :: address
  ct_execution_result :: trace_result
  ct_decoded :: decoded_call_trace
  ct_call :: call

datatype trace_member_order = OrderLog nat | OrderCall nat | OrderL1L2Log nat

record call_trace_node =
  tn_parent :: "nat option"
  tn_children :: "nat list"
  tn_idx :: nat
  tn_trace :: call_trace
  tn_logs :: "call_log list"
  tn_l2_l1_logs :: "l2_l1_logs list"
  tn_ordering :: "trace_member_order list"

type_synonym call_trace_arena = "call_trace_node list"

definition call_default :: call where
  "call_default = Call (CallTypeCall FarCallNormal) 0 0 0 0 0 [] [] None None []"

definition call_trace_node_default :: call_trace_node where
  "call_trace_node_default = \<lparr>tn_parent = None, tn_children = [], tn_idx = 0,
     tn_trace = \<lparr>ct_success = True, ct_caller = 0, ct_address = 0, ct_execution_result = TrSuccess [],
       ct_decoded = decoded_call_trace_default, ct_call = call_default\<rparr>,
     tn_logs = [], tn_l2_l1_logs = [], tn_ordering = []\<rparr>"

definition arena_default :: call_trace_arena where
  "arena_default = [call_trace_node_default]"

definition update_node :: "nat \<Rightarrow> (call_trace_node \<Rightarrow> call_trace_node) \<Rightarrow> call_trace_arena \<Rightarrow> ('e, call_trace_arena) outcome" where
  "update_node i f arena =
     (if i < length arena then Inr (arena[i := f (arena ! i)]) else Inl (Panic ''index out of bounds''))"

definition node_at :: "call_trace_arena \<Rightarrow> nat \<Rightarrow> ('e, call_trace_node) outcome" where
  "node_at arena i = (if i < length arena then Inr (arena ! i) else Inl (Panic ''index out of bounds''))"

definition push_child :: "nat \<Rightarrow> call_trace_node \<Rightarrow> call_trace_node" where
  "push_child idx n = n\<lparr>tn_children := tn_children n @ [idx],
     tn_ordering := tn_ordering n @ [OrderCall (length (tn_children n))]\<rparr>"

definition add_node ::
  "nat option \<Rightarrow> call_trace_node \<Rightarrow> call_trace_arena \<Rightarrow> ('e, nat \<times> call_trace_arena) outcome" where
  "add_node parent node arena =
     (let idx = length arena;
          node = node\<lparr>tn_idx := idx, tn_parent := parent, tn_ordering := map OrderLog [0..<length (tn_logs node)]\<rparr>;
          arena = arena @ [node]
      in case parent of
           None \<Rightarrow> Inr (idx, arena)
         | Some parent_idx \<Rightarrow> and_then (update_node parent_idx (push_child idx) arena) (\<lambda>arena. Inr (idx, arena)))"

definition arena_clear :: call_trace_arena where
  "arena_clear = [call_trace_node_default]"

definition filter_out_precompiles :: "known_addresses \<Rightarrow> call_trace_arena \<Rightarrow> call_trace_arena" where
  "filter_out_precompiles known arena = filter (\<lambda>n. \<not> is_precompile known (ct_address (tn_trace n))) arena"

definition filter_out_system_contracts :: "known_addresses \<Rightarrow> call_trace_arena \<Rightarrow> call_trace_arena" where
  "filter_out_system_contracts known arena = filter (\<lambda>n. \<not> is_system known (ct_address (tn_trace n))) arena"

section \<open>Building\<close>

definition convert_call_to_call_trace :: "known_addresses \<Rightarrow> call \<Rightarrow> call_trace" where
  "convert_call_to_call_trace known call =
     (let execution_result =
            (case ca_revert_reason call of
               Some reason \<Rightarrow> TrRevert reason
             | None \<Rightarrow> (case ca_error call of
                   Some err \<Rightarrow> TrHalt (TracerCustom err)
                 | None \<Rightarrow> TrSuccess (ca_output call)))
      in \<lparr>ct_success = \<not> trace_failed execution_result, ct_caller = ca_from call, ct_address = ca_to call,
          ct_execution_result = execution_result,
          ct_decoded = decoded_call_trace_default\<lparr>dt_label := map_option ka_name (known (ca_to call))\<rparr>,
          ct_call = call\<rparr>)"

definition logs_for_call :: "vm_result \<Rightarrow> call \<Rightarrow> call_log list" where
  "logs_for_call r call =
     map (\<lambda>(i, e). \<lparr>cl_raw_log = e, cl_decoded = decoded_call_event_default, cl_position = of_nat i\<rparr>)
       (filter (\<lambda>(i, e). ev_address e = ca_to call) (enumerate 0 (vr_events r)))"

definition l2_l1_logs_for_call :: "vm_result \<Rightarrow> call \<Rightarrow> l2_l1_logs list" where
  "l2_l1_logs_for_call r call =
     map (\<lambda>l. \<lparr>ll_raw_log = UserLog l, ll_position = ucast (ul_tx_number_in_block l)\<rparr>)
       (filter (\<lambda>l. ul_sender l = ca_to call) (vr_user_l2_to_l1_logs r))
     @ map (\<lambda>l. \<lparr>ll_raw_log = SystemLog l, ll_position = ucast (ul_tx_number_in_block l)\<rparr>)
       (filter (\<lambda>l. ul_sender l = ca_to call) (vr_system_l2_to_l1_logs r))"

definition node_for_call :: "known_addresses \<Rightarrow> vm_result \<Rightarrow> call \<Rightarrow> call_trace_node" where
  "node_for_call known r call = \<lparr>tn_parent = None, tn_children = [], tn_idx = 0,
     tn_trace = convert_call_to_call_trace known call, tn_logs = logs_for_call r call,
     tn_l2_l1_logs = l2_l1_logs_for_call r call, tn_ordering = []\<rparr>"

fun process_call_and_subcalls ::
  "known_addresses \<Rightarrow> vm_result \<Rightarrow> call \<Rightarrow> nat \<Rightarrow> call_trace_arena \<Rightarrow> ('e, call_trace_arena) outcome"
  and process_calls ::
  "known_addresses \<Rightarrow> vm_result \<Rightarrow> call list \<Rightarrow> nat \<Rightarrow> call_trace_arena \<Rightarrow> ('e, call_trace_arena) outcome" where
  "process_call_and_subcalls known r (Call ty from to gas gas_used v out inp err reason calls) parent_idx arena =
     and_then (add_node (Some parent_idx)
         (node_for_call known r (Call ty from to gas gas_used v out inp err reason calls)) arena)
       (\<lambda>(new_parent_idx, arena). process_calls known r calls new_parent_idx arena)"
| "process_calls known r [] parent_idx arena = Inr arena"
| "process_calls known r (c # cs) parent_idx arena =
     and_then (process_call_and_subcalls known r c parent_idx arena) (process_calls known r cs parent_idx)"

definition build_call_trace_arena ::
  "text_api \<Rightarrow> known_addresses \<Rightarrow> call list \<Rightarrow> vm_result \<Rightarrow> ('e, call_trace_arena) outcome" where
  "build_call_trace_arena tx known calls r =
     (let arena = arena_default;
          root = hd arena;
          root = root\<lparr>tn_trace := (tn_trace root)\<lparr>ct_execution_result := trace_result_from tx (vr_result r)\<rparr>\<rparr>
      in process_calls known r calls 0 (arena[0 := root]))"

section \<open>Filtering\<close>

datatype out_of_fuel = OutOfFuel

definition should_include_call :: "known_addresses \<Rightarrow> address \<Rightarrow> u8 \<Rightarrow> bool" where
  "should_include_call known a verbosity =
     (if verbosity = 0 \<or> verbosity = 1 then False
      else if verbosity = 2 then \<not> (is_system known a \<or> is_precompile known a)
      else if verbosity = 3 then \<not> is_precompile known a
      else True)"

definition retain_l2_l1_log :: "u8 \<Rightarrow> l2_l1_logs \<Rightarrow> bool" where
  "retain_l2_l1_log verbosity l = (case ll_raw_log l of UserLog _ \<Rightarrow> verbosity \<ge> 2 | SystemLog _ \<Rightarrow> verbosity \<ge> 3)"

definition filtered_copy :: "nat option \<Rightarrow> nat \<Rightarrow> u8 \<Rightarrow> call_trace_node \<Rightarrow> call_trace_node" where
  "filtered_copy parent idx verbosity n = n\<lparr>tn_idx := idx, tn_parent := parent, tn_children := [], tn_ordering := [],
     tn_l2_l1_logs := filter (retain_l2_l1_log verbosity) (tn_l2_l1_logs n)\<rparr>"

definition link_child :: "nat option \<Rightarrow> nat \<Rightarrow> call_trace_arena \<Rightarrow> ('e, call_trace_arena) outcome" where
  "link_child parent idx arena = (case parent of
       None \<Rightarrow> Inr arena
     | Some p \<Rightarrow> update_node p (\<lambda>n. n\<lparr>tn_children := tn_children n @ [idx]\<rparr>) arena)"

fun filter_children ::
  "nat \<Rightarrow> known_addresses \<Rightarrow> u8 \<Rightarrow> call_trace_arena \<Rightarrow> nat list \<Rightarrow> nat option \<Rightarrow> call_trace_arena
     \<Rightarrow> (out_of_fuel, call_trace_arena) outcome" where
  "filter_children 0 known verbosity orig cs parent_idx filtered = Inl (Err OutOfFuel)"
| "filter_children (Suc n) known verbosity orig [] parent_idx filtered = Inr filtered"
| "filter_children (Suc n) known verbosity orig (child_idx # cs) parent_idx filtered =
     and_then (node_at orig child_idx) (\<lambda>child.
     and_then
       (if should_include_call known (ct_address (tn_trace child)) verbosity
        then (let new_idx = length filtered
              in and_then (link_child parent_idx new_idx (filtered @ [filtered_copy parent_idx new_idx verbosity child]))
                   (filter_children n known verbosity orig (tn_children child) (Some new_idx)))
        else filter_children n known verbosity orig (tn_children child) parent_idx filtered)
       (filter_children n known verbosity orig cs parent_idx))"

definition filter_node_recursively ::
  "nat \<Rightarrow> known_addresses \<Rightarrow> u8 \<Rightarrow> call_trace_node \<Rightarrow> call_trace_arena \<Rightarrow> call_trace_arena \<Rightarrow> nat option
     \<Rightarrow> (out_of_fuel, call_trace_arena) outcome" where
  "filter_node_recursively fuel known verbosity orig_node orig filtered parent_idx =
     filter_children fuel known verbosity orig (tn_children orig_node) parent_idx filtered"

definition rebuild_ordering :: "call_trace_node \<Rightarrow> call_trace_node" where
  "rebuild_ordering n = n\<lparr>tn_ordering := map OrderLog [0..<length (tn_logs n)]
     @ map OrderL1L2Log [0..<length (tn_l2_l1_logs n)] @ map OrderCall [0..<length (tn_children n)]\<rparr>"

definition filter_call_trace_arena ::
  "nat \<Rightarrow> known_addresses \<Rightarrow> call_trace_arena \<Rightarrow> u8 \<Rightarrow> (out_of_fuel, call_trace_arena) outcome" where
  "filter_call_trace_arena fuel known arena verbosity =
     (let filtered = arena_default
      in if arena = [] then Inr filtered
         else let root = arena ! 0;
                  root_copy = root\<lparr>tn_parent := None, tn_idx := 0, tn_children := [], tn_ordering := []\<rparr>
              in and_then (filter_node_recursively fuel known verbosity root arena (filtered @ [root_copy]) (Some 0))
                   (\<lambda>filtered. Inr (map rebuild_ordering filtered)))"

section \<open>Writing\<close>

record trace_writer_config =
  wc_use_colors :: bool
  wc_write_bytecodes :: bool

record trace_writer =
  tw_writer :: string
  tw_indentation_level :: u16
  tw_config :: trace_writer_config

datatype color_choice = ColorAuto | AlwaysAnsi | ColorAlways | ColorNever

definition use_colors :: "bool \<Rightarrow> color_choice \<Rightarrow> bool" where
  "use_colors is_terminal choice = (case choice of
       ColorAuto \<Rightarrow> is_terminal
     | AlwaysAnsi \<Rightarrow> True
     | ColorAlways \<Rightarrow> True
     | ColorNever \<Rightarrow> False)"

definition writer_config_new :: "bool \<Rightarrow> trace_writer_config" where
  "writer_config_new is_terminal = \<lparr>wc_use_colors = use_colors is_terminal ColorAuto, wc_write_bytecodes = False\<rparr>"

definition writer_with_config :: "string \<Rightarrow> trace_writer_config \<Rightarrow> trace_writer" where
  "writer_with_config writer config = \<lparr>tw_writer = writer, tw_indentation_level = 0, tw_config = config\<rparr>"

definition with_bytecodes :: "bool \<Rightarrow> trace_writer \<Rightarrow> trace_writer" where
  "with_bytecodes yes w = w\<lparr>tw_config := (tw_config w)\<lparr>wc_write_bytecodes := yes\<rparr>\<rparr>"

definition with_color_choice :: "bool \<Rightarrow> color_choice \<Rightarrow> trace_writer \<Rightarrow> trace_writer" where
  "with_color_choice is_terminal choice w = w\<lparr>tw_config := (tw_config w)\<lparr>wc_use_colors := use_colors is_terminal choice\<rparr>\<rparr>"

definition with_indentation_level :: "u16 \<Rightarrow> trace_writer \<Rightarrow> trace_writer" where
  "with_indentation_level level w = w\<lparr>tw_indentation_level := level\<rparr>"

definition box_char :: "nat \<Rightarrow> string" where
  "box_char c = [char_of (226 :: nat), char_of (148 :: nat), char_of c]"

definition PIPE :: string where
  "PIPE = ''  '' @ box_char 130 @ '' ''"

definition EDGE :: string where
  "EDGE = ''  '' @ box_char 148 @ box_char 128 @ '' ''"

definition BRANCH :: string where
  "BRANCH = ''  '' @ box_char 156 @ box_char 128 @ '' ''"

definition CALL :: string where
  "CALL = [char_of (226 :: nat), char_of (134 :: nat), char_of (146 :: nat)] @ '' ''"

definition RETURN :: string where
  "RETURN = [char_of (226 :: nat), char_of (134 :: nat), char_of (144 :: nat)] @ '' ''"

text \<open>A style renders as its escape sequence before the text and the reset after it; the default style as nothing.\<close>

definition styled :: "text_api \<Rightarrow> trace_writer_config \<Rightarrow> ansi_color \<Rightarrow> string \<Rightarrow> string" where
  "styled tx cfg color s = (if wc_use_colors cfg then tx_style_on tx color @ s @ tx_style_off tx color else s)"

definition trace_style :: "text_api \<Rightarrow> trace_writer_config \<Rightarrow> call_trace \<Rightarrow> string \<Rightarrow> string" where
  "trace_style tx cfg trace = styled tx cfg (if ct_success trace then Green else Red)"

definition trace_kind_style :: "text_api \<Rightarrow> trace_writer_config \<Rightarrow> string \<Rightarrow> string" where
  "trace_kind_style tx cfg = styled tx cfg Yellow"

definition log_style :: "text_api \<Rightarrow> trace_writer_config \<Rightarrow> string \<Rightarrow> string" where
  "log_style tx cfg = styled tx cfg Cyan"

definition indentation :: "u16 \<Rightarrow> string" where
  "indentation level = ''  '' @ concat (replicate (unat level - 1) PIPE)"

definition branch :: "u16 \<Rightarrow> string" where
  "branch level = indentation level @ (if level = 0 then [] else BRANCH)"

definition pipes :: "u16 \<Rightarrow> string" where
  "pipes level = indentation level @ PIPE"

definition edge :: "u16 \<Rightarrow> string" where
  "edge level = indentation level @ EDGE"

definition newline :: string where
  "newline = [CHR 0x0A]"

text \<open>\<open>signature.split('(').next()\<close>: the text before the first parenthesis.\<close>

definition called_function :: "text_api \<Rightarrow> call_trace \<Rightarrow> ('e, string \<times> string) outcome" where
  "called_function tx trace = (case dt_call_data (ct_decoded trace) of
       Some data \<Rightarrow> and_then (pretty_decoded_values_fmt tx (dc_args data)) (\<lambda>args.
         Inr (takeWhile (\<lambda>c. c \<noteq> CHR ''('') (dc_signature data), joined '', '' args))
     | None \<Rightarrow> (let input = ca_input (ct_call trace) in
         Inr (if length input < 4 then (''fallback'', hex_encode input)
              else (hex_encode (take 4 input), hex_encode (drop 4 input)))))"

definition call_action :: "call_type \<Rightarrow> string option" where
  "call_action ty = (case ty of
       CallTypeCall opcode \<Rightarrow> (case opcode of
           FarCallNormal \<Rightarrow> None
         | FarCallDelegate \<Rightarrow> Some '' [delegatecall]''
         | FarCallMimic \<Rightarrow> Some '' [mimiccall]'')
     | CallTypeNearCall \<Rightarrow> Some ''[nearcall]''
     | CallTypeCreate \<Rightarrow> None)"

definition write_trace_header :: "text_api \<Rightarrow> trace_writer_config \<Rightarrow> call_trace \<Rightarrow> ('e, string) outcome" where
  "write_trace_header tx cfg trace =
     (let call = ct_call trace;
          gas = ''['' @ decimal (unat (ca_gas_used call)) @ ''] '';
          addr = ''0x'' @ address_hex (ca_to call)
      in if ca_type call = CallTypeCreate
         then Inr (gas @ trace_kind_style tx cfg (CALL @ ''new'') @ '' ''
                @ case_option ''<unknown>'' id (dt_label (ct_decoded trace)) @ ''@'' @ addr
                @ (if wc_write_bytecodes cfg then ''('' @ hex_encode (ca_input call) @ '')'' else []))
         else and_then (called_function tx trace) (\<lambda>(func_name, inputs).
           Inr (gas @ trace_style tx cfg trace (case_option addr id (dt_label (ct_decoded trace))) @ ''::''
             @ trace_style tx cfg trace func_name
             @ (if ca_value call = 0 then [] else ''{value: '' @ decimal (unat (ca_value call)) @ ''}'')
             @ ''('' @ inputs @ '')''
             @ (case call_action (ca_type call) of None \<Rightarrow> [] | Some action \<Rightarrow> trace_kind_style tx cfg action))))"

definition write_l1_l2_log :: "text_api \<Rightarrow> trace_writer_config \<Rightarrow> u16 \<Rightarrow> l2_l1_logs \<Rightarrow> string" where
  "write_l1_l2_log tx cfg level l =
     (let (log_type, l2_log) = (case ll_raw_log l of
            UserLog u \<Rightarrow> (''UserL2L1Log'', u)
          | SystemLog s \<Rightarrow> (''SystemL2L1Log'', s))
      in branch level @ log_type @ ''(''
        @ log_style tx cfg (''key: '' @ tx_h256_debug tx (ul_key l2_log) @ '', value: '' @ tx_h256_debug tx (ul_value l2_log))
        @ '')'' @ newline)"

fun write_topics :: "text_api \<Rightarrow> trace_writer_config \<Rightarrow> u16 \<Rightarrow> nat \<Rightarrow> h256 list \<Rightarrow> string" where
  "write_topics tx cfg level i [] = []"
| "write_topics tx cfg level i (topic # ts) =
     (if i = 0 then '' emit topic 0'' else pipes level @ ''       topic '' @ decimal i)
       @ '': '' @ log_style tx cfg (tx_h256_display tx topic) @ newline @ write_topics tx cfg level (Suc i) ts"

definition write_params :: "text_api \<Rightarrow> (string \<times> decoded_value) list \<Rightarrow> ('e, string) outcome" where
  "write_params tx params =
     and_then (decoded_values_fmt tx (map snd params)) (\<lambda>ss.
       Inr (joined '', '' (map (\<lambda>(p, s). p @ '': '' @ s) (zip (map fst params) ss))))"

definition write_log :: "text_api \<Rightarrow> trace_writer_config \<Rightarrow> u16 \<Rightarrow> call_log \<Rightarrow> ('e, string) outcome" where
  "write_log tx cfg level l = (case de_name (cl_decoded l) of
       Some name \<Rightarrow> and_then (case_option (Inr []) (write_params tx) (de_params (cl_decoded l))) (\<lambda>ps.
         Inr (branch level @ ''emit '' @ name @ ''('' @ log_style tx cfg ps @ '')'' @ newline))
     | None \<Rightarrow> (let topics = ev_indexed_topics (cl_raw_log l) in
         Inr (branch level @ write_topics tx cfg level 0 topics @ (if topics = [] then [] else pipes level)
           @ ''          data: '' @ log_style tx cfg (hex_encode (ev_value (cl_raw_log l))) @ newline)))"

definition write_trace_footer :: "text_api \<Rightarrow> trace_writer_config \<Rightarrow> call_trace \<Rightarrow> ('e, string) outcome" where
  "write_trace_footer tx cfg trace =
     and_then (decoded_return_data_fmt tx (dt_return_data (ct_decoded trace))) (\<lambda>decoded_return_data.
       let out = ca_output (ct_call trace) in
       Inr (trace_style tx cfg trace (RETURN @ ''['' @ trace_result_display tx (ct_execution_result trace) @ '']'')
         @ (if decoded_return_data \<noteq> [] then '' '' @ decoded_return_data
            else if \<not> wc_write_bytecodes cfg \<and> ca_type (ct_call trace) = CallTypeCreate
              \<and> \<not> trace_failed (ct_execution_result trace)
            then '' '' @ decimal (length out) @ '' bytes of code''
            else if out \<noteq> [] then '' '' @ hex_encode out else [])))"

definition write_all :: "string \<Rightarrow> trace_writer \<Rightarrow> trace_writer" where
  "write_all s w = w\<lparr>tw_writer := tw_writer w @ s\<rparr>"

definition nth_or_panic :: "'a list \<Rightarrow> nat \<Rightarrow> ('e, 'a) outcome" where
  "nth_or_panic xs i = (if i < length xs then Inr (xs ! i) else Inl (Panic ''index out of bounds''))"

text \<open>The methods of the writer call each other; the one that writes a node is an argument of the others.\<close>

type_synonym node_writer = "nat \<Rightarrow> trace_writer \<Rightarrow> (out_of_fuel, trace_writer) outcome"

definition write_item ::
  "text_api \<Rightarrow> node_writer \<Rightarrow> call_trace_arena \<Rightarrow> nat \<Rightarrow> nat \<Rightarrow> trace_writer \<Rightarrow> (out_of_fuel, nat \<times> trace_writer) outcome" where
  "write_item tx write_nd nodes node_idx item_idx w =
     and_then (node_at nodes node_idx) (\<lambda>node.
     and_then (nth_or_panic (tn_ordering node) item_idx) (\<lambda>item.
     case item of
       OrderLog index \<Rightarrow>
         and_then (nth_or_panic (tn_logs node) index) (\<lambda>l.
         and_then (write_log tx (tw_config w) (tw_indentation_level w) l) (\<lambda>s. Inr (item_idx + 1, write_all s w)))
     | OrderCall index \<Rightarrow>
         if index < length (tn_children node)
         then and_then (write_nd (tn_children node ! index) w) (\<lambda>w. Inr (item_idx + 1, w))
         else Inl (Panic ''Call index out of bounds'')
     | OrderL1L2Log index \<Rightarrow>
         and_then (nth_or_panic (tn_l2_l1_logs node) index) (\<lambda>l.
         Inr (item_idx + 1, write_all (write_l1_l2_log tx (tw_config w) (tw_indentation_level w) l) w))))"

text \<open>Every item moves the index on and an index past the items panics, so the number of items bounds the loop.\<close>

function write_items_until ::
  "text_api \<Rightarrow> node_writer \<Rightarrow> call_trace_arena \<Rightarrow> nat \<Rightarrow> nat \<Rightarrow> (nat \<Rightarrow> bool) \<Rightarrow> trace_writer
     \<Rightarrow> (out_of_fuel, nat \<times> trace_writer) outcome" where
  "write_items_until tx write_nd nodes node_idx item_idx f w =
     (if f item_idx then Inr (item_idx, w)
      else case write_item tx write_nd nodes node_idx item_idx w of
          Inl e \<Rightarrow> Inl e
        | Inr (item_idx', w') \<Rightarrow> write_items_until tx write_nd nodes node_idx item_idx' f w')"
  by pat_completeness auto

lemma write_item_next:
  "write_item tx write_nd nodes node_idx item_idx w = Inr (i, w')
     \<Longrightarrow> i = Suc item_idx \<and> item_idx < length (tn_ordering (nodes ! node_idx))"
  by (auto simp: write_item_def node_at_def nth_or_panic_def split: if_splits trace_member_order.splits)

termination write_items_until
  by (relation "measure (\<lambda>(tx, wn, nodes, node_idx, item_idx, f, w). length (tn_ordering (nodes ! node_idx)) - item_idx)")
    (auto dest!: write_item_next)

definition write_items ::
  "text_api \<Rightarrow> node_writer \<Rightarrow> call_trace_arena \<Rightarrow> nat \<Rightarrow> trace_writer \<Rightarrow> (out_of_fuel, trace_writer) outcome" where
  "write_items tx write_nd nodes node_idx w =
     and_then (node_at nodes node_idx) (\<lambda>node.
     and_then (write_items_until tx write_nd nodes node_idx 0 (\<lambda>idx. idx = length (tn_ordering node)) w) (\<lambda>(_, w). Inr w))"

fun write_node :: "nat \<Rightarrow> text_api \<Rightarrow> call_trace_arena \<Rightarrow> nat \<Rightarrow> trace_writer \<Rightarrow> (out_of_fuel, trace_writer) outcome" where
  "write_node 0 tx nodes idx w = Inl (Err OutOfFuel)"
| "write_node (Suc n) tx nodes idx w =
     and_then (node_at nodes idx) (\<lambda>node.
     and_then (write_trace_header tx (tw_config w) (tn_trace node)) (\<lambda>header.
     let w = write_all (branch (tw_indentation_level w) @ header @ newline) w;
         w = w\<lparr>tw_indentation_level := tw_indentation_level w + 1\<rparr>
     in and_then (write_items tx (write_node n tx nodes) nodes idx w) (\<lambda>w.
        and_then (write_trace_footer tx (tw_config w) (tn_trace node)) (\<lambda>footer.
        let w = write_all (edge (tw_indentation_level w) @ footer @ newline) w
        in Inr (w\<lparr>tw_indentation_level := tw_indentation_level w - 1\<rparr>)))))"

fun write_children ::
  "nat \<Rightarrow> text_api \<Rightarrow> call_trace_arena \<Rightarrow> nat list \<Rightarrow> trace_writer \<Rightarrow> (out_of_fuel, trace_writer) outcome" where
  "write_children fuel tx nodes [] w = Inr w"
| "write_children fuel tx nodes (child_idx # cs) w =
     and_then (write_node fuel tx nodes child_idx w) (write_children fuel tx nodes cs)"

definition write_arena :: "nat \<Rightarrow> text_api \<Rightarrow> call_trace_arena \<Rightarrow> trace_writer \<Rightarrow> (out_of_fuel, trace_writer) outcome" where
  "write_arena fuel tx arena w =
     and_then (node_at arena 0) (\<lambda>root_node. write_children fuel tx arena (tn_children root_node) w)"

definition render_trace_arena_inner ::
  "nat \<Rightarrow> text_api \<Rightarrow> bool \<Rightarrow> call_trace_arena \<Rightarrow> bool \<Rightarrow> (out_of_fuel, string) outcome" where
  "render_trace_arena_inner fuel tx is_terminal arena with_code =
     and_then (write_arena fuel tx arena (with_bytecodes with_code (writer_with_config [] (writer_config_new is_terminal))))
       (\<lambda>w. Inr (tw_writer w))"

section \<open>Specification: trees\<close>

datatype trace_tree = TraceTree
  (tt_trace: call_trace)
  (tt_logs: "call_log list")
  (tt_l2_l1_logs: "l2_l1_logs list")
  (tt_children: "trace_tree list")

fun call_tree :: "known_addresses \<Rightarrow> vm_result \<Rightarrow> call \<Rightarrow> trace_tree"
  and call_forest :: "known_addresses \<Rightarrow> vm_result \<Rightarrow> call list \<Rightarrow> trace_tree list" where
  "call_tree known r (Call ty from to gas gas_used v out inp err reason calls) =
     (let c = Call ty from to gas gas_used v out inp err reason calls
      in TraceTree (convert_call_to_call_trace known c) (logs_for_call r c) (l2_l1_logs_for_call r c) (call_forest known r calls))"
| "call_forest known r [] = []"
| "call_forest known r (c # cs) = call_tree known r c # call_forest known r cs"

fun tree_size :: "trace_tree \<Rightarrow> nat"
  and forest_size :: "trace_tree list \<Rightarrow> nat" where
  "tree_size (TraceTree tr ls l2 ts) = Suc (forest_size ts)"
| "forest_size [] = 0"
| "forest_size (t # ts) = tree_size t + forest_size ts"

text \<open>The traces of a tree, a call before its subcalls.\<close>

fun tree_traces :: "trace_tree \<Rightarrow> call_trace list"
  and forest_traces :: "trace_tree list \<Rightarrow> call_trace list" where
  "tree_traces (TraceTree tr ls l2 ts) = tr # forest_traces ts"
| "forest_traces [] = []"
| "forest_traces (t # ts) = tree_traces t @ forest_traces ts"

text \<open>The calls themselves in that order.\<close>

fun call_preorder :: "call \<Rightarrow> call list"
  and calls_preorder :: "call list \<Rightarrow> call list" where
  "call_preorder (Call ty from to gas gas_used v out inp err reason calls) =
     Call ty from to gas gas_used v out inp err reason calls # calls_preorder calls"
| "calls_preorder [] = []"
| "calls_preorder (c # cs) = call_preorder c @ calls_preorder cs"

text \<open>A call that is left out passes its subcalls to its caller.\<close>

fun prune_tree :: "known_addresses \<Rightarrow> u8 \<Rightarrow> trace_tree \<Rightarrow> trace_tree list"
  and prune_forest :: "known_addresses \<Rightarrow> u8 \<Rightarrow> trace_tree list \<Rightarrow> trace_tree list" where
  "prune_tree known v (TraceTree tr ls l2 ts) =
     (if should_include_call known (ct_address tr) v
      then [TraceTree tr ls (filter (retain_l2_l1_log v) l2) (prune_forest known v ts)]
      else prune_forest known v ts)"
| "prune_forest known v [] = []"
| "prune_forest known v (t # ts) = prune_tree known v t @ prune_forest known v ts"

fun logs_text :: "text_api \<Rightarrow> trace_writer_config \<Rightarrow> u16 \<Rightarrow> call_log list \<Rightarrow> ('e, string) outcome" where
  "logs_text tx cfg level [] = Inr []"
| "logs_text tx cfg level (l # ls) =
     and_then (write_log tx cfg level l) (\<lambda>s. and_then (logs_text tx cfg level ls) (\<lambda>ss. Inr (s @ ss)))"

fun tree_text :: "text_api \<Rightarrow> trace_writer_config \<Rightarrow> u16 \<Rightarrow> trace_tree \<Rightarrow> (out_of_fuel, string) outcome"
  and forest_text :: "text_api \<Rightarrow> trace_writer_config \<Rightarrow> u16 \<Rightarrow> trace_tree list \<Rightarrow> (out_of_fuel, string) outcome" where
  "tree_text tx cfg level (TraceTree tr ls l2 ts) =
     and_then (write_trace_header tx cfg tr) (\<lambda>header.
     and_then (logs_text tx cfg (level + 1) ls) (\<lambda>logs.
     and_then (forest_text tx cfg (level + 1) ts) (\<lambda>calls.
     and_then (write_trace_footer tx cfg tr) (\<lambda>footer.
       Inr (branch level @ header @ newline @ logs @ concat (map (write_l1_l2_log tx cfg (level + 1)) l2)
         @ calls @ edge (level + 1) @ footer @ newline)))))"
| "forest_text tx cfg level [] = Inr []"
| "forest_text tx cfg level (t # ts) =
     and_then (tree_text tx cfg level t) (\<lambda>s. and_then (forest_text tx cfg level ts) (\<lambda>ss. Inr (s @ ss)))"

section \<open>Laying out trees\<close>

text \<open>
  The nodes of a tree in preorder: the node at index \<open>b\<close> first, then those of its children, each subtree in one block.
  How a node orders its members differs between a built and a filtered arena and is an argument.
\<close>

type_synonym member_order = "call_log list \<Rightarrow> l2_l1_logs list \<Rightarrow> nat \<Rightarrow> trace_member_order list"

definition built_order :: member_order where
  "built_order ls l2 k = map OrderLog [0..<length ls] @ map OrderCall [0..<k]"

definition no_order :: member_order where
  "no_order ls l2 k = []"

definition full_order :: member_order where
  "full_order ls l2 k = map OrderLog [0..<length ls] @ map OrderL1L2Log [0..<length l2] @ map OrderCall [0..<k]"

fun child_bases :: "nat \<Rightarrow> trace_tree list \<Rightarrow> nat list" where
  "child_bases b [] = []"
| "child_bases b (t # ts) = b # child_bases (b + tree_size t) ts"

fun tree_node :: "member_order \<Rightarrow> nat \<Rightarrow> nat \<Rightarrow> trace_tree \<Rightarrow> call_trace_node" where
  "tree_node ord p b (TraceTree tr ls l2 ts) = \<lparr>tn_parent = Some p, tn_children = child_bases (Suc b) ts, tn_idx = b,
     tn_trace = tr, tn_logs = ls, tn_l2_l1_logs = l2, tn_ordering = ord ls l2 (length ts)\<rparr>"

fun lay_out :: "member_order \<Rightarrow> nat \<Rightarrow> nat \<Rightarrow> trace_tree \<Rightarrow> call_trace_arena"
  and lay_out_all :: "member_order \<Rightarrow> nat \<Rightarrow> nat \<Rightarrow> trace_tree list \<Rightarrow> call_trace_arena" where
  "lay_out ord p b (TraceTree tr ls l2 ts) = tree_node ord p b (TraceTree tr ls l2 ts) # lay_out_all ord b (Suc b) ts"
| "lay_out_all ord p b [] = []"
| "lay_out_all ord p b (t # ts) = lay_out ord p b t @ lay_out_all ord p (b + tree_size t) ts"

definition laid_out :: "member_order \<Rightarrow> call_trace_arena \<Rightarrow> nat \<Rightarrow> nat \<Rightarrow> trace_tree \<Rightarrow> bool" where
  "laid_out ord nodes p b t \<longleftrightarrow> take (tree_size t) (drop b nodes) = lay_out ord p b t"

definition all_laid_out :: "member_order \<Rightarrow> call_trace_arena \<Rightarrow> nat \<Rightarrow> nat \<Rightarrow> trace_tree list \<Rightarrow> bool" where
  "all_laid_out ord nodes p b ts \<longleftrightarrow> take (forest_size ts) (drop b nodes) = lay_out_all ord p b ts"

lemma length_lay_out [simp]:
  "length (lay_out ord p b t) = tree_size t"
  "length (lay_out_all ord p b ts) = forest_size ts"
  by (induction ord p b t and ord p b ts rule: lay_out_lay_out_all.induct) auto

lemma length_child_bases [simp]: "length (child_bases b ts) = length ts"
  by (induction b ts rule: child_bases.induct) auto

lemma forest_size_append [simp]: "forest_size (ts @ us) = forest_size ts + forest_size us"
  by (induction ts) auto

lemma child_bases_append: "child_bases b (ts @ us) = child_bases b ts @ child_bases (b + forest_size ts) us"
  by (induction b ts rule: child_bases.induct) (auto simp: add.assoc)

lemma lay_out_all_append:
  "lay_out_all ord p b (ts @ us) = lay_out_all ord p b ts @ lay_out_all ord p (b + forest_size ts) us"
  by (induction ts arbitrary: b) (auto simp: add.assoc)

lemma laid_outD:
  assumes "laid_out ord nodes p b (TraceTree tr ls l2 ts)"
  shows "b < length nodes" "nodes ! b = tree_node ord p b (TraceTree tr ls l2 ts)"
    "all_laid_out ord nodes b (Suc b) ts"
proof -
  have *: "take (Suc (forest_size ts)) (drop b nodes) = tree_node ord p b (TraceTree tr ls l2 ts) # lay_out_all ord b (Suc b) ts"
    using assms by (simp add: laid_out_def del: tree_node.simps)
  then show b: "b < length nodes"
    by (cases "b < length nodes") auto
  have d: "drop b nodes = nodes ! b # drop (Suc b) nodes"
    using b by (simp add: Cons_nth_drop_Suc)
  show "nodes ! b = tree_node ord p b (TraceTree tr ls l2 ts)" "all_laid_out ord nodes b (Suc b) ts"
    using * by (simp_all add: d all_laid_out_def del: tree_node.simps)
qed

lemma all_laid_outD:
  assumes "all_laid_out ord nodes p b (t # ts)"
  shows "laid_out ord nodes p b t" "all_laid_out ord nodes p (b + tree_size t) ts"
proof -
  have *: "take (tree_size t) (drop b nodes) @ take (forest_size ts) (drop (b + tree_size t) nodes)
      = lay_out ord p b t @ lay_out_all ord p (b + tree_size t) ts"
    using assms by (simp add: all_laid_out_def take_add add.commute [of "tree_size t" b])
  moreover have "length (take (tree_size t) (drop b nodes)) = tree_size t"
  proof -
    have "length (take (tree_size t + forest_size ts) (drop b nodes)) = tree_size t + forest_size ts"
      using assms unfolding all_laid_out_def by (metis forest_size.simps(2) length_lay_out(2))
    then show ?thesis by simp
  qed
  ultimately show "laid_out ord nodes p b t" "all_laid_out ord nodes p (b + tree_size t) ts"
    by (auto simp: laid_out_def all_laid_out_def)
qed

section \<open>Building lays out the calls\<close>

definition with_children :: "nat list \<Rightarrow> call_trace_node \<Rightarrow> call_trace_node" where
  "with_children cs n = n\<lparr>tn_children := tn_children n @ cs,
     tn_ordering := tn_ordering n @ map OrderCall [length (tn_children n)..<length (tn_children n) + length cs]\<rparr>"

lemma with_children_Nil [simp]: "with_children [] n = n"
  by (simp add: with_children_def)

lemma with_children_Cons: "with_children (c # cs) n = with_children cs (push_child c n)"
  by (simp add: with_children_def push_child_def upt_conv_Cons del: upt_Suc)

lemma process_lays_out:
  "p < length arena \<Longrightarrow> process_call_and_subcalls known r c p arena =
     (Inr (arena[p := push_child (length arena) (arena ! p)] @ lay_out built_order p (length arena) (call_tree known r c))
       :: ('e, call_trace_arena) outcome)"
  "p < length arena \<Longrightarrow> process_calls known r cs p arena =
     (Inr (arena[p := with_children (child_bases (length arena) (call_forest known r cs)) (arena ! p)]
       @ lay_out_all built_order p (length arena) (call_forest known r cs))
       :: ('e, call_trace_arena) outcome)"
proof (induction known r c p arena and known r cs p arena rule: process_call_and_subcalls_process_calls.induct)
  case (1 known r ty frm to gas gas_used v out inp err reason calls p arena)
  let ?c = "Call ty frm to gas gas_used v out inp err reason calls"
  let ?n = "(node_for_call known r ?c)\<lparr>tn_idx := length arena, tn_parent := Some p,
    tn_ordering := map OrderLog [0..<length (logs_for_call r ?c)]\<rparr>"
  let ?a = "arena[p := push_child (length arena) (arena ! p)] @ [?n]"
  have add: "add_node (Some p) (node_for_call known r ?c) arena = (Inr (length arena, ?a) :: ('e, nat \<times> call_trace_arena) outcome)"
    using 1(2) by (simp add: add_node_def Let_def update_node_def nth_append list_update_append node_for_call_def)
  show ?case
    using add 1(1) [of "length arena" ?a]
    by (simp add: Let_def nth_append list_update_append with_children_def node_for_call_def built_order_def
        del: and_then_Inr_iff)
next
  case (3 known r c cs p arena)
  then show ?case
    by (simp add: with_children_Cons nth_append list_update_append)
qed simp_all

section \<open>Filtering lays out the pruned trees\<close>

definition adopt :: "nat list \<Rightarrow> call_trace_node \<Rightarrow> call_trace_node" where
  "adopt cs n = n\<lparr>tn_children := tn_children n @ cs\<rparr>"

lemma adopt_Nil [simp]: "adopt [] n = n"
  by (simp add: adopt_def)

lemma adopt_append: "adopt ds (adopt cs n) = adopt (cs @ ds) n"
  by (simp add: adopt_def)

definition filter_result :: "nat \<Rightarrow> trace_tree list \<Rightarrow> call_trace_arena \<Rightarrow> call_trace_arena" where
  "filter_result p ts filtered =
     filtered[p := adopt (child_bases (length filtered) ts) (filtered ! p)] @ lay_out_all no_order p (length filtered) ts"

lemma length_filter_result [simp]: "length (filter_result p ts filtered) = length filtered + forest_size ts"
  by (simp add: filter_result_def)

lemma filter_result_append:
  assumes "p < length filtered"
  shows "filter_result p us (filter_result p ts filtered) = filter_result p (ts @ us) filtered"
  using assms
  by (simp add: filter_result_def nth_append list_update_append adopt_append child_bases_append lay_out_all_append)

lemma filter_children_prunes:
  assumes "all_laid_out ord nodes q b ts" "p < length filtered" "forest_size ts < fuel"
  shows "filter_children fuel known v nodes (child_bases b ts) (Some p) filtered
     = Inr (filter_result p (prune_forest known v ts) filtered)"
  using assms
proof (induction fuel arbitrary: q b ts p filtered)
  case (Suc n)
  show ?case
  proof (cases ts)
    case Nil
    then show ?thesis using Suc.prems by (simp add: filter_result_def)
  next
    case (Cons t us)
    obtain tr ls l2 ks where t: "t = TraceTree tr ls l2 ks" by (cases t)
    have laid: "laid_out ord nodes q b t" "all_laid_out ord nodes q (b + tree_size t) us"
      using all_laid_outD Suc.prems(1) Cons by blast+
    note node = laid_outD [OF laid(1) [unfolded t]]
    have sub: "filter_children n known v nodes (child_bases (Suc b) ks) (Some p') f
        = Inr (filter_result p' (prune_forest known v ks) f)" if "p' < length f" for p' f
      using Suc.IH [OF node(3) that] Suc.prems(3) Cons t by simp
    have rest: "filter_children n known v nodes (child_bases (b + tree_size t) us) (Some p) f
        = Inr (filter_result p (prune_forest known v us) f)" if "p < length f" for f
      using Suc.IH [OF laid(2) that] Suc.prems(3) Cons t by simp
    let ?k = "length filtered"
    let ?copy = "filtered_copy (Some p) ?k v (nodes ! b)"
    have linked: "link_child (Some p) ?k (filtered @ [?copy]) =
        (Inr (filtered[p := adopt [?k] (filtered ! p)] @ [?copy]) :: (out_of_fuel, call_trace_arena) outcome)"
      using Suc.prems(2) by (simp add: link_child_def update_node_def nth_append list_update_append adopt_def)
    have kept: "filter_result ?k (prune_forest known v ks) (filtered[p := adopt [?k] (filtered ! p)] @ [?copy])
        = filter_result p [TraceTree tr ls (filter (retain_l2_l1_log v) l2) (prune_forest known v ks)] filtered"
      by (simp add: filter_result_def nth_append list_update_append node(2) filtered_copy_def adopt_def no_order_def)
    show ?thesis
    proof (cases "should_include_call known (ct_address tr) v")
      case True
      then show ?thesis
        using Cons t Suc.prems(2) node(1,2) linked kept sub [of ?k] rest
        by (simp add: node_at_def Let_def filter_result_append del: and_then_Inr_iff)
    next
      case False
      then show ?thesis
        using Cons t Suc.prems(2) node(1,2) sub [of p] rest
        by (simp add: node_at_def Let_def filter_result_append)
    qed
  qed
qed simp

lemma rebuild_lay_out:
  "map rebuild_ordering (lay_out no_order p b t) = lay_out full_order p b t"
  "map rebuild_ordering (lay_out_all no_order p b ts) = lay_out_all full_order p b ts"
  by (induction "no_order :: member_order" p b t and "no_order :: member_order" p b ts rule: lay_out_lay_out_all.induct)
    (simp_all add: rebuild_ordering_def full_order_def)

lemma laid_out_suffix:
  "length pre = b \<Longrightarrow> all_laid_out ord (pre @ lay_out_all ord p b ts) p b ts"
  by (simp add: all_laid_out_def)

definition filtered_root :: "trace_tree list \<Rightarrow> call_trace_node" where
  "filtered_root ts = rebuild_ordering (call_trace_node_default\<lparr>tn_children := child_bases 2 ts\<rparr>)"

definition orphan_root :: "call_trace_node \<Rightarrow> call_trace_node" where
  "orphan_root root = rebuild_ordering (root\<lparr>tn_parent := None, tn_idx := 0, tn_children := [], tn_ordering := []\<rparr>)"

lemma filter_lays_out:
  assumes "tn_children root = child_bases 1 ts" "forest_size ts < fuel"
  shows "filter_call_trace_arena fuel known (root # lay_out_all ord 0 1 ts) v
     = Inr (filtered_root (prune_forest known v ts) # orphan_root root # lay_out_all full_order 0 2 (prune_forest known v ts))"
proof -
  let ?copy = "root\<lparr>tn_parent := None, tn_idx := 0, tn_children := [], tn_ordering := []\<rparr>"
  have "filter_children fuel known v (root # lay_out_all ord 0 1 ts) (child_bases 1 ts) (Some 0) (arena_default @ [?copy])
      = Inr (filter_result 0 (prune_forest known v ts) (arena_default @ [?copy]))"
    using filter_children_prunes [OF laid_out_suffix [of "[root]"]] assms(2) by (simp add: arena_default_def)
  then show ?thesis
    by (simp add: filter_call_trace_arena_def filter_node_recursively_def assms(1) Let_def filter_result_def arena_default_def
        rebuild_lay_out filtered_root_def orphan_root_def adopt_def call_trace_node_default_def numeral_2_eq_2)
qed

section \<open>Writing prints the trees\<close>

definition write_member ::
  "text_api \<Rightarrow> node_writer \<Rightarrow> call_trace_node \<Rightarrow> trace_member_order \<Rightarrow> trace_writer \<Rightarrow> (out_of_fuel, trace_writer) outcome" where
  "write_member tx wn node item w = (case item of
       OrderLog i \<Rightarrow> and_then (nth_or_panic (tn_logs node) i) (\<lambda>l.
         and_then (write_log tx (tw_config w) (tw_indentation_level w) l) (\<lambda>s. Inr (write_all s w)))
     | OrderCall i \<Rightarrow> if i < length (tn_children node) then wn (tn_children node ! i) w
         else Inl (Panic ''Call index out of bounds'')
     | OrderL1L2Log i \<Rightarrow> and_then (nth_or_panic (tn_l2_l1_logs node) i) (\<lambda>l.
         Inr (write_all (write_l1_l2_log tx (tw_config w) (tw_indentation_level w) l) w)))"

fun write_members ::
  "text_api \<Rightarrow> node_writer \<Rightarrow> call_trace_node \<Rightarrow> trace_member_order list \<Rightarrow> trace_writer \<Rightarrow> (out_of_fuel, trace_writer) outcome" where
  "write_members tx wn node [] w = Inr w"
| "write_members tx wn node (i # is) w = and_then (write_member tx wn node i w) (write_members tx wn node is)"

declare write_items_until.simps [simp del]

lemma and_then_assoc: "and_then (and_then r f) g = and_then r (\<lambda>a. and_then (f a) g)"
  by (cases r) auto

lemma write_item_member:
  assumes "node_idx < length nodes" "i < length (tn_ordering (nodes ! node_idx))"
  shows "write_item tx wn nodes node_idx i w
     = and_then (write_member tx wn (nodes ! node_idx) (tn_ordering (nodes ! node_idx) ! i) w) (\<lambda>w. Inr (Suc i, w))"
  using assms
  by (auto simp: write_item_def write_member_def node_at_def nth_or_panic_def and_then_assoc split: trace_member_order.split)

lemma write_items_until_members:
  assumes "node_idx < length nodes" "i \<le> length (tn_ordering (nodes ! node_idx))"
  shows "write_items_until tx wn nodes node_idx i (\<lambda>idx. idx = length (tn_ordering (nodes ! node_idx))) w
     = and_then (write_members tx wn (nodes ! node_idx) (drop i (tn_ordering (nodes ! node_idx))) w)
         (\<lambda>w. Inr (length (tn_ordering (nodes ! node_idx)), w))"
  using assms(2)
proof (induction "length (tn_ordering (nodes ! node_idx)) - i" arbitrary: i w)
  case 0
  then show ?case by (simp add: write_items_until.simps)
next
  case (Suc k)
  let ?o = "tn_ordering (nodes ! node_idx)"
  have i: "i < length ?o" using Suc(2) by linarith
  then have d: "drop i ?o = ?o ! i # drop (Suc i) ?o" by (simp add: Cons_nth_drop_Suc)
  show ?case
  proof (cases "write_member tx wn (nodes ! node_idx) (?o ! i) w")
    case (Inr w')
    have "write_items_until tx wn nodes node_idx (Suc i) (\<lambda>idx. idx = length ?o) w'
        = and_then (write_members tx wn (nodes ! node_idx) (drop (Suc i) ?o) w') (\<lambda>w. Inr (length ?o, w))"
      using Suc i by simp
    then show ?thesis
      using i Inr by (simp add: write_items_until.simps [of _ _ _ _ i] write_item_member [OF assms(1)] d)
  qed (use i in \<open>simp add: write_items_until.simps write_item_member [OF assms(1)] d\<close>)
qed

lemma write_items_members:
  assumes "node_idx < length nodes"
  shows "write_items tx wn nodes node_idx w
     = write_members tx wn (nodes ! node_idx) (tn_ordering (nodes ! node_idx)) w"
  using write_items_until_members [OF assms, of 0] assms
  by (cases "write_members tx wn (nodes ! node_idx) (tn_ordering (nodes ! node_idx)) w")
    (simp_all add: write_items_def node_at_def)

lemma write_members_append:
  "write_members tx wn node (is @ js) w = and_then (write_members tx wn node is w) (write_members tx wn node js)"
proof (induction "is" arbitrary: w)
  case (Cons i "is")
  then show ?case by (cases "write_member tx wn node i w") simp_all
qed simp

lemma write_all_simps [simp]:
  "tw_config (write_all s w) = tw_config w" "tw_indentation_level (write_all s w) = tw_indentation_level w"
  "write_all t (write_all s w) = write_all (s @ t) w" "write_all [] w = w"
  by (simp_all add: write_all_def)

lemma upt_length_Cons: "i < n \<Longrightarrow> [i..<n] = i # [Suc i..<n]"
  by (simp add: upt_conv_Cons)

lemma write_member_logs:
  "i \<le> length (tn_logs node) \<Longrightarrow> write_members tx wn node (map OrderLog [i..<length (tn_logs node)]) w
     = and_then (logs_text tx (tw_config w) (tw_indentation_level w) (drop i (tn_logs node))) (\<lambda>s. Inr (write_all s w))"
proof (induction "length (tn_logs node) - i" arbitrary: i w)
  case (Suc k)
  then have "i < length (tn_logs node)" by linarith
  then show ?case
    using Suc(1) [of "Suc i"] Suc(2)
    by (simp add: upt_length_Cons write_member_def nth_or_panic_def Cons_nth_drop_Suc [symmetric] and_then_assoc)
qed simp

lemma write_member_l2_l1_logs:
  "i \<le> length (tn_l2_l1_logs node) \<Longrightarrow> write_members tx wn node (map OrderL1L2Log [i..<length (tn_l2_l1_logs node)]) w
     = Inr (write_all (concat (map (write_l1_l2_log tx (tw_config w) (tw_indentation_level w)) (drop i (tn_l2_l1_logs node)))) w)"
proof (induction "length (tn_l2_l1_logs node) - i" arbitrary: i w)
  case (Suc k)
  then have "i < length (tn_l2_l1_logs node)" by linarith
  then show ?case
    using Suc(1) [of "Suc i"] Suc(2)
    by (simp add: upt_length_Cons write_member_def nth_or_panic_def Cons_nth_drop_Suc [symmetric])
qed simp

lemma write_member_calls:
  assumes wn: "\<And>w c t. (c, t) \<in> set (zip (tn_children node) ts)
      \<Longrightarrow> wn c w = and_then (tree_text tx (tw_config w) (tw_indentation_level w) t) (\<lambda>s. Inr (write_all s w))"
    and len: "length (tn_children node) = length ts"
  shows "i \<le> length ts \<Longrightarrow> write_members tx wn node (map OrderCall [i..<length ts]) w
     = and_then (forest_text tx (tw_config w) (tw_indentation_level w) (drop i ts)) (\<lambda>s. Inr (write_all s w))"
proof (induction "length ts - i" arbitrary: i w)
  case (Suc k)
  then have i: "i < length ts" by linarith
  then have "(tn_children node ! i, ts ! i) \<in> set (zip (tn_children node) ts)"
    using len by (auto simp: set_zip)
  then show ?case
    using Suc(1) [of "Suc i"] Suc(2) i wn len
    by (simp add: upt_length_Cons write_member_def Cons_nth_drop_Suc [symmetric] and_then_assoc)
qed simp

lemma all_laid_out_child:
  "all_laid_out ord nodes p b ts \<Longrightarrow> (c, t) \<in> set (zip (child_bases b ts) ts)
     \<Longrightarrow> laid_out ord nodes p c t \<and> tree_size t \<le> forest_size ts"
  by (induction b ts rule: child_bases.induct) (auto dest: all_laid_outD)

lemma write_members_tree:
  assumes "tn_ordering node = full_order (tn_logs node) (tn_l2_l1_logs node) (length ts)"
    and "length (tn_children node) = length ts"
    and "\<And>w c t. (c, t) \<in> set (zip (tn_children node) ts)
      \<Longrightarrow> wn c w = and_then (tree_text tx (tw_config w) (tw_indentation_level w) t) (\<lambda>s. Inr (write_all s w))"
  shows "write_members tx wn node (tn_ordering node) w =
     and_then (logs_text tx (tw_config w) (tw_indentation_level w) (tn_logs node)) (\<lambda>logs.
     and_then (forest_text tx (tw_config w) (tw_indentation_level w) ts) (\<lambda>calls.
       Inr (write_all (logs @ concat (map (write_l1_l2_log tx (tw_config w) (tw_indentation_level w)) (tn_l2_l1_logs node)) @ calls) w)))"
proof -
  note members = write_member_logs [of 0 node] write_member_l2_l1_logs [of 0 node]
    write_member_calls [of node ts wn tx, OF assms(3,2), of 0]
  show ?thesis
    by (cases "logs_text tx (tw_config w) (tw_indentation_level w) (tn_logs node) :: (out_of_fuel, string) outcome")
      (simp_all add: assms(1) full_order_def write_members_append members and_then_assoc)
qed

lemma write_node_tree:
  assumes "laid_out full_order nodes p b t" "tree_size t \<le> fuel"
  shows "write_node fuel tx nodes b w
     = and_then (tree_text tx (tw_config w) (tw_indentation_level w) t) (\<lambda>s. Inr (write_all s w))"
  using assms
proof (induction fuel arbitrary: p b t w)
  case 0
  then show ?case by (cases t) simp
next
  case (Suc n)
  obtain tr ls l2 ts where t: "t = TraceTree tr ls l2 ts" by (cases t)
  note node = laid_outD [OF Suc.prems(1) [unfolded t]]
  have child: "write_node n tx nodes c w
      = and_then (tree_text tx (tw_config w) (tw_indentation_level w) k) (\<lambda>s. Inr (write_all s w))"
    if "(c, k) \<in> set (zip (child_bases (Suc b) ts) ts)" for c k w
    using all_laid_out_child [OF node(3) that] Suc.IH [of b c k] Suc.prems(2) t by auto
  have items: "write_items tx (write_node n tx nodes) nodes b w =
     and_then (logs_text tx (tw_config w) (tw_indentation_level w) ls) (\<lambda>logs.
     and_then (forest_text tx (tw_config w) (tw_indentation_level w) ts) (\<lambda>calls.
       Inr (write_all (logs @ concat (map (write_l1_l2_log tx (tw_config w) (tw_indentation_level w)) l2) @ calls) w)))" for w
    using write_members_tree [of "nodes ! b" ts "write_node n tx nodes" tx w] node(1) child
    by (simp add: write_items_members node(2))
  show ?case
    by (cases "write_trace_header tx (tw_config w) tr :: (out_of_fuel, string) outcome")
      (simp_all add: t node_at_def node items Let_def and_then_assoc write_all_def)
qed

lemma write_children_forest:
  assumes "all_laid_out full_order nodes p b ts" "forest_size ts \<le> fuel"
  shows "write_children fuel tx nodes (child_bases b ts) w
     = and_then (forest_text tx (tw_config w) (tw_indentation_level w) ts) (\<lambda>s. Inr (write_all s w))"
  using assms
proof (induction ts arbitrary: b w)
  case (Cons t ts)
  note laid = all_laid_outD [OF Cons.prems(1)]
  show ?case
    using write_node_tree [OF laid(1), of fuel tx w] Cons.prems(2) Cons.IH [OF laid(2)]
    by (cases "tree_text tx (tw_config w) (tw_indentation_level w) t") (simp_all add: and_then_assoc)
qed simp

lemma prune_forest_size:
  "forest_size (prune_tree known v t) \<le> tree_size t" "forest_size (prune_forest known v ts) \<le> forest_size ts"
  by (induction known v t and known v ts rule: prune_tree_prune_forest.induct) auto

lemma forest_traces_append [simp]: "forest_traces (ts @ us) = forest_traces ts @ forest_traces us"
  by (induction ts) auto

lemma prune_forest_traces:
  "forest_traces (prune_tree known v t) = filter (\<lambda>tr. should_include_call known (ct_address tr) v) (tree_traces t)"
  "forest_traces (prune_forest known v ts) = filter (\<lambda>tr. should_include_call known (ct_address tr) v) (forest_traces ts)"
  by (induction known v t and known v ts rule: prune_tree_prune_forest.induct) auto

section \<open>The arena as its readers see it\<close>

lemma build_lays_out:
  "\<exists>root. build_call_trace_arena tx known calls r
       = (Inr (root # lay_out_all built_order 0 1 (call_forest known r calls)) :: ('e, call_trace_arena) outcome)
     \<and> tn_children root = child_bases 1 (call_forest known r calls)
     \<and> tn_idx root = 0 \<and> tn_parent root = None \<and> ca_input (ct_call (tn_trace root)) = [] \<and> tn_logs root = []
     \<and> ct_execution_result (tn_trace root) = trace_result_from tx (vr_result r)"
  using process_lays_out(2) [of 0 "[call_trace_node_default\<lparr>tn_trace := (tn_trace call_trace_node_default)
      \<lparr>ct_execution_result := trace_result_from tx (vr_result r)\<rparr>\<rparr>]" known r calls, where 'e = 'e]
  by (simp add: build_call_trace_arena_def arena_default_def Let_def with_children_def call_trace_node_default_def
      call_default_def)

lemma filtered_rendering:
  assumes "tn_children root = child_bases 1 ts" "forest_size ts < fuel"
  shows "and_then (filter_call_trace_arena fuel known (root # lay_out_all ord 0 1 ts) v)
       (\<lambda>arena. render_trace_arena_inner fuel tx is_terminal arena with_code)
     = forest_text tx \<lparr>wc_use_colors = is_terminal, wc_write_bytecodes = with_code\<rparr> 0 (prune_forest known v ts)"
proof -
  let ?ts = "prune_forest known v ts"
  let ?cfg = "\<lparr>wc_use_colors = is_terminal, wc_write_bytecodes = with_code\<rparr>"
  have "all_laid_out full_order ([filtered_root ?ts, orphan_root root] @ lay_out_all full_order 0 2 ?ts) 0 2 ?ts"
    by (rule laid_out_suffix) simp
  then have "write_children fuel tx (filtered_root ?ts # orphan_root root # lay_out_all full_order 0 2 ?ts) (child_bases 2 ?ts) w
      = and_then (forest_text tx (tw_config w) (tw_indentation_level w) ?ts) (\<lambda>s. Inr (write_all s w))" for w
    using write_children_forest prune_forest_size(2) [of known v ts] assms(2) by fastforce
  moreover have "tn_children (filtered_root ?ts) = child_bases 2 ?ts"
    by (simp add: filtered_root_def rebuild_ordering_def)
  ultimately show ?thesis
    unfolding filter_lays_out [OF assms]
    by (cases "forest_text tx ?cfg 0 ?ts")
      (simp_all add: render_trace_arena_inner_def write_arena_def node_at_def with_bytecodes_def
        writer_with_config_def writer_config_new_def use_colors_def write_all_def)
qed

text \<open>
  Each node of a laid out block knows its index, and its children are nodes after it that name it as their parent.
\<close>

definition node_links :: "call_trace_arena \<Rightarrow> nat \<Rightarrow> bool" where
  "node_links arena i \<longleftrightarrow> tn_idx (arena ! i) = i \<and>
     (\<forall>c \<in> set (tn_children (arena ! i)). i < c \<and> c < length arena \<and> tn_parent (arena ! c) = Some i)"

lemma child_links:
  assumes "all_laid_out ord nodes p b ts" "c \<in> set (child_bases b ts)"
  shows "b \<le> c \<and> c < length nodes \<and> tn_parent (nodes ! c) = Some p"
  using assms
proof (induction b ts rule: child_bases.induct)
  case (2 b t ts)
  note laid = all_laid_outD [OF 2(2)]
  obtain tr ls l2 ks where t: "t = TraceTree tr ls l2 ks" by (cases t)
  show ?case
    using 2(1) [OF laid(2)] 2(3) laid_outD [OF laid(1) [unfolded t]] t by auto
qed simp

lemma laid_out_links:
  "laid_out ord nodes p b t \<Longrightarrow> b \<le> i \<Longrightarrow> i < b + tree_size t \<Longrightarrow> node_links nodes i"
  "all_laid_out ord nodes p b ts \<Longrightarrow> b \<le> i \<Longrightarrow> i < b + forest_size ts \<Longrightarrow> node_links nodes i"
proof (induction t and ts arbitrary: p b and p b rule: tree_size_forest_size.induct)
  case (1 tr ls l2 ts)
  note node = laid_outD [OF 1(2)]
  show ?case
  proof (cases "i = b")
    case True
    then show ?thesis
      using node child_links [OF node(3)] by (fastforce simp: node_links_def)
  next
    case False
    then show ?thesis using 1(1) [OF node(3)] 1(3,4) by simp
  qed
next
  case (3 t ts)
  note laid = all_laid_outD [OF 3(3)]
  show ?case
    using 3(1) [OF laid(1)] 3(2) [OF laid(2)] 3(4,5) by (cases "i < b + tree_size t") auto
qed simp

lemma call_forest_calls:
  "map ct_call (tree_traces (call_tree known r c)) = call_preorder c"
  "map ct_call (forest_traces (call_forest known r cs)) = calls_preorder cs"
  by (induction c and cs rule: call_preorder_calls_preorder.induct) (simp_all add: Let_def convert_call_to_call_trace_def)

text \<open>Building an arena from the calls of a transaction never panics, and gives every call one node, in the order the
  calls were made, with links that are right in both directions: a node knows its index, and its children are
  later nodes that name it as their parent. The root carries the result of the transaction.\<close>

theorem built_arena_links:
  "\<exists>arena. build_call_trace_arena tx known calls r = (Inr arena :: ('e, call_trace_arena) outcome)
     \<and> map (ct_call \<circ> tn_trace) (tl arena) = calls_preorder calls
     \<and> (\<forall>i < length arena. node_links arena i)
     \<and> ct_execution_result (tn_trace (hd arena)) = trace_result_from tx (vr_result r)"
proof -
  let ?ts = "call_forest known r calls"
  obtain root where root: "build_call_trace_arena tx known calls r
        = (Inr (root # lay_out_all built_order 0 1 ?ts) :: ('e, call_trace_arena) outcome)"
      "tn_children root = child_bases 1 ?ts" "tn_idx root = 0"
      "ct_execution_result (tn_trace root) = trace_result_from tx (vr_result r)"
    using build_lays_out [of tx known calls r, where 'e = 'e] by blast
  let ?arena = "root # lay_out_all built_order 0 1 ?ts"
  have traces: "map tn_trace (lay_out ord p b t) = tree_traces t" "map tn_trace (lay_out_all ord p b ts) = forest_traces ts"
    for ord p b t ts
    by (induction ord p b t and ord p b ts rule: lay_out_lay_out_all.induct) auto
  have laid: "all_laid_out built_order ?arena 0 1 ?ts"
    using laid_out_suffix [of "[root]"] by simp
  have "node_links ?arena i" if "i < length ?arena" for i
  proof (cases i)
    case 0
    then show ?thesis using root(2,3) child_links [OF laid] by (force simp: node_links_def)
  next
    case (Suc k)
    then show ?thesis using laid_out_links(2) [OF laid, of i] that by simp
  qed
  then show ?thesis
    using root(1,4) traces(2) call_forest_calls(2) by (simp flip: map_map)
qed

end
