(* ===== verification/Gas_Details.thy ===== *)
theory Gas_Details
  imports Shell_Output Call_Traces Fee_Model
begin

text \<open>
  What the bootloader reports about the gas of a transaction (\<open>crates/core/src/bootloader_debug.rs\<close>) and the details
  printed about a transaction on request: gas, storage logs and VM statistics
  (\<open>crates/core/src/formatter/log.rs\<close>, \<open>formatter/address.rs\<close>, \<open>node/storage_logs.rs\<close>).

  The memory of the bootloader is a function from slots to words. \<open>U256\<close> arithmetic panics instead of wrapping.
  A printer returns what it printed before a panic.
\<close>

section \<open>Debug slots of the bootloader\<close>

definition DEBUG_START_SENTINEL :: u64 where
  "DEBUG_START_SENTINEL = 1337"

definition MAX_MEMORY_BYTES :: nat where
  "MAX_MEMORY_BYTES = 63800000"

definition MAX_TRANSACTIONS :: nat where
  "MAX_TRANSACTIONS = 10000"

definition RESULTS_BYTES_OFFSET :: nat where
  "RESULTS_BYTES_OFFSET = MAX_MEMORY_BYTES - MAX_TRANSACTIONS * 32"

definition VM_HOOKS_PARAMS :: nat where
  "VM_HOOKS_PARAMS = 3"

definition VM_HOOKS_START :: nat where
  "VM_HOOKS_START = RESULTS_BYTES_OFFSET - (VM_HOOKS_PARAMS + 1) * 32"

definition DEBUG_SLOTS :: nat where
  "DEBUG_SLOTS = 32"

definition DEBUG_START_BYTE :: nat where
  "DEBUG_START_BYTE = VM_HOOKS_START - DEBUG_SLOTS * 32"

definition DEBUG_START_SLOT :: nat where
  "DEBUG_START_SLOT = DEBUG_START_BYTE div 32"

record bootloader_debug =
  bd_total_gas_limit_from_user :: u256
  bd_reserved_gas :: u256
  bd_gas_per_pubdata :: u256
  bd_gas_limit_after_intrinsic :: u256
  bd_gas_after_validation :: u256
  bd_gas_spent_on_execution :: u256
  bd_gas_spent_on_bytecode_preparation :: u256
  bd_refund_computed :: u256
  bd_refund_by_operator :: u256
  bd_intrinsic_overhead :: u256
  bd_required_overhead :: u256
  bd_operator_overhead :: u256
  bd_overhead_for_length :: u256
  bd_overhead_for_slot :: u256

definition load_debug_slot :: "(nat \<Rightarrow> u256) \<Rightarrow> nat \<Rightarrow> u256" where
  "load_debug_slot memory slot = memory (DEBUG_START_SLOT + slot)"

definition load_from_memory :: "(nat \<Rightarrow> u256) \<Rightarrow> string + bootloader_debug" where
  "load_from_memory memory =
     (if load_debug_slot memory 0 \<noteq> ucast DEBUG_START_SENTINEL
      then Inl ''Debug slot has wrong value. Probably bootloader slot mapping has changed.''
      else Inr \<lparr>bd_total_gas_limit_from_user = load_debug_slot memory 1,
        bd_reserved_gas = load_debug_slot memory 2,
        bd_gas_per_pubdata = load_debug_slot memory 3,
        bd_gas_limit_after_intrinsic = load_debug_slot memory 4,
        bd_gas_after_validation = load_debug_slot memory 5,
        bd_gas_spent_on_execution = load_debug_slot memory 6,
        bd_gas_spent_on_bytecode_preparation = load_debug_slot memory 7,
        bd_refund_computed = load_debug_slot memory 8,
        bd_refund_by_operator = load_debug_slot memory 9,
        bd_intrinsic_overhead = load_debug_slot memory 10,
        bd_required_overhead = load_debug_slot memory 12,
        bd_operator_overhead = load_debug_slot memory 11,
        bd_overhead_for_length = load_debug_slot memory 13,
        bd_overhead_for_slot = load_debug_slot memory 14\<rparr>)"

text \<open>The tracer keeps the result in a cell that it shares with the runner.\<close>

definition after_vm_execution :: "(nat \<Rightarrow> u256) \<Rightarrow> string + bootloader_debug \<Rightarrow> string + bootloader_debug" where
  "after_vm_execution memory result = load_from_memory memory"

section \<open>Arithmetic that panics\<close>

definition u256_add :: "u256 \<Rightarrow> u256 \<Rightarrow> ('e, u256) outcome" where
  "u256_add a b = expect ''arithmetic operation overflow'' (checked_add a b)"

definition u256_sub :: "u256 \<Rightarrow> u256 \<Rightarrow> ('e, u256) outcome" where
  "u256_sub a b = (if b \<le> a then Inr (a - b) else Inl (Panic ''arithmetic operation overflow''))"

definition u256_mul :: "u256 \<Rightarrow> u256 \<Rightarrow> ('e, u256) outcome" where
  "u256_mul a b = expect ''arithmetic operation overflow'' (checked_mul a b)"

definition u256_div :: "u256 \<Rightarrow> u256 \<Rightarrow> ('e, u256) outcome" where
  "u256_div a b = (if b = 0 then Inl (Panic ''division by zero'') else Inr (a div b))"

section \<open>Gas details\<close>

record gas_details =
  gd_total_gas_limit :: u256
  gd_intrinsic_gas :: u256
  gd_gas_for_validation :: u256
  gd_gas_spent_on_compute :: u256
  gd_gas_used :: u256
  gd_bytes_published :: u64
  gd_spent_on_pubdata :: u64
  gd_gas_spent_on_bytecode_preparation :: u256
  gd_refund_computed :: u256
  gd_refund_by_operator :: u256
  gd_required_overhead :: u256
  gd_operator_overhead :: u256
  gd_intrinsic_overhead :: u256
  gd_overhead_for_length :: u256
  gd_overhead_for_slot :: u256
  gd_gas_per_pubdata :: u256
  gd_total_gas_limit_from_user :: u256
  gd_gas_spent_on_execution :: u256
  gd_gas_limit_after_intrinsic :: u256
  gd_gas_after_validation :: u256
  gd_reserved_gas :: u256

definition compute_gas_details :: "bootloader_debug \<Rightarrow> u64 \<Rightarrow> ('e, gas_details) outcome" where
  "compute_gas_details b spent_on_pubdata =
     (let total_gas_limit = saturating_sub (bd_total_gas_limit_from_user b) (bd_reserved_gas b)
      in and_then (u256_sub total_gas_limit (bd_gas_limit_after_intrinsic b)) (\<lambda>intrinsic_gas.
         and_then (u256_sub (bd_gas_limit_after_intrinsic b) (bd_gas_after_validation b)) (\<lambda>gas_for_validation.
         and_then (u256_sub (bd_gas_spent_on_execution b) (bd_gas_spent_on_bytecode_preparation b)) (\<lambda>gas_spent_on_compute.
         and_then (u256_add intrinsic_gas gas_for_validation) (\<lambda>sum.
         and_then (u256_add sum (bd_gas_spent_on_bytecode_preparation b)) (\<lambda>sum.
         and_then (u256_add sum gas_spent_on_compute) (\<lambda>gas_used.
         and_then (as_u64 (bd_gas_per_pubdata b)) (\<lambda>per_byte.
         if per_byte = 0 then Inl (Panic ''attempt to divide by zero'')
         else Inr \<lparr>gd_total_gas_limit = total_gas_limit, gd_intrinsic_gas = intrinsic_gas,
           gd_gas_for_validation = gas_for_validation, gd_gas_spent_on_compute = gas_spent_on_compute,
           gd_gas_used = gas_used, gd_bytes_published = spent_on_pubdata div per_byte,
           gd_spent_on_pubdata = spent_on_pubdata,
           gd_gas_spent_on_bytecode_preparation = bd_gas_spent_on_bytecode_preparation b,
           gd_refund_computed = bd_refund_computed b, gd_refund_by_operator = bd_refund_by_operator b,
           gd_required_overhead = bd_required_overhead b, gd_operator_overhead = bd_operator_overhead b,
           gd_intrinsic_overhead = bd_intrinsic_overhead b, gd_overhead_for_length = bd_overhead_for_length b,
           gd_overhead_for_slot = bd_overhead_for_slot b, gd_gas_per_pubdata = bd_gas_per_pubdata b,
           gd_total_gas_limit_from_user = bd_total_gas_limit_from_user b,
           gd_gas_spent_on_execution = bd_gas_spent_on_execution b,
           gd_gas_limit_after_intrinsic = bd_gas_limit_after_intrinsic b,
           gd_gas_after_validation = bd_gas_after_validation b,
           gd_reserved_gas = bd_reserved_gas b\<rparr>))))))))"

section \<open>Printing\<close>

text \<open>The items of a section; \<open>n\<close> of them, this one is number \<open>i\<close>.\<close>

fun fm_items :: "paint \<Rightarrow> nat \<Rightarrow> nat \<Rightarrow> (string \<times> string) list \<Rightarrow> 'e fprinter" where
  "fm_items paint n i [] = fm_done"
| "fm_items paint n i ((key, v) # items) =
     fm_then (fm_item paint (i = n - 1) key v) (fm_items paint n (i + 1) items)"

fun fm_errors :: "paint \<Rightarrow> nat \<Rightarrow> nat \<Rightarrow> string list \<Rightarrow> 'e fprinter" where
  "fm_errors paint n i [] = fm_done"
| "fm_errors paint n i (m # ms) = fm_then (format_error paint (i = n - 1) m) (fm_errors paint n (i + 1) ms)"

definition pad_left :: "nat \<Rightarrow> string \<Rightarrow> string" where
  "pad_left width s = replicate (width - length s) CHR '' '' @ s"

definition gas_share :: "u256 \<Rightarrow> u256 \<Rightarrow> ('e, string) outcome" where
  "gas_share amount whole =
     and_then (u256_mul amount 100) (\<lambda>p. and_then (u256_div p whole) (\<lambda>percentage.
     Inr (to_human_size amount @ '' gas ('' @ pad_left 2 (decimal (unat percentage)) @ ''%)'')))"

definition gas_amount :: "u256 \<Rightarrow> string" where
  "gas_amount amount = to_human_size amount @ '' gas''"

definition gas_warnings :: "gas_details \<Rightarrow> string list" where
  "gas_warnings g =
     (if gd_refund_computed g \<noteq> gd_refund_by_operator g
      then [''WARNING: Refund by VM: '' @ to_human_size (gd_refund_computed g) @ '', but operator refunded: ''
        @ to_human_size (gd_refund_by_operator g)] else [])
     @ (if gd_total_gas_limit_from_user g \<noteq> gd_total_gas_limit g
      then [''WARNING: User provided more gas ('' @ to_human_size (gd_total_gas_limit_from_user g)
        @ ''), but system had a lower max limit.''] else [])"

definition gas_summary_section :: "paint \<Rightarrow> gas_details \<Rightarrow> 'e fprinter" where
  "gas_summary_section paint g =
     fm_bind (u256_sub (gd_total_gas_limit g) (gd_refund_by_operator g)) (\<lambda>paid.
     fm_items paint 4 0
      [(''Limit'', to_human_size (gd_total_gas_limit g)),
       (''Used'', to_human_size (gd_gas_used g)),
       (''Refunded'', to_human_size (gd_refund_by_operator g)),
       (''Paid:'', to_human_size paid)])"

definition execution_breakdown_section :: "paint \<Rightarrow> gas_details \<Rightarrow> 'e fprinter" where
  "execution_breakdown_section paint g =
     fm_bind (gas_share (gd_intrinsic_gas g) (gd_gas_used g)) (\<lambda>setup.
     fm_bind (gas_share (gd_gas_spent_on_bytecode_preparation g) (gd_gas_used g)) (\<lambda>preparation.
     fm_bind (gas_share (gd_gas_for_validation g) (gd_gas_used g)) (\<lambda>validation.
     fm_bind (gas_share (gd_gas_spent_on_compute g) (gd_gas_used g)) (\<lambda>computations.
     fm_items paint 4 0
      [(''Transaction Setup'', setup),
       (''Bytecode Preparation'', preparation),
       (''Account Validation'', validation),
       (''Computations (Opcodes)'', computations)]))))"

definition transaction_setup_section :: "paint \<Rightarrow> gas_details \<Rightarrow> 'e fprinter" where
  "transaction_setup_section paint g =
     fm_bind (gas_share (gd_intrinsic_overhead g) (gd_intrinsic_gas g)) (\<lambda>fixed.
     fm_bind (gas_share (gd_operator_overhead g) (gd_intrinsic_gas g)) (\<lambda>operator_cost.
     fm_items paint 3 0
      [(''Total Setup Cost'', gas_amount (gd_intrinsic_gas g)),
       (''Fixed Cost'', fixed),
       (''Operator Cost'', operator_cost)]))"

definition l1_publishing_section :: "paint \<Rightarrow> gas_details \<Rightarrow> 'e fprinter" where
  "l1_publishing_section paint g =
     fm_items paint 3 0
      [(''Published'', to_human_size (ucast (gd_bytes_published g)) @ '' bytes''),
       (''Cost per Byte'', gas_amount (gd_gas_per_pubdata g)),
       (''Total Gas Cost'', gas_amount (ucast (gd_spent_on_pubdata g)))]"

definition block_section :: "paint \<Rightarrow> 'f fee_model_config \<Rightarrow> gas_details \<Rightarrow> 'e fprinter" where
  "block_section paint config g =
     fm_bind (u256_mul (gd_gas_per_pubdata g) (ucast (batch_overhead_l1_gas config))) (\<lambda>full_block_cost.
     fm_items paint 3 0
      [(''Length Overhead'', gas_amount (gd_overhead_for_length g)),
       (''Slot Overhead'', gas_amount (gd_overhead_for_slot g)),
       (''Full Block Cost'', ''~'' @ to_human_size full_block_cost @ '' L2 gas'')])"

definition print_gas_details :: "paint \<Rightarrow> gas_details \<Rightarrow> 'f fee_model_config \<Rightarrow> 'e fprinter" where
  "print_gas_details paint g config =
     (let warnings = gas_warnings g;
          total_items = 1 + length warnings + 1 + 1 + 1 + 1;
          after = 1 + length warnings
      in fm_section ''[Gas Details]'' True
          (fm_then (fm_section ''Gas Summary'' (0 = total_items - 1) (gas_summary_section paint g))
          (fm_then (fm_errors paint total_items 1 warnings)
          (fm_then (fm_section ''Execution Gas Breakdown'' (after = total_items - 1) (execution_breakdown_section paint g))
          (fm_then (fm_section ''Transaction Setup Cost Breakdown'' (after + 1 = total_items - 1)
            (transaction_setup_section paint g))
          (fm_then (fm_section ''L1 Publishing Costs'' (after + 2 = total_items - 1) (l1_publishing_section paint g))
            (fm_section ''Block Contribution'' (after + 3 = total_items - 1) (block_section paint config g))))))))"

text \<open>
  The result of \<open>display_detailed_gas_info\<close> of \<open>vm_runner.rs\<close> is its own error, beside a panic of what it calls.
\<close>

definition display_detailed_gas_info ::
  "paint \<Rightarrow> (string + bootloader_debug) option \<Rightarrow> u64 \<Rightarrow> 'f fee_model_config \<Rightarrow> shell \<Rightarrow> (string, unit) outcome \<times> shell" where
  "display_detailed_gas_info paint bootloader_debug_result spent_on_pubdata config s =
     (case bootloader_debug_result of
        Some (Inr b) \<Rightarrow>
          (case compute_gas_details b spent_on_pubdata of
             Inl e \<Rightarrow> (Inl e, s)
           | Inr g \<Rightarrow> (let (r, f, s) = print_gas_details paint g config (formatter_new, s) in (r, s)))
      | Some (Inl m) \<Rightarrow> (Inl (Err m), s)
      | None \<Rightarrow> (Inl (Err ''Bootloader tracer didn't finish.''), s))"

section \<open>Storage logs and VM details\<close>

definition format_known_address :: "paint \<Rightarrow> known_addresses \<Rightarrow> address \<Rightarrow> string option" where
  "format_known_address paint known a = map_option (\<lambda>k.
     (case ka_contract_type k of
        System \<Rightarrow> paint [Bold, BrightBlue] (ka_name k)
      | Precompile \<Rightarrow> paint [Bold, MagentaText] (ka_name k)
      | Popular \<Rightarrow> paint [Bold, BrightGreen] (ka_name k)
      | Unknown \<Rightarrow> paint [Dimmed] (ka_name k))
     @ paint [Dimmed] ''@'' @ paint [Dimmed] (''0x'' @ address_hex a)) (known a)"

definition h256_hex :: "h256 \<Rightarrow> string" where
  "h256_hex h = ''0x'' @ hex_encode (big_endian 32 (unat h))"

fun storage_log_kind_debug :: "storage_log_kind \<Rightarrow> string" where
  "storage_log_kind_debug ReadLog = ''Read''"
| "storage_log_kind_debug InitialWrite = ''InitialWrite''"
| "storage_log_kind_debug RepeatedWrite = ''RepeatedWrite''"

text \<open>The debug text of an address is the argument \<open>address_debug\<close>.\<close>

definition print_storage_logs ::
  "paint \<Rightarrow> known_addresses \<Rightarrow> (address \<Rightarrow> string) \<Rightarrow> storage_log \<Rightarrow> pubdata_bytes_info option \<Rightarrow> nat \<Rightarrow> bool \<Rightarrow> 'e fprinter" where
  "print_storage_logs paint known address_debug l pubdata_bytes log_index is_last =
     (let a = sk_address (slog_key l);
          items = [(''Kind'', storage_log_kind_debug (slog_kind l)),
            (''Address'', case_option (address_debug a) id (format_known_address paint known a)),
            (''Key'', h256_hex (sk_key (slog_key l))),
            (''Read Value'', h256_hex (slog_previous_value l))];
          items = items @ (if slog_kind l \<noteq> ReadLog then [(''Written Value'', h256_hex (slog_value l))] else []);
          items = items @ [(''Pubdata Bytes'', case_option ''None'' pubdata_bytes_info_fmt pubdata_bytes)]
      in fm_section (''Log #'' @ decimal log_index) is_last (fm_items paint (length items) 0 items))"

fun print_each_log ::
  "paint \<Rightarrow> known_addresses \<Rightarrow> (address \<Rightarrow> string) \<Rightarrow> (storage_log \<times> pubdata_bytes_info option \<times> nat \<times> bool) list
     \<Rightarrow> 'e printer" where
  "print_each_log paint known address_debug [] s = (Inr (), s)"
| "print_each_log paint known address_debug ((l, info, index, is_last) # ls) s =
     (case print_storage_logs paint known address_debug l info index is_last (formatter_new, s) of
        (Inl e, f, s) \<Rightarrow> (Inl e, s)
      | (Inr _, f, s) \<Rightarrow> print_each_log paint known address_debug ls s)"

definition show_storage_logs_details ::
  "paint \<Rightarrow> pubdata_api \<Rightarrow> known_addresses \<Rightarrow> (address \<Rightarrow> string) \<Rightarrow> show_storage_logs \<Rightarrow> vm_result \<Rightarrow> 'e printer" where
  "show_storage_logs_details paint pa known address_debug show_logs r =
     and_print (sh_println (Inr line_end))
     (and_print (sh_println (Inr (''[Storage Logs] ('' @ decimal (length (vr_storage_logs r)) @ '' entries)'')))
       (print_each_log paint known address_debug (print_storage_logs_details pa show_logs r)))"

fun fm_open_items :: "paint \<Rightarrow> (string \<times> string) list \<Rightarrow> 'e fprinter" where
  "fm_open_items paint [] = fm_done"
| "fm_open_items paint ((key, v) # items) = fm_then (fm_item paint False key v) (fm_open_items paint items)"

definition print_vm_details :: "paint \<Rightarrow> text_api \<Rightarrow> vm_result \<Rightarrow> 'e fprinter" where
  "print_vm_details paint tx r =
     fm_section ''[VM Execution Results]'' True
      (fm_then (fm_open_items paint
         [(''Cycles Used'', to_human_size (ucast (vr_cycles_used r))),
          (''Computation Gas Used'', to_human_size (ucast (vr_computational_gas_used r))),
          (''Contracts Used'', to_human_size (ucast (vr_contracts_used r)))])
       (case vr_result r of
          Success _ \<Rightarrow> fm_item paint True ''Execution Outcome'' ''Success''
        | Revert out \<Rightarrow> fm_then (fm_item paint False ''Execution Outcome'' ''Failure'')
            (format_error paint True (''Revert Reason: '' @ tx_user_friendly tx out))
        | Halt reason \<Rightarrow> fm_then (fm_item paint False ''Execution Outcome'' ''Failure'')
            (format_error paint True (''Halt Reason: '' @ reason))))"

section \<open>Lemmas: debug slots\<close>

text \<open>The slots that are read lie between the start of the debug region and the hooks.\<close>

lemma debug_layout:
  "32 * DEBUG_START_SLOT = DEBUG_START_BYTE" "slot \<le> 14 \<Longrightarrow> 32 * (DEBUG_START_SLOT + slot) + 32 \<le> VM_HOOKS_START"
  by (simp_all add: DEBUG_START_SLOT_def DEBUG_START_BYTE_def VM_HOOKS_START_def RESULTS_BYTES_OFFSET_def
      MAX_MEMORY_BYTES_def MAX_TRANSACTIONS_def VM_HOOKS_PARAMS_def DEBUG_SLOTS_def)

definition debug_words :: "bootloader_debug \<Rightarrow> u256 list" where
  "debug_words b = [1337, bd_total_gas_limit_from_user b, bd_reserved_gas b, bd_gas_per_pubdata b,
     bd_gas_limit_after_intrinsic b, bd_gas_after_validation b, bd_gas_spent_on_execution b,
     bd_gas_spent_on_bytecode_preparation b, bd_refund_computed b, bd_refund_by_operator b, bd_intrinsic_overhead b,
     bd_operator_overhead b, bd_required_overhead b, bd_overhead_for_length b, bd_overhead_for_slot b]"

lemma load_debug_words:
  assumes "\<forall>i < 15. memory (DEBUG_START_SLOT + i) = debug_words b ! i"
  shows "load_from_memory memory = Inr b"
proof -
  have "load_debug_slot memory i = debug_words b ! i" if "i < 15" for i
    using assms that by (simp add: load_debug_slot_def)
  then show ?thesis
    by (simp add: load_from_memory_def DEBUG_START_SENTINEL_def debug_words_def)
qed

section \<open>Lemmas: the parts of the gas add up\<close>

lemma u256_sub_Inr: "u256_sub a b = Inr c \<longleftrightarrow> unat b \<le> unat a \<and> c = a - b"
  by (auto simp: u256_sub_def word_le_nat_alt)

lemma u256_add_Inr: "u256_add a b = Inr c \<longleftrightarrow> unat a + unat b < 2 ^ 256 \<and> c = a + b"
  by (auto simp: u256_add_def checked_add_def)

lemma u256_mul_Inr: "u256_mul a b = Inr c \<longleftrightarrow> unat a * unat b < 2 ^ 256 \<and> c = a * b"
  by (auto simp: u256_mul_def checked_mul_def)

lemma compute_gas_details_sum:
  assumes "compute_gas_details b spent = Inr g"
  shows "unat (gd_gas_used g) = unat (gd_intrinsic_gas g) + unat (gd_gas_for_validation g)
      + unat (gd_gas_spent_on_bytecode_preparation g) + unat (gd_gas_spent_on_compute g)"
    and "unat (gd_gas_used g) + unat (bd_gas_after_validation b)
      = unat (gd_total_gas_limit g) + unat (bd_gas_spent_on_execution b)"
    and "unat (gd_bytes_published g) = unat spent div unat (bd_gas_per_pubdata b)"
proof -
  obtain i v c s1 s2 per where
    i: "u256_sub (saturating_sub (bd_total_gas_limit_from_user b) (bd_reserved_gas b)) (bd_gas_limit_after_intrinsic b)
        = (Inr i :: ('a, u256) outcome)"
    and v: "u256_sub (bd_gas_limit_after_intrinsic b) (bd_gas_after_validation b) = (Inr v :: ('a, u256) outcome)"
    and c: "u256_sub (bd_gas_spent_on_execution b) (bd_gas_spent_on_bytecode_preparation b) = (Inr c :: ('a, u256) outcome)"
    and s1: "u256_add i v = (Inr s1 :: ('a, u256) outcome)"
    and s2: "u256_add s1 (bd_gas_spent_on_bytecode_preparation b) = (Inr s2 :: ('a, u256) outcome)"
    and u: "u256_add s2 c = (Inr (gd_gas_used g) :: ('a, u256) outcome)"
    and per: "as_u64 (bd_gas_per_pubdata b) = (Inr per :: ('a, u64) outcome)"
    and g: "gd_total_gas_limit g = saturating_sub (bd_total_gas_limit_from_user b) (bd_reserved_gas b)"
      "gd_intrinsic_gas g = i" "gd_gas_for_validation g = v" "gd_gas_spent_on_compute g = c"
      "gd_gas_spent_on_bytecode_preparation g = bd_gas_spent_on_bytecode_preparation b"
      "gd_bytes_published g = spent div per"
    using assms by (auto simp: compute_gas_details_def Let_def split: if_splits)
  have parts: "unat i = unat (gd_total_gas_limit g) - unat (bd_gas_limit_after_intrinsic b)"
      "unat (bd_gas_limit_after_intrinsic b) \<le> unat (gd_total_gas_limit g)"
      "unat v = unat (bd_gas_limit_after_intrinsic b) - unat (bd_gas_after_validation b)"
      "unat (bd_gas_after_validation b) \<le> unat (bd_gas_limit_after_intrinsic b)"
      "unat c = unat (bd_gas_spent_on_execution b) - unat (bd_gas_spent_on_bytecode_preparation b)"
      "unat (bd_gas_spent_on_bytecode_preparation b) \<le> unat (bd_gas_spent_on_execution b)"
    using i v c by (auto simp: u256_sub_Inr g(1) unat_sub word_le_nat_alt)
  have sums: "unat s1 = unat i + unat v" "unat s2 = unat s1 + unat (bd_gas_spent_on_bytecode_preparation b)"
      "unat (gd_gas_used g) = unat s2 + unat c"
    using s1 s2 u by (auto simp: u256_add_Inr unat_word_ariths)
  show "unat (gd_gas_used g) = unat (gd_intrinsic_gas g) + unat (gd_gas_for_validation g)
      + unat (gd_gas_spent_on_bytecode_preparation g) + unat (gd_gas_spent_on_compute g)"
    using sums g by simp
  show "unat (gd_gas_used g) + unat (bd_gas_after_validation b)
      = unat (gd_total_gas_limit g) + unat (bd_gas_spent_on_execution b)"
    using sums parts by linarith
  have "unat per = unat (bd_gas_per_pubdata b)"
    using per by (auto simp: as_u64_def unat_ucast_fits split: if_splits)
  then show "unat (gd_bytes_published g) = unat spent div unat (bd_gas_per_pubdata b)"
    using g(6) by (simp add: unat_div)
qed

section \<open>Lemmas: the tree of gas details\<close>

definition items_forest :: "paint \<Rightarrow> (string \<times> string) list \<Rightarrow> log_tree list" where
  "items_forest paint items = map (\<lambda>(k, v). LogLine (paint [Bold] k @ '': '' @ paint [Dimmed] v)) items"

lemma prints_item: "prints (\<lambda>st. tree_lines paint st b (LogLine (paint [Bold] k @ '': '' @ paint [Dimmed] v))) (fm_item paint b k v)"
  using prints_log [of b "paint [Bold] k @ '': '' @ paint [Dimmed] v"] by (simp add: fm_item_def)

lemma prints_items:
  "i + length items = n \<Longrightarrow> prints (\<lambda>st. forest_lines paint st (items_forest paint items)) (fm_items paint n i items)"
proof (induction items arbitrary: i)
  case Nil
  then show ?case using prints_done by (simp add: items_forest_def)
next
  case (Cons kv items)
  obtain k v where kv: "kv = (k, v)" by fastforce
  have last: "(i = n - Suc 0) = (items = [])" using Cons.prems by (cases items) auto
  show ?case using prints_then [OF prints_item [of paint "i = n - 1" k v] Cons.IH [of "i + 1"]] Cons.prems
    by (simp add: kv last items_forest_def)
qed

definition open_lines :: "paint \<Rightarrow> bool list \<Rightarrow> log_tree list \<Rightarrow> string list" where
  "open_lines paint st ts = concat (map (tree_lines paint st False) ts)"

lemma forest_lines_append: "us \<noteq> [] \<Longrightarrow> forest_lines paint st (ts @ us) = open_lines paint st ts @ forest_lines paint st us"
  by (induction ts) (simp_all add: open_lines_def)

lemma prints_errors:
  "i + length ms < n \<Longrightarrow> prints (\<lambda>st. open_lines paint st (map LogError ms)) (fm_errors paint n i ms)"
proof (induction ms arbitrary: i)
  case Nil
  then show ?case using prints_done by (simp add: open_lines_def)
next
  case (Cons m ms)
  have "\<not> i = n - 1" using Cons.prems by simp
  with prints_then [OF prints_error [of paint False m] Cons.IH [of "i + 1"]] Cons.prems
  show ?case by (simp add: open_lines_def)
qed

lemma prints_tree_section:
  assumes "prints (\<lambda>st. forest_lines paint st ts) p"
  shows "prints (\<lambda>st. tree_lines paint st b (LogSection m ts)) (fm_section m b p)"
  using prints_section [OF assms] by simp

lemma fm_bind_Inr [simp]: "fm_bind (Inr a) f = f a"
  by (simp add: fm_bind_def fun_eq_iff)

definition share_text :: "u256 \<Rightarrow> u256 \<Rightarrow> string" where
  "share_text amount whole = to_human_size amount @ '' gas ('' @ pad_left 2 (decimal (unat amount * 100 div unat whole)) @ ''%)''"

definition gas_tree :: "paint \<Rightarrow> 'f fee_model_config \<Rightarrow> gas_details \<Rightarrow> log_tree" where
  "gas_tree paint config g = LogSection ''[Gas Details]'' (
     LogSection ''Gas Summary'' (items_forest paint
      [(''Limit'', to_human_size (gd_total_gas_limit g)), (''Used'', to_human_size (gd_gas_used g)),
       (''Refunded'', to_human_size (gd_refund_by_operator g)),
       (''Paid:'', to_human_size (gd_total_gas_limit g - gd_refund_by_operator g))])
     # map LogError (gas_warnings g) @
     [LogSection ''Execution Gas Breakdown'' (items_forest paint
      [(''Transaction Setup'', share_text (gd_intrinsic_gas g) (gd_gas_used g)),
       (''Bytecode Preparation'', share_text (gd_gas_spent_on_bytecode_preparation g) (gd_gas_used g)),
       (''Account Validation'', share_text (gd_gas_for_validation g) (gd_gas_used g)),
       (''Computations (Opcodes)'', share_text (gd_gas_spent_on_compute g) (gd_gas_used g))]),
      LogSection ''Transaction Setup Cost Breakdown'' (items_forest paint
      [(''Total Setup Cost'', gas_amount (gd_intrinsic_gas g)),
       (''Fixed Cost'', share_text (gd_intrinsic_overhead g) (gd_intrinsic_gas g)),
       (''Operator Cost'', share_text (gd_operator_overhead g) (gd_intrinsic_gas g))]),
      LogSection ''L1 Publishing Costs'' (items_forest paint
      [(''Published'', to_human_size (ucast (gd_bytes_published g)) @ '' bytes''),
       (''Cost per Byte'', gas_amount (gd_gas_per_pubdata g)),
       (''Total Gas Cost'', gas_amount (ucast (gd_spent_on_pubdata g)))]),
      LogSection ''Block Contribution'' (items_forest paint
      [(''Length Overhead'', gas_amount (gd_overhead_for_length g)), (''Slot Overhead'', gas_amount (gd_overhead_for_slot g)),
       (''Full Block Cost'', ''~'' @ to_human_size (gd_gas_per_pubdata g * ucast (batch_overhead_l1_gas config)) @ '' L2 gas'')])])"

definition share_ok :: "u256 \<Rightarrow> u256 \<Rightarrow> bool" where
  "share_ok amount whole \<longleftrightarrow> unat amount * 100 < 2 ^ 256 \<and> whole \<noteq> 0"

definition printable :: "'f fee_model_config \<Rightarrow> gas_details \<Rightarrow> bool" where
  "printable config g \<longleftrightarrow> gd_refund_by_operator g \<le> gd_total_gas_limit g
     \<and> share_ok (gd_intrinsic_gas g) (gd_gas_used g) \<and> share_ok (gd_gas_spent_on_bytecode_preparation g) (gd_gas_used g)
     \<and> share_ok (gd_gas_for_validation g) (gd_gas_used g) \<and> share_ok (gd_gas_spent_on_compute g) (gd_gas_used g)
     \<and> share_ok (gd_intrinsic_overhead g) (gd_intrinsic_gas g) \<and> share_ok (gd_operator_overhead g) (gd_intrinsic_gas g)
     \<and> unat (gd_gas_per_pubdata g) * unat (batch_overhead_l1_gas config) < 2 ^ 256"

lemma gas_share_eq:
  "gas_share a w = (if share_ok a w then Inr (share_text a w)
     else Inl (Panic (if unat a * 100 < 2 ^ 256 then ''division by zero'' else ''arithmetic operation overflow'')))"
proof (cases "unat a * 100 < 2 ^ 256")
  case True
  then have "unat (a * 100) = unat a * 100" by (simp add: unat_word_ariths)
  with True show ?thesis
    by (simp add: gas_share_def u256_mul_def checked_mul_def u256_div_def share_ok_def share_text_def unat_div)
qed (simp add: gas_share_def u256_mul_def checked_mul_def share_ok_def)

lemma unat_ucast_u64_u256: "unat (ucast (x :: u64) :: u256) = unat x"
  using unat_bounds(1) [of x] by (intro unat_ucast_fits) simp

lemma prints_open: "prints (\<lambda>st. tree_lines paint st False t) p \<Longrightarrow> prints (\<lambda>st. open_lines paint st [t]) p"
  by (simp add: open_lines_def)

lemma prints_last: "prints (\<lambda>st. tree_lines paint st True t) p \<Longrightarrow> prints (\<lambda>st. forest_lines paint st [t]) p"
  by simp

lemma prints_before:
  assumes "prints (\<lambda>st. open_lines paint st ts) p" "prints (\<lambda>st. forest_lines paint st us) q" "us \<noteq> []"
  shows "prints (\<lambda>st. forest_lines paint st (ts @ us)) (fm_then p q)"
  using prints_then [OF assms(1,2)] assms(3) by (simp add: forest_lines_append)

lemma prints_gas_details:
  assumes "printable config g"
  shows "prints (\<lambda>st. tree_lines paint st True (gas_tree paint config g)) (print_gas_details paint g config :: 'e fprinter)"
proof -
  note ok = assms [unfolded printable_def]
  have block: "u256_mul (gd_gas_per_pubdata g) (ucast (batch_overhead_l1_gas config))
      = (Inr (gd_gas_per_pubdata g * ucast (batch_overhead_l1_gas config)) :: ('e, u256) outcome)"
    using ok by (simp add: u256_mul_def checked_mul_def unat_ucast_u64_u256)
  have paid: "u256_sub (gd_total_gas_limit g) (gd_refund_by_operator g)
      = (Inr (gd_total_gas_limit g - gd_refund_by_operator g) :: ('e, u256) outcome)"
    using ok by (simp add: u256_sub_def)
  have flags: "(0 = 1 + length ws + 1 + 1 + 1 + 1 - 1) = False" "(1 + length ws = 1 + length ws + 1 + 1 + 1 + 1 - 1) = False"
    "(1 + length ws + 1 = 1 + length ws + 1 + 1 + 1 + 1 - 1) = False" "(1 + length ws + 2 = 1 + length ws + 1 + 1 + 1 + 1 - 1) = False"
    "(1 + length ws + 3 = 1 + length ws + 1 + 1 + 1 + 1 - 1) = True" for ws :: "string list"
    by simp_all
  note first = prints_open [OF prints_tree_section [OF prints_items]]
  note final = prints_last [OF prints_tree_section [OF prints_items]]
  have split: "x # ws @ [b, c, d, e] = [x] @ ws @ [b] @ [c] @ [d] @ [e]" for x b c d e :: log_tree and ws by simp
  have shares: "gas_share a w = (Inr (share_text a w) :: ('e, string) outcome)" if "share_ok a w" for a w
    using that by (simp add: gas_share_eq)
  show ?thesis
    unfolding print_gas_details_def gas_tree_def Let_def gas_summary_section_def execution_breakdown_section_def
      transaction_setup_section_def l1_publishing_section_def block_section_def flags split
    unfolding block paid fm_bind_Inr
    using ok by (simp only: shares fm_bind_Inr)
      (intro prints_tree_section prints_before first prints_errors final; simp)
qed

text \<open>A printer that prints something when a condition holds and panics otherwise.\<close>

definition panics :: "'e fprinter \<Rightarrow> bool" where
  "panics p \<longleftrightarrow> (\<forall>f s. \<not> sh_poisoned s \<longrightarrow> (\<exists>m st. p (f, s) = (Inl (Panic m), st)))"

definition prints_iff :: "bool \<Rightarrow> 'e fprinter \<Rightarrow> bool" where
  "prints_iff c p \<longleftrightarrow> (if c then \<exists>ls. prints ls p else panics p)"

lemma panics_then: "panics p \<Longrightarrow> panics (fm_then p q)" "prints ls p \<Longrightarrow> panics q \<Longrightarrow> panics (fm_then p q)"
  by (auto simp: panics_def prints_def fm_then_def)
    (metis (mono_tags, lifting) old.prod.case sum.case(1))

lemma prints_iff_then: "prints_iff c p \<Longrightarrow> prints_iff d q \<Longrightarrow> prints_iff (c \<and> d) (fm_then p q)"
  unfolding prints_iff_def using prints_then panics_then by (metis (full_types))

lemma prints_iff_printer: "prints ls p \<Longrightarrow> prints_iff True p"
  by (auto simp: prints_iff_def)

lemma prints_iff_section:
  fixes p :: "'e fprinter"
  assumes "prints_iff c p"
  shows "prints_iff c (fm_section m b p)"
proof (cases c)
  case True
  with assms obtain ls where "prints ls p" by (auto simp: prints_iff_def)
  from prints_section [OF this] True show ?thesis unfolding prints_iff_def by (auto intro: exI)
next
  case False
  then have "panics (fm_then p (\<lambda>(f, s). (Inr (), exit_scope f, s)))" (is "panics ?q")
    using assms panics_then(1) by (auto simp: prints_iff_def)
  moreover have "fm_section m b p (f, s) = ?q (enter_scope b f, say [build_prefix (fm_sibling_stack f) b @ m] s)"
    if "\<not> sh_poisoned s" for f s
    using prints_log [of b m, where 'a = 'e] that by (simp add: fm_section_def fm_then_def [of "format_log b m"] prints_def
        fm_then_def [of "\<lambda>(f, s). (Inr (), enter_scope b f, s)"])
  ultimately show ?thesis using False by (simp add: prints_iff_def panics_def)
qed

lemma prints_iff_bind:
  "r = (if c then Inr a else Inl (Panic m)) \<Longrightarrow> prints_iff d (f a) \<Longrightarrow> prints_iff (c \<and> d) (fm_bind r f)"
  by (auto simp: prints_iff_def fm_bind_def panics_def prints_def)

lemma prints_iff_items: "length items = n \<Longrightarrow> prints_iff True (fm_items paint n 0 items)"
  by (rule prints_iff_printer [OF prints_items]) simp

lemma prints_iff_gas_details: "prints_iff (printable config g) (print_gas_details paint g config :: 'e fprinter)"
proof -
  let ?r = "gd_refund_by_operator g \<le> gd_total_gas_limit g"
  let ?x = "share_ok (gd_intrinsic_gas g) (gd_gas_used g) \<and> share_ok (gd_gas_spent_on_bytecode_preparation g) (gd_gas_used g)
     \<and> share_ok (gd_gas_for_validation g) (gd_gas_used g) \<and> share_ok (gd_gas_spent_on_compute g) (gd_gas_used g) \<and> True"
  let ?t = "share_ok (gd_intrinsic_overhead g) (gd_intrinsic_gas g) \<and> share_ok (gd_operator_overhead g) (gd_intrinsic_gas g) \<and> True"
  let ?b = "unat (gd_gas_per_pubdata g) * unat (batch_overhead_l1_gas config) < 2 ^ 256"
  have "prints_iff (?r \<and> True) (gas_summary_section paint g :: 'e fprinter)"
    unfolding gas_summary_section_def u256_sub_def by (intro prints_iff_bind [OF refl] prints_iff_items) simp
  moreover have "prints_iff ?x (execution_breakdown_section paint g :: 'e fprinter)"
    unfolding execution_breakdown_section_def by (intro prints_iff_bind [OF gas_share_eq] prints_iff_items) simp
  moreover have "prints_iff ?t (transaction_setup_section paint g :: 'e fprinter)"
    unfolding transaction_setup_section_def by (intro prints_iff_bind [OF gas_share_eq] prints_iff_items) simp
  moreover have "prints_iff True (l1_publishing_section paint g :: 'e fprinter)"
    unfolding l1_publishing_section_def by (rule prints_iff_items) simp
  moreover have "prints_iff (?b \<and> True) (block_section paint config g :: 'e fprinter)"
  proof -
    have mul: "u256_mul (gd_gas_per_pubdata g) (ucast (batch_overhead_l1_gas config)) =
      (if ?b then Inr (gd_gas_per_pubdata g * ucast (batch_overhead_l1_gas config))
       else Inl (Panic ''arithmetic operation overflow'') :: ('e, u256) outcome)"
      by (simp add: u256_mul_def checked_mul_def unat_ucast_u64_u256)
    show ?thesis unfolding block_section_def by (intro prints_iff_bind [OF mul] prints_iff_items) simp
  qed
  moreover have "prints_iff True (fm_errors paint (1 + length ws + 1 + 1 + 1 + 1) 1 ws :: 'e fprinter)" for ws
    by (rule prints_iff_printer [OF prints_errors]) simp
  ultimately have "prints_iff ((?r \<and> True) \<and> True \<and> ?x \<and> ?t \<and> True \<and> ?b \<and> True) (print_gas_details paint g config :: 'e fprinter)"
    unfolding print_gas_details_def Let_def by (intro prints_iff_section prints_iff_then)
  then show ?thesis by (simp add: printable_def conj_ac)
qed

text \<open>C25: For a report of the bootloader whose figures are consistent the gas details are printed as a tree: each
  line hangs under its section, the last of several siblings and no other gets the corner, and the lock of the shell stays usable.
  The shares shown are of the whole gas, which is what was consumed before and during execution. When the operator
  refunds more than the limit, or no gas was used, or none for the setup, the printing panics.\<close>

theorem gas_details_printed:
  assumes "\<not> sh_poisoned s" and "compute_gas_details b spent = (Inr g :: (string, gas_details) outcome)"
  shows "(if printable config g
      then display_detailed_gas_info paint (Some (Inr b)) spent config s
        = (Inr (), say (tree_lines paint [] True (gas_tree paint config g)) s)
      else \<exists>m s'. display_detailed_gas_info paint (Some (Inr b)) spent config s = (Inl (Panic m), s'))
    \<and> unat (gd_gas_used g) + unat (bd_gas_after_validation b) = unat (gd_total_gas_limit g) + unat (bd_gas_spent_on_execution b)
    \<and> unat (gd_gas_used g) = unat (gd_intrinsic_gas g) + unat (gd_gas_for_validation g)
        + unat (gd_gas_spent_on_bytecode_preparation g) + unat (gd_gas_spent_on_compute g)"
proof -
  note sums = compute_gas_details_sum(2,1) [OF assms(2)]
  show ?thesis
  proof (cases "printable config g")
    case True
    then show ?thesis using prints_gas_details [OF True, of paint, where 'e = string] assms sums
      by (simp add: display_detailed_gas_info_def prints_def formatter_new_def)
  next
    case False
    then obtain m f' s' where "print_gas_details paint g config (formatter_new, s) = (Inl (Panic m) :: (string, unit) outcome, f', s')"
      using prints_iff_gas_details [of config g paint, where 'e = string] assms(1)
      unfolding prints_iff_def panics_def by (metis prod.collapse)
    then show ?thesis using False assms(2) sums by (simp add: display_detailed_gas_info_def)
  qed
qed

definition sample_debug :: bootloader_debug where
  "sample_debug = \<lparr>bd_total_gas_limit_from_user = 1000, bd_reserved_gas = 100, bd_gas_per_pubdata = 50,
     bd_gas_limit_after_intrinsic = 800, bd_gas_after_validation = 750, bd_gas_spent_on_execution = 300,
     bd_gas_spent_on_bytecode_preparation = 20, bd_refund_computed = 450, bd_refund_by_operator = 450,
     bd_intrinsic_overhead = 60, bd_required_overhead = 40, bd_operator_overhead = 40, bd_overhead_for_length = 10,
     bd_overhead_for_slot = 10\<rparr>"

definition sample_details :: gas_details where
  "sample_details = \<lparr>gd_total_gas_limit = 900, gd_intrinsic_gas = 100, gd_gas_for_validation = 50,
     gd_gas_spent_on_compute = 280, gd_gas_used = 450, gd_bytes_published = 4, gd_spent_on_pubdata = 200,
     gd_gas_spent_on_bytecode_preparation = 20, gd_refund_computed = 450, gd_refund_by_operator = 450,
     gd_required_overhead = 40, gd_operator_overhead = 40, gd_intrinsic_overhead = 60, gd_overhead_for_length = 10,
     gd_overhead_for_slot = 10, gd_gas_per_pubdata = 50, gd_total_gas_limit_from_user = 1000,
     gd_gas_spent_on_execution = 300, gd_gas_limit_after_intrinsic = 800, gd_gas_after_validation = 750, gd_reserved_gas = 100\<rparr>"

lemma sample_details_computed: "compute_gas_details sample_debug 200 = Inr sample_details"
  by (simp add: compute_gas_details_def sample_debug_def sample_details_def u256_sub_def u256_add_def checked_add_def
      saturating_sub_def as_u64_def Let_def del: and_then_Inr_iff)

theorem gas_details_printed_witness:
  "\<exists>config :: nat fee_model_config. printable config sample_details
     \<and> display_detailed_gas_info (\<lambda>st t. t) (Some (Inr sample_debug)) 200 config shell_new
       = (Inr (), say (tree_lines (\<lambda>st t. t) [] True (gas_tree (\<lambda>st t. t) config sample_details)) shell_new)"
proof -
  define config :: "nat fee_model_config" where "config = \<lparr>minimal_l2_gas_price = 1, compute_overhead_part = 0,
    pubdata_overhead_part = 1, batch_overhead_l1_gas = 800000, max_gas_per_batch = 1, max_pubdata_per_batch = 1\<rparr>"
  then have "printable config sample_details"
    by (simp add: printable_def share_ok_def sample_details_def config_def)
  then show ?thesis
    using gas_details_printed [of shell_new sample_debug 200 sample_details config "\<lambda>st t. t"] sample_details_computed
    by (auto simp: shell_new_def)
qed

end
