(* ===== verification/Trace_Decoder.thy ===== *)
theory Trace_Decoder
  imports Call_Traces Selector_Resolver
begin

text \<open>
  Decoding call traces: \<open>crates/traces/src/decode/\<close>, \<open>crates/traces/src/abi_utils.rs\<close> and
  \<open>crates/core/src/node/traces/decoder.rs\<close>, and the whole way from the calls of a transaction to the printed traces.

  The ABI codec is the record \<open>abi_api\<close>. The signature identifier sits behind a lock that every clone of the decoder
  shares; it is threaded through the functions that ask it.
\<close>

section \<open>The ABI\<close>

record abi_param =
  ap_name :: string
  ap_ty :: string
  ap_indexed :: bool

record abi_event =
  ae_name :: string
  ae_inputs :: "abi_param list"
  ae_anonymous :: bool

record abi_function =
  af_name :: string
  af_inputs :: "abi_param list"
  af_outputs :: "abi_param list"

record abi_error =
  er_name :: string
  er_inputs :: "abi_param list"

datatype dyn_sol_value =
    DynBool bool
  | DynInt u256 nat
  | DynUint u256 nat
  | DynFixedBytes bytes nat
  | DynAddress address
  | DynFunction bytes
  | DynBytes bytes
  | DynString string
  | DynArray "dyn_sol_value list"
  | DynFixedArray "dyn_sol_value list"
  | DynTuple "dyn_sol_value list"
  | DynCustomStruct string "string list" "dyn_sol_value list"

datatype contract_error = CeRevert string | CePanic string

record abi_api =
  ab_sign_and_abs :: "u256 \<Rightarrow> bool \<times> u256"
  ab_signature :: "abi_function \<Rightarrow> string"
  ab_function_selector :: "abi_function \<Rightarrow> bytes"
  ab_event_selector :: "abi_event \<Rightarrow> h256"
  ab_error_selector :: "abi_error \<Rightarrow> bytes"
  ab_decode_input :: "abi_function \<Rightarrow> bytes \<Rightarrow> string + dyn_sol_value list"
  ab_decode_output :: "abi_function \<Rightarrow> bytes \<Rightarrow> string + dyn_sol_value list"
  ab_decode_log :: "abi_event \<Rightarrow> log_data \<Rightarrow> (dyn_sol_value list \<times> dyn_sol_value list) option"
  ab_decode_error :: "abi_error \<Rightarrow> bytes \<Rightarrow> string + dyn_sol_value list"
  ab_contract_error :: "bytes \<Rightarrow> contract_error option"
  ab_decode_string :: "bytes \<Rightarrow> string option"
  ab_parse_function :: "string \<Rightarrow> abi_function option"
  ab_parse_event :: "string \<Rightarrow> abi_event option"
  ab_parse_error :: "string \<Rightarrow> abi_error option"
  ab_hex_decode :: "string \<Rightarrow> string + bytes"
  ab_selector_type :: "abi_param \<Rightarrow> string"
  ab_coerce :: "string \<Rightarrow> string \<Rightarrow> string + dyn_sol_value"
  ab_encode_input :: "abi_function \<Rightarrow> dyn_sol_value list \<Rightarrow> string + bytes"
  ab_encode_packed :: "dyn_sol_value \<Rightarrow> bytes"

section \<open>Values\<close>

fun decode_value :: "abi_api \<Rightarrow> dyn_sol_value \<Rightarrow> decoded_value"
  and decode_values :: "abi_api \<Rightarrow> dyn_sol_value list \<Rightarrow> decoded_value list" where
  "decode_value ab (DynBool b) = DecBool b"
| "decode_value ab (DynInt i bits) = (case ab_sign_and_abs ab i of
       (False, v) \<Rightarrow> DecInt (signed_u256_from v)
     | (True, v) \<Rightarrow> DecInt \<lparr>su_sign = Negative, su_inner = v\<rparr>)"
| "decode_value ab (DynUint u bits) = DecUint u"
| "decode_value ab (DynFixedBytes word sz) = DecFixedBytes word sz"
| "decode_value ab (DynAddress a) = DecAddress \<lparr>la_label = None, la_address = a\<rparr>"
| "decode_value ab (DynFunction f) = DecFunction f"
| "decode_value ab (DynBytes bs) = DecBytes bs"
| "decode_value ab (DynString s) = DecString s"
| "decode_value ab (DynArray vs) = DecArray (decode_values ab vs)"
| "decode_value ab (DynFixedArray vs) = DecFixedArray (decode_values ab vs)"
| "decode_value ab (DynTuple vs) = DecTuple (decode_values ab vs)"
| "decode_value ab (DynCustomStruct name prop_names vs) = DecCustomStruct name prop_names (decode_values ab vs)"
| "decode_values ab [] = []"
| "decode_values ab (v # vs) = decode_value ab v # decode_values ab vs"

fun label_value :: "(address \<rightharpoonup> string) \<Rightarrow> decoded_value \<Rightarrow> decoded_value"
  and label_values :: "(address \<rightharpoonup> string) \<Rightarrow> decoded_value list \<Rightarrow> decoded_value list" where
  "label_value labeler (DecAddress a) =
     DecAddress (if la_label a = None then a\<lparr>la_label := labeler (la_address a)\<rparr> else a)"
| "label_value labeler (DecArray vs) = DecArray (label_values labeler vs)"
| "label_value labeler (DecFixedArray vs) = DecFixedArray (label_values labeler vs)"
| "label_value labeler (DecTuple vs) = DecTuple (label_values labeler vs)"
| "label_value labeler (DecCustomStruct name prop_names vs) = DecCustomStruct name prop_names (label_values labeler vs)"
| "label_value labeler (DecBool b) = DecBool b"
| "label_value labeler (DecInt v) = DecInt v"
| "label_value labeler (DecUint v) = DecUint v"
| "label_value labeler (DecFixedBytes word sz) = DecFixedBytes word sz"
| "label_value labeler (DecFunction f) = DecFunction f"
| "label_value labeler (DecBytes bs) = DecBytes bs"
| "label_value labeler (DecString s) = DecString s"
| "label_values labeler [] = []"
| "label_values labeler (v # vs) = label_value labeler v # label_values labeler vs"

section \<open>ABI helpers\<close>

definition coerce_value :: "abi_api \<Rightarrow> string \<Rightarrow> string \<Rightarrow> string + dyn_sol_value" where
  "coerce_value ab ty arg = ab_coerce ab ty arg"

fun encode_args :: "abi_api \<Rightarrow> abi_param list \<Rightarrow> string list \<Rightarrow> string + dyn_sol_value list" where
  "encode_args ab (input # inputs) (arg # args) =
     and_then (coerce_value ab (ab_selector_type ab input) arg) (\<lambda>v.
     and_then (encode_args ab inputs args) (\<lambda>vs. Inr (v # vs)))"
| "encode_args ab inputs args = Inr []"

definition encode_function_args :: "abi_api \<Rightarrow> abi_function \<Rightarrow> string list \<Rightarrow> string + bytes" where
  "encode_function_args ab func args = and_then (encode_args ab (af_inputs func) args) (ab_encode_input ab func)"

definition encode_function_args_packed :: "abi_api \<Rightarrow> abi_function \<Rightarrow> string list \<Rightarrow> string + bytes" where
  "encode_function_args_packed ab func args =
     and_then (encode_args ab (af_inputs func) args) (\<lambda>vs. Inr (concat (map (ab_encode_packed ab) vs)))"

definition get_func :: "abi_api \<Rightarrow> string \<Rightarrow> string + abi_function" where
  "get_func ab sig = (case ab_parse_function ab sig of
     None \<Rightarrow> Inl ''could not parse function signature'' | Some f \<Rightarrow> Inr f)"

definition get_event :: "abi_api \<Rightarrow> string \<Rightarrow> string + abi_event" where
  "get_event ab sig = (case ab_parse_event ab sig of
     None \<Rightarrow> Inl ''could not parse event signature'' | Some e \<Rightarrow> Inr e)"

definition get_error :: "abi_api \<Rightarrow> string \<Rightarrow> string + abi_error" where
  "get_error ab sig = (case ab_parse_error ab sig of
     None \<Rightarrow> Inl ''could not parse event signature'' | Some e \<Rightarrow> Inr e)"

definition result_ok :: "'e + 'a \<Rightarrow> 'a option" where
  "result_ok r = (case r of Inl _ \<Rightarrow> None | Inr a \<Rightarrow> Some a)"

definition abi_decode_calldata :: "abi_api \<Rightarrow> string \<Rightarrow> string \<Rightarrow> bool \<Rightarrow> bool \<Rightarrow> string + decoded_value list" where
  "abi_decode_calldata ab sig calldata input fn_selector =
     and_then (get_func ab sig) (\<lambda>func.
     and_then (ab_hex_decode ab calldata) (\<lambda>calldata.
     let calldata = (if input \<and> fn_selector \<and> length calldata \<ge> 4 then drop 4 calldata else calldata)
     in and_then (if input then ab_decode_input ab func calldata else ab_decode_output ab func calldata) (\<lambda>res.
        if res = [] then Inl ''no data was decoded'' else Inr (decode_values ab res))))"

text \<open>\<open>get_indexed_event\<close> and \<open>get_indexed_event_from_vm_event\<close>: the same code, for a log and for an event of the VM.\<close>

definition indexed_for_topics :: "abi_event \<Rightarrow> nat \<Rightarrow> abi_event" where
  "indexed_for_topics event topics =
     (if \<not> ae_anonymous event \<and> topics > 1
      then let indexed_params = topics - 1;
               num_inputs = length (ae_inputs event);
               num_address_params = length (filter (\<lambda>p. ap_ty p = ''address'') (ae_inputs event))
           in event\<lparr>ae_inputs := map (\<lambda>(index, param).
                let param = (if ap_name param = [] then param\<lparr>ap_name := ''param'' @ decimal index\<rparr> else param)
                in if num_inputs = indexed_params \<or> num_address_params = indexed_params \<and> ap_ty param = ''address''
                   then param\<lparr>ap_indexed := True\<rparr> else param)
                (enumerate 0 (ae_inputs event))\<rparr>
      else event)"

definition get_indexed_event :: "abi_event \<Rightarrow> log_data \<Rightarrow> abi_event" where
  "get_indexed_event event raw_log = indexed_for_topics event (length (ld_topics raw_log))"

definition get_indexed_event_from_vm_event :: "abi_event \<Rightarrow> vm_event \<Rightarrow> abi_event" where
  "get_indexed_event_from_vm_event event e = indexed_for_topics event (length (ev_indexed_topics e))"

definition vm_event_to_log_data :: "vm_event \<Rightarrow> log_data" where
  "vm_event_to_log_data e = log_data_new_unchecked (ev_indexed_topics e) (ev_value e)"

definition indexed_inputs_zksync :: "vm_event \<Rightarrow> nat" where
  "indexed_inputs_zksync e = length (ev_indexed_topics e)"

fun reconstruct_loop :: "abi_param list \<Rightarrow> dyn_sol_value list \<Rightarrow> dyn_sol_value list \<Rightarrow> nat \<Rightarrow> nat \<Rightarrow> dyn_sol_value list" where
  "reconstruct_loop [] ixs body indexed unindexed = []"
| "reconstruct_loop (input # inputs) ixs body indexed unindexed =
     (if ap_indexed input \<and> indexed < length ixs
      then ixs ! indexed # reconstruct_loop inputs ixs body (Suc indexed) unindexed
      else if unindexed < length body
      then body ! unindexed # reconstruct_loop inputs ixs body indexed (Suc unindexed)
      else reconstruct_loop inputs ixs body indexed unindexed)"

definition reconstruct_params :: "abi_event \<Rightarrow> dyn_sol_value list \<times> dyn_sol_value list \<Rightarrow> dyn_sol_value list" where
  "reconstruct_params event decoded = reconstruct_loop (ae_inputs event) (fst decoded) (snd decoded) 0 0"

section \<open>Reverts\<close>

type_synonym revert_decoder = "bytes \<rightharpoonup> abi_error list"

definition push_error :: "abi_api \<Rightarrow> abi_error \<Rightarrow> revert_decoder \<Rightarrow> revert_decoder" where
  "push_error ab e errors =
     (let selector = ab_error_selector ab e in errors(selector \<mapsto> case_option [] id (errors selector) @ [e]))"

definition extend_from_abi :: "abi_api \<Rightarrow> abi_error list \<Rightarrow> revert_decoder \<Rightarrow> revert_decoder" where
  "extend_from_abi ab abi errors = fold (push_error ab) abi errors"

definition extend_from_abis :: "abi_api \<Rightarrow> abi_error list list \<Rightarrow> revert_decoder \<Rightarrow> revert_decoder" where
  "extend_from_abis ab abis errors = fold (extend_from_abi ab) abis errors"

fun first_decoded :: "abi_api \<Rightarrow> abi_error list \<Rightarrow> bytes \<Rightarrow> decoded_error option" where
  "first_decoded ab [] data = None"
| "first_decoded ab (e # es) data = (case ab_decode_error ab e data of
       Inr decoded \<Rightarrow> Some (DeCustomError (er_name e) (decode_values ab decoded))
     | Inl _ \<Rightarrow> first_decoded ab es data)"

definition maybe_decode :: "abi_api \<Rightarrow> revert_decoder \<Rightarrow> bytes \<Rightarrow> decoded_error option" where
  "maybe_decode ab errors err =
     (if length err < 4 then (if err = [] then None else Some (DeRaw err))
      else case ab_contract_error ab err of
          Some (CeRevert reason) \<Rightarrow> Some (DeRevert reason)
        | Some (CePanic reason) \<Rightarrow> Some (DePanic reason)
        | None \<Rightarrow>
            (case Option.bind (errors (take 4 err)) (\<lambda>es. first_decoded ab es (drop 4 err)) of
               Some e \<Rightarrow> Some e
             | None \<Rightarrow>
                 (case ab_decode_string ab err of
                    Some s \<Rightarrow> Some (DeRevert s)
                  | None \<Rightarrow> if is_ascii err then Some (DeRevert (text_of_bytes err))
                      else Some (DeGenericCustomError (take 4 err) (drop 4 err)))))"

definition revert_decode :: "abi_api \<Rightarrow> revert_decoder \<Rightarrow> bytes \<Rightarrow> decoded_error" where
  "revert_decode ab errors err = (case maybe_decode ab errors err of
     Some e \<Rightarrow> e | None \<Rightarrow> if err = [] then DeEmpty else DeRaw err)"

section \<open>The decoder\<close>

record call_trace_decoder =
  td_contracts :: "address \<rightharpoonup> string"
  td_labels :: "address \<rightharpoonup> string"
  td_receive_contracts :: "address list"
  td_fallback_contracts :: "address \<rightharpoonup> string list"
  td_events :: "h256 \<times> nat \<rightharpoonup> abi_event list"
  td_revert_decoder :: revert_decoder
  td_functions :: "bytes \<rightharpoonup> abi_function list"

definition call_trace_decoder_new ::
  "known_addresses \<Rightarrow> (bytes \<rightharpoonup> abi_function list) \<Rightarrow> (h256 \<times> nat \<rightharpoonup> abi_event list) \<Rightarrow> call_trace_decoder" where
  "call_trace_decoder_new known functions events = \<lparr>td_contracts = Map.empty,
     td_labels = map_option ka_name \<circ> known, td_receive_contracts = [], td_fallback_contracts = Map.empty,
     td_events = events, td_revert_decoder = Map.empty, td_functions = functions\<rparr>"

definition with_labels :: "(address \<times> string) list \<Rightarrow> call_trace_decoder \<Rightarrow> call_trace_decoder" where
  "with_labels labels d = d\<lparr>td_labels := fold (\<lambda>(a, l) m. m(a \<mapsto> l)) labels (td_labels d)\<rparr>"

definition indexed_inputs :: "abi_event \<Rightarrow> nat" where
  "indexed_inputs event = length (filter ap_indexed (ae_inputs event))"

definition call_trace_decoder_default ::
  "abi_api \<Rightarrow> known_addresses \<Rightarrow> abi_function list \<Rightarrow> abi_event list \<Rightarrow> call_trace_decoder" where
  "call_trace_decoder_default ab known console_functions console_events =
     call_trace_decoder_new known
       (fold (\<lambda>func m. m(ab_function_selector ab func \<mapsto> [func])) console_functions Map.empty)
       (fold (\<lambda>event m. m((ab_event_selector ab event, indexed_inputs event) \<mapsto> [event])) console_events Map.empty)"

definition default_return_data :: "abi_api \<Rightarrow> call_trace_decoder \<Rightarrow> call_trace \<Rightarrow> decoded_return_data" where
  "default_return_data ab d trace =
     (if ct_success trace then NormalReturn []
      else ReturnRevert (RevertError (revert_decode ab (td_revert_decoder d) (ca_output (ct_call trace)))))"

definition decode_function_input :: "abi_api \<Rightarrow> call_trace_decoder \<Rightarrow> call_trace \<Rightarrow> abi_function \<Rightarrow> decoded_call_data" where
  "decode_function_input ab d trace func =
     (let input = ca_input (ct_call trace);
          args = (if length input \<ge> 4
            then map_option (\<lambda>vs. label_values (td_labels d) (decode_values ab vs))
              (result_ok (ab_decode_input ab func (drop 4 input)))
            else None)
      in \<lparr>dc_signature = ab_signature ab func, dc_args = case_option [] id args\<rparr>)"

fun first_output :: "abi_api \<Rightarrow> abi_function list \<Rightarrow> bytes \<Rightarrow> dyn_sol_value list option" where
  "first_output ab [] out = None"
| "first_output ab (f # fs) out = (case ab_decode_output ab f out of Inr vs \<Rightarrow> Some vs | Inl _ \<Rightarrow> first_output ab fs out)"

definition decode_function_output ::
  "abi_api \<Rightarrow> call_trace_decoder \<Rightarrow> call_trace \<Rightarrow> abi_function list \<Rightarrow> decoded_return_data" where
  "decode_function_output ab d trace funcs =
     (if \<not> ct_success trace then default_return_data ab d trace
      else case first_output ab funcs (ca_output (ct_call trace)) of
          Some vs \<Rightarrow> NormalReturn (label_values (td_labels d) (decode_values ab vs))
        | None \<Rightarrow> NormalReturn [])"

text \<open>A lookup in the identifier, which is there or not.\<close>

definition ask_identifier ::
  "(signatures_identifier \<Rightarrow> 'a option \<times> signatures_identifier) \<Rightarrow> signatures_identifier option
     \<Rightarrow> 'a list \<times> signatures_identifier option" where
  "ask_identifier ask si = (case si of
       None \<Rightarrow> ([], None)
     | Some i \<Rightarrow> let (found, i) = ask i in (case_option [] (\<lambda>x. [x]) found, Some i))"

definition functions_for ::
  "abi_api \<Rightarrow> resolver_env \<Rightarrow> call_trace_decoder \<Rightarrow> bytes \<Rightarrow> signatures_identifier option
     \<Rightarrow> abi_function list \<times> signatures_identifier option" where
  "functions_for ab env d selector si = (case td_functions d selector of
       Some fs \<Rightarrow> (fs, si)
     | None \<Rightarrow> ask_identifier (identify_function env (\<lambda>s. result_ok (get_func ab s)) selector) si)"

definition decode_function ::
  "abi_api \<Rightarrow> resolver_env \<Rightarrow> call_trace_decoder \<Rightarrow> call_trace \<Rightarrow> signatures_identifier option
     \<Rightarrow> decoded_call_trace \<times> signatures_identifier option" where
  "decode_function ab env d trace si =
     (let label = td_labels d (ct_address trace);
          cdata = ca_input (ct_call trace)
      in if length cdata \<ge> 4
         then (let (functions, si) = functions_for ab env d (take 4 cdata) si
               in case functions of
                    [] \<Rightarrow> (\<lparr>dt_label = label, dt_return_data = default_return_data ab d trace, dt_call_data = None\<rparr>, si)
                  | func # _ \<Rightarrow>
                      let call_data = decode_function_input ab d trace func;
                          call_data = (case td_fallback_contracts d (ct_address trace) of
                            Some fallback_functions \<Rightarrow>
                              if ab_signature ab func \<notin> set fallback_functions
                              then call_data\<lparr>dc_signature := ''fallback()''\<rparr> else call_data
                          | None \<Rightarrow> call_data)
                      in (\<lparr>dt_label = label, dt_return_data = decode_function_output ab d trace functions,
                           dt_call_data = Some call_data\<rparr>, si))
         else (let has_receive = ct_address trace \<in> set (td_receive_contracts d);
                   signature = (if cdata = [] \<and> has_receive then ''receive()'' else ''fallback()'');
                   args = (if cdata = [] then [] else [DecBytes cdata])
               in (\<lparr>dt_label = label, dt_return_data = default_return_data ab d trace,
                    dt_call_data = Some \<lparr>dc_signature = signature, dc_args = args\<rparr>\<rparr>, si)))"

definition topic_bytes :: "h256 \<Rightarrow> bytes" where
  "topic_bytes t = big_endian 32 (unat t)"

definition events_for ::
  "abi_api \<Rightarrow> resolver_env \<Rightarrow> call_trace_decoder \<Rightarrow> vm_event \<Rightarrow> h256 \<Rightarrow> signatures_identifier option
     \<Rightarrow> abi_event list \<times> signatures_identifier option" where
  "events_for ab env d e t0 si = (case td_events d (t0, indexed_inputs_zksync e - 1) of
       Some es \<Rightarrow> (es, si)
     | None \<Rightarrow> let (es, si) = ask_identifier (identify_event env (\<lambda>s. result_ok (get_event ab s)) (topic_bytes t0)) si
         in (map (\<lambda>event. get_indexed_event_from_vm_event event e) es, si))"

fun first_event :: "abi_api \<Rightarrow> call_trace_decoder \<Rightarrow> log_data \<Rightarrow> abi_event list \<Rightarrow> decoded_call_event" where
  "first_event ab d l [] = decoded_call_event_default"
| "first_event ab d l (event # es) = (case ab_decode_log ab event l of
       Some decoded \<Rightarrow> \<lparr>de_name = Some (ae_name event),
         de_params = Some (map (\<lambda>(param, input). (ap_name input, label_value (td_labels d) (decode_value ab param)))
           (zip (reconstruct_params event decoded) (ae_inputs event)))\<rparr>
     | None \<Rightarrow> first_event ab d l es)"

definition decode_event ::
  "abi_api \<Rightarrow> resolver_env \<Rightarrow> call_trace_decoder \<Rightarrow> vm_event \<Rightarrow> signatures_identifier option
     \<Rightarrow> decoded_call_event \<times> signatures_identifier option" where
  "decode_event ab env d e si = (case ev_indexed_topics e of
       [] \<Rightarrow> (decoded_call_event_default, si)
     | t0 # _ \<Rightarrow> let (events, si) = events_for ab env d e t0 si
         in (first_event ab d (vm_event_to_log_data e) events, si))"

fun decode_logs ::
  "abi_api \<Rightarrow> resolver_env \<Rightarrow> call_trace_decoder \<Rightarrow> call_log list \<Rightarrow> signatures_identifier option
     \<Rightarrow> call_log list \<times> signatures_identifier option" where
  "decode_logs ab env d [] si = ([], si)"
| "decode_logs ab env d (l # ls) si =
     (let (decoded, si) = decode_event ab env d (cl_raw_log l) si;
          (ls, si) = decode_logs ab env d ls si
      in (l\<lparr>cl_decoded := decoded\<rparr> # ls, si))"

fun populate_traces ::
  "abi_api \<Rightarrow> resolver_env \<Rightarrow> call_trace_decoder \<Rightarrow> call_trace_arena \<Rightarrow> signatures_identifier option
     \<Rightarrow> call_trace_arena \<times> signatures_identifier option" where
  "populate_traces ab env d [] si = ([], si)"
| "populate_traces ab env d (n # ns) si =
     (let (decoded, si) = decode_function ab env d (tn_trace n) si;
          (ls, si) = decode_logs ab env d (tn_logs n) si;
          (ns, si) = populate_traces ab env d ns si
      in (n\<lparr>tn_trace := (tn_trace n)\<lparr>ct_decoded := decoded\<rparr>, tn_logs := ls\<rparr> # ns, si))"

text \<open>\<open>Itertools::unique\<close> keeps the first of equal items.\<close>

definition unique :: "'a list \<Rightarrow> 'a list" where
  "unique xs = rev (remdups (rev xs))"

definition traced_events :: "call_trace_arena \<Rightarrow> h256 list" where
  "traced_events nodes = unique (concat (map (\<lambda>n.
     concat (map (\<lambda>l. case ev_indexed_topics (cl_raw_log l) of [] \<Rightarrow> [] | t # _ \<Rightarrow> [t]) (tn_logs n))) nodes))"

definition traced_functions :: "call_trace_decoder \<Rightarrow> call_trace_arena \<Rightarrow> bytes list" where
  "traced_functions d nodes = filter (\<lambda>s. td_functions d s = None)
     (map (take 4) (filter (\<lambda>input. length input \<ge> 4) (map (ca_input \<circ> ct_call \<circ> tn_trace) nodes)))"

definition prefetch_signatures ::
  "abi_api \<Rightarrow> resolver_env \<Rightarrow> call_trace_decoder \<Rightarrow> call_trace_arena \<Rightarrow> signatures_identifier option
     \<Rightarrow> signatures_identifier option" where
  "prefetch_signatures ab env d nodes si = (case si of
       None \<Rightarrow> None
     | Some i \<Rightarrow>
         let i = snd (identify_events env (map topic_bytes (traced_events nodes)) (\<lambda>s. result_ok (get_event ab s)) i);
             i = snd (identify_functions env (traced_functions d nodes) (\<lambda>s. result_ok (get_func ab s)) i)
         in Some i)"

definition decode_trace_arena ::
  "abi_api \<Rightarrow> resolver_env \<Rightarrow> call_trace_decoder \<Rightarrow> call_trace_arena \<Rightarrow> signatures_identifier option
     \<Rightarrow> call_trace_arena \<times> signatures_identifier option" where
  "decode_trace_arena ab env d arena si = populate_traces ab env d arena (prefetch_signatures ab env d arena si)"

text \<open>
  From the calls of a transaction to the text of its traces, as the batch executor, the gas estimation and the
  read-only calls do it when the verbosity asks for traces.
\<close>

definition traces_output ::
  "nat \<Rightarrow> text_api \<Rightarrow> abi_api \<Rightarrow> resolver_env \<Rightarrow> bool \<Rightarrow> known_addresses \<Rightarrow> call_trace_decoder \<Rightarrow> signatures_identifier option
     \<Rightarrow> call list \<Rightarrow> vm_result \<Rightarrow> u8 \<Rightarrow> (out_of_fuel, string) outcome" where
  "traces_output fuel tx ab env is_terminal known d si calls r verbosity =
     and_then (build_call_trace_arena tx known calls r) (\<lambda>arena.
     let (arena, si) = decode_trace_arena ab env d arena si
     in and_then (filter_call_trace_arena fuel known arena verbosity) (\<lambda>filtered.
        render_trace_arena_inner fuel tx is_terminal filtered False))"

section \<open>Decoding keeps the arena's shape\<close>

fun decode_tree ::
  "abi_api \<Rightarrow> resolver_env \<Rightarrow> call_trace_decoder \<Rightarrow> trace_tree \<Rightarrow> signatures_identifier option
     \<Rightarrow> trace_tree \<times> signatures_identifier option"
  and decode_forest ::
  "abi_api \<Rightarrow> resolver_env \<Rightarrow> call_trace_decoder \<Rightarrow> trace_tree list \<Rightarrow> signatures_identifier option
     \<Rightarrow> trace_tree list \<times> signatures_identifier option" where
  "decode_tree ab env d (TraceTree tr ls l2 ts) si =
     (let (decoded, si) = decode_function ab env d tr si;
          (ls, si) = decode_logs ab env d ls si;
          (ts, si) = decode_forest ab env d ts si
      in (TraceTree (tr\<lparr>ct_decoded := decoded\<rparr>) ls l2 ts, si))"
| "decode_forest ab env d [] si = ([], si)"
| "decode_forest ab env d (t # ts) si =
     (let (t, si) = decode_tree ab env d t si;
          (ts, si) = decode_forest ab env d ts si
      in (t # ts, si))"

definition undecoded_logs :: "call_log list \<Rightarrow> call_log list" where
  "undecoded_logs ls = map (\<lambda>l. l\<lparr>cl_decoded := decoded_call_event_default\<rparr>) ls"

fun undecoded :: "trace_tree \<Rightarrow> trace_tree"
  and undecoded_forest :: "trace_tree list \<Rightarrow> trace_tree list" where
  "undecoded (TraceTree tr ls l2 ts) =
     TraceTree (tr\<lparr>ct_decoded := decoded_call_trace_default\<rparr>) (undecoded_logs ls) l2 (undecoded_forest ts)"
| "undecoded_forest [] = []"
| "undecoded_forest (t # ts) = undecoded t # undecoded_forest ts"

lemma decode_logs_undecoded:
  "decode_logs ab env d ls si = (ls', si') \<Longrightarrow> undecoded_logs ls' = undecoded_logs ls \<and> length ls' = length ls"
  by (induction ls arbitrary: si ls') (auto simp: undecoded_logs_def split: prod.splits)

lemma decode_forest_undecoded:
  "decode_tree ab env d t si = (t', si') \<Longrightarrow> undecoded t' = undecoded t \<and> tree_size t' = tree_size t"
  "decode_forest ab env d ts si = (ts', si') \<Longrightarrow>
     undecoded_forest ts' = undecoded_forest ts \<and> forest_size ts' = forest_size ts \<and> length ts' = length ts
     \<and> (\<forall>b. child_bases b ts' = child_bases b ts)"
proof (induction ab env d t si and ab env d ts si arbitrary: t' si' and ts' si'
    rule: decode_tree_decode_forest.induct)
  case (1 ab env d tr ls l2 ts si)
  then show ?case
    by (fastforce simp: undecoded_logs_def split: prod.splits dest: decode_logs_undecoded)
next
  case (3 ab env d t ts si)
  then show ?case by (fastforce split: prod.splits)
qed auto

lemma populate_append:
  "populate_traces ab env d (xs @ ys) si =
     (let (xs, si) = populate_traces ab env d xs si; (ys, si) = populate_traces ab env d ys si in (xs @ ys, si))"
  by (induction xs arbitrary: si) (auto simp: Let_def split: prod.split)

lemma populate_lay_out:
  "populate_traces ab env d (lay_out built_order p b t) si =
     (let (t, si) = decode_tree ab env d t si in (lay_out built_order p b t, si))"
  "populate_traces ab env d (lay_out_all built_order p b ts) si =
     (let (ts, si) = decode_forest ab env d ts si in (lay_out_all built_order p b ts, si))"
proof (induction "built_order :: member_order" p b t and "built_order :: member_order" p b ts arbitrary: si and si
    rule: lay_out_lay_out_all.induct)
  case (1 p b tr ls l2 ts)
  show ?case
    using 1 by (auto simp: Let_def built_order_def split: prod.split dest!: decode_logs_undecoded decode_forest_undecoded(2))
next
  case (3 p b t ts)
  then show ?case
    by (auto simp: Let_def populate_append split: prod.split dest!: decode_forest_undecoded(1))
qed simp

lemma decode_root:
  assumes "ca_input (ct_call (tn_trace root)) = []" "tn_logs root = []"
  shows "\<exists>dec. populate_traces ab env d (root # ns) si =
     (let (ns, si) = populate_traces ab env d ns si in (root\<lparr>tn_trace := (tn_trace root)\<lparr>ct_decoded := dec\<rparr>, tn_logs := []\<rparr> # ns, si))"
  using assms by (auto simp: decode_function_def Let_def split: prod.split)

text \<open>C22: What is printed for a transaction is the forest of its calls: each call with its events and messages to
  L1, decoded, nested as the calls were made, without the calls that the verbosity leaves out, whose subcalls move
  up to the next shown caller. The indices of the arena never go wrong and fuel for one step more than there are
  calls is enough; only a value that cannot be formatted stops the printing.\<close>

theorem traces_output_forest:
  assumes "forest_size (call_forest known r calls) < fuel"
  shows "\<exists>ts. undecoded_forest ts = undecoded_forest (call_forest known r calls)
     \<and> traces_output fuel tx ab env is_terminal known d si calls r v
       = forest_text tx \<lparr>wc_use_colors = is_terminal, wc_write_bytecodes = False\<rparr> 0 (prune_forest known v ts)
     \<and> forest_traces (prune_forest known v ts) = filter (\<lambda>tr. should_include_call known (ct_address tr) v) (forest_traces ts)"
proof -
  let ?ts = "call_forest known r calls"
  obtain root where root: "build_call_trace_arena tx known calls r
        = (Inr (root # lay_out_all built_order 0 1 ?ts) :: (out_of_fuel, call_trace_arena) outcome)"
      "tn_children root = child_bases 1 ?ts" "ca_input (ct_call (tn_trace root)) = []" "tn_logs root = []"
    using build_lays_out [of tx known calls r, where 'e = out_of_fuel] by blast
  let ?arena = "root # lay_out_all built_order 0 1 ?ts"
  let ?si = "prefetch_signatures ab env d ?arena si"
  obtain ts si' where ts: "decode_forest ab env d ?ts ?si = (ts, si')" by fastforce
  note same = decode_forest_undecoded(2) [OF ts]
  obtain dec where "populate_traces ab env d ?arena ?si
      = (root\<lparr>tn_trace := (tn_trace root)\<lparr>ct_decoded := dec\<rparr>, tn_logs := []\<rparr> # lay_out_all built_order 0 1 ts, si')"
    using decode_root [OF root(3,4), of ab env d "lay_out_all built_order 0 1 ?ts" ?si] ts
    by (auto simp: populate_lay_out(2))
  then have "traces_output fuel tx ab env is_terminal known d si calls r v
      = forest_text tx \<lparr>wc_use_colors = is_terminal, wc_write_bytecodes = False\<rparr> 0 (prune_forest known v ts)"
    using filtered_rendering [of "root\<lparr>tn_trace := (tn_trace root)\<lparr>ct_decoded := dec\<rparr>, tn_logs := []\<rparr>" ts fuel known built_order v tx is_terminal False]
      same assms root(2) by (simp add: traces_output_def root(1) decode_trace_arena_def del: One_nat_def)
  then show ?thesis using same prune_forest_traces(2) by metis
qed

section \<open>Lemmas: signatures are fetched in advance\<close>

text \<open>The identifier knows a selector when it has a name or is known to have none.\<close>

definition knows :: "selector_type \<Rightarrow> signatures_identifier \<Rightarrow> bytes \<Rightarrow> bool" where
  "knows ty i selector \<longleftrightarrow> unresolved ty i [encode_prefixed selector] = []"

lemma knows_all: "unresolved ty i (map encode_prefixed ids) = [] \<longleftrightarrow> (\<forall>s \<in> set ids. knows ty i s)"
  by (auto simp: knows_def unresolved_def filter_empty_conv)

lemma ask_known:
  "knows SelFunction i s \<Longrightarrow> snd (ask_identifier (identify_function env f s) (Some i)) = Some i"
  "knows SelEvent i s \<Longrightarrow> snd (ask_identifier (identify_event env g s) (Some i)) = Some i"
  using identify_resolved [of SelFunction i "[s]" env f] identify_resolved [of SelEvent i "[s]" env g]
  by (simp_all add: knows_def ask_identifier_def identify_function_def identify_event_def identify_one_def
      identify_functions_def identify_events_def)

definition node_known :: "call_trace_decoder \<Rightarrow> signatures_identifier \<Rightarrow> call_trace_node \<Rightarrow> bool" where
  "node_known d i n \<longleftrightarrow>
     (let input = ca_input (ct_call (tn_trace n)) in length input \<ge> 4 \<longrightarrow> td_functions d (take 4 input) = None
        \<longrightarrow> knows SelFunction i (take 4 input))
     \<and> (\<forall>l \<in> set (tn_logs n). case ev_indexed_topics (cl_raw_log l) of [] \<Rightarrow> True | t # _ \<Rightarrow> knows SelEvent i (topic_bytes t))"

lemma lookups_known:
  "(td_functions d s = None \<longrightarrow> knows SelFunction i s) \<Longrightarrow> snd (functions_for ab env d s (Some i)) = Some i"
  "knows SelEvent i (topic_bytes t) \<Longrightarrow> snd (events_for ab env d e t (Some i)) = Some i"
  using ask_known(1) [of i s env "\<lambda>s. result_ok (get_func ab s)"]
    ask_known(2) [of i "topic_bytes t" env "\<lambda>s. result_ok (get_event ab s)"]
  by (auto simp: functions_for_def events_for_def case_prod_beta split: option.split)

lemma decode_function_known:
  "node_known d i n \<Longrightarrow> snd (decode_function ab env d (tn_trace n) (Some i)) = Some i"
  using lookups_known(1) [of d "take 4 (ca_input (ct_call (tn_trace n)))" i ab env]
  by (auto simp: node_known_def decode_function_def Let_def case_prod_beta split: list.split)

lemma decode_logs_known:
  "\<forall>l \<in> set ls. (case ev_indexed_topics (cl_raw_log l) of [] \<Rightarrow> True | t # _ \<Rightarrow> knows SelEvent i (topic_bytes t))
     \<Longrightarrow> snd (decode_logs ab env d ls (Some i)) = Some i"
proof (induction ls)
  case (Cons l ls)
  have "snd (decode_event ab env d (cl_raw_log l) (Some i)) = Some i"
    using Cons.prems lookups_known(2) by (auto simp: decode_event_def case_prod_beta Let_def split: list.splits)
  then show ?case using Cons by (simp add: case_prod_beta Let_def)
qed simp

lemma populate_known:
  "\<forall>n \<in> set ns. node_known d i n \<Longrightarrow> snd (populate_traces ab env d ns (Some i)) = Some i"
proof (induction ns)
  case (Cons n ns)
  have "snd (decode_logs ab env d (tn_logs n) (Some i)) = Some i"
    using Cons.prems by (intro decode_logs_known) (simp add: node_known_def)
  then show ?case
    using Cons decode_function_known [of d i n ab env] by (simp add: case_prod_beta Let_def)
qed simp

lemma node_traced:
  assumes "n \<in> set arena"
  shows "4 \<le> length (ca_input (ct_call (tn_trace n))) \<Longrightarrow> td_functions d (take 4 (ca_input (ct_call (tn_trace n)))) = None
      \<Longrightarrow> take 4 (ca_input (ct_call (tn_trace n))) \<in> set (traced_functions d arena)"
    "l \<in> set (tn_logs n) \<Longrightarrow> ev_indexed_topics (cl_raw_log l) = t # ts \<Longrightarrow> t \<in> set (traced_events arena)"
proof -
  show "4 \<le> length (ca_input (ct_call (tn_trace n))) \<Longrightarrow> td_functions d (take 4 (ca_input (ct_call (tn_trace n)))) = None
      \<Longrightarrow> take 4 (ca_input (ct_call (tn_trace n))) \<in> set (traced_functions d arena)"
    using assms by (auto simp: traced_functions_def)
  show "l \<in> set (tn_logs n) \<Longrightarrow> ev_indexed_topics (cl_raw_log l) = t # ts \<Longrightarrow> t \<in> set (traced_events arena)"
    using assms by (force simp: traced_events_def unique_def)
qed

text \<open>When the signature database answers the two questions asked in advance, about the events and about the
  functions of the calls, decoding the traces asks nothing more: it leaves the identifier as the questions left it.\<close>

theorem decoding_asks_in_advance:
  assumes "answered env SelEvent (map topic_bytes (traced_events arena)) i"
    and "identify_events env (map topic_bytes (traced_events arena)) (\<lambda>s. result_ok (get_event ab s)) i = (es, i1)"
    and "answered env SelFunction (traced_functions d arena) i1"
    and "identify_functions env (traced_functions d arena) (\<lambda>s. result_ok (get_func ab s)) i1 = (fs, i2)"
  shows "snd (decode_trace_arena ab env d arena (Some i)) = Some i2"
proof -
  have fn: "\<forall>s \<in> set (traced_functions d arena). knows SelFunction i2 s"
    using identify_answered(1) [OF assms(3)] assms(4) by (simp add: knows_all identify_functions_def)
  have "unresolved SelEvent i1 (map encode_prefixed (map topic_bytes (traced_events arena))) = []"
    using identify_answered(1) [OF assms(1)] assms(2) by (simp add: identify_events_def)
  then have "\<forall>t \<in> set (traced_events arena). knows SelEvent i1 (topic_bytes t)"
    by (simp add: knows_all del: map_map)
  then have ev: "\<forall>t \<in> set (traced_events arena). knows SelEvent i2 (topic_bytes t)"
    using identify_keeps [of SelEvent i1 _ env SelFunction "traced_functions d arena" "\<lambda>s. result_ok (get_func ab s)"] assms(4)
    by (simp add: identify_functions_def knows_def)
  have "node_known d i2 n" if "n \<in> set arena" for n
    using node_traced(1) [OF that, of d] node_traced(2) [OF that] fn ev by (auto simp: node_known_def Let_def split: list.split)
  then show ?thesis
    using populate_known [of arena d i2 ab env] assms(2,4)
    by (simp add: decode_trace_arena_def prefetch_signatures_def)
qed

section \<open>Lemmas: events\<close>

definition params_at :: "bool \<Rightarrow> abi_param list \<Rightarrow> dyn_sol_value list \<Rightarrow> dyn_sol_value list" where
  "params_at ix ps vs = map snd (filter (\<lambda>(p, v). ap_indexed p = ix) (zip ps vs))"

lemma reconstruct_loop_order:
  "length vs = length ps \<Longrightarrow>
     reconstruct_loop ps (pre @ params_at True ps vs) (pre' @ params_at False ps vs) (length pre) (length pre') = vs"
proof (induction ps arbitrary: vs pre pre')
  case (Cons p ps)
  then obtain v us where vs: "vs = v # us" "length us = length ps" by (cases vs) auto
  show ?case
  proof (cases "ap_indexed p")
    case True
    then show ?thesis
      using Cons.IH [OF vs(2), of "pre @ [v]" pre'] vs(1) by (simp add: params_at_def nth_append)
  next
    case False
    then show ?thesis
      using Cons.IH [OF vs(2), of pre "pre' @ [v]"] vs(1) by (simp add: params_at_def nth_append)
  qed
qed simp

text \<open>The parameters of an event come back in the order of its declaration from the indexed and the other
  parameters that the codec returns in two lists.\<close>

theorem reconstruct_params_order:
  "length vs = length (ae_inputs event) \<Longrightarrow>
     reconstruct_params event (params_at True (ae_inputs event) vs, params_at False (ae_inputs event) vs) = vs"
  using reconstruct_loop_order [of vs "ae_inputs event" "[]" "[]"] by (simp add: reconstruct_params_def)

text \<open>An event fetched by name has no indexed parameters; it gets as many as the log has topics for, when that can be told.\<close>

lemma indexed_for_topics_count:
  assumes "\<not> ae_anonymous event" "\<forall>p \<in> set (ae_inputs event). \<not> ap_indexed p" "1 < topics"
    and "topics - 1 \<in> {length (ae_inputs event), length (filter (\<lambda>p. ap_ty p = ''address'') (ae_inputs event))}"
  shows "indexed_inputs (indexed_for_topics event topics) = topics - 1"
proof -
  let ?n = "length (ae_inputs event)"
  let ?a = "length (filter (\<lambda>p. ap_ty p = ''address'') (ae_inputs event))"
  have "length (filter (\<lambda>(i, p). ap_ty p = ''address'') (enumerate k ps)) = length (filter (\<lambda>p. ap_ty p = ''address'') ps)" for k ps
    by (induction ps arbitrary: k) auto
  moreover have none: "(i, p) \<in> set (enumerate 0 (ae_inputs event)) \<Longrightarrow> \<not> ap_indexed p" for i p
    using assms(2) by (auto simp: in_set_enumerate_eq)
  then have "filter (\<lambda>x. ap_ty (snd x) \<noteq> ''address'' \<longrightarrow> ap_indexed (snd x)) (enumerate 0 (ae_inputs event))
      = filter (\<lambda>x. ap_ty (snd x) = ''address'') (enumerate 0 (ae_inputs event))"
    by (intro filter_cong) auto
  ultimately show ?thesis
    using assms(1,3,4)
    by (cases "?n = topics - 1")
      (auto simp: indexed_for_topics_def indexed_inputs_def Let_def filter_map o_def case_prod_beta cong: filter_cong)
qed

lemma label_value_idem:
  "label_value m (label_value m v) = label_value m v" "label_values m (label_values m vs) = label_values m vs"
  by (induction m v and m vs rule: label_value_label_values.induct) (auto split: option.splits)

section \<open>Witnesses\<close>

definition sample_text :: text_api where
  "sample_text = \<lparr>tx_escape_debug = id, tx_debug_string = id, tx_dimmed = id, tx_style_on = (\<lambda>_. []), tx_style_off = (\<lambda>_. []),
     tx_h256_debug = (\<lambda>h. decimal (unat h)), tx_h256_display = (\<lambda>h. decimal (unat h)),
     tx_halt_debug = (\<lambda>_. ''halt''), tx_user_friendly = ro_string\<rparr>"

definition sample_abi :: abi_api where
  "sample_abi = \<lparr>ab_sign_and_abs = (\<lambda>v. (False, v)), ab_signature = af_name, ab_function_selector = (\<lambda>_. [1, 2, 3, 4]),
     ab_event_selector = (\<lambda>_. 7), ab_error_selector = (\<lambda>_. [1, 2, 3, 4]), ab_decode_input = (\<lambda>_ bs. Inr [DynBytes bs]),
     ab_decode_output = (\<lambda>_ bs. Inr [DynBytes bs]), ab_decode_log = (\<lambda>_ l. Some ([], [DynBytes (ld_data l)])),
     ab_decode_error = (\<lambda>_ bs. Inr [DynBytes bs]), ab_contract_error = (\<lambda>_. None), ab_decode_string = (\<lambda>_. None),
     ab_parse_function = (\<lambda>s. Some \<lparr>af_name = s, af_inputs = [], af_outputs = []\<rparr>), ab_parse_event = (\<lambda>_. None),
     ab_parse_error = (\<lambda>_. None), ab_hex_decode = (\<lambda>_. Inr []), ab_selector_type = ap_ty,
     ab_coerce = (\<lambda>_ s. Inr (DynString s)), ab_encode_input = (\<lambda>_ _. Inr []), ab_encode_packed = (\<lambda>_. [])\<rparr>"

definition sample_decoder :: call_trace_decoder where
  "sample_decoder = call_trace_decoder_new Map.empty Map.empty Map.empty"

definition sample_calls :: "call list" where
  "sample_calls = [Call (CallTypeCall FarCallNormal) 1 2 0 0 0 [] [1, 2, 3, 4, 5] None None
     [Call (CallTypeCall FarCallDelegate) 2 3 0 0 0 [] [] None None []]]"

definition sample_vm_output :: vm_result where
  "sample_vm_output = \<lparr>vr_result = Success [], vr_storage_logs = [],
     vr_events = [\<lparr>ev_address = 2, ev_indexed_topics = [7], ev_value = [9]\<rparr>],
     vr_user_l2_to_l1_logs = [], vr_system_l2_to_l1_logs = [], vr_gas_used = 0, vr_computational_gas_used = 0,
     vr_pubdata_published = 0, vr_gas_refunded = 0,
     vr_cycles_used = 0, vr_contracts_used = 0, vr_dynamic_factory_deps = []\<rparr>"

theorem traces_output_forest_witness:
  "\<exists>ts. undecoded_forest ts = undecoded_forest (call_forest Map.empty sample_vm_output sample_calls)
     \<and> traces_output 3 sample_text sample_abi sample_resolver False Map.empty sample_decoder (Some sample_identifier)
         sample_calls sample_vm_output 2
       = forest_text sample_text \<lparr>wc_use_colors = False, wc_write_bytecodes = False\<rparr> 0 (prune_forest Map.empty 2 ts)
     \<and> forest_traces (prune_forest Map.empty 2 ts)
       = filter (\<lambda>tr. should_include_call Map.empty (ct_address tr) 2) (forest_traces ts)"
  by (rule traces_output_forest) (simp add: sample_calls_def Let_def)

definition sample_arena :: call_trace_arena where
  "sample_arena = lay_out_all built_order 0 1 (call_forest Map.empty sample_vm_output sample_calls)"

lemma sample_traced:
  "traced_events sample_arena = [7]" "traced_functions sample_decoder sample_arena = [[1, 2, 3, 4]]"
  by (simp_all add: sample_arena_def sample_calls_def Let_def traced_events_def traced_functions_def unique_def
      logs_for_call_def sample_vm_output_def convert_call_to_call_trace_def sample_decoder_def call_trace_decoder_new_def)

theorem decoding_asks_in_advance_witness:
  "snd (decode_trace_arena sample_abi sample_resolver sample_decoder sample_arena (Some sample_identifier)) =
     Some (snd (identify_functions sample_resolver [[1, 2, 3, 4]] (\<lambda>s. result_ok (get_func sample_abi s))
       (snd (identify_events sample_resolver [topic_bytes 7] (\<lambda>s. result_ok (get_event sample_abi s)) sample_identifier))))"
proof -
  let ?ev = "identify_events sample_resolver [topic_bytes 7] (\<lambda>s. result_ok (get_event sample_abi s)) sample_identifier"
  let ?fn = "identify_functions sample_resolver [[1, 2, 3, 4]] (\<lambda>s. result_ok (get_func sample_abi s)) (snd ?ev)"
  have topic: "\<forall>s \<in> set [topic_bytes 7]. 2 + 2 * length s = expected_len SelEvent"
    by (simp add: topic_bytes_def expected_len_def)
  have selector: "\<forall>s \<in> set [[1, 2, 3, 4 :: u8]]. 2 + 2 * length s = expected_len SelFunction"
    by (simp add: expected_len_def)
  have ans: "answered sample_resolver SelEvent [topic_bytes 7] sample_identifier"
    "answered sample_resolver SelFunction [[1, 2, 3, 4]] (snd ?ev)"
    using sample_answered(1) [OF sample_trusting topic] sample_answered(2) [OF sample_trusting topic, of "\<lambda>s. result_ok (get_event sample_abi s)"] sample_answered(1) [OF _ selector]
    by (simp_all add: identify_events_def)
  show ?thesis
    using decoding_asks_in_advance [of sample_resolver sample_arena sample_identifier sample_abi "fst ?ev" "snd ?ev" sample_decoder
        "fst ?fn" "snd ?fn"] ans
    by (simp add: sample_traced)
qed

theorem reconstruct_params_order_witness:
  "reconstruct_params \<lparr>ae_name = ''Transfer'', ae_inputs = [\<lparr>ap_name = ''from'', ap_ty = ''address'', ap_indexed = True\<rparr>,
       \<lparr>ap_name = ''amount'', ap_ty = ''uint256'', ap_indexed = False\<rparr>,
       \<lparr>ap_name = ''to'', ap_ty = ''address'', ap_indexed = True\<rparr>], ae_anonymous = False\<rparr>
     ([DynAddress 1, DynAddress 2], [DynUint 5 256]) = [DynAddress 1, DynUint 5 256, DynAddress 2]"
  using reconstruct_params_order [of "[DynAddress 1, DynUint 5 256, DynAddress 2]"
      "\<lparr>ae_name = ''Transfer'', ae_inputs = [\<lparr>ap_name = ''from'', ap_ty = ''address'', ap_indexed = True\<rparr>,
       \<lparr>ap_name = ''amount'', ap_ty = ''uint256'', ap_indexed = False\<rparr>,
       \<lparr>ap_name = ''to'', ap_ty = ''address'', ap_indexed = True\<rparr>], ae_anonymous = False\<rparr>"]
  by (simp add: params_at_def)

end
