(* ===== verification/Tx_Report.thy ===== *)
theory Tx_Report
  imports Gas_Details Trace_Decoder Node_Errors Node_Config
begin

text \<open>
  What the node prints about a transaction: the balances it changed (\<open>crates/core/src/node/diagnostics\<close>), its summary
  and the reports of a failed one (\<open>crates/core/src/formatter/transaction\<close>, \<open>formatter/errors\<close>,
  \<open>crates/common/src/utils/cost.rs\<close>), in the order of \<open>run_tx_pretty\<close> in \<open>node/inner/vm_runner.rs\<close>.

  The record \<open>report_api\<close> holds what other crates contribute: colours, the table layout, ether and gwei amounts, debug
  texts, the slot of an account's balance, and the documentation of errors. The table of known addresses is an
  association list; it and the table of addresses of a transaction are hash maps, whose order has no influence.
\<close>

section \<open>Parameters\<close>

record error_cause =
  ec_cause :: string
  ec_fixes :: "string list"
  ec_references :: "string list"

record error_documentation =
  ed_summary :: string
  ed_description :: string
  ed_likely_causes :: "error_cause list"

record balance_diff_repr =
  br_address :: string
  br_before :: string
  br_after :: string
  br_delta :: string

record report_api =
  rp_paint :: paint
  rp_terminal :: terminal
  rp_text :: text_api
  rp_address_debug :: "address \<Rightarrow> string"
  rp_tx_format_debug :: "u8 \<Rightarrow> string"
  rp_format_ether :: "u256 \<Rightarrow> string"
  rp_format_units_gwei :: "u256 \<Rightarrow> string"
  rp_table :: "balance_diff_repr list \<Rightarrow> string"
  rp_balance_key :: "address \<Rightarrow> storage_key"
  rp_known :: "(address \<times> known_address) list"
  rp_pubdata :: pubdata_api
  rp_documentation :: "anvil_error \<Rightarrow> error_documentation option"

section \<open>Amounts\<close>

definition format_eth :: "report_api \<Rightarrow> u256 \<Rightarrow> string" where
  "format_eth rp v = rp_format_ether rp v @ '' ETH''"

text \<open>The precision of \<open>{:.8}\<close> applied to a text is the number of characters kept.\<close>

definition format_gwei :: "report_api \<Rightarrow> u256 \<Rightarrow> string" where
  "format_gwei rp v = take 8 (rp_format_units_gwei rp v) @ '' gwei''"

section \<open>Addresses and balances\<close>

type_synonym address_labels = "(address \<times> string option) list"

definition or_insert :: "address \<Rightarrow> string option \<Rightarrow> address_labels \<Rightarrow> address_labels" where
  "or_insert a label m = (if map_of m a = None then m @ [(a, label)] else m)"

definition known_addresses_after_transaction :: "report_api \<Rightarrow> transaction \<Rightarrow> address_labels" where
  "known_addresses_after_transaction rp tx =
     (let known = map (\<lambda>(a, k). (a, Some (ka_name k))) (rp_known rp)
      in foldl (\<lambda>m a. or_insert a None m) known
          ([tx_payer tx, tx_initiator_account tx] @ (case tx_recipient_account tx of Some a \<Rightarrow> [a] | None \<Rightarrow> [])))"

definition extract_address :: "decoded_value \<Rightarrow> address_labels \<Rightarrow> address_labels" where
  "extract_address v m = (case v of
       DecAddress a \<Rightarrow> if map_of m (la_address a) = None then or_insert (la_address a) (la_label a) m else m
     | _ \<Rightarrow> m)"

definition extract_addresses :: "call_trace_arena \<Rightarrow> address_labels \<Rightarrow> address_labels" where
  "extract_addresses arena known = foldl (\<lambda>m n.
     case dt_call_data (ct_decoded (tn_trace n)) of
       Some call_data \<Rightarrow> foldl (\<lambda>m v. extract_address v m) m (dc_args call_data)
     | None \<Rightarrow> m) known arena"

definition account_has_code :: "(storage_key \<Rightarrow> h256) \<Rightarrow> (address \<Rightarrow> storage_key) \<Rightarrow> address \<Rightarrow> bool" where
  "account_has_code read_value get_code_key a = (read_value (get_code_key a) \<noteq> 0)"

record balance_diff =
  bf_address :: labeled_address
  bf_before :: u256
  bf_after :: u256

record balance_diff_staging =
  bs_address :: labeled_address
  bs_before :: "h256 option"
  bs_after :: "h256 option"

definition staging_new :: "address \<Rightarrow> string option \<Rightarrow> balance_diff_staging" where
  "staging_new a label = \<lparr>bs_address = \<lparr>la_label = label, la_address = a\<rparr>, bs_before = None, bs_after = None\<rparr>"

definition staging_into :: "balance_diff_staging \<Rightarrow> balance_diff" where
  "staging_into d = \<lparr>bf_address = bs_address d, bf_before = case_option 0 id (bs_before d),
     bf_after = case_option 0 id (bs_after d)\<rparr>"

text \<open>A \<open>BTreeMap\<close> is the list of its entries in the order of the keys.\<close>

definition storage_key_less :: "storage_key \<Rightarrow> storage_key \<Rightarrow> bool" where
  "storage_key_less k k' \<longleftrightarrow> sk_address k < sk_address k' \<or> sk_address k = sk_address k' \<and> sk_key k < sk_key k'"

fun btree_map_insert :: "storage_key \<Rightarrow> 'a \<Rightarrow> (storage_key \<times> 'a) list \<Rightarrow> (storage_key \<times> 'a) list" where
  "btree_map_insert k v [] = [(k, v)]"
| "btree_map_insert k v ((k', v') # m) =
     (if k = k' then (k, v) # m
      else if storage_key_less k k' then (k, v) # (k', v') # m
      else (k', v') # btree_map_insert k v m)"

definition stage_entry ::
  "storage_log \<Rightarrow> (storage_key \<times> balance_diff_staging) list \<Rightarrow> (storage_key \<times> balance_diff_staging) list" where
  "stage_entry e diffs =
     (if slog_kind e \<noteq> ReadLog
      then map (\<lambda>(k, d). if k = slog_key e
        then (k, d\<lparr>bs_before := (case bs_before d of Some v \<Rightarrow> Some v | None \<Rightarrow> Some (slog_previous_value e)),
                 bs_after := Some (slog_value e)\<rparr>)
        else (k, d)) diffs
      else diffs)"

definition extract_balance_diffs :: "report_api \<Rightarrow> address_labels \<Rightarrow> storage_log list \<Rightarrow> balance_diff list" where
  "extract_balance_diffs rp addresses log =
     (let diffs = foldl (\<lambda>m (a, label). btree_map_insert (rp_balance_key rp a) (staging_new a label) m) [] addresses;
          diffs = foldl (\<lambda>m e. stage_entry e m) diffs log
      in map staging_into (filter (\<lambda>d. \<not> is_system (map_of (rp_known rp)) (la_address (bs_address d)))
          (filter (\<lambda>d. bs_after d \<noteq> bs_before d) (map snd diffs))))"

definition compute_delta :: "report_api \<Rightarrow> u256 \<Rightarrow> u256 \<Rightarrow> string" where
  "compute_delta rp before after =
     (if before < after then ''+'' @ format_gwei rp (after - before)
      else if before = after then ''0''
      else ''-'' @ format_gwei rp (before - after))"

definition balance_diff_repr_from :: "report_api \<Rightarrow> balance_diff \<Rightarrow> balance_diff_repr" where
  "balance_diff_repr_from rp d = \<lparr>br_address = labeled_address_fmt (bf_address d), br_before = format_eth rp (bf_before d),
     br_after = format_eth rp (bf_after d), br_delta = compute_delta rp (bf_before d) (bf_after d)\<rparr>"

section \<open>The summary\<close>

datatype transaction_status = StatusSuccess | StatusFailure | StatusHalt

fun status_emoji :: "transaction_status \<Rightarrow> string" where
  "status_emoji StatusSuccess = utf8 [226, 156, 133]"
| "status_emoji StatusFailure = utf8 [226, 157, 140]"
| "status_emoji StatusHalt = utf8 [226, 143, 184, 239, 184, 143]"

fun status_from :: "execution_result \<Rightarrow> transaction_status" where
  "status_from (Success _) = StatusSuccess"
| "status_from (Revert _) = StatusFailure"
| "status_from (Halt _) = StatusHalt"

fun status_fmt :: "transaction_status \<Rightarrow> string" where
  "status_fmt StatusSuccess = ''SUCCESS''"
| "status_fmt StatusFailure = ''FAILED''"
| "status_fmt StatusHalt = ''HALTED''"

record summary_gas =
  sg_limit :: u256
  sg_used :: u256
  sg_refunded :: u64

record transaction_summary =
  ts_status :: transaction_status
  ts_tx_hash :: h256
  ts_initiator :: address
  ts_payer :: address
  ts_l2_gas_price :: u64
  ts_gas :: summary_gas
  ts_balance_diffs :: "balance_diff list option"

definition transaction_summary_new ::
  "u64 \<Rightarrow> transaction \<Rightarrow> vm_result \<Rightarrow> balance_diff list option \<Rightarrow> ('e, transaction_summary) outcome" where
  "transaction_summary_new l2_gas_price tx r balance_diffs =
     and_then (u256_sub (tx_gas_limit tx) (ucast (vr_gas_refunded r))) (\<lambda>used.
     Inr \<lparr>ts_status = status_from (vr_result r), ts_tx_hash = tx_hash tx, ts_initiator = tx_initiator_account tx,
       ts_payer = tx_payer tx, ts_l2_gas_price = l2_gas_price,
       ts_gas = \<lparr>sg_limit = tx_gas_limit tx, sg_used = used, sg_refunded = vr_gas_refunded r\<rparr>,
       ts_balance_diffs = balance_diffs\<rparr>)"

definition summary_lines :: "report_api \<Rightarrow> transaction_summary \<Rightarrow> u256 \<Rightarrow> u256 \<Rightarrow> string list" where
  "summary_lines rp ts paid refunded =
     (let g = ts_gas ts
      in [[],
         status_emoji (ts_status ts) @ '' ['' @ status_fmt (ts_status ts) @ ''] Hash: ''
           @ tx_h256_debug (rp_text rp) (ts_tx_hash ts),
         ''Initiator: '' @ rp_address_debug rp (ts_initiator ts),
         ''Payer: '' @ rp_address_debug rp (ts_payer ts),
         ''Gas Limit: '' @ to_human_size (sg_limit g) @ '' | Used: '' @ to_human_size (sg_used g)
           @ '' | Refunded: '' @ to_human_size (ucast (sg_refunded g)),
         ''Paid: '' @ format_eth rp paid @ '' ('' @ decimal (unat (sg_used g)) @ '' gas * ''
           @ format_gwei rp (ucast (ts_l2_gas_price ts)) @ '')'',
         ''Refunded: '' @ format_eth rp refunded])"

definition transaction_summary_fmt :: "report_api \<Rightarrow> transaction_summary \<Rightarrow> ('e, string) outcome" where
  "transaction_summary_fmt rp ts =
     (let g = ts_gas ts
      in and_then (u256_mul (ucast (ts_l2_gas_price ts)) (sg_used g)) (\<lambda>paid.
         and_then (u256_mul (ucast (ts_l2_gas_price ts)) (ucast (sg_refunded g))) (\<lambda>refunded.
         Inr (unlines (summary_lines rp ts paid refunded)
           @ (case ts_balance_diffs ts of
                Some diffs \<Rightarrow> if diffs \<noteq> [] then line_end @ rp_table rp (map (balance_diff_repr_from rp) diffs) else []
              | None \<Rightarrow> [])))))"

section \<open>The report of an executed transaction\<close>

text \<open>The summary is built after the lock of the shell is taken, as an argument of the macro.\<close>

definition print_summary :: "report_api \<Rightarrow> ('e, transaction_summary) outcome \<Rightarrow> 'e printer" where
  "print_summary rp made = with_shell (\<lambda>s. case made of
       Inl e \<Rightarrow> (Inl e, s)
     | Inr ts \<Rightarrow> println_out (transaction_summary_fmt rp ts) s)"

text \<open>
  The traces of the calls: the addresses that occur in them, and their text when the verbosity asks for it. Errors of the
  arena readers are those of \<open>Call_Traces\<close>.
\<close>

record trace_env =
  te_fuel :: nat
  te_abi :: abi_api
  te_resolver :: resolver_env
  te_decoder :: call_trace_decoder
  te_identifier :: "signatures_identifier option"

definition trace_report ::
  "report_api \<Rightarrow> trace_env \<Rightarrow> u8 \<Rightarrow> call list \<Rightarrow> vm_result \<Rightarrow> address_labels
     \<Rightarrow> (out_of_fuel, address_labels \<times> string option) outcome" where
  "trace_report rp te verbosity calls r known =
     (if calls = [] then Inr (known, None)
      else and_then (build_call_trace_arena (rp_text rp) (map_of (rp_known rp)) calls r) (\<lambda>arena.
        let (arena, si) = decode_trace_arena (te_abi te) (te_resolver te) (te_decoder te) arena (te_identifier te);
            known = extract_addresses arena known
        in if verbosity \<ge> 2
           then and_then (filter_call_trace_arena (te_fuel te) (map_of (rp_known rp)) arena verbosity) (\<lambda>filtered.
             and_then (render_trace_arena_inner (te_fuel te) (rp_text rp) (tm_is_terminal (rp_terminal rp)) filtered False)
               (\<lambda>text. Inr (known, Some text)))
           else Inr (known, None)))"

definition print_trace :: "string option \<Rightarrow> 'e printer" where
  "print_trace out = (case out of
       Some text \<Rightarrow> sh_println (Inr (line_end @ ''Traces:'' @ line_end @ text))
     | None \<Rightarrow> print_nothing)"

definition print_gas_report ::
  "report_api \<Rightarrow> ('f, 'k) test_node_config \<Rightarrow> string + bootloader_debug \<Rightarrow> u64 \<Rightarrow> 'f fee_model_config \<Rightarrow> 'e printer" where
  "print_gas_report rp config bootloader_debug_result spent_on_pubdata fees s =
     (if tn_show_gas_details config \<noteq> GasDetailsNone
      then (case display_detailed_gas_info (rp_paint rp) (Some bootloader_debug_result) spent_on_pubdata fees s of
              (Inl (Err err), s) \<Rightarrow> sh_err (rp_terminal rp) (Inr (''Cannot display gas details: '' @ err)) s
            | (Inl (Panic m), s) \<Rightarrow> (Inl (Panic m), s)
            | (Inr _, s) \<Rightarrow> (Inr (), s))
      else (Inr (), s))"

definition print_details :: "report_api \<Rightarrow> ('f, 'k) test_node_config \<Rightarrow> vm_result \<Rightarrow> 'e printer" where
  "print_details rp config r =
     and_print (if tn_show_storage_logs config \<noteq> ShowNone
        then show_storage_logs_details (rp_paint rp) (rp_pubdata rp) (map_of (rp_known rp)) (rp_address_debug rp)
          (tn_show_storage_logs config) r
        else print_nothing)
       (if tn_show_vm_details config \<noteq> VmDetailsNone
        then (\<lambda>s. let (res, f, s) = print_vm_details (rp_paint rp) (rp_text rp) r (formatter_new, s) in (res, s))
        else print_nothing)"

definition report_tx ::
  "report_api \<Rightarrow> trace_env \<Rightarrow> ('f, 'k) test_node_config \<Rightarrow> 'f fee_model_config \<Rightarrow> string + bootloader_debug \<Rightarrow> transaction
     \<Rightarrow> batch_tx_result \<Rightarrow> out_of_fuel printer" where
  "report_tx rp te config fees bootloader_debug_result tx result s =
     (if sh_poisoned s then (Inl (Panic ''global shell mutex is poisoned''), s)
      else let verbosity = sh_verbosity s;
               r = bt_tx_result result;
               spent_on_pubdata = vr_gas_used r - ucast (vr_computational_gas_used r)
           in case trace_report rp te verbosity (bt_call_traces result) r (known_addresses_after_transaction rp tx) of
                Inl e \<Rightarrow> (Inl e, s)
              | Inr (known, trace_output) \<Rightarrow>
                  let balance_diffs = extract_balance_diffs rp known (vr_storage_logs r)
                  in and_print (print_summary rp (transaction_summary_new (get_l2_gas_price config) tx r
                       (if verbosity \<ge> 1 then Some balance_diffs else None)))
                     (and_print (print_trace trace_output)
                     (and_print (print_gas_report rp config bootloader_debug_result spent_on_pubdata fees)
                       (print_details rp config r))) s)"

section \<open>Views of a transaction and of an error\<close>

text \<open>
  A view writes to any writer; it is modelled by the text it writes, since the indenting writer does not care how a text is
  cut into pieces (\<open>write_str_append\<close>). Inside a view an indenting writer starts a line of its own.
\<close>

definition tx_nonce :: "transaction \<Rightarrow> u32 option" where
  "tx_nonce tx = (case tx_common_data tx of L2 d \<Rightarrow> Some (l2_nonce d) | _ \<Rightarrow> None)"

definition input_lines :: "report_api \<Rightarrow> transaction \<Rightarrow> string list" where
  "input_lines rp tx = (case tx_common_data tx of
       L2 d \<Rightarrow> (case l2_input d of
           Some data \<Rightarrow> [''Input Data: 0x'' @ hex_encode data, ''Hash: '' @ tx_h256_debug (rp_text rp) (tx_hash tx)]
         | None \<Rightarrow> [])
     | _ \<Rightarrow> [])"

definition paymaster_lines :: "report_api \<Rightarrow> transaction \<Rightarrow> string list" where
  "paymaster_lines rp tx = (case tx_common_data tx of
       L2 d \<Rightarrow> (if l2_paymaster d \<noteq> 0 \<or> l2_paymaster_input d \<noteq> []
           then [rp_paint rp [CyanText] ''Paymaster details:'',
                 ''Paymaster Address: '' @ rp_address_debug rp (l2_paymaster d),
                 ''Paymaster Input: 0x'' @ (if l2_paymaster_input d = [] then ''None'' else hex_encode (l2_paymaster_input d))]
           else [])
     | _ \<Rightarrow> [])"

definition party_lines :: "report_api \<Rightarrow> transaction \<Rightarrow> string list" where
  "party_lines rp tx =
     (case tx_nonce tx of Some nonce \<Rightarrow> [''Nonce: '' @ decimal (unat nonce)] | None \<Rightarrow> [])
     @ (case tx_recipient_account tx of Some a \<Rightarrow> [''To: '' @ rp_address_debug rp a] | None \<Rightarrow> [])
     @ [''From: '' @ rp_address_debug rp (tx_initiator_account tx)]
     @ input_lines rp tx"

definition write_lines :: "string list \<Rightarrow> indenting_writer \<Rightarrow> indenting_writer" where
  "write_lines ls w = foldl (\<lambda>w l. iw_writeln l w) w ls"

definition pretty_transaction :: "report_api \<Rightarrow> transaction \<Rightarrow> string" where
  "pretty_transaction rp tx =
     (let w = unlines [[], '' '' @ rp_paint rp [CyanText] ''Transaction details:'',
            ''   Transaction Type: '' @ rp_tx_format_debug rp (tx_format tx)];
          w = indent (indenting_writer_new w None);
          w = write_lines (party_lines rp tx) w;
          w = write_lines [''gas limit: '' @ decimal (unat (tx_gas_limit tx)),
            ''Gas Price: '' @ format_gwei rp (tx_max_fee_per_gas tx),
            ''Gas Per Pubdata Limit: '' @ decimal (unat (tx_gas_per_pubdata_byte_limit tx))] w;
          w = write_lines (paymaster_lines rp tx) w
      in iw_writer w)"

definition pretty_transaction_estimation :: "report_api \<Rightarrow> transaction \<Rightarrow> string" where
  "pretty_transaction_estimation rp tx =
     (let w = unlines [[], rp_paint rp [CyanText] ''Transaction details:''];
          w = indent (indenting_writer_new w None);
          w = write_lines [''Transaction Type: '' @ rp_tx_format_debug rp (tx_format tx)] w;
          w = write_lines (party_lines rp tx) w;
          w = write_lines (paymaster_lines rp tx) w
      in iw_writer w)"

definition error_message_view :: "report_api \<Rightarrow> anvil_error \<Rightarrow> string" where
  "error_message_view rp e =
     rp_paint rp [RedText, Bold] ''error'' @ '': '' @ rp_paint rp [RedText] (get_message (rp_text rp) e)"

definition format_likely_causes :: "report_api \<Rightarrow> error_documentation \<Rightarrow> string" where
  "format_likely_causes rp doc =
     (if ed_likely_causes doc \<noteq> []
      then unlines ((line_end @ rp_paint rp [CyanText] ''Likely causes:'')
        # map (\<lambda>c. ''  - '' @ ec_cause c) (ed_likely_causes doc))
      else [])"

definition format_fixes :: "report_api \<Rightarrow> error_documentation \<Rightarrow> string" where
  "format_fixes rp doc =
     (if \<exists>c \<in> set (ed_likely_causes doc). ec_fixes c \<noteq> []
      then unlines (rp_paint rp [GreenText, Bold] (line_end @ ''Possible fixes:'')
        # map (\<lambda>fix_text. ''  - '' @ fix_text) (concat (map ec_fixes (ed_likely_causes doc))))
      else [])"

definition format_references :: "report_api \<Rightarrow> error_documentation \<Rightarrow> string" where
  "format_references rp doc =
     (if \<exists>c \<in> set (ed_likely_causes doc). ec_references c \<noteq> []
      then unlines ((line_end @ rp_paint rp [CyanText, Bold] ''For more information about this error, visit:'' @ '' '')
        # map (\<lambda>r. ''  - '' @ rp_paint rp [Underline] r) (concat (map ec_references (ed_likely_causes doc))))
      else [])"

definition format_description :: "report_api \<Rightarrow> error_documentation \<Rightarrow> string" where
  "format_description rp doc = rp_paint rp [BlueText] ''note:'' @ '' '' @ ed_description doc"

definition summary_view :: "report_api \<Rightarrow> anvil_error \<Rightarrow> string" where
  "summary_view rp e = (case rp_documentation rp e of
       Some doc \<Rightarrow> ed_summary doc
     | None \<Rightarrow> rp_paint rp [BrightRed] ''error:'' @ '' An unknown error occurred'')"

definition causes_view :: "report_api \<Rightarrow> anvil_error \<Rightarrow> string" where
  "causes_view rp e = (case rp_documentation rp e of
       Some doc \<Rightarrow> if ed_likely_causes doc \<noteq> []
         then format_likely_causes rp doc @ format_fixes rp doc @ format_references rp doc else []
     | None \<Rightarrow> [])"

definition description_view :: "report_api \<Rightarrow> anvil_error \<Rightarrow> string" where
  "description_view rp e = (case rp_documentation rp e of Some doc \<Rightarrow> format_description rp doc | None \<Rightarrow> [])"

definition full_documentation :: "report_api \<Rightarrow> anvil_error \<Rightarrow> string" where
  "full_documentation rp e = (case rp_documentation rp e of
       Some doc \<Rightarrow> ed_summary doc
         @ (if ed_likely_causes doc \<noteq> []
            then line_end @ format_likely_causes rp doc @ line_end @ format_fixes rp doc @ line_end
              @ format_references rp doc @ line_end else [])
         @ format_description rp doc
     | None \<Rightarrow> [])"

definition margin_bar :: string where
  "margin_bar = utf8 [226, 148, 130] @ '' ''"

definition execution_error_report :: "report_api \<Rightarrow> anvil_error \<Rightarrow> transaction \<Rightarrow> string" where
  "execution_error_report rp e tx =
     (let wr = indenting_writer_new [] (Some margin_bar);
          wr = iw_writeln (error_message_view rp e) wr;
          wr = indent wr;
          wr = write_lines [summary_view rp e, pretty_transaction rp tx, causes_view rp e, description_view rp e,
            rp_paint rp [RedText] ''error:'' @ '' transaction execution halted due to the above error''] wr
      in iw_writer wr)"

text \<open>The branches for a halt and for a revert are the same but for the error inside and its generic variant.\<close>

definition estimation_inner_report :: "report_api \<Rightarrow> anvil_error \<Rightarrow> anvil_error \<Rightarrow> bool \<Rightarrow> transaction \<Rightarrow> string" where
  "estimation_inner_report rp e inner generic tx =
     (let text = error_message_view rp e @ line_end;
          w = indenting_writer_new text (Some margin_bar);
          w = iw_writeln (summary_view rp e) w;
          w = indent w;
          w = push_prefix ''= '' w;
          w = iw_writeln (error_message_view rp inner) w;
          w = pop_prefix w;
          w = (if generic then w else iw_writeln (summary_view rp inner) w);
          w = iw_writeln (causes_view rp inner) w;
          w = iw_writeln (pretty_transaction_estimation rp tx) w;
          w = (if generic then w else iw_writeln (description_view rp inner) w);
          w = dedent w;
          w = iw_writeln (description_view rp e) w
      in iw_writer w)"

definition estimation_other_report :: "report_api \<Rightarrow> anvil_error \<Rightarrow> transaction \<Rightarrow> string" where
  "estimation_other_report rp e tx =
     (let w = indenting_writer_new [] (Some margin_bar);
          w = push_prefix ''= '' w;
          w = iw_writeln (error_message_view rp e) w;
          w = indent w;
          w = pop_prefix w;
          w = write_lines [summary_view rp e, causes_view rp e, pretty_transaction_estimation rp tx, description_view rp e] w
      in iw_writer w)"

definition estimation_error_report :: "report_api \<Rightarrow> gas_estim_error \<Rightarrow> transaction \<Rightarrow> string" where
  "estimation_error_report rp e tx = line_end @
     (let inner_halt = (\<lambda>h. estimation_inner_report rp (GasEstimationError e) (HaltError h)
            (case h of HeGenericError _ \<Rightarrow> True | _ \<Rightarrow> False) tx);
          inner_revert = (\<lambda>r. estimation_inner_report rp (GasEstimationError e) (RevertReasonError r)
            (case r of ReGenericError _ \<Rightarrow> True | _ \<Rightarrow> False) tx)
      in case e of
           GeTransactionHalt h \<Rightarrow> inner_halt h
         | GeTransactionAlwaysHalts h \<Rightarrow> inner_halt h
         | GeTransactionRevert r _ \<Rightarrow> inner_revert r
         | GeTransactionAlwaysReverts r _ \<Rightarrow> inner_revert r
         | _ \<Rightarrow> estimation_other_report rp (GasEstimationError e) tx)"

section \<open>Lemmas: balances\<close>

definition sorted_keys :: "(storage_key \<times> 'a) list \<Rightarrow> bool" where
  "sorted_keys m \<longleftrightarrow> sorted_wrt storage_key_less (map fst m)"

lemma storage_key_order: "k \<noteq> k' \<Longrightarrow> storage_key_less k k' \<or> storage_key_less k' k"
  "storage_key_less k k' \<Longrightarrow> storage_key_less k' k'' \<Longrightarrow> storage_key_less k k''" "\<not> storage_key_less k k"
  by (cases k; cases k'; cases k''; auto simp: storage_key_less_def)+

lemma set_btree_map_insert:
  "k \<notin> fst ` set m \<Longrightarrow> set (btree_map_insert k v m) = insert (k, v) (set m)"
  by (induction m) (auto split: if_splits)

lemma sorted_btree_map_insert:
  assumes "sorted_keys m" "k \<notin> fst ` set m"
  shows "sorted_keys (btree_map_insert k v m)"
  using assms
proof (induction m)
  case (Cons e m)
  obtain k' v' where e: "e = (k', v')" by fastforce
  have "set (map fst (btree_map_insert k v m)) = insert k (set (map fst m))"
    using Cons.prems(2) by (simp add: set_btree_map_insert)
  with Cons e show ?case
    using storage_key_order(1) [of k k'] storage_key_order(2) [of k k'] by (auto simp: sorted_keys_def)
qed (simp add: sorted_keys_def)

lemma staged_addresses:
  assumes "distinct (map (\<lambda>(a, l). key a) addresses)" "sorted_keys m"
    and "(\<lambda>(a, l). key a) ` set addresses \<inter> fst ` set m = {}"
  shows "sorted_keys (foldl (\<lambda>m (a, l). btree_map_insert (key a) (staging_new a l) m) m addresses)
    \<and> set (foldl (\<lambda>m (a, l). btree_map_insert (key a) (staging_new a l) m) m addresses)
      = set m \<union> (\<lambda>(a, l). (key a, staging_new a l)) ` set addresses"
  using assms
proof (induction addresses arbitrary: m)
  case (Cons al addresses)
  obtain a l where al: "al = (a, l)" by fastforce
  let ?m = "btree_map_insert (key a) (staging_new a l) m"
  have fresh: "key a \<notin> fst ` set m" using Cons.prems(3) al by auto
  have "fst ` set ?m = insert (key a) (fst ` set m)" by (simp add: set_btree_map_insert [OF fresh])
  then have "(\<lambda>(a, l). key a) ` set addresses \<inter> fst ` set ?m = {}"
    using Cons.prems(1,3) al by auto
  from Cons.IH [OF _ sorted_btree_map_insert [OF Cons.prems(2) fresh] this] Cons.prems(1) al
  show ?case by (auto simp: set_btree_map_insert [OF fresh])
qed simp

definition writes_to :: "storage_key \<Rightarrow> storage_log list \<Rightarrow> storage_log list" where
  "writes_to k log = filter (\<lambda>e. slog_kind e \<noteq> ReadLog \<and> slog_key e = k) log"

definition staged :: "storage_log list \<Rightarrow> balance_diff_staging \<Rightarrow> balance_diff_staging" where
  "staged ws d = (if ws = [] then d else d\<lparr>bs_before := (case bs_before d of Some v \<Rightarrow> Some v
     | None \<Rightarrow> Some (slog_previous_value (hd ws))), bs_after := Some (slog_value (last ws))\<rparr>)"

lemma stage_entries:
  "foldl (\<lambda>m e. stage_entry e m) diffs log = map (\<lambda>(k, d). (k, staged (writes_to k log) d)) diffs"
proof (induction log arbitrary: diffs)
  case Nil
  then show ?case by (simp add: writes_to_def staged_def)
next
  case (Cons e log)
  show ?case
    by (simp add: Cons.IH) (auto simp: stage_entry_def writes_to_def staged_def split: option.splits)
qed

text \<open>C24: The balance changes reported for a transaction are those of the listed accounts that are not system contracts:
  each such account whose balance was last written to a value other than the one it had before the first write is reported
  exactly once, with these two values, in the order of the storage keys, and nothing else is.\<close>

theorem balance_diffs_reported:
  assumes "distinct (map (\<lambda>(a, l). rp_balance_key rp a) addresses)"
  shows "set (extract_balance_diffs rp addresses log) =
      {\<lparr>bf_address = \<lparr>la_label = l, la_address = a\<rparr>, bf_before = slog_previous_value (hd ws), bf_after = slog_value (last ws)\<rparr> | a l ws.
        (a, l) \<in> set addresses \<and> \<not> is_system (map_of (rp_known rp)) a \<and> ws = writes_to (rp_balance_key rp a) log
        \<and> ws \<noteq> [] \<and> slog_previous_value (hd ws) \<noteq> slog_value (last ws)}
    \<and> sorted_wrt storage_key_less (map (\<lambda>d. rp_balance_key rp (la_address (bf_address d))) (extract_balance_diffs rp addresses log))"
proof -
  let ?key = "rp_balance_key rp"
  let ?m = "foldl (\<lambda>m (a, l). btree_map_insert (?key a) (staging_new a l) m) [] addresses"
  let ?keep = "\<lambda>d. bs_after d \<noteq> bs_before d \<and> \<not> is_system (map_of (rp_known rp)) (la_address (bs_address d))"
  have m: "sorted_keys ?m" "set ?m = (\<lambda>(a, l). (?key a, staging_new a l)) ` set addresses"
    using staged_addresses [OF assms, of "[]"] by (simp_all add: sorted_keys_def)
  have diffs: "extract_balance_diffs rp addresses log
      = map (staging_into \<circ> snd) (filter (?keep \<circ> snd) (map (\<lambda>(k, d). (k, staged (writes_to k log) d)) ?m))"
    by (simp add: extract_balance_diffs_def stage_entries filter_map o_def conj_commute)
  have "set (extract_balance_diffs rp addresses log) =
      {staging_into (staged (writes_to (?key a) log) (staging_new a l)) | a l. (a, l) \<in> set addresses
        \<and> ?keep (staged (writes_to (?key a) log) (staging_new a l))}"
    unfolding diffs using m(2) by force
  also have "\<dots> = {\<lparr>bf_address = \<lparr>la_label = l, la_address = a\<rparr>, bf_before = slog_previous_value (hd ws),
        bf_after = slog_value (last ws)\<rparr> | a l ws.
        (a, l) \<in> set addresses \<and> \<not> is_system (map_of (rp_known rp)) a \<and> ws = writes_to (?key a) log
        \<and> ws \<noteq> [] \<and> slog_previous_value (hd ws) \<noteq> slog_value (last ws)}"
    by (fastforce simp: staged_def staging_new_def staging_into_def split: if_splits)
  finally have "set (extract_balance_diffs rp addresses log) = \<dots>" .
  moreover have "map (\<lambda>d. ?key (la_address (bf_address d))) (extract_balance_diffs rp addresses log)
      = map fst (filter (?keep \<circ> snd) (map (\<lambda>(k, d). (k, staged (writes_to k log) d)) ?m))"
    unfolding diffs using m(2) by (auto simp: staging_into_def staged_def staging_new_def split: if_splits)
  moreover have "sorted_wrt storage_key_less (map fst (filter (?keep \<circ> snd) (map (\<lambda>(k, d). (k, staged (writes_to k log) d)) ?m)))"
    using m(1) by (simp add: sorted_keys_def sorted_wrt_map filter_map o_def case_prod_beta sorted_wrt_filter)
  ultimately show ?thesis by simp
qed

section \<open>Lemmas: the report does not disturb the node\<close>

definition said :: "string \<Rightarrow> shell \<Rightarrow> shell" where
  "said t s = (if sh_output_mode s = QuietOutput then s else s\<lparr>sh_stdout := sh_stdout s @ t\<rparr>)"

text \<open>A printer that returns, adding to the standard output only.\<close>

definition calm :: "'e printer \<Rightarrow> bool" where
  "calm p \<longleftrightarrow> (\<forall>s. \<not> sh_poisoned s \<longrightarrow> (\<exists>t. p s = (Inr (), said t s)))"

lemma said_said: "said t' (said t s) = said (t @ t') s" "sh_poisoned (said t s) = sh_poisoned s"
  by (simp_all add: said_def)

lemma calm_and: "calm p \<Longrightarrow> calm q \<Longrightarrow> calm (and_print p q)"
  unfolding calm_def and_print_def by (metis (no_types, lifting) said_said old.prod.case sum.case(2))

lemma calm_nothing: "calm print_nothing"
  by (auto simp: calm_def print_nothing_def said_def intro: exI [of _ "[]"])

lemma calm_println: "calm (sh_println (Inr t))"
  by (auto simp: calm_def sh_println_text said_def intro!: exI [of _ "t @ line_end"])

lemma calm_prints: "prints ls p \<Longrightarrow> calm (\<lambda>s. let (r, f, s) = p (f0, s) in (r, s))"
  unfolding calm_def prints_def say_def said_def by fastforce

lemma prints_open_items: "\<exists>ls. prints ls (fm_open_items paint items :: 'e fprinter)"
proof (induction items)
  case Nil
  then show ?case using prints_done by auto
next
  case (Cons kv items)
  obtain k v where kv: "kv = (k, v)" by fastforce
  from Cons.IH obtain ls where "prints ls (fm_open_items paint items :: 'e fprinter)" by blast
  from prints_then [OF prints_item [of paint False k v] this] show ?case unfolding kv fm_open_items.simps by blast
qed

lemma prints_vm_details: "\<exists>ls. prints ls (print_vm_details paint tx r :: 'e fprinter)"
proof -
  obtain ls where ls: "prints ls (fm_open_items paint
         [(''Cycles Used'', to_human_size (ucast (vr_cycles_used r))),
          (''Computation Gas Used'', to_human_size (ucast (vr_computational_gas_used r))),
          (''Contracts Used'', to_human_size (ucast (vr_contracts_used r)))] :: 'e fprinter)"
    using prints_open_items by blast
  note outcome = prints_item prints_then [OF prints_item prints_error]
  show ?thesis unfolding print_vm_details_def
    by (cases "vr_result r"; simp only: execution_result.case)
      (rule exI, rule prints_section, rule prints_then [OF ls], rule outcome)+
qed

lemma calm_vm_details: "calm (\<lambda>s. let (res, f, s) = print_vm_details paint tx r (f0, s) in (res, s))"
  using prints_vm_details calm_prints by metis

lemma prints_storage_log: "\<exists>ls. prints ls (print_storage_logs paint known dbg l info i b)"
  unfolding print_storage_logs_def Let_def by (rule exI, rule prints_section, rule prints_items) simp

lemma calm_each_log: "calm (print_each_log paint known dbg ls :: 'e printer)"
proof (induction ls)
  case Nil
  then show ?case by (auto simp: calm_def said_def intro: exI [of _ "[]"])
next
  case (Cons e ls)
  obtain l info i b where e: "e = (l, info, i, b)" by (cases e) auto
  obtain ls' where "prints ls' (print_storage_logs paint known dbg l info i b :: 'e fprinter)"
    using prints_storage_log by blast
  note first = calm_prints [OF this, of formatter_new]
  have "(print_each_log paint known dbg (e # ls) :: 'e printer) = and_print
      (\<lambda>s. let (r, f, s) = print_storage_logs paint known dbg l info i b (formatter_new, s) in (r, s)) (print_each_log paint known dbg ls)"
    by (auto simp: e and_print_def fun_eq_iff split: prod.splits sum.splits)
  then show ?case using calm_and [OF first Cons] by simp
qed

lemma calm_storage_logs: "calm (show_storage_logs_details paint pa known dbg show_logs r)"
  unfolding show_storage_logs_details_def by (intro calm_and calm_println calm_each_log)

lemma calm_details: "calm (print_details rp config r)"
  unfolding print_details_def using calm_storage_logs calm_vm_details calm_nothing
  by (intro calm_and) (simp_all only: if_split, blast+)

lemma calm_no_gas_report:
  "tn_show_gas_details config = GasDetailsNone \<Longrightarrow> calm (print_gas_report rp config boot n fees)"
  using calm_nothing by (simp add: calm_def print_gas_report_def print_nothing_def)

lemma calm_summary:
  assumes "unat (vr_gas_refunded r) \<le> unat (tx_gas_limit tx)" "unat (tx_gas_limit tx) < 2 ^ 64"
  shows "calm (print_summary rp (transaction_summary_new price tx r diffs) :: 'e printer)"
proof -
  obtain ts where ts: "transaction_summary_new price tx r diffs = (Inr ts :: ('e, transaction_summary) outcome)"
    and g: "ts_l2_gas_price ts = price" "sg_used (ts_gas ts) = tx_gas_limit tx - ucast (vr_gas_refunded r)"
      "sg_refunded (ts_gas ts) = vr_gas_refunded r"
    using assms(1) by (simp add: transaction_summary_new_def u256_sub_def word_le_nat_alt unat_ucast_u64_u256
        del: and_then_Inr_iff)
  have small: "unat (sg_used (ts_gas ts)) < 2 ^ 64"
    using assms by (simp add: g(2) unat_sub word_le_nat_alt unat_ucast_u64_u256)
  have refund: "unat (vr_gas_refunded r) < 2 ^ 64" using assms by simp
  have "unat price * n < 2 ^ 256" if "n < 2 ^ 64" for n
  proof -
    have "unat price * n \<le> 2 ^ 64 * 2 ^ 64" using unat_less_exp [of price] that by (intro mult_mono) auto
    then show ?thesis by simp
  qed
  from this [OF small] this [OF refund]
  obtain t where t: "transaction_summary_fmt rp ts = (Inr t :: ('e, string) outcome)"
    by (auto simp: transaction_summary_fmt_def g u256_mul_def checked_mul_def unat_ucast_u64_u256 Let_def
        simp del: and_then_Inr_iff)
  have "(print_summary rp (transaction_summary_new price tx r diffs) :: 'e printer) = sh_println (Inr t)"
    by (simp add: print_summary_def sh_println_def ts t)
  then show ?thesis using calm_println by metis
qed

lemma trace_report_quiet:
  "verbosity < 2 \<Longrightarrow> \<exists>known'. trace_report rp te verbosity calls r known = Inr (known', None)"
proof (cases "calls = []")
  case False
  assume "verbosity < 2"
  then have "\<not> 2 \<le> verbosity" by simp
  moreover obtain arena where "build_call_trace_arena (rp_text rp) (map_of (rp_known rp)) calls r
      = (Inr arena :: (out_of_fuel, call_trace_arena) outcome)"
    using build_lays_out by blast
  ultimately show ?thesis using False
    by (simp add: trace_report_def case_prod_beta Let_def)
qed (simp add: trace_report_def)


section \<open>Lemmas: amounts in gwei\<close>

text \<open>What \<open>format_units\<close> of \<open>alloy\<close> documents: all nine digits after the point.\<close>

definition gwei_units :: "u256 \<Rightarrow> string" where
  "gwei_units v = decimal (unat v div 10 ^ 9) @ ''.'' @ replicate (9 - length (decimal (unat v mod 10 ^ 9))) CHR ''0''
     @ decimal (unat v mod 10 ^ 9)"

lemma length_decimal_ge: "10 ^ k \<le> n \<Longrightarrow> k < length (decimal n)"
proof (induction k arbitrary: n)
  case 0
  then show ?case using decimal_not_Nil [of n] by simp
next
  case (Suc k)
  then have "10 ^ k \<le> n div 10" "\<not> n < 10" by (simp_all add: div_le_mono less_eq_div_iff_mult_less_eq)
      (metis Suc.prems le_less_trans less_le_not_le mult.commute nat_le_iff_add one_le_numeral one_le_power power_Suc mult_le_mono2 nat_mult_1_right not_less)
  with Suc.IH [of "n div 10"] show ?case by (simp add: decimal.simps [of n])
qed

text \<open>Amounts in gwei are cut to eight characters: an amount of at least 100 million gwei (a tenth of an ether)
  is shown exactly like a tenth of it, so the balance changes printed for a transfer of that size are wrong by a power of ten.\<close>

theorem gwei_amounts_cut:
  assumes "\<forall>v. rp_format_units_gwei rp v = gwei_units v" and "10 ^ 17 \<le> unat v"
  shows "format_gwei rp v = take 8 (decimal (unat v div 10 ^ 9)) @ '' gwei''
    \<and> format_gwei rp (v div 10) = format_gwei rp v
    \<and> (before < after \<and> after - before = v \<longrightarrow> compute_delta rp before after = ''+'' @ format_gwei rp (v div 10))"
proof -
  let ?n = "unat v div 10 ^ 9"
  have "10 ^ 8 \<le> ?n" using div_le_mono [OF assms(2), of "10 ^ 9"] by simp
  then have big: "\<not> ?n < 10" "10 ^ 7 \<le> ?n div 10" using div_le_mono [of "10 ^ 8" ?n 10] by simp_all
  then have long: "8 \<le> length (decimal (?n div 10))" using length_decimal_ge [OF big(2)] by simp
  have cut: "take 8 (decimal ?n) = take 8 (decimal (?n div 10))"
    using long big(1) by (subst decimal.simps) simp
  have "unat (v div 10) div 10 ^ 9 = ?n div 10" by (simp add: unat_div div_mult2_eq [symmetric] mult.commute)
  then have "format_gwei rp (v div 10) = take 8 (decimal (?n div 10)) @ '' gwei''"
    using long assms(1) by (simp add: format_gwei_def gwei_units_def)
  moreover have "8 \<le> length (decimal ?n)" using long big(1) by (subst decimal.simps) simp
  then have "format_gwei rp v = take 8 (decimal ?n) @ '' gwei''"
    using assms(1) by (simp add: format_gwei_def gwei_units_def)
  ultimately show ?thesis using cut by (auto simp: compute_delta_def)
qed

section \<open>Lemmas: every line of a report has its margin\<close>

fun lines_of :: "string \<Rightarrow> string list" where
  "lines_of [] = [[]]"
| "lines_of (c # cs) = (if c = CHR 0x0A then [] # lines_of cs else (c # hd (lines_of cs)) # tl (lines_of cs))"

lemma lines_of_not_Nil: "lines_of s \<noteq> []"
  by (cases s) auto

lemma unlines_lines_of: "unlines (lines_of s) = s @ line_end"
proof (induction s)
  case (Cons c s)
  then show ?case using lines_of_not_Nil [of s]
    by (cases "lines_of s") (auto simp: unlines_def line_end_def)
qed (simp add: unlines_def)

lemma lines_of_plain: "\<forall>l \<in> set (lines_of s). CHR 0x0A \<notin> set l"
proof (induction s)
  case (Cons c s)
  then show ?case using lines_of_not_Nil [of s] by (cases "lines_of s") auto
qed simp

lemma iw_writeln_lines:
  assumes "iw_newline w"
  shows "iw_writeln s w = w\<lparr>iw_writer := iw_writer w @ unlines (map (\<lambda>l. margin w @ l) (lines_of s))\<rparr>"
proof -
  have "iw_writeln s w = write_str (unlines (lines_of s)) w"
    by (simp add: iw_writeln_def unlines_lines_of write_str_append)
  also have "\<dots> = w\<lparr>iw_writer := iw_writer w @ unlines (map (\<lambda>l. margin w @ l) (lines_of s))\<rparr>"
    using assms indented_lines [OF lines_of_plain, of "margin w" s]
    by (simp add: write_str_eq unlines_lines_of at_line_start_def line_end_def)
  finally show ?thesis .
qed

lemma write_lines_margin:
  assumes "iw_newline w"
  shows "write_lines ts w = w\<lparr>iw_writer := iw_writer w @ unlines (map (\<lambda>l. margin w @ l) (concat (map lines_of ts)))\<rparr>"
  using assms
proof (induction ts arbitrary: w)
  case (Cons t ts)
  then show ?case using Cons.IH [of "iw_writeln t w"] by (simp add: write_lines_def iw_writeln_lines unlines_def)
qed (simp add: write_lines_def unlines_def)

text \<open>Nothing of a report is lost, and each of its lines is marked, the first ones less deeply than the rest.\<close>

theorem execution_report_margin:
  "execution_error_report rp e tx =
     unlines (map (\<lambda>l. margin_bar @ l) (lines_of (error_message_view rp e))
       @ map (\<lambda>l. ''   '' @ margin_bar @ l) (concat (map lines_of [summary_view rp e, pretty_transaction rp tx,
           causes_view rp e, description_view rp e,
           rp_paint rp [RedText] ''error:'' @ '' transaction execution halted due to the above error''])))"
proof -
  let ?w = "indenting_writer_new [] (Some margin_bar)"
  have w: "iw_newline ?w" "margin ?w = margin_bar" "iw_writer ?w = []"
    by (simp_all add: indenting_writer_new_def margin_def)
  let ?w1 = "indent (iw_writeln (error_message_view rp e) ?w)"
  have "iw_newline ?w1" "margin ?w1 = ''   '' @ margin_bar"
    "iw_writer ?w1 = unlines (map (\<lambda>l. margin_bar @ l) (lines_of (error_message_view rp e)))"
    using w by (simp_all add: iw_writeln_lines indent_def margin_def indenting_writer_new_def TABULATION_def)
  then show ?thesis
    by (simp add: execution_error_report_def Let_def write_lines_margin unlines_def o_def)
qed

section \<open>Witnesses\<close>

definition sample_report :: report_api where
  "sample_report = \<lparr>rp_paint = (\<lambda>st t. t),
     rp_terminal = \<lparr>tm_is_terminal = False, tm_warn = [], tm_error = [], tm_reset = []\<rparr>,
     rp_text = sample_text, rp_address_debug = (\<lambda>a. ''0x'' @ address_hex a), rp_tx_format_debug = (\<lambda>n. decimal (unat n)),
     rp_format_ether = (\<lambda>v. decimal (unat v)), rp_format_units_gwei = gwei_units, rp_table = (\<lambda>rows. concat (map br_delta rows)),
     rp_balance_key = (\<lambda>a. \<lparr>sk_address = 32778, sk_key = ucast a\<rparr>),
     rp_known = [(32769, \<lparr>ka_name = ''Bootloader'', ka_contract_type = System\<rparr>)],
     rp_pubdata = \<lparr>pa_system_context_address = 32779, pa_bootloader_balance_key = \<lparr>sk_address = 32778, sk_key = 32769\<rparr>,
       pa_compressed_len = (\<lambda>a b. 32), pa_bytes_per_derived_key = 32, pa_bytes_per_enumeration_index = 4\<rparr>,
     rp_documentation = (\<lambda>e. None)\<rparr>"

definition balance_write :: "address \<Rightarrow> u256 \<Rightarrow> u256 \<Rightarrow> storage_log" where
  "balance_write a before after = \<lparr>slog_kind = RepeatedWrite, slog_key = rp_balance_key sample_report a,
     slog_value = after, slog_previous_value = before\<rparr>"

text \<open>The sender pays twice, the receiver gets one payment, and the bootloader the fee.\<close>

definition sample_log :: "storage_log list" where
  "sample_log = [balance_write 1 100 90, balance_write 32769 0 10, balance_write 1 90 60, balance_write 2 5 35]"

lemma sample_writes [simp]:
  "writes_to (rp_balance_key sample_report 1) sample_log = [balance_write 1 100 90, balance_write 1 90 60]"
  "writes_to (rp_balance_key sample_report 2) sample_log = [balance_write 2 5 35]"
  by (simp_all add: writes_to_def sample_log_def balance_write_def sample_report_def)

theorem balance_diffs_reported_witness:
  "\<lparr>bf_address = \<lparr>la_label = Some ''sender'', la_address = 1\<rparr>, bf_before = 100, bf_after = 60\<rparr>
     \<in> set (extract_balance_diffs sample_report [(2, None), (1, Some ''sender''), (32769, None), (3, None)] sample_log)"
proof -
  let ?addresses = "[(2, None), (1, Some ''sender''), (32769, None), (3, None)] :: address_labels"
  have "distinct (map (\<lambda>(a, l). rp_balance_key sample_report a) ?addresses)"
    by (simp add: sample_report_def)
  note all = balance_diffs_reported [OF this, of sample_log, THEN conjunct1]
  have "\<not> is_system (map_of (rp_known sample_report)) 1" by (simp add: is_system_def sample_report_def)
  then show ?thesis unfolding all mem_Collect_eq
    by (intro exI [of _ 1] exI [of _ "Some ''sender''"] exI [of _ "writes_to (rp_balance_key sample_report 1) sample_log"])
      (simp add: balance_write_def)
qed

theorem gwei_amounts_cut_witness:
  "format_gwei sample_report (10 ^ 18) = format_gwei sample_report (10 ^ 17)
    \<and> compute_delta sample_report 0 (10 ^ 18) = ''+'' @ format_gwei sample_report (10 ^ 17)"
  using gwei_amounts_cut [of sample_report "10 ^ 18" 0 "10 ^ 18"] by (simp add: sample_report_def)


end
