(* ===== verification/Spec2Isabelle.thy ===== *)
theory Spec2Isabelle
  imports Rpc_Server Cli_Start Tx_Report
begin

text \<open>
  \<^bold>\<open>A verification library for anvil-zksync\<close>

  anvil-zksync is a local ZKsync node: it accepts transactions over JSON-RPC, executes them in a virtual
  machine and seals them into batches and blocks kept in memory, optionally on top of a forked
  remote chain. The library models the node's own state and the operations on it.

  \<^bold>\<open>How the program works.\<close> A transaction enters the pool (\<open>pool.rs\<close>). The block sealer (\<open>sealer.rs\<close>)
  polls the pool, in immediate or fixed-time mode, and takes a uniform batch: all impersonated or none. The executor
  runs the batch in the VM, on a view of the storage, and \<open>seal_block\<close> applies the result: the chain (\<open>blockchain.rs\<close>)
  gets a batch and one or two blocks stamped by the clock (\<open>time.rs\<close>), the storage (\<open>fork_storage.rs\<close>) gets
  the writes, the state before is archived for historical reads, and the filters (\<open>filters.rs\<close>) are told. Reads of
  storage that was never written locally go to the fork (\<open>fork.rs\<close>), through a cache (\<open>cache.rs\<close>). Requests arrive at a JSON-RPC
  server (\<open>api_server\<close>), whose namespaces call the methods of the node. A sidecar (\<open>l1_sidecar\<close>) watches an L1 chain for priority requests, which it
  submits to the pool, and commits, proves and executes the batches there. The program (\<open>cli\<close>) reads its options, makes the node and its
  accounts and starts the servers. While a transaction runs, its calls are decoded and printed with its gas, its events and the balances it
  changed (\<open>traces\<close>, \<open>formatter\<close>).

  \<^bold>\<open>Theories.\<close> Paths are under \<open>src/crates/core/src/\<close> unless they start with another crate.

  \<^item> \<open>Prelude\<close>: outcomes (\<open>Err\<close> for an error value, \<open>Panic\<close> for an abort), saturating, checked and
    overflowing word arithmetic, conversions that panic, lemmas on words and lists.
  \<^item> \<open>Chain_Types\<close>: transactions, receipts, logs, API transactions and blocks, block identifiers.
  \<^item> \<open>Node_Time\<close>: \<open>node/inner/time.rs\<close>. The clock never goes back or stands still in reachable states, unless it saturates.
  \<^item> \<open>Impersonation\<close>: \<open>node/impersonate.rs\<close>.
  \<^item> \<open>Tx_Pool\<close>: \<open>node/pool.rs\<close>. The queue order, what \<open>take_uniform\<close> takes, that submission loses and
    invents nothing.
  \<^item> \<open>Block_Sealer\<close>: \<open>node/sealer.rs\<close>. Polls as a sequence of steps interleaved with pool operations: the immediate sealer
    drains the pool, no transaction is lost or sealed twice, and a poll sleeps only on an empty pool.
  \<^item> \<open>Eth_Filters\<close>: \<open>filters.rs\<close>. Every announcement is delivered exactly once; the topic matching loop computes
    its specification.
  \<^item> \<open>Fee_Model\<close>: \<open>node/fee_model.rs\<close>. Price conversion and the forced base fee.
  \<^item> \<open>Vm_Types\<close>: the batch environment and results exchanged with the VM.
  \<^item> \<open>Blockchain_State\<close>: \<open>node/inner/blockchain.rs\<close>. The predicate \<open>represents\<close> relates the tables to an abstract chain of
    blocks; \<open>apply_block\<close> refines appending a block, and every lookup finds the block of that chain.
  \<^item> \<open>Fork_Storage\<close>: \<open>node/inner/fork_storage.rs\<close>, \<open>deps/mod.rs\<close>. The locale \<open>key_value_storage\<close> states what
    its clients rely on and is interpreted on the read-through storage.
  \<^item> \<open>Fork_Cache\<close>: \<open>common/src/cache.rs\<close>. The in-memory tables and the directory behind them.
  \<^item> \<open>Fork_Client\<close>: \<open>node/inner/fork.rs\<close>. Creating a client at a block, at the tip or before a transaction, and the cached
    calls, which answer as the remote chain.
  \<^item> \<open>Node_Inner\<close>: \<open>node/inner/in_memory_inner.rs\<close> without gas estimation, \<open>node/inner/mod.rs\<close>, \<open>node/keys.rs\<close>,
    \<open>node/state.rs\<close>. Sealing extends the chain, historical reads, snapshots, dumps, reset.
  \<^item> \<open>System_Contracts\<close>: \<open>system_contracts.rs\<close>. Which bootloader an execution mode gets.
  \<^item> \<open>Vm_Output\<close>: \<open>utils.rs\<close>, \<open>node/storage_logs.rs\<close>, \<open>formatter/pubdata_bytes.rs\<close>: what is made of the result of a transaction.
  \<^item> \<open>Gas_Estimation\<close>: the gas estimation of \<open>in_memory_inner.rs\<close>. The binary search ends and is nearly minimal; a returned
    estimate was confirmed by a run.
  \<^item> \<open>Batch_Executor\<close>: \<open>node/batch/factory.rs\<close>, \<open>node/batch/executor.rs\<close>. Commands to the machine and its snapshots.
  \<^item> \<open>Vm_Runner\<close>: \<open>node/inner/vm_runner.rs\<close>. A batch of transactions: atomicity, receipts, the blocks it makes.
  \<^item> \<open>Node_Executor\<close>: \<open>node/inner/node_executor.rs\<close>. The task that changes the node, one command at a time: it refines a
    sequential machine; what ends it and what makes it wait forever.
  \<^item> \<open>Node_Ext\<close>: \<open>node/in_memory_ext.rs\<close> and \<open>node/in_memory.rs\<close>. The node as its callers see it, with snapshots, mining and
    replay, and the whole node as a state machine with its invariants.
  \<^item> \<open>State_Override\<close>: \<open>node/state_override.rs\<close>. What an override of a call changes and what it leaves.
  \<^item> \<open>Eth_Api\<close>: \<open>node/eth.rs\<close>. Calls change nothing, what is submitted enters the pool, accounts read back what was set, the
    stored filters are well-formed, the shape of blocks and fee histories.
  \<^item> \<open>Zks_Api\<close>: \<open>node/zks.rs\<close>, \<open>node/debug.rs\<close>. Proofs of logs verify; transactions and traces of a block; balances.

  \<^item> \<open>Observability\<close>: \<open>observability.rs\<close>. The log filter and its switches: the filter is off or that of the last directives, and setting a level
    leaves it out after the last name.
  \<^item> \<open>Rpc_Methods\<close>: \<open>api_server/src/impls/\<close>, \<open>api_decl/src/namespaces/\<close>. Every method of every namespace: its names, its answer, its error
    and its effect.
  \<^item> \<open>Rpc_Server\<close>: \<open>api_server/src/server.rs\<close>. No two methods share a name. A request is one step of the node's state machine, one operation on
    its filters, at most one submission, or changes nothing but caches; the invariant of the node holds after any requests, and
    telemetry is told of exactly the \<open>anvil_\<close> and \<open>config_\<close> names. The locale \<open>observed_machine\<close> is what the server needs of a node.
  \<^item> \<open>L1_Batches\<close>: \<open>l1_sidecar/src/commitment_generator.rs\<close>, \<open>contracts/\<close>. The metadata of a batch, and the calls that commit, prove and execute it.
  \<^item> \<open>L1_Sidecar\<close>: \<open>l1_sidecar/src/\<close>. The watcher submits every priority request once and in order; the automatic executor takes batches in order;
    which operations an execution presents.
  \<^item> \<open>Node_Config\<close>: \<open>config/src/\<close>, option types of \<open>types/src/\<close>. The configuration, its setters, the account generator.
  \<^item> \<open>Cli_Options\<close>: \<open>cli/src/cli.rs\<close>, \<open>utils.rs\<close>. From arguments to a configuration; telemetry reveals only public choices.
  \<^item> \<open>Cli_Start\<close>: \<open>cli/src/main.rs\<close>, \<open>bytecode_override.rs\<close>. The steps up to serving: which node is served, and options that have no effect.
  \<^item> \<open>Trace_Values\<close>, \<open>Call_Traces\<close>: \<open>types/src/traces.rs\<close>, \<open>numbers.rs\<close>, \<open>traces/src/\<close>. Values and their text; the arena of calls, built, filtered and
    written, refines the forest of calls.
  \<^item> \<open>Selector_Resolver\<close>: \<open>common/src/resolver.rs\<close>, \<open>traces/src/identifier/\<close>. Selectors are looked up once; the cache answers as the database.
  \<^item> \<open>Trace_Decoder\<close>: \<open>traces/src/decode/\<close>. Decoding names, arguments and events; the printed text is that of the decoded and pruned forest.
  \<^item> \<open>Node_Errors\<close>: \<open>zksync_error/src/\<close>, \<open>node/error.rs\<close>, \<open>api_server/src/error.rs\<close>. Codes, messages and RPC answers of errors; an error can be identified
    from its number and from its message.
  \<^item> \<open>Shell_Output\<close>: \<open>common/src/shell.rs\<close>, \<open>formatter/util/indenting_writer.rs\<close>, \<open>formatter/log.rs\<close>. The shell and its lock; the indenting writer equals
    a reference on the whole text; printing with scopes.
  \<^item> \<open>Gas_Details\<close>: \<open>bootloader_debug.rs\<close>, \<open>formatter/log.rs\<close>. The bootloader's figures and their printed tree, with exactly when printing panics.
  \<^item> \<open>Tx_Report\<close>: \<open>node/diagnostics/\<close>, \<open>formatter/transaction/\<close>, \<open>formatter/errors/\<close>, \<open>node/inner/vm_runner.rs\<close>. The report of a transaction: it returns, and
    its balance changes are those of the storage log.

  \<^bold>\<open>Conventions.\<close> Machine integers are words of their width; \<open>H256\<close> and \<open>U256\<close> are 256-bit words and
  addresses 160-bit words. A hash map whose order the code does not observe is a partial map; where the code iterates
  it is an association list. State behind a lock is a field of the state record and each critical section is one
  function. Panics are results, so a theorem that a function returns \<open>Inr\<close> also shows that it does not panic.
  Code of other crates (VM, hashes, key derivation, JSON-RPC client, bloom filters) appears as
  the record parameters \<open>chain_api\<close>, \<open>fee_api\<close>, \<open>node_api\<close>, \<open>gas_api\<close>, \<open>batch_vm\<close>, \<open>l2_client\<close>, \<open>overrides_api\<close>, \<open>eth_api\<close>, \<open>zks_api\<close>,
  \<open>ext_api\<close>, \<open>l1_api\<close>, \<open>wallet_api\<close>, \<open>start_env\<close>, \<open>text_api\<close>, \<open>abi_api\<close>, \<open>resolver_env\<close>, \<open>report_api\<close>, \<open>rpc_text\<close>, \<open>log_api\<close>; \<open>server_env\<close> collects them;
  what a theorem needs of them is
  among its hypotheses. Floating-point numbers of the fee model are opaque values with their operations in \<open>fee_api\<close>.
  Two kinds of loop do not end by structure. A poll of the immediate sealer gets a finite list of what arrives between its iterations, and the
  length of the list bounds them. The readers of the arena of calls follow indices and take fuel; one more than the number of
  calls is enough, which \<open>traces_output_forest\<close> shows by never running out.

  \<^bold>\<open>Not modelled.\<close> The virtual machine and the tracers inside it, with the call error tracer, whose state is that machine's; BoojumOS, whose
  functions are \<open>todo\<close> stubs in the code; the JSON and HTTP layers of the server library and the scheduling of requests; starting an L1
  process, the periodic state dumper and the tasks that run the servers, which are I/O around modelled operations; the bindings of the
  console contract and the other generated code; events written to logs; the errors of other tools in \<open>zksync_error\<close> and their documentation
  files; tests and their support. Bodies that print by another crate's formatting use its text as a parameter.
\<close>

end
